(* ===== verification/Prelude.thy ===== *)
theory Prelude
  imports Main "HOL-Library.Word" "HOL-Library.Char_ord" "HOL-Library.List_Lexorder"
    "HOL-Library.Multiset"
begin

section \<open>Shared vocabulary of the model\<close>

text \<open>
  What every component of the operator shares: Go errors as values, the outcome of a Go call
  (a value, an error or a run-time panic), state-passing actions over an abstract world, the
  loop combinator, and the frame predicates (\<open>keeps\<close>, \<open>no_panic\<close>) with the introduction rules
  that carry the frame proofs of the components.
\<close>

text \<open>Object keys are pairs that no proof takes apart: quantifiers over them stay as they are.\<close>

declare split_paired_All [simp del] split_paired_Ex [simp del]

named_theorems keeps_intros \<open>rules that show that an action leaves an observation unchanged\<close>
named_theorems preserves_intros \<open>rules that show that an action preserves an invariant\<close>
named_theorems safe_intros \<open>rules that show that an action does not panic\<close>
named_theorems act_simps \<open>equivalences that take a finished run of an action apart\<close>

subsection \<open>Strings and numbers as Go prints them\<close>

type_synonym i32 = "32 word"

definition digit_char :: "nat \<Rightarrow> char" where
  "digit_char d = (''0123456789'' ! (d mod 10))"

fun show_nat :: "nat \<Rightarrow> string" where
  "show_nat n = (if n < 10 then [digit_char n] else show_nat (n div 10) @ [digit_char (n mod 10)])"

declare show_nat.simps [simp del]

definition show_int :: "int \<Rightarrow> string" where
  "show_int i = (if i < 0 then ''-'' @ show_nat (nat (- i)) else show_nat (nat i))"

definition hex_char :: "nat \<Rightarrow> char" where
  "hex_char d = (''0123456789abcdef'' ! (d mod 16))"

text \<open>
  The verb \<open>%q\<close> of package \<open>fmt\<close>, on bytes: the escapes of Go string literals for the ASCII
  range. Bytes from 128 on are kept (Go keeps the printable runes they encode).
\<close>

definition quote_char :: "char \<Rightarrow> string" where
  "quote_char c =
     (let n = of_char c :: nat in
      if n = 34 then [CHR 0x5C, CHR 0x22]
      else if n = 92 then [CHR 0x5C, CHR 0x5C]
      else if n = 7 then [CHR 0x5C, CHR ''a'']
      else if n = 8 then [CHR 0x5C, CHR ''b'']
      else if n = 12 then [CHR 0x5C, CHR ''f'']
      else if n = 10 then [CHR 0x5C, CHR ''n'']
      else if n = 13 then [CHR 0x5C, CHR ''r'']
      else if n = 9 then [CHR 0x5C, CHR ''t'']
      else if n = 11 then [CHR 0x5C, CHR ''v'']
      else if n < 32 \<or> n = 127 then [CHR 0x5C, CHR ''x'', hex_char (n div 16), hex_char (n mod 16)]
      else [c])"

definition go_quote :: "string \<Rightarrow> string" where
  "go_quote s = [CHR 0x22] @ concat (map quote_char s) @ [CHR 0x22]"

definition has_substring :: "string \<Rightarrow> string \<Rightarrow> bool" where
  "has_substring s t = (\<exists>i \<in> set [0..<Suc (length s)]. take (length t) (drop i s) = t)"

lemma has_substring_iff: "has_substring s t \<longleftrightarrow> (\<exists>u v. s = u @ t @ v)"
proof
  assume "has_substring s t"
  then obtain i where "take (length t) (drop i s) = t"
    by (auto simp: has_substring_def simp del: upt_Suc)
  then have "s = take i s @ t @ drop (length t) (drop i s)"
    by (metis append_take_drop_id)
  then show "\<exists>u v. s = u @ t @ v" by blast
next
  assume "\<exists>u v. s = u @ t @ v"
  then obtain u v where "s = u @ t @ v" by blast
  then show "has_substring s t"
    unfolding has_substring_def by (intro bexI [of _ "length u"]) auto
qed

subsection \<open>Errors\<close>

text \<open>
  An error of the operator itself (\<open>fmt.Errorf\<close> without a wrapped error), one that wraps another
  one between two pieces of text (\<open>fmt.Errorf("pre: %w post")\<close>, \<open>errors.Wrap\<close>), a status error of
  the API server with its reason, and an error of another library with its text.
\<close>

datatype go_error =
    Errorf string
  | Wrapped string go_error string
  | StatusError string string
  | ExtError string

primrec error_text :: "go_error \<Rightarrow> string" where
  "error_text (Errorf s) = s"
| "error_text (Wrapped pre e post) = pre @ '': '' @ error_text e @ post"
| "error_text (StatusError reason s) = s"
| "error_text (ExtError s) = s"

subsection \<open>Actions\<close>

datatype 'a res = Ret 'a | Fail go_error | Panic string

type_synonym ('w, 'a) act = "'w \<Rightarrow> 'a res \<times> 'w"

text \<open>A call into code outside the repository: it returns a value or an error, never panics.\<close>

type_synonym ('w, 'a) ext = "'w \<Rightarrow> (go_error + 'a) \<times> 'w"

definition retA :: "'a \<Rightarrow> ('w, 'a) act" where
  "retA a = (\<lambda>w. (Ret a, w))"

definition failA :: "go_error \<Rightarrow> ('w, 'a) act" where
  "failA e = (\<lambda>w. (Fail e, w))"

definition panicA :: "string \<Rightarrow> ('w, 'a) act" where
  "panicA s = (\<lambda>w. (Panic s, w))"

definition bindA :: "('w, 'a) act \<Rightarrow> ('a \<Rightarrow> ('w, 'b) act) \<Rightarrow> ('w, 'b) act" where
  "bindA m f = (\<lambda>w. case m w of
       (Ret a, w') \<Rightarrow> f a w'
     | (Fail e, w') \<Rightarrow> (Fail e, w')
     | (Panic s, w') \<Rightarrow> (Panic s, w'))"

text \<open>\<open>x, err := m()\<close> followed by a look at the error: \<open>h err\<close> when there is one, else \<open>k x\<close>.\<close>

definition tryA :: "('w, 'a) act \<Rightarrow> (go_error \<Rightarrow> ('w, 'b) act) \<Rightarrow> ('a \<Rightarrow> ('w, 'b) act) \<Rightarrow> ('w, 'b) act" where
  "tryA m h k = (\<lambda>w. case m w of
       (Ret a, w') \<Rightarrow> k a w'
     | (Fail e, w') \<Rightarrow> h e w'
     | (Panic s, w') \<Rightarrow> (Panic s, w'))"

definition callA :: "('w, 'a) ext \<Rightarrow> ('w, 'a) act" where
  "callA op = (\<lambda>w. case op w of
       (Inl e, w') \<Rightarrow> (Fail e, w')
     | (Inr a, w') \<Rightarrow> (Ret a, w'))"

definition liftA :: "go_error + 'a \<Rightarrow> ('w, 'a) act" where
  "liftA r = (case r of Inl e \<Rightarrow> failA e | Inr a \<Rightarrow> retA a)"

text \<open>Reading through a pointer: dereferencing nil is a run-time panic.\<close>

definition derefA :: "string \<Rightarrow> 'a option \<Rightarrow> ('w, 'a) act" where
  "derefA what p = (case p of None \<Rightarrow> panicA what | Some a \<Rightarrow> retA a)"

text \<open>\<open>m\<close> with the errors it returns wrapped: \<open>return fmt.Errorf("pre: %w", err)\<close>.\<close>

definition wrapA :: "string \<Rightarrow> ('w, 'a) act \<Rightarrow> ('w, 'a) act" where
  "wrapA pre m = (\<lambda>w. case m w of
       (Ret a, w') \<Rightarrow> (Ret a, w')
     | (Fail e, w') \<Rightarrow> (Fail (Wrapped pre e ''''), w')
     | (Panic s, w') \<Rightarrow> (Panic s, w'))"

text \<open>A \<open>for ... range\<close> loop whose body may return early with an error, with loop variables \<open>s\<close>.\<close>

primrec foldA :: "('a \<Rightarrow> 's \<Rightarrow> ('w, 's) act) \<Rightarrow> 'a list \<Rightarrow> 's \<Rightarrow> ('w, 's) act" where
  "foldA f [] s = retA s"
| "foldA f (x # xs) s = bindA (f x s) (foldA f xs)"

primrec forA :: "('a \<Rightarrow> ('w, unit) act) \<Rightarrow> 'a list \<Rightarrow> ('w, unit) act" where
  "forA f [] = retA ()"
| "forA f (x # xs) = bindA (f x) (\<lambda>_. forA f xs)"

subsection \<open>Taking a finished run apart\<close>

lemma retA_simps [simp]:
  "retA a w = (r, w') \<longleftrightarrow> r = Ret a \<and> w' = w"
  by (auto simp: retA_def)

lemma failA_simps [simp]: "failA e w = (r, w') \<longleftrightarrow> r = Fail e \<and> w' = w"
  by (auto simp: failA_def)

lemma panicA_simps [simp]: "panicA s w = (r, w') \<longleftrightarrow> r = Panic s \<and> w' = w"
  by (auto simp: panicA_def)

lemma bindA_retA [simp]: "bindA (retA a) f = f a"
  by (simp add: bindA_def retA_def)

lemma bindA_failA [simp]: "bindA (failA e) f = failA e"
  by (simp add: bindA_def failA_def)

lemma bindA_panicA [simp]: "bindA (panicA s) f = panicA s"
  by (simp add: bindA_def panicA_def)

lemma bindA_assoc: "bindA (bindA m f) g = bindA m (\<lambda>a. bindA (f a) g)"
  by (auto simp: bindA_def fun_eq_iff split: prod.splits res.splits)

lemma bindA_Ret [act_simps]:
  "bindA m f w = (Ret b, w') \<longleftrightarrow> (\<exists>a w1. m w = (Ret a, w1) \<and> f a w1 = (Ret b, w'))"
  by (auto simp: bindA_def split: prod.splits res.splits)

lemma bindA_Fail [act_simps]:
  "bindA m f w = (Fail e, w') \<longleftrightarrow>
     m w = (Fail e, w') \<or> (\<exists>a w1. m w = (Ret a, w1) \<and> f a w1 = (Fail e, w'))"
  by (auto simp: bindA_def split: prod.splits res.splits)

lemma bindA_Panic [act_simps]:
  "bindA m f w = (Panic s, w') \<longleftrightarrow>
     m w = (Panic s, w') \<or> (\<exists>a w1. m w = (Ret a, w1) \<and> f a w1 = (Panic s, w'))"
  by (auto simp: bindA_def split: prod.splits res.splits)

lemma tryA_act [act_simps]:
  "tryA m h k w = (r, w') \<longleftrightarrow>
     (\<exists>a w1. m w = (Ret a, w1) \<and> k a w1 = (r, w')) \<or>
     (\<exists>e w1. m w = (Fail e, w1) \<and> h e w1 = (r, w')) \<or>
     (\<exists>s. m w = (Panic s, w') \<and> r = Panic s)"
  by (auto simp: tryA_def split: prod.splits res.splits)

lemma tryA_simps [simp]:
  "tryA (retA a) h k = k a"
  "tryA (failA e) h k = h e"
  "tryA (panicA s) h k = panicA s"
  by (simp_all add: tryA_def retA_def failA_def panicA_def)

lemma callA_act [act_simps]:
  "callA op w = (Ret a, w') \<longleftrightarrow> op w = (Inr a, w')"
  "callA op w = (Fail e, w') \<longleftrightarrow> op w = (Inl e, w')"
  "callA op w = (Panic s, w') \<longleftrightarrow> False"
  by (auto simp: callA_def split: prod.splits sum.splits)

lemma wrapA_act [act_simps]:
  "wrapA pre m w = (Ret a, w') \<longleftrightarrow> m w = (Ret a, w')"
  "wrapA pre m w = (Fail e, w') \<longleftrightarrow> (\<exists>e'. m w = (Fail e', w') \<and> e = Wrapped pre e' '''')"
  "wrapA pre m w = (Panic s, w') \<longleftrightarrow> m w = (Panic s, w')"
  by (auto simp: wrapA_def split: prod.splits res.splits)

lemma wrapA_simps [simp]:
  "wrapA pre (retA a) = retA a"
  "wrapA pre (failA e) = failA (Wrapped pre e '''')"
  "wrapA pre (panicA s) = panicA s"
  by (simp_all add: wrapA_def retA_def failA_def panicA_def)

lemma liftA_act [act_simps]:
  "liftA r w = (Ret a, w') \<longleftrightarrow> r = Inr a \<and> w' = w"
  "liftA r w = (Fail e, w') \<longleftrightarrow> r = Inl e \<and> w' = w"
  "liftA r w = (Panic s, w') \<longleftrightarrow> False"
  by (auto simp: liftA_def split: sum.splits)

lemma derefA_act [act_simps]:
  "derefA s p w = (Ret a, w') \<longleftrightarrow> p = Some a \<and> w' = w"
  "derefA s p w = (Fail e, w') \<longleftrightarrow> False"
  "derefA s p w = (Panic t, w') \<longleftrightarrow> p = None \<and> t = s \<and> w' = w"
  by (auto simp: derefA_def split: option.splits)

lemma derefA_simps [simp]:
  "derefA s (Some a) = retA a"
  "derefA s None = panicA s"
  by (simp_all add: derefA_def)

lemma liftA_simps [simp]:
  "liftA (Inr a) = retA a"
  "liftA (Inl e) = failA e"
  by (simp_all add: liftA_def)

subsection \<open>Frames and absence of panics\<close>

definition keeps :: "('w \<Rightarrow> 'b) \<Rightarrow> ('w, 'a) act \<Rightarrow> bool" where
  "keeps g m \<longleftrightarrow> (\<forall>w. g (snd (m w)) = g w)"

definition no_panic :: "('w, 'a) act \<Rightarrow> bool" where
  "no_panic m \<longleftrightarrow> (\<forall>w s. fst (m w) \<noteq> Panic s)"

lemma keepsD: "keeps g m \<Longrightarrow> m w = (r, w') \<Longrightarrow> g w' = g w"
  by (metis keeps_def snd_conv)

lemma no_panicD: "no_panic m \<Longrightarrow> m w = (Panic s, w') \<Longrightarrow> False"
  by (metis no_panic_def fst_conv)

lemma keeps_retA [keeps_intros]: "keeps g (retA a)"
  by (simp add: keeps_def retA_def)

lemma keeps_failA [keeps_intros]: "keeps g (failA a)"
  by (simp add: keeps_def failA_def)

lemma keeps_panicA [keeps_intros]: "keeps g (panicA a)"
  by (simp add: keeps_def panicA_def)

lemma keeps_bindA [keeps_intros]:
  "keeps g m \<Longrightarrow> (\<And>a. keeps g (f a)) \<Longrightarrow> keeps g (bindA m f)"
  unfolding keeps_def bindA_def
  by (auto split: prod.splits res.splits) (metis snd_conv)+

lemma keeps_tryA [keeps_intros]:
  "keeps g m \<Longrightarrow> (\<And>e. keeps g (h e)) \<Longrightarrow> (\<And>a. keeps g (k a)) \<Longrightarrow> keeps g (tryA m h k)"
  unfolding keeps_def tryA_def by (auto split: prod.splits res.splits) (metis snd_conv)+

lemma keeps_wrapA [keeps_intros]: "keeps g m \<Longrightarrow> keeps g (wrapA s m)"
  unfolding keeps_def wrapA_def by (auto split: prod.splits res.splits) (metis snd_conv)+

lemma keeps_liftA [keeps_intros]: "keeps g (liftA r)"
  by (auto simp: liftA_def keeps_def retA_def failA_def split: sum.splits)

lemma keeps_derefA [keeps_intros]: "keeps g (derefA s p)"
  by (auto simp: derefA_def keeps_def retA_def panicA_def split: option.splits)

lemma keeps_callA: "(\<And>w. g (snd (op w)) = g w) \<Longrightarrow> keeps g (callA op)"
  unfolding keeps_def callA_def by (auto split: prod.splits sum.splits) (metis snd_conv)+

lemma keeps_callAD: "keeps g (callA op) \<Longrightarrow> op w = (r, w') \<Longrightarrow> g w' = g w"
  unfolding keeps_def callA_def by (cases r) (auto dest!: spec [of _ w])

lemma keeps_case_bool [keeps_intros]:
  "(b \<Longrightarrow> keeps g m) \<Longrightarrow> (\<not> b \<Longrightarrow> keeps g n) \<Longrightarrow> keeps g (case b of True \<Rightarrow> m | False \<Rightarrow> n)"
  by (cases b) auto

lemma no_panic_case_bool [safe_intros]:
  "(b \<Longrightarrow> no_panic m) \<Longrightarrow> (\<not> b \<Longrightarrow> no_panic n) \<Longrightarrow> no_panic (case b of True \<Rightarrow> m | False \<Rightarrow> n)"
  by (cases b) auto

lemma keeps_foldA [keeps_intros]:
  "(\<And>x s. x \<in> set xs \<Longrightarrow> keeps g (f x s)) \<Longrightarrow> keeps g (foldA f xs s)"
  by (induction xs arbitrary: s) (auto intro!: keeps_intros)

lemma keeps_forA [keeps_intros]:
  "(\<And>x. x \<in> set xs \<Longrightarrow> keeps g (f x)) \<Longrightarrow> keeps g (forA f xs)"
  by (induction xs) (auto intro!: keeps_intros)

lemma keeps_if [keeps_intros]:
  "(b \<Longrightarrow> keeps g m) \<Longrightarrow> (\<not> b \<Longrightarrow> keeps g n) \<Longrightarrow> keeps g (if b then m else n)"
  by simp

lemma keeps_case_sum [keeps_intros]:
  "(\<And>e. r = Inl e \<Longrightarrow> keeps g (f e)) \<Longrightarrow> (\<And>a. r = Inr a \<Longrightarrow> keeps g (h a)) \<Longrightarrow>
   keeps g (case r of Inl e \<Rightarrow> f e | Inr a \<Rightarrow> h a)"
  by (cases r) auto

lemma keeps_case_option [keeps_intros]:
  "(r = None \<Longrightarrow> keeps g m) \<Longrightarrow> (\<And>a. r = Some a \<Longrightarrow> keeps g (h a)) \<Longrightarrow>
   keeps g (case r of None \<Rightarrow> m | Some a \<Rightarrow> h a)"
  by (cases r) auto

lemma keeps_case_prod [keeps_intros]:
  "(\<And>a b. p = (a, b) \<Longrightarrow> keeps g (f a b)) \<Longrightarrow> keeps g (case p of (a, b) \<Rightarrow> f a b)"
  by (cases p) simp

lemma no_panic_case_prod [safe_intros]:
  "(\<And>a b. p = (a, b) \<Longrightarrow> no_panic (f a b)) \<Longrightarrow> no_panic (case p of (a, b) \<Rightarrow> f a b)"
  by (cases p) simp

lemma no_panic_retA [safe_intros]: "no_panic (retA a)"
  by (simp add: no_panic_def retA_def)

lemma no_panic_failA [safe_intros]: "no_panic (failA a)"
  by (simp add: no_panic_def failA_def)

lemma no_panic_bindA [safe_intros]:
  "no_panic m \<Longrightarrow> (\<And>a. no_panic (f a)) \<Longrightarrow> no_panic (bindA m f)"
  unfolding no_panic_def bindA_def
  by (auto split: prod.splits res.splits) (metis fst_conv)+

lemma no_panic_tryA [safe_intros]:
  "no_panic m \<Longrightarrow> (\<And>e. no_panic (h e)) \<Longrightarrow> (\<And>a. no_panic (k a)) \<Longrightarrow> no_panic (tryA m h k)"
  unfolding no_panic_def tryA_def by (auto split: prod.splits res.splits) (metis fst_conv)+

lemma no_panic_wrapA [safe_intros]: "no_panic m \<Longrightarrow> no_panic (wrapA s m)"
  unfolding no_panic_def wrapA_def by (auto split: prod.splits res.splits) (metis fst_conv)+

lemma no_panic_callA [safe_intros]: "no_panic (callA op)"
  unfolding no_panic_def callA_def by (auto split: prod.splits sum.splits)

lemma no_panic_liftA [safe_intros]: "no_panic (liftA r)"
  by (auto simp: liftA_def no_panic_def retA_def failA_def split: sum.splits)

lemma no_panic_derefA: "p \<noteq> None \<Longrightarrow> no_panic (derefA s p)"
  by (auto simp: no_panic_def retA_def)

lemma no_panic_foldA [safe_intros]:
  "(\<And>x s. x \<in> set xs \<Longrightarrow> no_panic (f x s)) \<Longrightarrow> no_panic (foldA f xs s)"
  by (induction xs arbitrary: s) (auto intro!: safe_intros)

lemma no_panic_forA [safe_intros]:
  "(\<And>x. x \<in> set xs \<Longrightarrow> no_panic (f x)) \<Longrightarrow> no_panic (forA f xs)"
  by (induction xs) (auto intro!: safe_intros)

lemma no_panic_if [safe_intros]:
  "(b \<Longrightarrow> no_panic m) \<Longrightarrow> (\<not> b \<Longrightarrow> no_panic n) \<Longrightarrow> no_panic (if b then m else n)"
  by simp

lemma no_panic_case_sum [safe_intros]:
  "(\<And>e. r = Inl e \<Longrightarrow> no_panic (f e)) \<Longrightarrow> (\<And>a. r = Inr a \<Longrightarrow> no_panic (h a)) \<Longrightarrow>
   no_panic (case r of Inl e \<Rightarrow> f e | Inr a \<Rightarrow> h a)"
  by (cases r) auto

lemma no_panic_case_option [safe_intros]:
  "(r = None \<Longrightarrow> no_panic m) \<Longrightarrow> (\<And>a. r = Some a \<Longrightarrow> no_panic (h a)) \<Longrightarrow>
   no_panic (case r of None \<Rightarrow> m | Some a \<Rightarrow> h a)"
  by (cases r) auto

text \<open>An action takes an observation from one value to another only along a preorder.\<close>

definition moves :: "('b \<Rightarrow> 'b \<Rightarrow> bool) \<Rightarrow> ('w \<Rightarrow> 'b) \<Rightarrow> ('w, 'a) act \<Rightarrow> bool" where
  "moves P g m \<longleftrightarrow> (\<forall>w. P (g w) (g (snd (m w))))"

lemma movesD: "moves P g m \<Longrightarrow> m w = (r, w') \<Longrightarrow> P (g w) (g w')"
  by (metis moves_def snd_conv)

lemma moves_of_keeps: "reflp P \<Longrightarrow> keeps g m \<Longrightarrow> moves P g m"
  unfolding moves_def keeps_def by (simp add: reflpD)

lemma moves_callA: "(\<And>w r w'. op w = (r, w') \<Longrightarrow> P (g w) (g w')) \<Longrightarrow> moves P g (callA op)"
  unfolding moves_def callA_def by (auto split: prod.splits sum.splits)

lemma moves_bindA:
  "transp P \<Longrightarrow> moves P g m \<Longrightarrow> (\<And>a. moves P g (f a)) \<Longrightarrow> moves P g (bindA m f)"
  unfolding moves_def bindA_def
  by (auto split: prod.splits res.splits) (metis snd_conv transpD)+

lemma moves_tryA:
  "transp P \<Longrightarrow> moves P g m \<Longrightarrow> (\<And>e. moves P g (h e)) \<Longrightarrow> (\<And>a. moves P g (k a)) \<Longrightarrow> moves P g (tryA m h k)"
  unfolding moves_def tryA_def
  by (auto split: prod.splits res.splits) (metis snd_conv transpD)+

lemma moves_wrapA: "moves P g m \<Longrightarrow> moves P g (wrapA s m)"
  unfolding moves_def wrapA_def by (auto split: prod.splits res.splits) (metis snd_conv)+

subsection \<open>Invariants\<close>

text \<open>An action that starts where \<open>I\<close> holds ends there, whatever its outcome.\<close>

definition preserves :: "('w \<Rightarrow> bool) \<Rightarrow> ('w, 'a) act \<Rightarrow> bool" where
  "preserves I m \<longleftrightarrow> moves (\<lambda>a b. a \<longrightarrow> b) I m"

lemma preservesD: "preserves I m \<Longrightarrow> m w = (r, w') \<Longrightarrow> I w \<Longrightarrow> I w'"
  unfolding preserves_def by (drule (1) movesD) blast

lemma preserves_of_keeps: "keeps g m \<Longrightarrow> (\<And>w w'. g w' = g w \<Longrightarrow> I w \<Longrightarrow> I w') \<Longrightarrow> preserves I m"
  unfolding preserves_def moves_def keeps_def by blast

lemma preserves_callA: "(\<And>w r w'. op w = (r, w') \<Longrightarrow> I w \<Longrightarrow> I w') \<Longrightarrow> preserves I (callA op)"
  unfolding preserves_def by (rule moves_callA) blast

lemma preserves_retA [preserves_intros]: "preserves I (retA a)"
  by (simp add: preserves_def moves_def retA_def)

lemma preserves_failA [preserves_intros]: "preserves I (failA a)"
  by (simp add: preserves_def moves_def failA_def)

lemma preserves_bindA [preserves_intros]:
  "preserves I m \<Longrightarrow> (\<And>a. preserves I (f a)) \<Longrightarrow> preserves I (bindA m f)"
  unfolding preserves_def by (rule moves_bindA) (auto simp: transp_def)

lemma preserves_tryA [preserves_intros]:
  "preserves I m \<Longrightarrow> (\<And>e. preserves I (h e)) \<Longrightarrow> (\<And>a. preserves I (k a)) \<Longrightarrow> preserves I (tryA m h k)"
  unfolding preserves_def by (rule moves_tryA) (auto simp: transp_def)

lemma preserves_if [preserves_intros]:
  "(b \<Longrightarrow> preserves I m) \<Longrightarrow> (\<not> b \<Longrightarrow> preserves I n) \<Longrightarrow> preserves I (if b then m else n)"
  by simp

lemma preserves_case_sum [preserves_intros]:
  "(\<And>e. r = Inl e \<Longrightarrow> preserves I (f e)) \<Longrightarrow> (\<And>a. r = Inr a \<Longrightarrow> preserves I (h a)) \<Longrightarrow>
   preserves I (case r of Inl e \<Rightarrow> f e | Inr a \<Rightarrow> h a)"
  by (cases r) auto

lemma preserves_case_option [preserves_intros]:
  "(r = None \<Longrightarrow> preserves I m) \<Longrightarrow> (\<And>a. r = Some a \<Longrightarrow> preserves I (h a)) \<Longrightarrow>
   preserves I (case r of None \<Rightarrow> m | Some a \<Rightarrow> h a)"
  by (cases r) auto

lemma preserves_case_bool [preserves_intros]:
  "(b \<Longrightarrow> preserves I m) \<Longrightarrow> (\<not> b \<Longrightarrow> preserves I n) \<Longrightarrow> preserves I (case b of True \<Rightarrow> m | False \<Rightarrow> n)"
  by (cases b) auto

lemma preserves_case_prod [preserves_intros]:
  "(\<And>a b. p = (a, b) \<Longrightarrow> preserves I (f a b)) \<Longrightarrow> preserves I (case p of (a, b) \<Rightarrow> f a b)"
  by (cases p) simp

lemma preserves_derefA [preserves_intros]: "preserves I (derefA s p)"
  using keeps_derefA [of "\<lambda>w. w" s p] by (rule preserves_of_keeps) simp

lemma preserves_forA [preserves_intros]:
  "(\<And>x. x \<in> set xs \<Longrightarrow> preserves I (f x)) \<Longrightarrow> preserves I (forA f xs)"
  by (induction xs) (auto intro!: preserves_intros)

text \<open>A branch that reads the world.\<close>

lemma preserves_if_world [preserves_intros]:
  "preserves I m \<Longrightarrow> preserves I n \<Longrightarrow> preserves I (\<lambda>w. (if b w then m else n) w)"
  unfolding preserves_def moves_def by simp

lemma keeps_if_world [keeps_intros]:
  "keeps g m \<Longrightarrow> keeps g n \<Longrightarrow> keeps g (\<lambda>w. (if b w then m else n) w)"
  unfolding keeps_def by simp

subsection \<open>Loops that finish\<close>

text \<open>
  Rule for a loop that ran to its end: an invariant over the elements already visited, each
  step of which may assume that its body returned.
\<close>

lemma foldA_Ret_induct [consumes 1, case_names start step]:
  assumes "foldA f xs s w = (Ret s', w')"
    and "I [] s w"
    and "\<And>ys x zs s w s1 w1. xs = ys @ x # zs \<Longrightarrow> I ys s w \<Longrightarrow> f x s w = (Ret s1, w1) \<Longrightarrow>
           I (ys @ [x]) s1 w1"
  shows "I xs s' w'"
proof -
  have "\<lbrakk>foldA f zs s w = (Ret s', w'); xs = ys @ zs; I ys s w\<rbrakk> \<Longrightarrow> I xs s' w'" for ys zs s w
  proof (induction zs arbitrary: ys s w)
    case (Cons x zs)
    then obtain s1 w1 where "f x s w = (Ret s1, w1)" and "foldA f zs s1 w1 = (Ret s', w')"
      by (auto simp: act_simps)
    moreover from this Cons.prems have "I (ys @ [x]) s1 w1"
      using assms(3) by blast
    ultimately show ?case using Cons.IH [of s1 w1 "ys @ [x]"] Cons.prems(2) by simp
  qed simp
  from this [of xs s w "[]"] assms(1,2) show ?thesis by simp
qed

lemma forA_Ret_induct [consumes 1, case_names start step]:
  assumes "forA f xs w = (Ret u, w')"
    and "I [] w"
    and "\<And>ys x zs w w1. xs = ys @ x # zs \<Longrightarrow> I ys w \<Longrightarrow> f x w = (Ret (), w1) \<Longrightarrow> I (ys @ [x]) w1"
  shows "I xs w'"
proof -
  have "\<lbrakk>forA f zs w = (Ret u, w'); xs = ys @ zs; I ys w\<rbrakk> \<Longrightarrow> I xs w'" for ys zs w
  proof (induction zs arbitrary: ys w)
    case (Cons x zs)
    then obtain w1 where "f x w = (Ret (), w1)" and "forA f zs w1 = (Ret u, w')"
      by (auto simp: act_simps)
    moreover from this Cons.prems have "I (ys @ [x]) w1"
      using assms(3) by blast
    ultimately show ?case using Cons.IH [of w1 "ys @ [x]"] Cons.prems(2) by simp
  qed simp
  from this [of xs w "[]"] assms(1,2) show ?thesis by simp
qed

end
