(* ===== verification/GoJson.thy ===== *)
theory GoJson
  imports Prelude
begin

section \<open>JSON documents\<close>

text \<open>
  The documents that \<open>encoding/json\<close> writes and reads, as trees: the level at which the struct
  tags of the operator's types (\<open>json:"name,omitempty"\<close>) speak. Numbers keep their literal. Bytes only
  matter in two places: the log of a scan pod is read as text (\<open>GoJsonText\<close>), and the section of a Falco
  policy is written as text into a config map (\<open>JsonEncode\<close>). The strings of objects that the API server
  stores are valid UTF-8, which the encoder leaves as it is.
\<close>

datatype json =
    JNull
  | JBool bool
  | JNum string
  | JStr string
  | JArr "json list"
  | JObj "(string \<times> json) list"

text \<open>Members of a struct: always written, or left out when the value is the zero value.\<close>

type_synonym members = "(string \<times> json) list"

definition member_always :: "string \<Rightarrow> json \<Rightarrow> members" where
  "member_always k v = [(k, v)]"

definition member_str_omitempty :: "string \<Rightarrow> string \<Rightarrow> members" where
  "member_str_omitempty k s = (if s = '''' then [] else [(k, JStr s)])"

definition member_bool_omitempty :: "string \<Rightarrow> bool \<Rightarrow> members" where
  "member_bool_omitempty k b = (if b then [(k, JBool True)] else [])"

definition member_list_omitempty :: "string \<Rightarrow> json list \<Rightarrow> members" where
  "member_list_omitempty k xs = (if xs = [] then [] else [(k, JArr xs)])"

definition member_int_omitempty :: "string \<Rightarrow> int \<Rightarrow> members" where
  "member_int_omitempty k i = (if i = 0 then [] else [(k, JNum (show_int i))])"

definition member_ptr_omitempty :: "string \<Rightarrow> ('a \<Rightarrow> json) \<Rightarrow> 'a option \<Rightarrow> members" where
  "member_ptr_omitempty k f p = (case p of None \<Rightarrow> [] | Some a \<Rightarrow> [(k, f a)])"

text \<open>A field of type \<open>json.RawMessage\<close> or \<open>runtime.RawExtension\<close>: nil is written as \<open>null\<close>.\<close>

definition raw_json :: "json option \<Rightarrow> json" where
  "raw_json r = (case r of None \<Rightarrow> JNull | Some j \<Rightarrow> j)"

text \<open>A map is written with its keys in increasing order.\<close>

definition json_of_map :: "(string \<times> string) list \<Rightarrow> json" where
  "json_of_map m = JObj (map (\<lambda>(k, v). (k, JStr v)) (sort_key fst m))"

definition member_map_omitempty :: "string \<Rightarrow> (string \<times> string) list \<Rightarrow> members" where
  "member_map_omitempty k m = (if m = [] then [] else [(k, json_of_map m)])"

text \<open>
  A document read into a Go map: where a key is repeated, the last value counts. Writing under a key
  keeps the place of one that is there.
\<close>

fun put_key :: "string \<Rightarrow> 'a \<Rightarrow> (string \<times> 'a) list \<Rightarrow> (string \<times> 'a) list" where
  "put_key k v [] = [(k, v)]"
| "put_key k v ((k', v') # m) = (if k' = k then (k, v) # m else (k', v') # put_key k v m)"

definition last_wins :: "(string \<times> 'a) list \<Rightarrow> (string \<times> 'a) list" where
  "last_wins ms = foldl (\<lambda>m (k, v). put_key k v m) [] ms"

fun go_value :: "json \<Rightarrow> json" where
  "go_value (JArr js) = JArr (map go_value js)"
| "go_value (JObj ms) = JObj (last_wins (map (\<lambda>e. (fst e, go_value (snd e))) ms))"
| "go_value v = v"

definition go_map :: "members \<Rightarrow> members" where
  "go_map ms = last_wins (map (\<lambda>e. (fst e, go_value (snd e))) ms)"

text \<open>Every object of a document is a map: no key twice.\<close>

fun maps_only :: "json \<Rightarrow> bool" where
  "maps_only (JObj m) = (distinct (map fst m) \<and> (\<forall>e \<in> set m. maps_only (snd e)))"
| "maps_only v = True"

lemma map_of_put_key: "map_of (put_key k v m) = (map_of m)(k \<mapsto> v)"
  by (induction m) auto

lemma keys_put_key:
  "map fst (put_key k v m) = (if k \<in> set (map fst m) then map fst m else map fst m @ [k])"
  by (induction m) (auto simp del: set_map simp: in_set_conv_nth)

lemma distinct_put_key: "distinct (map fst m) \<Longrightarrow> distinct (map fst (put_key k v m))"
  by (simp only: keys_put_key) auto

lemma set_put_key: "set (put_key k v m) \<subseteq> insert (k, v) (set m)"
  by (induction k v m rule: put_key.induct) (auto split: if_splits)

lemma last_wins_maps:
  assumes "\<forall>e \<in> set ms. P (snd e)"
  shows "distinct (map fst (last_wins ms)) \<and> (\<forall>e \<in> set (last_wins ms). P (snd e))"
  using assms
proof (induction ms rule: rev_induct)
  case (snoc e ms)
  let ?m = "last_wins ms"
  have "last_wins (ms @ [e]) = put_key (fst e) (snd e) ?m" by (simp add: last_wins_def split_beta)
  with snoc set_put_key [of "fst e" "snd e" ?m] show ?case by (auto intro: distinct_put_key)
qed (simp add: last_wins_def)

lemma maps_only_go_value: "maps_only (go_value j)"
proof (induction j rule: go_value.induct)
  case (2 ms)
  then show ?case using last_wins_maps [of "map (\<lambda>e. (fst e, go_value (snd e))) ms" maps_only] by simp
qed simp_all

lemma maps_only_go_map: "maps_only (JObj (go_map ms))"
  using maps_only_go_value [of "JObj ms"] by (simp add: go_map_def)

lemmas member_defs = member_always_def member_str_omitempty_def member_bool_omitempty_def
  member_list_omitempty_def member_int_omitempty_def member_ptr_omitempty_def
  member_map_omitempty_def

end
