(* ===== verification/KubeTypes.thy ===== *)
theory KubeTypes
  imports Prelude GoJson
begin

section \<open>Kubernetes objects the operator reads and writes\<close>

text \<open>
  The fields of the Kubernetes API types (\<open>metav1\<close>, \<open>corev1\<close>, \<open>batchv1\<close>, \<open>appsv1\<close>) that the code
  under \<open>internal/\<close> mentions, and no others. A Go pointer is an \<open>option\<close>, a nil map is \<open>None\<close>, times
  are instants as integers. \<open>resourceVersion\<close> is never mentioned by the code and not modelled.
\<close>

type_synonym obj_key = "string \<times> string"

record owner_ref =
  or_kind :: string
  or_name :: string
  or_uid :: string
  or_controller :: bool

record obj_meta =
  om_name :: string
  om_namespace :: string
  om_uid :: string
  om_labels :: "(string \<rightharpoonup> string) option"
  om_generation :: int
  om_creationTimestamp :: int
  om_deletionTimestamp :: "int option"
  om_finalizers :: "string list"
  om_ownerReferences :: "owner_ref list"

definition new_meta :: "string \<Rightarrow> string \<Rightarrow> obj_meta" where
  "new_meta ns n =
     \<lparr>om_name = n, om_namespace = ns, om_uid = '''', om_labels = None, om_generation = 0,
      om_creationTimestamp = 0, om_deletionTimestamp = None, om_finalizers = [],
      om_ownerReferences = []\<rparr>"

definition meta_key :: "obj_meta \<Rightarrow> obj_key" where
  "meta_key m = (om_namespace m, om_name m)"

text \<open>Reading a label of a nil map gives the empty map's answer.\<close>

definition labels_of :: "obj_meta \<Rightarrow> string \<rightharpoonup> string" where
  "labels_of m = (case om_labels m of None \<Rightarrow> Map.empty | Some l \<Rightarrow> l)"

lemma new_meta_simps [simp]:
  "om_name (new_meta ns n) = n" "om_namespace (new_meta ns n) = ns"
  "om_labels (new_meta ns n) = None" "om_generation (new_meta ns n) = 0"
  "om_deletionTimestamp (new_meta ns n) = None" "om_finalizers (new_meta ns n) = []"
  "om_ownerReferences (new_meta ns n) = []"
  by (simp_all add: new_meta_def)

lemma meta_key_new_meta [simp]: "meta_key (new_meta ns n) = (ns, n)"
  by (simp add: meta_key_def)

record condition =
  co_Type :: string
  co_Status :: string
  co_Reason :: string
  co_Message :: string
  co_LastTransitionTime :: int

record EnvVar =
  ev_Name :: string
  ev_Value :: string

record Container =
  ct_Name :: string
  ct_Image :: string
  ct_Command :: "string list"
  ct_Args :: "string list"

record PodTemplate =
  pt_labels :: "(string \<rightharpoonup> string) option"
  pt_RestartPolicy :: string
  pt_Containers :: "Container list"

record JobSpec =
  js_BackoffLimit :: "i32 option"
  js_TTLSecondsAfterFinished :: "i32 option"
  js_Template :: PodTemplate

record JobStatus =
  jst_Succeeded :: i32
  jst_Failed :: i32

record Job =
  job_meta :: obj_meta
  job_Spec :: JobSpec
  job_Status :: JobStatus

record ConfigMap =
  cm_meta :: obj_meta
  cm_Data :: "(string \<rightharpoonup> string) option"

record Namespace =
  nsp_meta :: obj_meta

record Pod =
  pod_meta :: obj_meta
  pod_Containers :: "Container list"
  pod_Phase :: string

record workload_condition =
  wc_Type :: string
  wc_Status :: string

record Deployment =
  dep_meta :: obj_meta
  dep_ObservedGeneration :: int
  dep_Conditions :: "workload_condition list"

record DaemonSet =
  ds_meta :: obj_meta
  ds_ObservedGeneration :: int
  ds_NumberReady :: i32
  ds_DesiredNumberScheduled :: i32

end
