(* ===== verification/EirenyxTypes.thy ===== *)
theory EirenyxTypes
  imports KubeTypes
begin

section \<open>The custom resources of the group \<open>eirenyx.eirenyx/v1alpha1\<close>\<close>

text \<open>
  The types of \<open>api/v1alpha1\<close>: Tool, Policy and PolicyReport with their specs and statuses, and the
  constants of the package. String newtypes (\<open>PolicyType\<close>, \<open>ToolType\<close>, \<open>ReportPhase\<close>, \<open>Verdict\<close>)
  are strings, as in the code: an object may hold any text there, the empty one included.
  A \<open>runtime.RawExtension\<close> is the JSON document it holds, or \<open>None\<close> when it holds no bytes.
\<close>

subsection \<open>Policies\<close>

definition PolicyTypeFalco :: string where "PolicyTypeFalco = ''falco''"
definition PolicyTypeTrivy :: string where "PolicyTypeTrivy = ''trivy''"
definition PolicyTypeLitmus :: string where "PolicyTypeLitmus = ''litmus''"

definition PolicyFinalizer :: string where "PolicyFinalizer = ''eirenyx.policy/finalizer''"

record PolicyTarget =
  tgt_NamespaceSelector :: "string list"
  tgt_NodeSelector :: "string list"

record FalcoRuleRef =
  frr_Name :: string

record FalcoRuleSelector =
  frs_Tags :: "string list"
  frs_Priorities :: "string list"

record FalcoReportSpec =
  frp_Create :: bool
  frp_Severity :: string
  frp_AggregationWindow :: string

record FalcoObserveSpec =
  obs_RuleRef :: "FalcoRuleRef option"
  obs_RuleSelector :: "FalcoRuleSelector option"

record FalcoPolicySpec =
  fal_Observe :: FalcoObserveSpec
  fal_Report :: "FalcoReportSpec option"

record TrivyScan =
  scan_Name :: string
  scan_Image :: string
  scan_Severity :: string
  scan_IgnoreUnfixed :: bool
  scan_VulnerabilityTypes :: "string list"
  scan_ExitCode :: "i32 option"

record TrivyPolicySpec =
  trv_Scans :: "TrivyScan list"

record LitmusAppInfo =
  app_AppNamespace :: string
  app_AppLabel :: string
  app_AppKind :: string

record LitmusExpectedResult =
  exr_Verdict :: string
  exr_FailOnChaosError :: "bool option"

text \<open>\<open>Parameters\<close> is a Go map: the list holds each key once, in no significant order.\<close>

record LitmusExperiment =
  exp_Name :: string
  exp_ExperimentRef :: string
  exp_EngineRef :: string
  exp_TargetNamespace :: string
  exp_AppInfo :: LitmusAppInfo
  exp_Mode :: string
  exp_Duration :: string
  exp_Parameters :: "(string \<times> string) list"
  exp_ExpectedResult :: LitmusExpectedResult

record LitmusPolicySpec =
  lit_Experiments :: "LitmusExperiment list"

record PolicySpec =
  ps_Type :: string
  ps_Enabled :: bool
  ps_Target :: PolicyTarget
  ps_Falco :: "FalcoPolicySpec option"
  ps_Trivy :: "TrivyPolicySpec option"
  ps_Litmus :: "LitmusPolicySpec option"

record PolicyStatus =
  pst_Phase :: string
  pst_Conditions :: "condition list"
  pst_LastReport :: string
  pst_ObservedGen :: int

record Policy =
  pol_meta :: obj_meta
  pol_Spec :: PolicySpec
  pol_Status :: PolicyStatus

subsection \<open>Policy reports\<close>

definition ReportPending :: string where "ReportPending = ''Pending''"
definition ReportRunning :: string where "ReportRunning = ''Running''"
definition ReportCompleted :: string where "ReportCompleted = ''Completed''"
definition ReportFailed :: string where "ReportFailed = ''Failed''"

definition VerdictPass :: string where "VerdictPass = ''Pass''"
definition VerdictFail :: string where "VerdictFail = ''Fail''"
definition VerdictUnknown :: string where "VerdictUnknown = ''Unknown''"

record ReportSummary =
  sum_Verdict :: string
  sum_TotalChecks :: i32
  sum_Passed :: i32
  sum_Failed :: i32

definition zero_summary :: ReportSummary where
  "zero_summary = \<lparr>sum_Verdict = '''', sum_TotalChecks = 0, sum_Passed = 0, sum_Failed = 0\<rparr>"

record PolicyReference =
  pr_Name :: string
  pr_Generation :: int

record PolicyReportSpec =
  rs_PolicyRef :: PolicyReference
  rs_Type :: string

record PolicyReportStatus =
  rst_Phase :: string
  rst_Summary :: ReportSummary
  rst_Details :: "json option"

record PolicyReport =
  rep_meta :: obj_meta
  rep_Spec :: PolicyReportSpec
  rep_Status :: PolicyReportStatus

definition zero_report_status :: PolicyReportStatus where
  "zero_report_status = \<lparr>rst_Phase = '''', rst_Summary = zero_summary, rst_Details = None\<rparr>"

subsection \<open>Tools\<close>

definition ToolTrivy :: string where "ToolTrivy = ''trivy''"
definition ToolFalco :: string where "ToolFalco = ''falco''"
definition ToolLitmus :: string where "ToolLitmus = ''litmus''"

definition ToolFinalizer :: string where "ToolFinalizer = ''eirenyx.tool/finalizer''"

record ToolSpec =
  ts_Type :: string
  ts_Enabled :: bool
  ts_Namespace :: string
  ts_Values :: "json option"

record ToolStatus =
  tst_Installed :: bool
  tst_Healthy :: bool
  tst_Version :: string
  tst_Conditions :: "condition list"

record Tool =
  tool_meta :: obj_meta
  tool_Spec :: ToolSpec
  tool_Status :: ToolStatus

lemmas policy_type_defs = PolicyTypeFalco_def PolicyTypeTrivy_def PolicyTypeLitmus_def
lemmas tool_type_defs = ToolFalco_def ToolTrivy_def ToolLitmus_def
lemmas phase_defs = ReportPending_def ReportRunning_def ReportCompleted_def ReportFailed_def
lemmas verdict_defs = VerdictPass_def VerdictFail_def VerdictUnknown_def

lemma policy_types_distinct [simp]:
  "PolicyTypeFalco \<noteq> PolicyTypeTrivy" "PolicyTypeTrivy \<noteq> PolicyTypeFalco"
  "PolicyTypeFalco \<noteq> PolicyTypeLitmus" "PolicyTypeLitmus \<noteq> PolicyTypeFalco"
  "PolicyTypeTrivy \<noteq> PolicyTypeLitmus" "PolicyTypeLitmus \<noteq> PolicyTypeTrivy"
  by (simp_all add: policy_type_defs)

lemma tool_types_distinct [simp]:
  "ToolFalco \<noteq> ToolTrivy" "ToolTrivy \<noteq> ToolFalco"
  "ToolFalco \<noteq> ToolLitmus" "ToolLitmus \<noteq> ToolFalco"
  "ToolTrivy \<noteq> ToolLitmus" "ToolLitmus \<noteq> ToolTrivy"
  by (simp_all add: tool_type_defs)

lemma phases_distinct [simp]:
  "ReportPending \<noteq> ReportCompleted" "ReportCompleted \<noteq> ReportPending"
  "ReportRunning \<noteq> ReportCompleted" "ReportCompleted \<noteq> ReportRunning"
  "ReportPending \<noteq> ReportRunning" "ReportRunning \<noteq> ReportPending"
  by (simp_all add: phase_defs)

lemma verdicts_distinct [simp]:
  "VerdictPass \<noteq> VerdictFail" "VerdictFail \<noteq> VerdictPass"
  by (simp_all add: verdict_defs)

end
