(* ===== verification/LitmusTypes.thy ===== *)
theory LitmusTypes
  imports KubeTypes
begin

section \<open>The Litmus custom resources\<close>

text \<open>
  The types of \<open>api/litmus\<close>: ChaosEngines, which the policy engine writes, and ChaosExperiments and
  ChaosResults, which Litmus fills in. The structs of \<open>corev1\<close> and \<open>rbacv1\<close> in them of which the operator
  sets no field (resource requirements, tolerations, policy rules, security contexts) are their JSON documents;
  the zero value of such a struct is the empty object. Maps are their entries, as in \<open>EirenyxTypes\<close>;
  the types \<open>ConfigMap\<close>, \<open>Secret\<close> and \<open>SecurityContext\<close> of the package have the prefix \<open>Litmus\<close> here.
\<close>

record LocalObjectReference =
  lor_Name :: string

subsection \<open>\<open>chaosexperiment_types.go\<close>\<close>

record LitmusConfigMap =
  lcm_Data :: "(string \<times> string) list"
  lcm_Name :: string
  lcm_MountPath :: string

record LitmusSecret =
  lse_Name :: string
  lse_MountPath :: string

record HostFile =
  hf_Name :: string
  hf_MountPath :: string
  hf_NodePath :: string
  hf_Type :: string

record LitmusSecurityContext =
  lsc_PodSecurityContext :: json
  lsc_ContainerSecurityContext :: json

record ExperimentDef =
  xd_Labels :: "(string \<times> string) list"
  xd_Image :: string
  xd_ImagePullPolicy :: string
  xd_Scope :: string
  xd_Permissions :: "json list"
  xd_ENVList :: "EnvVar list"
  xd_Command :: "string list"
  xd_Args :: "string list"
  xd_ConfigMaps :: "LitmusConfigMap list"
  xd_Secrets :: "LitmusSecret list"
  xd_HostFileVolumes :: "HostFile list"
  xd_ExperimentAnnotations :: "(string \<times> string) list"
  xd_SecurityContext :: LitmusSecurityContext
  xd_HostPID :: bool

record ChaosExperimentSpec =
  cxs_Definition :: ExperimentDef

text \<open>A struct without fields.\<close>

datatype ChaosExperimentStatus = NoStatus

record ChaosExperiment =
  cx_meta :: obj_meta
  cx_Spec :: ChaosExperimentSpec
  cx_Status :: ChaosExperimentStatus

subsection \<open>\<open>chaosengine_types.go\<close>\<close>

definition EngineStateActive :: string where "EngineStateActive = ''active''"
definition EngineStateStop :: string where "EngineStateStop = ''stop''"

definition ExperimentStatusRunning :: string where "ExperimentStatusRunning = ''Running''"
definition ExperimentStatusCompleted :: string where "ExperimentStatusCompleted = ''Completed''"
definition ExperimentStatusWaiting :: string where "ExperimentStatusWaiting = ''Waiting for Job Creation''"
definition ExperimentStatusNotFound :: string where "ExperimentStatusNotFound = ''ChaosExperiment Not Found''"
definition ExperimentStatusAborted :: string where "ExperimentStatusAborted = ''Forcefully Aborted''"
definition ExperimentSkipped :: string where "ExperimentSkipped = ''Skipped''"

definition EngineStatusInitialized :: string where "EngineStatusInitialized = ''initialized''"
definition EngineStatusCompleted :: string where "EngineStatusCompleted = ''completed''"
definition EngineStatusStopped :: string where "EngineStatusStopped = ''stopped''"

record ApplicationParams =
  ap_Appns :: string
  ap_Applabel :: string
  ap_AppKind :: string

record StatusCheckTimeout =
  sct_Delay :: int
  sct_Timeout :: int

record ExperimentComponents =
  ec_ENV :: "EnvVar list"
  ec_ConfigMaps :: "LitmusConfigMap list"
  ec_Secrets :: "LitmusSecret list"
  ec_ExperimentAnnotations :: "(string \<times> string) list"
  ec_ExperimentImage :: string
  ec_ExperimentImagePullSecrets :: "LocalObjectReference list"
  ec_NodeSelector :: "(string \<times> string) list"
  ec_StatusCheckTimeouts :: StatusCheckTimeout
  ec_Resources :: json
  ec_Tolerations :: "json list"

record ExperimentAttributes =
  ea_Components :: ExperimentComponents

record ExperimentList =
  el_Name :: string
  el_Spec :: ExperimentAttributes

record ChaosEngineSpec =
  ces_AppInfo :: ApplicationParams
  ces_EngineState :: string
  ces_Experiments :: "ExperimentList list"

record ExperimentStatuses =
  est_Name :: string
  est_Runner :: string
  est_ExpPod :: string
  est_Status :: string
  est_Verdict :: string
  est_LastUpdateTime :: int

record ChaosEngineStatus =
  cest_EngineStatus :: string
  cest_Experiments :: "ExperimentStatuses list"

record ChaosEngine =
  ce_meta :: obj_meta
  ce_Spec :: ChaosEngineSpec
  ce_Status :: ChaosEngineStatus

text \<open>The zero values that a composite literal leaves in the fields it does not name.\<close>

definition zero_components :: ExperimentComponents where
  "zero_components =
     \<lparr>ec_ENV = [], ec_ConfigMaps = [], ec_Secrets = [], ec_ExperimentAnnotations = [], ec_ExperimentImage = '''',
      ec_ExperimentImagePullSecrets = [], ec_NodeSelector = [],
      ec_StatusCheckTimeouts = \<lparr>sct_Delay = 0, sct_Timeout = 0\<rparr>, ec_Resources = JObj [], ec_Tolerations = []\<rparr>"

definition zero_engine_spec :: ChaosEngineSpec where
  "zero_engine_spec =
     \<lparr>ces_AppInfo = \<lparr>ap_Appns = '''', ap_Applabel = '''', ap_AppKind = ''''\<rparr>,
      ces_EngineState = '''', ces_Experiments = []\<rparr>"

definition zero_engine_status :: ChaosEngineStatus where
  "zero_engine_status = \<lparr>cest_EngineStatus = '''', cest_Experiments = []\<rparr>"

subsection \<open>\<open>chaosresult_types.go\<close>\<close>

record ChaosResultSpec =
  crs_EngineName :: string
  crs_ExperimentName :: string
  crs_InstanceID :: string

definition ResultPhaseRunning :: string where "ResultPhaseRunning = ''Running''"
definition ResultPhaseCompleted :: string where "ResultPhaseCompleted = ''Completed''"
definition ResultPhaseStopped :: string where "ResultPhaseStopped = ''Stopped''"

definition ResultVerdictPassed :: string where "ResultVerdictPassed = ''Pass''"
definition ResultVerdictFailed :: string where "ResultVerdictFailed = ''Fail''"
definition ResultVerdictStopped :: string where "ResultVerdictStopped = ''Stopped''"
definition ResultVerdictAwaited :: string where "ResultVerdictAwaited = ''Awaited''"

definition ProbeVerdictPassed :: string where "ProbeVerdictPassed = ''Passed''"
definition ProbeVerdictFailed :: string where "ProbeVerdictFailed = ''Failed''"
definition ProbeVerdictNA :: string where "ProbeVerdictNA = ''N/A''"
definition ProbeVerdictAwaited :: string where "ProbeVerdictAwaited = ''Awaited''"

record TargetDetails =
  td_Name :: string
  td_Kind :: string
  td_ChaosStatus :: string

record HistoryDetails =
  hd_PassedRuns :: int
  hd_FailedRuns :: int
  hd_StoppedRuns :: int
  hd_Targets :: "TargetDetails list"

record ProbeStatus =
  prb_Verdict :: string
  prb_Description :: string

record ProbeStatuses =
  prs_Name :: string
  prs_Type :: string
  prs_Mode :: string
  prs_Status :: ProbeStatus

record TestStatus =
  tes_Phase :: string
  tes_Verdict :: string
  tes_FailStep :: string
  tes_ProbeSuccessPercentage :: string

record ChaosResultStatus =
  crst_ExperimentStatus :: TestStatus
  crst_ProbeStatuses :: "ProbeStatuses list"
  crst_History :: HistoryDetails

record ChaosResult =
  cr_meta :: obj_meta
  cr_Spec :: ChaosResultSpec
  cr_Status :: ChaosResultStatus

end
