(* ===== verification/JsonDecode.thy ===== *)
theory JsonDecode
  imports GoJson
begin

section \<open>Decoding into a Go map\<close>

text \<open>
  \<open>Unmarshal\<close> of the standard library of a document into a nil \<open>map[string]interface{}\<close>, which
  \<open>internal/tools/litmus.go\<close> does through \<open>util/json\<close> (\<open>json_codec\<close> in \<open>ApiClient\<close>) for the values of a Tool. \<open>null\<close> leaves the map nil, an object becomes a map in which the last value of a repeated
  key counts, any other document is an error. Numbers become \<open>float64\<close>: one that is too big for it is an
  error too, wherever it stands; the others are kept as their literals here.
\<close>

subsection \<open>Numbers that no \<open>float64\<close> holds\<close>

definition digit :: "char \<Rightarrow> bool" where
  "digit c \<longleftrightarrow> 48 \<le> (of_char c :: nat) \<and> (of_char c :: nat) \<le> 57"

definition digits_value :: "string \<Rightarrow> nat" where
  "digits_value ds = foldl (\<lambda>n c. 10 * n + (of_char c - 48)) 0 ds"

text \<open>The exponent stops counting once it has reached 10000.\<close>

definition exponent_value :: "string \<Rightarrow> nat" where
  "exponent_value ds = foldl (\<lambda>n c. if n < 10000 then 10 * n + (of_char c - 48) else n) 0 ds"

text \<open>The digits of a number literal without its sign, and the power of ten they are counted in.\<close>

definition fraction_digits :: "string \<Rightarrow> string" where
  "fraction_digits s = (case s of c # r \<Rightarrow> if c = CHR ''.'' then takeWhile digit r else [] | [] \<Rightarrow> [])"

definition signed_exponent :: "string \<Rightarrow> int" where
  "signed_exponent s =
     (case s of [] \<Rightarrow> 0
      | c # r \<Rightarrow> if c = CHR ''-'' then - int (exponent_value r)
                else if c = CHR ''+'' then int (exponent_value r) else int (exponent_value s))"

definition decimal_parts :: "string \<Rightarrow> nat \<times> int" where
  "decimal_parts s =
     (let s0 = (case s of c # r \<Rightarrow> if c = CHR ''-'' then r else s | [] \<Rightarrow> []);
          whole = takeWhile digit s0;
          frac = fraction_digits (dropWhile digit s0);
          e = dropWhile (\<lambda>c. c \<noteq> CHR ''e'' \<and> c \<noteq> CHR ''E'') s0
      in (digits_value (whole @ frac), signed_exponent (drop 1 e) - int (length frac)))"

text \<open>The smallest number that \<open>strconv.ParseFloat\<close> rounds to infinity.\<close>

definition float_limit :: nat where
  "float_limit = 2 ^ 1024 - 2 ^ 970"

definition number_overflows :: "string \<Rightarrow> bool" where
  "number_overflows s =
     (case decimal_parts s of (m, e) \<Rightarrow>
        if 0 \<le> e then float_limit \<le> m * 10 ^ nat e else float_limit * 10 ^ nat (- e) \<le> m)"

subsection \<open>The map\<close>

text \<open>The numbers of a document, in their order.\<close>

fun json_numbers :: "json \<Rightarrow> string list" where
  "json_numbers (JNum s) = [s]"
| "json_numbers (JArr vs) = concat (map json_numbers vs)"
| "json_numbers (JObj ms) = concat (map (\<lambda>m. json_numbers (snd m)) ms)"
| "json_numbers v = []"

definition unmarshal_type_error :: "string \<Rightarrow> string \<Rightarrow> go_error" where
  "unmarshal_type_error val typename =
     ExtError (''json: cannot unmarshal '' @ val @ '' into Go value of type '' @ typename)"

definition json_UnmarshalMap :: "json \<Rightarrow> go_error + members option" where
  "json_UnmarshalMap v =
     (let wrong = (\<lambda>kind. Inl (unmarshal_type_error kind ''map[string]interface {}'')) in
      case v of
        JNull \<Rightarrow> Inr None
      | JObj ms \<Rightarrow>
          (case find number_overflows (json_numbers v) of
             Some n \<Rightarrow> Inl (unmarshal_type_error (''number '' @ n) ''float64'')
           | None \<Rightarrow> Inr (Some (go_map ms)))
      | JArr _ \<Rightarrow> wrong ''array''
      | JStr _ \<Rightarrow> wrong ''string''
      | JNum _ \<Rightarrow> wrong ''number''
      | JBool _ \<Rightarrow> wrong ''bool'')"

lemma find_Some: "find P xs = Some x \<Longrightarrow> x \<in> set xs \<and> P x"
  by (auto simp: find_Some_iff)

lemma json_UnmarshalMap_Inr:
  "json_UnmarshalMap v = Inr u \<longleftrightarrow> (v = JNull \<and> u = None) \<or>
     (\<exists>ms. v = JObj ms \<and> (\<forall>n \<in> set (json_numbers v). \<not> number_overflows n) \<and> u = Some (go_map ms))"
proof (cases v)
  case (JObj ms)
  show ?thesis
  proof (cases "find number_overflows (json_numbers v)")
    case None
    then have "\<forall>n \<in> set (json_numbers v). \<not> number_overflows n" by (auto simp only: find_None_iff)
    with None JObj show ?thesis by (auto simp: json_UnmarshalMap_def simp del: json_numbers.simps)
  next
    case (Some n)
    from find_Some [OF this] Some JObj show ?thesis
      by (auto simp: json_UnmarshalMap_def simp del: json_numbers.simps)
  qed
qed (auto simp: json_UnmarshalMap_def)

lemma json_UnmarshalMap_no_object:
  "(\<And>ms. v \<noteq> JObj ms) \<Longrightarrow> v \<noteq> JNull \<Longrightarrow> \<exists>e. json_UnmarshalMap v = Inl e"
  by (cases v) (auto simp: json_UnmarshalMap_def)

text \<open>A literal of up to 308 digits without an exponent is never too big.\<close>

lemma digits_value_bound: "\<forall>c \<in> set ds. digit c \<Longrightarrow> digits_value ds < 10 ^ length ds"
proof (induction ds rule: rev_induct)
  case (snoc c ds)
  then have "digits_value ds + 1 \<le> 10 ^ length ds" "(of_char c :: nat) - 48 \<le> 9"
    by (auto simp: digit_def)
  then show ?case by (simp add: digits_value_def)
qed (simp add: digits_value_def)

lemma small_number_fits:
  assumes "length s \<le> 308" "\<forall>c \<in> set s. digit c"
  shows "\<not> number_overflows s"
proof -
  have "CHR ''-'' \<notin> set s" "CHR ''e'' \<notin> set s" "CHR ''E'' \<notin> set s"
    using assms(2) by (auto simp: digit_def)
  then have s0: "(case s of c # r \<Rightarrow> if c = CHR ''-'' then r else s | [] \<Rightarrow> []) = s"
    and e: "dropWhile (\<lambda>c. c \<noteq> CHR ''e'' \<and> c \<noteq> CHR ''E'') s = []"
    by (auto split: list.splits)
  have whole: "takeWhile digit s = s" "dropWhile digit s = []"
    using assms(2) by (simp_all add: takeWhile_eq_all_conv)
  have "decimal_parts s = (digits_value s, 0)"
    by (simp add: decimal_parts_def Let_def s0 e whole fraction_digits_def signed_exponent_def)
  moreover have "digits_value s < 10 ^ 308"
    using digits_value_bound [OF assms(2)] power_increasing [OF assms(1), of "10 :: nat"] by simp
  moreover have "(10 :: nat) ^ 308 \<le> float_limit" by (simp add: float_limit_def)
  ultimately show ?thesis by (simp add: number_overflows_def)
qed

end
