(* ===== verification/GoUtf8.thy ===== *)
theory GoUtf8
  imports Prelude
begin

section \<open>UTF-8\<close>

text \<open>
  Package \<open>unicode/utf8\<close> as far as \<open>encoding/json\<close> uses it. Go strings are bytes; the JSON reader and the
  writer go through them rune by rune and replace every byte that starts no valid encoding by U+FFFD.
\<close>

definition byte :: "nat \<Rightarrow> char" where
  "byte n = char_of n"

text \<open>\<open>utf8.AppendRune\<close>\<close>

definition utf8 :: "nat \<Rightarrow> string" where
  "utf8 n =
     (if n < 0x80 then [byte n]
      else if n < 0x800 then [byte (0xC0 + n div 64), byte (0x80 + n mod 64)]
      else if n < 0x10000 then
        [byte (0xE0 + n div 4096), byte (0x80 + n div 64 mod 64), byte (0x80 + n mod 64)]
      else [byte (0xF0 + n div 262144), byte (0x80 + n div 4096 mod 64), byte (0x80 + n div 64 mod 64),
        byte (0x80 + n mod 64)])"

text \<open>
  What the first byte of a rune outside ASCII says: how many bytes the rune has, and which second bytes go
  with it (the others are continuation bytes). The bounds exclude overlong encodings, surrogates and
  numbers above U+10FFFF.
\<close>

definition utf8_lead :: "nat \<Rightarrow> (nat \<times> nat \<times> nat) option" where
  "utf8_lead n =
     (if 0xC2 \<le> n \<and> n \<le> 0xDF then Some (2, 0x80, 0xBF)
      else if n = 0xE0 then Some (3, 0xA0, 0xBF)
      else if n = 0xED then Some (3, 0x80, 0x9F)
      else if 0xE1 \<le> n \<and> n \<le> 0xEF then Some (3, 0x80, 0xBF)
      else if n = 0xF0 then Some (4, 0x90, 0xBF)
      else if 0xF1 \<le> n \<and> n \<le> 0xF3 then Some (4, 0x80, 0xBF)
      else if n = 0xF4 then Some (4, 0x80, 0x8F)
      else None)"

definition continuation :: "char \<Rightarrow> bool" where
  "continuation c \<longleftrightarrow> 0x80 \<le> (of_char c :: nat) \<and> (of_char c :: nat) \<le> 0xBF"

text \<open>The size that \<open>utf8.DecodeRune\<close> finds, or 0 where it finds an error (and moves on by one byte).\<close>

fun utf8_size :: "string \<Rightarrow> nat" where
  "utf8_size [] = 0"
| "utf8_size (c # s) =
     (if (of_char c :: nat) < 0x80 then 1
      else (case utf8_lead (of_char c) of
         None \<Rightarrow> 0
       | Some (k, lo, hi) \<Rightarrow>
           if k \<le> Suc (length s) \<and> lo \<le> of_char (s ! 0) \<and> of_char (s ! 0) \<le> hi \<and>
              list_all continuation (take (k - 2) (drop 1 s))
           then k else 0))"

definition replacement :: string where
  "replacement = utf8 0xFFFD"

text \<open>A string after a reader has replaced what is not UTF-8.\<close>

function utf8_clean :: "string \<Rightarrow> string" where
  "utf8_clean [] = []"
| "utf8_clean (c # s) =
     (case utf8_size (c # s) of
        0 \<Rightarrow> replacement @ utf8_clean s
      | Suc k \<Rightarrow> c # take k s @ utf8_clean (drop k s))"
  by pat_completeness auto
termination by (relation "measure length") auto

function valid_utf8 :: "string \<Rightarrow> bool" where
  "valid_utf8 [] = True"
| "valid_utf8 (c # s) = (case utf8_size (c # s) of 0 \<Rightarrow> False | Suc k \<Rightarrow> valid_utf8 (drop k s))"
  by pat_completeness auto
termination by (relation "measure length") auto

lemma of_char_byte [simp]: "n < 256 \<Longrightarrow> (of_char (byte n) :: nat) = n"
  by (simp add: byte_def)

lemma utf8_size_ascii [simp]: "(of_char c :: nat) < 128 \<Longrightarrow> utf8_size (c # s) = 1"
  by simp

lemma utf8_lead_size: "utf8_lead n = Some (k, lo, hi) \<Longrightarrow> 2 \<le> k \<and> k \<le> 4 \<and> 0x80 \<le> lo \<and> hi \<le> 0xBF"
  by (auto simp: utf8_lead_def split: if_splits)

text \<open>The size is a matter of the bytes it counts.\<close>

lemma utf8_size_prefix:
  assumes "utf8_size (c # s) = Suc k"
  shows "k \<le> length s" "utf8_size (c # take k s @ t) = Suc k"
proof -
  have "k \<le> length s \<and> utf8_size (c # take k s @ t) = Suc k"
  proof (cases "(of_char c :: nat) < 128")
    case True
    with assms show ?thesis by simp
  next
    case False
    with assms obtain lo hi where lead: "utf8_lead (of_char c) = Some (Suc k, lo, hi)"
      and ok: "Suc k \<le> Suc (length s)" "lo \<le> of_char (s ! 0)" "of_char (s ! 0) \<le> hi"
        "list_all continuation (take (Suc k - 2) (drop 1 s))"
      by (auto split: option.splits if_splits)
    from utf8_lead_size [OF lead] have k: "1 \<le> k" by simp
    with ok(1) have "(take k s @ t) ! 0 = s ! 0"
      "take (Suc k - 2) (drop 1 (take k s @ t)) = take (Suc k - 2) (drop 1 s)"
      by (auto simp: nth_append drop_take min_def)
    with lead ok False show ?thesis by simp
  qed
  then show "k \<le> length s" "utf8_size (c # take k s @ t) = Suc k" by simp_all
qed

text \<open>All bytes of a rune outside ASCII lie outside ASCII.\<close>

lemma utf8_size_bytes:
  assumes "utf8_size (c # s) = Suc k" "\<not> (of_char c :: nat) < 128"
  shows "\<forall>d \<in> set (c # take k s). 128 \<le> (of_char d :: nat)"
proof -
  from assms obtain lo hi where lead: "utf8_lead (of_char c) = Some (Suc k, lo, hi)"
    and ok: "Suc k \<le> Suc (length s)" "lo \<le> of_char (s ! 0)" "list_all continuation (take (Suc k - 2) (drop 1 s))"
    by (auto split: option.splits if_splits)
  from utf8_lead_size [OF lead] have k: "1 \<le> k" "0x80 \<le> lo" by simp_all
  with ok(1) obtain d s' where s: "s = d # s'" by (cases s) auto
  from k(1) have "take k s = d # take (k - 1) s'" by (simp add: s take_Cons')
  with ok s k assms(2) show ?thesis by (auto simp: list_all_iff continuation_def)
qed

lemma utf8_clean_valid: "valid_utf8 s \<Longrightarrow> utf8_clean s = s"
proof (induction s rule: valid_utf8.induct)
  case (2 c s)
  then show ?case by (cases "utf8_size (c # s)") (auto simp del: utf8_size.simps)
qed simp

lemma valid_utf8_ascii: "\<forall>c \<in> set s. (of_char c :: nat) < 128 \<Longrightarrow> valid_utf8 s"
  by (induction s) (auto simp del: utf8_size.simps)

lemma utf8_clean_ascii: "\<forall>c \<in> set s. (of_char c :: nat) < 128 \<Longrightarrow> utf8_clean s = s"
  by (simp add: utf8_clean_valid valid_utf8_ascii)

text \<open>What \<open>AppendRune\<close> writes, \<open>DecodeRune\<close> reads: every code point but the surrogates.\<close>

lemma utf8_size_utf8:
  assumes "n < 0x110000" "\<not> (0xD800 \<le> n \<and> n < 0xE000)"
  shows "utf8_size (utf8 n @ t) = length (utf8 n)"
proof -
  consider "n < 0x80" | "0x80 \<le> n" "n < 0x800" | "0x800 \<le> n" "n < 0x10000" | "0x10000 \<le> n" by linarith
  then show ?thesis
  proof cases
    case 1
    then show ?thesis by (simp add: utf8_def)
  next
    case 2
    then have "n div 64 < 32" "2 \<le> n div 64" by linarith+
    with 2 show ?thesis by (simp add: utf8_def utf8_lead_def)
  next
    case 3
    have d: "n div 64 mod 64 < 64" "n mod 64 < 64" by simp_all
    from 3 have e: "n div 4096 < 16" by linarith
    have f: "32 \<le> n div 64 mod 64" if "n div 4096 = 0"
      using that 3 by (simp add: div_eq_0_iff)
    have g: "n div 64 mod 64 < 32" if "n div 4096 = 13"
    proof -
      from that have "n div 64 div 64 = 13" by (simp add: div_mult2_eq [symmetric])
      then have "n div 64 = 13 * 64 + n div 64 mod 64" by (metis div_mult_mod_eq)
      moreover from assms(2) that have "n < 0xD800" by linarith
      then have "n div 64 < 0x360" by linarith
      ultimately show ?thesis by linarith
    qed
    from 3 d e show ?thesis
      using f g by (auto simp: utf8_def utf8_lead_def continuation_def)
  next
    case 4
    have d: "n div 4096 mod 64 < 64" "n div 64 mod 64 < 64" "n mod 64 < 64" by simp_all
    from assms(1) have e: "n div 262144 \<le> 4" by linarith
    have f: "16 \<le> n div 4096 mod 64" if "n div 262144 = 0"
      using that 4 by (simp add: div_eq_0_iff)
    have g: "n div 4096 mod 64 \<le> 15" if "n div 262144 = 4"
    proof -
      from that have "n div 4096 div 64 = 4" by (simp add: div_mult2_eq [symmetric])
      then have "n div 4096 = 4 * 64 + n div 4096 mod 64" by (metis div_mult_mod_eq)
      moreover from assms(1) have "n div 4096 < 0x110" by linarith
      ultimately show ?thesis by linarith
    qed
    from 4 d e show ?thesis
      using f g by (auto simp: utf8_def utf8_lead_def continuation_def)
  qed
qed

end
