(* ===== verification/GoJsonText.thy ===== *)
theory GoJsonText
  imports JsonDecode GoUtf8
begin

section \<open>Reading JSON text\<close>

text \<open>
  What \<open>encoding/json\<close> accepts as a document and which tree it reads: the code applies \<open>json.Unmarshal\<close>
  to the log of a scan pod. The parser has fuel; \<open>parse_fuel\<close> shows that the fuel it starts with is
  always enough. Text is a list of bytes; in string literals bytes that are not valid UTF-8 are replaced.
\<close>

definition json_space :: "char \<Rightarrow> bool" where
  "json_space c \<longleftrightarrow> c = CHR '' '' \<or> c = CHR 0x09 \<or> c = CHR 0x0A \<or> c = CHR 0x0D"

definition skip_ws :: "string \<Rightarrow> string" where
  "skip_ws s = dropWhile json_space s"

subsection \<open>Strings\<close>

definition hex_value :: "char \<Rightarrow> nat option" where
  "hex_value c =
     (let n = of_char c :: nat in
      if 48 \<le> n \<and> n \<le> 57 then Some (n - 48)
      else if 65 \<le> n \<and> n \<le> 70 then Some (n - 55)
      else if 97 \<le> n \<and> n \<le> 102 then Some (n - 87) else None)"

definition hex4 :: "string \<Rightarrow> nat option" where
  "hex4 s =
     (case map hex_value (take 4 s) of
        [Some a, Some b, Some c, Some d] \<Rightarrow> Some (((a * 16 + b) * 16 + c) * 16 + d)
      | _ \<Rightarrow> None)"

text \<open>The escape \<open>\u\<close>: a surrogate pair is one code point, a lone surrogate the replacement character.\<close>

definition unicode_escape :: "nat \<Rightarrow> string \<Rightarrow> string \<times> nat" where
  "unicode_escape n s =
     (if 0xD800 \<le> n \<and> n < 0xDC00 \<and> take 2 s = [CHR 0x5C, CHR ''u''] then
        (case hex4 (drop 2 s) of
           Some m \<Rightarrow> if 0xDC00 \<le> m \<and> m < 0xE000
                     then (utf8 (0x10000 + (n - 0xD800) * 1024 + (m - 0xDC00)), 6) else (utf8 0xFFFD, 0)
         | None \<Rightarrow> (utf8 0xFFFD, 0))
      else if 0xD800 \<le> n \<and> n < 0xE000 then (utf8 0xFFFD, 0)
      else (utf8 n, 0))"

definition simple_escape :: "char \<Rightarrow> char option" where
  "simple_escape e =
     (if e = CHR 0x22 \<or> e = CHR 0x5C \<or> e = CHR ''/'' then Some e
      else if e = CHR ''b'' then Some (CHR 0x08)
      else if e = CHR ''f'' then Some (CHR 0x0C)
      else if e = CHR ''n'' then Some (CHR 0x0A)
      else if e = CHR ''r'' then Some (CHR 0x0D)
      else if e = CHR ''t'' then Some (CHR 0x09) else None)"

text \<open>The rest of a string literal after its opening quote.\<close>

function parse_chars :: "string \<Rightarrow> (string \<times> string) option" where
  "parse_chars [] = None"
| "parse_chars (c # s) =
     (if c = CHR 0x22 then Some ([], s)
      else if c = CHR 0x5C then
        (case s of
           [] \<Rightarrow> None
         | e # s1 \<Rightarrow>
             if e = CHR ''u'' then
               (case hex4 s1 of
                  None \<Rightarrow> None
                | Some n \<Rightarrow>
                    let (out, skip) = unicode_escape n (drop 4 s1) in
                    map_option (\<lambda>(t, r). (out @ t, r)) (parse_chars (drop skip (drop 4 s1))))
             else
               (case simple_escape e of
                  None \<Rightarrow> None
                | Some x \<Rightarrow> map_option (\<lambda>(t, r). (x # t, r)) (parse_chars s1)))
      else if (of_char c :: nat) < 32 then None
      else (case utf8_size (c # s) of
          0 \<Rightarrow> map_option (\<lambda>(t, r). (replacement @ t, r)) (parse_chars s)
        | Suc k \<Rightarrow> map_option (\<lambda>(t, r). (c # take k s @ t, r)) (parse_chars (drop k s))))"
  by pat_completeness auto
termination by (relation "measure length") auto

subsection \<open>Numbers\<close>

definition parse_digits :: "string \<Rightarrow> (string \<times> string) option" where
  "parse_digits s = (let ds = takeWhile digit s in if ds = [] then None else Some (ds, dropWhile digit s))"

definition parse_int_part :: "string \<Rightarrow> (string \<times> string) option" where
  "parse_int_part s =
     (case s of c # r \<Rightarrow> if c = CHR ''0'' then Some ([c], r) else parse_digits s | [] \<Rightarrow> None)"

definition parse_frac :: "string \<Rightarrow> (string \<times> string) option" where
  "parse_frac s =
     (case s of c # r \<Rightarrow> if c = CHR ''.'' then map_option (\<lambda>(ds, r'). (c # ds, r')) (parse_digits r)
        else Some ([], s) | [] \<Rightarrow> Some ([], s))"

definition parse_exp :: "string \<Rightarrow> (string \<times> string) option" where
  "parse_exp s =
     (case s of
        c # r \<Rightarrow>
          if c = CHR ''e'' \<or> c = CHR ''E'' then
            (case r of
               g # r1 \<Rightarrow> if g = CHR ''+'' \<or> g = CHR ''-'' then map_option (\<lambda>(ds, r'). (c # g # ds, r')) (parse_digits r1)
                 else map_option (\<lambda>(ds, r'). (c # ds, r')) (parse_digits r)
             | [] \<Rightarrow> None)
          else Some ([], s)
      | [] \<Rightarrow> Some ([], s))"

definition parse_number :: "string \<Rightarrow> (json \<times> string) option" where
  "parse_number s =
     (let (sign, s0) = (case s of c # r \<Rightarrow> if c = CHR ''-'' then ([c], r) else ([], s) | [] \<Rightarrow> ([], s)) in
      case parse_int_part s0 of None \<Rightarrow> None | Some (i, s1) \<Rightarrow>
      (case parse_frac s1 of None \<Rightarrow> None | Some (f, s2) \<Rightarrow>
      (case parse_exp s2 of None \<Rightarrow> None | Some (e, s3) \<Rightarrow> Some (JNum (sign @ i @ f @ e), s3))))"

subsection \<open>Values\<close>

definition parse_literal :: "string \<Rightarrow> json \<Rightarrow> string \<Rightarrow> (json \<times> string) option" where
  "parse_literal lit v s = (if take (length lit) s = lit then Some (v, drop (length lit) s) else None)"

text \<open>The first argument is fuel, the second how many containers may still be opened.\<close>

fun parse_value :: "nat \<Rightarrow> nat \<Rightarrow> string \<Rightarrow> (json \<times> string) option"
  and parse_elems :: "nat \<Rightarrow> nat \<Rightarrow> string \<Rightarrow> (json list \<times> string) option"
  and parse_members :: "nat \<Rightarrow> nat \<Rightarrow> string \<Rightarrow> ((string \<times> json) list \<times> string) option" where
  "parse_value 0 d s = None"
| "parse_value (Suc n) d s =
     (case skip_ws s of
        [] \<Rightarrow> None
      | c # r \<Rightarrow>
          if c = CHR ''{'' then
            (case d of 0 \<Rightarrow> None | Suc d' \<Rightarrow>
               if take 1 (skip_ws r) = ''}'' then Some (JObj [], drop 1 (skip_ws r))
               else map_option (\<lambda>(ms, r'). (JObj ms, r')) (parse_members n d' r))
          else if c = CHR ''['' then
            (case d of 0 \<Rightarrow> None | Suc d' \<Rightarrow>
               if take 1 (skip_ws r) = '']'' then Some (JArr [], drop 1 (skip_ws r))
               else map_option (\<lambda>(vs, r'). (JArr vs, r')) (parse_elems n d' r))
          else if c = CHR 0x22 then map_option (\<lambda>(t, r'). (JStr t, r')) (parse_chars r)
          else if c = CHR ''t'' then parse_literal ''true'' (JBool True) (c # r)
          else if c = CHR ''f'' then parse_literal ''false'' (JBool False) (c # r)
          else if c = CHR ''n'' then parse_literal ''null'' JNull (c # r)
          else parse_number (c # r))"
| "parse_elems 0 d s = None"
| "parse_elems (Suc n) d s =
     (case parse_value n d s of
        None \<Rightarrow> None
      | Some (v, r) \<Rightarrow>
          (case skip_ws r of
             [] \<Rightarrow> None
           | c # r' \<Rightarrow>
               if c = CHR '','' then map_option (\<lambda>(vs, t). (v # vs, t)) (parse_elems n d r')
               else if c = CHR '']'' then Some ([v], r') else None))"
| "parse_members 0 d s = None"
| "parse_members (Suc n) d s =
     (case skip_ws s of
        [] \<Rightarrow> None
      | q # s1 \<Rightarrow>
          if q \<noteq> CHR 0x22 then None
          else (case parse_chars s1 of
             None \<Rightarrow> None
           | Some (k, s2) \<Rightarrow>
               (case skip_ws s2 of
                  [] \<Rightarrow> None
                | co # s3 \<Rightarrow>
                    if co \<noteq> CHR '':'' then None
                    else (case parse_value n d s3 of
                       None \<Rightarrow> None
                     | Some (v, s4) \<Rightarrow>
                         (case skip_ws s4 of
                            [] \<Rightarrow> None
                          | c # s5 \<Rightarrow>
                              if c = CHR '','' then map_option (\<lambda>(ms, t). ((k, v) # ms, t)) (parse_members n d s5)
                              else if c = CHR ''}'' then Some ([(k, v)], s5) else None)))))"

definition max_json_depth :: nat where
  "max_json_depth = 10000"

definition parse_json :: "string \<Rightarrow> json option" where
  "parse_json s =
     (case parse_value (2 * length s + 2) max_json_depth s of
        None \<Rightarrow> None
      | Some (v, r) \<Rightarrow> if skip_ws r = [] then Some v else None)"

subsection \<open>The fuel is enough\<close>

lemma length_skip_ws: "length (skip_ws s) \<le> length s"
  by (simp add: skip_ws_def length_dropWhile_le)

lemma skip_ws_Cons: "skip_ws s = c # r \<Longrightarrow> length r < length s"
  using length_skip_ws [of s] by simp

lemma parse_chars_shorter: "parse_chars s = Some (t, r) \<Longrightarrow> length r < length s"
  by (induction s arbitrary: t r rule: parse_chars.induct)
    (force simp del: utf8_size.simps split: if_splits list.splits option.splits prod.splits nat.splits)+

lemma parse_digits_shorter: "parse_digits s = Some (t, r) \<Longrightarrow> length r < length s"
proof (induction s)
  case (Cons c s)
  then show ?case
    using length_dropWhile_le [of digit s] by (auto simp: parse_digits_def Let_def split: if_splits)
qed (simp add: parse_digits_def)

lemma parse_int_part_shorter: "parse_int_part s = Some (t, r) \<Longrightarrow> length r < length s"
  by (auto simp: parse_int_part_def split: list.splits if_splits dest: parse_digits_shorter)

lemma parse_frac_shorter: "parse_frac s = Some (t, r) \<Longrightarrow> length r \<le> length s"
  by (auto simp: parse_frac_def split: list.splits if_splits dest!: parse_digits_shorter)

lemma parse_exp_shorter: "parse_exp s = Some (t, r) \<Longrightarrow> length r \<le> length s"
  by (auto simp: parse_exp_def split: list.splits if_splits dest!: parse_digits_shorter)

lemma parse_number_shorter: "parse_number s = Some (v, r) \<Longrightarrow> length r < length s"
  by (auto simp: parse_number_def Let_def split: list.splits if_splits option.splits
      dest!: parse_int_part_shorter parse_frac_shorter parse_exp_shorter)

lemma parse_literal_shorter: "parse_literal lit v s = Some (w, r) \<Longrightarrow> s \<noteq> [] \<Longrightarrow> lit \<noteq> [] \<Longrightarrow> length r < length s"
  by (auto simp: parse_literal_def split: if_splits)

lemma drop_shorter: "length (drop 1 (skip_ws r)) \<le> length r"
  using length_skip_ws [of r] by (metis diff_le_self length_drop order_trans)

lemma parse_shorter:
  "parse_value n d s = Some (v, r) \<Longrightarrow> length r < length s"
  "parse_elems n d s = Some (vs, r) \<Longrightarrow> length r < length s"
  "parse_members n d s = Some (ms, r) \<Longrightarrow> length r < length s"
proof (induction n d s and n d s and n d s arbitrary: v r and vs r and ms r
    rule: parse_value_parse_elems_parse_members.induct)
  case (2 n d s)
  from 2(3) obtain c q where s: "skip_ws s = c # q" by (auto split: list.splits)
  from skip_ws_Cons [OF s] have q: "length q < length s" .
  have "length r \<le> length q"
  proof -
    consider "c = CHR ''{''" | "c = CHR ''[''" | "c = CHR 0x22" | "c \<noteq> CHR ''{'' \<and> c \<noteq> CHR ''['' \<and> c \<noteq> CHR 0x22"
      by blast
    then show ?thesis
    proof cases
      case 1
      with 2 s drop_shorter [of q] show ?thesis
        by (fastforce split: nat.splits if_splits)
    next
      case 2
      with "2.prems" "2.IH"(2) s drop_shorter [of q] show ?thesis
        by (fastforce split: nat.splits if_splits)
    next
      case 3
      with 2 s show ?thesis by (fastforce dest: parse_chars_shorter)
    next
      case 4
      with 2 s show ?thesis
        by (auto split: if_splits dest!: parse_literal_shorter parse_number_shorter)
    qed
  qed
  with q show ?case by simp
next
  case (4 n d s)
  then show ?case
    by (fastforce split: option.splits list.splits if_splits prod.splits dest: skip_ws_Cons)
next
  case (6 n d s)
  then show ?case
    by (fastforce split: option.splits list.splits if_splits prod.splits dest: skip_ws_Cons parse_chars_shorter)
qed simp_all

lemma parse_more_fuel:
  "2 * length s + 1 \<le> n \<Longrightarrow> parse_value (Suc n) d s = parse_value n d s"
  "2 * length s + 2 \<le> n \<Longrightarrow> parse_elems (Suc n) d s = parse_elems n d s"
  "2 * length s + 2 \<le> n \<Longrightarrow> parse_members (Suc n) d s = parse_members n d s"
proof (induction n d s and n d s and n d s rule: parse_value_parse_elems_parse_members.induct)
  case (2 n d s)
  show ?case
  proof (cases "skip_ws s")
    case (Cons c q)
    from skip_ws_Cons [OF Cons] 2(3) have "2 * length q + 2 \<le> n" by simp
    with 2 Cons show ?thesis by (auto split: nat.splits)
  qed simp
next
  case (4 n d s)
  from 4(3) have v: "parse_value (Suc n) d s = parse_value n d s" by (intro 4(1)) simp
  show ?case
  proof (cases "parse_value n d s")
    case None
    with v show ?thesis by simp
  next
    case (Some vr)
    then obtain x r where x: "parse_value n d s = Some (x, r)" by (cases vr) auto
    show ?thesis
    proof (cases "skip_ws r")
      case (Cons c q)
      have "2 * length q + 2 \<le> n"
        using skip_ws_Cons [OF Cons] parse_shorter(1) [OF x] 4(3) by simp
      with 4(2) [OF x refl Cons] x v Cons show ?thesis
        by (simp only: parse_elems.simps) simp
    qed (use x v in \<open>simp only: parse_elems.simps, simp\<close>)
  qed
next
  case (6 n d s)
  show ?case
  proof (cases "\<exists>s1 k s2 s3. skip_ws s = CHR 0x22 # s1 \<and> parse_chars s1 = Some (k, s2) \<and> skip_ws s2 = CHR '':'' # s3")
    case True
    then obtain s1 k s2 s3 where pre: "skip_ws s = CHR 0x22 # s1" "parse_chars s1 = Some (k, s2)"
      "skip_ws s2 = CHR '':'' # s3" by blast
    have short: "length s3 < length s"
      using skip_ws_Cons [OF pre(1)] parse_chars_shorter [OF pre(2)] skip_ws_Cons [OF pre(3)] by simp
    have v: "parse_value (Suc n) d s3 = parse_value n d s3"
      using 6(1) [OF pre(1) _ pre(2) refl pre(3)] short 6(3) by simp
    show ?thesis
    proof (cases "parse_value n d s3")
      case None
      with v pre show ?thesis by (simp only: parse_members.simps) simp
    next
      case (Some vr)
      then obtain x r where x: "parse_value n d s3 = Some (x, r)" by (cases vr) auto
      show ?thesis
      proof (cases "skip_ws r")
        case (Cons c q)
        have "2 * length q + 2 \<le> n"
          using skip_ws_Cons [OF Cons] parse_shorter(1) [OF x] short 6(3) by simp
        with 6(2) [OF pre(1) _ pre(2) refl pre(3) _ x refl Cons] have
          "c = CHR '','' \<Longrightarrow> parse_members (Suc n) d q = parse_members n d q" by simp
        with x v pre Cons show ?thesis by (simp only: parse_members.simps) simp
      qed (use x v pre in \<open>simp only: parse_members.simps, simp\<close>)
    qed
  next
    case False
    then show ?thesis by (auto split: list.splits option.splits)
  qed
qed simp_all

text \<open>Any larger fuel reads the same: a document is rejected for its text, never for lack of fuel.\<close>

lemma parse_fuel:
  assumes "2 * length s + 2 \<le> n"
  shows "parse_value n d s = parse_value (2 * length s + 2) d s"
  using assms
proof (induction n rule: dec_induct)
  case (step n)
  then show ?case using parse_more_fuel(1) [of s n d] by simp
qed simp

text \<open>
  The fuel that \<open>parse_json\<close> takes from the length of the text is enough: any larger amount gives the same
  document, or the same rejection.
\<close>

lemma parse_json_fuel_enough:
  assumes "2 * length s + 2 \<le> fuel"
  shows "parse_json s = (case parse_value fuel max_json_depth s of
      None \<Rightarrow> None | Some (v, r) \<Rightarrow> if skip_ws r = [] then Some v else None)"
  by (simp add: parse_json_def parse_fuel [OF assms])

end
