(* ===== verification/JsonEncode.thy ===== *)
theory JsonEncode
  imports GoJsonText
begin

section \<open>Writing JSON text\<close>

text \<open>
  What \<open>Marshal\<close> of \<open>encoding/json\<close> writes for a document (\<open>util/json\<close> delegates to it): no white space, strings with the escapes of the package
  (the ASCII ones, those for HTML, and those for U+2028 and U+2029). The trees of the operator's structs
  hold strings, booleans and integers only, which \<open>Marshal\<close> never refuses. The reader of \<open>GoJsonText\<close>
  reads what is written here.
\<close>

subsection \<open>Strings\<close>

definition hex_digit :: "nat \<Rightarrow> char" where
  "hex_digit n = byte (if n < 10 then 48 + n else 87 + n)"

definition json_escape :: "char \<Rightarrow> string" where
  "json_escape c =
     (if c = CHR 0x22 \<or> c = CHR 0x5C then [CHR 0x5C, c]
      else if c = CHR 0x08 then [CHR 0x5C, CHR ''b'']
      else if c = CHR 0x0C then [CHR 0x5C, CHR ''f'']
      else if c = CHR 0x0A then [CHR 0x5C, CHR ''n'']
      else if c = CHR 0x0D then [CHR 0x5C, CHR ''r'']
      else if c = CHR 0x09 then [CHR 0x5C, CHR ''t'']
      else if (of_char c :: nat) < 32 \<or> c = CHR ''<'' \<or> c = CHR ''>'' \<or> c = CHR ''&'' then
        [CHR 0x5C, CHR ''u'', CHR ''0'', CHR ''0'', hex_digit (of_char c div 16), hex_digit (of_char c mod 16)]
      else [c])"

definition line_separator :: "string \<Rightarrow> bool" where
  "line_separator s \<longleftrightarrow> s = utf8 0x2028 \<or> s = utf8 0x2029"

function json_chars :: "string \<Rightarrow> string" where
  "json_chars [] = []"
| "json_chars (c # s) =
     (if (of_char c :: nat) < 0x80 then json_escape c @ json_chars s
      else (case utf8_size (c # s) of
          0 \<Rightarrow> CHR 0x5C # ''ufffd'' @ json_chars s
        | Suc k \<Rightarrow>
            (if line_separator (c # take k s) then CHR 0x5C # ''u202'' @ [hex_digit (of_char (last (c # take k s)) mod 16)]
             else c # take k s) @ json_chars (drop k s)))"
  by pat_completeness auto
termination by (relation "measure length") auto

definition json_string :: "string \<Rightarrow> string" where
  "json_string s = [CHR 0x22] @ json_chars s @ [CHR 0x22]"

subsection \<open>Documents\<close>

fun commas :: "string list \<Rightarrow> string" where
  "commas [] = []"
| "commas [s] = s"
| "commas (s # ss) = s @ '','' @ commas ss"

fun json_text :: "json \<Rightarrow> string" where
  "json_text JNull = ''null''"
| "json_text (JBool b) = (if b then ''true'' else ''false'')"
| "json_text (JNum n) = n"
| "json_text (JStr s) = json_string s"
| "json_text (JArr vs) = ''['' @ commas (map json_text vs) @ '']''"
| "json_text (JObj ms) = ''{'' @ commas (map (\<lambda>m. json_string (fst m) @ '':'' @ json_text (snd m)) ms) @ ''}''"

definition json_Marshal :: "json \<Rightarrow> go_error + string" where
  "json_Marshal v = Inr (json_text v)"

subsection \<open>What a reader gets\<close>

text \<open>The same document, with the strings made valid UTF-8.\<close>

fun json_clean :: "json \<Rightarrow> json" where
  "json_clean (JStr s) = JStr (utf8_clean s)"
| "json_clean (JArr vs) = JArr (map json_clean vs)"
| "json_clean (JObj ms) = JObj (map (\<lambda>m. (utf8_clean (fst m), json_clean (snd m))) ms)"
| "json_clean v = v"

fun json_depth :: "json \<Rightarrow> nat" where
  "json_depth (JArr vs) = Suc (fold max (map json_depth vs) 0)"
| "json_depth (JObj ms) = Suc (fold max (map (\<lambda>m. json_depth (snd m)) ms) 0)"
| "json_depth v = 0"

text \<open>Numbers are written as they are, so they have to be number literals.\<close>

definition number_literal :: "string \<Rightarrow> bool" where
  "number_literal s \<longleftrightarrow> parse_number s = Some (JNum s, [])"

fun json_numbers_ok :: "json \<Rightarrow> bool" where
  "json_numbers_ok (JNum s) = number_literal s"
| "json_numbers_ok (JArr vs) = list_all json_numbers_ok vs"
| "json_numbers_ok (JObj ms) = list_all (\<lambda>m. json_numbers_ok (snd m)) ms"
| "json_numbers_ok v = True"

subsection \<open>Strings are read back\<close>

lemma hex_value_digit: "n < 16 \<Longrightarrow> hex_value (hex_digit n) = Some n"
  by (simp add: hex_value_def hex_digit_def Let_def)

lemma hex4_ascii: "n < 256 \<Longrightarrow> hex4 (CHR ''0'' # CHR ''0'' # hex_digit (n div 16) # hex_digit (n mod 16) # r) = Some n"
proof -
  assume n: "n < 256"
  have "hex_value (CHR ''0'') = Some 0" by (simp add: hex_value_def)
  moreover have "n div 16 < 16" using n by linarith
  ultimately show ?thesis by (simp add: hex4_def hex_value_digit)
qed

lemma parse_chars_escape:
  assumes "(of_char c :: nat) < 128"
  shows "parse_chars (json_escape c @ r) = map_option (\<lambda>(t, r'). (c # t, r')) (parse_chars r)"
proof -
  have u: "parse_chars (CHR 0x5C # CHR ''u'' # CHR ''0'' # CHR ''0'' # hex_digit (of_char c div 16) #
      hex_digit (of_char c mod 16) # r) = map_option (\<lambda>(t, r'). (c # t, r')) (parse_chars r)"
    using assms hex4_ascii [of "of_char c" r] by (simp add: unicode_escape_def utf8_def byte_def)
  show ?thesis
    using u assms by (auto simp: json_escape_def simple_escape_def simp del: utf8_size.simps)
qed

lemma line_separator_escape:
  assumes "line_separator s"
  shows "parse_chars (CHR 0x5C # ''u202'' @ [hex_digit (of_char (last s) mod 16)] @ r) =
    map_option (\<lambda>(t, r'). (s @ t, r')) (parse_chars r)"
  using assms unfolding line_separator_def
  by (elim disjE) (simp_all add: hex4_def hex_value_def hex_digit_def unicode_escape_def utf8_def byte_def)

lemma parse_json_chars: "parse_chars (json_chars s @ CHR 0x22 # r) = Some (utf8_clean s, r)"
proof (induction s rule: json_chars.induct)
  case (2 c s)
  show ?case
  proof (cases "(of_char c :: nat) < 128")
    case True
    with 2(1) show ?thesis by (simp add: parse_chars_escape del: parse_chars.simps)
  next
    case False
    show ?thesis
    proof (cases "utf8_size (c # s)")
      case 0
      have "parse_chars (CHR 0x5C # ''ufffd'' @ t) = map_option (\<lambda>(u, r'). (replacement @ u, r')) (parse_chars t)" for t
        by (simp add: hex4_def hex_value_def unicode_escape_def replacement_def)
      with 2(2) [OF _ 0] False 0 show ?thesis by (simp del: parse_chars.simps utf8_size.simps)
    next
      case (Suc k)
      let ?t = "json_chars (drop k s) @ CHR 0x22 # r"
      from 2(3) [OF _ Suc] False have IH: "parse_chars ?t = Some (utf8_clean (drop k s), r)" by simp
      show ?thesis
      proof (cases "line_separator (c # take k s)")
        case True
        with line_separator_escape [OF True, of ?t] IH False Suc show ?thesis
          by (simp del: parse_chars.simps utf8_size.simps)
      next
        case ordinary: False
        have "c \<noteq> CHR 0x22 \<and> c \<noteq> CHR 0x5C" "\<not> (of_char c :: nat) < 32" using False by auto
        with utf8_size_prefix(2) [OF Suc, of ?t] utf8_size_prefix(1) [OF Suc]
        have "parse_chars (c # take k s @ ?t) = map_option (\<lambda>(t, r). (c # take k s @ t, r)) (parse_chars ?t)"
          by (simp del: utf8_size.simps)
        with IH ordinary False Suc show ?thesis by (simp del: parse_chars.simps utf8_size.simps)
      qed
    qed
  qed
qed simp

subsection \<open>Numbers are read back\<close>

text \<open>What may follow a number: in a document, a comma, a closing bracket or the end.\<close>

definition ends_number :: "string \<Rightarrow> bool" where
  "ends_number r \<longleftrightarrow> (case r of [] \<Rightarrow> True | c # _ \<Rightarrow> \<not> digit c \<and> c \<noteq> CHR ''.'' \<and> c \<noteq> CHR ''e'' \<and> c \<noteq> CHR ''E'')"

lemma ends_number_simps [simp]: "ends_number []" "ends_number (CHR '','' # r)" "ends_number (CHR '']'' # r)"
  "ends_number (CHR ''}'' # r)"
  by (simp_all add: ends_number_def digit_def)

lemma ends_numberD: "ends_number r \<Longrightarrow> takeWhile digit r = [] \<and> dropWhile digit r = r"
  by (cases r) (auto simp: ends_number_def)

lemma parse_digits_append:
  assumes "parse_digits s = Some (ds, t)" "ends_number r"
  shows "parse_digits (s @ r) = Some (ds, t @ r)"
proof -
  from assms(1) have s: "ds = takeWhile digit s" "t = dropWhile digit s" "ds \<noteq> []"
    by (auto simp: parse_digits_def Let_def split: if_splits)
  have "takeWhile digit (s @ r) = ds \<and> dropWhile digit (s @ r) = t @ r"
  proof (cases "\<forall>c \<in> set s. digit c")
    case True
    then have "takeWhile digit s = s" "dropWhile digit s = []" by (simp_all add: takeWhile_eq_all_conv)
    with True ends_numberD [OF assms(2)] s show ?thesis by (simp add: takeWhile_append2 dropWhile_append2)
  next
    case False
    then obtain c where "c \<in> set s" "\<not> digit c" by blast
    with s show ?thesis by (simp add: takeWhile_append1 dropWhile_append1)
  qed
  with s(3) show ?thesis by (simp add: parse_digits_def Let_def)
qed

lemma parse_int_part_append:
  "parse_int_part s = Some (i, t) \<Longrightarrow> ends_number r \<Longrightarrow> parse_int_part (s @ r) = Some (i, t @ r)"
  using parse_digits_append [of s i t r] by (auto simp: parse_int_part_def split: list.splits if_splits)

lemma parse_frac_append:
  assumes "parse_frac s = Some (f, t)" "ends_number r"
  shows "parse_frac (s @ r) = Some (f, t @ r)"
proof (cases s)
  case Nil
  with assms show ?thesis by (auto simp: parse_frac_def ends_number_def split: list.splits)
next
  case (Cons c q)
  with assms(1) parse_digits_append [OF _ assms(2), of q] show ?thesis
    by (auto simp: parse_frac_def split: if_splits)
qed

lemma parse_exp_append:
  assumes "parse_exp s = Some (e, t)" "ends_number r"
  shows "parse_exp (s @ r) = Some (e, t @ r)"
proof (cases s)
  case Nil
  with assms show ?thesis by (auto simp: parse_exp_def ends_number_def split: list.splits)
next
  case (Cons c q)
  with assms(1) parse_digits_append [OF _ assms(2)] show ?thesis
    by (fastforce simp: parse_exp_def split: if_splits list.splits)
qed

lemma parse_number_append:
  assumes "number_literal s" "ends_number r"
  shows "parse_number (s @ r) = Some (JNum s, r)"
proof -
  let ?split = "\<lambda>s. case s of c # q \<Rightarrow> if c = CHR ''-'' then ([c], q) else ([], s) | [] \<Rightarrow> ([], s)"
  obtain sign s0 where sign: "?split s = (sign, s0)" by fastforce
  from assms(1) obtain i s1 f s2 e where parts: "parse_int_part s0 = Some (i, s1)" "parse_frac s1 = Some (f, s2)"
    "parse_exp s2 = Some (e, [])" "s = sign @ i @ f @ e"
    by (auto simp: number_literal_def parse_number_def sign split: option.splits)
  have "s \<noteq> []" using assms(1) by (auto simp: number_literal_def parse_number_def parse_int_part_def)
  with sign have "?split (s @ r) = (sign, s0 @ r)" by (cases s) (auto split: if_splits)
  then have "parse_number (s @ r) = Some (JNum (sign @ i @ f @ e), r)"
    using parse_int_part_append [OF parts(1) assms(2)] parse_frac_append [OF parts(2) assms(2)]
      parse_exp_append [OF parts(3) assms(2)] by (simp add: parse_number_def)
  with parts(4) show ?thesis by simp
qed

text \<open>The first character of a number decides that it is one.\<close>

lemma number_literal_first:
  assumes "number_literal s"
  obtains c q where "s = c # q" "c = CHR ''-'' \<or> digit c"
  using assms by (cases s)
    (auto simp: number_literal_def parse_number_def parse_int_part_def parse_digits_def digit_def Let_def
      split: if_splits option.splits)

lemma number_char:
  assumes "c = CHR ''-'' \<or> digit c"
  shows "c \<noteq> CHR ''{''" "c \<noteq> CHR ''[''" "c \<noteq> CHR 0x22" "c \<noteq> CHR ''t''" "c \<noteq> CHR ''f''" "c \<noteq> CHR ''n''"
    "\<not> json_space c" "c \<noteq> CHR '']''"
  using assms by (auto simp: digit_def json_space_def)

subsection \<open>Documents are read back\<close>

text \<open>With enough fuel the text \<open>s\<close> followed by \<open>r\<close> is read as \<open>v\<close>.\<close>

definition reads_value where
  "reads_value d s v \<longleftrightarrow> (\<forall>r. ends_number r \<longrightarrow> (\<exists>N. \<forall>n \<ge> N. parse_value n d (s @ r) = Some (v, r)))"

lemma reads_valueE:
  assumes "reads_value d s v" "ends_number r"
  obtains N where "\<And>n. N \<le> n \<Longrightarrow> parse_value n d (s @ r) = Some (v, r)"
  using assms by (auto simp: reads_value_def)

lemma enough_fuel: "(\<And>n. N \<le> n \<Longrightarrow> f (Suc n) = x) \<Longrightarrow> \<exists>N. \<forall>n \<ge> N. f n = x"
  by (intro exI [of _ "Suc N"] allI impI) (metis Suc_le_D Suc_le_mono)

lemma skip_ws_char [simp]: "\<not> json_space c \<Longrightarrow> skip_ws (c # s) = c # s"
  by (simp add: skip_ws_def)

lemma json_space_simps [simp]:
  "\<not> json_space (CHR '','')" "\<not> json_space (CHR '':'')" "\<not> json_space (CHR '']'')" "\<not> json_space (CHR ''}'')"
  "\<not> json_space (CHR ''['')" "\<not> json_space (CHR ''{'')" "\<not> json_space (CHR 0x22)" "\<not> json_space (CHR ''t'')"
  "\<not> json_space (CHR ''f'')" "\<not> json_space (CHR ''n'')"
  by (simp_all add: json_space_def)

lemma json_text_first:
  assumes "json_numbers_ok v"
  shows "\<exists>c q. json_text v = c # q \<and> \<not> json_space c \<and> c \<noteq> CHR '']''"
proof (cases v)
  case (JNum s)
  with assms obtain c q where "s = c # q" "c = CHR ''-'' \<or> digit c" using number_literal_first by auto
  with JNum number_char(7,8) [of c] show ?thesis by simp
qed (simp_all add: json_string_def)

lemma commas_Cons: "commas (s # ss) = s @ (if ss = [] then [] else '','' @ commas ss)"
  by (cases ss) simp_all

text \<open>The elements of an array, and the members of an object.\<close>

lemma parse_elems_text:
  assumes "\<forall>v \<in> set vs. reads_value d (json_text v) (json_clean v)" "vs \<noteq> []"
  shows "\<exists>N. \<forall>n \<ge> N. parse_elems n d (commas (map json_text vs) @ CHR '']'' # r) = Some (map json_clean vs, r)"
  using assms
proof (induction vs)
  case (Cons v vs)
  show ?case
  proof (cases "vs = []")
    case True
    from Cons.prems obtain N where "\<And>n. N \<le> n \<Longrightarrow> parse_value n d (json_text v @ CHR '']'' # r) = Some (json_clean v, CHR '']'' # r)"
      using reads_valueE [of d "json_text v" "json_clean v" "CHR '']'' # r"] by auto
    with True show ?thesis by (intro enough_fuel [of N]) simp
  next
    case False
    let ?rest = "commas (map json_text vs) @ CHR '']'' # r"
    from Cons.prems obtain N where N: "\<And>n. N \<le> n \<Longrightarrow>
        parse_value n d (json_text v @ CHR '','' # ?rest) = Some (json_clean v, CHR '','' # ?rest)"
      using reads_valueE [of d "json_text v" "json_clean v" "CHR '','' # ?rest"] by auto
    from Cons.IH Cons.prems False obtain M where M: "\<And>n. M \<le> n \<Longrightarrow> parse_elems n d ?rest = Some (map json_clean vs, r)"
      by auto
    show ?thesis
    proof (rule enough_fuel [of "max M N"])
      fix n assume "max M N \<le> n"
      with N [of n] M [of n] False
      show "parse_elems (Suc n) d (commas (map json_text (v # vs)) @ CHR '']'' # r) = Some (map json_clean (v # vs), r)"
        by (simp add: commas_Cons)
    qed
  qed
qed simp

abbreviation member_text :: "string \<times> json \<Rightarrow> string" where
  "member_text m \<equiv> json_string (fst m) @ '':'' @ json_text (snd m)"

abbreviation member_clean :: "string \<times> json \<Rightarrow> string \<times> json" where
  "member_clean m \<equiv> (utf8_clean (fst m), json_clean (snd m))"

lemma parse_members_text:
  assumes "\<forall>m \<in> set ms. reads_value d (json_text (snd m)) (json_clean (snd m))" "ms \<noteq> []"
  shows "\<exists>N. \<forall>n \<ge> N. parse_members n d (commas (map member_text ms) @ CHR ''}'' # r) = Some (map member_clean ms, r)"
  using assms
proof (induction ms)
  case (Cons m ms)
  show ?case
  proof (cases "ms = []")
    case True
    from Cons.prems obtain N where N: "\<And>n. N \<le> n \<Longrightarrow>
        parse_value n d (json_text (snd m) @ CHR ''}'' # r) = Some (json_clean (snd m), CHR ''}'' # r)"
      using reads_valueE [of d "json_text (snd m)" "json_clean (snd m)" "CHR ''}'' # r"] by auto
    with True show ?thesis
      by (intro enough_fuel [of N]) (simp add: json_string_def parse_json_chars del: parse_chars.simps)
  next
    case False
    let ?rest = "commas (map member_text ms) @ CHR ''}'' # r"
    from Cons.prems obtain N where N: "\<And>n. N \<le> n \<Longrightarrow>
        parse_value n d (json_text (snd m) @ CHR '','' # ?rest) = Some (json_clean (snd m), CHR '','' # ?rest)"
      using reads_valueE [of d "json_text (snd m)" "json_clean (snd m)" "CHR '','' # ?rest"] by auto
    from Cons.IH Cons.prems False obtain M where M: "\<And>n. M \<le> n \<Longrightarrow> parse_members n d ?rest = Some (map member_clean ms, r)"
      by auto
    show ?thesis
    proof (rule enough_fuel [of "max M N"])
      fix n assume "max M N \<le> n"
      with N [of n] M [of n] False
      show "parse_members (Suc n) d (commas (map member_text (m # ms)) @ CHR ''}'' # r) = Some (map member_clean (m # ms), r)"
        by (simp add: commas_Cons json_string_def parse_json_chars del: parse_chars.simps)
    qed
  qed
qed simp

lemma fold_max_le: "fold max ns k \<le> (d :: nat) \<longleftrightarrow> k \<le> d \<and> (\<forall>n \<in> set ns. n \<le> d)"
  by (induction ns arbitrary: k) auto

lemma json_depth_strings [simp]: "fold max (map (json_depth \<circ> JStr) ss) 0 = 0"
  by (induction ss) simp_all

lemma reads_json_text:
  "json_numbers_ok v \<Longrightarrow> json_depth v \<le> d \<Longrightarrow> reads_value d (json_text v) (json_clean v)"
proof (induction v arbitrary: d rule: json_text.induct)
  case 1
  show ?case unfolding reads_value_def by (intro allI impI enough_fuel [of 0]) (simp add: parse_literal_def)
next
  case (2 b)
  show ?case unfolding reads_value_def by (intro allI impI enough_fuel [of 0]) (simp add: parse_literal_def)
next
  case (3 s)
  then have s: "number_literal s" by simp
  then obtain c q where "s = c # q" "c = CHR ''-'' \<or> digit c" using number_literal_first by blast
  with parse_number_append [OF s] number_char [of c] show ?case
    unfolding reads_value_def by (intro allI impI enough_fuel [of 0]) simp
next
  case (4 s)
  show ?case unfolding reads_value_def
    by (intro allI impI enough_fuel [of 0]) (simp add: json_string_def parse_json_chars del: parse_chars.simps)
next
  case (5 vs)
  then obtain d' where d: "d = Suc d'" by (cases d) auto
  with 5 have vs: "\<forall>v \<in> set vs. reads_value d' (json_text v) (json_clean v)"
    by (auto simp: list_all_iff fold_max_le)
  show ?case unfolding reads_value_def
  proof (intro allI impI)
    fix r assume "ends_number r"
    show "\<exists>N. \<forall>n \<ge> N. parse_value n d (json_text (JArr vs) @ r) = Some (json_clean (JArr vs), r)"
    proof (cases vs)
      case Nil
      then show ?thesis by (intro enough_fuel [of 0]) (simp add: d)
    next
      case (Cons v us)
      with vs parse_elems_text [of vs d' r] obtain N where
        N: "\<And>n. N \<le> n \<Longrightarrow> parse_elems n d' (commas (map json_text vs) @ CHR '']'' # r) = Some (map json_clean vs, r)" by auto
      from 5(2) Cons obtain c q where "json_text v = c # q" "\<not> json_space c" "c \<noteq> CHR '']''"
        using json_text_first [of v] by (auto simp del: json_text.simps)
      then have "take 1 (skip_ws (commas (map json_text vs) @ CHR '']'' # r)) \<noteq> '']''"
        by (simp add: Cons commas_Cons)
      with N show ?thesis by (intro enough_fuel [of N]) (simp add: d)
    qed
  qed
next
  case (6 ms)
  then obtain d' where d: "d = Suc d'" by (cases d) auto
  with 6 have ms: "\<forall>m \<in> set ms. reads_value d' (json_text (snd m)) (json_clean (snd m))"
    by (auto simp: list_all_iff fold_max_le)
  show ?case unfolding reads_value_def
  proof (intro allI impI)
    fix r assume "ends_number r"
    show "\<exists>N. \<forall>n \<ge> N. parse_value n d (json_text (JObj ms) @ r) = Some (json_clean (JObj ms), r)"
    proof (cases ms)
      case Nil
      then show ?thesis by (intro enough_fuel [of 0]) (simp add: d)
    next
      case (Cons m us)
      with ms parse_members_text [of ms d' r] obtain N where
        N: "\<And>n. N \<le> n \<Longrightarrow> parse_members n d' (commas (map member_text ms) @ CHR ''}'' # r) = Some (map member_clean ms, r)" by auto
      have "take 1 (skip_ws (commas (map member_text ms) @ CHR ''}'' # r)) \<noteq> ''}''"
        by (simp add: Cons commas_Cons json_string_def)
      with N show ?thesis by (intro enough_fuel [of N]) (simp add: d)
    qed
  qed
qed

lemma parse_json_text:
  assumes "json_numbers_ok v" "json_depth v \<le> max_json_depth"
  shows "parse_json (json_text v) = Some (json_clean v)"
proof -
  let ?s = "json_text v"
  from reads_valueE [OF reads_json_text [OF assms], of "[]"] obtain N where
    "\<And>n. N \<le> n \<Longrightarrow> parse_value n max_json_depth ?s = Some (json_clean v, [])" by auto
  then have "parse_value (max N (2 * length ?s + 2)) max_json_depth ?s = Some (json_clean v, [])" by simp
  then have "parse_value (2 * length ?s + 2) max_json_depth ?s = Some (json_clean v, [])"
    using parse_fuel [of ?s "max N (2 * length ?s + 2)" max_json_depth] by simp
  then show ?thesis by (simp add: parse_json_def skip_ws_def)
qed

lemma json_Marshal_reads:
  assumes "json_numbers_ok v" "json_depth v \<le> max_json_depth"
  obtains s where "json_Marshal v = Inr s" "parse_json s = Some (json_clean v)"
  using parse_json_text [OF assms] by (simp add: json_Marshal_def)

end
