(* ===== verification/ApiClient.thy ===== *)
theory ApiClient
  imports EirenyxTypes LitmusTypes JsonEncode
begin

section \<open>The libraries the operator calls, as parameters\<close>

text \<open>
  Nothing of the API server, of controller-runtime and its \<open>controllerutil\<close>, is under \<open>src/\<close>: the
  model takes their operations as arguments. \<open>'w\<close> is the world they act on; nothing is known of it.
  \<open>kind_api\<close> holds the operations of \<open>client.Client\<close> on one kind of object, \<open>client\<close> those of all
  kinds, \<open>util\<close> the pure helpers. What a theorem needs of them it assumes as \<open>api_contract\<close>,
  \<open>util_contract\<close> or a part of them: the documented behaviour, for a direct client and without
  another writer during the call sequence of one reconcile.
\<close>

record ('w, 'o) kind_api =
  k_get :: "obj_key \<Rightarrow> ('w, 'o) ext"
  k_list :: "string \<Rightarrow> (string \<times> string) list \<Rightarrow> ('w, 'o list) ext"
  k_create :: "'o \<Rightarrow> ('w, 'o) ext"
  k_update :: "'o \<Rightarrow> ('w, 'o) ext"
  k_status_update :: "'o \<Rightarrow> ('w, 'o) ext"
  k_patch :: "'o \<Rightarrow> 'o \<Rightarrow> ('w, 'o) ext"
  k_delete :: "'o \<Rightarrow> ('w, unit) ext"
  k_create_or_update :: "'o \<Rightarrow> ('o \<Rightarrow> go_error + 'o) \<Rightarrow> ('w, 'o) ext"

record 'w client =
  cl_tools :: "('w, Tool) kind_api"
  cl_policies :: "('w, Policy) kind_api"
  cl_reports :: "('w, PolicyReport) kind_api"
  cl_jobs :: "('w, Job) kind_api"
  cl_configmaps :: "('w, ConfigMap) kind_api"
  cl_engines :: "('w, ChaosEngine) kind_api"
  cl_list_namespaces :: "('w, Namespace list) ext"
  cl_list_pods :: "string \<Rightarrow> ('w, Pod list) ext"

text \<open>
  Helpers of \<open>apierrors\<close>, \<open>client\<close>, \<open>controllerutil\<close>, \<open>meta\<close> and \<open>util/json\<close>. An owner is its kind
  (which the library takes from the scheme) and its metadata. \<open>None\<close> is the nil error. The values that
  are encoded and the raw fields that are decoded are documents: \<open>jsonMarshal\<close> is \<open>Marshal\<close> on the
  tree that the struct tags give, \<open>jsonUnmarshalMap\<close> is \<open>Unmarshal\<close> into a nil \<open>map[string]interface{}\<close>.
\<close>

record util =
  isNotFound :: "go_error \<Rightarrow> bool"
  isAlreadyExists :: "go_error \<Rightarrow> bool"
  ignoreNotFound :: "go_error \<Rightarrow> go_error option"
  containsFinalizer :: "obj_meta \<Rightarrow> string \<Rightarrow> bool"
  addFinalizer :: "obj_meta \<Rightarrow> string \<Rightarrow> obj_meta"
  removeFinalizer :: "obj_meta \<Rightarrow> string \<Rightarrow> obj_meta"
  hasOwnerReference :: "owner_ref list \<Rightarrow> string \<times> obj_meta \<Rightarrow> go_error + bool"
  setOwnerReference :: "string \<times> obj_meta \<Rightarrow> obj_meta \<Rightarrow> go_error + obj_meta"
  setControllerReference :: "string \<times> obj_meta \<Rightarrow> obj_meta \<Rightarrow> go_error + obj_meta"
  setStatusCondition :: "condition list \<Rightarrow> condition \<Rightarrow> condition list"
  jsonMarshal :: "json \<Rightarrow> go_error + string"
  jsonUnmarshalMap :: "json \<Rightarrow> go_error + members option"

text \<open>
  What Go leaves open: the order in which a \<open>range\<close> over a map visits its keys (all maps the
  operator ranges over have string keys), the numbers of \<open>math/rand\<close>, the clock, whether two raw JSON
  fields, equal as documents, hold the same bytes, and whether an empty slice that was decoded is nil.
\<close>

record 'w runtime =
  rt_key_order :: "'w \<Rightarrow> string list \<Rightarrow> string list"
  rt_intn :: "nat \<Rightarrow> 'w \<Rightarrow> nat \<times> 'w"
  rt_now :: "'w \<Rightarrow> int \<times> 'w"
  rt_same_bytes :: "'w \<Rightarrow> json option \<Rightarrow> json option \<Rightarrow> bool"
  rt_nil_slice :: "'w \<Rightarrow> bool"

definition runtime_contract :: "'w runtime \<Rightarrow> bool" where
  "runtime_contract R \<longleftrightarrow>
     (\<forall>w ks. mset (rt_key_order R w ks) = mset ks) \<and>
     (\<forall>n w. 0 < n \<longrightarrow> fst (rt_intn R n w) < n) \<and>
     (\<forall>w a b. rt_same_bytes R w a b \<longrightarrow> a = b)"

lemma runtime_contractD:
  assumes "runtime_contract R"
  shows "mset (rt_key_order R w ks) = mset ks" "set (rt_key_order R w ks) = set ks"
    "0 < n \<Longrightarrow> fst (rt_intn R n w) < n" "rt_same_bytes R w a b \<Longrightarrow> a = b"
  using assms unfolding runtime_contract_def by (auto dest: mset_eq_setD)

text \<open>\<open>for k, v := range m\<close>: the entries in the order of this iteration.\<close>

definition rangeA :: "'w runtime \<Rightarrow> (string \<times> 'a) list \<Rightarrow> ('w, (string \<times> 'a) list) act" where
  "rangeA R m = (\<lambda>w. (Ret (map (\<lambda>k. (k, the (map_of m k))) (rt_key_order R w (map fst m))), w))"

lemma keeps_rangeA [keeps_intros]: "keeps g (rangeA R m)"
  by (simp add: keeps_def rangeA_def)

lemma preserves_rangeA [preserves_intros]: "preserves I (rangeA R m)"
  by (simp add: preserves_def moves_def rangeA_def)

lemma no_panic_rangeA [safe_intros]: "no_panic (rangeA R m)"
  by (simp add: no_panic_def rangeA_def)

lemma rangeA_Ret:
  assumes "rangeA R m w = (Ret es, w')"
  shows "es = map (\<lambda>k. (k, the (map_of m k))) (rt_key_order R w (map fst m))" "w' = w"
  using assms by (auto simp: rangeA_def)

lemma rangeA_act [act_simps]:
  "rangeA R m w = (Fail e, w') \<longleftrightarrow> False"
  "rangeA R m w = (Panic s, w') \<longleftrightarrow> False"
  by (auto simp: rangeA_def)

text \<open>Whether the slice just decoded, when it is empty, is nil.\<close>

definition nil_sliceA :: "'w runtime \<Rightarrow> ('w, bool) act" where
  "nil_sliceA R = (\<lambda>w. (Ret (rt_nil_slice R w), w))"

lemma keeps_nil_sliceA [keeps_intros]: "keeps g (nil_sliceA R)"
  by (simp add: keeps_def nil_sliceA_def)

lemma preserves_nil_sliceA [preserves_intros]: "preserves I (nil_sliceA R)"
  by (simp add: preserves_def moves_def nil_sliceA_def)

lemma no_panic_nil_sliceA [safe_intros]: "no_panic (nil_sliceA R)"
  by (simp add: no_panic_def nil_sliceA_def)

lemma rangeA_mset:
  assumes "runtime_contract R" "distinct (map fst m)" "rangeA R m w = (Ret es, w')"
  shows "mset es = mset m"
proof -
  have "map (\<lambda>k. (k, the (map_of m k))) (map fst m) = m"
    using assms(2) by (auto simp: map_of_eq_Some_iff intro!: map_idI)
  moreover have "mset es = mset (map (\<lambda>k. (k, the (map_of m k))) (map fst m))"
    using runtime_contractD(1) [OF assms(1), of w "map fst m"] rangeA_Ret(1) [OF assms(3)]
    by (simp only: mset_map)
  ultimately show ?thesis by simp
qed

definition intnA :: "'w runtime \<Rightarrow> nat \<Rightarrow> ('w, nat) act" where
  "intnA R n = (\<lambda>w. case rt_intn R n w of (k, w') \<Rightarrow> (Ret k, w'))"

definition nowA :: "'w runtime \<Rightarrow> ('w, int) act" where
  "nowA R = (\<lambda>w. case rt_now R w of (t, w') \<Rightarrow> (Ret t, w'))"

lemma runtime_act [act_simps]:
  "intnA R n w = (Ret k, w') \<longleftrightarrow> rt_intn R n w = (k, w')"
  "intnA R n w = (Fail e, w') \<longleftrightarrow> False" "intnA R n w = (Panic s, w') \<longleftrightarrow> False"
  "nowA R w = (Ret t, w') \<longleftrightarrow> rt_now R w = (t, w')"
  "nowA R w = (Fail e, w') \<longleftrightarrow> False" "nowA R w = (Panic s, w') \<longleftrightarrow> False"
  by (auto simp: intnA_def nowA_def split: prod.splits)

lemma no_panic_runtime [safe_intros]: "no_panic (intnA R n)" "no_panic (nowA R)"
  by (auto simp: no_panic_def intnA_def nowA_def split: prod.splits)

subsection \<open>Contract of the helpers\<close>

text \<open>
  \<open>util/json\<close>: \<open>Marshal\<close> delegates to the standard library's; \<open>Unmarshal\<close> reads into the map what the
  standard library reads, and fails where that fails.
\<close>

definition json_codec :: "util \<Rightarrow> bool" where
  "json_codec U \<longleftrightarrow>
     (\<forall>v. jsonMarshal U v = json_Marshal v) \<and>
     (\<forall>v u. jsonUnmarshalMap U v = Inr u \<longleftrightarrow> json_UnmarshalMap v = Inr u)"

lemma json_codecD:
  assumes "json_codec U"
  shows "jsonMarshal U v = Inr (json_text v)"
    and "jsonUnmarshalMap U v = Inr u \<longleftrightarrow> (v = JNull \<and> u = None) \<or>
     (\<exists>ms. v = JObj ms \<and> (\<forall>n \<in> set (json_numbers v). \<not> number_overflows n) \<and> u = Some (go_map ms))"
  using assms unfolding json_codec_def json_UnmarshalMap_Inr by (simp_all only: json_Marshal_def simp_thms)

definition util_contract :: "util \<Rightarrow> bool" where
  "util_contract U \<longleftrightarrow>
     (\<forall>e. ignoreNotFound U e = (if isNotFound U e then None else Some e)) \<and>
     (\<forall>m f. containsFinalizer U m f \<longleftrightarrow> f \<in> set (om_finalizers m)) \<and>
     (\<forall>m f. \<exists>fs. addFinalizer U m f = m\<lparr>om_finalizers := fs\<rparr> \<and> set fs = insert f (set (om_finalizers m))) \<and>
     (\<forall>m f. \<exists>fs. removeFinalizer U m f = m\<lparr>om_finalizers := fs\<rparr> \<and> set fs = set (om_finalizers m) - {f}) \<and>
     (\<forall>ow m m'. setOwnerReference U ow m = Inr m' \<longrightarrow>
        (\<exists>rs. m' = m\<lparr>om_ownerReferences := rs\<rparr> \<and> hasOwnerReference U rs ow = Inr True)) \<and>
     (\<forall>ow m m'. setControllerReference U ow m = Inr m' \<longrightarrow>
        (\<exists>rs. m' = m\<lparr>om_ownerReferences := rs\<rparr>)) \<and>
     json_codec U"

lemma util_contractD:
  assumes "util_contract U"
  shows "ignoreNotFound U e = (if isNotFound U e then None else Some e)"
    and "containsFinalizer U m f \<longleftrightarrow> f \<in> set (om_finalizers m)"
    and "\<exists>fs. addFinalizer U m f = m\<lparr>om_finalizers := fs\<rparr> \<and> set fs = insert f (set (om_finalizers m))"
    and "\<exists>fs. removeFinalizer U m f = m\<lparr>om_finalizers := fs\<rparr> \<and> set fs = set (om_finalizers m) - {f}"
    and "setOwnerReference U ow m = Inr m' \<Longrightarrow>
           \<exists>rs. m' = m\<lparr>om_ownerReferences := rs\<rparr> \<and> hasOwnerReference U rs ow = Inr True"
    and "setControllerReference U ow m = Inr m' \<Longrightarrow> \<exists>rs. m' = m\<lparr>om_ownerReferences := rs\<rparr>"
    and "json_codec U"
  using assms unfolding util_contract_def
  by (simp_all only: simp_thms)

subsection \<open>Contract of the operations on one kind\<close>

text \<open>
  A kind is described by its metadata, the part of an object a plain write sets (\<open>kd_body\<close>), the part
  its status subresource sets (\<open>kd_status\<close>), what the server keeps of a written body
  (\<open>kd_same\<close>: it may fill in defaults), and the status of a new object (\<open>kd_fresh\<close>: a written
  status is dropped). \<open>st\<close> observes the objects of the kind in a world.
\<close>

record ('o, 'b, 's) kind_desc =
  kd_meta :: "'o \<Rightarrow> obj_meta"
  kd_body :: "'o \<Rightarrow> 'b"
  kd_status :: "'o \<Rightarrow> 's"
  kd_same :: "'b \<Rightarrow> 'b \<Rightarrow> bool"
  kd_fresh :: "'s \<Rightarrow> bool"

definition kd_key :: "('o, 'b, 's) kind_desc \<Rightarrow> 'o \<Rightarrow> obj_key" where
  "kd_key d x = meta_key (kd_meta d x)"

definition written :: "obj_meta \<Rightarrow> obj_meta \<Rightarrow> bool" where
  "written m m' \<longleftrightarrow>
     om_name m' = om_name m \<and> om_namespace m' = om_namespace m \<and> om_labels m' = om_labels m \<and>
     om_finalizers m' = om_finalizers m \<and> om_ownerReferences m' = om_ownerReferences m"

text \<open>An object being deleted is gone once its last finalizer is.\<close>

definition store_after :: "obj_meta \<Rightarrow> obj_meta \<Rightarrow> obj_key \<Rightarrow> 'o \<Rightarrow> (obj_key \<rightharpoonup> 'o) \<Rightarrow> (obj_key \<rightharpoonup> 'o)" where
  "store_after old new k x s =
     (if om_deletionTimestamp old \<noteq> None \<and> om_finalizers new = [] then s(k := None) else s(k \<mapsto> x))"

text \<open>
  A status error is the server's answer that it did not carry out the request. After any other
  error of a write (a lost connection) nothing is known of the object.
\<close>

definition rejected :: "go_error \<Rightarrow> bool" where
  "rejected e = (case e of StatusError _ _ \<Rightarrow> True | _ \<Rightarrow> False)"

definition get_law where
  "get_law nf K st \<longleftrightarrow> (\<forall>k w r w'. k_get K k w = (r, w') \<longrightarrow>
     st w' = st w \<and> (\<forall>x. r = Inr x \<longrightarrow> st w k = Some x) \<and>
     (\<forall>e. r = Inl e \<longrightarrow> nf e \<longrightarrow> st w k = None))"

text \<open>A label selector (\<open>client.MatchingLabels\<close>): every pair it lists is a label of the object.\<close>

definition matches :: "(string \<times> string) list \<Rightarrow> obj_meta \<Rightarrow> bool" where
  "matches sel m \<longleftrightarrow> (\<forall>(k, v) \<in> set sel. labels_of m k = Some v)"

definition list_law where
  "list_law d K st \<longleftrightarrow> (\<forall>ns sel w r w'. k_list K ns sel w = (r, w') \<longrightarrow>
     st w' = st w \<and>
     (\<forall>xs. r = Inr xs \<longrightarrow> distinct (map (kd_key d) xs) \<and>
        set xs = {x. \<exists>n. st w (ns, n) = Some x \<and> matches sel (kd_meta d x)}))"

text \<open>
  The effect of a successful write on the store, by operation. A write whose answer is an error
  either had no effect or, when the error is not the server's rejection, the effect of a success.
\<close>

definition lost_or_nothing :: "go_error \<Rightarrow> ('s \<Rightarrow> 's \<Rightarrow> bool) \<Rightarrow> 's \<Rightarrow> 's \<Rightarrow> bool" where
  "lost_or_nothing e effect s s' \<longleftrightarrow> s' = s \<or> \<not> rejected e \<and> effect s s'"

definition create_effect where
  "create_effect d x x' s s' \<longleftrightarrow>
     s (kd_key d x) = None \<and> written (kd_meta d x) (kd_meta d x') \<and>
     kd_same d (kd_body d x) (kd_body d x') \<and> kd_fresh d (kd_status d x') \<and> s' = s(kd_key d x \<mapsto> x')"

definition create_law where
  "create_law d K st \<longleftrightarrow> (\<forall>x w r w'. k_create K x w = (r, w') \<longrightarrow>
     (\<forall>e. r = Inl e \<longrightarrow> lost_or_nothing e (\<lambda>s s'. \<exists>x'. create_effect d x x' s s') (st w) (st w')) \<and>
     (\<forall>x'. r = Inr x' \<longrightarrow> create_effect d x x' (st w) (st w')))"

definition updated_from where
  "updated_from d x old x' \<longleftrightarrow>
     written (kd_meta d x) (kd_meta d x') \<and> kd_same d (kd_body d x) (kd_body d x') \<and>
     kd_status d x' = kd_status d old \<and>
     om_deletionTimestamp (kd_meta d x') = om_deletionTimestamp (kd_meta d old) \<and>
     (kd_body d x = kd_body d old \<longrightarrow> om_generation (kd_meta d x') = om_generation (kd_meta d old))"

definition update_effect where
  "update_effect d x x' s s' \<longleftrightarrow> (\<exists>old. s (kd_key d x) = Some old \<and> updated_from d x old x' \<and>
     s' = store_after (kd_meta d old) (kd_meta d x) (kd_key d x) x' s)"

definition update_law where
  "update_law d K st \<longleftrightarrow> (\<forall>x w r w'. k_update K x w = (r, w') \<longrightarrow>
     (\<forall>e. r = Inl e \<longrightarrow> lost_or_nothing e (\<lambda>s s'. \<exists>x'. update_effect d x x' s s') (st w) (st w')) \<and>
     (\<forall>x'. r = Inr x' \<longrightarrow> update_effect d x x' (st w) (st w')))"

definition status_effect where
  "status_effect d x x' s s' \<longleftrightarrow> (\<exists>old. s (kd_key d x) = Some old \<and>
     kd_meta d x' = kd_meta d old \<and> kd_body d x' = kd_body d old \<and> kd_status d x' = kd_status d x \<and>
     s' = s(kd_key d x \<mapsto> x'))"

definition status_law where
  "status_law d K st \<longleftrightarrow> (\<forall>x w r w'. k_status_update K x w = (r, w') \<longrightarrow>
     (\<forall>e. r = Inl e \<longrightarrow> lost_or_nothing e (\<lambda>s s'. \<exists>x'. status_effect d x x' s s') (st w) (st w')) \<and>
     (\<forall>x'. r = Inr x' \<longrightarrow> status_effect d x x' (st w) (st w')))"

text \<open>A merge patch of objects that differ in their finalizers only sets the finalizers.\<close>

definition patch_effect where
  "patch_effect d orig x x' s s' \<longleftrightarrow> (\<forall>fs. kd_meta d x = (kd_meta d orig)\<lparr>om_finalizers := fs\<rparr> \<longrightarrow>
     kd_body d x = kd_body d orig \<longrightarrow>
     (\<exists>old. s (kd_key d x) = Some old \<and>
        kd_meta d x' = (kd_meta d old)\<lparr>om_finalizers := fs\<rparr> \<and> kd_body d x' = kd_body d old \<and>
        kd_status d x' = kd_status d old \<and>
        s' = store_after (kd_meta d old) (kd_meta d x') (kd_key d x) x' s))"

definition patch_law where
  "patch_law d K st \<longleftrightarrow> (\<forall>orig x w r w'. k_patch K orig x w = (r, w') \<longrightarrow>
     (\<forall>e. r = Inl e \<longrightarrow> lost_or_nothing e (\<lambda>s s'. \<exists>x'. patch_effect d orig x x' s s') (st w) (st w')) \<and>
     (\<forall>x'. r = Inr x' \<longrightarrow> patch_effect d orig x x' (st w) (st w')))"

definition delete_effect where
  "delete_effect d x s s' \<longleftrightarrow> (\<exists>old. s (kd_key d x) = Some old \<and>
     (if om_finalizers (kd_meta d old) = [] then s' = s(kd_key d x := None)
      else \<exists>x' t. s' = s(kd_key d x \<mapsto> x') \<and> kd_body d x' = kd_body d old \<and> kd_status d x' = kd_status d old \<and>
        kd_meta d x' = (kd_meta d old)\<lparr>om_deletionTimestamp := Some t\<rparr>))"

definition delete_law where
  "delete_law nf d K st \<longleftrightarrow> (\<forall>x w r w'. k_delete K x w = (r, w') \<longrightarrow>
     (\<forall>e. r = Inl e \<longrightarrow> lost_or_nothing e (delete_effect d x) (st w) (st w') \<and>
        (nf e \<longrightarrow> st w' = st w \<and> st w (kd_key d x) = None)) \<and>
     (\<forall>u. r = Inr u \<longrightarrow> delete_effect d x (st w) (st w')))"

text \<open>
  \<open>CreateOrUpdate\<close> reads the object, applies the mutate function to what it read (or to the given
  object, when there is none) and creates or updates; an unchanged object is not written.
\<close>

definition create_or_update_effect where
  "create_or_update_effect d x f x' s s' \<longleftrightarrow>
     (case s (kd_key d x) of
        None \<Rightarrow> \<exists>y. f x = Inr y \<and> kd_key d y = kd_key d x \<and> create_effect d y x' s s'
      | Some old \<Rightarrow> \<exists>y. f old = Inr y \<and> kd_key d y = kd_key d x \<and>
          (y = old \<and> x' = old \<and> s' = s \<or> update_effect d y x' s s'))"

definition create_or_update_law where
  "create_or_update_law d K st \<longleftrightarrow> (\<forall>x f w r w'. k_create_or_update K x f w = (r, w') \<longrightarrow>
     (\<forall>e. r = Inl e \<longrightarrow>
        lost_or_nothing e (\<lambda>s s'. \<exists>x'. create_or_update_effect d x f x' s s') (st w) (st w')) \<and>
     (\<forall>x'. r = Inr x' \<longrightarrow> create_or_update_effect d x f x' (st w) (st w')))"

text \<open>An object is stored under its own namespace and name.\<close>

definition keyed_law where
  "keyed_law d st \<longleftrightarrow> (\<forall>w k x. st w k = Some x \<longrightarrow> kd_key d x = k)"

definition store_contract ::
  "(go_error \<Rightarrow> bool) \<Rightarrow> ('o, 'b, 's) kind_desc \<Rightarrow> ('w, 'o) kind_api \<Rightarrow> ('w \<Rightarrow> obj_key \<rightharpoonup> 'o) \<Rightarrow> bool" where
  "store_contract nf d K st \<longleftrightarrow>
     get_law nf K st \<and> list_law d K st \<and> create_law d K st \<and> update_law d K st \<and>
     status_law d K st \<and> patch_law d K st \<and> delete_law nf d K st \<and>
     create_or_update_law d K st \<and> keyed_law d st"

lemma store_contract_laws:
  assumes "store_contract nf d K st"
  shows "get_law nf K st" "list_law d K st" "create_law d K st" "update_law d K st"
    "status_law d K st" "patch_law d K st" "delete_law nf d K st" "create_or_update_law d K st"
    "keyed_law d st"
  using assms by (auto simp: store_contract_def)

text \<open>What the operations on one kind leave alone.\<close>

definition kind_frame :: "('w, 'o) kind_api \<Rightarrow> ('w \<Rightarrow> 'g) \<Rightarrow> bool" where
  "kind_frame K g \<longleftrightarrow>
     (\<forall>k. keeps g (callA (k_get K k))) \<and> (\<forall>ns sel. keeps g (callA (k_list K ns sel))) \<and>
     (\<forall>x. keeps g (callA (k_create K x))) \<and> (\<forall>x. keeps g (callA (k_update K x))) \<and>
     (\<forall>x. keeps g (callA (k_status_update K x))) \<and> (\<forall>x y. keeps g (callA (k_patch K x y))) \<and>
     (\<forall>x. keeps g (callA (k_delete K x))) \<and> (\<forall>x f. keeps g (callA (k_create_or_update K x f)))"

lemma kind_frame_keeps:
  assumes "kind_frame K g"
  shows "keeps g (callA (k_get K k))" "keeps g (callA (k_list K ns sel))"
    "keeps g (callA (k_create K x))" "keeps g (callA (k_update K x))"
    "keeps g (callA (k_status_update K x))" "keeps g (callA (k_patch K x y))"
    "keeps g (callA (k_delete K x))" "keeps g (callA (k_create_or_update K x f))"
  using assms unfolding kind_frame_def by blast+

lemma keeps_weaken: "keeps g m \<Longrightarrow> (\<And>w w'. g w = g w' \<Longrightarrow> h w = h w') \<Longrightarrow> keeps h m"
  unfolding keeps_def by blast

lemma kind_frame_weaken:
  assumes "kind_frame K g" "\<And>w w'. g w = g w' \<Longrightarrow> h w = h w'"
  shows "kind_frame K h"
  unfolding kind_frame_def
  by (intro conjI allI; rule keeps_weaken [OF _ assms(2)]; (rule kind_frame_keeps [OF assms(1)] | assumption))

lemma callA_iff:
  "callA op w = (case op w of (Inl e, w') \<Rightarrow> (Fail e, w') | (Inr a, w') \<Rightarrow> (Ret a, w'))"
  by (simp add: callA_def)

lemma keeps_get: "get_law nf K st \<Longrightarrow> keeps st (callA (k_get K k))"
  unfolding get_law_def by (intro keeps_callA) (metis prod.collapse)

lemma keeps_list: "list_law d K st \<Longrightarrow> keeps st (callA (k_list K ns sel))"
  unfolding list_law_def by (intro keeps_callA) (metis prod.collapse)

subsection \<open>The whole cluster\<close>

record cluster =
  c_tools :: "obj_key \<rightharpoonup> Tool"
  c_policies :: "obj_key \<rightharpoonup> Policy"
  c_reports :: "obj_key \<rightharpoonup> PolicyReport"
  c_jobs :: "obj_key \<rightharpoonup> Job"
  c_configmaps :: "obj_key \<rightharpoonup> ConfigMap"
  c_engines :: "obj_key \<rightharpoonup> ChaosEngine"

definition tool_desc :: "(Tool, ToolSpec, ToolStatus) kind_desc" where
  "tool_desc = \<lparr>kd_meta = tool_meta, kd_body = tool_Spec, kd_status = tool_Status, kd_same = (=),
     kd_fresh = (\<lambda>_. True)\<rparr>"

definition policy_desc :: "(Policy, PolicySpec, PolicyStatus) kind_desc" where
  "policy_desc = \<lparr>kd_meta = pol_meta, kd_body = pol_Spec, kd_status = pol_Status, kd_same = (=),
     kd_fresh = (\<lambda>_. True)\<rparr>"

definition report_desc :: "(PolicyReport, PolicyReportSpec, PolicyReportStatus) kind_desc" where
  "report_desc = \<lparr>kd_meta = rep_meta, kd_body = rep_Spec, kd_status = rep_Status, kd_same = (=),
     kd_fresh = (\<lambda>s. s = zero_report_status)\<rparr>"

text \<open>The server adds labels to the pod template of a job.\<close>

definition same_job_spec :: "JobSpec \<Rightarrow> JobSpec \<Rightarrow> bool" where
  "same_job_spec s s' \<longleftrightarrow>
     js_BackoffLimit s' = js_BackoffLimit s \<and>
     js_TTLSecondsAfterFinished s' = js_TTLSecondsAfterFinished s \<and>
     pt_RestartPolicy (js_Template s') = pt_RestartPolicy (js_Template s) \<and>
     pt_Containers (js_Template s') = pt_Containers (js_Template s)"

definition job_desc :: "(Job, JobSpec, JobStatus) kind_desc" where
  "job_desc = \<lparr>kd_meta = job_meta, kd_body = job_Spec, kd_status = job_Status, kd_same = same_job_spec,
     kd_fresh = (\<lambda>_. True)\<rparr>"

definition configmap_desc :: "(ConfigMap, (string \<rightharpoonup> string) option, unit) kind_desc" where
  "configmap_desc = \<lparr>kd_meta = cm_meta, kd_body = cm_Data, kd_status = (\<lambda>_. ()), kd_same = (=),
     kd_fresh = (\<lambda>_. True)\<rparr>"

definition engine_desc :: "(ChaosEngine, ChaosEngineSpec, ChaosEngineStatus) kind_desc" where
  "engine_desc = \<lparr>kd_meta = ce_meta, kd_body = ce_Spec, kd_status = ce_Status, kd_same = (=),
     kd_fresh = (\<lambda>_. True)\<rparr>"

lemmas desc_defs = tool_desc_def policy_desc_def report_desc_def job_desc_def configmap_desc_def
  engine_desc_def

lemma desc_simps [simp]:
  "kd_meta tool_desc = tool_meta" "kd_body tool_desc = tool_Spec" "kd_status tool_desc = tool_Status"
  "kd_same tool_desc = (=)"
  "kd_meta policy_desc = pol_meta" "kd_body policy_desc = pol_Spec"
  "kd_status policy_desc = pol_Status" "kd_same policy_desc = (=)"
  "kd_meta report_desc = rep_meta" "kd_body report_desc = rep_Spec"
  "kd_status report_desc = rep_Status" "kd_same report_desc = (=)"
  "kd_meta job_desc = job_meta" "kd_body job_desc = job_Spec" "kd_status job_desc = job_Status"
  "kd_same job_desc = same_job_spec"
  "kd_meta configmap_desc = cm_meta" "kd_body configmap_desc = cm_Data"
  "kd_status configmap_desc x = ()" "kd_same configmap_desc = (=)"
  "kd_meta engine_desc = ce_meta" "kd_body engine_desc = ce_Spec" "kd_status engine_desc = ce_Status" "kd_same engine_desc = (=)"
  "kd_fresh tool_desc t = True" "kd_fresh policy_desc p = True" "kd_fresh report_desc s \<longleftrightarrow> s = zero_report_status"
  "kd_fresh job_desc j = True" "kd_fresh configmap_desc u = True" "kd_fresh engine_desc v = True"
  by (simp_all add: desc_defs)

text \<open>The parts of a cluster that the operations on one kind may not touch.\<close>

definition all_but_tools where
  "all_but_tools c = (c_policies c, c_reports c, c_jobs c, c_configmaps c, c_engines c)"

definition all_but_policies where
  "all_but_policies c = (c_tools c, c_reports c, c_jobs c, c_configmaps c, c_engines c)"

definition all_but_reports where
  "all_but_reports c = (c_tools c, c_policies c, c_jobs c, c_configmaps c, c_engines c)"

definition all_but_jobs where
  "all_but_jobs c = (c_tools c, c_policies c, c_reports c, c_configmaps c, c_engines c)"

definition all_but_configmaps where
  "all_but_configmaps c = (c_tools c, c_policies c, c_reports c, c_jobs c, c_engines c)"

definition all_but_engines where
  "all_but_engines c = (c_tools c, c_policies c, c_reports c, c_jobs c, c_configmaps c)"

definition api_contract :: "util \<Rightarrow> 'w client \<Rightarrow> ('w \<Rightarrow> cluster) \<Rightarrow> bool" where
  "api_contract U C cl \<longleftrightarrow>
     util_contract U \<and>
     store_contract (isNotFound U) tool_desc (cl_tools C) (\<lambda>w. c_tools (cl w)) \<and>
     store_contract (isNotFound U) policy_desc (cl_policies C) (\<lambda>w. c_policies (cl w)) \<and>
     store_contract (isNotFound U) report_desc (cl_reports C) (\<lambda>w. c_reports (cl w)) \<and>
     store_contract (isNotFound U) job_desc (cl_jobs C) (\<lambda>w. c_jobs (cl w)) \<and>
     store_contract (isNotFound U) configmap_desc (cl_configmaps C) (\<lambda>w. c_configmaps (cl w)) \<and>
     store_contract (isNotFound U) engine_desc (cl_engines C) (\<lambda>w. c_engines (cl w)) \<and>
     kind_frame (cl_tools C) (\<lambda>w. all_but_tools (cl w)) \<and>
     kind_frame (cl_policies C) (\<lambda>w. all_but_policies (cl w)) \<and>
     kind_frame (cl_reports C) (\<lambda>w. all_but_reports (cl w)) \<and>
     kind_frame (cl_jobs C) (\<lambda>w. all_but_jobs (cl w)) \<and>
     kind_frame (cl_configmaps C) (\<lambda>w. all_but_configmaps (cl w)) \<and>
     kind_frame (cl_engines C) (\<lambda>w. all_but_engines (cl w))"

lemma api_contractD:
  assumes "api_contract U C cl"
  shows "util_contract U"
    and "store_contract (isNotFound U) tool_desc (cl_tools C) (\<lambda>w. c_tools (cl w))"
    and "store_contract (isNotFound U) policy_desc (cl_policies C) (\<lambda>w. c_policies (cl w))"
    and "store_contract (isNotFound U) report_desc (cl_reports C) (\<lambda>w. c_reports (cl w))"
    and "store_contract (isNotFound U) job_desc (cl_jobs C) (\<lambda>w. c_jobs (cl w))"
    and "store_contract (isNotFound U) configmap_desc (cl_configmaps C) (\<lambda>w. c_configmaps (cl w))"
    and "store_contract (isNotFound U) engine_desc (cl_engines C) (\<lambda>w. c_engines (cl w))"
  using assms by (auto simp: api_contract_def)

lemma api_frames:
  assumes "api_contract U C cl"
  shows "kind_frame (cl_tools C) (\<lambda>w. c_policies (cl w))" "kind_frame (cl_tools C) (\<lambda>w. c_reports (cl w))"
    "kind_frame (cl_tools C) (\<lambda>w. c_jobs (cl w))" "kind_frame (cl_tools C) (\<lambda>w. c_configmaps (cl w))"
    "kind_frame (cl_tools C) (\<lambda>w. c_engines (cl w))"
    "kind_frame (cl_policies C) (\<lambda>w. c_tools (cl w))" "kind_frame (cl_policies C) (\<lambda>w. c_reports (cl w))"
    "kind_frame (cl_policies C) (\<lambda>w. c_jobs (cl w))" "kind_frame (cl_policies C) (\<lambda>w. c_configmaps (cl w))"
    "kind_frame (cl_policies C) (\<lambda>w. c_engines (cl w))"
    "kind_frame (cl_reports C) (\<lambda>w. c_tools (cl w))" "kind_frame (cl_reports C) (\<lambda>w. c_policies (cl w))"
    "kind_frame (cl_reports C) (\<lambda>w. c_jobs (cl w))" "kind_frame (cl_reports C) (\<lambda>w. c_configmaps (cl w))"
    "kind_frame (cl_reports C) (\<lambda>w. c_engines (cl w))"
    "kind_frame (cl_jobs C) (\<lambda>w. c_tools (cl w))" "kind_frame (cl_jobs C) (\<lambda>w. c_policies (cl w))"
    "kind_frame (cl_jobs C) (\<lambda>w. c_reports (cl w))" "kind_frame (cl_jobs C) (\<lambda>w. c_configmaps (cl w))"
    "kind_frame (cl_jobs C) (\<lambda>w. c_engines (cl w))"
    "kind_frame (cl_configmaps C) (\<lambda>w. c_tools (cl w))" "kind_frame (cl_configmaps C) (\<lambda>w. c_policies (cl w))"
    "kind_frame (cl_configmaps C) (\<lambda>w. c_reports (cl w))" "kind_frame (cl_configmaps C) (\<lambda>w. c_jobs (cl w))"
    "kind_frame (cl_configmaps C) (\<lambda>w. c_engines (cl w))"
    "kind_frame (cl_engines C) (\<lambda>w. c_tools (cl w))" "kind_frame (cl_engines C) (\<lambda>w. c_policies (cl w))"
    "kind_frame (cl_engines C) (\<lambda>w. c_reports (cl w))" "kind_frame (cl_engines C) (\<lambda>w. c_jobs (cl w))"
    "kind_frame (cl_engines C) (\<lambda>w. c_configmaps (cl w))"
  using assms unfolding api_contract_def
  by - (elim conjE, (erule kind_frame_weaken; simp add: all_but_tools_def all_but_policies_def
        all_but_reports_def all_but_jobs_def all_but_configmaps_def all_but_engines_def; fail))+

lemma api_all_but_frames:
  assumes "api_contract U C cl"
  shows "kind_frame (cl_tools C) (\<lambda>w. all_but_tools (cl w))"
    "kind_frame (cl_policies C) (\<lambda>w. all_but_policies (cl w))"
    "kind_frame (cl_reports C) (\<lambda>w. all_but_reports (cl w))"
    "kind_frame (cl_jobs C) (\<lambda>w. all_but_jobs (cl w))"
    "kind_frame (cl_configmaps C) (\<lambda>w. all_but_configmaps (cl w))"
    "kind_frame (cl_engines C) (\<lambda>w. all_but_engines (cl w))"
  using assms unfolding api_contract_def by simp_all

lemma api_reads:
  assumes "api_contract U C cl"
  shows "keeps (\<lambda>w. c_tools (cl w)) (callA (k_get (cl_tools C) k))"
    "keeps (\<lambda>w. c_policies (cl w)) (callA (k_get (cl_policies C) k))"
    "keeps (\<lambda>w. c_reports (cl w)) (callA (k_get (cl_reports C) k))"
    "keeps (\<lambda>w. c_jobs (cl w)) (callA (k_get (cl_jobs C) k))"
    "keeps (\<lambda>w. c_configmaps (cl w)) (callA (k_get (cl_configmaps C) k))"
    "keeps (\<lambda>w. c_reports (cl w)) (callA (k_list (cl_reports C) ns sel))"
    "keeps (\<lambda>w. c_engines (cl w)) (callA (k_list (cl_engines C) ns sel))"
  using api_contractD [OF assms] by (auto intro: keeps_get keeps_list dest: store_contract_laws)

lemma cluster_eqI:
  assumes "c_tools c = c_tools c'" "c_policies c = c_policies c'" "c_reports c = c_reports c'"
    "c_jobs c = c_jobs c'" "c_configmaps c = c_configmaps c'" "c_engines c = c_engines c'"
  shows "c = (c' :: cluster)"
  using assms by (cases c; cases c') simp

lemma keeps_cluster:
  fixes cl :: "'w \<Rightarrow> cluster"
  assumes "keeps (\<lambda>w. c_tools (cl w)) m" "keeps (\<lambda>w. c_policies (cl w)) m" "keeps (\<lambda>w. c_reports (cl w)) m"
    "keeps (\<lambda>w. c_jobs (cl w)) m" "keeps (\<lambda>w. c_configmaps (cl w)) m" "keeps (\<lambda>w. c_engines (cl w)) m"
  shows "keeps cl m"
  using assms unfolding keeps_def by (auto intro!: cluster_eqI)

text \<open>A read leaves the whole cluster as it is.\<close>

lemma api_reads_cluster:
  assumes "api_contract U C cl"
  shows "keeps cl (callA (k_get (cl_tools C) k))" "keeps cl (callA (k_get (cl_policies C) k))"
    "keeps cl (callA (k_get (cl_reports C) k))" "keeps cl (callA (k_get (cl_jobs C) k))"
  by (intro keeps_cluster api_reads [OF assms] kind_frame_keeps(1) api_frames [OF assms])+

lemma keeps_pair:
  "keeps f m \<Longrightarrow> keeps g m \<Longrightarrow> keeps (\<lambda>w. (f w, g w)) m"
  by (simp add: keeps_def)

subsection \<open>Laws applied to one call\<close>

lemma get_Ret:
  assumes "store_contract nf d K st" "k_get K k w = (Inr x, w')"
  shows "st w k = Some x" "st w' = st w"
  using store_contract_laws(1) [OF assms(1)] assms(2) unfolding get_law_def by blast+

lemma get_Fail:
  assumes "store_contract nf d K st" "k_get K k w = (Inl e, w')"
  shows "nf e \<Longrightarrow> st w k = None" "st w' = st w"
  using store_contract_laws(1) [OF assms(1)] assms(2) unfolding get_law_def by blast+

lemma get_key:
  assumes "store_contract nf d K st" "k_get K k w = (Inr x, w')"
  shows "kd_key d x = k"
  using get_Ret(1) [OF assms] store_contract_laws(9) [OF assms(1)] unfolding keyed_law_def by blast

lemma create_Ret:
  assumes "store_contract nf d K st" "k_create K x w = (Inr x', w')"
  shows "st w (kd_key d x) = None" "written (kd_meta d x) (kd_meta d x')"
    "kd_same d (kd_body d x) (kd_body d x')" "st w' = (st w)(kd_key d x \<mapsto> x')"
  using store_contract_laws(3) [OF assms(1)] assms(2) unfolding create_law_def create_effect_def by blast+

lemma update_Ret:
  assumes "store_contract nf d K st" "k_update K x w = (Inr x', w')"
  obtains old where "st w (kd_key d x) = Some old" "updated_from d x old x'"
    "st w' = store_after (kd_meta d old) (kd_meta d x) (kd_key d x) x' (st w)"
  using store_contract_laws(4) [OF assms(1)] assms(2) unfolding update_law_def update_effect_def by blast

lemma status_update_Ret:
  assumes "store_contract nf d K st" "k_status_update K x w = (Inr x', w')"
  obtains old where "st w (kd_key d x) = Some old" "kd_meta d x' = kd_meta d old"
    "kd_body d x' = kd_body d old" "kd_status d x' = kd_status d x"
    "st w' = (st w)(kd_key d x \<mapsto> x')"
  using store_contract_laws(5) [OF assms(1)] assms(2) unfolding status_law_def status_effect_def by blast

text \<open>Whatever the answer to an update is, the store is as before or as after a successful one.\<close>

lemma update_any:
  assumes "store_contract nf d K st" "k_update K x w = (r, w')"
  obtains (same) "st w' = st w" | (changed) x' where "update_effect d x x' (st w) (st w')"
  using store_contract_laws(4) [OF assms(1)] assms(2)
  unfolding update_law_def lost_or_nothing_def by (cases r) blast+

lemma status_update_any:
  assumes "store_contract nf d K st" "k_status_update K x w = (r, w')"
  obtains (same) "st w' = st w" | (changed) x' where "status_effect d x x' (st w) (st w')"
  using store_contract_laws(5) [OF assms(1)] assms(2)
  unfolding status_law_def lost_or_nothing_def by (cases r) blast+

lemma delete_any:
  assumes "store_contract nf d K st" "k_delete K x w = (r, w')"
  obtains (same) "st w' = st w" | (changed) "delete_effect d x (st w) (st w')"
  using store_contract_laws(7) [OF assms(1)] assms(2)
  unfolding delete_law_def lost_or_nothing_def by (cases r) blast+

lemma create_or_update_any:
  assumes "store_contract nf d K st" "k_create_or_update K x f w = (r, w')"
  obtains (same) "st w' = st w" | (changed) x' where "create_or_update_effect d x f x' (st w) (st w')"
  using store_contract_laws(8) [OF assms(1)] assms(2)
  unfolding create_or_update_law_def lost_or_nothing_def by (cases r) blast+

text \<open>A status update leaves the metadata and the spec of every object as they are.\<close>

lemma keeps_status_update:
  assumes "store_contract nf d K st"
  shows "keeps (\<lambda>w k. map_option (\<lambda>x. (kd_meta d x, kd_body d x)) (st w k)) (callA (k_status_update K x))"
proof (rule keeps_callA)
  fix w
  obtain r w' where run: "k_status_update K x w = (r, w')" by fastforce
  from assms run show "(\<lambda>k. map_option (\<lambda>x. (kd_meta d x, kd_body d x)) (st (snd (k_status_update K x w)) k)) =
      (\<lambda>k. map_option (\<lambda>x. (kd_meta d x, kd_body d x)) (st w k))"
    by (rule status_update_any) (auto simp: status_effect_def run)
qed

lemma delete_Ret:
  assumes "store_contract nf d K st" "k_delete K x w = (Inr u, w')"
  obtains (gone) "st w' = (st w)(kd_key d x := None)"
    | (marked) old x' t where "st w (kd_key d x) = Some old" "om_finalizers (kd_meta d old) \<noteq> []"
      "kd_meta d x' = (kd_meta d old)\<lparr>om_deletionTimestamp := Some t\<rparr>"
      "kd_body d x' = kd_body d old" "st w' = (st w)(kd_key d x \<mapsto> x')"
proof -
  have "delete_effect d x (st w) (st w')"
    using store_contract_laws(7) [OF assms(1)] assms(2) unfolding delete_law_def by blast
  then show thesis using that unfolding delete_effect_def by (auto split: if_splits)
qed

lemma delete_NotFound:
  assumes "store_contract nf d K st" "k_delete K x w = (Inl e, w')" "nf e"
  shows "st w (kd_key d x) = None" "st w' = st w"
  using store_contract_laws(7) [OF assms(1)] assms(2,3) unfolding delete_law_def by blast+

lemma list_Ret:
  assumes "store_contract nf d K st" "k_list K ns sel w = (Inr xs, w')"
  shows "st w' = st w" "distinct (map (kd_key d) xs)"
    "x \<in> set xs \<longleftrightarrow> st w (kd_key d x) = Some x \<and> om_namespace (kd_meta d x) = ns \<and> matches sel (kd_meta d x)"
proof -
  have law: "st w' = st w \<and> distinct (map (kd_key d) xs) \<and>
      set xs = {x. \<exists>n. st w (ns, n) = Some x \<and> matches sel (kd_meta d x)}"
    using store_contract_laws(2) [OF assms(1)] assms(2) unfolding list_law_def by blast
  then show "st w' = st w" "distinct (map (kd_key d) xs)" by simp_all
  have "st w k = Some x \<Longrightarrow> kd_key d x = k" for k
    using store_contract_laws(9) [OF assms(1)] unfolding keyed_law_def by blast
  with law show "x \<in> set xs \<longleftrightarrow>
      st w (kd_key d x) = Some x \<and> om_namespace (kd_meta d x) = ns \<and> matches sel (kd_meta d x)"
    by (fastforce simp: kd_key_def meta_key_def)
qed

text \<open>
  After \<open>CreateOrUpdate\<close> the object holds what the mutate function made of the stored object, or of
  the given one when there was none, and no other object has changed.
\<close>

lemma create_or_update_Ret:
  assumes "store_contract nf d K st" "k_create_or_update K x f w = (Inr x', w')"
    and alive: "\<And>old. st w (kd_key d x) = Some old \<Longrightarrow> om_deletionTimestamp (kd_meta d old) = None"
    and refl: "\<And>b. kd_same d b b"
  obtains base y where "base = (case st w (kd_key d x) of None \<Rightarrow> x | Some old \<Rightarrow> old)" "f base = Inr y"
    "written (kd_meta d y) (kd_meta d x')" "kd_same d (kd_body d y) (kd_body d x')"
    "st w' = (st w)(kd_key d x \<mapsto> x')"
    "\<And>old. st w (kd_key d x) = Some old \<Longrightarrow> kd_status d x' = kd_status d old"
proof -
  have law: "create_or_update_effect d x f x' (st w) (st w')"
    using store_contract_laws(8) [OF assms(1)] assms(2) unfolding create_or_update_law_def by blast
  show thesis
  proof (cases "st w (kd_key d x)")
    case None
    with law show ?thesis
      by (auto simp: create_or_update_effect_def create_effect_def intro: that [of x])
  next
    case (Some old)
    from law obtain y where "f old = Inr y"
      "y = old \<and> x' = old \<and> st w' = st w \<or> updated_from d y old x' \<and>
         st w' = store_after (kd_meta d old) (kd_meta d y) (kd_key d x) x' (st w)"
      by (auto simp: Some create_or_update_effect_def update_effect_def)
    then show ?thesis using Some alive [OF Some] refl
      by (intro that [of old y]) (auto simp: updated_from_def written_def store_after_def)
  qed
qed

subsection \<open>Deleting what may be gone already\<close>

text \<open>\<open>if err := c.Delete(ctx, x); client.IgnoreNotFound(err) != nil { return err }\<close>\<close>

definition delete_ignoring_not_found :: "util \<Rightarrow> ('w, 'o) kind_api \<Rightarrow> 'o \<Rightarrow> ('w, unit) act" where
  "delete_ignoring_not_found U K x =
     tryA (callA (k_delete K x))
       (\<lambda>err. case ignoreNotFound U err of None \<Rightarrow> retA () | Some _ \<Rightarrow> failA err)
       (\<lambda>_. retA ())"

lemma keeps_delete_ignoring [keeps_intros]:
  "keeps g (callA (k_delete K x)) \<Longrightarrow> keeps g (delete_ignoring_not_found U K x)"
  unfolding delete_ignoring_not_found_def by (intro keeps_intros)

lemma preserves_delete_ignoring [preserves_intros]:
  "preserves I (callA (k_delete K x)) \<Longrightarrow> preserves I (delete_ignoring_not_found U K x)"
  unfolding delete_ignoring_not_found_def by (intro preserves_intros)

lemma no_panic_delete_ignoring [safe_intros]: "no_panic (delete_ignoring_not_found U K x)"
  unfolding delete_ignoring_not_found_def by (intro safe_intros)

text \<open>
  After it returned, the object is gone or marked for deletion, and no other one has changed.
\<close>

definition gone_or_marked :: "('o, 'b, 's) kind_desc \<Rightarrow> 'o option \<Rightarrow> bool" where
  "gone_or_marked d x \<longleftrightarrow> (case x of None \<Rightarrow> True
     | Some y \<Rightarrow> om_deletionTimestamp (kd_meta d y) \<noteq> None \<and> om_finalizers (kd_meta d y) \<noteq> [])"

lemma delete_ignoring_Ret:
  assumes "store_contract (isNotFound U) d K st" "util_contract U"
    and "delete_ignoring_not_found U K x w = (Ret u, w')"
  shows "gone_or_marked d (st w' (kd_key d x))" "k \<noteq> kd_key d x \<Longrightarrow> st w' k = st w k"
proof -
  consider u' where "k_delete K x w = (Inr u', w')"
    | e where "k_delete K x w = (Inl e, w')" "isNotFound U e"
    using assms(3) unfolding delete_ignoring_not_found_def
    by (auto simp: act_simps util_contractD(1) [OF assms(2)]
        split: option.splits if_splits)
  then have "gone_or_marked d (st w' (kd_key d x)) \<and> (k \<noteq> kd_key d x \<longrightarrow> st w' k = st w k)"
  proof cases
    case 1
    from assms(1) 1 show ?thesis
      by (cases rule: delete_Ret) (auto simp: gone_or_marked_def)
  next
    case 2
    from delete_NotFound [OF assms(1) 2] show ?thesis
      by (simp add: gone_or_marked_def)
  qed
  then show "gone_or_marked d (st w' (kd_key d x))" "k \<noteq> kd_key d x \<Longrightarrow> st w' k = st w k"
    by simp_all
qed

lemma forA_delete_Ret:
  assumes "store_contract (isNotFound U) d K st" "util_contract U"
    and "forA (\<lambda>a. if P a then delete_ignoring_not_found U K (f a) else retA ()) xs w = (Ret u, w')"
  shows "a \<in> set xs \<Longrightarrow> P a \<Longrightarrow> gone_or_marked d (st w' (kd_key d (f a)))"
    and "(\<And>a. a \<in> set xs \<Longrightarrow> P a \<Longrightarrow> kd_key d (f a) \<noteq> k) \<Longrightarrow> st w' k = st w k"
proof -
  let ?I = "\<lambda>ys w1. (\<forall>a \<in> set ys. P a \<longrightarrow> gone_or_marked d (st w1 (kd_key d (f a)))) \<and>
    (\<forall>k. (\<forall>a \<in> set ys. P a \<longrightarrow> kd_key d (f a) \<noteq> k) \<longrightarrow> st w1 k = st w k)"
  have "?I xs w'"
  proof (rule forA_Ret_induct [OF assms(3), where I = ?I])
    fix ys x zs w1 w2
    assume IH: "?I ys w1"
      and run: "(if P x then delete_ignoring_not_found U K (f x) else retA ()) w1 = (Ret (), w2)"
    show "?I (ys @ [x]) w2"
    proof (cases "P x")
      case True
      with run have "delete_ignoring_not_found U K (f x) w1 = (Ret (), w2)" by simp
      note del = delete_ignoring_Ret [OF assms(1,2) this]
      have "gone_or_marked d (st w2 (kd_key d (f a)))" if "a \<in> set (ys @ [x])" "P a" for a
        using that IH del(1) del(2) [of "kd_key d (f a)"]
        by (cases "kd_key d (f a) = kd_key d (f x)") auto
      moreover have "st w2 k = st w k" if "\<forall>a \<in> set (ys @ [x]). P a \<longrightarrow> kd_key d (f a) \<noteq> k" for k
        using that True IH del(2) [of k] by auto
      ultimately show ?thesis by blast
    qed (use IH run in auto)
  qed simp
  then show "a \<in> set xs \<Longrightarrow> P a \<Longrightarrow> gone_or_marked d (st w' (kd_key d (f a)))"
    and "(\<And>a. a \<in> set xs \<Longrightarrow> P a \<Longrightarrow> kd_key d (f a) \<noteq> k) \<Longrightarrow> st w' k = st w k"
    by auto
qed

lemma forA_delete_all_Ret:
  assumes "store_contract (isNotFound U) d K st" "util_contract U"
    and "forA (\<lambda>a. delete_ignoring_not_found U K (f a)) xs w = (Ret u, w')"
  shows "a \<in> set xs \<Longrightarrow> gone_or_marked d (st w' (kd_key d (f a)))"
    and "(\<And>a. a \<in> set xs \<Longrightarrow> kd_key d (f a) \<noteq> k) \<Longrightarrow> st w' k = st w k"
  using forA_delete_Ret [where P = "\<lambda>_. True" and f = f, OF assms(1,2)] assms(3) by auto

text \<open>Deleting the listed objects that satisfy \<open>P\<close>: none of them is left, and nothing else changed.\<close>

lemma list_delete_Ret:
  assumes "store_contract (isNotFound U) d K st" "util_contract U"
    and list: "k_list K ns sel w = (Inr xs, w1)"
    and run: "forA (\<lambda>x. if P x then delete_ignoring_not_found U K x else retA ()) xs w1 = (Ret u, w')"
  shows "st w' k = Some x \<Longrightarrow> om_namespace (kd_meta d x) = ns \<Longrightarrow> matches sel (kd_meta d x) \<Longrightarrow> P x \<Longrightarrow>
      gone_or_marked d (Some x)"
    and "(\<And>x. st w k = Some x \<Longrightarrow> \<not> (om_namespace (kd_meta d x) = ns \<and> matches sel (kd_meta d x) \<and> P x)) \<Longrightarrow>
      st w' k = st w k"
proof -
  note listed = list_Ret [OF assms(1) list]
  note deleted = forA_delete_Ret [where f = "\<lambda>x. x", OF assms(1,2) run]
  have keyed: "st w k = Some x \<Longrightarrow> kd_key d x = k" for w k x
    using store_contract_laws(9) [OF assms(1)] unfolding keyed_law_def by blast
  {
    assume now: "st w' k = Some x" and x: "om_namespace (kd_meta d x) = ns" "matches sel (kd_meta d x)" "P x"
    show "gone_or_marked d (Some x)"
    proof (cases "\<exists>y \<in> set xs. P y \<and> kd_key d y = k")
      case True
      then show ?thesis using deleted(1) now by force
    next
      case False
      then have "st w k = Some x" using deleted(2) [of k] now listed(1) by auto
      then have "x \<in> set xs" using listed(3) keyed x by blast
      with False x keyed [OF now] show ?thesis by blast
    qed
  }
  {
    assume other: "\<And>x. st w k = Some x \<Longrightarrow>
      \<not> (om_namespace (kd_meta d x) = ns \<and> matches sel (kd_meta d x) \<and> P x)"
    have "kd_key d y \<noteq> k" if "y \<in> set xs" "P y" for y
      using that listed(3) [of y] other by blast
    then show "st w' k = st w k" using deleted(2) listed(1) by metis
  }
qed

lemma list_delete_all_Ret:
  assumes "store_contract (isNotFound U) d K st" "util_contract U"
    and "k_list K ns sel w = (Inr xs, w1)"
    and "forA (delete_ignoring_not_found U K) xs w1 = (Ret u, w')"
  shows "st w' k = Some x \<Longrightarrow> om_namespace (kd_meta d x) = ns \<Longrightarrow> matches sel (kd_meta d x) \<Longrightarrow>
      gone_or_marked d (Some x)"
    and "(\<And>x. st w k = Some x \<Longrightarrow> \<not> (om_namespace (kd_meta d x) = ns \<and> matches sel (kd_meta d x))) \<Longrightarrow>
      st w' k = st w k"
  using list_delete_Ret [where P = "\<lambda>_. True", OF assms(1-3)] assms(4) by auto

lemma kd_keyed: "store_contract nf d K st \<Longrightarrow> st w k = Some x \<Longrightarrow> kd_key d x = k"
  using store_contract_laws(9) unfolding keyed_law_def by blast

subsection \<open>The reports that belong to a policy\<close>

definition reports_of :: "Policy \<Rightarrow> PolicyReport \<Rightarrow> bool" where
  "reports_of policy r \<longleftrightarrow> om_namespace (rep_meta r) = om_namespace (pol_meta policy) \<and>
     pr_Name (rs_PolicyRef (rep_Spec r)) = om_name (pol_meta policy)"

definition reports_removed :: "Policy \<Rightarrow> (obj_key \<rightharpoonup> PolicyReport) \<Rightarrow> bool" where
  "reports_removed policy s \<longleftrightarrow>
     (\<forall>k r. s k = Some r \<longrightarrow> reports_of policy r \<longrightarrow> gone_or_marked report_desc (Some r))"

end
