(* ===== verification/ReportInvariant.thy ===== *)
theory ReportInvariant
  imports ApiClient
begin

section \<open>Well-formed reports\<close>

text \<open>
  The type invariant of a stored report status: the string newtypes of \<open>policyreport_types.go\<close> hold one
  of their constants (or nothing yet), the details are a JSON object as the schema of the resource
  demands, and every check has either passed or failed. Each write to a report preserves it.
\<close>

definition json_object :: "json \<Rightarrow> bool" where
  "json_object j = (case j of JObj _ \<Rightarrow> True | _ \<Rightarrow> False)"

definition wf_report_status :: "PolicyReportStatus \<Rightarrow> bool" where
  "wf_report_status s \<longleftrightarrow>
     rst_Phase s \<in> {'''', ReportPending, ReportRunning, ReportCompleted, ReportFailed} \<and>
     sum_Verdict (rst_Summary s) \<in> {'''', VerdictPass, VerdictFail, VerdictUnknown} \<and>
     sum_TotalChecks (rst_Summary s) = sum_Passed (rst_Summary s) + sum_Failed (rst_Summary s) \<and>
     (case rst_Details s of None \<Rightarrow> True | Some d \<Rightarrow> json_object d)"

definition wf_reports :: "cluster \<Rightarrow> bool" where
  "wf_reports c \<longleftrightarrow> (\<forall>k r. c_reports c k = Some r \<longrightarrow> wf_report_status (rep_Status r))"

lemma wf_zero_status [simp]: "wf_report_status zero_report_status"
  by (simp add: wf_report_status_def zero_report_status_def zero_summary_def)

lemma wf_reports_frame: "c_reports c' = c_reports c \<Longrightarrow> wf_reports c \<Longrightarrow> wf_reports c'"
  by (simp add: wf_reports_def)

lemma preserves_wf_reports:
  assumes "keeps (\<lambda>w. c_reports (cl w)) m"
  shows "preserves (\<lambda>w. wf_reports (cl w)) m"
  using assms by (rule preserves_of_keeps) (auto intro: wf_reports_frame)

lemma preserves_report_status:
  assumes "api_contract U C cl" "wf_report_status (rep_Status r)"
  shows "preserves (\<lambda>w. wf_reports (cl w)) (callA (k_status_update (cl_reports C) r))"
proof (rule preserves_callA)
  fix w res w'
  assume run: "k_status_update (cl_reports C) r w = (res, w')" and wf: "wf_reports (cl w)"
  from api_contractD(4) [OF assms(1)] run show "wf_reports (cl w')"
    by (rule status_update_any) (use wf assms(2) in \<open>auto simp: wf_reports_def status_effect_def split: if_splits\<close>)
qed

lemma preserves_wf_of_reads:
  assumes "keeps cl m"
  shows "preserves (\<lambda>w. wf_reports (cl w)) m"
  using assms by (rule preserves_of_keeps) simp

lemma preserves_report_delete:
  assumes "api_contract U C cl"
  shows "preserves (\<lambda>w. wf_reports (cl w)) (callA (k_delete (cl_reports C) r))"
proof (rule preserves_callA)
  fix w res w'
  assume run: "k_delete (cl_reports C) r w = (res, w')" and wf: "wf_reports (cl w)"
  from api_contractD(4) [OF assms] run show "wf_reports (cl w')"
    by (rule delete_any) (use wf in \<open>auto simp: wf_reports_def delete_effect_def split: if_splits\<close>)
qed

lemma preserves_report_upsert:
  assumes "api_contract U C cl"
  shows "preserves (\<lambda>w. wf_reports (cl w)) (callA (k_create_or_update (cl_reports C) r f))"
proof (rule preserves_callA)
  fix w res w'
  assume run: "k_create_or_update (cl_reports C) r f w = (res, w')" and wf: "wf_reports (cl w)"
  from api_contractD(4) [OF assms] run show "wf_reports (cl w')"
  proof (rule create_or_update_any)
    fix x' assume "create_or_update_effect report_desc r f x' (c_reports (cl w)) (c_reports (cl w'))"
    with wf show ?thesis
      by (cases "c_reports (cl w) (kd_key report_desc r)")
        (auto simp: wf_reports_def create_or_update_effect_def create_effect_def update_effect_def updated_from_def
          store_after_def split: if_splits)
  qed (use wf in \<open>auto intro: wf_reports_frame\<close>)
qed

end
