(* ===== verification/Returns.thy ===== *)
theory Returns
  imports Prelude
begin

section \<open>Actions that succeed\<close>

text \<open>
  \<open>returns m\<close>: from every world \<open>m\<close> ends with a value, neither with an error nor with a panic. Together
  with the lemmas that say what a returned value means it gives total correctness; the progress
  properties of the controllers rest on it. There is one rule per combinator.
\<close>

named_theorems return_intros \<open>rules that show that an action returns a value\<close>

definition returns :: "('w, 'a) act \<Rightarrow> bool" where
  "returns m \<longleftrightarrow> (\<forall>w. \<exists>a w'. m w = (Ret a, w'))"

lemma returnsE:
  assumes "returns m"
  obtains a w' where "m w = (Ret a, w')"
  using assms unfolding returns_def by blast

lemma returns_retA [return_intros]: "returns (retA a)"
  by (simp add: returns_def)

lemma returns_bindA [return_intros]: "returns m \<Longrightarrow> (\<And>a. returns (f a)) \<Longrightarrow> returns (bindA m f)"
  unfolding returns_def bindA_Ret by meson

lemma returns_tryA: "returns m \<Longrightarrow> (\<And>a. returns (k a)) \<Longrightarrow> returns (tryA m h k)"
  unfolding returns_def tryA_act by meson

text \<open>A call whose errors are handled.\<close>

lemma returns_try_call [return_intros]:
  assumes "\<And>w e w'. op w = (Inl e, w') \<Longrightarrow> returns (h e)" "\<And>w a w'. op w = (Inr a, w') \<Longrightarrow> returns (k a)"
  shows "returns (tryA (callA op) h k)"
  unfolding returns_def
proof
  fix w
  show "\<exists>a w'. tryA (callA op) h k w = (Ret a, w')"
  proof (cases "op w")
    case (Pair r w')
    with assms [of w _ w'] show ?thesis
      by (cases r) (auto simp: tryA_act callA_act returns_def)
  qed
qed

lemma returns_call: "(\<And>w e w'. op w \<noteq> (Inl e, w')) \<Longrightarrow> returns (callA op)"
  unfolding returns_def callA_act by (metis obj_sumE surj_pair)

lemma returns_callD:
  assumes "returns (callA op)"
  obtains a w' where "op w = (Inr a, w')"
  using assms unfolding returns_def callA_act by meson

lemma returns_wrapA [return_intros]: "returns m \<Longrightarrow> returns (wrapA s m)"
  unfolding returns_def wrapA_act .

lemma returns_if [return_intros]:
  "(b \<Longrightarrow> returns m) \<Longrightarrow> (\<not> b \<Longrightarrow> returns n) \<Longrightarrow> returns (if b then m else n)"
  by simp

lemma returns_case_option [return_intros]:
  "(x = None \<Longrightarrow> returns m) \<Longrightarrow> (\<And>a. x = Some a \<Longrightarrow> returns (f a)) \<Longrightarrow>
   returns (case x of None \<Rightarrow> m | Some a \<Rightarrow> f a)"
  by (cases x) auto

lemma returns_case_prod [return_intros]:
  "(\<And>a b. p = (a, b) \<Longrightarrow> returns (f a b)) \<Longrightarrow> returns (case p of (a, b) \<Rightarrow> f a b)"
  by (cases p) simp

lemma returns_derefA: "p \<noteq> None \<Longrightarrow> returns (derefA s p)"
  by (auto simp: returns_def)

lemma returns_liftA: "\<exists>a. r = Inr a \<Longrightarrow> returns (liftA r)"
  by (auto simp: returns_def)

lemma returns_forA [return_intros]: "(\<And>x. x \<in> set xs \<Longrightarrow> returns (f x)) \<Longrightarrow> returns (forA f xs)"
  by (induction xs) (auto intro!: return_intros)

end
