(* ===== verification/HealthyApi.thy ===== *)
theory HealthyApi
  imports ApiClient Returns
begin

section \<open>An API server that answers\<close>

text \<open>
  What the progress properties assume of the libraries, beside \<open>api_contract\<close>: every request that the
  state of the store permits succeeds. A read only fails because there is no such object, an object is
  created when its key is free, and written or deleted when it is stored; \<open>CreateOrUpdate\<close> succeeds
  when the mutate function accepts what it is given and keeps its key. An owner reference can be set within a
  namespace, a controller reference as well unless another object is the controller.
\<close>

definition healthy_kind ::
  "(go_error \<Rightarrow> bool) \<Rightarrow> ('o, 'b, 's) kind_desc \<Rightarrow> ('w, 'o) kind_api \<Rightarrow> ('w \<Rightarrow> obj_key \<rightharpoonup> 'o) \<Rightarrow> bool" where
  "healthy_kind nf d K st \<longleftrightarrow>
     (\<forall>k w e w'. k_get K k w = (Inl e, w') \<longrightarrow> nf e) \<and>
     (\<forall>ns sel. returns (callA (k_list K ns sel))) \<and>
     (\<forall>x w. st w (kd_key d x) = None \<longrightarrow> (\<exists>x' w'. k_create K x w = (Inr x', w'))) \<and>
     (\<forall>x w. st w (kd_key d x) \<noteq> None \<longrightarrow> (\<exists>x' w'. k_update K x w = (Inr x', w'))) \<and>
     (\<forall>x w. st w (kd_key d x) \<noteq> None \<longrightarrow> (\<exists>x' w'. k_status_update K x w = (Inr x', w'))) \<and>
     (\<forall>orig x w. st w (kd_key d x) \<noteq> None \<longrightarrow> (\<exists>x' w'. k_patch K orig x w = (Inr x', w'))) \<and>
     (\<forall>x w. st w (kd_key d x) \<noteq> None \<longrightarrow> (\<exists>w'. k_delete K x w = (Inr (), w'))) \<and>
     (\<forall>x w e w'. k_delete K x w = (Inl e, w') \<longrightarrow> nf e) \<and>
     (\<forall>x f w y. f (case st w (kd_key d x) of None \<Rightarrow> x | Some old \<Rightarrow> old) = Inr y \<longrightarrow> kd_key d y = kd_key d x \<longrightarrow>
        (\<exists>x' w'. k_create_or_update K x f w = (Inr x', w')))"

lemma healthy_kindD:
  assumes "healthy_kind nf d K st"
  shows "k_get K k w = (Inl e, w') \<Longrightarrow> nf e"
    and "returns (callA (k_list K ns sel))"
    and "st w (kd_key d x) = None \<Longrightarrow> \<exists>x' w'. k_create K x w = (Inr x', w')"
    and "st w (kd_key d x) \<noteq> None \<Longrightarrow> \<exists>x' w'. k_update K x w = (Inr x', w')"
    and "st w (kd_key d x) \<noteq> None \<Longrightarrow> \<exists>x' w'. k_status_update K x w = (Inr x', w')"
    and "st w (kd_key d x) \<noteq> None \<Longrightarrow> \<exists>x' w'. k_patch K orig x w = (Inr x', w')"
    and "st w (kd_key d x) \<noteq> None \<Longrightarrow> \<exists>w'. k_delete K x w = (Inr (), w')"
    and "k_delete K x w = (Inl e, w') \<Longrightarrow> nf e"
    and "f (case st w (kd_key d x) of None \<Rightarrow> x | Some old \<Rightarrow> old) = Inr y \<Longrightarrow> kd_key d y = kd_key d x \<Longrightarrow>
        \<exists>x' w'. k_create_or_update K x f w = (Inr x', w')"
proof -
  note laws = assms [unfolded healthy_kind_def]
  show "k_get K k w = (Inl e, w') \<Longrightarrow> nf e" using conjunct1 [OF laws] by blast
  note laws = conjunct2 [OF laws]
  show "returns (callA (k_list K ns sel))" using conjunct1 [OF laws] by blast
  note laws = conjunct2 [OF laws]
  show "st w (kd_key d x) = None \<Longrightarrow> \<exists>x' w'. k_create K x w = (Inr x', w')" using conjunct1 [OF laws] by blast
  note laws = conjunct2 [OF laws]
  show "st w (kd_key d x) \<noteq> None \<Longrightarrow> \<exists>x' w'. k_update K x w = (Inr x', w')" using conjunct1 [OF laws] by blast
  note laws = conjunct2 [OF laws]
  show "st w (kd_key d x) \<noteq> None \<Longrightarrow> \<exists>x' w'. k_status_update K x w = (Inr x', w')" using conjunct1 [OF laws] by blast
  note laws = conjunct2 [OF laws]
  show "st w (kd_key d x) \<noteq> None \<Longrightarrow> \<exists>x' w'. k_patch K orig x w = (Inr x', w')" using conjunct1 [OF laws] by blast
  note laws = conjunct2 [OF laws]
  show "st w (kd_key d x) \<noteq> None \<Longrightarrow> \<exists>w'. k_delete K x w = (Inr (), w')" using conjunct1 [OF laws] by blast
  note laws = conjunct2 [OF laws]
  show "k_delete K x w = (Inl e, w') \<Longrightarrow> nf e" using conjunct1 [OF laws] by blast
  show "f (case st w (kd_key d x) of None \<Rightarrow> x | Some old \<Rightarrow> old) = Inr y \<Longrightarrow> kd_key d y = kd_key d x \<Longrightarrow>
        \<exists>x' w'. k_create_or_update K x f w = (Inr x', w')" using conjunct2 [OF laws] by blast
qed

definition healthy_api :: "util \<Rightarrow> 'w client \<Rightarrow> ('w \<Rightarrow> cluster) \<Rightarrow> bool" where
  "healthy_api U C cl \<longleftrightarrow>
     healthy_kind (isNotFound U) tool_desc (cl_tools C) (\<lambda>w. c_tools (cl w)) \<and>
     healthy_kind (isNotFound U) policy_desc (cl_policies C) (\<lambda>w. c_policies (cl w)) \<and>
     healthy_kind (isNotFound U) report_desc (cl_reports C) (\<lambda>w. c_reports (cl w)) \<and>
     healthy_kind (isNotFound U) job_desc (cl_jobs C) (\<lambda>w. c_jobs (cl w)) \<and>
     healthy_kind (isNotFound U) configmap_desc (cl_configmaps C) (\<lambda>w. c_configmaps (cl w)) \<and>
     healthy_kind (isNotFound U) engine_desc (cl_engines C) (\<lambda>w. c_engines (cl w))"

lemma healthy_apiD:
  assumes "healthy_api U C cl"
  shows "healthy_kind (isNotFound U) tool_desc (cl_tools C) (\<lambda>w. c_tools (cl w))"
    and "healthy_kind (isNotFound U) policy_desc (cl_policies C) (\<lambda>w. c_policies (cl w))"
    and "healthy_kind (isNotFound U) report_desc (cl_reports C) (\<lambda>w. c_reports (cl w))"
    and "healthy_kind (isNotFound U) job_desc (cl_jobs C) (\<lambda>w. c_jobs (cl w))"
    and "healthy_kind (isNotFound U) configmap_desc (cl_configmaps C) (\<lambda>w. c_configmaps (cl w))"
    and "healthy_kind (isNotFound U) engine_desc (cl_engines C) (\<lambda>w. c_engines (cl w))"
  using assms by (simp_all add: healthy_api_def)

text \<open>The controller of an object, if it has one, is the owner.\<close>

definition controllable :: "string \<Rightarrow> obj_meta \<Rightarrow> obj_meta \<Rightarrow> bool" where
  "controllable k ow m \<longleftrightarrow> om_namespace ow = om_namespace m \<and>
     (\<forall>r \<in> set (om_ownerReferences m). or_controller r \<longrightarrow> or_kind r = k \<and> or_name r = om_name ow)"

definition healthy_util :: "util \<Rightarrow> bool" where
  "healthy_util U \<longleftrightarrow>
     (\<forall>rs ow. \<exists>b. hasOwnerReference U rs ow = Inr b) \<and>
     (\<forall>k ow m. om_namespace ow = om_namespace m \<longrightarrow> (\<exists>m'. setOwnerReference U (k, ow) m = Inr m')) \<and>
     (\<forall>k ow m. controllable k ow m \<longrightarrow> (\<exists>m'. setControllerReference U (k, ow) m = Inr m'))"

lemma healthy_utilD:
  assumes "healthy_util U"
  shows "\<exists>b. hasOwnerReference U rs own = Inr b"
    and "om_namespace ow = om_namespace m \<Longrightarrow> \<exists>m'. setOwnerReference U (k, ow) m = Inr m'"
    and "controllable k ow m \<Longrightarrow> \<exists>m'. setControllerReference U (k, ow) m = Inr m'"
  using assms by (simp_all add: healthy_util_def)

subsection \<open>Calls that succeed\<close>

lemma get_stored:
  assumes "healthy_kind nf d K st" "store_contract nf d K st" "st w k = Some x"
  obtains w' where "k_get K k w = (Inr x, w')" "st w' = st w"
proof (cases "k_get K k w")
  case (Pair r w')
  show thesis
  proof (cases r)
    case (Inl e)
    with Pair healthy_kindD(1) [OF assms(1)] get_Fail [OF assms(2)] assms(3) show thesis by fastforce
  next
    case (Inr y)
    with Pair get_Ret [OF assms(2)] assms(3) show thesis by (intro that [of w']) auto
  qed
qed

lemma returns_delete_ignoring [return_intros]:
  assumes "healthy_kind (isNotFound U) d K st" "util_contract U"
  shows "returns (delete_ignoring_not_found U K x)"
  unfolding delete_ignoring_not_found_def
proof (intro return_intros)
  fix w e w' a
  assume "k_delete K x w = (Inl e, w')" "ignoreNotFound U e = Some a"
  with healthy_kindD(8) [OF assms(1)] util_contractD(1) [OF assms(2)] show "returns (failA e)" by fastforce
qed

end
