(* ===== verification/LiveObjects.thy ===== *)
theory LiveObjects
  imports ApiClient
begin

section \<open>Objects that are there to stay\<close>

text \<open>
  An object lives until its deletion is requested. \<open>live_where P\<close> observes whether some object that
  satisfies \<open>P\<close> lives. Each kind of request moves this observation one way only, whatever the answer
  of the server: a deletion never makes an object live, and a creation or an update never ends a life.
\<close>

definition live_where :: "('o, 'b, 's) kind_desc \<Rightarrow> (obj_key \<Rightarrow> 'o \<Rightarrow> bool) \<Rightarrow> (obj_key \<rightharpoonup> 'o) \<Rightarrow> bool" where
  "live_where d P s \<longleftrightarrow> (\<exists>k x. s k = Some x \<and> P k x \<and> om_deletionTimestamp (kd_meta d x) = None)"

lemma live_whereI: "s k = Some x \<Longrightarrow> P k x \<Longrightarrow> om_deletionTimestamp (kd_meta d x) = None \<Longrightarrow> live_where d P s"
  by (auto simp: live_where_def)

lemma live_whereE:
  assumes "live_where d P s"
  obtains k x where "s k = Some x" "P k x" "om_deletionTimestamp (kd_meta d x) = None"
  using assms by (auto simp: live_where_def)

lemma not_live_where:
  "(\<And>k x. s k = Some x \<Longrightarrow> P k x \<Longrightarrow> gone_or_marked d (Some x)) \<Longrightarrow> \<not> live_where d P s"
  by (auto simp: live_where_def gone_or_marked_def)

lemma delete_makes_none_live:
  assumes "store_contract nf d K st"
  shows "preserves (\<lambda>w. \<not> live_where d P (st w)) (callA (k_delete K x))"
proof (rule preserves_callA)
  fix w r w' assume "k_delete K x w = (r, w')" and none: "\<not> live_where d P (st w)"
  with assms show "\<not> live_where d P (st w')"
  proof (cases rule: delete_any)
    case changed
    with none show ?thesis by (auto simp: live_where_def delete_effect_def split: if_splits)
  qed simp
qed

lemma create_keeps_live:
  assumes "store_contract nf d K st"
  shows "preserves (\<lambda>w. live_where d P (st w)) (callA (k_create K x))"
proof (rule preserves_callA)
  fix w r w' assume "k_create K x w = (r, w')" and live: "live_where d P (st w)"
  with store_contract_laws(3) [OF assms] consider "st w' = st w" | x' where "create_effect d x x' (st w) (st w')"
    unfolding create_law_def lost_or_nothing_def by (cases r) blast+
  then show "live_where d P (st w')"
  proof cases
    case 2
    with live show ?thesis
      by (auto simp: live_where_def create_effect_def) (metis fun_upd_other option.distinct(1))
  qed (use live in simp)
qed

lemma status_keeps_live:
  assumes "store_contract nf d K st"
    and P: "\<And>k x y. P k x \<Longrightarrow> kd_meta d y = kd_meta d x \<Longrightarrow> kd_body d y = kd_body d x \<Longrightarrow> P k y"
  shows "preserves (\<lambda>w. live_where d P (st w)) (callA (k_status_update K x))"
proof (rule preserves_callA)
  fix w r w' assume "k_status_update K x w = (r, w')" and live: "live_where d P (st w)"
  with assms(1) show "live_where d P (st w')"
  proof (cases rule: status_update_any)
    case (changed x')
    from live obtain k y where y: "st w k = Some y" "P k y" "om_deletionTimestamp (kd_meta d y) = None"
      by (rule live_whereE)
    show ?thesis
    proof (cases "k = kd_key d x")
      case True
      with changed y have "st w' k = Some x'" "kd_meta d x' = kd_meta d y" "kd_body d x' = kd_body d y"
        by (auto simp: status_effect_def)
      with y P [OF y(2), of x'] show ?thesis by (auto intro: live_whereI)
    next
      case False
      with changed y show ?thesis by (auto simp: status_effect_def intro: live_whereI)
    qed
  qed simp
qed

text \<open>\<open>CreateOrUpdate\<close> keeps what lives alive if its mutate function stays within \<open>P\<close>.\<close>

lemma upsert_keeps_live:
  assumes "store_contract nf d K st"
    and f: "\<And>old y z. P (kd_key d x) old \<Longrightarrow> f old = Inr y \<Longrightarrow> written (kd_meta d y) (kd_meta d z) \<Longrightarrow>
      kd_same d (kd_body d y) (kd_body d z) \<Longrightarrow> kd_key d y = kd_key d x \<Longrightarrow> P (kd_key d x) z"
  shows "preserves (\<lambda>w. live_where d P (st w)) (callA (k_create_or_update K x f))"
proof (rule preserves_callA)
  fix w r w' assume "k_create_or_update K x f w = (r, w')" and live: "live_where d P (st w)"
  with assms(1) show "live_where d P (st w')"
  proof (cases rule: create_or_update_any)
    case (changed x')
    from live obtain k y where y: "st w k = Some y" "P k y" "om_deletionTimestamp (kd_meta d y) = None"
      by (rule live_whereE)
    show ?thesis
    proof (cases "k = kd_key d x")
      case True
      with changed y(1) obtain z where z: "f y = Inr z" "kd_key d z = k" and
        out: "z = y \<and> st w' = st w \<or> update_effect d z x' (st w) (st w')"
        by (auto simp: create_or_update_effect_def)
      from out show ?thesis
      proof
        assume "update_effect d z x' (st w) (st w')"
        with y z have x': "updated_from d z y x'" "st w' k = Some x'"
          by (auto simp: update_effect_def store_after_def)
        with y(2,3) f [of y z x'] z True show ?thesis
          by (intro live_whereI [where s = "st w'" and k = k and x = x']) (auto simp: updated_from_def)
      qed (use live in simp)
    next
      case False
      with changed y have "st w' k = Some y"
        by (auto simp: create_or_update_effect_def create_effect_def update_effect_def store_after_def split: option.splits if_splits)
      with y show ?thesis by (auto intro: live_whereI)
    qed
  qed (use live in simp)
qed

lemma live_of_keeps:
  "keeps st m \<Longrightarrow> preserves (\<lambda>w. live_where d P (st w)) m"
  "keeps st m \<Longrightarrow> preserves (\<lambda>w. \<not> live_where d P (st w)) m"
  by (erule preserves_of_keeps, simp)+

text \<open>The reports of a policy.\<close>

definition reports_live :: "Policy \<Rightarrow> cluster \<Rightarrow> bool" where
  "reports_live policy c \<longleftrightarrow> live_where report_desc (\<lambda>_. reports_of policy) (c_reports c)"

lemma reports_removed_not_live: "reports_removed policy (c_reports c) \<Longrightarrow> \<not> reports_live policy c"
  unfolding reports_live_def by (rule not_live_where) (auto simp: reports_removed_def)

end
