(* ===== verification/PolicyEngine.thy ===== *)
theory PolicyEngine
  imports ReportInvariant HealthyApi LiveObjects
begin

section \<open>The interface of the policy engines\<close>

text \<open>
  The interface \<open>Engine\<close> of \<open>internal/policy/engine.go\<close>: a record of its four methods, for an
  engine value with its client. The locale states what the policy controller relies on when it
  calls an engine it knows only through the interface; each engine interprets it in its theory.
\<close>

record 'w engine =
  eng_Validate :: "Policy \<Rightarrow> go_error option"
  eng_Reconcile :: "Policy \<Rightarrow> ('w, unit) act"
  eng_Cleanup :: "Policy \<Rightarrow> ('w, unit) act"
  eng_GenerateReport :: "Policy \<Rightarrow> ('w, PolicyReport) act"

text \<open>
  \<open>mk\<close> builds the engine from a client; \<open>ready\<close> says that the part of the spec the engine reads is
  there; \<open>applicable\<close> under which conditions \<open>applied\<close> holds after \<open>Reconcile\<close>; \<open>released\<close> what
  holds in a cluster after a \<open>Cleanup\<close> that began in a given world, including what the cleanup leaves;
  \<open>report_name\<close> names the report of a policy.
\<close>

definition same_workloads :: "cluster \<Rightarrow> cluster \<Rightarrow> bool" where
  "same_workloads c c' \<longleftrightarrow>
     c_jobs c = c_jobs c' \<and> c_configmaps c = c_configmaps c' \<and> c_engines c = c_engines c'"

locale policy_engine =
  fixes mk :: "'w client \<Rightarrow> 'w runtime \<Rightarrow> util \<Rightarrow> 'w engine"
    and ptype :: string
    and ready :: "Policy \<Rightarrow> bool"
    and applicable :: "Policy \<Rightarrow> cluster \<Rightarrow> bool"
    and applied :: "util \<Rightarrow> Policy \<Rightarrow> cluster \<Rightarrow> bool"
    and released :: "'w client \<Rightarrow> util \<Rightarrow> ('w \<Rightarrow> cluster) \<Rightarrow> Policy \<Rightarrow> 'w \<Rightarrow> cluster \<Rightarrow> bool"
    and report_name :: "Policy \<Rightarrow> string"
  assumes validate_type: "eng_Validate (mk C R U) p = None \<Longrightarrow> ps_Type (pol_Spec p) = ptype"
    and validate_ready: "eng_Validate (mk C R U) p = None \<Longrightarrow> ready p"
    and reconcile_safe: "ready p \<Longrightarrow> no_panic (eng_Reconcile (mk C R U) p)"
    and cleanup_safe: "ready p \<Longrightarrow> no_panic (eng_Cleanup (mk C R U) p)"
    and generate_safe: "no_panic (eng_GenerateReport (mk C R U) p)"
    and reconcile_keeps: "api_contract U C cl \<Longrightarrow>
      keeps (\<lambda>w. (c_tools (cl w), c_policies (cl w), c_reports (cl w))) (eng_Reconcile (mk C R U) p)"
    and cleanup_keeps: "api_contract U C cl \<Longrightarrow>
      keeps (\<lambda>w. (c_tools (cl w), c_policies (cl w))) (eng_Cleanup (mk C R U) p)"
    and cleanup_wf: "api_contract U C cl \<Longrightarrow> preserves (\<lambda>w. wf_reports (cl w)) (eng_Cleanup (mk C R U) p)"
    and generate_keeps: "api_contract U C cl \<Longrightarrow> keeps cl (eng_GenerateReport (mk C R U) p)"
    and generate_report: "api_contract U C cl \<Longrightarrow> eng_GenerateReport (mk C R U) p w = (Ret r, w') \<Longrightarrow>
      kd_key report_desc r = (om_namespace (pol_meta p), report_name p)"
    and reconcile_applied: "api_contract U C cl \<Longrightarrow> runtime_contract R \<Longrightarrow>
      applicable p (cl w) \<Longrightarrow> eng_Reconcile (mk C R U) p w = (Ret u, w') \<Longrightarrow> applied U p (cl w')"
    and applied_frame: "same_workloads c c' \<Longrightarrow> applied U p c = applied U p c'"
    and cleanup_released: "api_contract U C cl \<Longrightarrow> runtime_contract R \<Longrightarrow>
      eng_Cleanup (mk C R U) p w = (Ret u, w') \<Longrightarrow> released C U cl p w (cl w')"
    and released_frame: "same_workloads c c' \<Longrightarrow> c_reports c = c_reports c' \<Longrightarrow>
      released C U cl p w c = released C U cl p w c'"
begin

lemma reconcile_frame:
  assumes "api_contract U C cl" "eng_Reconcile (mk C R U) p w = (r, w')"
  shows "c_tools (cl w') = c_tools (cl w)" "c_policies (cl w') = c_policies (cl w)"
    "c_reports (cl w') = c_reports (cl w)"
  using keepsD [OF reconcile_keeps [OF assms(1)] assms(2)] by simp_all

lemma cleanup_frame:
  assumes "api_contract U C cl" "eng_Cleanup (mk C R U) p w = (r, w')"
  shows "c_tools (cl w') = c_tools (cl w)" "c_policies (cl w') = c_policies (cl w)"
  using keepsD [OF cleanup_keeps [OF assms(1)] assms(2)] by simp_all

lemma generate_frame:
  assumes "api_contract U C cl" "eng_GenerateReport (mk C R U) p w = (r, w')"
  shows "cl w' = cl w"
  using keepsD [OF generate_keeps [OF assms(1)] assms(2)] .

end

text \<open>
  An engine that gets its work done when the API server answers: \<open>placeable\<close> says that nothing in the
  cluster stands in the way of the policy's workloads. All that an engine makes is a matter of the name,
  the namespace, the generation and the spec of the policy. \<open>cleaned\<close> is what such a cleanup achieves.
\<close>

definition same_policy :: "Policy \<Rightarrow> Policy \<Rightarrow> bool" where
  "same_policy p q \<longleftrightarrow> om_name (pol_meta q) = om_name (pol_meta p) \<and>
     om_namespace (pol_meta q) = om_namespace (pol_meta p) \<and>
     om_generation (pol_meta q) = om_generation (pol_meta p) \<and> pol_Spec q = pol_Spec p"

lemma same_policy_trans: "same_policy p q \<Longrightarrow> same_policy q r \<Longrightarrow> same_policy p r"
  by (simp add: same_policy_def)

lemma same_policy_key: "same_policy p q \<Longrightarrow> meta_key (pol_meta q) = meta_key (pol_meta p)"
  by (simp add: same_policy_def meta_key_def)

lemma same_policy_controls: "same_policy p q \<Longrightarrow> controllable k (pol_meta q) = controllable k (pol_meta p)"
  by (simp add: same_policy_def controllable_def fun_eq_iff)

locale live_engine = policy_engine +
  fixes placeable :: "util \<Rightarrow> Policy \<Rightarrow> cluster \<Rightarrow> bool"
    and cleaned :: "Policy \<Rightarrow> cluster \<Rightarrow> bool"
  assumes reconcile_returns: "api_contract U C cl \<Longrightarrow> healthy_api U C cl \<Longrightarrow> healthy_util U \<Longrightarrow>
      ready p \<Longrightarrow> placeable U p (cl w) \<Longrightarrow> \<exists>w'. eng_Reconcile (mk C R U) p w = (Ret (), w')"
    and cleanup_returns: "api_contract U C cl \<Longrightarrow> healthy_api U C cl \<Longrightarrow> ready p \<Longrightarrow> returns (eng_Cleanup (mk C R U) p)"
    and released_cleaned: "healthy_api U C cl \<Longrightarrow> released C U cl p w c \<Longrightarrow> cleaned p c"
    and cleaned_frame: "same_workloads c c' \<Longrightarrow> c_reports c = c_reports c' \<Longrightarrow> cleaned p c = cleaned p c'"
    and generate_returns: "api_contract U C cl \<Longrightarrow> healthy_api U C cl \<Longrightarrow> healthy_util U \<Longrightarrow>
      returns (eng_GenerateReport (mk C R U) p)"
    and placeable_frame: "same_workloads c c' \<Longrightarrow> placeable U p c = placeable U p c'"
    and applicable_frame: "same_workloads c c' \<Longrightarrow> applicable p c = applicable p c'"
    and same_policy_engine: "same_policy p q \<Longrightarrow> eng_Validate (mk C R U) q = eng_Validate (mk C R U) p \<and>
      ready q = ready p \<and> placeable U q c = placeable U p c \<and> applicable q c = applicable p c \<and>
      applied U q c = applied U p c \<and> cleaned q c = cleaned p c \<and> report_name q = report_name p"
begin

text \<open>Applying a valid policy to a cluster that has room for its workloads.\<close>

lemma reconcile_applies:
  assumes "api_contract U C cl" "healthy_api U C cl" "healthy_util U" "runtime_contract R"
    and "eng_Validate (mk C R U) p = None" "placeable U p (cl w)" "applicable p (cl w)"
  obtains w' where "eng_Reconcile (mk C R U) p w = (Ret (), w')" "applied U p (cl w')"
  using reconcile_returns [OF assms(1-3) validate_ready [OF assms(5)] assms(6)]
    reconcile_applied [OF assms(1,4,7)] by blast

lemma cleanup_releases:
  assumes "api_contract U C cl" "healthy_api U C cl" "runtime_contract R" "ready p"
  obtains w' where "eng_Cleanup (mk C R U) p w = (Ret (), w')" "cleaned p (cl w')"
proof -
  from returnsE [OF cleanup_returns [OF assms(1,2,4)]] obtain u :: unit and w'
    where "eng_Cleanup (mk C R U) p w = (Ret u, w')" .
  with released_cleaned [OF assms(2) cleanup_released [OF assms(1,3)]] show thesis by (intro that [of w']) auto
qed

end

text \<open>
  What an engine deploys for a policy, its report included, is \<open>active\<close> while some of it lives. Whatever the
  API server answers, a cleanup never makes something active, and neither a run nor a publication of the
  report ends it. \<open>leftover\<close> says in which case a cleanup that succeeds leaves something that lives, and what.
\<close>

locale lasting_engine = policy_engine +
  fixes active :: "Policy \<Rightarrow> cluster \<Rightarrow> bool"
    and leftover :: "'w client \<Rightarrow> util \<Rightarrow> Policy \<Rightarrow> 'w \<Rightarrow> cluster \<Rightarrow> bool"
  assumes released_inactive: "released C U cl p w c \<Longrightarrow> \<not> active p c \<or> leftover C U p w c"
    and cleanup_inactive: "api_contract U C cl \<Longrightarrow> preserves (\<lambda>w. \<not> active p (cl w)) (eng_Cleanup (mk C R U) p)"
    and reconcile_active: "api_contract U C cl \<Longrightarrow> preserves (\<lambda>w. active p (cl w)) (eng_Reconcile (mk C R U) p)"
    and active_workloads: "same_workloads c c' \<Longrightarrow> reports_live p c \<longrightarrow> reports_live p c' \<Longrightarrow> active p c \<Longrightarrow> active p c'"
begin

lemma active_frame:
  assumes "same_workloads c c'" "c_reports c = c_reports c'"
  shows "active p c = active p c'"
  using active_workloads [of c c' p] active_workloads [of c' c p] assms
  by (auto simp: same_workloads_def reports_live_def)

end

end
