(* ===== verification/MemCluster.thy ===== *)
theory MemCluster
  imports HealthyApi
begin

section \<open>A cluster in memory\<close>

text \<open>
  An instance of the parameters of \<open>ApiClient\<close>: object stores held in lists, with the operations the
  contract describes, and helpers that work on the metadata. It shows that the contract can hold,
  and the witnesses of the development run the operator's code on it.
\<close>

definition mem_lookup :: "('o \<Rightarrow> 'k) \<Rightarrow> 'o list \<Rightarrow> 'k \<rightharpoonup> 'o" where
  "mem_lookup key xs k = find (\<lambda>x. key x = k) xs"

definition mem_drop :: "('o \<Rightarrow> 'k) \<Rightarrow> 'k \<Rightarrow> 'o list \<Rightarrow> 'o list" where
  "mem_drop key k xs = filter (\<lambda>x. key x \<noteq> k) xs"

definition mem_put :: "('o \<Rightarrow> 'k) \<Rightarrow> 'o \<Rightarrow> 'o list \<Rightarrow> 'o list" where
  "mem_put key x xs = x # mem_drop key (key x) xs"

lemma mem_lookup_drop: "mem_lookup key (mem_drop key k xs) = (mem_lookup key xs)(k := None)"
  by (rule ext, induction xs) (auto simp: mem_lookup_def mem_drop_def)

lemma mem_lookup_Cons:
  "mem_lookup key (x # xs) k = (if key x = k then Some x else mem_lookup key xs k)"
  by (simp add: mem_lookup_def)

lemma mem_lookup_put: "mem_lookup key (mem_put key x xs) = (mem_lookup key xs)(key x \<mapsto> x)"
  by (rule ext) (simp add: mem_put_def mem_lookup_Cons mem_lookup_drop)

lemma mem_lookup_key: "mem_lookup key xs k = Some x \<Longrightarrow> key x = k"
  by (auto simp: mem_lookup_def find_Some_iff)

definition not_found :: go_error where
  "not_found = StatusError ''NotFound'' ''not found''"

definition already_exists :: go_error where
  "already_exists = StatusError ''AlreadyExists'' ''already exists''"

definition mem_api ::
  "('o \<Rightarrow> obj_key) \<Rightarrow> ('o \<Rightarrow> obj_meta) \<Rightarrow> (obj_meta \<Rightarrow> 'o \<Rightarrow> 'o) \<Rightarrow> ('o \<Rightarrow> 'o \<Rightarrow> 'o) \<Rightarrow> ('o \<Rightarrow> 'o) \<Rightarrow>
   ('w \<Rightarrow> 'o list) \<Rightarrow> (('o list \<Rightarrow> 'o list) \<Rightarrow> 'w \<Rightarrow> 'w) \<Rightarrow> ('w, 'o) kind_api" where
  "mem_api key get_meta set_meta put_status fresh get upd =
     (let look = (\<lambda>w. mem_lookup key (get w));
          save = (\<lambda>old x. if om_deletionTimestamp (get_meta old) \<noteq> None \<and> om_finalizers (get_meta x) = []
                          then upd (mem_drop key (key x)) else upd (mem_put key x));
          modify = (\<lambda>old x. put_status old (set_meta ((get_meta x)
             \<lparr>om_deletionTimestamp := om_deletionTimestamp (get_meta old),
              om_generation := om_generation (get_meta old)\<rparr>) x)) in
      \<lparr>k_get = (\<lambda>k w. case look w k of None \<Rightarrow> (Inl not_found, w) | Some x \<Rightarrow> (Inr x, w)),
       k_list = (\<lambda>ns sel w. (Inr (filter (\<lambda>x. matches sel (get_meta x) \<and> fst (key x) = ns)
          (map (\<lambda>k. the (look w k)) (remdups (map key (get w))))), w)),
       k_create = (\<lambda>x w. case look w (key x) of
          None \<Rightarrow> (Inr (fresh x), upd (mem_put key (fresh x)) w)
        | Some _ \<Rightarrow> (Inl already_exists, w)),
       k_update = (\<lambda>x w. case look w (key x) of
          None \<Rightarrow> (Inl not_found, w)
        | Some old \<Rightarrow> (Inr (modify old x), save old (modify old x) w)),
       k_status_update = (\<lambda>x w. case look w (key x) of
          None \<Rightarrow> (Inl not_found, w)
        | Some old \<Rightarrow> (Inr (put_status x old), upd (mem_put key (put_status x old)) w)),
       k_patch = (\<lambda>orig x w. case look w (key x) of
          None \<Rightarrow> (Inl not_found, w)
        | Some old \<Rightarrow>
            let x' = set_meta ((get_meta old)\<lparr>om_finalizers := om_finalizers (get_meta x)\<rparr>) old
            in (Inr x', save old x' w)),
       k_delete = (\<lambda>x w. case look w (key x) of
          None \<Rightarrow> (Inl not_found, w)
        | Some old \<Rightarrow> (Inr (),
            if om_finalizers (get_meta old) = [] then upd (mem_drop key (key x)) w
            else upd (mem_put key (set_meta ((get_meta old)\<lparr>om_deletionTimestamp := Some 1\<rparr>) old)) w)),
       k_create_or_update = (\<lambda>x f w. case look w (key x) of
          None \<Rightarrow> (case f x of Inl e \<Rightarrow> (Inl e, w)
             | Inr y \<Rightarrow> if key y = key x then (Inr (fresh y), upd (mem_put key (fresh y)) w)
                 else (Inl (ExtError ''MutateFn cannot mutate object name and/or object namespace''), w))
        | Some old \<Rightarrow> (case f old of Inl e \<Rightarrow> (Inl e, w)
             | Inr y \<Rightarrow> if key y = key x then (Inr (modify old y), save old (modify old y) w)
                 else (Inl (ExtError ''MutateFn cannot mutate object name and/or object namespace''), w)))\<rparr>)"

text \<open>The accessors of a kind and of its store behave as fields do.\<close>

definition mem_accessors ::
  "('o, 'b, 's) kind_desc \<Rightarrow> (obj_meta \<Rightarrow> 'o \<Rightarrow> 'o) \<Rightarrow> ('o \<Rightarrow> 'o \<Rightarrow> 'o) \<Rightarrow> ('o \<Rightarrow> 'o) \<Rightarrow>
   ('w \<Rightarrow> 'o list) \<Rightarrow> (('o list \<Rightarrow> 'o list) \<Rightarrow> 'w \<Rightarrow> 'w) \<Rightarrow> bool" where
  "mem_accessors d set_meta put_status fresh get upd \<longleftrightarrow>
     (\<forall>m x. kd_meta d (set_meta m x) = m \<and> kd_body d (set_meta m x) = kd_body d x \<and>
        kd_status d (set_meta m x) = kd_status d x) \<and>
     (\<forall>x y. kd_meta d (put_status x y) = kd_meta d y \<and> kd_body d (put_status x y) = kd_body d y \<and>
        kd_status d (put_status x y) = kd_status d x) \<and>
     (\<forall>x. kd_meta d (fresh x) = kd_meta d x \<and> kd_body d (fresh x) = kd_body d x \<and>
        kd_fresh d (kd_status d (fresh x))) \<and>
     (\<forall>f w. get (upd f w) = f (get w)) \<and> (\<forall>b. kd_same d b b)"

lemma mem_accessorsD:
  assumes "mem_accessors d set_meta put_status fresh get upd"
  shows "kd_meta d (set_meta m x) = m" "kd_body d (set_meta m x) = kd_body d x"
    "kd_status d (set_meta m x) = kd_status d x"
    "kd_meta d (put_status x y) = kd_meta d y" "kd_body d (put_status x y) = kd_body d y"
    "kd_status d (put_status x y) = kd_status d x"
    "kd_meta d (fresh x) = kd_meta d x" "kd_body d (fresh x) = kd_body d x" "kd_fresh d (kd_status d (fresh x))"
    "get (upd f w) = f (get w)" "kd_same d b b"
  using assms by (simp_all add: mem_accessors_def)

lemma mem_list_set:
  "set (filter P (map (\<lambda>k. the (mem_lookup key xs k)) (remdups (map key xs)))) =
     {x. (\<exists>k. mem_lookup key xs k = Some x) \<and> P x}"
proof -
  have "(\<exists>k \<in> key ` set xs. x = the (mem_lookup key xs k)) \<longleftrightarrow> (\<exists>k. mem_lookup key xs k = Some x)" for x
  proof
    assume "\<exists>k \<in> key ` set xs. x = the (mem_lookup key xs k)"
    then obtain y where "y \<in> set xs" "x = the (mem_lookup key xs (key y))" by blast
    moreover from \<open>y \<in> set xs\<close> have "mem_lookup key xs (key y) \<noteq> None"
      by (auto simp: mem_lookup_def find_None_iff)
    ultimately show "\<exists>k. mem_lookup key xs k = Some x" by auto
  next
    assume "\<exists>k. mem_lookup key xs k = Some x"
    then obtain k where k: "mem_lookup key xs k = Some x" by blast
    then have "x \<in> set xs" "key x = k"
      by (auto simp: mem_lookup_def find_Some_iff)
    with k show "\<exists>k \<in> key ` set xs. x = the (mem_lookup key xs k)" by force
  qed
  then have "(\<lambda>k. the (mem_lookup key xs k)) ` key ` set xs = {x. \<exists>k. mem_lookup key xs k = Some x}"
    by (simp only: set_eq_iff image_iff mem_Collect_eq) simp
  then show ?thesis by (simp only: set_filter set_map set_remdups) auto
qed

lemmas mem_simps = mem_api_def Let_def mem_lookup_drop mem_lookup_put kd_key_def meta_key_def
  not_found_def already_exists_def

lemma mem_get_law:
  assumes "mem_accessors d sm ps fr get upd"
  shows "get_law nf (mem_api (kd_key d) (kd_meta d) sm ps fr get upd) (\<lambda>w. mem_lookup (kd_key d) (get w))"
  by (auto simp: get_law_def mem_simps split: option.splits)

lemma mem_list_distinct:
  "distinct (map key (map (\<lambda>k. the (mem_lookup key xs k)) (remdups (map key xs))))"
proof -
  have "key (the (mem_lookup key xs k)) = k" if k: "k \<in> key ` set xs" for k
  proof -
    from k have "mem_lookup key xs k \<noteq> None" by (auto simp: mem_lookup_def find_None_iff)
    then show ?thesis by (auto dest: mem_lookup_key)
  qed
  then have "map key (map (\<lambda>k. the (mem_lookup key xs k)) (remdups (map key xs))) = remdups (map key xs)"
    by (auto intro!: map_idI simp: o_def)
  then show ?thesis by simp
qed

lemma mem_list_law:
  assumes "mem_accessors d sm ps fr get upd"
  shows "list_law d (mem_api (kd_key d) (kd_meta d) sm ps fr get upd) (\<lambda>w. mem_lookup (kd_key d) (get w))"
proof -
  have "set (filter (\<lambda>x. matches sel (kd_meta d x) \<and> fst (kd_key d x) = ns)
          (map (\<lambda>k. the (mem_lookup (kd_key d) (get w) k)) (remdups (map (kd_key d) (get w))))) =
        {x. \<exists>n. mem_lookup (kd_key d) (get w) (ns, n) = Some x \<and> matches sel (kd_meta d x)}" for ns sel w
  proof -
    have "(\<exists>k. mem_lookup (kd_key d) (get w) k = Some x) \<and> fst (kd_key d x) = ns \<longleftrightarrow>
        (\<exists>n. mem_lookup (kd_key d) (get w) (ns, n) = Some x)" for x
      using mem_lookup_key [of "kd_key d" "get w"] by (metis fst_conv prod.collapse)
    then show ?thesis unfolding mem_list_set by blast
  qed
  moreover have "distinct (map (kd_key d) (filter P
      (map (\<lambda>k. the (mem_lookup (kd_key d) (get w) k)) (remdups (map (kd_key d) (get w))))))" for P w
    using mem_list_distinct [of "kd_key d" "get w"] by (rule distinct_map_filter)
  ultimately show ?thesis
    by (auto simp: list_law_def mem_api_def Let_def)
qed

lemma mem_create_law:
  assumes "mem_accessors d sm ps fr get upd"
  shows "create_law d (mem_api (kd_key d) (kd_meta d) sm ps fr get upd) (\<lambda>w. mem_lookup (kd_key d) (get w))"
  using mem_accessorsD [OF assms]
  by (auto simp: create_law_def create_effect_def lost_or_nothing_def mem_simps written_def split: option.splits)

lemma mem_update_law:
  assumes "mem_accessors d sm ps fr get upd"
  shows "update_law d (mem_api (kd_key d) (kd_meta d) sm ps fr get upd) (\<lambda>w. mem_lookup (kd_key d) (get w))"
  using mem_accessorsD [OF assms]
  by (auto simp: update_law_def update_effect_def lost_or_nothing_def mem_simps written_def updated_from_def store_after_def
      split: option.splits)

lemma mem_status_law:
  assumes "mem_accessors d sm ps fr get upd"
  shows "status_law d (mem_api (kd_key d) (kd_meta d) sm ps fr get upd) (\<lambda>w. mem_lookup (kd_key d) (get w))"
  unfolding status_law_def
proof (intro allI impI)
  fix x w r w'
  assume run: "k_status_update (mem_api (kd_key d) (kd_meta d) sm ps fr get upd) x w = (r, w')"
  show "(\<forall>e. r = Inl e \<longrightarrow> lost_or_nothing e (\<lambda>s s'. \<exists>x'. status_effect d x x' s s')
        (mem_lookup (kd_key d) (get w)) (mem_lookup (kd_key d) (get w'))) \<and>
     (\<forall>x'. r = Inr x' \<longrightarrow> status_effect d x x'
        (mem_lookup (kd_key d) (get w)) (mem_lookup (kd_key d) (get w')))"
  proof (cases "mem_lookup (kd_key d) (get w) (kd_key d x)")
    case None
    with run show ?thesis by (auto simp: mem_api_def Let_def lost_or_nothing_def)
  next
    case (Some old)
    then have "kd_key d old = kd_key d x" by (rule mem_lookup_key)
    with Some run mem_accessorsD [OF assms] show ?thesis
      by (auto simp: mem_api_def Let_def mem_lookup_put kd_key_def status_effect_def)
  qed
qed

lemma mem_patch_Ret:
  assumes "mem_accessors d sm ps fr get upd"
    and run: "k_patch (mem_api (kd_key d) (kd_meta d) sm ps fr get upd) orig x w = (Inr x', w')"
    "kd_meta d x = kd_meta d orig\<lparr>om_finalizers := fs\<rparr>"
  shows "\<exists>old. mem_lookup (kd_key d) (get w) (kd_key d x) = Some old \<and>
      kd_meta d x' = kd_meta d old\<lparr>om_finalizers := fs\<rparr> \<and> kd_body d x' = kd_body d old \<and>
      kd_status d x' = kd_status d old \<and>
      mem_lookup (kd_key d) (get w') =
        store_after (kd_meta d old) (kd_meta d x') (kd_key d x) x' (mem_lookup (kd_key d) (get w))"
proof -
  from run obtain old where old: "mem_lookup (kd_key d) (get w) (kd_key d x) = Some old"
    by (auto simp: mem_api_def Let_def split: option.splits)
  then have "kd_key d old = kd_key d x" by (rule mem_lookup_key)
  with old run mem_accessorsD [OF assms(1)]
  show ?thesis
    by (auto simp: mem_api_def Let_def mem_lookup_put mem_lookup_drop kd_key_def meta_key_def
        store_after_def)
qed

lemma mem_patch_law:
  assumes "mem_accessors d sm ps fr get upd"
  shows "patch_law d (mem_api (kd_key d) (kd_meta d) sm ps fr get upd) (\<lambda>w. mem_lookup (kd_key d) (get w))"
  unfolding patch_law_def
proof (intro allI impI conjI)
  fix orig x w r w' e
  assume "k_patch (mem_api (kd_key d) (kd_meta d) sm ps fr get upd) orig x w = (r, w')" "r = Inl e"
  then show "lost_or_nothing e (\<lambda>s s'. \<exists>x'. patch_effect d orig x x' s s')
      (mem_lookup (kd_key d) (get w)) (mem_lookup (kd_key d) (get w'))"
    by (auto simp: mem_api_def Let_def lost_or_nothing_def split: option.splits)
next
  fix orig x w r w' x'
  assume "k_patch (mem_api (kd_key d) (kd_meta d) sm ps fr get upd) orig x w = (r, w')" "r = Inr x'"
  then show "patch_effect d orig x x' (mem_lookup (kd_key d) (get w)) (mem_lookup (kd_key d) (get w'))"
    unfolding patch_effect_def by (blast intro: mem_patch_Ret [OF assms])
qed

lemma mem_delete_law:
  assumes "mem_accessors d sm ps fr get upd"
  shows "delete_law nf d (mem_api (kd_key d) (kd_meta d) sm ps fr get upd) (\<lambda>w. mem_lookup (kd_key d) (get w))"
  unfolding delete_law_def
proof (intro allI impI conjI)
  fix x w r w' e
  assume "k_delete (mem_api (kd_key d) (kd_meta d) sm ps fr get upd) x w = (r, w')" "r = Inl e"
  then have "mem_lookup (kd_key d) (get w) (kd_key d x) = None" "w' = w"
    by (auto simp: mem_api_def Let_def split: option.splits)
  then show "lost_or_nothing e (delete_effect d x) (mem_lookup (kd_key d) (get w)) (mem_lookup (kd_key d) (get w'))"
    "mem_lookup (kd_key d) (get w') = mem_lookup (kd_key d) (get w)"
    "mem_lookup (kd_key d) (get w) (kd_key d x) = None" by (simp_all add: lost_or_nothing_def)
next
  fix x w r w' u
  assume run: "k_delete (mem_api (kd_key d) (kd_meta d) sm ps fr get upd) x w = (r, w')" "r = Inr u"
  then obtain old where old: "mem_lookup (kd_key d) (get w) (kd_key d x) = Some old"
    by (auto simp: mem_api_def Let_def split: option.splits)
  then have key: "kd_key d old = kd_key d x" by (rule mem_lookup_key)
  let ?marked = "sm (kd_meta d old\<lparr>om_deletionTimestamp := Some 1\<rparr>) old"
  have "if om_finalizers (kd_meta d old) = []
       then mem_lookup (kd_key d) (get w') = (mem_lookup (kd_key d) (get w))(kd_key d x := None)
       else mem_lookup (kd_key d) (get w') = (mem_lookup (kd_key d) (get w))(kd_key d x \<mapsto> ?marked)"
    using old key run mem_accessorsD [OF assms]
    by (auto simp: mem_api_def Let_def mem_lookup_put mem_lookup_drop kd_key_def meta_key_def)
  with old mem_accessorsD [OF assms]
  show "delete_effect d x (mem_lookup (kd_key d) (get w)) (mem_lookup (kd_key d) (get w'))"
    unfolding delete_effect_def
    by (intro exI [of _ old]) (auto intro!: exI [of _ ?marked])
qed

lemma mem_create_or_update_law:
  assumes "mem_accessors d sm ps fr get upd"
  shows "create_or_update_law d (mem_api (kd_key d) (kd_meta d) sm ps fr get upd) (\<lambda>w. mem_lookup (kd_key d) (get w))"
  using mem_accessorsD [OF assms]
  by (auto simp: create_or_update_law_def create_or_update_effect_def create_effect_def update_effect_def
      lost_or_nothing_def mem_simps written_def updated_from_def store_after_def
      rejected_def split: option.splits sum.splits if_splits)

lemma mem_store_contract:
  assumes "mem_accessors d sm ps fr get upd"
  shows "store_contract nf d (mem_api (kd_key d) (kd_meta d) sm ps fr get upd) (\<lambda>w. mem_lookup (kd_key d) (get w))"
  unfolding store_contract_def keyed_law_def
  using mem_get_law [OF assms] mem_list_law [OF assms] mem_create_law [OF assms]
    mem_update_law [OF assms] mem_status_law [OF assms] mem_patch_law [OF assms]
    mem_delete_law [OF assms] mem_create_or_update_law [OF assms]
  by (auto dest: mem_lookup_key)

subsection \<open>The cluster record and its client\<close>

record mem =
  mem_tools :: "Tool list"
  mem_policies :: "Policy list"
  mem_reports :: "PolicyReport list"
  mem_jobs :: "Job list"
  mem_configmaps :: "ConfigMap list"
  mem_engines :: "ChaosEngine list"
  mem_namespaces :: "Namespace list"
  mem_pods :: "Pod list"
  mem_deployments :: "Deployment list"
  mem_releases :: "(string \<times> string) list"
  mem_lost :: "(string \<times> string) list"

definition empty_mem :: mem where
  "empty_mem = \<lparr>mem_tools = [], mem_policies = [], mem_reports = [], mem_jobs = [],
     mem_configmaps = [], mem_engines = [], mem_namespaces = [], mem_pods = [],
     mem_deployments = [], mem_releases = [], mem_lost = []\<rparr>"

definition mem_client :: "mem client" where
  "mem_client =
     \<lparr>cl_tools = mem_api (\<lambda>x. meta_key (tool_meta x)) tool_meta (\<lambda>m x. x\<lparr>tool_meta := m\<rparr>)
        (\<lambda>x y. y\<lparr>tool_Status := tool_Status x\<rparr>) id mem_tools mem_tools_update,
      cl_policies = mem_api (\<lambda>x. meta_key (pol_meta x)) pol_meta (\<lambda>m x. x\<lparr>pol_meta := m\<rparr>)
        (\<lambda>x y. y\<lparr>pol_Status := pol_Status x\<rparr>) id mem_policies mem_policies_update,
      cl_reports = mem_api (\<lambda>x. meta_key (rep_meta x)) rep_meta (\<lambda>m x. x\<lparr>rep_meta := m\<rparr>)
        (\<lambda>x y. y\<lparr>rep_Status := rep_Status x\<rparr>) (\<lambda>x. x\<lparr>rep_Status := zero_report_status\<rparr>)
        mem_reports mem_reports_update,
      cl_jobs = mem_api (\<lambda>x. meta_key (job_meta x)) job_meta (\<lambda>m x. x\<lparr>job_meta := m\<rparr>)
        (\<lambda>x y. y\<lparr>job_Status := job_Status x\<rparr>) id mem_jobs mem_jobs_update,
      cl_configmaps = mem_api (\<lambda>x. meta_key (cm_meta x)) cm_meta (\<lambda>m x. x\<lparr>cm_meta := m\<rparr>)
        (\<lambda>x y. y) id mem_configmaps mem_configmaps_update,
      cl_engines = mem_api (\<lambda>x. meta_key (ce_meta x)) ce_meta (\<lambda>m x. x\<lparr>ce_meta := m\<rparr>)
        (\<lambda>x y. y\<lparr>ce_Status := ce_Status x\<rparr>) id mem_engines mem_engines_update,
      cl_list_namespaces = (\<lambda>w. (Inr (mem_namespaces w), w)),
      cl_list_pods = (\<lambda>ns w. (Inr (filter (\<lambda>p. om_namespace (pod_meta p) = ns) (mem_pods w)), w))\<rparr>"

definition mem_util :: util where
  "mem_util =
     \<lparr>isNotFound = (\<lambda>e. case e of StatusError r _ \<Rightarrow> r = ''NotFound'' | _ \<Rightarrow> False),
      isAlreadyExists = (\<lambda>e. case e of StatusError r _ \<Rightarrow> r = ''AlreadyExists'' | _ \<Rightarrow> False),
      ignoreNotFound = (\<lambda>e. case e of StatusError r _ \<Rightarrow> if r = ''NotFound'' then None else Some e | _ \<Rightarrow> Some e),
      containsFinalizer = (\<lambda>m f. f \<in> set (om_finalizers m)),
      addFinalizer = (\<lambda>m f. m\<lparr>om_finalizers := (if f \<in> set (om_finalizers m) then om_finalizers m
          else om_finalizers m @ [f])\<rparr>),
      removeFinalizer = (\<lambda>m f. m\<lparr>om_finalizers := filter (\<lambda>g. g \<noteq> f) (om_finalizers m)\<rparr>),
      hasOwnerReference = (\<lambda>rs (k, m). Inr (list_ex (\<lambda>r. or_kind r = k \<and> or_name r = om_name m) rs)),
      setOwnerReference = (\<lambda>(k, ow) m. Inr (m\<lparr>om_ownerReferences := om_ownerReferences m @
          [\<lparr>or_kind = k, or_name = om_name ow, or_uid = om_uid ow, or_controller = False\<rparr>]\<rparr>)),
      setControllerReference = (\<lambda>(k, ow) m. if list_ex (\<lambda>r. or_controller r \<and>
            \<not> (or_kind r = k \<and> or_name r = om_name ow)) (om_ownerReferences m)
          then Inl (ExtError ''already owned by another controller'')
          else Inr (m\<lparr>om_ownerReferences :=
            filter (\<lambda>r. \<not> (or_kind r = k \<and> or_name r = om_name ow)) (om_ownerReferences m) @
            [\<lparr>or_kind = k, or_name = om_name ow, or_uid = om_uid ow, or_controller = True\<rparr>]\<rparr>)),
      setStatusCondition = (\<lambda>cs c. filter (\<lambda>d. co_Type d \<noteq> co_Type c) cs @ [c]),
      jsonMarshal = json_Marshal, jsonUnmarshalMap = json_UnmarshalMap\<rparr>"

definition mem_cluster :: "mem \<Rightarrow> cluster" where
  "mem_cluster w =
     \<lparr>c_tools = mem_lookup (\<lambda>x. meta_key (tool_meta x)) (mem_tools w),
      c_policies = mem_lookup (\<lambda>x. meta_key (pol_meta x)) (mem_policies w),
      c_reports = mem_lookup (\<lambda>x. meta_key (rep_meta x)) (mem_reports w),
      c_jobs = mem_lookup (\<lambda>x. meta_key (job_meta x)) (mem_jobs w),
      c_configmaps = mem_lookup (\<lambda>x. meta_key (cm_meta x)) (mem_configmaps w),
      c_engines = mem_lookup (\<lambda>x. meta_key (ce_meta x)) (mem_engines w)\<rparr>"

lemma mem_cluster_simps [simp]:
  "c_tools (mem_cluster w) = mem_lookup (\<lambda>x. meta_key (tool_meta x)) (mem_tools w)"
  "c_policies (mem_cluster w) = mem_lookup (\<lambda>x. meta_key (pol_meta x)) (mem_policies w)"
  "c_reports (mem_cluster w) = mem_lookup (\<lambda>x. meta_key (rep_meta x)) (mem_reports w)"
  "c_jobs (mem_cluster w) = mem_lookup (\<lambda>x. meta_key (job_meta x)) (mem_jobs w)"
  "c_configmaps (mem_cluster w) = mem_lookup (\<lambda>x. meta_key (cm_meta x)) (mem_configmaps w)"
  "c_engines (mem_cluster w) = mem_lookup (\<lambda>x. meta_key (ce_meta x)) (mem_engines w)"
  by (simp_all add: mem_cluster_def)

lemma mem_util_contract: "util_contract mem_util"
proof -
  have "\<exists>fs. m = m\<lparr>om_finalizers := fs\<rparr> \<and> set fs = insert f (set (om_finalizers m))"
    if "f \<in> set (om_finalizers m)" for m :: obj_meta and f
    using that by (intro exI [of _ "om_finalizers m"]) auto
  then show ?thesis
    by (auto simp: util_contract_def json_codec_def mem_util_def split: go_error.splits if_splits)
qed

lemma kd_key_descs:
  "(\<lambda>x. meta_key (tool_meta x)) = kd_key tool_desc" "(\<lambda>x. meta_key (pol_meta x)) = kd_key policy_desc"
  "(\<lambda>x. meta_key (rep_meta x)) = kd_key report_desc" "(\<lambda>x. meta_key (job_meta x)) = kd_key job_desc"
  "(\<lambda>x. meta_key (cm_meta x)) = kd_key configmap_desc" "(\<lambda>x. meta_key (ce_meta x)) = kd_key engine_desc"
  by (auto simp: kd_key_def)

lemmas mem_contracts = mem_store_contract [of tool_desc, unfolded desc_simps]
  mem_store_contract [of policy_desc, unfolded desc_simps]
  mem_store_contract [of report_desc, unfolded desc_simps]
  mem_store_contract [of job_desc, unfolded desc_simps]
  mem_store_contract [of configmap_desc, unfolded desc_simps]
  mem_store_contract [of engine_desc, unfolded desc_simps]

lemma mem_frame:
  assumes "\<And>f w. g (upd f w) = g w"
  shows "kind_frame (mem_api key gm sm ps fr get upd) g"
  unfolding kind_frame_def
  by (intro conjI allI keeps_callA)
    (auto simp: mem_api_def Let_def assms split: option.splits sum.splits)

text \<open>The contract can hold: the cluster in memory satisfies it.\<close>

lemma mem_api_contract: "api_contract mem_util mem_client mem_cluster"
  unfolding api_contract_def mem_client_def kd_key_descs
  by (auto intro!: mem_contracts mem_frame mem_util_contract
      simp: mem_accessors_def same_job_spec_def mem_cluster_def kd_key_descs all_but_tools_def
        all_but_policies_def all_but_reports_def all_but_jobs_def all_but_configmaps_def
        all_but_engines_def)

definition mem_runtime :: "'w runtime" where
  "mem_runtime = \<lparr>rt_key_order = (\<lambda>_ ks. ks), rt_intn = (\<lambda>n w. (0, w)), rt_now = (\<lambda>w. (0, w)),
     rt_same_bytes = (\<lambda>_ a b. a = b),
     rt_nil_slice = (\<lambda>_. False)\<rparr>"

lemma mem_runtime_contract: "runtime_contract mem_runtime"
  by (simp add: runtime_contract_def mem_runtime_def)

text \<open>It answers every request that its state permits.\<close>

lemma mem_healthy_kind:
  assumes "mem_accessors d sm ps fr get upd" "nf not_found"
  shows "healthy_kind nf d (mem_api (kd_key d) (kd_meta d) sm ps fr get upd) (\<lambda>w. mem_lookup (kd_key d) (get w))"
  unfolding healthy_kind_def
proof (intro conjI allI impI)
  fix x :: 'a and f :: "'a \<Rightarrow> go_error + 'a" and w y
  let ?base = "case mem_lookup (kd_key d) (get w) (kd_key d x) of None \<Rightarrow> x | Some old \<Rightarrow> old"
  assume "f ?base = Inr y" "kd_key d y = kd_key d x"
  then show "\<exists>x' w'. k_create_or_update (mem_api (kd_key d) (kd_meta d) sm ps fr get upd) x f w = (Inr x', w')"
    by (cases "mem_lookup (kd_key d) (get w) (kd_key d x)") (simp_all add: mem_api_def Let_def)
qed (use assms(2) in \<open>auto simp: mem_api_def Let_def returns_def callA_act split: option.splits if_splits\<close>)

lemmas mem_healthy_kinds = mem_healthy_kind [of tool_desc, unfolded desc_simps]
  mem_healthy_kind [of policy_desc, unfolded desc_simps]
  mem_healthy_kind [of report_desc, unfolded desc_simps]
  mem_healthy_kind [of job_desc, unfolded desc_simps]
  mem_healthy_kind [of configmap_desc, unfolded desc_simps]
  mem_healthy_kind [of engine_desc, unfolded desc_simps]

lemma mem_healthy_api: "healthy_api mem_util mem_client mem_cluster"
proof -
  have nf: "isNotFound mem_util not_found" by (simp add: mem_util_def not_found_def)
  show ?thesis
    unfolding healthy_api_def mem_client_def kd_key_descs
    by (auto intro!: mem_healthy_kinds nf simp: mem_accessors_def same_job_spec_def mem_cluster_def kd_key_descs)
qed

lemma mem_healthy_util: "healthy_util mem_util"
  by (auto simp: healthy_util_def controllable_def mem_util_def list_ex_iff)

end
