(* ===== verification/TrivyEngine.thy ===== *)
theory TrivyEngine
  imports PolicyEngine MemCluster
begin

section \<open>The Trivy policy engine\<close>

text \<open>
  \<open>internal/policy/trivy/engine.go\<close>: one Job per scan of a Trivy policy. The loop body of
  \<open>Reconcile\<close> and of \<open>Cleanup\<close> is a definition of its own; \<open>policy.Spec.Trivy\<close> is a pointer, so both
  panic when it is nil. The lemmas describe the jobs in the cluster before and after a run.
\<close>

subsection \<open>Constants and names\<close>

definition trivy_managedByLabelKey :: string where
  "trivy_managedByLabelKey = ''app.kubernetes.io/managed-by''"
definition trivy_managedByLabelVal :: string where
  "trivy_managedByLabelVal = ''eirenyx''"
definition trivy_policyNameLabelKey :: string where
  "trivy_policyNameLabelKey = ''eirenyx.eirenyx/policy-name''"
definition trivy_policyTypeLabelKey :: string where
  "trivy_policyTypeLabelKey = ''eirenyx.eirenyx/policy-type''"
definition trivyScanNameLabelKey :: string where
  "trivyScanNameLabelKey = ''eirenyx.eirenyx/trivy-scan-name''"
definition trivyImage :: string where
  "trivyImage = ''aquasec/trivy:0.61.0''"
definition jobTTLSeconds :: i32 where
  "jobTTLSeconds = 1800"

definition trivy_getScanJobName :: "Policy \<Rightarrow> string \<Rightarrow> string" where
  "trivy_getScanJobName policy scanName =
     ''eirenyx-trivy-'' @ om_name (pol_meta policy) @ ''-'' @ scanName"

definition trivy_scan_key :: "Policy \<Rightarrow> TrivyScan \<Rightarrow> obj_key" where
  "trivy_scan_key policy scan =
     (om_namespace (pol_meta policy), trivy_getScanJobName policy (scan_Name scan))"

subsection \<open>Validate\<close>

fun trivy_validate_scans :: "nat \<Rightarrow> TrivyScan list \<Rightarrow> go_error option" where
  "trivy_validate_scans i [] = None"
| "trivy_validate_scans i (scan # scans) =
     (if scan_Name scan = '''' then
        Some (Errorf (''trivy.scans['' @ show_nat i @ ''].name is required''))
      else if scan_Image scan = '''' then
        Some (Errorf (''trivy.scans['' @ show_nat i @ ''].image is required''))
      else trivy_validate_scans (Suc i) scans)"

definition trivy_Validate :: "Policy \<Rightarrow> go_error option" where
  "trivy_Validate policy =
     (if ps_Type (pol_Spec policy) \<noteq> PolicyTypeTrivy then
        Some (Errorf (''trivy engine received unsupported policy type: '' @ ps_Type (pol_Spec policy)))
      else (case ps_Trivy (pol_Spec policy) of
        None \<Rightarrow> Some (Errorf ''spec.trivy is required for type=trivy'')
      | Some trivy \<Rightarrow>
          if trv_Scans trivy = [] then
            Some (Errorf ''spec.trivy.scans must contain at least one scan'')
          else trivy_validate_scans 0 (trv_Scans trivy)))"

subsection \<open>Reconcile\<close>

definition trivy_scan_args :: "TrivyScan \<Rightarrow> string list" where
  "trivy_scan_args scan =
     (let args = [''image'', ''--format'', ''json'', ''--quiet''];
          args = (if scan_Severity scan \<noteq> '''' then args @ [''--severity'', scan_Severity scan] else args);
          args = (if scan_IgnoreUnfixed scan then args @ [''--ignore-unfixed''] else args);
          args = fold (\<lambda>vt args. args @ [''--vuln-type'', vt]) (scan_VulnerabilityTypes scan) args;
          args = (case scan_ExitCode scan of None \<Rightarrow> args
                  | Some c \<Rightarrow> args @ [''--exit-code'', show_int (sint c)])
      in args @ [scan_Image scan])"

definition trivy_scan_job :: "Policy \<Rightarrow> TrivyScan \<Rightarrow> Job" where
  "trivy_scan_job policy scan =
     \<lparr>job_meta = (new_meta (om_namespace (pol_meta policy)) (trivy_getScanJobName policy (scan_Name scan)))
        \<lparr>om_labels := Some [trivy_managedByLabelKey \<mapsto> trivy_managedByLabelVal,
           trivy_policyNameLabelKey \<mapsto> om_name (pol_meta policy),
           trivy_policyTypeLabelKey \<mapsto> ps_Type (pol_Spec policy),
           trivyScanNameLabelKey \<mapsto> scan_Name scan]\<rparr>,
      job_Spec = \<lparr>js_BackoffLimit = Some 0, js_TTLSecondsAfterFinished = Some jobTTLSeconds,
        js_Template = \<lparr>pt_labels = Some [trivyScanNameLabelKey \<mapsto> scan_Name scan],
          pt_RestartPolicy = ''Never'',
          pt_Containers = [\<lparr>ct_Name = ''trivy'', ct_Image = trivyImage, ct_Command = [''trivy''],
            ct_Args = trivy_scan_args scan\<rparr>]\<rparr>\<rparr>,
      job_Status = \<lparr>jst_Succeeded = 0, jst_Failed = 0\<rparr>\<rparr>"

definition trivy_reconcile_scan :: "'w client \<Rightarrow> util \<Rightarrow> Policy \<Rightarrow> TrivyScan \<Rightarrow> ('w, unit) act" where
  "trivy_reconcile_scan C U policy scan =
     tryA (callA (k_get (cl_jobs C) (trivy_scan_key policy scan)))
       (\<lambda>err.
         if \<not> isNotFound U err then failA err
         else
           let job = trivy_scan_job policy scan in
           bindA (liftA (setControllerReference U (''Policy'', pol_meta policy) (job_meta job))) (\<lambda>m.
           bindA (callA (k_create (cl_jobs C) (job\<lparr>job_meta := m\<rparr>))) (\<lambda>_. retA ())))
       (\<lambda>existing. retA ())"

definition trivy_Reconcile :: "'w client \<Rightarrow> util \<Rightarrow> Policy \<Rightarrow> ('w, unit) act" where
  "trivy_Reconcile C U policy =
     bindA (derefA ''policy.Spec.Trivy'' (ps_Trivy (pol_Spec policy))) (\<lambda>trivy.
       forA (trivy_reconcile_scan C U policy) (trv_Scans trivy))"

subsection \<open>Cleanup\<close>

definition trivy_job_shell :: "Policy \<Rightarrow> TrivyScan \<Rightarrow> Job" where
  "trivy_job_shell policy scan =
     \<lparr>job_meta = new_meta (om_namespace (pol_meta policy)) (trivy_getScanJobName policy (scan_Name scan)),
      job_Spec = \<lparr>js_BackoffLimit = None, js_TTLSecondsAfterFinished = None,
        js_Template = \<lparr>pt_labels = None, pt_RestartPolicy = '''', pt_Containers = []\<rparr>\<rparr>,
      job_Status = \<lparr>jst_Succeeded = 0, jst_Failed = 0\<rparr>\<rparr>"

definition trivy_Cleanup :: "'w client \<Rightarrow> util \<Rightarrow> Policy \<Rightarrow> ('w, unit) act" where
  "trivy_Cleanup C U policy =
     bindA (derefA ''policy.Spec.Trivy'' (ps_Trivy (pol_Spec policy))) (\<lambda>trivy.
       forA (\<lambda>scan. delete_ignoring_not_found U (cl_jobs C) (trivy_job_shell policy scan))
         (trv_Scans trivy))"

subsection \<open>GenerateReport\<close>

definition trivy_report_name :: "Policy \<Rightarrow> string" where
  "trivy_report_name policy = ''trivy-report-'' @ om_name (pol_meta policy)"

definition trivy_new_report :: "Policy \<Rightarrow> PolicyReport" where
  "trivy_new_report policy =
     \<lparr>rep_meta = new_meta (om_namespace (pol_meta policy)) (trivy_report_name policy),
      rep_Spec = \<lparr>rs_PolicyRef = \<lparr>pr_Name = om_name (pol_meta policy),
          pr_Generation = om_generation (pol_meta policy)\<rparr>,
        rs_Type = ps_Type (pol_Spec policy)\<rparr>,
      rep_Status = zero_report_status\<lparr>rst_Phase := ReportPending\<rparr>\<rparr>"

definition trivy_GenerateReport :: "'w client \<Rightarrow> util \<Rightarrow> Policy \<Rightarrow> ('w, PolicyReport) act" where
  "trivy_GenerateReport C U policy =
     tryA (callA (k_get (cl_reports C) (om_namespace (pol_meta policy), trivy_report_name policy)))
       (\<lambda>_.
         bindA (liftA (setControllerReference U (''Policy'', pol_meta policy)
             (rep_meta (trivy_new_report policy)))) (\<lambda>m.
         retA ((trivy_new_report policy)\<lparr>rep_meta := m\<rparr>)))
       (\<lambda>existing. retA existing)"

subsection \<open>Validation\<close>

lemma trivy_validate_scans_None:
  "trivy_validate_scans i scans = None \<longleftrightarrow>
     (\<forall>scan \<in> set scans. scan_Name scan \<noteq> '''' \<and> scan_Image scan \<noteq> '''')"
  by (induction i scans rule: trivy_validate_scans.induct) auto

lemma trivy_validate_scans_first:
  assumes "scans = good @ bad # rest" and "trivy_validate_scans i good = None"
    and "scan_Name bad = '''' \<or> scan_Image bad = ''''"
  shows "trivy_validate_scans i scans =
     Some (Errorf (''trivy.scans['' @ show_nat (i + length good) @
       (if scan_Name bad = '''' then ''].name is required'' else ''].image is required'')))"
  using assms by (induction good arbitrary: i scans) (auto split: if_splits)

lemma trivy_Validate_None:
  "trivy_Validate policy = None \<longleftrightarrow>
     ps_Type (pol_Spec policy) = PolicyTypeTrivy \<and>
     (\<exists>trivy. ps_Trivy (pol_Spec policy) = Some trivy \<and> trv_Scans trivy \<noteq> [] \<and>
        (\<forall>scan \<in> set (trv_Scans trivy). scan_Name scan \<noteq> '''' \<and> scan_Image scan \<noteq> ''''))"
  by (auto simp: trivy_Validate_def trivy_validate_scans_None split: option.splits)

subsection \<open>Arguments of a scan\<close>

lemma fold_vuln_types:
  "fold (\<lambda>vt args. args @ [''--vuln-type'', vt]) vts args =
     args @ concat (map (\<lambda>vt. [''--vuln-type'', vt]) vts)"
  by (induction vts arbitrary: args) auto

lemma trivy_scan_args_eq:
  "trivy_scan_args scan =
     [''image'', ''--format'', ''json'', ''--quiet''] @
     (if scan_Severity scan = '''' then [] else [''--severity'', scan_Severity scan]) @
     (if scan_IgnoreUnfixed scan then [''--ignore-unfixed''] else []) @
     concat (map (\<lambda>vt. [''--vuln-type'', vt]) (scan_VulnerabilityTypes scan)) @
     (case scan_ExitCode scan of None \<Rightarrow> [] | Some c \<Rightarrow> [''--exit-code'', show_int (sint c)]) @
     [scan_Image scan]"
  by (simp add: trivy_scan_args_def fold_vuln_types split: option.splits)

subsection \<open>Names of jobs\<close>

lemma trivy_getScanJobName_inj:
  "trivy_getScanJobName policy s = trivy_getScanJobName policy s' \<longleftrightarrow> s = s'"
  by (simp add: trivy_getScanJobName_def)

lemma trivy_scan_key_inj:
  "trivy_scan_key policy s = trivy_scan_key policy s' \<longleftrightarrow> scan_Name s = scan_Name s'"
  by (simp add: trivy_scan_key_def trivy_getScanJobName_inj)

lemma kd_key_trivy_job [simp]:
  "kd_key job_desc (trivy_job_shell policy scan) = trivy_scan_key policy scan"
  by (simp add: kd_key_def trivy_job_shell_def trivy_scan_key_def)

subsection \<open>What a run does to the jobs\<close>

text \<open>A job as the engine makes it for a scan, up to what the server fills in.\<close>

definition job_of_scan :: "Policy \<Rightarrow> TrivyScan \<Rightarrow> Job \<Rightarrow> bool" where
  "job_of_scan policy scan job \<longleftrightarrow>
     meta_key (job_meta job) = trivy_scan_key policy scan \<and>
     om_labels (job_meta job) = om_labels (job_meta (trivy_scan_job policy scan)) \<and>
     om_finalizers (job_meta job) = [] \<and>
     same_job_spec (job_Spec (trivy_scan_job policy scan)) (job_Spec job)"

text \<open>The jobs after a run: nothing that was there has changed, and each missing scan has its job.\<close>

definition scans_started :: "Policy \<Rightarrow> TrivyScan list \<Rightarrow> (obj_key \<rightharpoonup> Job) \<Rightarrow> (obj_key \<rightharpoonup> Job) \<Rightarrow> bool" where
  "scans_started policy scans s s' \<longleftrightarrow>
     (\<forall>k job. s k = Some job \<longrightarrow> s' k = Some job) \<and>
     (\<forall>k job. s k = None \<longrightarrow> s' k = Some job \<longrightarrow>
        (\<exists>scan \<in> set scans. k = trivy_scan_key policy scan \<and> job_of_scan policy scan job)) \<and>
     (\<forall>scan \<in> set scans. s' (trivy_scan_key policy scan) \<noteq> None)"

lemma trivy_reconcile_scan_Ret:
  assumes "api_contract U C cl" "trivy_reconcile_scan C U policy scan w = (Ret u, w')"
  shows "c_jobs (cl w') = c_jobs (cl w) \<and> c_jobs (cl w) (trivy_scan_key policy scan) \<noteq> None \<or>
    (\<exists>job. c_jobs (cl w) (trivy_scan_key policy scan) = None \<and> job_of_scan policy scan job \<and>
       c_jobs (cl w') = (c_jobs (cl w))(trivy_scan_key policy scan \<mapsto> job))"
proof -
  note jobs = api_contractD(5) [OF assms(1)] and util = api_contractD(1) [OF assms(1)]
  let ?k = "trivy_scan_key policy scan"
  from assms(2) consider
      (exists) job where "k_get (cl_jobs C) ?k w = (Inr job, w')"
    | (create) e w1 m job where "k_get (cl_jobs C) ?k w = (Inl e, w1)" "isNotFound U e"
        "setControllerReference U (''Policy'', pol_meta policy) (job_meta (trivy_scan_job policy scan)) = Inr m"
        "k_create (cl_jobs C) ((trivy_scan_job policy scan)\<lparr>job_meta := m\<rparr>) w1 = (Inr job, w')"
    unfolding trivy_reconcile_scan_def
    by (auto simp: act_simps Let_def split: if_splits)
  then show ?thesis
  proof cases
    case exists
    then show ?thesis using get_Ret [OF jobs exists] by simp
  next
    case create
    from get_Fail [OF jobs create(1)] create(2)
    have none: "c_jobs (cl w) ?k = None" and same: "c_jobs (cl w1) = c_jobs (cl w)" by simp_all
    obtain rs where m: "m = (job_meta (trivy_scan_job policy scan))\<lparr>om_ownerReferences := rs\<rparr>"
      using util_contractD(6) [OF util create(3)] by blast
    have key: "kd_key job_desc ((trivy_scan_job policy scan)\<lparr>job_meta := m\<rparr>) = ?k"
      by (simp add: m kd_key_def meta_key_def trivy_scan_job_def trivy_scan_key_def)
    note made = create_Ret [OF jobs create(4), unfolded key]
    have "job_of_scan policy scan job"
      using made(2,3) unfolding job_of_scan_def m
      by (auto simp: written_def meta_key_def trivy_scan_job_def trivy_scan_key_def)
    with none made(4) same show ?thesis by auto
  qed
qed

lemma scans_started_step:
  assumes "scans_started policy scans s s1"
    and "s2 = s1 \<and> s1 (trivy_scan_key policy scan) \<noteq> None \<or>
      (\<exists>job. s1 (trivy_scan_key policy scan) = None \<and> job_of_scan policy scan job \<and>
         s2 = s1(trivy_scan_key policy scan \<mapsto> job))"
  shows "scans_started policy (scans @ [scan]) s s2"
  using assms(2)
proof (elim disjE conjE exE)
  assume "s2 = s1" "s1 (trivy_scan_key policy scan) \<noteq> None"
  with assms(1) show ?thesis by (auto simp: scans_started_def)
next
  fix job
  assume "s1 (trivy_scan_key policy scan) = None" "job_of_scan policy scan job"
    "s2 = s1(trivy_scan_key policy scan \<mapsto> job)"
  with assms(1) show ?thesis by (fastforce simp: scans_started_def)
qed

lemma trivy_Reconcile_jobs:
  assumes "api_contract U C cl" "ps_Trivy (pol_Spec policy) = Some trivy"
    and "trivy_Reconcile C U policy w = (Ret u, w')"
  shows "scans_started policy (trv_Scans trivy) (c_jobs (cl w)) (c_jobs (cl w'))"
proof -
  from assms(2,3) have run: "forA (trivy_reconcile_scan C U policy) (trv_Scans trivy) w = (Ret u, w')"
    by (simp add: trivy_Reconcile_def)
  show ?thesis
  proof (rule forA_Ret_induct [OF run,
        where I = "\<lambda>ys w1. scans_started policy ys (c_jobs (cl w)) (c_jobs (cl w1))"])
    show "scans_started policy [] (c_jobs (cl w)) (c_jobs (cl w))"
      by (simp add: scans_started_def)
  next
    fix ys x zs w1 w2
    assume "scans_started policy ys (c_jobs (cl w)) (c_jobs (cl w1))"
      and "trivy_reconcile_scan C U policy x w1 = (Ret (), w2)"
    then show "scans_started policy (ys @ [x]) (c_jobs (cl w)) (c_jobs (cl w2))"
      by (rule scans_started_step [OF _ trivy_reconcile_scan_Ret [OF assms(1)]])
  qed
qed

lemma scans_started_again:
  assumes "scans_started policy scans s s'" "\<forall>scan \<in> set scans. s (trivy_scan_key policy scan) \<noteq> None"
  shows "s' = s"
proof
  fix k
  show "s' k = s k"
  proof (cases "s k")
    case None
    show ?thesis
    proof (cases "s' k")
      case (Some job)
      with None assms obtain scan where "scan \<in> set scans" "k = trivy_scan_key policy scan"
        unfolding scans_started_def by blast
      with None assms(2) show ?thesis by auto
    qed (use None in simp)
  next
    case (Some job)
    with assms(1) have "s' k = Some job" unfolding scans_started_def by blast
    with Some show ?thesis by simp
  qed
qed

text \<open>The engine touches nothing but jobs.\<close>

lemma keeps_trivy_Reconcile:
  assumes "kind_frame (cl_jobs C) g"
  shows "keeps g (trivy_Reconcile C U policy)"
  unfolding trivy_Reconcile_def trivy_reconcile_scan_def Let_def
  by (intro keeps_intros kind_frame_keeps assms)

lemma keeps_trivy_Cleanup:
  assumes "kind_frame (cl_jobs C) g"
  shows "keeps g (trivy_Cleanup C U policy)"
  unfolding trivy_Cleanup_def by (intro keeps_intros kind_frame_keeps assms)

lemma keeps_trivy_GenerateReport:
  assumes "keeps g (callA (k_get (cl_reports C) (om_namespace (pol_meta policy), trivy_report_name policy)))"
  shows "keeps g (trivy_GenerateReport C U policy)"
  unfolding trivy_GenerateReport_def by (intro keeps_intros assms)

text \<open>After a cleanup no scan of the policy has a job, and no other job has changed.\<close>

definition scans_removed :: "Policy \<Rightarrow> TrivyScan list \<Rightarrow> (obj_key \<rightharpoonup> Job) \<Rightarrow> (obj_key \<rightharpoonup> Job) \<Rightarrow> bool" where
  "scans_removed policy scans s s' \<longleftrightarrow>
     (\<forall>scan \<in> set scans. gone_or_marked job_desc (s' (trivy_scan_key policy scan))) \<and>
     (\<forall>k. k \<notin> trivy_scan_key policy ` set scans \<longrightarrow> s' k = s k)"

lemma trivy_Cleanup_jobs:
  assumes "api_contract U C cl" "ps_Trivy (pol_Spec policy) = Some trivy"
    and "trivy_Cleanup C U policy w = (Ret u, w')"
  shows "scans_removed policy (trv_Scans trivy) (c_jobs (cl w)) (c_jobs (cl w'))"
proof -
  from assms(2,3) have run: "forA (\<lambda>scan. delete_ignoring_not_found U (cl_jobs C)
      (trivy_job_shell policy scan)) (trv_Scans trivy) w = (Ret u, w')"
    by (simp add: trivy_Cleanup_def)
  note deleted = forA_delete_all_Ret [OF api_contractD(5,1) [OF assms(1)] run, unfolded kd_key_trivy_job]
  show ?thesis unfolding scans_removed_def
  proof (intro conjI ballI allI impI)
    show "gone_or_marked job_desc (c_jobs (cl w') (trivy_scan_key policy scan))"
      if "scan \<in> set (trv_Scans trivy)" for scan
      using that by (rule deleted(1))
  next
    show "c_jobs (cl w') k = c_jobs (cl w) k" if "k \<notin> trivy_scan_key policy ` set (trv_Scans trivy)" for k
      by (rule deleted(2)) (use that in blast)
  qed
qed

lemma no_panic_trivy:
  assumes "ps_Trivy (pol_Spec policy) \<noteq> None"
  shows "no_panic (trivy_Reconcile C U policy)" "no_panic (trivy_Cleanup C U policy)"
  unfolding trivy_Reconcile_def trivy_Cleanup_def trivy_reconcile_scan_def Let_def
  by (intro safe_intros no_panic_derefA assms)+

lemma no_panic_trivy_GenerateReport: "no_panic (trivy_GenerateReport C U policy)"
  unfolding trivy_GenerateReport_def by (intro safe_intros)

subsection \<open>The engine behind the interface\<close>

definition trivy_engine :: "'w client \<Rightarrow> 'w runtime \<Rightarrow> util \<Rightarrow> 'w engine" where
  "trivy_engine C R U =
     \<lparr>eng_Validate = trivy_Validate, eng_Reconcile = trivy_Reconcile C U,
      eng_Cleanup = trivy_Cleanup C U, eng_GenerateReport = trivy_GenerateReport C U\<rparr>"

definition trivy_ready :: "Policy \<Rightarrow> bool" where
  "trivy_ready policy \<longleftrightarrow> ps_Trivy (pol_Spec policy) \<noteq> None"

definition trivy_applied :: "util \<Rightarrow> Policy \<Rightarrow> cluster \<Rightarrow> bool" where
  "trivy_applied U policy c \<longleftrightarrow> (\<forall>trivy. ps_Trivy (pol_Spec policy) = Some trivy \<longrightarrow>
     (\<forall>scan \<in> set (trv_Scans trivy). c_jobs c (trivy_scan_key policy scan) \<noteq> None))"

text \<open>A cleanup removes the jobs of the scans. It leaves the reports of the policy as they are.\<close>

definition trivy_cleaned :: "Policy \<Rightarrow> cluster \<Rightarrow> bool" where
  "trivy_cleaned policy c \<longleftrightarrow> (\<forall>trivy. ps_Trivy (pol_Spec policy) = Some trivy \<longrightarrow>
     (\<forall>scan \<in> set (trv_Scans trivy). gone_or_marked job_desc (c_jobs c (trivy_scan_key policy scan))))"

definition trivy_released ::
  "'w client \<Rightarrow> util \<Rightarrow> ('w \<Rightarrow> cluster) \<Rightarrow> Policy \<Rightarrow> 'w \<Rightarrow> cluster \<Rightarrow> bool" where
  "trivy_released C U cl policy w c \<longleftrightarrow> trivy_cleaned policy c \<and> c_reports c = c_reports (cl w)"

lemma trivy_GenerateReport_key:
  assumes "api_contract U C cl" "trivy_GenerateReport C U policy w = (Ret r, w')"
  shows "kd_key report_desc r = (om_namespace (pol_meta policy), trivy_report_name policy)"
proof -
  have new: "kd_key report_desc ((trivy_new_report policy)\<lparr>rep_meta := m\<rparr>) =
      (om_namespace (pol_meta policy), trivy_report_name policy)"
    if "setControllerReference U ow (rep_meta (trivy_new_report policy)) = Inr m" for ow m
    using util_contractD(6) [OF api_contractD(1) [OF assms(1)] that]
    by (auto simp: kd_key_def meta_key_def trivy_new_report_def)
  from assms(2) consider
      "k_get (cl_reports C) (om_namespace (pol_meta policy), trivy_report_name policy) w = (Inr r, w')"
    | ow m where "setControllerReference U ow (rep_meta (trivy_new_report policy)) = Inr m"
        "r = (trivy_new_report policy)\<lparr>rep_meta := m\<rparr>"
    unfolding trivy_GenerateReport_def by (auto simp: act_simps)
  then show ?thesis
    by cases (auto simp: new dest: get_key [OF api_contractD(4) [OF assms(1)]])
qed

interpretation trivy_iface: policy_engine trivy_engine PolicyTypeTrivy trivy_ready "\<lambda>_ _. True"
  trivy_applied trivy_released trivy_report_name
proof unfold_locales
  fix C :: "'a client" and R U p and cl :: "'a \<Rightarrow> cluster"
  assume api: "api_contract U C cl"
  show "keeps (\<lambda>w. (c_tools (cl w), c_policies (cl w), c_reports (cl w))) (eng_Reconcile (trivy_engine C R U) p)"
    by (simp add: trivy_engine_def) (intro keeps_pair keeps_trivy_Reconcile api_frames [OF api])
  show "keeps (\<lambda>w. (c_tools (cl w), c_policies (cl w))) (eng_Cleanup (trivy_engine C R U) p)"
    by (simp add: trivy_engine_def) (intro keeps_pair keeps_trivy_Cleanup api_frames [OF api])
  show "preserves (\<lambda>w. wf_reports (cl w)) (eng_Cleanup (trivy_engine C R U) p)"
    by (simp add: trivy_engine_def) (intro preserves_wf_reports keeps_trivy_Cleanup api_frames [OF api])
  show "keeps cl (eng_GenerateReport (trivy_engine C R U) p)"
    by (simp add: trivy_engine_def) (intro keeps_trivy_GenerateReport api_reads_cluster [OF api])
next
  fix C :: "'a client" and R U p and cl :: "'a \<Rightarrow> cluster" and w u w'
  assume api: "api_contract U C cl" and "eng_Reconcile (trivy_engine C R U) p w = (Ret u, w')"
  then show "trivy_applied U p (cl w')"
    by (auto simp: trivy_engine_def trivy_applied_def scans_started_def dest!: trivy_Reconcile_jobs [OF api])
next
  fix C :: "'a client" and R U p and cl :: "'a \<Rightarrow> cluster" and w u w'
  assume api: "api_contract U C cl" and "eng_Cleanup (trivy_engine C R U) p w = (Ret u, w')"
  then have run: "trivy_Cleanup C U p w = (Ret u, w')" by (simp add: trivy_engine_def)
  have "c_reports (cl w') = c_reports (cl w)"
    by (rule keepsD [OF keeps_trivy_Cleanup run]) (rule api_frames [OF api])
  with run show "trivy_released C U cl p w (cl w')"
    by (auto simp: trivy_released_def trivy_cleaned_def scans_removed_def dest!: trivy_Cleanup_jobs [OF api])
qed (auto simp: trivy_engine_def trivy_Validate_None trivy_ready_def no_panic_trivy
  no_panic_trivy_GenerateReport trivy_GenerateReport_key trivy_applied_def trivy_released_def trivy_cleaned_def
  same_workloads_def)

subsection \<open>What lives of a policy\<close>

definition trivy_jobs_live :: "Policy \<Rightarrow> cluster \<Rightarrow> bool" where
  "trivy_jobs_live policy c \<longleftrightarrow> live_where job_desc (\<lambda>k _. \<exists>trivy. ps_Trivy (pol_Spec policy) = Some trivy \<and>
     k \<in> trivy_scan_key policy ` set (trv_Scans trivy)) (c_jobs c)"

definition trivy_active :: "Policy \<Rightarrow> cluster \<Rightarrow> bool" where
  "trivy_active policy c \<longleftrightarrow> reports_live policy c \<or> trivy_jobs_live policy c"

text \<open>The reports are all that a cleanup leaves.\<close>

definition trivy_leftover :: "'w client \<Rightarrow> util \<Rightarrow> Policy \<Rightarrow> 'w \<Rightarrow> cluster \<Rightarrow> bool" where
  "trivy_leftover C U policy w c \<longleftrightarrow> trivy_cleaned policy c \<and> reports_live policy c"

lemma trivy_cleaned_not_live: "trivy_cleaned p c \<Longrightarrow> \<not> trivy_jobs_live p c"
  unfolding trivy_jobs_live_def by (intro not_live_where) (fastforce simp: trivy_cleaned_def)

interpretation trivy_lasting: lasting_engine trivy_engine PolicyTypeTrivy trivy_ready "\<lambda>_ _. True"
  trivy_applied trivy_released trivy_report_name trivy_active trivy_leftover
proof unfold_locales
  fix C :: "'a client" and U cl p w c assume "trivy_released C U cl p w c"
  then show "\<not> trivy_active p c \<or> trivy_leftover C U p w c"
    by (auto simp: trivy_active_def trivy_leftover_def trivy_released_def trivy_cleaned_not_live)
next
  fix C :: "'a client" and R U p and cl :: "'a \<Rightarrow> cluster"
  assume api: "api_contract U C cl"
  note jobs = api_contractD(5) [OF api]
  have "preserves (\<lambda>w. \<not> trivy_jobs_live p (cl w)) (trivy_Cleanup C U p)"
    unfolding trivy_jobs_live_def trivy_Cleanup_def
    by (intro preserves_intros delete_makes_none_live [OF jobs])
  moreover have "preserves (\<lambda>w. \<not> reports_live p (cl w)) (trivy_Cleanup C U p)"
    unfolding reports_live_def by (intro live_of_keeps(2) keeps_trivy_Cleanup api_frames [OF api])
  ultimately show "preserves (\<lambda>w. \<not> trivy_active p (cl w)) (eng_Cleanup (trivy_engine C R U) p)"
    by (simp add: trivy_active_def trivy_engine_def preserves_def moves_def)
  have "preserves (\<lambda>w. trivy_jobs_live p (cl w)) (trivy_Reconcile C U p)"
    unfolding trivy_jobs_live_def trivy_Reconcile_def trivy_reconcile_scan_def Let_def
    by (intro preserves_intros create_keeps_live [OF jobs] live_of_keeps(1) keeps_liftA
        api_reads(4) [OF api])
  moreover have "preserves (\<lambda>w. reports_live p (cl w)) (trivy_Reconcile C U p)"
    unfolding reports_live_def by (intro live_of_keeps(1) keeps_trivy_Reconcile api_frames [OF api])
  ultimately show "preserves (\<lambda>w. trivy_active p (cl w)) (eng_Reconcile (trivy_engine C R U) p)"
    by (simp add: trivy_active_def trivy_engine_def preserves_def moves_def)
next
  fix p c c' assume "same_workloads c c'" "reports_live p c \<longrightarrow> reports_live p c'" "trivy_active p c"
  then show "trivy_active p c'" by (auto simp: trivy_active_def trivy_jobs_live_def same_workloads_def)
qed

subsection \<open>Progress\<close>

text \<open>A scan without a job gets one; nothing in the cluster stands in the way.\<close>

lemma returns_trivy_reconcile_scan:
  assumes api: "api_contract U C cl" and live: "healthy_api U C cl" "healthy_util U"
  shows "returns (trivy_reconcile_scan C U policy scan)"
  unfolding returns_def
proof
  fix w
  let ?job = "trivy_scan_job policy scan" and ?k = "trivy_scan_key policy scan"
  note jobs = api_contractD(5) [OF api]
  have "controllable ''Policy'' (pol_meta policy) (job_meta ?job)"
    by (simp add: controllable_def trivy_scan_job_def)
  with healthy_utilD(3) [OF live(2)] obtain m where
    m: "setControllerReference U (''Policy'', pol_meta policy) (job_meta ?job) = Inr m" by blast
  from util_contractD(6) [OF api_contractD(1) [OF api] m] have key: "kd_key job_desc (?job\<lparr>job_meta := m\<rparr>) = ?k"
    by (auto simp: kd_key_def meta_key_def trivy_scan_job_def trivy_scan_key_def)
  obtain r w1 where got: "k_get (cl_jobs C) ?k w = (r, w1)" by fastforce
  show "\<exists>a w'. trivy_reconcile_scan C U policy scan w = (Ret a, w')"
  proof (cases r)
    case (Inl e)
    with got have nf: "isNotFound U e" by (blast intro: healthy_kindD(1) [OF healthy_apiD(4) [OF live(1)]])
    with get_Fail [OF jobs] got Inl have "c_jobs (cl w1) (kd_key job_desc (?job\<lparr>job_meta := m\<rparr>)) = None"
      by (simp add: key)
    with healthy_kindD(3) [OF healthy_apiD(4) [OF live(1)]] obtain x w2 where
      "k_create (cl_jobs C) (?job\<lparr>job_meta := m\<rparr>) w1 = (Inr x, w2)" by blast
    with got Inl nf m show ?thesis
      by (auto simp: trivy_reconcile_scan_def Let_def tryA_act bindA_Ret callA_act)
  next
    case (Inr x)
    with got show ?thesis by (auto simp: trivy_reconcile_scan_def tryA_act callA_act)
  qed
qed

interpretation trivy_live: live_engine trivy_engine PolicyTypeTrivy trivy_ready "\<lambda>_ _. True"
  trivy_applied trivy_released trivy_report_name "\<lambda>_ _ _. True" trivy_cleaned
proof unfold_locales
  fix C :: "'a client" and R U p and cl :: "'a \<Rightarrow> cluster" and w
  assume "api_contract U C cl" "healthy_api U C cl" "healthy_util U" and ready: "trivy_ready p"
  then have "returns (trivy_Reconcile C U p)"
    unfolding trivy_Reconcile_def trivy_ready_def
    by (intro return_intros returns_derefA returns_trivy_reconcile_scan)
  then show "\<exists>w'. eng_Reconcile (trivy_engine C R U) p w = (Ret (), w')"
    by (auto simp: trivy_engine_def returns_def)
next
  fix C :: "'a client" and R U p and cl :: "'a \<Rightarrow> cluster"
  assume api: "api_contract U C cl" "healthy_api U C cl" and ready: "trivy_ready p"
  then show "returns (eng_Cleanup (trivy_engine C R U) p)"
    unfolding trivy_engine_def trivy_Cleanup_def trivy_ready_def
    by (auto intro!: return_intros returns_derefA healthy_apiD(4) api_contractD(1))
next
  fix C :: "'a client" and R U p and cl :: "'a \<Rightarrow> cluster"
  assume "healthy_util U"
  moreover have "controllable ''Policy'' (pol_meta p) (rep_meta (trivy_new_report p))"
    by (simp add: controllable_def trivy_new_report_def)
  ultimately have "\<exists>m. setControllerReference U (''Policy'', pol_meta p) (rep_meta (trivy_new_report p)) = Inr m"
    by (rule healthy_utilD(3))
  then show "returns (eng_GenerateReport (trivy_engine C R U) p)"
    unfolding trivy_engine_def trivy_GenerateReport_def
    by (auto intro!: return_intros returns_liftA)
next
  fix C :: "'a client" and R U p q c
  assume "same_policy p q"
  then show "eng_Validate (trivy_engine C R U) q = eng_Validate (trivy_engine C R U) p \<and>
      trivy_ready q = trivy_ready p \<and> True = True \<and> True = True \<and> trivy_applied U q c = trivy_applied U p c \<and>
      trivy_cleaned q c = trivy_cleaned p c \<and> trivy_report_name q = trivy_report_name p"
    by (simp add: same_policy_def trivy_engine_def trivy_Validate_def trivy_ready_def trivy_applied_def
        trivy_cleaned_def trivy_scan_key_def trivy_getScanJobName_def trivy_report_name_def)
qed (simp_all add: trivy_released_def trivy_cleaned_def same_workloads_def)

end
