(* ===== verification/FalcoEngine.thy ===== *)
theory FalcoEngine
  imports PolicyEngine MemCluster JsonEncode
begin

section \<open>The Falco policy engine\<close>

text \<open>
  \<open>internal/policy/falco/engine.go\<close>: a ConfigMap with the policy's Falco spec. The closure that
  \<open>Reconcile\<close> gives to \<open>CreateOrUpdate\<close> is \<open>falco_mutate\<close>; the loop of \<open>Cleanup\<close> over the reports
  returns from inside the loop, so it is a recursive function of its own.
\<close>

subsection \<open>Validate\<close>

definition falco_Validate :: "Policy \<Rightarrow> go_error option" where
  "falco_Validate policy =
     (if ps_Type (pol_Spec policy) \<noteq> PolicyTypeFalco then
        Some (Errorf (''falco engine received unsupported policy type: '' @ ps_Type (pol_Spec policy)))
      else (case ps_Falco (pol_Spec policy) of
        None \<Rightarrow> Some (Errorf ''falco policy spec must be defined'')
      | Some falco \<Rightarrow>
          let observe = fal_Observe falco in
          if obs_RuleRef observe = None \<and> obs_RuleSelector observe = None then
            Some (Errorf ''falco policy must define either ruleRef or ruleSelector'')
          else if obs_RuleRef observe \<noteq> None \<and> obs_RuleSelector observe \<noteq> None then
            Some (Errorf ''falco policy cannot define both ruleRef and ruleSelector'')
          else (case obs_RuleRef observe of
              Some ref \<Rightarrow> if frr_Name ref = '''' then Some (Errorf ''ruleRef.name must not be empty'') else None
            | None \<Rightarrow> None)))"

subsection \<open>Reconcile\<close>

definition falcoPolicyConfigMapName :: "Policy \<Rightarrow> string" where
  "falcoPolicyConfigMapName policy = ''eirenyx-falco-policy-'' @ om_name (pol_meta policy)"

definition FalcoRuleRef_json :: "FalcoRuleRef \<Rightarrow> json" where
  "FalcoRuleRef_json r = JObj (member_always ''name'' (JStr (frr_Name r)))"

definition FalcoRuleSelector_json :: "FalcoRuleSelector \<Rightarrow> json" where
  "FalcoRuleSelector_json s =
     JObj (member_list_omitempty ''tags'' (map JStr (frs_Tags s)) @
       member_list_omitempty ''priorities'' (map JStr (frs_Priorities s)))"

definition FalcoReportSpec_json :: "FalcoReportSpec \<Rightarrow> json" where
  "FalcoReportSpec_json r =
     JObj (member_always ''create'' (JBool (frp_Create r)) @
       member_str_omitempty ''severity'' (frp_Severity r) @
       member_str_omitempty ''aggregationWindow'' (frp_AggregationWindow r))"

definition FalcoObserveSpec_json :: "FalcoObserveSpec \<Rightarrow> json" where
  "FalcoObserveSpec_json ob =
     JObj (member_ptr_omitempty ''ruleRef'' FalcoRuleRef_json (obs_RuleRef ob) @
       member_ptr_omitempty ''ruleSelector'' FalcoRuleSelector_json (obs_RuleSelector ob))"

definition FalcoPolicySpec_json :: "FalcoPolicySpec option \<Rightarrow> json" where
  "FalcoPolicySpec_json p =
     (case p of None \<Rightarrow> JNull
      | Some f \<Rightarrow> JObj (member_always ''observe'' (FalcoObserveSpec_json (fal_Observe f)) @
          member_ptr_omitempty ''report'' FalcoReportSpec_json (fal_Report f)))"

definition falco_config_map :: "Policy \<Rightarrow> ConfigMap" where
  "falco_config_map policy =
     \<lparr>cm_meta = new_meta (om_namespace (pol_meta policy)) (falcoPolicyConfigMapName policy),
      cm_Data = None\<rparr>"

definition falco_mutate :: "util \<Rightarrow> Policy \<Rightarrow> ConfigMap \<Rightarrow> go_error + ConfigMap" where
  "falco_mutate U policy cm =
     (case setControllerReference U (''Policy'', pol_meta policy) (cm_meta cm) of
        Inl err \<Rightarrow> Inl err
      | Inr m \<Rightarrow>
          (case jsonMarshal U (FalcoPolicySpec_json (ps_Falco (pol_Spec policy))) of
             Inl err \<Rightarrow> Inl err
           | Inr specBytes \<Rightarrow>
               let labels = (case om_labels m of None \<Rightarrow> Map.empty | Some l \<Rightarrow> l);
                   data = (case cm_Data cm of None \<Rightarrow> Map.empty | Some d \<Rightarrow> d)
               in Inr (cm\<lparr>cm_meta := m\<lparr>om_labels := Some (labels(''eirenyx.io/type'' \<mapsto> ''falco-policy'',
                            ''eirenyx.io/policy'' \<mapsto> om_name (pol_meta policy)))\<rparr>,
                          cm_Data := Some (data(''falcoPolicy.json'' \<mapsto> specBytes))\<rparr>)))"

definition falco_Reconcile :: "'w client \<Rightarrow> util \<Rightarrow> Policy \<Rightarrow> ('w, unit) act" where
  "falco_Reconcile C U policy =
     bindA (callA (k_create_or_update (cl_configmaps C) (falco_config_map policy)
       (falco_mutate U policy))) (\<lambda>_. retA ())"

subsection \<open>Cleanup\<close>

primrec falco_delete_reports :: "'w client \<Rightarrow> util \<Rightarrow> Policy \<Rightarrow> PolicyReport list \<Rightarrow> ('w, unit) act" where
  "falco_delete_reports C U policy [] = retA ()"
| "falco_delete_reports C U policy (report # reports) =
     (if pr_Name (rs_PolicyRef (rep_Spec report)) = om_name (pol_meta policy) then
        tryA (callA (k_delete (cl_reports C) report))
          (\<lambda>err. if isNotFound U err then retA () else failA err)
          (\<lambda>_. falco_delete_reports C U policy reports)
      else falco_delete_reports C U policy reports)"

definition falco_cleanup_reports :: "'w client \<Rightarrow> util \<Rightarrow> Policy \<Rightarrow> ('w, unit) act" where
  "falco_cleanup_reports C U policy =
     bindA (callA (k_list (cl_reports C) (om_namespace (pol_meta policy)) [])) (\<lambda>items.
       falco_delete_reports C U policy items)"

definition falco_Cleanup :: "'w client \<Rightarrow> util \<Rightarrow> Policy \<Rightarrow> ('w, unit) act" where
  "falco_Cleanup C U policy =
     tryA (callA (k_get (cl_configmaps C) (om_namespace (pol_meta policy), falcoPolicyConfigMapName policy)))
       (\<lambda>_. falco_cleanup_reports C U policy)
       (\<lambda>cm. bindA (callA (k_delete (cl_configmaps C) cm)) (\<lambda>_. falco_cleanup_reports C U policy))"

subsection \<open>GenerateReport\<close>

definition falco_report_name :: "Policy \<Rightarrow> string" where
  "falco_report_name policy = ''falco-report-'' @ om_name (pol_meta policy)"

definition falco_new_report :: "Policy \<Rightarrow> PolicyReport" where
  "falco_new_report policy =
     \<lparr>rep_meta = new_meta (om_namespace (pol_meta policy)) (falco_report_name policy),
      rep_Spec = \<lparr>rs_PolicyRef = \<lparr>pr_Name = om_name (pol_meta policy),
          pr_Generation = om_generation (pol_meta policy)\<rparr>,
        rs_Type = ps_Type (pol_Spec policy)\<rparr>,
      rep_Status = zero_report_status\<lparr>rst_Phase := ReportPending\<rparr>\<rparr>"

definition falco_GenerateReport :: "Policy \<Rightarrow> ('w, PolicyReport) act" where
  "falco_GenerateReport policy = retA (falco_new_report policy)"

subsection \<open>Validation\<close>

text \<open>A Falco policy is valid when it says in exactly one way which rules it observes.\<close>

lemma falco_Validate_None:
  "falco_Validate policy = None \<longleftrightarrow>
     ps_Type (pol_Spec policy) = PolicyTypeFalco \<and>
     (\<exists>falco. ps_Falco (pol_Spec policy) = Some falco \<and>
        (obs_RuleRef (fal_Observe falco) = None \<longleftrightarrow> obs_RuleSelector (fal_Observe falco) \<noteq> None) \<and>
        (\<forall>ref. obs_RuleRef (fal_Observe falco) = Some ref \<longrightarrow> frr_Name ref \<noteq> ''''))"
  by (auto simp: falco_Validate_def Let_def split: option.splits if_splits)

subsection \<open>The text of a section\<close>

text \<open>A section has neither numbers nor deep nesting: its text reads back as the section.\<close>

lemma FalcoPolicySpec_json_plain:
  "json_numbers_ok (FalcoPolicySpec_json p)" "json_depth (FalcoPolicySpec_json p) \<le> 4"
  by (auto simp: FalcoPolicySpec_json_def FalcoObserveSpec_json_def FalcoReportSpec_json_def FalcoRuleRef_json_def
      FalcoRuleSelector_json_def member_defs fold_max_le list_all_iff split: option.split)

lemma FalcoPolicySpec_text:
  "parse_json (json_text (FalcoPolicySpec_json p)) = Some (json_clean (FalcoPolicySpec_json p))"
  using FalcoPolicySpec_json_plain(2) [of p]
  by (intro parse_json_text FalcoPolicySpec_json_plain(1)) (simp add: max_json_depth_def)

subsection \<open>The config map after a run\<close>

definition falco_cm_key :: "Policy \<Rightarrow> obj_key" where
  "falco_cm_key policy = (om_namespace (pol_meta policy), falcoPolicyConfigMapName policy)"

lemma falco_config_map_key [simp]: "kd_key configmap_desc (falco_config_map policy) = falco_cm_key policy"
  by (simp add: kd_key_def falco_config_map_def falco_cm_key_def)

lemma falco_mutate_Inr:
  assumes "util_contract U" "falco_mutate U policy cm = Inr cm'"
  shows
    "om_labels (cm_meta cm') = Some ((labels_of (cm_meta cm))(''eirenyx.io/type'' \<mapsto> ''falco-policy'',
       ''eirenyx.io/policy'' \<mapsto> om_name (pol_meta policy)))"
    "cm_Data cm' = Some ((case cm_Data cm of None \<Rightarrow> Map.empty | Some d \<Rightarrow> d)(''falcoPolicy.json'' \<mapsto>
       json_text (FalcoPolicySpec_json (ps_Falco (pol_Spec policy)))))"
    "om_finalizers (cm_meta cm') = om_finalizers (cm_meta cm)"
proof -
  from assms(2) obtain m where
    m: "setControllerReference U (''Policy'', pol_meta policy) (cm_meta cm) = Inr m"
    by (auto simp: falco_mutate_def split: sum.splits)
  from util_contractD(6) [OF assms(1) m] obtain rs where
    "m = (cm_meta cm)\<lparr>om_ownerReferences := rs\<rparr>" by blast
  with m assms(2) json_codecD(1) [OF util_contractD(7) [OF assms(1)]] have "om_labels (cm_meta cm') = Some ((labels_of (cm_meta cm))(''eirenyx.io/type'' \<mapsto> ''falco-policy'',
       ''eirenyx.io/policy'' \<mapsto> om_name (pol_meta policy))) \<and>
    cm_Data cm' = Some ((case cm_Data cm of None \<Rightarrow> Map.empty | Some d \<Rightarrow> d)(''falcoPolicy.json'' \<mapsto>
       json_text (FalcoPolicySpec_json (ps_Falco (pol_Spec policy))))) \<and>
    om_finalizers (cm_meta cm') = om_finalizers (cm_meta cm)"
    by (auto simp: falco_mutate_def Let_def labels_of_def)
  then show "om_labels (cm_meta cm') = Some ((labels_of (cm_meta cm))(''eirenyx.io/type'' \<mapsto> ''falco-policy'',
       ''eirenyx.io/policy'' \<mapsto> om_name (pol_meta policy)))"
    "cm_Data cm' = Some ((case cm_Data cm of None \<Rightarrow> Map.empty | Some d \<Rightarrow> d)(''falcoPolicy.json'' \<mapsto>
       json_text (FalcoPolicySpec_json (ps_Falco (pol_Spec policy)))))"
    "om_finalizers (cm_meta cm') = om_finalizers (cm_meta cm)" by simp_all
qed

lemma falco_Reconcile_configmap:
  assumes "api_contract U C cl" "falco_Reconcile C U policy w = (Ret u, w')"
    and "\<And>old. c_configmaps (cl w) (falco_cm_key policy) = Some old \<Longrightarrow>
      om_deletionTimestamp (cm_meta old) = None"
  obtains cm d where "c_configmaps (cl w') (falco_cm_key policy) = Some cm" "cm_Data cm = Some d"
    "d ''falcoPolicy.json'' = Some (json_text (FalcoPolicySpec_json (ps_Falco (pol_Spec policy))))"
    "labels_of (cm_meta cm) ''eirenyx.io/policy'' = Some (om_name (pol_meta policy))"
proof -
  note util = api_contractD(1) [OF assms(1)]
  from assms(2) obtain cm where call:
    "k_create_or_update (cl_configmaps C) (falco_config_map policy) (falco_mutate U policy) w = (Inr cm, w')"
    by (auto simp: falco_Reconcile_def act_simps)
  from api_contractD(6) [OF assms(1)] call obtain base y where
    y: "falco_mutate U policy base = Inr y" "written (cm_meta y) (cm_meta cm)" "cm_Data cm = cm_Data y"
    "c_configmaps (cl w') = (c_configmaps (cl w))(falco_cm_key policy \<mapsto> cm)"
    by (rule create_or_update_Ret) (auto simp: assms(3))
  note made = falco_mutate_Inr(1,2) [OF util y(1)]
  show thesis
    by (rule that [OF _ trans [OF y(3) made(2)]])
      (use y(2,4) made(1) in \<open>simp_all add: labels_of_def written_def\<close>)
qed

subsection \<open>The reports after a cleanup\<close>

lemma falco_delete_reports_stops:
  assumes "pr_Name (rs_PolicyRef (rep_Spec report)) = om_name (pol_meta policy)"
    and "k_delete (cl_reports C) report w = (Inl err, w')" "isNotFound U err"
  shows "falco_delete_reports C U policy (report # reports) w = (Ret (), w')"
  using assms by (simp add: tryA_act callA_act)

lemma keeps_falco_delete_reports:
  assumes "kind_frame (cl_reports C) g"
  shows "keeps g (falco_delete_reports C U policy reports)"
  by (induction reports) (auto intro!: keeps_intros kind_frame_keeps assms)

lemma keeps_falco_Reconcile:
  assumes "kind_frame (cl_configmaps C) g"
  shows "keeps g (falco_Reconcile C U policy)"
  unfolding falco_Reconcile_def by (intro keeps_intros kind_frame_keeps assms)

lemma keeps_falco_Cleanup:
  assumes "kind_frame (cl_configmaps C) g" "kind_frame (cl_reports C) g"
  shows "keeps g (falco_Cleanup C U policy)"
  unfolding falco_Cleanup_def falco_cleanup_reports_def
  by (intro keeps_intros kind_frame_keeps(1,7) [OF assms(1)] kind_frame_keeps(2) [OF assms(2)]
      keeps_falco_delete_reports assms)

lemma no_panic_falco: "no_panic (falco_Reconcile C U policy)" "no_panic (falco_Cleanup C U policy)"
  "no_panic (falco_GenerateReport policy)"
proof -
  have "no_panic (falco_delete_reports C U policy reports)" for reports
    by (induction reports) (auto intro!: safe_intros)
  then show "no_panic (falco_Reconcile C U policy)" "no_panic (falco_Cleanup C U policy)"
    "no_panic (falco_GenerateReport policy)"
    unfolding falco_Reconcile_def falco_Cleanup_def falco_cleanup_reports_def falco_GenerateReport_def
    by (auto intro!: safe_intros)
qed

lemma falco_delete_reports_Ret:
  assumes "api_contract U C cl" "falco_delete_reports C U policy reports w = (Ret u, w')"
    and "\<And>r. r \<in> set reports \<Longrightarrow> c_reports (cl w) (kd_key report_desc r) = Some r"
    and "distinct (map (kd_key report_desc) reports)"
  shows "(\<forall>k. k \<notin> kd_key report_desc ` set (filter (\<lambda>r. pr_Name (rs_PolicyRef (rep_Spec r)) =
            om_name (pol_meta policy)) reports) \<longrightarrow> c_reports (cl w') k = c_reports (cl w) k) \<and>
    (\<forall>r \<in> set reports. pr_Name (rs_PolicyRef (rep_Spec r)) = om_name (pol_meta policy) \<longrightarrow>
       gone_or_marked report_desc (c_reports (cl w') (kd_key report_desc r)))"
  using assms(2-)
proof (induction reports arbitrary: w)
  case Nil
  then show ?case by simp
next
  case (Cons r rs)
  note store = api_contractD(4) [OF assms(1)]
  show ?case
  proof (cases "pr_Name (rs_PolicyRef (rep_Spec r)) = om_name (pol_meta policy)")
    case False
    with Cons show ?thesis by auto
  next
    case True
    have present: "c_reports (cl w) (kd_key report_desc r) = Some r" using Cons.prems(2) by simp
    with True Cons.prems(1) obtain w1 where
      del: "k_delete (cl_reports C) r w = (Inr (), w1)" and
      rest: "falco_delete_reports C U policy rs w1 = (Ret u, w')"
      by (auto simp: tryA_act act_simps split: if_splits dest: delete_NotFound [OF store])
    from store del have step: "gone_or_marked report_desc (c_reports (cl w1) (kd_key report_desc r))"
      "\<And>k. k \<noteq> kd_key report_desc r \<Longrightarrow> c_reports (cl w1) k = c_reports (cl w) k"
      by (cases rule: delete_Ret; auto simp: gone_or_marked_def)+
    have others: "kd_key report_desc q \<noteq> kd_key report_desc r" if "q \<in> set rs" for q
      using Cons.prems(3) that by (auto simp: image_iff)
    have IH: "(\<forall>k. k \<notin> kd_key report_desc ` set (filter (\<lambda>r. pr_Name (rs_PolicyRef (rep_Spec r)) =
            om_name (pol_meta policy)) rs) \<longrightarrow> c_reports (cl w') k = c_reports (cl w1) k) \<and>
      (\<forall>r \<in> set rs. pr_Name (rs_PolicyRef (rep_Spec r)) = om_name (pol_meta policy) \<longrightarrow>
         gone_or_marked report_desc (c_reports (cl w') (kd_key report_desc r)))"
      using Cons.prems others by (intro Cons.IH [OF rest]) (auto simp: step(2))
    moreover have "c_reports (cl w') (kd_key report_desc r) = c_reports (cl w1) (kd_key report_desc r)"
    proof -
      have "kd_key report_desc r \<notin> kd_key report_desc ` set (filter (\<lambda>r. pr_Name (rs_PolicyRef
          (rep_Spec r)) = om_name (pol_meta policy)) rs)"
        by (auto dest!: others)
      with IH show ?thesis by blast
    qed
    ultimately show ?thesis using True step by auto
  qed
qed

text \<open>A cleanup that returned has removed every report of the policy and no other report.\<close>

lemma falco_cleanup_reports_Ret:
  assumes "api_contract U C cl" "falco_cleanup_reports C U policy w = (Ret u, w')"
  shows "reports_removed policy (c_reports (cl w'))"
    "(\<And>r. c_reports (cl w) k = Some r \<Longrightarrow> \<not> reports_of policy r) \<Longrightarrow> c_reports (cl w') k = c_reports (cl w) k"
proof -
  note store = api_contractD(4) [OF assms(1)]
  from assms(2) obtain items w1 where
    list: "k_list (cl_reports C) (om_namespace (pol_meta policy)) [] w = (Inr items, w1)" and
    run: "falco_delete_reports C U policy items w1 = (Ret u, w')"
    by (auto simp: falco_cleanup_reports_def act_simps)
  note listed = list_Ret [OF store list]
  have items: "r \<in> set items \<longleftrightarrow> c_reports (cl w) (kd_key report_desc r) = Some r \<and>
      om_namespace (rep_meta r) = om_namespace (pol_meta policy)" for r
    using listed(3) by (simp add: matches_def)
  have fin: "(\<forall>k. k \<notin> kd_key report_desc ` set (filter (\<lambda>r. pr_Name (rs_PolicyRef (rep_Spec r)) =
            om_name (pol_meta policy)) items) \<longrightarrow> c_reports (cl w') k = c_reports (cl w1) k) \<and>
    (\<forall>r \<in> set items. pr_Name (rs_PolicyRef (rep_Spec r)) = om_name (pol_meta policy) \<longrightarrow>
       gone_or_marked report_desc (c_reports (cl w') (kd_key report_desc r)))"
    by (rule falco_delete_reports_Ret [OF assms(1) run]) (simp_all add: listed items)
  show "reports_removed policy (c_reports (cl w'))"
    unfolding reports_removed_def
  proof (intro allI impI)
    fix k r assume now: "c_reports (cl w') k = Some r" and mine: "reports_of policy r"
    show "gone_or_marked report_desc (Some r)"
    proof (cases "k \<in> kd_key report_desc ` set (filter (\<lambda>r. pr_Name (rs_PolicyRef (rep_Spec r)) =
            om_name (pol_meta policy)) items)")
      case True
      then show ?thesis using fin now by force
    next
      case False
      then have "c_reports (cl w) k = Some r" using fin now listed(1) by simp
      moreover from this have "kd_key report_desc r = k"
        using store_contract_laws(9) [OF store] unfolding keyed_law_def by blast
      ultimately have "r \<in> set items" using mine items by (auto simp: reports_of_def)
      with mine \<open>kd_key report_desc r = k\<close> False show ?thesis by (auto simp: reports_of_def)
    qed
  qed
  show "c_reports (cl w') k = c_reports (cl w) k"
    if other: "\<And>r. c_reports (cl w) k = Some r \<Longrightarrow> \<not> reports_of policy r"
  proof -
    have "k \<notin> kd_key report_desc ` set (filter (\<lambda>r. pr_Name (rs_PolicyRef (rep_Spec r)) =
            om_name (pol_meta policy)) items)"
      using other items by (auto simp: reports_of_def)
    with fin listed(1) show ?thesis by simp
  qed
qed

text \<open>
  The config map is gone too, unless the read that precedes its deletion failed, for whatever reason but
  that there is none: then it is left as it is.
\<close>

definition falco_map_unread :: "'w client \<Rightarrow> util \<Rightarrow> Policy \<Rightarrow> 'w \<Rightarrow> bool" where
  "falco_map_unread C U policy w \<longleftrightarrow>
     (\<exists>e w'. k_get (cl_configmaps C) (falco_cm_key policy) w = (Inl e, w') \<and> \<not> isNotFound U e)"

lemma falco_Cleanup_Ret:
  assumes "api_contract U C cl" "falco_Cleanup C U policy w = (Ret u, w')"
  shows "reports_removed policy (c_reports (cl w'))"
    and "gone_or_marked configmap_desc (c_configmaps (cl w') (falco_cm_key policy)) \<or>
      falco_map_unread C U policy w \<and> c_configmaps (cl w') = c_configmaps (cl w)"
proof -
  note cms = api_contractD(6) [OF assms(1)]
  have keep: "c_configmaps (cl w') = c_configmaps (cl w1)"
    if "falco_cleanup_reports C U policy w1 = (Ret u, w')" for w1
    using that unfolding falco_cleanup_reports_def
    by (rule keepsD [rotated])
      (intro keeps_intros kind_frame_keeps keeps_falco_delete_reports api_frames [OF assms(1)])
  from assms(2) obtain w2 where "falco_cleanup_reports C U policy w2 = (Ret u, w')"
    by (auto simp: falco_Cleanup_def act_simps)
  then show "reports_removed policy (c_reports (cl w'))"
    by (rule falco_cleanup_reports_Ret [OF assms(1)])
  obtain r w1 where got: "k_get (cl_configmaps C) (falco_cm_key policy) w = (r, w1)" by fastforce
  show "gone_or_marked configmap_desc (c_configmaps (cl w') (falco_cm_key policy)) \<or>
      falco_map_unread C U policy w \<and> c_configmaps (cl w') = c_configmaps (cl w)"
  proof (cases r)
    case (Inl e)
    with assms(2) got have "falco_cleanup_reports C U policy w1 = (Ret u, w')"
      by (auto simp: falco_Cleanup_def falco_cm_key_def act_simps)
    from keep [OF this] get_Fail [OF cms got [unfolded Inl]] got Inl show ?thesis
      by (cases "isNotFound U e") (auto simp: falco_map_unread_def gone_or_marked_def)
  next
    case (Inr cm)
    note got = got [unfolded Inr]
    from assms(2) got obtain w2 where del: "k_delete (cl_configmaps C) cm w1 = (Inr (), w2)"
      and rest: "falco_cleanup_reports C U policy w2 = (Ret u, w')"
      by (auto simp: falco_Cleanup_def falco_cm_key_def act_simps)
    from cms del have "gone_or_marked configmap_desc (c_configmaps (cl w2) (kd_key configmap_desc cm))"
      by (cases rule: delete_Ret) (auto simp: gone_or_marked_def)
    then show ?thesis using keep [OF rest] get_key [OF cms got] by simp
  qed
qed

subsection \<open>The engine behind the interface\<close>

definition falco_engine :: "'w client \<Rightarrow> 'w runtime \<Rightarrow> util \<Rightarrow> 'w engine" where
  "falco_engine C R U =
     \<lparr>eng_Validate = falco_Validate, eng_Reconcile = falco_Reconcile C U,
      eng_Cleanup = falco_Cleanup C U, eng_GenerateReport = falco_GenerateReport\<rparr>"

text \<open>The config map of the policy can be written unless one of that name is being deleted.\<close>

definition falco_applicable :: "Policy \<Rightarrow> cluster \<Rightarrow> bool" where
  "falco_applicable policy c \<longleftrightarrow> (case c_configmaps c (falco_cm_key policy) of
     None \<Rightarrow> True | Some old \<Rightarrow> om_deletionTimestamp (cm_meta old) = None)"

definition falco_applied :: "util \<Rightarrow> Policy \<Rightarrow> cluster \<Rightarrow> bool" where
  "falco_applied U policy c \<longleftrightarrow> (\<exists>cm d. c_configmaps c (falco_cm_key policy) = Some cm \<and> cm_Data cm = Some d \<and>
     d ''falcoPolicy.json'' = Some (json_text (FalcoPolicySpec_json (ps_Falco (pol_Spec policy)))))"

text \<open>What a cleanup that began in \<open>w\<close> has done, and what one does when the API server answers.\<close>

definition falco_released ::
  "'w client \<Rightarrow> util \<Rightarrow> ('w \<Rightarrow> cluster) \<Rightarrow> Policy \<Rightarrow> 'w \<Rightarrow> cluster \<Rightarrow> bool" where
  "falco_released C U cl policy w c \<longleftrightarrow> reports_removed policy (c_reports c) \<and>
     (gone_or_marked configmap_desc (c_configmaps c (falco_cm_key policy)) \<or>
      falco_map_unread C U policy w \<and> c_configmaps c = c_configmaps (cl w))"

definition falco_cleaned :: "Policy \<Rightarrow> cluster \<Rightarrow> bool" where
  "falco_cleaned policy c \<longleftrightarrow> reports_removed policy (c_reports c) \<and>
     gone_or_marked configmap_desc (c_configmaps c (falco_cm_key policy))"

lemma preserves_falco_Cleanup:
  assumes "api_contract U C cl"
  shows "preserves (\<lambda>w. wf_reports (cl w)) (falco_Cleanup C U policy)"
proof -
  have "preserves (\<lambda>w. wf_reports (cl w)) (falco_delete_reports C U policy reports)" for reports
    by (induction reports) (auto intro!: preserves_intros preserves_report_delete [OF assms])
  moreover have "preserves (\<lambda>w. wf_reports (cl w)) (callA (k_get (cl_configmaps C) k))"
    "preserves (\<lambda>w. wf_reports (cl w)) (callA (k_delete (cl_configmaps C) cm))"
    "preserves (\<lambda>w. wf_reports (cl w)) (callA (k_list (cl_reports C) ns []))" for k cm ns
    by (intro preserves_wf_reports kind_frame_keeps api_frames [OF assms] keeps_list
        [OF store_contract_laws(2) [OF api_contractD(4) [OF assms]]])+
  ultimately show ?thesis
    unfolding falco_Cleanup_def falco_cleanup_reports_def by (intro preserves_intros)
qed

interpretation falco_iface: policy_engine falco_engine PolicyTypeFalco "\<lambda>_. True" falco_applicable
  falco_applied falco_released falco_report_name
proof unfold_locales
  fix C :: "'a client" and R U p and cl :: "'a \<Rightarrow> cluster"
  assume api: "api_contract U C cl"
  show "keeps (\<lambda>w. (c_tools (cl w), c_policies (cl w), c_reports (cl w))) (eng_Reconcile (falco_engine C R U) p)"
    by (simp add: falco_engine_def) (intro keeps_pair keeps_falco_Reconcile api_frames [OF api])
  show "keeps (\<lambda>w. (c_tools (cl w), c_policies (cl w))) (eng_Cleanup (falco_engine C R U) p)"
    by (simp add: falco_engine_def) (intro keeps_pair keeps_falco_Cleanup api_frames [OF api])
  show "preserves (\<lambda>w. wf_reports (cl w)) (eng_Cleanup (falco_engine C R U) p)"
    by (simp add: falco_engine_def) (rule preserves_falco_Cleanup [OF api])
next
  fix C :: "'a client" and R U p and cl :: "'a \<Rightarrow> cluster" and w u w'
  assume api: "api_contract U C cl" and "falco_applicable p (cl w)"
    and "eng_Reconcile (falco_engine C R U) p w = (Ret u, w')"
  then show "falco_applied U p (cl w')"
    unfolding falco_applied_def
    by - (rule falco_Reconcile_configmap [OF api, of p w u w'];
      auto simp: falco_engine_def falco_applicable_def)
next
  fix C :: "'a client" and R U p and cl :: "'a \<Rightarrow> cluster" and w u w'
  assume api: "api_contract U C cl" and "eng_Cleanup (falco_engine C R U) p w = (Ret u, w')"
  then show "falco_released C U cl p w (cl w')"
    using falco_Cleanup_Ret [OF api] by (simp add: falco_engine_def falco_released_def)
qed (auto simp: falco_engine_def falco_Validate_None no_panic_falco falco_GenerateReport_def keeps_retA no_panic_retA
  falco_new_report_def kd_key_def falco_applied_def falco_released_def same_workloads_def)

subsection \<open>What lives of a policy\<close>

definition falco_map_live :: "Policy \<Rightarrow> cluster \<Rightarrow> bool" where
  "falco_map_live policy c \<longleftrightarrow> live_where configmap_desc (\<lambda>k _. k = falco_cm_key policy) (c_configmaps c)"

definition falco_active :: "Policy \<Rightarrow> cluster \<Rightarrow> bool" where
  "falco_active policy c \<longleftrightarrow> reports_live policy c \<or> falco_map_live policy c"

text \<open>The config map that could not be read is all that a cleanup may leave.\<close>

definition falco_leftover :: "'w client \<Rightarrow> util \<Rightarrow> Policy \<Rightarrow> 'w \<Rightarrow> cluster \<Rightarrow> bool" where
  "falco_leftover C U policy w c \<longleftrightarrow> falco_map_unread C U policy w \<and> reports_removed policy (c_reports c)"

lemma falco_delete_reports_inactive:
  assumes "store_contract nf report_desc (cl_reports C) st"
  shows "preserves (\<lambda>w. \<not> live_where report_desc P (st w)) (falco_delete_reports C U policy reports)"
  by (induction reports) (auto intro!: preserves_intros delete_makes_none_live [OF assms])

interpretation falco_lasting: lasting_engine falco_engine PolicyTypeFalco "\<lambda>_. True" falco_applicable
  falco_applied falco_released falco_report_name falco_active falco_leftover
proof unfold_locales
  fix C :: "'a client" and U cl p w c assume released: "falco_released C U cl p w c"
  have "\<not> falco_map_live p c" if "gone_or_marked configmap_desc (c_configmaps c (falco_cm_key p))"
    unfolding falco_map_live_def using that by (intro not_live_where) (auto simp: gone_or_marked_def)
  with released show "\<not> falco_active p c \<or> falco_leftover C U p w c"
    by (auto simp: falco_active_def falco_released_def falco_leftover_def reports_removed_not_live)
next
  fix C :: "'a client" and R U p and cl :: "'a \<Rightarrow> cluster"
  assume api: "api_contract U C cl"
  note reports = api_contractD(4) [OF api] and cms = api_contractD(6) [OF api]
  have "preserves (\<lambda>w. \<not> reports_live p (cl w)) (falco_Cleanup C U p)"
    unfolding reports_live_def falco_Cleanup_def falco_cleanup_reports_def
    by (intro preserves_intros falco_delete_reports_inactive [OF reports] live_of_keeps(2)
        kind_frame_keeps [OF api_frames(23) [OF api]] api_reads(6) [OF api])
  moreover have "preserves (\<lambda>w. \<not> falco_map_live p (cl w)) (falco_Cleanup C U p)"
    unfolding falco_map_live_def falco_Cleanup_def falco_cleanup_reports_def
    by (intro preserves_intros delete_makes_none_live [OF cms] live_of_keeps(2) keeps_falco_delete_reports
        kind_frame_keeps api_frames(14) [OF api] api_reads(5) [OF api])
  ultimately show "preserves (\<lambda>w. \<not> falco_active p (cl w)) (eng_Cleanup (falco_engine C R U) p)"
    by (simp add: falco_active_def falco_engine_def preserves_def moves_def)
  have "preserves (\<lambda>w. reports_live p (cl w)) (falco_Reconcile C U p)"
    unfolding reports_live_def by (intro live_of_keeps(1) keeps_falco_Reconcile api_frames [OF api])
  moreover have "preserves (\<lambda>w. falco_map_live p (cl w)) (falco_Reconcile C U p)"
    unfolding falco_map_live_def falco_Reconcile_def
    by (intro preserves_intros upsert_keeps_live [OF cms])
  ultimately show "preserves (\<lambda>w. falco_active p (cl w)) (eng_Reconcile (falco_engine C R U) p)"
    by (simp add: falco_active_def falco_engine_def preserves_def moves_def)
next
  fix p c c' assume "same_workloads c c'" "reports_live p c \<longrightarrow> reports_live p c'" "falco_active p c"
  then show "falco_active p c'" by (auto simp: falco_active_def falco_map_live_def same_workloads_def)
qed

subsection \<open>Progress\<close>

text \<open>The config map of the policy is free, or no other object controls it.\<close>

definition falco_placeable :: "util \<Rightarrow> Policy \<Rightarrow> cluster \<Rightarrow> bool" where
  "falco_placeable U policy c \<longleftrightarrow> (case c_configmaps c (falco_cm_key policy) of None \<Rightarrow> True
      | Some old \<Rightarrow> controllable ''Policy'' (pol_meta policy) (cm_meta old))"

lemma falco_Reconcile_returns:
  assumes api: "api_contract U C cl" and live: "healthy_api U C cl" "healthy_util U"
    and place: "falco_placeable U policy (cl w)"
  shows "\<exists>w'. falco_Reconcile C U policy w = (Ret (), w')"
proof -
  let ?k = "falco_cm_key policy"
  let ?base = "case c_configmaps (cl w) ?k of None \<Rightarrow> falco_config_map policy | Some old \<Rightarrow> old"
  have "controllable ''Policy'' (pol_meta policy) (cm_meta ?base)"
    using place by (auto simp: falco_placeable_def controllable_def falco_config_map_def split: option.splits)
  with healthy_utilD(3) [OF live(2)] obtain m where
    m: "setControllerReference U (''Policy'', pol_meta policy) (cm_meta ?base) = Inr m" by blast
  then obtain y where y: "falco_mutate U policy ?base = Inr y"
    "cm_meta y = m\<lparr>om_labels := om_labels (cm_meta y)\<rparr>"
    by (auto simp: falco_mutate_def json_codecD(1) [OF util_contractD(7) [OF api_contractD(1) [OF api]]] Let_def)
  have "kd_key configmap_desc ?base = ?k"
    using kd_keyed [OF api_contractD(6) [OF api], of w ?k] by (auto split: option.splits)
  with y(2) util_contractD(6) [OF api_contractD(1) [OF api] m] have key: "kd_key configmap_desc y = ?k"
    by (cases "cm_meta y") (auto simp: kd_key_def meta_key_def)
  from healthy_kindD(9) [OF healthy_apiD(5) [OF live(1)], where f = "falco_mutate U policy" and w = w and x = "falco_config_map policy" and y = y]
    y(1) key show ?thesis by (auto simp: falco_Reconcile_def bindA_Ret callA_act)
qed

lemma returns_falco_delete_reports:
  assumes "healthy_kind (isNotFound U) d (cl_reports C) st"
  shows "returns (falco_delete_reports C U policy reports)"
  by (induction reports) (auto intro!: return_intros dest: healthy_kindD(8) [OF assms])

lemma falco_Cleanup_returns:
  assumes api: "api_contract U C cl" and live: "healthy_api U C cl"
  shows "returns (falco_Cleanup C U policy)"
  unfolding returns_def
proof
  fix w
  let ?k = "falco_cm_key policy"
  have rest: "returns (falco_cleanup_reports C U policy)"
    unfolding falco_cleanup_reports_def
    by (intro return_intros healthy_kindD(2) [OF healthy_apiD(3) [OF live]]
        returns_falco_delete_reports [OF healthy_apiD(3) [OF live]])
  obtain r w1 where got: "k_get (cl_configmaps C) ?k w = (r, w1)" by fastforce
  show "\<exists>a w'. falco_Cleanup C U policy w = (Ret a, w')"
  proof (cases r)
    case (Inl e)
    with got rest show ?thesis
      by (auto simp: falco_Cleanup_def tryA_act callA_act falco_cm_key_def returns_def)
  next
    case (Inr cm)
    note cms = api_contractD(6) [OF api] and got = got [unfolded Inr]
    have "c_configmaps (cl w1) (kd_key configmap_desc cm) \<noteq> None"
      using get_Ret [OF cms got] get_key [OF cms got] by simp
    with healthy_kindD(7) [OF healthy_apiD(5) [OF live]] obtain w2 where
      "k_delete (cl_configmaps C) cm w1 = (Inr (), w2)" by blast
    with got rest show ?thesis
      by (auto simp: falco_Cleanup_def tryA_act bindA_Ret callA_act falco_cm_key_def returns_def)
  qed
qed

interpretation falco_live: live_engine falco_engine PolicyTypeFalco "\<lambda>_. True" falco_applicable
  falco_applied falco_released falco_report_name falco_placeable falco_cleaned
proof unfold_locales
  fix C :: "'a client" and U and cl :: "'a \<Rightarrow> cluster" and p w c
  assume live: "healthy_api U C cl" and released: "falco_released C U cl p w c"
  have "\<not> falco_map_unread C U p w"
    using healthy_kindD(1) [OF healthy_apiD(5) [OF live]] unfolding falco_map_unread_def by blast
  with released show "falco_cleaned p c" by (simp add: falco_released_def falco_cleaned_def)
next
  fix C :: "'a client" and R U p q c
  assume "same_policy p q"
  then show "eng_Validate (falco_engine C R U) q = eng_Validate (falco_engine C R U) p \<and> True = True \<and>
      falco_placeable U q c = falco_placeable U p c \<and> falco_applicable q c = falco_applicable p c \<and>
      falco_applied U q c = falco_applied U p c \<and> falco_cleaned q c = falco_cleaned p c \<and>
      falco_report_name q = falco_report_name p"
    by (simp add: same_policy_def falco_engine_def falco_Validate_def falco_placeable_def falco_applicable_def
        falco_applied_def falco_cleaned_def reports_removed_def reports_of_def falco_cm_key_def falcoPolicyConfigMapName_def
        falco_report_name_def same_policy_controls [OF \<open>same_policy p q\<close>] cong: option.case_cong)
qed (auto simp: falco_engine_def falco_GenerateReport_def falco_Reconcile_returns falco_placeable_def
  falco_applicable_def falco_cleaned_def same_workloads_def intro!: return_intros falco_Cleanup_returns)

end
