(* ===== verification/LitmusEngine.thy ===== *)
theory LitmusEngine
  imports PolicyEngine MemCluster
begin

section \<open>The Litmus policy engine\<close>

text \<open>
  \<open>internal/policy/litmus/engine.go\<close>: one ChaosEngine per experiment, in the experiment's target
  namespace or else in that of the policy. The order in which Go visits the parameters of an
  experiment and the namespaces of a cleanup comes from \<open>rangeA\<close>.
\<close>

subsection \<open>Constants and names\<close>

definition litmus_managedByLabelKey :: string where
  "litmus_managedByLabelKey = ''app.kubernetes.io/managed-by''"
definition litmus_managedByLabelVal :: string where
  "litmus_managedByLabelVal = ''eirenyx''"
definition litmus_policyNameLabelKey :: string where
  "litmus_policyNameLabelKey = ''eirenyx.eirenyx/policy-name''"
definition litmus_policyTypeLabelKey :: string where
  "litmus_policyTypeLabelKey = ''eirenyx.eirenyx/policy-type''"
definition litmusExperimentLabel :: string where
  "litmusExperimentLabel = ''eirenyx.eirenyx/litmus-experiment''"

lemmas litmus_label_defs = litmus_managedByLabelKey_def litmus_managedByLabelVal_def
  litmus_policyNameLabelKey_def litmus_policyTypeLabelKey_def litmusExperimentLabel_def

definition getChaosEngineName :: "Policy \<Rightarrow> string \<Rightarrow> string" where
  "getChaosEngineName policy experimentName =
     ''eirenyx-litmus-'' @ om_name (pol_meta policy) @ ''-'' @ experimentName"

subsection \<open>Validate\<close>

fun litmus_validate_experiments :: "nat \<Rightarrow> LitmusExperiment list \<Rightarrow> go_error option" where
  "litmus_validate_experiments i [] = None"
| "litmus_validate_experiments i (exp # exps) =
     (if exp_Name exp = '''' then
        Some (Errorf (''litmus.experiments['' @ show_nat i @ ''].name is required''))
      else if exp_ExperimentRef exp = '''' then
        Some (Errorf (''litmus.experiments['' @ show_nat i @ ''].experimentRef is required''))
      else if app_AppNamespace (exp_AppInfo exp) = '''' \<or> app_AppLabel (exp_AppInfo exp) = '''' \<or>
              app_AppKind (exp_AppInfo exp) = '''' then
        Some (Errorf (''litmus.experiments['' @ show_nat i @ ''].appInfo is incomplete''))
      else litmus_validate_experiments (Suc i) exps)"

definition litmus_Validate :: "Policy \<Rightarrow> go_error option" where
  "litmus_Validate policy =
     (if ps_Type (pol_Spec policy) \<noteq> PolicyTypeLitmus then
        Some (Errorf (''litmus engine received unsupported policy type: '' @ ps_Type (pol_Spec policy)))
      else (case ps_Litmus (pol_Spec policy) of
        None \<Rightarrow> Some (Errorf ''spec.litmus is required for type=litmus'')
      | Some litmus \<Rightarrow>
          if lit_Experiments litmus = [] then
            Some (Errorf ''spec.litmus.experiments must contain at least one experiment'')
          else litmus_validate_experiments 0 (lit_Experiments litmus)))"

subsection \<open>Reconcile\<close>

definition buildEnvVars :: "LitmusExperiment \<Rightarrow> (string \<times> string) list \<Rightarrow> EnvVar list" where
  "buildEnvVars exp parameters =
     (let envs = [];
          envs = (if exp_Duration exp \<noteq> '''' then
                    envs @ [\<lparr>ev_Name = ''TOTAL_CHAOS_DURATION'', ev_Value = exp_Duration exp\<rparr>] else envs);
          envs = (if exp_Mode exp \<noteq> '''' then
                    envs @ [\<lparr>ev_Name = ''CHAOS_MODE'', ev_Value = exp_Mode exp\<rparr>] else envs)
      in fold (\<lambda>(k, v) envs. envs @ [\<lparr>ev_Name = k, ev_Value = v\<rparr>]) parameters envs)"

definition litmus_target_namespace :: "Policy \<Rightarrow> LitmusExperiment \<Rightarrow> string" where
  "litmus_target_namespace policy exp =
     (if exp_TargetNamespace exp \<noteq> '''' then exp_TargetNamespace exp
      else om_namespace (pol_meta policy))"

definition litmus_engine_shell :: "Policy \<Rightarrow> LitmusExperiment \<Rightarrow> ChaosEngine" where
  "litmus_engine_shell policy exp =
     \<lparr>ce_meta = new_meta (litmus_target_namespace policy exp) (getChaosEngineName policy (exp_Name exp)),
      ce_Spec = zero_engine_spec, ce_Status = zero_engine_status\<rparr>"

definition litmus_engine_spec :: "LitmusExperiment \<Rightarrow> (string \<times> string) list \<Rightarrow> ChaosEngineSpec" where
  "litmus_engine_spec exp parameters =
     \<lparr>ces_AppInfo = \<lparr>ap_Appns = app_AppNamespace (exp_AppInfo exp),
        ap_Applabel = app_AppLabel (exp_AppInfo exp), ap_AppKind = app_AppKind (exp_AppInfo exp)\<rparr>,
      ces_EngineState = ''active'',
      ces_Experiments = [\<lparr>el_Name = exp_ExperimentRef exp,
        el_Spec = \<lparr>ea_Components = zero_components\<lparr>ec_ENV := buildEnvVars exp parameters\<rparr>\<rparr>\<rparr>]\<rparr>"

definition litmus_mutate ::
  "Policy \<Rightarrow> LitmusExperiment \<Rightarrow> (string \<times> string) list \<Rightarrow> ChaosEngine \<Rightarrow> go_error + ChaosEngine" where
  "litmus_mutate policy exp parameters engine =
     Inr (engine\<lparr>ce_meta := (ce_meta engine)\<lparr>om_labels := Some [
             litmus_managedByLabelKey \<mapsto> litmus_managedByLabelVal,
             litmus_policyNameLabelKey \<mapsto> om_name (pol_meta policy),
             litmus_policyTypeLabelKey \<mapsto> ps_Type (pol_Spec policy),
             litmusExperimentLabel \<mapsto> exp_Name exp]\<rparr>,
           ce_Spec := litmus_engine_spec exp parameters\<rparr>)"

definition litmus_reconcile_experiment ::
  "'w client \<Rightarrow> 'w runtime \<Rightarrow> Policy \<Rightarrow> LitmusExperiment \<Rightarrow> ('w, unit) act" where
  "litmus_reconcile_experiment C R policy exp =
     bindA (rangeA R (exp_Parameters exp)) (\<lambda>parameters.
     bindA (callA (k_create_or_update (cl_engines C) (litmus_engine_shell policy exp)
       (litmus_mutate policy exp parameters))) (\<lambda>_. retA ()))"

definition litmus_Reconcile :: "'w client \<Rightarrow> 'w runtime \<Rightarrow> Policy \<Rightarrow> ('w, unit) act" where
  "litmus_Reconcile C R policy =
     bindA (derefA ''policy.Spec.Litmus'' (ps_Litmus (pol_Spec policy))) (\<lambda>litmus.
       forA (litmus_reconcile_experiment C R policy) (lit_Experiments litmus))"

subsection \<open>Cleanup\<close>

text \<open>The keys of the map \<open>namespaces\<close>: the policy's own and every target namespace, each once.\<close>

definition add_key :: "string \<Rightarrow> string list \<Rightarrow> string list" where
  "add_key k ks = (if k \<in> set ks then ks else ks @ [k])"

definition litmus_cleanup_namespaces :: "Policy \<Rightarrow> LitmusExperiment list \<Rightarrow> string list" where
  "litmus_cleanup_namespaces policy exps =
     fold (\<lambda>exp ks. if exp_TargetNamespace exp \<noteq> '''' then add_key (exp_TargetNamespace exp) ks else ks)
       exps [om_namespace (pol_meta policy)]"

definition litmus_selector :: "Policy \<Rightarrow> (string \<times> string) list" where
  "litmus_selector policy =
     [(litmus_managedByLabelKey, litmus_managedByLabelVal),
      (litmus_policyNameLabelKey, om_name (pol_meta policy))]"

definition litmus_cleanup_namespace :: "'w client \<Rightarrow> util \<Rightarrow> Policy \<Rightarrow> string \<Rightarrow> ('w, unit) act" where
  "litmus_cleanup_namespace C U policy ns =
     bindA (callA (k_list (cl_engines C) ns (litmus_selector policy))) (\<lambda>items.
       forA (delete_ignoring_not_found U (cl_engines C)) items)"

definition litmus_cleanup_reports :: "'w client \<Rightarrow> util \<Rightarrow> Policy \<Rightarrow> ('w, unit) act" where
  "litmus_cleanup_reports C U policy =
     bindA (callA (k_list (cl_reports C) (om_namespace (pol_meta policy)) [])) (\<lambda>items.
       forA (\<lambda>report. if pr_Name (rs_PolicyRef (rep_Spec report)) = om_name (pol_meta policy)
          then delete_ignoring_not_found U (cl_reports C) report else retA ()) items)"

definition litmus_Cleanup :: "'w client \<Rightarrow> 'w runtime \<Rightarrow> util \<Rightarrow> Policy \<Rightarrow> ('w, unit) act" where
  "litmus_Cleanup C R U policy =
     bindA (derefA ''policy.Spec.Litmus'' (ps_Litmus (pol_Spec policy))) (\<lambda>litmus.
     bindA (rangeA R (map (\<lambda>ns. (ns, ())) (litmus_cleanup_namespaces policy (lit_Experiments litmus)))) (\<lambda>nss.
     bindA (forA (\<lambda>(ns, _). litmus_cleanup_namespace C U policy ns) nss) (\<lambda>_.
       litmus_cleanup_reports C U policy)))"

subsection \<open>GenerateReport\<close>

definition litmus_report_name :: "Policy \<Rightarrow> string" where
  "litmus_report_name policy = ''litmus-report-'' @ om_name (pol_meta policy)"

definition litmus_new_report :: "Policy \<Rightarrow> PolicyReport" where
  "litmus_new_report policy =
     \<lparr>rep_meta = (new_meta (om_namespace (pol_meta policy)) (litmus_report_name policy))
        \<lparr>om_labels := Some [litmus_managedByLabelKey \<mapsto> litmus_managedByLabelVal,
           litmus_policyNameLabelKey \<mapsto> om_name (pol_meta policy)]\<rparr>,
      rep_Spec = \<lparr>rs_PolicyRef = \<lparr>pr_Name = om_name (pol_meta policy),
          pr_Generation = om_generation (pol_meta policy)\<rparr>,
        rs_Type = ps_Type (pol_Spec policy)\<rparr>,
      rep_Status = zero_report_status\<lparr>rst_Phase := ReportPending\<rparr>\<rparr>"

definition litmus_GenerateReport :: "Policy \<Rightarrow> ('w, PolicyReport) act" where
  "litmus_GenerateReport policy = retA (litmus_new_report policy)"

subsection \<open>Validation\<close>

definition complete_experiment :: "LitmusExperiment \<Rightarrow> bool" where
  "complete_experiment exp \<longleftrightarrow>
     exp_Name exp \<noteq> '''' \<and> exp_ExperimentRef exp \<noteq> '''' \<and> app_AppNamespace (exp_AppInfo exp) \<noteq> '''' \<and>
     app_AppLabel (exp_AppInfo exp) \<noteq> '''' \<and> app_AppKind (exp_AppInfo exp) \<noteq> ''''"

lemma litmus_validate_experiments_None:
  "litmus_validate_experiments i exps = None \<longleftrightarrow> (\<forall>exp \<in> set exps. complete_experiment exp)"
  by (induction i exps rule: litmus_validate_experiments.induct) (auto simp: complete_experiment_def)

lemma litmus_Validate_None:
  "litmus_Validate policy = None \<longleftrightarrow>
     ps_Type (pol_Spec policy) = PolicyTypeLitmus \<and>
     (\<exists>litmus. ps_Litmus (pol_Spec policy) = Some litmus \<and> lit_Experiments litmus \<noteq> [] \<and>
        (\<forall>exp \<in> set (lit_Experiments litmus). complete_experiment exp))"
  by (auto simp: litmus_Validate_def litmus_validate_experiments_None split: option.splits)

subsection \<open>The environment of an experiment\<close>

lemma fold_env_vars:
  "fold (\<lambda>(k, v) envs. envs @ [\<lparr>ev_Name = k, ev_Value = v\<rparr>]) parameters envs =
     envs @ map (\<lambda>(k, v). \<lparr>ev_Name = k, ev_Value = v\<rparr>) parameters"
  by (induction parameters arbitrary: envs) auto

lemma buildEnvVars_eq:
  "buildEnvVars exp parameters =
     (if exp_Duration exp = '''' then [] else [\<lparr>ev_Name = ''TOTAL_CHAOS_DURATION'', ev_Value = exp_Duration exp\<rparr>]) @
     (if exp_Mode exp = '''' then [] else [\<lparr>ev_Name = ''CHAOS_MODE'', ev_Value = exp_Mode exp\<rparr>]) @
     map (\<lambda>(k, v). \<lparr>ev_Name = k, ev_Value = v\<rparr>) parameters"
  by (simp add: buildEnvVars_def fold_env_vars)

subsection \<open>The namespaces of a cleanup\<close>

lemma set_add_key [simp]: "set (add_key k ks) = insert k (set ks)"
  by (auto simp: add_key_def)

lemma distinct_add_key [simp]: "distinct (add_key k ks) = distinct ks"
  by (simp add: add_key_def)

lemma litmus_cleanup_namespaces_props:
  "set (litmus_cleanup_namespaces policy exps) =
     insert (om_namespace (pol_meta policy)) (litmus_target_namespace policy ` set exps)"
  "distinct (litmus_cleanup_namespaces policy exps)"
proof -
  let ?f = "\<lambda>exp ks. if exp_TargetNamespace exp \<noteq> '''' then add_key (exp_TargetNamespace exp) ks else ks"
  have "om_namespace (pol_meta policy) \<in> set ks \<Longrightarrow>
      set (fold ?f exps ks) = set ks \<union> litmus_target_namespace policy ` set exps" for ks
    by (induction exps arbitrary: ks) (auto simp: litmus_target_namespace_def)
  moreover have "distinct ks \<Longrightarrow> distinct (fold ?f exps ks)" for ks
    by (induction exps arbitrary: ks) auto
  ultimately show "set (litmus_cleanup_namespaces policy exps) =
     insert (om_namespace (pol_meta policy)) (litmus_target_namespace policy ` set exps)"
    "distinct (litmus_cleanup_namespaces policy exps)"
    by (simp_all add: litmus_cleanup_namespaces_def)
qed

subsection \<open>Frames and panics\<close>

lemma keeps_litmus_Reconcile:
  assumes "kind_frame (cl_engines C) g"
  shows "keeps g (litmus_Reconcile C R policy)"
  unfolding litmus_Reconcile_def litmus_reconcile_experiment_def
  by (intro keeps_intros kind_frame_keeps assms)

lemma keeps_litmus_cleanup_namespace:
  assumes "kind_frame (cl_engines C) g"
  shows "keeps g (litmus_cleanup_namespace C U policy ns)"
  unfolding litmus_cleanup_namespace_def by (intro keeps_intros kind_frame_keeps assms)

lemma keeps_litmus_cleanup_reports:
  assumes "kind_frame (cl_reports C) g"
  shows "keeps g (litmus_cleanup_reports C U policy)"
  unfolding litmus_cleanup_reports_def by (intro keeps_intros kind_frame_keeps assms)

lemma keeps_litmus_Cleanup:
  assumes "kind_frame (cl_engines C) g" "kind_frame (cl_reports C) g"
  shows "keeps g (litmus_Cleanup C R U policy)"
  unfolding litmus_Cleanup_def
  by (intro keeps_intros keeps_litmus_cleanup_namespace keeps_litmus_cleanup_reports assms)

lemma no_panic_litmus:
  assumes "ps_Litmus (pol_Spec policy) \<noteq> None"
  shows "no_panic (litmus_Reconcile C R policy)" "no_panic (litmus_Cleanup C R U policy)"
  unfolding litmus_Reconcile_def litmus_Cleanup_def litmus_reconcile_experiment_def
    litmus_cleanup_namespace_def litmus_cleanup_reports_def case_prod_beta
  by (intro safe_intros no_panic_derefA assms)+

subsection \<open>What a cleanup leaves\<close>

text \<open>The chaos engines that carry the labels the engine gives to those of a policy: its selector finds these.\<close>

definition engine_of_policy :: "Policy \<Rightarrow> ChaosEngine \<Rightarrow> bool" where
  "engine_of_policy policy ce \<longleftrightarrow> labels_of (ce_meta ce) ''app.kubernetes.io/managed-by'' = Some ''eirenyx'' \<and>
     labels_of (ce_meta ce) ''eirenyx.eirenyx/policy-name'' = Some (om_name (pol_meta policy))"

lemma matches_litmus_selector: "matches (litmus_selector policy) (ce_meta ce) \<longleftrightarrow> engine_of_policy policy ce"
  by (simp add: matches_def litmus_selector_def engine_of_policy_def litmus_label_defs)

definition engines_removed ::
  "Policy \<Rightarrow> string set \<Rightarrow> (obj_key \<rightharpoonup> ChaosEngine) \<Rightarrow> (obj_key \<rightharpoonup> ChaosEngine) \<Rightarrow> bool" where
  "engines_removed policy nss s s' \<longleftrightarrow>
     (\<forall>k ce. s' k = Some ce \<longrightarrow> fst k \<in> nss \<longrightarrow> engine_of_policy policy ce \<longrightarrow>
        gone_or_marked engine_desc (Some ce)) \<and>
     (\<forall>k. fst k \<notin> nss \<longrightarrow> s' k = s k) \<and>
     (\<forall>k. (\<forall>ce. s k = Some ce \<longrightarrow> \<not> engine_of_policy policy ce) \<longrightarrow> s' k = s k)"

lemma engine_key_namespace:
  assumes "api_contract U C cl" "c_engines (cl w) k = Some ce"
  shows "om_namespace (ce_meta ce) = fst k"
  using kd_keyed [OF api_contractD(7) [OF assms(1)] assms(2)] by (auto simp: kd_key_def meta_key_def)

lemma litmus_cleanup_namespace_Ret:
  assumes "api_contract U C cl" "litmus_cleanup_namespace C U policy ns w = (Ret u, w')"
  shows "engines_removed policy {ns} (c_engines (cl w)) (c_engines (cl w'))"
proof -
  from assms(2) obtain items w1 where
    list: "k_list (cl_engines C) ns (litmus_selector policy) w = (Inr items, w1)" and
    run: "forA (delete_ignoring_not_found U (cl_engines C)) items w1 = (Ret u, w')"
    by (auto simp: litmus_cleanup_namespace_def act_simps)
  note after = list_delete_all_Ret [OF api_contractD(7,1) [OF assms(1)] list run, unfolded desc_simps matches_litmus_selector]
  show ?thesis
    unfolding engines_removed_def
    by (intro conjI allI impI; (rule after)?)
      (auto dest: engine_key_namespace [OF assms(1)])
qed

lemma engines_removed_trans:
  assumes "engines_removed policy N s s1" "engines_removed policy M s1 s2"
  shows "engines_removed policy (N \<union> M) s s2"
  unfolding engines_removed_def
proof (intro conjI allI impI)
  fix k ce
  assume ce: "s2 k = Some ce" "fst k \<in> N \<union> M" "engine_of_policy policy ce"
  show "gone_or_marked engine_desc (Some ce)"
  proof (cases "fst k \<in> M")
    case False
    with ce assms show ?thesis unfolding engines_removed_def by (metis UnE)
  qed (use ce assms(2) in \<open>unfold engines_removed_def, blast\<close>)
next
  show "s2 k = s k" if "fst k \<notin> N \<union> M" for k
    using that assms unfolding engines_removed_def by (metis UnCI)
  show "s2 k = s k" if "\<forall>ce. s k = Some ce \<longrightarrow> \<not> engine_of_policy policy ce" for k
    using that assms unfolding engines_removed_def by metis
qed

lemma litmus_Cleanup_Ret:
  assumes "api_contract U C cl" "runtime_contract R" "ps_Litmus (pol_Spec policy) = Some litmus"
    and "litmus_Cleanup C R U policy w = (Ret u, w')"
  shows "engines_removed policy (set (litmus_cleanup_namespaces policy (lit_Experiments litmus)))
      (c_engines (cl w)) (c_engines (cl w'))" (is "engines_removed _ ?nss _ _")
    and "reports_removed policy (c_reports (cl w'))"
    and "(\<And>r. c_reports (cl w) k = Some r \<Longrightarrow> \<not> reports_of policy r) \<Longrightarrow>
      c_reports (cl w') k = c_reports (cl w) k"
proof -
  from assms(3,4) obtain nss w1 w2 where
    order: "rangeA R (map (\<lambda>ns. (ns, ())) (litmus_cleanup_namespaces policy (lit_Experiments litmus))) w
      = (Ret nss, w1)" and
    loop: "forA (\<lambda>(ns, _). litmus_cleanup_namespace C U policy ns) nss w1 = (Ret (), w2)" and
    reports: "litmus_cleanup_reports C U policy w2 = (Ret u, w')"
    by (auto simp: litmus_Cleanup_def act_simps)
  have nss: "fst ` set nss = ?nss" and w1: "w1 = w"
    using rangeA_Ret [OF order] by (auto simp: image_image comp_def runtime_contractD(2) [OF assms(2)])
  have "engines_removed policy (fst ` set nss) (c_engines (cl w)) (c_engines (cl w2))"
  proof (rule forA_Ret_induct [OF loop, where
        I = "\<lambda>ys w3. engines_removed policy (fst ` set ys) (c_engines (cl w)) (c_engines (cl w3))"])
    show "engines_removed policy (fst ` set []) (c_engines (cl w)) (c_engines (cl w1))"
      by (simp add: engines_removed_def w1)
  next
    fix ys zs :: "(string \<times> unit) list" and x :: "string \<times> unit" and w3 w4
    assume before: "engines_removed policy (fst ` set ys) (c_engines (cl w)) (c_engines (cl w3))"
      and "(case x of (ns, _) \<Rightarrow> litmus_cleanup_namespace C U policy ns) w3 = (Ret (), w4)"
    then have "engines_removed policy {fst x} (c_engines (cl w3)) (c_engines (cl w4))"
      by (auto intro!: litmus_cleanup_namespace_Ret [OF assms(1)] split: prod.splits)
    from engines_removed_trans [OF before this]
    show "engines_removed policy (fst ` set (ys @ [x])) (c_engines (cl w)) (c_engines (cl w4))"
      by simp
  qed
  moreover have "c_engines (cl w') = c_engines (cl w2)"
    using keepsD [OF keeps_litmus_cleanup_reports reports, where g = "\<lambda>w. c_engines (cl w)"]
      api_frames [OF assms(1)] by simp
  ultimately show "engines_removed policy ?nss (c_engines (cl w)) (c_engines (cl w'))"
    using nss by simp
  have "keeps (\<lambda>w. c_reports (cl w)) (forA (\<lambda>(ns, _). litmus_cleanup_namespace C U policy ns) nss)"
    by (intro keeps_intros keeps_litmus_cleanup_namespace api_frames [OF assms(1)])
  from keepsD [OF this loop] w1 have same: "c_reports (cl w2) = c_reports (cl w)" by simp
  from reports obtain items w3 where
    list: "k_list (cl_reports C) (om_namespace (pol_meta policy)) [] w2 = (Inr items, w3)" and
    run: "forA (\<lambda>report. if pr_Name (rs_PolicyRef (rep_Spec report)) = om_name (pol_meta policy)
          then delete_ignoring_not_found U (cl_reports C) report else retA ()) items w3 = (Ret u, w')"
    by (auto simp: litmus_cleanup_reports_def act_simps)
  note after = list_delete_Ret [OF api_contractD(4,1) [OF assms(1)] list run, unfolded desc_simps]
  show "reports_removed policy (c_reports (cl w'))"
    unfolding reports_removed_def reports_of_def using after(1) by (auto simp: matches_def)
  show "c_reports (cl w') k = c_reports (cl w) k"
    if "\<And>r. c_reports (cl w) k = Some r \<Longrightarrow> \<not> reports_of policy r"
    using that after(2) [of k] unfolding same by (simp add: reports_of_def)
qed

subsection \<open>What a run makes of the experiments\<close>

definition litmus_engine_key :: "Policy \<Rightarrow> LitmusExperiment \<Rightarrow> obj_key" where
  "litmus_engine_key policy exp =
     (litmus_target_namespace policy exp, getChaosEngineName policy (exp_Name exp))"

text \<open>A chaos engine as the code writes it for an experiment, in some order of its parameters.\<close>

definition engine_of_experiment :: "Policy \<Rightarrow> LitmusExperiment \<Rightarrow> ChaosEngine \<Rightarrow> bool" where
  "engine_of_experiment policy exp ce \<longleftrightarrow>
     engine_of_policy policy ce \<and> labels_of (ce_meta ce) litmusExperimentLabel = Some (exp_Name exp) \<and>
     (\<exists>parameters. mset parameters = mset (exp_Parameters exp) \<and>
        ce_Spec ce = litmus_engine_spec exp parameters)"

lemma litmus_engine_shell_key [simp]:
  "kd_key engine_desc (litmus_engine_shell policy exp) = litmus_engine_key policy exp"
  by (simp add: kd_key_def litmus_engine_shell_def litmus_engine_key_def)

lemma litmus_reconcile_experiment_Ret:
  assumes "api_contract U C cl" "runtime_contract R" "distinct (map fst (exp_Parameters exp))"
    and "\<And>old. c_engines (cl w) (litmus_engine_key policy exp) = Some old \<Longrightarrow>
      om_deletionTimestamp (ce_meta old) = None"
    and "litmus_reconcile_experiment C R policy exp w = (Ret u, w')"
  obtains ce where "engine_of_experiment policy exp ce"
    "c_engines (cl w') = (c_engines (cl w))(litmus_engine_key policy exp \<mapsto> ce)"
proof -
  from assms(5) obtain parameters ce w1 where
    order: "rangeA R (exp_Parameters exp) w = (Ret parameters, w1)" and
    call: "k_create_or_update (cl_engines C) (litmus_engine_shell policy exp)
       (litmus_mutate policy exp parameters) w1 = (Inr ce, w')"
    by (auto simp: litmus_reconcile_experiment_def act_simps)
  have w1: "w1 = w" using rangeA_Ret(2) [OF order] .
  have "mset parameters = mset (exp_Parameters exp)"
    using rangeA_mset [OF assms(2,3) order] .
  moreover from api_contractD(7) [OF assms(1)] call [unfolded w1] obtain base y where
    "litmus_mutate policy exp parameters base = Inr y" "written (ce_meta y) (ce_meta ce)"
    "ce_Spec ce = ce_Spec y" "c_engines (cl w') = (c_engines (cl w))(litmus_engine_key policy exp \<mapsto> ce)"
    by (rule create_or_update_Ret) (auto simp: assms(4))
  ultimately show thesis
    by (intro that [of ce])
      (auto simp: engine_of_experiment_def engine_of_policy_def litmus_mutate_def matches_def
        litmus_selector_def labels_of_def written_def litmus_label_defs)
qed

definition experiments_started ::
  "Policy \<Rightarrow> LitmusExperiment list \<Rightarrow> (obj_key \<rightharpoonup> ChaosEngine) \<Rightarrow> (obj_key \<rightharpoonup> ChaosEngine) \<Rightarrow> bool" where
  "experiments_started policy exps s s' \<longleftrightarrow>
     (\<forall>exp \<in> set exps. \<exists>ce. s' (litmus_engine_key policy exp) = Some ce \<and> engine_of_experiment policy exp ce) \<and>
     (\<forall>k. k \<notin> litmus_engine_key policy ` set exps \<longrightarrow> s' k = s k)"

lemma litmus_Reconcile_engines:
  assumes "api_contract U C cl" "runtime_contract R" "ps_Litmus (pol_Spec policy) = Some litmus"
    and "distinct (map (litmus_engine_key policy) (lit_Experiments litmus))"
    and "\<And>exp. exp \<in> set (lit_Experiments litmus) \<Longrightarrow> distinct (map fst (exp_Parameters exp))"
    and alive: "\<And>exp old. exp \<in> set (lit_Experiments litmus) \<Longrightarrow>
      c_engines (cl w) (litmus_engine_key policy exp) = Some old \<Longrightarrow> om_deletionTimestamp (ce_meta old) = None"
    and "litmus_Reconcile C R policy w = (Ret u, w')"
  shows "experiments_started policy (lit_Experiments litmus) (c_engines (cl w)) (c_engines (cl w'))"
proof -
  let ?key = "litmus_engine_key policy" and ?s = "\<lambda>w. c_engines (cl w)"
  from assms(3,7) have run:
    "forA (litmus_reconcile_experiment C R policy) (lit_Experiments litmus) w = (Ret u, w')"
    by (simp add: litmus_Reconcile_def)
  show ?thesis
  proof (rule forA_Ret_induct [OF run, where I = "\<lambda>ys w1. experiments_started policy ys (?s w) (?s w1)"])
    show "experiments_started policy [] (?s w) (?s w)"
      by (simp add: experiments_started_def)
  next
    fix ys x zs w1 w2
    assume split: "lit_Experiments litmus = ys @ x # zs" and IH: "experiments_started policy ys (?s w) (?s w1)"
      and step: "litmus_reconcile_experiment C R policy x w1 = (Ret (), w2)"
    from assms(4) have new: "?key x \<notin> ?key ` set ys" unfolding split by auto
    with IH have "?s w1 (?key x) = ?s w (?key x)" unfolding experiments_started_def by blast
    then obtain ce where "engine_of_experiment policy x ce" "?s w2 = (?s w1)(?key x \<mapsto> ce)"
      using alive [of x] assms(5) [of x]
      by (auto simp: split intro: litmus_reconcile_experiment_Ret [OF assms(1,2) _ _ step])
    moreover have "?key e \<noteq> ?key x" if "e \<in> set ys" for e
      using new that by (metis imageI)
    ultimately show "experiments_started policy (ys @ [x]) (?s w) (?s w2)"
      using IH unfolding experiments_started_def by auto
  qed
qed

subsection \<open>The engine behind the interface\<close>

definition litmus_engine :: "'w client \<Rightarrow> 'w runtime \<Rightarrow> util \<Rightarrow> 'w engine" where
  "litmus_engine C R U =
     \<lparr>eng_Validate = litmus_Validate, eng_Reconcile = litmus_Reconcile C R,
      eng_Cleanup = litmus_Cleanup C R U, eng_GenerateReport = litmus_GenerateReport\<rparr>"

definition litmus_ready :: "Policy \<Rightarrow> bool" where
  "litmus_ready policy \<longleftrightarrow> ps_Litmus (pol_Spec policy) \<noteq> None"

text \<open>No two experiments share an engine, parameters are Go maps, and no engine is being deleted.\<close>

definition litmus_applicable :: "Policy \<Rightarrow> cluster \<Rightarrow> bool" where
  "litmus_applicable policy c \<longleftrightarrow> (\<forall>litmus. ps_Litmus (pol_Spec policy) = Some litmus \<longrightarrow>
     distinct (map (litmus_engine_key policy) (lit_Experiments litmus)) \<and>
     (\<forall>exp \<in> set (lit_Experiments litmus). distinct (map fst (exp_Parameters exp)) \<and>
       (case c_engines c (litmus_engine_key policy exp) of
          None \<Rightarrow> True | Some old \<Rightarrow> om_deletionTimestamp (ce_meta old) = None)))"

definition litmus_applied :: "util \<Rightarrow> Policy \<Rightarrow> cluster \<Rightarrow> bool" where
  "litmus_applied U policy c \<longleftrightarrow> (\<forall>litmus. ps_Litmus (pol_Spec policy) = Some litmus \<longrightarrow>
     (\<forall>exp \<in> set (lit_Experiments litmus). \<exists>ce.
        c_engines c (litmus_engine_key policy exp) = Some ce \<and> engine_of_experiment policy exp ce))"

definition litmus_cleaned :: "Policy \<Rightarrow> cluster \<Rightarrow> bool" where
  "litmus_cleaned policy c \<longleftrightarrow> reports_removed policy (c_reports c) \<and>
     (\<forall>litmus. ps_Litmus (pol_Spec policy) = Some litmus \<longrightarrow>
        (\<forall>k ce. c_engines c k = Some ce \<longrightarrow> engine_of_policy policy ce \<longrightarrow>
           fst k \<in> insert (om_namespace (pol_meta policy))
             (litmus_target_namespace policy ` set (lit_Experiments litmus)) \<longrightarrow>
           gone_or_marked engine_desc (Some ce)))"

definition litmus_released ::
  "'w client \<Rightarrow> util \<Rightarrow> ('w \<Rightarrow> cluster) \<Rightarrow> Policy \<Rightarrow> 'w \<Rightarrow> cluster \<Rightarrow> bool" where
  "litmus_released C U cl policy w c \<longleftrightarrow> litmus_cleaned policy c"

lemma preserves_litmus_Cleanup:
  assumes "api_contract U C cl"
  shows "preserves (\<lambda>w. wf_reports (cl w)) (litmus_Cleanup C R U policy)"
proof -
  have "preserves (\<lambda>w. wf_reports (cl w)) (litmus_cleanup_namespace C U policy ns)" for ns
    by (intro preserves_wf_reports keeps_litmus_cleanup_namespace api_frames [OF assms])
  moreover have "preserves (\<lambda>w. wf_reports (cl w)) (callA (k_list (cl_reports C) ns []))" for ns
    by (intro preserves_wf_reports keeps_list [OF store_contract_laws(2) [OF api_contractD(4) [OF assms]]])
  ultimately show ?thesis
    unfolding litmus_Cleanup_def litmus_cleanup_reports_def
    by (intro preserves_intros preserves_report_delete [OF assms])
qed

interpretation litmus_iface: policy_engine litmus_engine PolicyTypeLitmus litmus_ready litmus_applicable
  litmus_applied litmus_released litmus_report_name
proof unfold_locales
  fix C :: "'a client" and R U p and cl :: "'a \<Rightarrow> cluster"
  assume api: "api_contract U C cl"
  show "keeps (\<lambda>w. (c_tools (cl w), c_policies (cl w), c_reports (cl w))) (eng_Reconcile (litmus_engine C R U) p)"
    by (simp add: litmus_engine_def) (intro keeps_pair keeps_litmus_Reconcile api_frames [OF api])
  show "keeps (\<lambda>w. (c_tools (cl w), c_policies (cl w))) (eng_Cleanup (litmus_engine C R U) p)"
    by (simp add: litmus_engine_def) (intro keeps_pair keeps_litmus_Cleanup api_frames [OF api])
  show "preserves (\<lambda>w. wf_reports (cl w)) (eng_Cleanup (litmus_engine C R U) p)"
    by (simp add: litmus_engine_def) (rule preserves_litmus_Cleanup [OF api])
next
  fix C :: "'a client" and R U p and cl :: "'a \<Rightarrow> cluster" and w u w'
  assume api: "api_contract U C cl" "runtime_contract R" and "litmus_applicable p (cl w)"
    and "eng_Reconcile (litmus_engine C R U) p w = (Ret u, w')"
  then obtain litmus where "ps_Litmus (pol_Spec p) = Some litmus" "litmus_Reconcile C R p w = (Ret u, w')"
    by (auto simp: litmus_engine_def litmus_Reconcile_def act_simps)
  from litmus_Reconcile_engines [OF api this(1) _ _ _ this(2)] \<open>litmus_applicable p (cl w)\<close> this(1)
  show "litmus_applied U p (cl w')"
    by (fastforce simp: litmus_applicable_def litmus_applied_def experiments_started_def)
next
  fix C :: "'a client" and R U p and cl :: "'a \<Rightarrow> cluster" and w u w'
  assume api: "api_contract U C cl" "runtime_contract R"
    and "eng_Cleanup (litmus_engine C R U) p w = (Ret u, w')"
  then obtain litmus where litmus: "ps_Litmus (pol_Spec p) = Some litmus"
    and "litmus_Cleanup C R U p w = (Ret u, w')"
    by (auto simp: litmus_engine_def litmus_Cleanup_def act_simps)
  from litmus_Cleanup_Ret(1,2) [OF api this] show "litmus_released C U cl p w (cl w')"
    unfolding litmus_released_def litmus_cleaned_def engines_removed_def litmus_cleanup_namespaces_props by (simp add: litmus)
qed (auto simp: litmus_engine_def litmus_Validate_None litmus_ready_def no_panic_litmus
  litmus_GenerateReport_def keeps_retA no_panic_retA litmus_new_report_def kd_key_def meta_key_def litmus_applied_def
  litmus_released_def litmus_cleaned_def same_workloads_def)

subsection \<open>What lives of a policy\<close>

definition litmus_engines_live :: "Policy \<Rightarrow> cluster \<Rightarrow> bool" where
  "litmus_engines_live policy c \<longleftrightarrow> live_where engine_desc (\<lambda>k ce. engine_of_policy policy ce \<and>
     (\<exists>litmus. ps_Litmus (pol_Spec policy) = Some litmus \<and>
        fst k \<in> insert (om_namespace (pol_meta policy)) (litmus_target_namespace policy ` set (lit_Experiments litmus))))
     (c_engines c)"

definition litmus_active :: "Policy \<Rightarrow> cluster \<Rightarrow> bool" where
  "litmus_active policy c \<longleftrightarrow> reports_live policy c \<or> litmus_engines_live policy c"

lemma litmus_mutate_owned:
  assumes "litmus_mutate policy exp parameters old = Inr y" "written (ce_meta y) (ce_meta z)"
  shows "engine_of_policy policy z"
  using assms by (auto simp: litmus_mutate_def engine_of_policy_def matches_def litmus_selector_def labels_of_def
      written_def litmus_label_defs)

interpretation litmus_lasting: lasting_engine litmus_engine PolicyTypeLitmus litmus_ready litmus_applicable
  litmus_applied litmus_released litmus_report_name litmus_active "\<lambda>_ _ _ _ _. False"
proof unfold_locales
  fix C :: "'a client" and U cl p w c assume "litmus_released C U cl p w c"
  then have released: "litmus_cleaned p c" by (simp add: litmus_released_def)
  then have "\<not> litmus_engines_live p c"
    unfolding litmus_engines_live_def by (intro not_live_where) (auto simp: litmus_cleaned_def)
  with released show "\<not> litmus_active p c \<or> False"
    by (simp add: litmus_active_def litmus_cleaned_def reports_removed_not_live)
next
  fix C :: "'a client" and R U p and cl :: "'a \<Rightarrow> cluster"
  assume api: "api_contract U C cl"
  note reports = api_contractD(4) [OF api] and engines = api_contractD(7) [OF api]
  have "preserves (\<lambda>w. \<not> reports_live p (cl w)) (litmus_Cleanup C R U p)"
    unfolding reports_live_def litmus_Cleanup_def litmus_cleanup_namespace_def litmus_cleanup_reports_def
    by (intro preserves_intros delete_makes_none_live [OF reports] live_of_keeps(2) api_reads(6) [OF api]
        kind_frame_keeps [OF api_frames(28) [OF api]])
  moreover have "preserves (\<lambda>w. \<not> litmus_engines_live p (cl w)) (litmus_Cleanup C R U p)"
    unfolding litmus_engines_live_def litmus_Cleanup_def litmus_cleanup_namespace_def litmus_cleanup_reports_def
    by (intro preserves_intros delete_makes_none_live [OF engines] live_of_keeps(2) api_reads(7) [OF api]
        kind_frame_keeps [OF api_frames(15) [OF api]])
  ultimately show "preserves (\<lambda>w. \<not> litmus_active p (cl w)) (eng_Cleanup (litmus_engine C R U) p)"
    by (simp add: litmus_active_def litmus_engine_def preserves_def moves_def)
  have "preserves (\<lambda>w. reports_live p (cl w)) (litmus_Reconcile C R p)"
    unfolding reports_live_def by (intro live_of_keeps(1) keeps_litmus_Reconcile api_frames [OF api])
  moreover have "preserves (\<lambda>w. litmus_engines_live p (cl w)) (litmus_Reconcile C R p)"
    unfolding litmus_engines_live_def litmus_Reconcile_def litmus_reconcile_experiment_def
    by (intro preserves_intros upsert_keeps_live [OF engines]) (auto intro: litmus_mutate_owned)
  ultimately show "preserves (\<lambda>w. litmus_active p (cl w)) (eng_Reconcile (litmus_engine C R U) p)"
    by (simp add: litmus_active_def litmus_engine_def preserves_def moves_def)
next
  fix p c c' assume "same_workloads c c'" "reports_live p c \<longrightarrow> reports_live p c'" "litmus_active p c"
  then show "litmus_active p c'" by (auto simp: litmus_active_def litmus_engines_live_def same_workloads_def)
qed

subsection \<open>Progress\<close>

text \<open>The mutate function accepts every engine, so nothing in the cluster stands in the way.\<close>

lemma returns_litmus_reconcile_experiment:
  assumes api: "api_contract U C cl" and live: "healthy_api U C cl"
  shows "returns (litmus_reconcile_experiment C R policy exp)"
  unfolding returns_def
proof
  fix w
  let ?shell = "litmus_engine_shell policy exp"
  obtain parameters where range: "rangeA R (exp_Parameters exp) w = (Ret parameters, w)"
    by (simp add: rangeA_def)
  let ?base = "case c_engines (cl w) (kd_key engine_desc ?shell) of None \<Rightarrow> ?shell | Some old \<Rightarrow> old"
  have "kd_key engine_desc ?base = kd_key engine_desc ?shell"
    using kd_keyed [OF api_contractD(7) [OF api], of w] by (auto split: option.splits)
  then have "kd_key engine_desc y = kd_key engine_desc ?shell" if "litmus_mutate policy exp parameters ?base = Inr y" for y
    using that by (auto simp: litmus_mutate_def kd_key_def meta_key_def)
  moreover obtain y where "litmus_mutate policy exp parameters ?base = Inr y" by (simp add: litmus_mutate_def)
  ultimately obtain x w' where
    "k_create_or_update (cl_engines C) ?shell (litmus_mutate policy exp parameters) w = (Inr x, w')"
    using healthy_kindD(9) [OF healthy_apiD(6) [OF live]] by blast
  with range show "\<exists>a w'. litmus_reconcile_experiment C R policy exp w = (Ret a, w')"
    by (auto simp: litmus_reconcile_experiment_def bindA_Ret callA_act)
qed

lemma returns_rangeA [return_intros]: "returns (rangeA R m)"
  by (simp add: returns_def rangeA_def)

lemma returns_litmus_Cleanup:
  assumes "api_contract U C cl" "healthy_api U C cl" "litmus_ready policy"
  shows "returns (litmus_Cleanup C R U policy)"
  using assms(3)
  unfolding litmus_Cleanup_def litmus_cleanup_namespace_def litmus_cleanup_reports_def litmus_ready_def
  by (intro return_intros returns_derefA healthy_kindD(2) [OF healthy_apiD(3) [OF assms(2)]]
      healthy_kindD(2) [OF healthy_apiD(6) [OF assms(2)]] api_contractD(1) [OF assms(1)]
      returns_delete_ignoring [OF healthy_apiD(3) [OF assms(2)]]
      returns_delete_ignoring [OF healthy_apiD(6) [OF assms(2)]])

interpretation litmus_live: live_engine litmus_engine PolicyTypeLitmus litmus_ready litmus_applicable
  litmus_applied litmus_released litmus_report_name "\<lambda>_ _ _. True" litmus_cleaned
proof unfold_locales
  fix C :: "'a client" and R U p and cl :: "'a \<Rightarrow> cluster" and w
  assume "api_contract U C cl" "healthy_api U C cl" "healthy_util U" and ready: "litmus_ready p"
  then have "returns (litmus_Reconcile C R p)"
    unfolding litmus_Reconcile_def litmus_ready_def
    by (intro return_intros returns_derefA returns_litmus_reconcile_experiment)
  then show "\<exists>w'. eng_Reconcile (litmus_engine C R U) p w = (Ret (), w')"
    by (auto simp: litmus_engine_def returns_def)
next
  fix C :: "'a client" and R U p q c
  assume same: "same_policy p q"
  then have "litmus_engine_key q = litmus_engine_key p" "litmus_target_namespace q = litmus_target_namespace p"
    "engine_of_experiment q = engine_of_experiment p" "engine_of_policy q = engine_of_policy p"
    by (simp_all add: same_policy_def fun_eq_iff litmus_engine_key_def litmus_target_namespace_def
        getChaosEngineName_def engine_of_experiment_def engine_of_policy_def litmus_selector_def)
  with same show "eng_Validate (litmus_engine C R U) q = eng_Validate (litmus_engine C R U) p \<and>
      litmus_ready q = litmus_ready p \<and> True = True \<and> litmus_applicable q c = litmus_applicable p c \<and>
      litmus_applied U q c = litmus_applied U p c \<and> litmus_cleaned q c = litmus_cleaned p c \<and>
      litmus_report_name q = litmus_report_name p"
    by (simp add: same_policy_def litmus_engine_def litmus_Validate_def litmus_ready_def litmus_applicable_def
        litmus_applied_def litmus_cleaned_def reports_removed_def reports_of_def litmus_report_name_def)
qed (auto simp: litmus_engine_def litmus_GenerateReport_def litmus_applicable_def litmus_released_def litmus_cleaned_def same_workloads_def
  intro!: return_intros returns_litmus_Cleanup)

end
