(* ===== verification/K8sClient.thy ===== *)
theory K8sClient
  imports HealthyApi
begin

section \<open>The Kubernetes client of the tools and report handlers\<close>

text \<open>
  \<open>internal/client/k8s/client.go\<close> over \<open>kubernetes.Interface\<close>, whose calls are the record \<open>clientset\<close>: a log
  stream is opened, read to its end and closed. The contract says of namespaces what the operator
  needs; deployments, daemon sets, pods and logs are only read.
\<close>

record 'w clientset =
  cs_ns_get :: "string \<Rightarrow> ('w, Namespace) ext"
  cs_ns_create :: "Namespace \<Rightarrow> ('w, Namespace) ext"
  cs_ns_delete :: "string \<Rightarrow> ('w, unit) ext"
  cs_deployment_get :: "string \<Rightarrow> string \<Rightarrow> ('w, Deployment) ext"
  cs_daemonset_get :: "string \<Rightarrow> string \<Rightarrow> ('w, DaemonSet) ext"
  cs_format_selector :: "(string \<times> string) list \<Rightarrow> string"
  cs_pods_list :: "string \<Rightarrow> string \<Rightarrow> ('w, Pod list) ext"
  cs_log_open :: "string \<Rightarrow> string \<Rightarrow> string \<Rightarrow> ('w, nat) ext"
  cs_log_read :: "nat \<Rightarrow> ('w, string) ext"
  cs_log_close :: "nat \<Rightarrow> 'w \<Rightarrow> 'w"

subsection \<open>Operations\<close>

definition EnsureNamespace :: "'w clientset \<Rightarrow> util \<Rightarrow> string \<Rightarrow> ('w, unit) act" where
  "EnsureNamespace S U namespace =
     tryA (callA (cs_ns_get S namespace))
       (\<lambda>err.
         if \<not> isNotFound U err then failA (Wrapped (''getting namespace '' @ namespace) err '''')
         else tryA (callA (cs_ns_create S \<lparr>nsp_meta = new_meta '''' namespace\<rparr>))
           (\<lambda>err. if \<not> isAlreadyExists U err then failA (Wrapped (''creating namespace '' @ namespace) err '''')
                  else retA ())
           (\<lambda>_. retA ()))
       (\<lambda>_. retA ())"

definition DeleteNamespace :: "'w clientset \<Rightarrow> util \<Rightarrow> string \<Rightarrow> ('w, unit) act" where
  "DeleteNamespace S U ns =
     tryA (callA (cs_ns_delete S ns))
       (\<lambda>err. if \<not> isNotFound U err then failA (Wrapped (''deleting namespace '' @ ns) err '''') else retA ())
       (\<lambda>_. retA ())"

fun deployment_available :: "workload_condition list \<Rightarrow> bool" where
  "deployment_available [] = False"
| "deployment_available (cond # conds) =
     (if wc_Type cond = ''Available'' \<and> wc_Status cond = ''True'' then True else deployment_available conds)"

definition isDeploymentReady :: "Deployment \<Rightarrow> bool" where
  "isDeploymentReady d =
     (if dep_ObservedGeneration d < om_generation (dep_meta d) then False
      else deployment_available (dep_Conditions d))"

definition isDaemonSetReady :: "DaemonSet \<Rightarrow> bool" where
  "isDaemonSetReady ds =
     (if ds_ObservedGeneration ds < om_generation (ds_meta ds) then False
      else 0 <s ds_NumberReady ds \<and> ds_DesiredNumberScheduled ds \<le>s ds_NumberReady ds)"

definition IsDeploymentReady :: "'w clientset \<Rightarrow> util \<Rightarrow> string \<Rightarrow> string \<Rightarrow> ('w, bool) act" where
  "IsDeploymentReady S U namespace n =
     tryA (callA (cs_deployment_get S namespace n))
       (\<lambda>err. if isNotFound U err then retA False
              else failA (Wrapped (''getting deployment '' @ namespace @ ''/'' @ n) err ''''))
       (\<lambda>deploy. retA (isDeploymentReady deploy))"

definition IsDaemonSetReady :: "'w clientset \<Rightarrow> util \<Rightarrow> string \<Rightarrow> string \<Rightarrow> ('w, bool) act" where
  "IsDaemonSetReady S U namespace n =
     tryA (callA (cs_daemonset_get S namespace n))
       (\<lambda>err. if isNotFound U err then retA False
              else failA (Wrapped (''getting daemonset '' @ namespace @ ''/'' @ n) err ''''))
       (\<lambda>ds. retA (isDaemonSetReady ds))"

definition ListPods :: "'w clientset \<Rightarrow> string \<Rightarrow> (string \<times> string) list \<Rightarrow> ('w, Pod list) act" where
  "ListPods S namespace selector =
     (let sel = cs_format_selector S selector in
      wrapA (''listing pods in '' @ namespace @ '' with selector '' @ go_quote sel)
        (callA (cs_pods_list S namespace sel)))"

definition GetPodLogs :: "'w clientset \<Rightarrow> string \<Rightarrow> string \<Rightarrow> string \<Rightarrow> ('w, string) act" where
  "GetPodLogs S namespace n container =
     (let place = namespace @ ''/'' @ n @ '' container '' @ go_quote container in
      bindA (wrapA (''opening log stream for pod '' @ place) (callA (cs_log_open S namespace n container))) (\<lambda>stream w.
        case wrapA (''reading log stream for pod '' @ place) (callA (cs_log_read S stream)) w of
          (r, w') \<Rightarrow> (r, cs_log_close S stream w')))"

subsection \<open>Readiness\<close>

lemma deployment_available_iff:
  "deployment_available conds \<longleftrightarrow> (\<exists>c \<in> set conds. wc_Type c = ''Available'' \<and> wc_Status c = ''True'')"
  by (induction conds) auto

lemma isDeploymentReady_iff:
  "isDeploymentReady d \<longleftrightarrow> om_generation (dep_meta d) \<le> dep_ObservedGeneration d \<and>
     (\<exists>c \<in> set (dep_Conditions d). wc_Type c = ''Available'' \<and> wc_Status c = ''True'')"
  by (auto simp: isDeploymentReady_def deployment_available_iff)

lemma isDaemonSetReady_iff:
  "isDaemonSetReady ds \<longleftrightarrow> om_generation (ds_meta ds) \<le> ds_ObservedGeneration ds \<and>
     0 < sint (ds_NumberReady ds) \<and> sint (ds_DesiredNumberScheduled ds) \<le> sint (ds_NumberReady ds)"
  by (auto simp: isDaemonSetReady_def word_sless_alt word_sle_eq)

subsection \<open>Namespaces\<close>

text \<open>\<open>nss\<close> observes the names of the namespaces that exist and are not being deleted.\<close>

definition namespace_contract :: "util \<Rightarrow> 'w clientset \<Rightarrow> ('w \<Rightarrow> string set) \<Rightarrow> bool" where
  "namespace_contract U S nss \<longleftrightarrow>
     (\<forall>n w r w'. cs_ns_get S n w = (r, w') \<longrightarrow> nss w' = nss w) \<and>
     (\<forall>n w x w'. cs_ns_create S n w = (Inr x, w') \<longrightarrow> nss w' = insert (om_name (nsp_meta n)) (nss w)) \<and>
     (\<forall>n w e w'. cs_ns_create S n w = (Inl e, w') \<longrightarrow>
        nss w' = nss w \<or> \<not> rejected e \<and> nss w' = insert (om_name (nsp_meta n)) (nss w)) \<and>
     (\<forall>n w u w'. cs_ns_delete S n w = (Inr u, w') \<longrightarrow> nss w' = nss w - {n}) \<and>
     (\<forall>n w e w'. cs_ns_delete S n w = (Inl e, w') \<longrightarrow>
        nss w' = nss w \<or> \<not> rejected e \<and> nss w' = nss w - {n}) \<and>
     (\<forall>n w e w'. cs_ns_delete S n w = (Inl e, w') \<longrightarrow> isNotFound U e \<longrightarrow> n \<notin> nss w')"

lemma namespace_contractD:
  assumes "namespace_contract U S nss"
  shows "cs_ns_get S n w = (r, w') \<Longrightarrow> nss w' = nss w"
    and "cs_ns_create S ns w = (Inr x, w') \<Longrightarrow> nss w' = insert (om_name (nsp_meta ns)) (nss w)"
    and "cs_ns_create S ns w = (Inl e, w') \<Longrightarrow>
      nss w' = nss w \<or> \<not> rejected e \<and> nss w' = insert (om_name (nsp_meta ns)) (nss w)"
    and "cs_ns_delete S n w = (Inr u, w') \<Longrightarrow> nss w' = nss w - {n}"
    and "cs_ns_delete S n w = (Inl e, w') \<Longrightarrow> nss w' = nss w \<or> \<not> rejected e \<and> nss w' = nss w - {n}"
    and "cs_ns_delete S n w = (Inl e, w') \<Longrightarrow> isNotFound U e \<Longrightarrow> n \<notin> nss w'"
  using assms unfolding namespace_contract_def by - (elim conjE, metis)+

lemma EnsureNamespace_only:
  assumes "namespace_contract U S nss" "EnsureNamespace S U namespace w = (r, w')"
  shows "nss w \<subseteq> nss w' \<and> nss w' \<subseteq> insert namespace (nss w)"
proof -
  note laws = namespace_contractD [OF assms(1)]
  show ?thesis
    using assms(2) unfolding EnsureNamespace_def
    by (auto simp: tryA_act callA_act split: if_splits dest!: laws(1,2,3))
qed

lemma DeleteNamespace_Ret:
  assumes "namespace_contract U S nss" "DeleteNamespace S U ns w = (Ret u, w')"
  shows "ns \<notin> nss w'"
  using assms(2) namespace_contractD(4,6) [OF assms(1)] unfolding DeleteNamespace_def
  by (auto simp: tryA_act callA_act split: if_splits)

lemma DeleteNamespace_only:
  assumes "namespace_contract U S nss" "DeleteNamespace S U ns w = (r, w')"
  shows "nss w - {ns} \<subseteq> nss w' \<and> nss w' \<subseteq> nss w"
  using assms(2) unfolding DeleteNamespace_def
  by (auto simp: tryA_act callA_act split: if_splits dest!: namespace_contractD(4,5) [OF assms(1)])

lemma no_panic_k8s:
  "no_panic (EnsureNamespace S U ns)" "no_panic (DeleteNamespace S U ns)"
  "no_panic (IsDeploymentReady S U ns n)" "no_panic (IsDaemonSetReady S U ns n)"
  "no_panic (ListPods S ns sel)"
  unfolding EnsureNamespace_def DeleteNamespace_def IsDeploymentReady_def IsDaemonSetReady_def
    ListPods_def Let_def
  by (intro safe_intros)+

lemma no_panic_GetPodLogs: "no_panic (GetPodLogs S ns n c)"
  unfolding GetPodLogs_def Let_def
  by (intro no_panic_bindA no_panic_wrapA no_panic_callA)
    (auto simp: no_panic_def callA_def wrapA_def split: prod.splits sum.splits res.splits)

subsection \<open>Properties\<close>

text \<open>
  A workload counts as ready exactly when its controller has seen the current generation and, for a
  deployment, a condition says Available=True; for a daemon set, at least one pod is ready (as a signed
  32-bit number) and no fewer than are wanted. So a daemon set that wants no pod is never ready.
\<close>

lemma workload_readiness:
  "(isDeploymentReady d \<longleftrightarrow> om_generation (dep_meta d) \<le> dep_ObservedGeneration d \<and>
     (\<exists>c \<in> set (dep_Conditions d). wc_Type c = ''Available'' \<and> wc_Status c = ''True'')) \<and>
   (isDaemonSetReady ds \<longleftrightarrow> om_generation (ds_meta ds) \<le> ds_ObservedGeneration ds \<and>
     0 < sint (ds_NumberReady ds) \<and> sint (ds_DesiredNumberScheduled ds) \<le> sint (ds_NumberReady ds))"
  by (simp add: isDeploymentReady_iff isDaemonSetReady_iff)

subsection \<open>A cluster that answers\<close>

text \<open>A request fails only because the object is not there, or already there.\<close>

definition healthy_clientset :: "util \<Rightarrow> 'w clientset \<Rightarrow> bool" where
  "healthy_clientset U S \<longleftrightarrow>
     (\<forall>n w e w'. cs_ns_get S n w = (Inl e, w') \<longrightarrow> isNotFound U e) \<and>
     (\<forall>n w e w'. cs_ns_create S n w = (Inl e, w') \<longrightarrow> isAlreadyExists U e) \<and>
     (\<forall>n w e w'. cs_ns_delete S n w = (Inl e, w') \<longrightarrow> isNotFound U e) \<and>
     (\<forall>ns n w e w'. cs_deployment_get S ns n w = (Inl e, w') \<longrightarrow> isNotFound U e) \<and>
     (\<forall>ns n w e w'. cs_daemonset_get S ns n w = (Inl e, w') \<longrightarrow> isNotFound U e)"

lemma returns_k8s:
  assumes "healthy_clientset U S"
  shows "returns (EnsureNamespace S U ns)" "returns (DeleteNamespace S U ns)"
    "returns (IsDeploymentReady S U ns n)" "returns (IsDaemonSetReady S U ns n)"
proof -
  have nf: "\<And>x w e w'. cs_ns_get S x w = (Inl e, w') \<Longrightarrow> isNotFound U e"
    "\<And>x w e w'. cs_ns_delete S x w = (Inl e, w') \<Longrightarrow> isNotFound U e"
    "\<And>y x w e w'. cs_deployment_get S y x w = (Inl e, w') \<Longrightarrow> isNotFound U e"
    "\<And>y x w e w'. cs_daemonset_get S y x w = (Inl e, w') \<Longrightarrow> isNotFound U e"
    "\<And>x w e w'. cs_ns_create S x w = (Inl e, w') \<Longrightarrow> isAlreadyExists U e"
    using assms unfolding healthy_clientset_def by - (elim conjE, metis)+
  show "returns (EnsureNamespace S U ns)" "returns (DeleteNamespace S U ns)"
    "returns (IsDeploymentReady S U ns n)" "returns (IsDaemonSetReady S U ns n)"
    unfolding EnsureNamespace_def DeleteNamespace_def IsDeploymentReady_def IsDaemonSetReady_def
    by (intro return_intros; erule notE; erule nf)+
qed

end
