(* ===== verification/ReportHandler.thy ===== *)
theory ReportHandler
  imports ReportInvariant K8sClient
begin

section \<open>The interface of the report handlers\<close>

text \<open>
  The interface \<open>Handler\<close> of \<open>internal/report/handler.go\<close>. A handler fills in the status of the report
  it is given and stores it; the locale states what the report controller relies on: a handler writes
  nothing but the status of that report, and once it returned without an error the report is complete.
\<close>

record 'w handler =
  hd_Reconcile :: "PolicyReport \<Rightarrow> ('w, unit) act"

text \<open>Everything but the status of one report.\<close>

definition other_reports :: "obj_key \<Rightarrow> cluster \<Rightarrow> (obj_key \<rightharpoonup> PolicyReport) \<times> (obj_meta \<times> PolicyReportSpec) option" where
  "other_reports k c = ((c_reports c)(k := None),
     map_option (\<lambda>r. (rep_meta r, rep_Spec r)) (c_reports c k))"

definition all_but_status :: "obj_key \<Rightarrow> cluster \<Rightarrow> _" where
  "all_but_status k c = (all_but_reports c, other_reports k c)"

definition report_completed :: "obj_key \<Rightarrow> cluster \<Rightarrow> bool" where
  "report_completed k c \<longleftrightarrow> (\<exists>r. c_reports c k = Some r \<and> rst_Phase (rep_Status r) = ReportCompleted)"

text \<open>Listing namespaces and pods, reading logs and drawing random numbers leaves the objects alone.\<close>

definition quiet_reads :: "'w client \<Rightarrow> 'w runtime \<Rightarrow> 'w clientset \<Rightarrow> ('w \<Rightarrow> 'g) \<Rightarrow> bool" where
  "quiet_reads C R S cl \<longleftrightarrow>
     (\<forall>w. cl (snd (cl_list_namespaces C w)) = cl w) \<and> (\<forall>ns w. cl (snd (cl_list_pods C ns w)) = cl w) \<and>
     (\<forall>n w. cl (snd (rt_intn R n w)) = cl w) \<and> (\<forall>w. cl (snd (rt_now R w)) = cl w) \<and>
     (\<forall>ns sel w. cl (snd (cs_pods_list S ns sel w)) = cl w) \<and>
     (\<forall>ns n c w. cl (snd (cs_log_open S ns n c w)) = cl w) \<and>
     (\<forall>h w. cl (snd (cs_log_read S h w)) = cl w) \<and> (\<forall>h w. cl (cs_log_close S h w) = cl w)"

lemma quiet_readsD:
  assumes "quiet_reads C R S cl"
  shows "keeps cl (callA (cl_list_namespaces C))" "keeps cl (callA (cl_list_pods C ns))"
    "keeps cl (intnA R k)" "keeps cl (nowA R)" "keeps cl (callA (cs_pods_list S ns sel))"
    "keeps cl (callA (cs_log_open S ns n' c))" "keeps cl (callA (cs_log_read S h))"
    "cl (cs_log_close S h w) = cl w"
  using assms unfolding quiet_reads_def
  by (auto simp: keeps_def intnA_def nowA_def intro!: keeps_callA [unfolded keeps_def] split: prod.splits)
    (metis snd_conv)+

lemma keeps_ListPods: "quiet_reads C R S cl \<Longrightarrow> keeps cl (ListPods S ns sel)"
  unfolding ListPods_def Let_def by (intro keeps_intros quiet_readsD)

lemma keeps_GetPodLogs:
  assumes "quiet_reads C R S cl"
  shows "keeps cl (GetPodLogs S ns n c)"
  unfolding GetPodLogs_def Let_def
proof (intro keeps_bindA keeps_wrapA quiet_readsD(6) [OF assms])
  fix h
  let ?read = "wrapA (''reading log stream for pod '' @ ns @ ''/'' @ n @ '' container '' @ go_quote c) (callA (cs_log_read S h))"
  have "keeps cl ?read" by (intro keeps_intros quiet_readsD(7) [OF assms])
  then show "keeps cl (\<lambda>w. case ?read w of (r, w') \<Rightarrow> (r, cs_log_close S h w'))"
    unfolding keeps_def by (auto simp: quiet_readsD(8) [OF assms] split: prod.splits) (metis snd_conv)
qed

locale report_handler =
  fixes mk :: "'w client \<Rightarrow> 'w runtime \<Rightarrow> util \<Rightarrow> 'w clientset \<Rightarrow> (string \<Rightarrow> string) \<Rightarrow> 'w handler"
  assumes handler_keeps: "api_contract U C cl \<Longrightarrow> quiet_reads C R S cl \<Longrightarrow>
      keeps (\<lambda>w. all_but_status (meta_key (rep_meta r)) (cl w)) (hd_Reconcile (mk C R U S E) r)"
    and handler_completes: "api_contract U C cl \<Longrightarrow> quiet_reads C R S cl \<Longrightarrow>
      c_reports (cl w) (meta_key (rep_meta r)) = Some r \<Longrightarrow>
      hd_Reconcile (mk C R U S E) r w = (Ret u, w') \<Longrightarrow> report_completed (meta_key (rep_meta r)) (cl w')"
    and handler_wf: "api_contract U C cl \<Longrightarrow> quiet_reads C R S cl \<Longrightarrow> wf_report_status (rep_Status r) \<Longrightarrow>
      preserves (\<lambda>w. wf_reports (cl w)) (hd_Reconcile (mk C R U S E) r)"
begin

lemma handler_frame:
  assumes "api_contract U C cl" "quiet_reads C R S cl" "hd_Reconcile (mk C R U S E) r w = (res, w')"
  shows "all_but_reports (cl w') = all_but_reports (cl w)"
    and "k \<noteq> meta_key (rep_meta r) \<Longrightarrow> c_reports (cl w') k = c_reports (cl w) k"
proof -
  have *: "all_but_status (meta_key (rep_meta r)) (cl w') = all_but_status (meta_key (rep_meta r)) (cl w)"
    using keepsD [OF handler_keeps [OF assms(1,2)] assms(3)] .
  then show "all_but_reports (cl w') = all_but_reports (cl w)" by (simp add: all_but_status_def)
  assume "k \<noteq> meta_key (rep_meta r)"
  then show "c_reports (cl w') k = c_reports (cl w) k"
    using * by (auto simp: all_but_status_def other_reports_def dest!: fun_cong [where x = k])
qed

end

subsection \<open>Frames of a status update\<close>

lemma keeps_report_status:
  assumes "api_contract U C cl" "meta_key (rep_meta r) = k"
  shows "keeps (\<lambda>w. all_but_status k (cl w)) (callA (k_status_update (cl_reports C) r))"
proof (rule keeps_callA)
  fix w
  obtain res w' where run: "k_status_update (cl_reports C) r w = (res, w')" by fastforce
  have key: "kd_key report_desc r = k" by (simp add: kd_key_def assms(2))
  have "all_but_reports (cl w') = all_but_reports (cl w)"
    using kind_frame_keeps(5) [OF api_all_but_frames(3) [OF assms(1)]] run by (rule keeps_callAD)
  moreover from api_contractD(4) [OF assms(1)] run have "other_reports k (cl w') = other_reports k (cl w)"
    by (rule status_update_any) (auto simp: other_reports_def status_effect_def key)
  ultimately show "all_but_status k (cl (snd (k_status_update (cl_reports C) r w))) = all_but_status k (cl w)"
    by (simp add: all_but_status_def run)
qed

lemma keeps_all_but_status: "keeps cl m \<Longrightarrow> keeps (\<lambda>w. all_but_status k (cl w)) m"
  by (auto simp: keeps_def)

lemma report_status_Ret:
  assumes "api_contract U C cl" "k_status_update (cl_reports C) r w = (Inr x, w')"
  shows "\<exists>r'. c_reports (cl w') (meta_key (rep_meta r)) = Some r' \<and> rep_Status r' = rep_Status r"
  using api_contractD(4) [OF assms(1)] assms(2)
  by (cases rule: status_update_Ret) (auto simp: kd_key_def)

end
