(* ===== verification/TrivyJson.thy ===== *)
theory TrivyJson
  imports GoJsonText
begin

section \<open>Trivy's report and the details of a policy report\<close>

text \<open>
  \<open>internal/report/trivy_json.go\<close>: the part of Trivy's output the operator reads, what it makes of the
  findings, and the details it writes. \<open>unmarshal_TrivyCLIReport\<close> is \<open>json.Unmarshal\<close> at these types:
  keys match without regard to case, unknown keys are skipped, \<open>null\<close> leaves a field alone, and
  a value of the wrong type is an error. Where a key is repeated the decoder writes into what the first
  value left there: a struct keeps its other fields, a pointer its target, and an array goes over the
  elements of the slice, those between its length and its capacity included. So a slice that is decoded
  into is its elements with the elements that lie behind them.
\<close>

datatype 'a slice = Slice (elems: "'a list") (behind: "'a list")

definition nil_slice :: "'a slice" where
  "nil_slice = Slice [] []"

subsection \<open>Types\<close>

record TrivyCLIOS =
  tos_Family :: string
  tos_Name :: string

record TrivyCLIMetadata =
  tmd_OS :: "TrivyCLIOS option"

record TrivyCLIVulnerability =
  tv_VulnerabilityID :: string
  tv_PkgName :: string
  tv_PkgPath :: string
  tv_InstalledVersion :: string
  tv_FixedVersion :: string
  tv_Severity :: string
  tv_Title :: string
  tv_Description :: string
  tv_PrimaryURL :: string
  tv_References :: "string slice"

record TrivyCLIResult =
  tr_Target :: string
  tr_Class :: string
  tr_Type :: string
  tr_Vulnerabilities :: "TrivyCLIVulnerability slice"

record TrivyCLIReport =
  tcr_ArtifactName :: string
  tcr_ArtifactType :: string
  tcr_Results :: "TrivyCLIResult slice"
  tcr_Metadata :: "TrivyCLIMetadata option"

record UIVulnerability =
  ui_VulnerabilityID :: string
  ui_Resource :: string
  ui_InstalledVersion :: string
  ui_FixedVersion :: string
  ui_Severity :: string
  ui_Title :: string
  ui_Description :: string
  ui_PrimaryLink :: string

record TrivyDetails =
  td_Image :: string
  td_Vulnerabilities :: "UIVulnerability list"
  td_ReportCount :: int

subsection \<open>Unmarshal\<close>

text \<open>
  Two keys match when they fold to the same: besides the case of ASCII letters, U+017F folds with \<open>s\<close> and
  U+212A with \<open>k\<close>; the other letters fold with no ASCII letter, and the tags are ASCII.
\<close>

definition ascii_lower :: "char \<Rightarrow> char" where
  "ascii_lower c = (let n = of_char c :: nat in if 65 \<le> n \<and> n \<le> 90 then char_of (n + 32) else c)"

fun fold_key :: "string \<Rightarrow> string" where
  "fold_key [] = []"
| "fold_key (c # s) =
     (if c = CHR 0xC5 \<and> take 1 s = [CHR 0xBF] then CHR ''s'' # fold_key (drop 1 s)
      else if c = CHR 0xE2 \<and> take 2 s = [CHR 0x84, CHR 0xAA] then CHR ''k'' # fold_key (drop 2 s)
      else ascii_lower c # fold_key s)"

definition key_is :: "string \<Rightarrow> string \<Rightarrow> bool" where
  "key_is name k \<longleftrightarrow> fold_key name = fold_key k"

definition unmarshal_string :: "json \<Rightarrow> string \<Rightarrow> string option" where
  "unmarshal_string v old = (case v of JStr s \<Rightarrow> Some s | JNull \<Rightarrow> Some old | _ \<Rightarrow> None)"

text \<open>\<open>old\<close> are the elements in place, up to the capacity; a fresh element is zero.\<close>

fun unmarshal_elems :: "(json \<Rightarrow> 'a \<Rightarrow> 'a option) \<Rightarrow> 'a \<Rightarrow> json list \<Rightarrow> 'a list \<Rightarrow> 'a list option" where
  "unmarshal_elems f zero [] old = Some []"
| "unmarshal_elems f zero (v # vs) old =
     (case f v (case old of [] \<Rightarrow> zero | x # _ \<Rightarrow> x) of
        None \<Rightarrow> None
      | Some a \<Rightarrow> map_option (Cons a) (unmarshal_elems f zero vs (drop 1 old)))"

definition unmarshal_slice :: "(json \<Rightarrow> 'a \<Rightarrow> 'a option) \<Rightarrow> 'a \<Rightarrow> json \<Rightarrow> 'a slice \<Rightarrow> 'a slice option" where
  "unmarshal_slice f zero v old =
     (case v of
        JArr vs \<Rightarrow>
          (if vs = [] then Some nil_slice
           else map_option (\<lambda>new. Slice new (drop (length vs) (elems old @ behind old)))
             (unmarshal_elems f zero vs (elems old @ behind old)))
      | JNull \<Rightarrow> Some nil_slice
      | _ \<Rightarrow> None)"

fun unmarshal_members :: "(string \<Rightarrow> json \<Rightarrow> 'r \<Rightarrow> 'r option) \<Rightarrow> (string \<times> json) list \<Rightarrow> 'r \<Rightarrow> 'r option" where
  "unmarshal_members f [] r = Some r"
| "unmarshal_members f ((k, v) # ms) r =
     (case f k v r of None \<Rightarrow> None | Some r' \<Rightarrow> unmarshal_members f ms r')"

definition unmarshal_struct :: "(string \<Rightarrow> json \<Rightarrow> 'r \<Rightarrow> 'r option) \<Rightarrow> json \<Rightarrow> 'r \<Rightarrow> 'r option" where
  "unmarshal_struct f v r = (case v of JObj ms \<Rightarrow> unmarshal_members f ms r | JNull \<Rightarrow> Some r | _ \<Rightarrow> None)"

definition unmarshal_pointer :: "(json \<Rightarrow> 'r \<Rightarrow> 'r option) \<Rightarrow> 'r \<Rightarrow> json \<Rightarrow> 'r option \<Rightarrow> 'r option option" where
  "unmarshal_pointer f zero v old =
     (case v of JNull \<Rightarrow> Some None | _ \<Rightarrow> map_option Some (f v (case old of None \<Rightarrow> zero | Some r \<Rightarrow> r)))"

definition zero_os :: TrivyCLIOS where
  "zero_os = \<lparr>tos_Family = '''', tos_Name = ''''\<rparr>"

definition unmarshal_os :: "json \<Rightarrow> TrivyCLIOS \<Rightarrow> TrivyCLIOS option" where
  "unmarshal_os = unmarshal_struct (\<lambda>k v r.
     if key_is ''Family'' k then map_option (\<lambda>s. r\<lparr>tos_Family := s\<rparr>) (unmarshal_string v (tos_Family r))
     else if key_is ''Name'' k then map_option (\<lambda>s. r\<lparr>tos_Name := s\<rparr>) (unmarshal_string v (tos_Name r))
     else Some r)"

definition unmarshal_metadata :: "json \<Rightarrow> TrivyCLIMetadata \<Rightarrow> TrivyCLIMetadata option" where
  "unmarshal_metadata = unmarshal_struct (\<lambda>k v r.
     if key_is ''OS'' k then map_option (\<lambda>os. r\<lparr>tmd_OS := os\<rparr>) (unmarshal_pointer unmarshal_os zero_os v (tmd_OS r))
     else Some r)"

definition zero_metadata :: TrivyCLIMetadata where
  "zero_metadata = \<lparr>tmd_OS = None\<rparr>"

definition zero_vulnerability :: TrivyCLIVulnerability where
  "zero_vulnerability = \<lparr>tv_VulnerabilityID = '''', tv_PkgName = '''', tv_PkgPath = '''',
     tv_InstalledVersion = '''', tv_FixedVersion = '''', tv_Severity = '''', tv_Title = '''',
     tv_Description = '''', tv_PrimaryURL = '''', tv_References = nil_slice\<rparr>"

definition unmarshal_vulnerability :: "json \<Rightarrow> TrivyCLIVulnerability \<Rightarrow> TrivyCLIVulnerability option" where
  "unmarshal_vulnerability = unmarshal_struct (\<lambda>k v r.
     if key_is ''VulnerabilityID'' k then
       map_option (\<lambda>s. r\<lparr>tv_VulnerabilityID := s\<rparr>) (unmarshal_string v (tv_VulnerabilityID r))
     else if key_is ''PkgName'' k then map_option (\<lambda>s. r\<lparr>tv_PkgName := s\<rparr>) (unmarshal_string v (tv_PkgName r))
     else if key_is ''PkgPath'' k then map_option (\<lambda>s. r\<lparr>tv_PkgPath := s\<rparr>) (unmarshal_string v (tv_PkgPath r))
     else if key_is ''InstalledVersion'' k then
       map_option (\<lambda>s. r\<lparr>tv_InstalledVersion := s\<rparr>) (unmarshal_string v (tv_InstalledVersion r))
     else if key_is ''FixedVersion'' k then
       map_option (\<lambda>s. r\<lparr>tv_FixedVersion := s\<rparr>) (unmarshal_string v (tv_FixedVersion r))
     else if key_is ''Severity'' k then map_option (\<lambda>s. r\<lparr>tv_Severity := s\<rparr>) (unmarshal_string v (tv_Severity r))
     else if key_is ''Title'' k then map_option (\<lambda>s. r\<lparr>tv_Title := s\<rparr>) (unmarshal_string v (tv_Title r))
     else if key_is ''Description'' k then
       map_option (\<lambda>s. r\<lparr>tv_Description := s\<rparr>) (unmarshal_string v (tv_Description r))
     else if key_is ''PrimaryURL'' k then
       map_option (\<lambda>s. r\<lparr>tv_PrimaryURL := s\<rparr>) (unmarshal_string v (tv_PrimaryURL r))
     else if key_is ''References'' k then
       map_option (\<lambda>l. r\<lparr>tv_References := l\<rparr>) (unmarshal_slice unmarshal_string '''' v (tv_References r))
     else Some r)"

definition unmarshal_result :: "json \<Rightarrow> TrivyCLIResult \<Rightarrow> TrivyCLIResult option" where
  "unmarshal_result = unmarshal_struct (\<lambda>k v r.
     if key_is ''Target'' k then map_option (\<lambda>s. r\<lparr>tr_Target := s\<rparr>) (unmarshal_string v (tr_Target r))
     else if key_is ''Class'' k then map_option (\<lambda>s. r\<lparr>tr_Class := s\<rparr>) (unmarshal_string v (tr_Class r))
     else if key_is ''Type'' k then map_option (\<lambda>s. r\<lparr>tr_Type := s\<rparr>) (unmarshal_string v (tr_Type r))
     else if key_is ''Vulnerabilities'' k then
       map_option (\<lambda>l. r\<lparr>tr_Vulnerabilities := l\<rparr>) 
         (unmarshal_slice unmarshal_vulnerability zero_vulnerability v (tr_Vulnerabilities r))
     else Some r)"

definition zero_result :: TrivyCLIResult where
  "zero_result = \<lparr>tr_Target = '''', tr_Class = '''', tr_Type = '''', tr_Vulnerabilities = nil_slice\<rparr>"

definition unmarshal_report :: "json \<Rightarrow> TrivyCLIReport \<Rightarrow> TrivyCLIReport option" where
  "unmarshal_report = unmarshal_struct (\<lambda>k v r.
     if key_is ''ArtifactName'' k then
       map_option (\<lambda>s. r\<lparr>tcr_ArtifactName := s\<rparr>) (unmarshal_string v (tcr_ArtifactName r))
     else if key_is ''ArtifactType'' k then
       map_option (\<lambda>s. r\<lparr>tcr_ArtifactType := s\<rparr>) (unmarshal_string v (tcr_ArtifactType r))
     else if key_is ''Results'' k then 
       map_option (\<lambda>l. r\<lparr>tcr_Results := l\<rparr>) (unmarshal_slice unmarshal_result zero_result v (tcr_Results r))
     else if key_is ''Metadata'' k then
       map_option (\<lambda>m. r\<lparr>tcr_Metadata := m\<rparr>) (unmarshal_pointer unmarshal_metadata zero_metadata v (tcr_Metadata r))
     else Some r)"

definition zero_report :: TrivyCLIReport where
  "zero_report = \<lparr>tcr_ArtifactName = '''', tcr_ArtifactType = '''', tcr_Results = nil_slice, tcr_Metadata = None\<rparr>"

definition unmarshal_TrivyCLIReport :: "string \<Rightarrow> TrivyCLIReport option" where
  "unmarshal_TrivyCLIReport text =
     (case parse_json text of None \<Rightarrow> None | Some v \<Rightarrow> unmarshal_report v zero_report)"

subsection \<open>Flattening\<close>

definition ui_vulnerability :: "TrivyCLIVulnerability \<Rightarrow> UIVulnerability" where
  "ui_vulnerability v =
     (let resource = tv_PkgName v;
          resource = (if resource = '''' then tv_PkgPath v else resource)
      in \<lparr>ui_VulnerabilityID = tv_VulnerabilityID v, ui_Resource = resource,
          ui_InstalledVersion = tv_InstalledVersion v, ui_FixedVersion = tv_FixedVersion v,
          ui_Severity = tv_Severity v, ui_Title = tv_Title v, ui_Description = tv_Description v,
          ui_PrimaryLink = tv_PrimaryURL v\<rparr>)"

definition flattenVulnerabilities :: "TrivyCLIReport option \<Rightarrow> UIVulnerability list" where
  "flattenVulnerabilities report =
     (case report of
        None \<Rightarrow> []
      | Some report \<Rightarrow>
          fold (\<lambda>r out. fold (\<lambda>v out. out @ [ui_vulnerability v]) (elems (tr_Vulnerabilities r)) out)
            (elems (tcr_Results report)) [])"

subsection \<open>The details as a document\<close>

definition UIVulnerability_json :: "UIVulnerability \<Rightarrow> json" where
  "UIVulnerability_json u =
     JObj (member_always ''vulnerabilityID'' (JStr (ui_VulnerabilityID u)) @
       member_always ''resource'' (JStr (ui_Resource u)) @
       member_always ''installedVersion'' (JStr (ui_InstalledVersion u)) @
       member_str_omitempty ''fixedVersion'' (ui_FixedVersion u) @
       member_always ''severity'' (JStr (ui_Severity u)) @
       member_str_omitempty ''title'' (ui_Title u) @
       member_str_omitempty ''description'' (ui_Description u) @
       member_str_omitempty ''primaryLink'' (ui_PrimaryLink u))"

definition TrivyDetails_json :: "TrivyDetails \<Rightarrow> json" where
  "TrivyDetails_json d =
     JObj (member_str_omitempty ''image'' (td_Image d) @
       member_list_omitempty ''vulnerabilities'' (map UIVulnerability_json (td_Vulnerabilities d)) @
       member_int_omitempty ''reportCount'' (td_ReportCount d))"

subsection \<open>Laws\<close>

lemma fold_snoc_map: "fold (\<lambda>v out. out @ [f v]) vs = (\<lambda>acc. acc @ map f vs)"
  by (induction vs) auto

lemma fold_append_concat: "fold (\<lambda>r out. out @ g r) rs acc = acc @ concat (map g rs)"
  by (induction rs arbitrary: acc) auto

lemma flattenVulnerabilities_eq:
  "flattenVulnerabilities (Some report) =
     concat (map (\<lambda>r. map ui_vulnerability (elems (tr_Vulnerabilities r))) (elems (tcr_Results report)))"
  by (simp add: flattenVulnerabilities_def fold_snoc_map fold_append_concat)

text \<open>
  Flattening keeps every finding, in order: the result has one entry per finding of each result,
  with the package name, or the package path when there is no name, as the resource.
\<close>

lemma flattenVulnerabilities_complete:
  "length (flattenVulnerabilities (Some report)) =
     sum_list (map (\<lambda>r. length (elems (tr_Vulnerabilities r))) (elems (tcr_Results report))) \<and>
   (\<forall>r v. r \<in> set (elems (tcr_Results report)) \<and> v \<in> set (elems (tr_Vulnerabilities r)) \<longrightarrow>
      (\<exists>u \<in> set (flattenVulnerabilities (Some report)).
         ui_VulnerabilityID u = tv_VulnerabilityID v \<and> ui_Severity u = tv_Severity v \<and>
         ui_Resource u = (if tv_PkgName v = '''' then tv_PkgPath v else tv_PkgName v)))"
  by (auto simp: flattenVulnerabilities_eq length_concat comp_def ui_vulnerability_def Let_def)

text \<open>A finding of the sample document below reaches the flattened list.\<close>

definition sample_scan_report :: TrivyCLIReport where
  "sample_scan_report = \<lparr>tcr_ArtifactName = ''nginx'', tcr_ArtifactType = '''',
     tcr_Results = Slice [\<lparr>tr_Target = ''debian'', tr_Class = '''', tr_Type = '''',
       tr_Vulnerabilities = Slice [zero_vulnerability\<lparr>tv_VulnerabilityID := ''CVE-1'', tv_PkgPath := ''lib/x''\<rparr>] []\<rparr>] [],
     tcr_Metadata = None\<rparr>"

lemma unmarshal_sample:
  "unmarshal_TrivyCLIReport
     ''{ \"artifactname\": \"nginx\", \"SchemaVersion\": 2, \"Results\": [ {\"Target\": \"debian\", \"Vulnerabilities\": [{\"VulnerabilityID\":\"CVE-1\",\"PkgPath\":\"lib/x\"}]} ] }''
   = Some sample_scan_report"
  by code_simp

text \<open>A repeated key adds to the finding that is there; its case does not matter.\<close>

lemma unmarshal_repeated_key:
  "map_option flattenVulnerabilities (map_option Some (unmarshal_TrivyCLIReport
     ''{\"Results\": [{\"Vulnerabilities\": [{\"VulnerabilityID\":\"CVE-1\"}, {\"PkgName\":\"a\"}]}], \"results\": [{\"vulnerabilities\": [{\"pkgname\":\"b\"}]}]}''))
   = Some [ui_vulnerability (zero_vulnerability\<lparr>tv_VulnerabilityID := ''CVE-1'', tv_PkgName := ''b''\<rparr>)]"
  by code_simp

end
