(* ===== verification/StringUtils.thy ===== *)
theory StringUtils
  imports GoUtf8
begin

section \<open>String helpers\<close>

text \<open>
  \<open>internal/utils/string_utils.go\<close> and the functions of package \<open>strings\<close> that the operator calls:
  \<open>Split\<close> and \<open>Join\<close>, \<open>TrimRight\<close> with one character, \<open>TrimSpace\<close>. Strings are lists of bytes; the
  white space of Unicode is known by its encodings.
\<close>

definition newline :: char where
  "newline = CHR 0x0A"

subsection \<open>Package \<open>strings\<close>\<close>

fun strings_Split :: "char \<Rightarrow> string \<Rightarrow> string list" where
  "strings_Split c [] = [[]]"
| "strings_Split c (x # xs) =
     (if x = c then [] # strings_Split c xs
      else (case strings_Split c xs of l # ls \<Rightarrow> (x # l) # ls | [] \<Rightarrow> [[x]]))"

fun strings_Join :: "string list \<Rightarrow> string \<Rightarrow> string" where
  "strings_Join [] sep = []"
| "strings_Join [x] sep = x"
| "strings_Join (x # y # ys) sep = x @ sep @ strings_Join (y # ys) sep"

definition strings_TrimRight :: "char \<Rightarrow> string \<Rightarrow> string" where
  "strings_TrimRight c s = rev (dropWhile (\<lambda>x. x = c) (rev s))"

text \<open>\<open>unicode.IsSpace\<close>\<close>

definition space_runes :: "nat list" where
  "space_runes = [0x09, 0x0A, 0x0B, 0x0C, 0x0D, 0x20, 0x85, 0xA0, 0x1680, 0x2000, 0x2001, 0x2002, 0x2003, 0x2004,
     0x2005, 0x2006, 0x2007, 0x2008, 0x2009, 0x200A, 0x2028, 0x2029, 0x202F, 0x205F, 0x3000]"

definition space_encodings :: "string list" where
  "space_encodings =
    [[CHR 0x09], [CHR 0x0A], [CHR 0x0B], [CHR 0x0C], [CHR 0x0D], [CHR 0x20], [CHR 0xC2, CHR 0x85],
     [CHR 0xC2, CHR 0xA0], [CHR 0xE1, CHR 0x9A, CHR 0x80], [CHR 0xE2, CHR 0x80, CHR 0x80],
     [CHR 0xE2, CHR 0x80, CHR 0x81], [CHR 0xE2, CHR 0x80, CHR 0x82], [CHR 0xE2, CHR 0x80, CHR 0x83],
     [CHR 0xE2, CHR 0x80, CHR 0x84], [CHR 0xE2, CHR 0x80, CHR 0x85], [CHR 0xE2, CHR 0x80, CHR 0x86],
     [CHR 0xE2, CHR 0x80, CHR 0x87], [CHR 0xE2, CHR 0x80, CHR 0x88], [CHR 0xE2, CHR 0x80, CHR 0x89],
     [CHR 0xE2, CHR 0x80, CHR 0x8A], [CHR 0xE2, CHR 0x80, CHR 0xA8], [CHR 0xE2, CHR 0x80, CHR 0xA9],
     [CHR 0xE2, CHR 0x80, CHR 0xAF], [CHR 0xE2, CHR 0x81, CHR 0x9F], [CHR 0xE3, CHR 0x80, CHR 0x80]]"

lemma space_encodings_utf8: "space_encodings = map utf8 space_runes"
  by (simp add: space_encodings_def space_runes_def utf8_def byte_def char_of_def bit_iff_odd)

function drop_leading :: "string list \<Rightarrow> string \<Rightarrow> string" where
  "drop_leading ws s =
     (case find (\<lambda>w. w \<noteq> [] \<and> s \<noteq> [] \<and> take (length w) s = w) ws of
        None \<Rightarrow> s
      | Some w \<Rightarrow> drop_leading ws (drop (length w) s))"
  by pat_completeness auto
termination
  by (relation "measure (\<lambda>(ws, s). length s)") (auto simp: find_Some_iff)

declare drop_leading.simps [simp del]

definition strings_TrimSpace :: "string \<Rightarrow> string" where
  "strings_TrimSpace s =
     rev (drop_leading (map rev space_encodings) (rev (drop_leading space_encodings s)))"

text \<open>What is left does not begin with white space.\<close>

lemma drop_leading_done:
  assumes "w \<in> set ws" "w \<noteq> []" "drop_leading ws s \<noteq> []"
  shows "take (length w) (drop_leading ws s) \<noteq> w"
  using assms
proof (induction ws s rule: drop_leading.induct)
  case (1 ws s)
  show ?case
  proof (cases "find (\<lambda>w. w \<noteq> [] \<and> s \<noteq> [] \<and> take (length w) s = w) ws")
    case None
    then have "drop_leading ws s = s" by (subst drop_leading.simps) simp
    with None 1(2-4) show ?thesis by (auto simp: find_None_iff)
  next
    case (Some v)
    then have "drop_leading ws s = drop_leading ws (drop (length v) s)" by (subst drop_leading.simps) simp
    with 1(1) [OF Some] 1(2-4) show ?thesis by simp
  qed
qed

subsection \<open>The helpers of the operator\<close>

definition JoinQuoted :: "string list \<Rightarrow> string" where
  "JoinQuoted items = strings_Join (fold (\<lambda>s quoted. quoted @ [go_quote s]) items []) '', ''"

definition ToYamlBlock :: "string \<Rightarrow> nat \<Rightarrow> string" where
  "ToYamlBlock block indent =
     (let trim = strings_TrimRight newline block;
          lines = strings_Split newline trim;
          prefix = replicate indent (CHR '' '')
      in fold (\<lambda>ln builder. builder @ prefix @ ln @ [newline]) lines (''|'' @ [newline]))"

fun Contains :: "string list \<Rightarrow> string \<Rightarrow> bool" where
  "Contains [] value = False"
| "Contains (item # items) value = (if item = value then True else Contains items value)"

subsection \<open>Laws\<close>

lemma Contains_iff: "Contains items value \<longleftrightarrow> value \<in> set items"
  by (induction items) auto

lemma JoinQuoted_eq: "JoinQuoted items = strings_Join (map go_quote items) '', ''"
proof -
  have "fold (\<lambda>s quoted. quoted @ [go_quote s]) items acc = acc @ map go_quote items" for acc
    by (induction items arbitrary: acc) auto
  then show ?thesis by (simp add: JoinQuoted_def)
qed

lemma strings_Split_not_Nil: "strings_Split c s \<noteq> []"
  by (induction s) (auto split: list.splits)

lemma strings_Split_no_sep: "l \<in> set (strings_Split c s) \<Longrightarrow> c \<notin> set l"
  by (induction s arbitrary: l) (auto split: list.splits if_splits)

lemma strings_Join_Cons: "xs \<noteq> [] \<Longrightarrow> strings_Join (x # xs) sep = x @ sep @ strings_Join xs sep"
  by (cases xs) auto

lemma Join_Split: "strings_Join (strings_Split c s) [c] = s"
proof (induction s)
  case (Cons x xs)
  obtain l ls where ls: "strings_Split c xs = l # ls"
    using strings_Split_not_Nil by (metis neq_Nil_conv)
  with Cons show ?case by (cases ls) auto
qed simp

lemma fold_lines:
  "fold (\<lambda>ln builder. builder @ prefix @ ln @ [newline]) lines acc =
     acc @ concat (map (\<lambda>ln. prefix @ ln @ [newline]) lines)"
  by (induction lines arbitrary: acc) auto

lemma ToYamlBlock_eq:
  "ToYamlBlock block indent = ''|'' @ [newline] @
     concat (map (\<lambda>ln. replicate indent (CHR '' '') @ ln @ [newline])
       (strings_Split newline (strings_TrimRight newline block)))"
  by (simp add: ToYamlBlock_def Let_def fold_lines)

text \<open>Lines that hold no line break can be read back from their concatenation.\<close>

lemma lines_inj:
  assumes "concat (map (\<lambda>ln. prefix @ ln @ [newline]) ls) = concat (map (\<lambda>ln. prefix @ ln @ [newline]) ms)"
    and "\<forall>l \<in> set ls. newline \<notin> set l" "\<forall>m \<in> set ms. newline \<notin> set m"
  shows "ls = ms"
  using assms
proof (induction ls arbitrary: ms)
  case (Cons l ls)
  then obtain m ms' where ms: "ms = m # ms'" by (cases ms) auto
  with Cons.prems have eq: "l @ newline # concat (map (\<lambda>ln. prefix @ ln @ [newline]) ls) =
      m @ newline # concat (map (\<lambda>ln. prefix @ ln @ [newline]) ms')"
    and "newline \<notin> set l" "newline \<notin> set m" by auto
  moreover have "takeWhile (\<lambda>c. c \<noteq> newline) (x @ newline # rest) = x" if "newline \<notin> set x" for x rest
    using that by (induction x) auto
  ultimately have "l = m" by metis
  with eq Cons ms show ?case by auto
qed (auto split: list.splits)

subsection \<open>Properties\<close>

text \<open>
  A YAML block scalar keeps its text: two texts give the same block, at one indentation, exactly when
  they agree up to the line breaks at their end (which \<open>ToYamlBlock\<close> trims).
\<close>

lemma ToYamlBlock_injective:
  "ToYamlBlock b indent = ToYamlBlock b' indent \<longleftrightarrow>
     strings_TrimRight newline b = strings_TrimRight newline b'"
proof
  assume "ToYamlBlock b indent = ToYamlBlock b' indent"
  then have "strings_Split newline (strings_TrimRight newline b) =
      strings_Split newline (strings_TrimRight newline b')"
    unfolding ToYamlBlock_eq
    by (intro lines_inj [of "replicate indent (CHR '' '')"]) (auto dest: strings_Split_no_sep)
  then show "strings_TrimRight newline b = strings_TrimRight newline b'"
    using Join_Split [of newline "strings_TrimRight newline b"] by (simp add: Join_Split)
qed (simp add: ToYamlBlock_eq)

end
