(* ===== verification/SampleCluster.thy ===== *)
theory SampleCluster
  imports MemCluster K8sClient
begin

section \<open>A sample cluster\<close>

text \<open>
  Objects for the witnesses: in the namespace \<open>team\<close> a tool and a policy of each type, and worlds of
  the cluster in memory that hold them.
\<close>

definition sample_tool :: "string \<Rightarrow> Tool" where
  "sample_tool typ =
     \<lparr>tool_meta = (new_meta ''team'' typ)\<lparr>om_finalizers := [ToolFinalizer]\<rparr>,
      tool_Spec = \<lparr>ts_Type = typ, ts_Enabled = True, ts_Namespace = '''', ts_Values = None\<rparr>,
      tool_Status = \<lparr>tst_Installed = False, tst_Healthy = False, tst_Version = '''', tst_Conditions = []\<rparr>\<rparr>"

definition sample_scan :: TrivyScan where
  "sample_scan = \<lparr>scan_Name = ''web'', scan_Image = ''nginx:1.31'', scan_Severity = ''HIGH'',
     scan_IgnoreUnfixed = True, scan_VulnerabilityTypes = [''os''], scan_ExitCode = None\<rparr>"

definition sample_experiment :: LitmusExperiment where
  "sample_experiment = \<lparr>exp_Name = ''cpu'', exp_ExperimentRef = ''pod-cpu-hog'', exp_EngineRef = '''',
     exp_TargetNamespace = ''shop'', exp_AppInfo = \<lparr>app_AppNamespace = ''shop'', app_AppLabel = ''app=web'',
     app_AppKind = ''deployment''\<rparr>, exp_Mode = '''', exp_Duration = ''30'', exp_Parameters = [(''CPU_CORES'', ''1'')],
     exp_ExpectedResult = \<lparr>exr_Verdict = '''', exr_FailOnChaosError = None\<rparr>\<rparr>"

definition sample_falco :: FalcoPolicySpec where
  "sample_falco = \<lparr>fal_Observe = \<lparr>obs_RuleRef = Some \<lparr>frr_Name = ''Terminal shell''\<rparr>, obs_RuleSelector = None\<rparr>,
     fal_Report = None\<rparr>"

definition sample_spec :: "string \<Rightarrow> PolicySpec" where
  "sample_spec typ = \<lparr>ps_Type = typ, ps_Enabled = True,
     ps_Target = \<lparr>tgt_NamespaceSelector = [], tgt_NodeSelector = []\<rparr>,
     ps_Falco = (if typ = PolicyTypeFalco then Some sample_falco else None),
     ps_Trivy = (if typ = PolicyTypeTrivy then Some \<lparr>trv_Scans = [sample_scan]\<rparr> else None),
     ps_Litmus = (if typ = PolicyTypeLitmus then Some \<lparr>lit_Experiments = [sample_experiment]\<rparr> else None)\<rparr>"

text \<open>A policy of generation 2 as a user creates it, and one that has its finalizer and its owner.\<close>

definition new_policy :: "string \<Rightarrow> Policy" where
  "new_policy typ =
     \<lparr>pol_meta = (new_meta ''team'' ''p1'')\<lparr>om_generation := 2\<rparr>, pol_Spec = sample_spec typ,
      pol_Status = \<lparr>pst_Phase = '''', pst_Conditions = [], pst_LastReport = '''', pst_ObservedGen = 0\<rparr>\<rparr>"

definition sample_policy :: "string \<Rightarrow> Policy" where
  "sample_policy typ = (new_policy typ)
     \<lparr>pol_meta := (new_meta ''team'' ''p1'')\<lparr>om_generation := 2, om_finalizers := [PolicyFinalizer],
        om_ownerReferences := [\<lparr>or_kind = ''Tool'', or_name = typ, or_uid = '''', or_controller = False\<rparr>]\<rparr>\<rparr>"

definition deleted_policy :: "string \<Rightarrow> Policy" where
  "deleted_policy typ = (sample_policy typ)
     \<lparr>pol_meta := (pol_meta (sample_policy typ))\<lparr>om_deletionTimestamp := Some 1\<rparr>\<rparr>"

definition disabled_policy :: "string \<Rightarrow> Policy" where
  "disabled_policy typ = (sample_policy typ)\<lparr>pol_Spec := (sample_spec typ)\<lparr>ps_Enabled := False\<rparr>\<rparr>"

definition sample_world :: "string \<Rightarrow> Policy \<Rightarrow> mem" where
  "sample_world typ p = empty_mem\<lparr>mem_tools := [sample_tool typ], mem_policies := [p]\<rparr>"

lemma sample_policy_lookup [simp]:
  "c_policies (mem_cluster (sample_world typ p)) (meta_key (pol_meta p)) = Some p"
  by (simp add: sample_world_def mem_lookup_def)

lemma sample_get_policy:
  "meta_key (pol_meta p) = k \<Longrightarrow>
   k_get (cl_policies mem_client) k (sample_world typ p) = (Inr p, sample_world typ p)"
  by (simp add: mem_client_def mem_api_def sample_world_def mem_lookup_def)

subsection \<open>A clientset in memory\<close>

text \<open>
  Namespaces, pods and deployments come from the world; every pod has the same log, a report with one finding;
  no daemon set exists.
\<close>

definition sample_log :: string where
  "sample_log = ''{\"Results\":[{\"Vulnerabilities\":[{\"VulnerabilityID\":\"CVE-1\"}]}]} ''"

definition mem_clientset :: "mem clientset" where
  "mem_clientset =
     \<lparr>cs_ns_get = (\<lambda>n w. case find (\<lambda>x. om_name (nsp_meta x) = n) (mem_namespaces w) of
          None \<Rightarrow> (Inl not_found, w) | Some x \<Rightarrow> (Inr x, w)),
      cs_ns_create = (\<lambda>x w. if om_name (nsp_meta x) \<in> set (map (\<lambda>y. om_name (nsp_meta y)) (mem_namespaces w))
          then (Inl already_exists, w) else (Inr x, w\<lparr>mem_namespaces := x # mem_namespaces w\<rparr>)),
      cs_ns_delete = (\<lambda>n w. if n \<in> set (map (\<lambda>y. om_name (nsp_meta y)) (mem_namespaces w))
          then (Inr (), w\<lparr>mem_namespaces := filter (\<lambda>y. om_name (nsp_meta y) \<noteq> n) (mem_namespaces w),
            mem_releases := filter (\<lambda>r. fst r \<noteq> n) (mem_releases w)\<rparr>)
          else (Inl not_found, w)),
      cs_deployment_get = (\<lambda>ns n w. case find (\<lambda>x. meta_key (dep_meta x) = (ns, n)) (mem_deployments w) of
          None \<Rightarrow> (Inl not_found, w) | Some x \<Rightarrow> (Inr x, w)),
      cs_daemonset_get = (\<lambda>ns n w. (Inl not_found, w)),
      cs_format_selector = (\<lambda>sel. concat (map (\<lambda>(k, v). k @ ''='' @ v) sel)),
      cs_pods_list = (\<lambda>ns sel w. (Inr (filter (\<lambda>p. om_namespace (pod_meta p) = ns \<and>
          (case labels_of (pod_meta p) ''job-name'' of None \<Rightarrow> False | Some v \<Rightarrow> ''job-name='' @ v = sel))
          (mem_pods w)), w)),
      cs_log_open = (\<lambda>ns n c w. (Inr 0, w)),
      cs_log_read = (\<lambda>h w. (Inr sample_log, w)),
      cs_log_close = (\<lambda>h w. w)\<rparr>"

definition mem_namespace_names :: "mem \<Rightarrow> string set" where
  "mem_namespace_names w = set (map (\<lambda>y. om_name (nsp_meta y)) (mem_namespaces w))"

lemma mem_namespace_contract: "namespace_contract mem_util mem_clientset mem_namespace_names"
  by (auto simp: namespace_contract_def mem_clientset_def mem_namespace_names_def split: option.splits if_splits)

lemma mem_healthy_clientset: "healthy_clientset mem_util mem_clientset"
  by (auto simp: healthy_clientset_def mem_clientset_def mem_util_def not_found_def already_exists_def
      split: option.splits if_splits)

text \<open>A scan job, in progress or finished, and its pod.\<close>

definition sample_job :: "bool \<Rightarrow> Job" where
  "sample_job finished =
     \<lparr>job_meta = new_meta ''team'' ''eirenyx-trivy-p1-web'',
      job_Spec = \<lparr>js_BackoffLimit = Some 0, js_TTLSecondsAfterFinished = Some 1800,
        js_Template = \<lparr>pt_labels = None, pt_RestartPolicy = ''Never'', pt_Containers = []\<rparr>\<rparr>,
      job_Status = \<lparr>jst_Succeeded = (if finished then 1 else 0), jst_Failed = 0\<rparr>\<rparr>"

definition sample_pod :: Pod where
  "sample_pod =
     \<lparr>pod_meta = (new_meta ''team'' ''web-1'')\<lparr>om_labels := Some [''job-name'' \<mapsto> ''eirenyx-trivy-p1-web'']\<rparr>,
      pod_Containers = [\<lparr>ct_Name = ''trivy'', ct_Image = ''nginx'', ct_Command = [], ct_Args = []\<rparr>],
      pod_Phase = ''Succeeded''\<rparr>"

definition sample_report :: "string \<Rightarrow> string \<Rightarrow> string \<Rightarrow> PolicyReport" where
  "sample_report typ name phase =
     \<lparr>rep_meta = new_meta ''team'' name,
      rep_Spec = \<lparr>rs_PolicyRef = \<lparr>pr_Name = ''p1'', pr_Generation = 2\<rparr>, rs_Type = typ\<rparr>,
      rep_Status = zero_report_status\<lparr>rst_Phase := phase\<rparr>\<rparr>"

definition report_world :: "string \<Rightarrow> string \<Rightarrow> bool \<Rightarrow> mem" where
  "report_world typ phase finished = (sample_world typ (sample_policy typ))
     \<lparr>mem_reports := [sample_report typ ''r1'' phase], mem_jobs := [sample_job finished], mem_pods := [sample_pod],
      mem_namespaces := [\<lparr>nsp_meta = new_meta '''' ''team''\<rparr>, \<lparr>nsp_meta = new_meta '''' ''kube-system''\<rparr>]\<rparr>"

end
