(* ===== verification/TrivyReport.thy ===== *)
theory TrivyReport
  imports ReportHandler TrivyJson StringUtils TrivyEngine SampleCluster
begin

section \<open>The Trivy report handler\<close>

text \<open>
  \<open>internal/report/trivy.go\<close>: the report of a Trivy policy is made of the logs of its scan jobs. The
  loop of \<open>Reconcile\<close> over the scans runs on the four variables it fills (a record), \<open>continue\<close> and
  \<open>return\<close> are the branches of its body. \<open>E\<close> is the text of the error \<open>json.Unmarshal\<close> gives for a log.
\<close>

definition trivyContainerName :: string where
  "trivyContainerName = ''trivy''"

definition report_getScanJobName :: "string \<Rightarrow> string \<Rightarrow> string" where
  "report_getScanJobName policyName scanName = ''eirenyx-trivy-'' @ policyName @ ''-'' @ scanName"

definition jobFinished :: "Job \<Rightarrow> bool" where
  "jobFinished job \<longleftrightarrow> 1 \<le>s jst_Succeeded (job_Status job) \<or> 1 \<le>s jst_Failed (job_Status job)"

text \<open>\<open>pods[0]\<close> of an empty list would panic: the caller has checked that there is a pod.\<close>

definition pickNewestPod :: "Pod list \<Rightarrow> Pod option" where
  "pickNewestPod pods =
     (case pods of
        [] \<Rightarrow> None
      | p0 # ps \<Rightarrow> Some (fold (\<lambda>p newest.
          if om_creationTimestamp (pod_meta newest) < om_creationTimestamp (pod_meta p) then p else newest) ps p0))"

definition log_preview :: "string \<Rightarrow> string" where
  "log_preview logs =
     (if 200 < length logs then take 200 logs @ [CHR 0xE2, CHR 0x80, CHR 0xA6] else logs)"

definition readScanReport :: "'w clientset \<Rightarrow> (string \<Rightarrow> string) \<Rightarrow> string \<Rightarrow> string \<Rightarrow> ('w, TrivyCLIReport) act" where
  "readScanReport S E namespace jobName =
     bindA (ListPods S namespace [(''job-name'', jobName)]) (\<lambda>pods.
     if length pods = 0 then failA (Errorf (''no pods found for job '' @ jobName @ '' yet''))
     else
     bindA (derefA ''pods[0]'' (pickNewestPod pods)) (\<lambda>pod.
     let place = om_namespace (pod_meta pod) @ ''/'' @ om_name (pod_meta pod) in
     if pod_Phase pod \<noteq> ''Succeeded'' \<and> pod_Phase pod \<noteq> ''Failed'' then
       failA (Errorf (''scan pod '' @ place @ '' phase='' @ pod_Phase pod @ '', not yet terminal''))
     else
     bindA (wrapA ''reading scan pod logs''
       (GetPodLogs S (om_namespace (pod_meta pod)) (om_name (pod_meta pod)) trivyContainerName)) (\<lambda>logs.
     let logs = strings_TrimSpace logs in
     if logs = '''' then failA (Errorf (''scan pod '' @ place @ '' produced no output''))
     else
     (case unmarshal_TrivyCLIReport logs of
        None \<Rightarrow> failA (Wrapped (''parsing trivy json from pod '' @ place) (ExtError (E logs))
                  ('' (got: '' @ go_quote (log_preview logs) @ '')''))
      | Some report \<Rightarrow> retA report))))"

record scan_progress =
  sp_allVulns :: "UIVulnerability list"
  sp_firstImage :: string
  sp_completedScans :: int
  sp_pendingScans :: "string list"

definition no_progress :: scan_progress where
  "no_progress = \<lparr>sp_allVulns = [], sp_firstImage = '''', sp_completedScans = 0, sp_pendingScans = []\<rparr>"

definition pending_scan :: "TrivyScan \<Rightarrow> scan_progress \<Rightarrow> scan_progress" where
  "pending_scan scan acc = acc\<lparr>sp_pendingScans := sp_pendingScans acc @ [scan_Name scan]\<rparr>"

definition finished_scan :: "TrivyScan \<Rightarrow> TrivyCLIReport \<Rightarrow> scan_progress \<Rightarrow> scan_progress" where
  "finished_scan scan report acc =
     (let firstImage = (if sp_firstImage acc = '''' then
            (let firstImage = scan_Image scan in if firstImage = '''' then tcr_ArtifactName report else firstImage)
          else sp_firstImage acc)
      in acc\<lparr>sp_firstImage := firstImage,
             sp_allVulns := sp_allVulns acc @ flattenVulnerabilities (Some report),
             sp_completedScans := sp_completedScans acc + 1\<rparr>)"

definition trivy_collect_scan ::
  "'w client \<Rightarrow> util \<Rightarrow> 'w clientset \<Rightarrow> (string \<Rightarrow> string) \<Rightarrow> Policy \<Rightarrow> TrivyScan \<Rightarrow> scan_progress \<Rightarrow>
   ('w, scan_progress) act" where
  "trivy_collect_scan C U S E policy scan acc =
     (let jobName = report_getScanJobName (om_name (pol_meta policy)) (scan_Name scan) in
      tryA (callA (k_get (cl_jobs C) (om_namespace (pol_meta policy), jobName)))
        (\<lambda>err.
          if isNotFound U err then retA (pending_scan scan acc)
          else failA (Wrapped (''getting scan job '' @ om_namespace (pol_meta policy) @ ''/'' @ jobName) err ''''))
        (\<lambda>job.
          if \<not> jobFinished job then retA (pending_scan scan acc)
          else
            bindA (wrapA (''scan '' @ go_quote (scan_Name scan))
              (readScanReport S E (om_namespace (pol_meta policy)) jobName)) (\<lambda>report.
            retA (finished_scan scan report acc))))"

definition trivy_final_status :: "scan_progress \<Rightarrow> PolicyReportStatus" where
  "trivy_final_status acc =
     (let total = (of_nat (length (sp_allVulns acc)) :: i32);
          failed = total;
          verdict = (if 0 <s failed then VerdictFail else VerdictPass)
      in \<lparr>rst_Phase = ReportCompleted,
          rst_Summary = \<lparr>sum_Verdict = verdict, sum_TotalChecks = total, sum_Passed = 0, sum_Failed = failed\<rparr>,
          rst_Details = Some (TrivyDetails_json \<lparr>td_Image = sp_firstImage acc,
            td_Vulnerabilities = sp_allVulns acc, td_ReportCount = sp_completedScans acc\<rparr>)\<rparr>)"

definition trivy_report_finish :: "'w client \<Rightarrow> PolicyReport \<Rightarrow> scan_progress \<Rightarrow> ('w, unit) act" where
  "trivy_report_finish C policyReport acc =
     (if 0 < length (sp_pendingScans acc) then
        bindA (callA (k_status_update (cl_reports C)
          (policyReport\<lparr>rep_Status := (rep_Status policyReport)\<lparr>rst_Phase := ReportRunning\<rparr>\<rparr>))) (\<lambda>_.
        failA (Errorf (''trivy scans still pending: '' @ strings_Join (sp_pendingScans acc) '','')))
      else
        bindA (callA (k_status_update (cl_reports C) (policyReport\<lparr>rep_Status := trivy_final_status acc\<rparr>)))
          (\<lambda>_. retA ()))"

definition trivy_report_Reconcile ::
  "'w client \<Rightarrow> util \<Rightarrow> 'w clientset \<Rightarrow> (string \<Rightarrow> string) \<Rightarrow> PolicyReport \<Rightarrow> ('w, unit) act" where
  "trivy_report_Reconcile C U S E policyReport =
     bindA (callA (k_get (cl_policies C) (om_namespace (rep_meta policyReport),
         pr_Name (rs_PolicyRef (rep_Spec policyReport))))) (\<lambda>policy.
     let no_scans = failA (Errorf (''policy '' @ om_namespace (pol_meta policy) @ ''/'' @
           om_name (pol_meta policy) @ '' has no trivy scans'')) in
     (case ps_Trivy (pol_Spec policy) of
        None \<Rightarrow> no_scans
      | Some trivy \<Rightarrow>
          if length (trv_Scans trivy) = 0 then no_scans
          else
            bindA (foldA (trivy_collect_scan C U S E policy) (trv_Scans trivy) no_progress)
              (trivy_report_finish C policyReport)))"

subsection \<open>The newest pod\<close>

lemma newest_fold:
  assumes "q = fold (\<lambda>p newest. if om_creationTimestamp (pod_meta newest) <
      om_creationTimestamp (pod_meta p) then p else newest) ps p0"
  shows "q \<in> set (p0 # ps)"
    and "p \<in> set (p0 # ps) \<Longrightarrow> om_creationTimestamp (pod_meta p) \<le> om_creationTimestamp (pod_meta q)"
proof -
  have "q \<in> set (p0 # ps) \<and> (\<forall>p \<in> set (p0 # ps).
      om_creationTimestamp (pod_meta p) \<le> om_creationTimestamp (pod_meta q))"
    using assms by (induction ps arbitrary: p0) fastforce+
  then show "q \<in> set (p0 # ps)"
    and "p \<in> set (p0 # ps) \<Longrightarrow> om_creationTimestamp (pod_meta p) \<le> om_creationTimestamp (pod_meta q)" by auto
qed

lemma pickNewestPod_Some:
  assumes "pickNewestPod pods = Some q"
  shows "q \<in> set pods" "p \<in> set pods \<Longrightarrow> om_creationTimestamp (pod_meta p) \<le> om_creationTimestamp (pod_meta q)"
  using assms newest_fold [of q] by (auto simp: pickNewestPod_def split: list.splits)

lemma pickNewestPod_None: "pickNewestPod pods = None \<longleftrightarrow> pods = []"
  by (auto simp: pickNewestPod_def split: list.splits)

subsection \<open>What the loop collects\<close>

definition report_scan_key :: "Policy \<Rightarrow> TrivyScan \<Rightarrow> obj_key" where
  "report_scan_key policy scan = (om_namespace (pol_meta policy),
     report_getScanJobName (om_name (pol_meta policy)) (scan_Name scan))"

definition scan_done :: "cluster \<Rightarrow> Policy \<Rightarrow> TrivyScan \<Rightarrow> bool" where
  "scan_done c policy scan \<longleftrightarrow> (case c_jobs c (report_scan_key policy scan) of
     None \<Rightarrow> False | Some job \<Rightarrow> jobFinished job)"

text \<open>\<open>report\<close> is what the log of the scan's pod holds at some moment.\<close>

definition scan_read :: "'w clientset \<Rightarrow> (string \<Rightarrow> string) \<Rightarrow> Policy \<Rightarrow> TrivyScan \<Rightarrow> TrivyCLIReport \<Rightarrow> bool" where
  "scan_read S E policy scan report \<longleftrightarrow> (\<exists>w1 w2. readScanReport S E (om_namespace (pol_meta policy))
     (report_getScanJobName (om_name (pol_meta policy)) (scan_Name scan)) w1 = (Ret report, w2))"

text \<open>The variables of the loop after it has visited \<open>scans\<close>.\<close>

definition collected ::
  "'w clientset \<Rightarrow> (string \<Rightarrow> string) \<Rightarrow> cluster \<Rightarrow> Policy \<Rightarrow> TrivyScan list \<Rightarrow>
   (TrivyScan \<times> TrivyCLIReport) list \<Rightarrow> scan_progress \<Rightarrow> bool" where
  "collected S E c policy scans reports acc \<longleftrightarrow>
     map fst reports = filter (scan_done c policy) scans \<and>
     (\<forall>(scan, report) \<in> set reports. scan_read S E policy scan report) \<and>
     sp_allVulns acc = concat (map (\<lambda>(_, report). flattenVulnerabilities (Some report)) reports) \<and>
     sp_completedScans acc = int (length reports) \<and>
     sp_pendingScans acc = map scan_Name (filter (\<lambda>scan. \<not> scan_done c policy scan) scans)"

lemma keeps_readScanReport:
  assumes "quiet_reads C R S cl"
  shows "keeps cl (readScanReport S E ns jobName)"
  unfolding readScanReport_def Let_def
  by (intro keeps_intros keeps_ListPods [OF assms] keeps_GetPodLogs [OF assms])

lemma keeps_trivy_collect_scan:
  assumes "api_contract U C cl" "quiet_reads C R S cl"
  shows "keeps cl (trivy_collect_scan C U S E policy scan acc)"
  unfolding trivy_collect_scan_def Let_def
  by (intro keeps_intros api_reads_cluster [OF assms(1)] keeps_readScanReport [OF assms(2)])

lemma trivy_collect_scan_Ret:
  assumes "api_contract U C cl" "trivy_collect_scan C U S E policy scan acc w = (Ret acc', w')"
  shows "\<not> scan_done (cl w) policy scan \<and> acc' = pending_scan scan acc \<or>
    scan_done (cl w) policy scan \<and>
      (\<exists>report. scan_read S E policy scan report \<and> acc' = finished_scan scan report acc)"
proof -
  note jobs = api_contractD(5) [OF assms(1)]
  from assms(2) consider
      (none) e w1 where "k_get (cl_jobs C) (report_scan_key policy scan) w = (Inl e, w1)" "isNotFound U e"
        "acc' = pending_scan scan acc"
    | (running) job w1 where "k_get (cl_jobs C) (report_scan_key policy scan) w = (Inr job, w1)"
        "\<not> jobFinished job" "acc' = pending_scan scan acc"
    | (finished) job w1 report where "k_get (cl_jobs C) (report_scan_key policy scan) w = (Inr job, w1)"
        "jobFinished job" "scan_read S E policy scan report" "acc' = finished_scan scan report acc"
    unfolding trivy_collect_scan_def report_scan_key_def scan_read_def
    by (auto simp: Let_def act_simps split: if_splits)
  then show ?thesis
    by cases (auto simp: scan_done_def dest: get_Ret(1) [OF jobs] get_Fail(1) [OF jobs])
qed

lemma collected_step:
  assumes "collected S E c policy scans reports acc"
    and "\<not> scan_done c policy scan \<and> acc' = pending_scan scan acc \<or>
      scan_done c policy scan \<and>
        (\<exists>report. scan_read S E policy scan report \<and> acc' = finished_scan scan report acc)"
  shows "\<exists>reports'. collected S E c policy (scans @ [scan]) reports' acc'"
  using assms(2)
proof (elim disjE conjE exE)
  assume "\<not> scan_done c policy scan" "acc' = pending_scan scan acc"
  with assms(1) show ?thesis
    by (intro exI [of _ reports]) (auto simp: collected_def pending_scan_def)
next
  fix report
  assume "scan_done c policy scan" "scan_read S E policy scan report" "acc' = finished_scan scan report acc"
  with assms(1) show ?thesis
    by (intro exI [of _ "reports @ [(scan, report)]"]) (auto simp: collected_def finished_scan_def Let_def)
qed

lemma trivy_collect_Ret:
  assumes "api_contract U C cl" "quiet_reads C R S cl"
    and "foldA (trivy_collect_scan C U S E policy) scans no_progress w = (Ret acc, w')"
  obtains reports where "collected S E (cl w) policy scans reports acc" "cl w' = cl w"
proof -
  have "(\<exists>reports. collected S E (cl w) policy scans reports acc) \<and> cl w' = cl w"
  proof (rule foldA_Ret_induct [OF assms(3), where
        I = "\<lambda>ys acc w1. (\<exists>reports. collected S E (cl w) policy ys reports acc) \<and> cl w1 = cl w"])
    show "(\<exists>reports. collected S E (cl w) policy [] reports no_progress) \<and> cl w = cl w"
      by (simp add: collected_def no_progress_def)
  next
    fix ys x zs acc1 w1 acc2 w2
    assume "(\<exists>reports. collected S E (cl w) policy ys reports acc1) \<and> cl w1 = cl w"
      and step: "trivy_collect_scan C U S E policy x acc1 w1 = (Ret acc2, w2)"
    with collected_step trivy_collect_scan_Ret [OF assms(1) step]
      keepsD [OF keeps_trivy_collect_scan [OF assms(1,2)] step]
    show "(\<exists>reports. collected S E (cl w) policy (ys @ [x]) reports acc2) \<and> cl w2 = cl w" by metis
  qed
  then show thesis using that by blast
qed

subsection \<open>The handler behind the interface\<close>

definition trivy_handler ::
  "'w client \<Rightarrow> 'w runtime \<Rightarrow> util \<Rightarrow> 'w clientset \<Rightarrow> (string \<Rightarrow> string) \<Rightarrow> 'w handler" where
  "trivy_handler C R U S E = \<lparr>hd_Reconcile = trivy_report_Reconcile C U S E\<rparr>"

lemma keeps_trivy_report_finish:
  assumes "api_contract U C cl"
  shows "keeps (\<lambda>w. all_but_status (meta_key (rep_meta r)) (cl w)) (trivy_report_finish C r acc)"
  unfolding trivy_report_finish_def
  by (intro keeps_intros keeps_report_status [OF assms]) simp_all

lemma trivy_report_Reconcile_cases:
  assumes api: "api_contract U C cl" "quiet_reads C R S cl"
    and run: "trivy_report_Reconcile C U S E report w = (res, w')"
  obtains (unread) "cl w' = cl w" "\<And>u. res \<noteq> Ret u"
    | (read) policy trivy acc reports w1 where
        "c_policies (cl w) (om_namespace (rep_meta report), pr_Name (rs_PolicyRef (rep_Spec report))) = Some policy"
        "ps_Trivy (pol_Spec policy) = Some trivy"
        "collected S E (cl w) policy (trv_Scans trivy) reports acc" "cl w1 = cl w"
        "trivy_report_finish C report acc w1 = (res, w')"
proof -
  note same = keepsD [OF api_reads_cluster(2) [OF api(1)]]
  have loop: "keeps cl (foldA (trivy_collect_scan C U S E policy) scans no_progress)" for policy scans
    by (intro keeps_intros keeps_trivy_collect_scan [OF api])
  let ?k = "(om_namespace (rep_meta report), pr_Name (rs_PolicyRef (rep_Spec report)))"
  obtain g w1 where g: "k_get (cl_policies C) ?k w = (g, w1)" by fastforce
  show thesis
  proof (cases g)
    case (Inl err)
    with g run show thesis using same [of ?k w "Fail err" w1]
      by (intro unread) (auto simp: trivy_report_Reconcile_def bindA_def callA_def)
  next
    case (Inr policy)
    have w1: "cl w1 = cl w" using same [of ?k w "Ret policy" w1] g Inr by (simp add: act_simps)
    have stored: "c_policies (cl w) ?k = Some policy"
      using get_Ret(1) [OF api_contractD(3) [OF api(1)] g [unfolded Inr]] .
    show thesis
    proof (cases "\<exists>trivy. ps_Trivy (pol_Spec policy) = Some trivy \<and> trv_Scans trivy \<noteq> []")
      case False
      with g Inr run w1 show thesis
        by (intro unread)
          (auto simp: trivy_report_Reconcile_def bindA_def callA_def Let_def failA_def split: option.splits)
    next
      case True
      then obtain trivy where trivy: "ps_Trivy (pol_Spec policy) = Some trivy" "trv_Scans trivy \<noteq> []" by blast
      with g Inr run have rest: "bindA (foldA (trivy_collect_scan C U S E policy) (trv_Scans trivy) no_progress)
          (trivy_report_finish C report) w1 = (res, w')"
        by (simp add: trivy_report_Reconcile_def bindA_def callA_def Let_def)
      obtain a w2 where a: "foldA (trivy_collect_scan C U S E policy) (trv_Scans trivy) no_progress w1 = (a, w2)"
        by fastforce
      have w2: "cl w2 = cl w" using keepsD [OF loop a] w1 by simp
      show thesis
      proof (cases a)
        case (Ret acc)
        with a obtain reports where "collected S E (cl w1) policy (trv_Scans trivy) reports acc"
          by (auto elim: trivy_collect_Ret [OF api])
        with rest a Ret w1 w2 stored trivy show thesis by (intro read) (auto simp: bindA_def)
      qed (use rest a w2 in \<open>auto simp: bindA_def intro: unread\<close>)
    qed
  qed
qed

interpretation trivy_handler_iface: report_handler trivy_handler
proof unfold_locales
  fix C :: "'a client" and R U S E and cl :: "'a \<Rightarrow> cluster" and r :: PolicyReport
  assume api: "api_contract U C cl" "quiet_reads C R S cl"
  show "keeps (\<lambda>w. all_but_status (meta_key (rep_meta r)) (cl w)) (hd_Reconcile (trivy_handler C R U S E) r)"
    unfolding keeps_def
  proof (intro allI)
    fix w
    obtain res w' where run: "trivy_report_Reconcile C U S E r w = (res, w')" by fastforce
    with api show "all_but_status (meta_key (rep_meta r)) (cl (snd (hd_Reconcile (trivy_handler C R U S E) r w))) =
        all_but_status (meta_key (rep_meta r)) (cl w)"
      by (rule trivy_report_Reconcile_cases)
        (simp_all add: trivy_handler_def run keepsD [OF keeps_trivy_report_finish [OF api(1)]])
  qed
next
  fix C :: "'a client" and R U S E and cl :: "'a \<Rightarrow> cluster" and r w u w'
  assume api: "api_contract U C cl" "quiet_reads C R S cl"
    and "hd_Reconcile (trivy_handler C R U S E) r w = (Ret u, w')"
  then have "trivy_report_Reconcile C U S E r w = (Ret u, w')" by (simp add: trivy_handler_def)
  with api show "report_completed (meta_key (rep_meta r)) (cl w')"
  proof (rule trivy_report_Reconcile_cases)
    fix acc w1
    assume "trivy_report_finish C r acc w1 = (Ret u, w')"
    then obtain x where
      "k_status_update (cl_reports C) (r\<lparr>rep_Status := trivy_final_status acc\<rparr>) w1 = (Inr x, w')"
      by (auto simp: trivy_report_finish_def act_simps split: if_splits)
    from report_status_Ret [OF api(1) this] show ?thesis
      by (auto simp: report_completed_def trivy_final_status_def Let_def)
  qed simp
next
  fix C :: "'a client" and R U S E and cl :: "'a \<Rightarrow> cluster" and r :: PolicyReport
  assume api: "api_contract U C cl" "quiet_reads C R S cl" and wf: "wf_report_status (rep_Status r)"
  have final: "wf_report_status (trivy_final_status acc)" for acc
    by (simp add: wf_report_status_def trivy_final_status_def TrivyDetails_json_def json_object_def Let_def)
  have running: "wf_report_status ((rep_Status r)\<lparr>rst_Phase := ReportRunning\<rparr>)"
    using wf by (simp add: wf_report_status_def)
  have finish: "preserves (\<lambda>w. wf_reports (cl w)) (trivy_report_finish C r acc)" for acc
    unfolding trivy_report_finish_def
    by (intro preserves_intros preserves_report_status [OF api(1)]) (simp_all add: final running)
  show "preserves (\<lambda>w. wf_reports (cl w)) (hd_Reconcile (trivy_handler C R U S E) r)"
    by (simp add: trivy_handler_def trivy_report_Reconcile_def Let_def)
      (intro preserves_intros finish preserves_wf_of_reads api_reads_cluster [OF api(1)] keeps_foldA
        keeps_trivy_collect_scan [OF api])
qed

lemma trivy_handler_outside:
  assumes "kind_frame (cl_policies C) g" "kind_frame (cl_reports C) g" "kind_frame (cl_jobs C) g" "quiet_reads C R S g"
  shows "keeps g (hd_Reconcile (trivy_handler C R U S E) r)"
proof -
  note frames = kind_frame_keeps [OF assms(1)] kind_frame_keeps [OF assms(2)] kind_frame_keeps [OF assms(3)]
  have "keeps g (trivy_collect_scan C U S E policy scan acc)" "keeps g (trivy_report_finish C r acc)"
    for policy scan acc
    unfolding trivy_collect_scan_def trivy_report_finish_def Let_def
    by (intro keeps_intros frames keeps_readScanReport [OF assms(4)])+
  then show ?thesis
    by (simp add: trivy_handler_def trivy_report_Reconcile_def Let_def) (intro keeps_intros frames)
qed

subsection \<open>Properties\<close>

text \<open>The handler computes the names of the scan jobs for itself, as the engine does.\<close>

lemma scan_job_names_agree:
  "report_scan_key policy scan = trivy_scan_key policy scan"
  by (simp add: report_scan_key_def trivy_scan_key_def report_getScanJobName_def trivy_getScanJobName_def)

text \<open>What the status says of a list of findings; the number of findings is an \<open>int32\<close>.\<close>

definition status_of_findings :: "int \<Rightarrow> UIVulnerability list \<Rightarrow> PolicyReportStatus \<Rightarrow> bool" where
  "status_of_findings n vulns st \<longleftrightarrow>
     rst_Phase st = ReportCompleted \<and> sum_TotalChecks (rst_Summary st) = of_nat (length vulns) \<and>
     sum_Failed (rst_Summary st) = of_nat (length vulns) \<and> sum_Passed (rst_Summary st) = 0 \<and>
     (length vulns < 2 ^ 31 \<longrightarrow>
        sum_Verdict (rst_Summary st) = (if vulns = [] then VerdictPass else VerdictFail)) \<and>
     (\<exists>image. rst_Details st = Some (TrivyDetails_json
        \<lparr>td_Image = image, td_Vulnerabilities = vulns, td_ReportCount = n\<rparr>))"

lemma i32_positive:
  assumes "n < 2 ^ 31"
  shows "0 <s (of_nat n :: i32) \<longleftrightarrow> 0 < n"
proof -
  have "sint (of_nat n :: i32) = int n"
    using assms by (simp add: signed_of_nat signed_take_bit_int_eq_self)
  then show ?thesis by (simp add: word_sless_alt)
qed

lemma trivy_final_status_findings:
  assumes "sp_allVulns acc = vulns" "sp_completedScans acc = n"
  shows "status_of_findings n vulns (trivy_final_status acc)"
  using assms i32_positive [of "length vulns"]
  by (auto simp: status_of_findings_def trivy_final_status_def Let_def)

text \<open>
  C11: A completed Trivy report is made of all scans: when the handler returns without an error, every scan
  of the policy had a finished job, the log of a pod of each was read, and the stored status counts
  exactly the findings of these logs, in order, as failed checks and the scans as reports; with fewer than 2^31 findings the
  verdict is Pass when there are none and Fail otherwise.
\<close>

theorem trivy_report_of_all_scans:
  assumes "api_contract U C cl" "quiet_reads C R S cl"
    and "trivy_report_Reconcile C U S E report w = (Ret u, w')"
  shows "\<exists>policy trivy reports r.
    c_policies (cl w) (om_namespace (rep_meta report), pr_Name (rs_PolicyRef (rep_Spec report))) = Some policy \<and>
    ps_Trivy (pol_Spec policy) = Some trivy \<and>
    (\<forall>scan \<in> set (trv_Scans trivy). scan_done (cl w) policy scan) \<and>
    map fst reports = trv_Scans trivy \<and>
    (\<forall>(scan, log) \<in> set reports. scan_read S E policy scan log) \<and>
    c_reports (cl w') (meta_key (rep_meta report)) = Some r \<and>
    status_of_findings (int (length reports)) (concat (map (\<lambda>(_, log). flattenVulnerabilities (Some log)) reports)) (rep_Status r)"
  using assms
proof (rule trivy_report_Reconcile_cases)
  fix policy trivy acc reports w1
  assume policy: "c_policies (cl w) (om_namespace (rep_meta report), pr_Name (rs_PolicyRef (rep_Spec report))) = Some policy"
    "ps_Trivy (pol_Spec policy) = Some trivy"
    and coll: "collected S E (cl w) policy (trv_Scans trivy) reports acc"
    and "trivy_report_finish C report acc w1 = (Ret u, w')"
  then obtain x where pending: "sp_pendingScans acc = []" and
    upd: "k_status_update (cl_reports C) (report\<lparr>rep_Status := trivy_final_status acc\<rparr>) w1 = (Inr x, w')"
    by (auto simp: trivy_report_finish_def act_simps split: if_splits)
  from report_status_Ret [OF assms(1) upd] obtain r where
    r: "c_reports (cl w') (meta_key (rep_meta report)) = Some r" "rep_Status r = trivy_final_status acc" by auto
  have all: "\<forall>scan \<in> set (trv_Scans trivy). scan_done (cl w) policy scan"
    using coll pending by (auto simp: collected_def filter_empty_conv)
  then have "map fst reports = trv_Scans trivy"
    using coll by (auto simp: collected_def intro: filter_True)
  with coll policy r all trivy_final_status_findings [OF refl refl, of acc] show ?thesis
    unfolding collected_def by (intro exI [of _ policy] exI [of _ trivy] exI [of _ reports] exI [of _ r]) auto
qed auto

lemma mem_quiet: "quiet_reads mem_client mem_runtime mem_clientset mem_cluster"
  by (simp add: quiet_reads_def mem_client_def mem_runtime_def mem_clientset_def)

lemma trivy_report_of_all_scans_witness:
  "let run = trivy_report_Reconcile mem_client mem_util mem_clientset (\<lambda>_. ''bad'')
      (sample_report PolicyTypeTrivy ''r1'' ReportPending) (report_world PolicyTypeTrivy ReportPending True)
   in fst run = Ret () \<and> (\<exists>n vulns r. c_reports (mem_cluster (snd run)) (''team'', ''r1'') = Some r \<and>
     status_of_findings n vulns (rep_Status r))"
proof -
  let ?run = "trivy_report_Reconcile mem_client mem_util mem_clientset (\<lambda>_. ''bad'')
      (sample_report PolicyTypeTrivy ''r1'' ReportPending) (report_world PolicyTypeTrivy ReportPending True)"
  have ok: "fst ?run = Ret ()" by code_simp
  then have "?run = (Ret (), snd ?run)" by (metis prod.collapse)
  from trivy_report_of_all_scans [where cl = mem_cluster, OF mem_api_contract mem_quiet this] ok
  show ?thesis by (auto simp: sample_report_def meta_key_def Let_def)
qed

text \<open>
  C12: No verdict before the last scan is done: when some scan of the policy has no job or an unfinished one,
  the handler does not return without an error, and it does not complete the report.
\<close>

theorem trivy_report_waits_for_scans:
  assumes "api_contract U C cl" "quiet_reads C R S cl"
    and "c_policies (cl w) (om_namespace (rep_meta report), pr_Name (rs_PolicyRef (rep_Spec report))) = Some policy"
    and "ps_Trivy (pol_Spec policy) = Some trivy" "scan \<in> set (trv_Scans trivy)" "\<not> scan_done (cl w) policy scan"
    and "trivy_report_Reconcile C U S E report w = (res, w')"
  shows "(\<nexists>u. res = Ret u) \<and>
    (report_completed (meta_key (rep_meta report)) (cl w') \<longrightarrow>
       report_completed (meta_key (rep_meta report)) (cl w))"
  using assms(1,2,7)
proof (rule trivy_report_Reconcile_cases)
  fix policy' trivy' acc reports w1
  assume policy: "c_policies (cl w) (om_namespace (rep_meta report), pr_Name (rs_PolicyRef (rep_Spec report))) = Some policy'"
    "ps_Trivy (pol_Spec policy') = Some trivy'"
    and coll: "collected S E (cl w) policy' (trv_Scans trivy') reports acc" and w1: "cl w1 = cl w"
    and run: "trivy_report_finish C report acc w1 = (res, w')"
  from policy assms(3,4) have "policy' = policy" "trivy' = trivy" by auto
  with coll assms(5,6) have "sp_pendingScans acc \<noteq> []" by (auto simp: collected_def filter_empty_conv)
  with run obtain ans where res: "\<nexists>u. res = Ret u" and
    upd: "k_status_update (cl_reports C)
      (report\<lparr>rep_Status := (rep_Status report)\<lparr>rst_Phase := ReportRunning\<rparr>\<rparr>) w1 = (ans, w')"
    by (cases res) (auto simp: trivy_report_finish_def act_simps split: if_splits)
  from api_contractD(4) [OF assms(1)] upd
  have "report_completed (meta_key (rep_meta report)) (cl w') \<longrightarrow>
      report_completed (meta_key (rep_meta report)) (cl w)"
    by (cases rule: status_update_any)
      (auto simp: report_completed_def status_effect_def kd_key_def w1)
  with res show ?thesis by simp
qed (auto simp: report_completed_def)

lemma trivy_report_waits_for_scans_witness:
  "\<not> report_completed (''team'', ''r1'') (mem_cluster (snd
     (trivy_report_Reconcile mem_client mem_util mem_clientset (\<lambda>_. ''bad'')
       (sample_report PolicyTypeTrivy ''r1'' ReportPending) (report_world PolicyTypeTrivy ReportPending False))))"
proof -
  let ?w = "report_world PolicyTypeTrivy ReportPending False" and ?p = "sample_policy PolicyTypeTrivy"
    and ?r = "sample_report PolicyTypeTrivy ''r1'' ReportPending"
  let ?run = "trivy_report_Reconcile mem_client mem_util mem_clientset (\<lambda>_. ''bad'') ?r ?w"
  have p: "c_policies (mem_cluster ?w) (om_namespace (rep_meta ?r), pr_Name (rs_PolicyRef (rep_Spec ?r))) = Some ?p"
    by (simp add: report_world_def sample_world_def mem_lookup_def sample_policy_def sample_report_def meta_key_def)
  have trivy: "ps_Trivy (pol_Spec ?p) = Some \<lparr>trv_Scans = [sample_scan]\<rparr>"
    by (simp add: sample_policy_def new_policy_def sample_spec_def)
  have scan: "sample_scan \<in> set (trv_Scans \<lparr>trv_Scans = [sample_scan]\<rparr>)" by simp
  have undone: "\<not> scan_done (mem_cluster ?w) ?p sample_scan" by code_simp
  have fresh: "\<not> report_completed (meta_key (rep_meta ?r)) (mem_cluster ?w)"
    by (simp add: report_completed_def report_world_def sample_world_def mem_lookup_def sample_report_def meta_key_def
        zero_report_status_def)
  from trivy_report_waits_for_scans [where cl = mem_cluster and w = ?w and report = ?r and policy = ?p,
      OF mem_api_contract mem_quiet p trivy scan undone surjective_pairing] fresh
  show ?thesis by (simp add: sample_report_def meta_key_def)
qed

text \<open>
  Of the pods of a scan job the handler reads one of the most recently created.\<close>

lemma pickNewestPod_newest:
  "(case pickNewestPod pods of
      None \<Rightarrow> pods = []
    | Some q \<Rightarrow> q \<in> set pods \<and> (\<forall>p \<in> set pods.
        om_creationTimestamp (pod_meta p) \<le> om_creationTimestamp (pod_meta q)))"
  using pickNewestPod_Some [of pods] pickNewestPod_None [of pods] by (auto split: option.split)

end
