(* ===== verification/PodDetails.thy ===== *)
theory PodDetails
  imports ReportHandler StringUtils SampleCluster
begin

section \<open>Details of random pods\<close>

text \<open>
  \<open>internal/report/pod_details.go\<close>: some pods of the cluster as a JSON list. The functions never return
  an error: a failed listing gives no details. \<open>rand.Shuffle\<close> is the Fisher-Yates shuffle of
  \<open>math/rand\<close> over the runtime's random numbers; the map \<open>podSet\<close> is a list with distinct keys,
  visited at the end in the order of a Go map.
\<close>

definition excludedNamespaces :: "string list" where
  "excludedNamespaces = [''kube-system'', ''eirenyx-system'', ''falco'', ''litmus'', ''trivy-system'']"

record PodDetails =
  pd_PodName :: string
  pd_Namespace :: string
  pd_Containers :: "string list"

definition PodDetails_json :: "PodDetails \<Rightarrow> json" where
  "PodDetails_json d =
     JObj (member_always ''podName'' (JStr (pd_PodName d)) @
       member_always ''namespace'' (JStr (pd_Namespace d)) @
       member_always ''containers'' (JArr (map JStr (pd_Containers d))))"

definition ExtractContainerNames :: "Pod \<Rightarrow> string list" where
  "ExtractContainerNames pod = fold (\<lambda>c names. names @ [ct_Name c]) (pod_Containers pod) []"

subsection \<open>Shuffling\<close>

definition swap :: "nat \<Rightarrow> nat \<Rightarrow> 'a list \<Rightarrow> 'a list" where
  "swap i j xs = xs[i := xs ! j, j := xs ! i]"

fun shuffle_from :: "'w runtime \<Rightarrow> nat \<Rightarrow> 'a list \<Rightarrow> ('w, 'a list) act" where
  "shuffle_from R 0 xs = retA xs"
| "shuffle_from R (Suc i) xs = bindA (intnA R (Suc i + 1)) (\<lambda>j. shuffle_from R i (swap (Suc i) j xs))"

definition rand_Shuffle :: "'w runtime \<Rightarrow> 'a list \<Rightarrow> ('w, 'a list) act" where
  "rand_Shuffle R xs = shuffle_from R (length xs - 1) xs"

subsection \<open>Collecting\<close>

definition pod_key :: "Pod \<Rightarrow> string" where
  "pod_key p = om_namespace (pod_meta p) @ ''/'' @ om_name (pod_meta p)"

definition details_of_pod :: "Pod \<Rightarrow> PodDetails" where
  "details_of_pod p = \<lparr>pd_PodName = om_name (pod_meta p), pd_Namespace = om_namespace (pod_meta p),
     pd_Containers = ExtractContainerNames p\<rparr>"

fun select_pods :: "int \<Rightarrow> Pod list \<Rightarrow> (string \<times> PodDetails) list \<Rightarrow> (string \<times> PodDetails) list" where
  "select_pods podCount [] podSet = podSet"
| "select_pods podCount (p # ps) podSet =
     (if podCount \<le> int (length podSet) then podSet
      else
        let key = pod_key p in
        select_pods podCount ps
          (if map_of podSet key = None then podSet @ [(key, details_of_pod p)] else podSet))"

definition included_namespaces :: "Namespace list \<Rightarrow> string list" where
  "included_namespaces namespaces =
     fold (\<lambda>ns included. if \<not> Contains excludedNamespaces (om_name (nsp_meta ns))
       then included @ [om_name (nsp_meta ns)] else included) namespaces []"

definition collect_pods :: "'w client \<Rightarrow> string list \<Rightarrow> ('w, Pod list) act" where
  "collect_pods C namespaces =
     foldA (\<lambda>ns collected. bindA (callA (cl_list_pods C ns)) (\<lambda>pods. retA (collected @ pods))) namespaces []"

text \<open>The list of details, before it is written as JSON.\<close>

definition choose_pods :: "'w runtime \<Rightarrow> int \<Rightarrow> Pod list \<Rightarrow> ('w, PodDetails list) act" where
  "choose_pods R podCount collected =
     bindA (nowA R) (\<lambda>_.
     bindA (rand_Shuffle R collected) (\<lambda>pods.
     bindA (rangeA R (select_pods podCount pods [])) (\<lambda>entries.
     retA (map snd entries))))"

definition GetPodDetails :: "'w client \<Rightarrow> 'w runtime \<Rightarrow> int \<Rightarrow> ('w, json option) act" where
  "GetPodDetails C R podCount =
     tryA (callA (cl_list_namespaces C))
       (\<lambda>err. retA None)
       (\<lambda>namespaces.
     tryA (collect_pods C (included_namespaces namespaces))
       (\<lambda>err. retA None)
       (\<lambda>collected.
     if length collected = 0 then retA (Some (JObj [(''message'', JStr ''No pods found.'')]))
     else bindA (choose_pods R podCount collected) (\<lambda>details. retA (Some (JArr (map PodDetails_json details))))))"

subsection \<open>Laws\<close>

lemma ExtractContainerNames_eq: "ExtractContainerNames pod = map ct_Name (pod_Containers pod)"
proof -
  have "fold (\<lambda>c names. names @ [ct_Name c]) cs acc = acc @ map ct_Name cs" for cs :: "Container list" and acc
    by (induction cs arbitrary: acc) auto
  then show ?thesis by (simp add: ExtractContainerNames_def)
qed

lemma included_namespaces_eq:
  "included_namespaces namespaces =
     filter (\<lambda>n. n \<notin> set excludedNamespaces) (map (\<lambda>ns. om_name (nsp_meta ns)) namespaces)"
proof -
  have "fold (\<lambda>ns included. if \<not> Contains excludedNamespaces (om_name (nsp_meta ns))
       then included @ [om_name (nsp_meta ns)] else included) nss acc =
     acc @ filter (\<lambda>n. n \<notin> set excludedNamespaces) (map (\<lambda>ns. om_name (nsp_meta ns)) nss)" for acc and nss :: "Namespace list"
    by (induction nss arbitrary: acc) (auto simp: Contains_iff)
  then show ?thesis by (simp add: included_namespaces_def)
qed

lemma swap_mset: "i < length xs \<Longrightarrow> j < length xs \<Longrightarrow> mset (swap i j xs) = mset xs"
  unfolding swap_def by (cases "i = j") (auto simp: mset_swap)

lemma length_swap [simp]: "length (swap i j xs) = length xs"
  by (simp add: swap_def)

lemma shuffle_from_mset:
  assumes "runtime_contract R" "i < length xs \<or> i = 0" "shuffle_from R i xs w = (Ret ys, w')"
  shows "mset ys = mset xs"
  using assms(2,3)
proof (induction i arbitrary: xs w)
  case (Suc i)
  then obtain j w1 where j: "rt_intn R (Suc i + 1) w = (j, w1)"
    and rest: "shuffle_from R i (swap (Suc i) j xs) w1 = (Ret ys, w')" by (auto simp: act_simps)
  have "j < Suc i + 1" using runtime_contractD(3) [OF assms(1), of "Suc i + 1" w] j by simp
  then show ?case using Suc.IH [OF _ rest] Suc.prems(1) swap_mset [of "Suc i" xs j] by simp
qed simp

lemma rand_Shuffle_mset:
  assumes "runtime_contract R" "rand_Shuffle R xs w = (Ret ys, w')"
  shows "mset ys = mset xs"
  using shuffle_from_mset [OF assms(1) _ assms(2) [unfolded rand_Shuffle_def]] by (cases xs) auto

lemma select_pods_props:
  assumes "distinct (map fst podSet)" "int (length podSet) \<le> podCount \<or> podSet = []"
    and "\<forall>(k, d) \<in> set podSet. \<exists>p \<in> P. k = pod_key p \<and> d = details_of_pod p" "set ps \<subseteq> P"
  shows "distinct (map fst (select_pods podCount ps podSet))"
    and "int (length (select_pods podCount ps podSet)) \<le> max 0 podCount"
    and "\<forall>(k, d) \<in> set (select_pods podCount ps podSet). \<exists>p \<in> P. k = pod_key p \<and> d = details_of_pod p"
proof -
  let ?r = "select_pods podCount ps podSet"
  have "distinct (map fst ?r) \<and> int (length ?r) \<le> max 0 podCount \<and>
      (\<forall>(k, d) \<in> set ?r. \<exists>p \<in> P. k = pod_key p \<and> d = details_of_pod p)"
    using assms
  proof (induction ps arbitrary: podSet)
    case (Cons p ps)
    show ?case
    proof (cases "podCount \<le> int (length podSet)")
      case False
      let ?s = "if map_of podSet (pod_key p) = None then podSet @ [(pod_key p, details_of_pod p)] else podSet"
      have "distinct (map fst ?s)" "int (length ?s) \<le> podCount \<or> ?s = []"
        "\<forall>(k, d) \<in> set ?s. \<exists>p \<in> P. k = pod_key p \<and> d = details_of_pod p"
        using Cons.prems False by (auto simp: map_of_eq_None_iff)
      from Cons.IH [OF this] Cons.prems(4) False show ?thesis by (simp add: Let_def)
    qed (use Cons.prems in auto)
  qed auto
  then show "distinct (map fst ?r)" "int (length ?r) \<le> max 0 podCount"
    "\<forall>(k, d) \<in> set ?r. \<exists>p \<in> P. k = pod_key p \<and> d = details_of_pod p" by blast+
qed

lemma rangeA_entries:
  assumes "runtime_contract R" "distinct (map fst m)" "rangeA R m w = (Ret es, w')"
  shows "set es = set m" "length es = length m" "distinct (map fst es)"
proof -
  have "mset es = mset m" using rangeA_mset [OF assms] .
  then show "set es = set m" "length es = length m" by (metis mset_eq_setD, metis mset_eq_length)
  from \<open>mset es = mset m\<close> have "mset (map fst es) = mset (map fst m)" by simp
  with assms(2) show "distinct (map fst es)" by (metis mset_eq_imp_distinct_iff)
qed

text \<open>The chosen pods: no more than asked for, all different, all among the collected ones.\<close>

lemma choose_pods_Ret:
  assumes "runtime_contract R" "choose_pods R podCount collected w = (Ret details, w')"
  shows "int (length details) \<le> max 0 podCount"
    and "distinct (map (\<lambda>d. (pd_Namespace d, pd_PodName d)) details)"
    and "set details \<subseteq> details_of_pod ` set collected"
proof -
  from assms(2) obtain pods entries w1 w2 w3 where
    shuffled: "rand_Shuffle R collected w1 = (Ret pods, w2)" and
    order: "rangeA R (select_pods podCount pods []) w2 = (Ret entries, w3)" and
    details: "details = map snd entries"
    by (auto simp: choose_pods_def act_simps)
  have pods: "set pods = set collected"
    using rand_Shuffle_mset [OF assms(1) shuffled] by (rule mset_eq_setD)
  note chosen = select_pods_props [of "[]" podCount "set collected" pods, simplified, OF eq_refl [OF pods]]
  note entries = rangeA_entries [OF assms(1) chosen(1) order]
  show "int (length details) \<le> max 0 podCount" using chosen(2) entries(2) details by simp
  have from_pod: "\<exists>p \<in> set collected. e = (pod_key p, details_of_pod p)" if "e \<in> set entries" for e
    using that entries(1) chosen(3) by fastforce
  then show "set details \<subseteq> details_of_pod ` set collected" unfolding details by force
  have "inj_on (\<lambda>e. (pd_Namespace (snd e), pd_PodName (snd e))) (set entries)"
  proof (rule inj_onI)
    fix e e'
    assume e: "e \<in> set entries" "e' \<in> set entries"
      and same: "(pd_Namespace (snd e), pd_PodName (snd e)) = (pd_Namespace (snd e'), pd_PodName (snd e'))"
    from from_pod [OF e(1)] from_pod [OF e(2)] same have "fst e = fst e'"
      by (auto simp: details_of_pod_def pod_key_def)
    with e entries(3) show "e = e'" by (metis distinct_map inj_onD)
  qed
  then show "distinct (map (\<lambda>d. (pd_Namespace d, pd_PodName d)) details)"
    using entries(3) unfolding details by (simp add: distinct_map comp_def)
qed

text \<open>Listing the pods of a namespace gives pods of that namespace.\<close>

definition pods_in_namespace :: "'w client \<Rightarrow> bool" where
  "pods_in_namespace C \<longleftrightarrow> (\<forall>ns w pods w'. cl_list_pods C ns w = (Inr pods, w') \<longrightarrow>
     (\<forall>p \<in> set pods. om_namespace (pod_meta p) = ns))"

lemma collect_pods_Ret:
  assumes "pods_in_namespace C"
    and "collect_pods C namespaces w = (Ret collected, w')"
  shows "om_namespace ` pod_meta ` set collected \<subseteq> set namespaces"
proof -
  show ?thesis
    using assms(2) unfolding collect_pods_def
  proof (rule foldA_Ret_induct [where I = "\<lambda>ys acc _. om_namespace ` pod_meta ` set acc \<subseteq> set ys"])
    fix ys x zs acc w1 acc' w2
    assume "om_namespace ` pod_meta ` set acc \<subseteq> set ys"
      and "bindA (callA (cl_list_pods C x)) (\<lambda>pods. retA (acc @ pods)) w1 = (Ret acc', w2)"
    then show "om_namespace ` pod_meta ` set acc' \<subseteq> set (ys @ [x])"
      by (auto simp: act_simps image_subset_iff dest!: assms(1) [unfolded pods_in_namespace_def, rule_format])
  qed simp
qed

lemma keeps_shuffle_from: "quiet_reads C R S cl \<Longrightarrow> keeps cl (shuffle_from R i xs)"
  by (induction i arbitrary: xs) (auto intro!: keeps_intros quiet_readsD)

lemma keeps_GetPodDetails:
  assumes "quiet_reads C R S cl"
  shows "keeps cl (GetPodDetails C R n)"
  unfolding GetPodDetails_def collect_pods_def choose_pods_def rand_Shuffle_def
  by (intro keeps_intros quiet_readsD [OF assms] keeps_shuffle_from [OF assms])

lemma no_panic_GetPodDetails: "no_panic (GetPodDetails C R n)"
proof -
  have "no_panic (shuffle_from R i xs)" for i and xs :: "Pod list"
    by (induction i arbitrary: xs) (auto intro!: safe_intros)
  then show ?thesis
    unfolding GetPodDetails_def collect_pods_def choose_pods_def rand_Shuffle_def by (intro safe_intros)
qed

subsection \<open>Properties\<close>

text \<open>
  C35: The details name at most the requested number of pods, all different, and none of them in an
  excluded namespace (the document says that no pod was found when there is none).
\<close>

theorem pod_details_bounded:
  assumes "runtime_contract R"
    and "pods_in_namespace C"
    and "GetPodDetails C R podCount w = (Ret (Some doc), w')"
  shows "doc = JObj [(''message'', JStr ''No pods found.'')] \<or>
    (\<exists>details. doc = JArr (map PodDetails_json details) \<and> int (length details) \<le> max 0 podCount \<and>
       distinct (map (\<lambda>d. (pd_Namespace d, pd_PodName d)) details) \<and>
       (\<forall>d \<in> set details. pd_Namespace d \<notin> set excludedNamespaces))"
proof -
  from assms(3) consider "doc = JObj [(''message'', JStr ''No pods found.'')]"
    | namespaces collected details w1 w2 w3 where
        "collect_pods C (included_namespaces namespaces) w1 = (Ret collected, w2)"
        "choose_pods R podCount collected w2 = (Ret details, w3)"
        "doc = JArr (map PodDetails_json details)"
    unfolding GetPodDetails_def by (auto simp: act_simps split: if_splits)
  then show ?thesis
  proof cases
    case (2 namespaces collected details w1 w2 w3)
    note chosen = choose_pods_Ret [OF assms(1) 2(2)]
    have "om_namespace ` pod_meta ` set collected \<inter> set excludedNamespaces = {}"
      using collect_pods_Ret [OF assms(2) 2(1)] by (auto simp: included_namespaces_eq)
    with chosen(3) have "\<forall>d \<in> set details. pd_Namespace d \<notin> set excludedNamespaces"
      by (force simp: details_of_pod_def)
    with chosen 2(3) show ?thesis by blast
  qed simp
qed

lemma pod_details_bounded_witness:
  "let run = GetPodDetails mem_client mem_runtime 3 (report_world PolicyTypeFalco ReportPending True) in
   \<exists>details. fst run = Ret (Some (JArr (map PodDetails_json details))) \<and> length details \<le> 3 \<and>
     (\<forall>d \<in> set details. pd_Namespace d \<notin> set excludedNamespaces)"
proof -
  let ?run = "GetPodDetails mem_client mem_runtime 3 (report_world PolicyTypeFalco ReportPending True)"
  let ?doc = "JArr [PodDetails_json \<lparr>pd_PodName = ''web-1'', pd_Namespace = ''team'', pd_Containers = [''trivy'']\<rparr>]"
  have ok: "fst ?run = Ret (Some ?doc)" by code_simp
  then have run: "?run = (Ret (Some ?doc), snd ?run)" by (metis prod.collapse)
  have "pods_in_namespace mem_client" by (auto simp: pods_in_namespace_def mem_client_def)
  from pod_details_bounded [OF mem_runtime_contract this run]
  have "\<exists>details. ?doc = JArr (map PodDetails_json details) \<and> int (length details) \<le> max 0 3 \<and>
      (\<forall>d \<in> set details. pd_Namespace d \<notin> set excludedNamespaces)"
  proof (elim disjE)
    assume "?doc = JObj [(''message'', JStr ''No pods found.'')]"
    then have False by simp
    then show ?thesis ..
  qed (elim exE conjE, intro exI conjI, assumption+)
  then obtain details where d: "?doc = JArr (map PodDetails_json details)" "int (length details) \<le> max 0 3"
    "\<forall>d \<in> set details. pd_Namespace d \<notin> set excludedNamespaces" by (elim exE conjE)
  from d(2) have "length details \<le> 3" by simp
  with ok d(1,3) show ?thesis unfolding Let_def by (intro exI [of _ details] conjI) (simp_all only:)
qed

end
