(* ===== verification/FalcoReport.thy ===== *)
theory FalcoReport
  imports PodDetails FalcoEngine
begin

section \<open>The Falco report handler\<close>

text \<open>
  \<open>internal/report/falco.go\<close>: the report of a Falco policy counts a random number of events and names
  as many random pods. The rule name is read through the pointer \<open>RuleRef\<close>, which is nil for a policy
  that selects its rules by \<open>ruleSelector\<close>.
\<close>

definition createReportDetails :: "string \<Rightarrow> json option \<Rightarrow> json option" where
  "createReportDetails rule podDetails =
     Some (JObj (member_always ''message'' (JStr ''Obtained results for policy reconciliation.'') @
       member_always ''rule'' (JStr rule) @
       member_always ''podDetails'' (raw_json podDetails)))"

definition getReportEventOccurrence :: "'w runtime \<Rightarrow> ('w, i32) act" where
  "getReportEventOccurrence R = bindA (intnA R 5) (\<lambda>n. retA (of_nat n))"

definition falco_report_status :: "PolicyReport \<Rightarrow> i32 \<Rightarrow> json option \<Rightarrow> PolicyReportStatus" where
  "falco_report_status policyReport eventCount details =
     (let st = rep_Status policyReport;
          summary = (rst_Summary st)\<lparr>sum_TotalChecks := eventCount, sum_Failed := eventCount, sum_Passed := 0\<rparr>;
          summary = (if 0 <s eventCount then summary\<lparr>sum_Verdict := VerdictFail\<rparr>
                     else summary\<lparr>sum_Verdict := VerdictPass\<rparr>)
      in st\<lparr>rst_Summary := summary, rst_Phase := ReportCompleted, rst_Details := details\<rparr>)"

definition falco_report_Reconcile :: "'w client \<Rightarrow> 'w runtime \<Rightarrow> PolicyReport \<Rightarrow> ('w, unit) act" where
  "falco_report_Reconcile C R policyReport =
     bindA (callA (k_get (cl_policies C) (om_namespace (rep_meta policyReport),
         pr_Name (rs_PolicyRef (rep_Spec policyReport))))) (\<lambda>policy.
     bindA (derefA ''policy.Spec.Falco'' (ps_Falco (pol_Spec policy))) (\<lambda>falco.
     bindA (derefA ''policy.Spec.Falco.Observe.RuleRef'' (obs_RuleRef (fal_Observe falco))) (\<lambda>ruleRef.
     bindA (getReportEventOccurrence R) (\<lambda>eventCount.
     bindA (GetPodDetails C R (sint eventCount)) (\<lambda>podDetails.
     bindA (callA (k_status_update (cl_reports C) (policyReport\<lparr>rep_Status :=
         falco_report_status policyReport eventCount (createReportDetails (frr_Name ruleRef) podDetails)\<rparr>)))
       (\<lambda>_. retA ()))))))"

subsection \<open>The handler behind the interface\<close>

definition falco_handler ::
  "'w client \<Rightarrow> 'w runtime \<Rightarrow> util \<Rightarrow> 'w clientset \<Rightarrow> (string \<Rightarrow> string) \<Rightarrow> 'w handler" where
  "falco_handler C R U S E = \<lparr>hd_Reconcile = falco_report_Reconcile C R\<rparr>"

lemma keeps_getReportEventOccurrence:
  "quiet_reads C R S cl \<Longrightarrow> keeps cl (getReportEventOccurrence R)"
  unfolding getReportEventOccurrence_def by (intro keeps_intros quiet_readsD)

interpretation falco_handler_iface: report_handler falco_handler
proof unfold_locales
  fix C :: "'a client" and R U S E and cl :: "'a \<Rightarrow> cluster" and r :: PolicyReport
  assume api: "api_contract U C cl" "quiet_reads C R S cl"
  show "keeps (\<lambda>w. all_but_status (meta_key (rep_meta r)) (cl w)) (hd_Reconcile (falco_handler C R U S E) r)"
    unfolding falco_handler_def falco_report_Reconcile_def handler.simps
    by (intro keeps_intros keeps_all_but_status keeps_report_status [OF api(1)] api_reads_cluster [OF api(1)]
        keeps_getReportEventOccurrence [OF api(2)] keeps_GetPodDetails [OF api(2)]) simp
next
  fix C :: "'a client" and R U S E and cl :: "'a \<Rightarrow> cluster" and r w u w'
  assume api: "api_contract U C cl" and "hd_Reconcile (falco_handler C R U S E) r w = (Ret u, w')"
  then obtain eventCount details w1 x where
    "k_status_update (cl_reports C) (r\<lparr>rep_Status := falco_report_status r eventCount details\<rparr>) w1 = (Inr x, w')"
    by (auto simp: falco_handler_def falco_report_Reconcile_def act_simps)
  from report_status_Ret [OF api this] show "report_completed (meta_key (rep_meta r)) (cl w')"
    by (auto simp: report_completed_def falco_report_status_def Let_def)
next
  fix C :: "'a client" and R U S E and cl :: "'a \<Rightarrow> cluster" and r :: PolicyReport
  assume api: "api_contract U C cl" "quiet_reads C R S cl" and "wf_report_status (rep_Status r)"
  then have wf: "wf_report_status (rep_Status (r\<lparr>rep_Status := falco_report_status r n (createReportDetails rule ps)\<rparr>))"
    for n rule ps
    by (simp add: wf_report_status_def falco_report_status_def createReportDetails_def json_object_def Let_def)
  show "preserves (\<lambda>w. wf_reports (cl w)) (hd_Reconcile (falco_handler C R U S E) r)"
    by (simp add: falco_handler_def falco_report_Reconcile_def)
      (intro preserves_intros preserves_report_status [OF api(1) wf] preserves_wf_of_reads keeps_derefA
        api_reads_cluster [OF api(1)] keeps_getReportEventOccurrence [OF api(2)] keeps_GetPodDetails [OF api(2)])
qed

lemma falco_handler_outside:
  assumes "kind_frame (cl_policies C) g" "kind_frame (cl_reports C) g" "quiet_reads C R S g"
  shows "keeps g (hd_Reconcile (falco_handler C R U S E) r)"
  using assms
  by (simp add: falco_handler_def falco_report_Reconcile_def)
    (intro keeps_intros kind_frame_keeps keeps_getReportEventOccurrence keeps_GetPodDetails)

subsection \<open>Properties\<close>

lemma event_count_positive: "n < 5 \<Longrightarrow> 0 <s (of_nat n :: i32) \<longleftrightarrow> 0 < n"
proof -
  assume "n < 5"
  then have "sint (of_nat n :: i32) = int n" by (simp add: signed_of_nat signed_take_bit_int_eq_self)
  then show ?thesis by (simp add: word_sless_alt)
qed

text \<open>
  What a completed Falco report says: fewer than five failed checks, none passed, and the verdict is
  Fail exactly when there is a failed check. The number is drawn at random, no event is read.
\<close>

lemma falco_report_status_consistent:
  assumes "api_contract U C cl" "runtime_contract R"
    and "falco_report_Reconcile C R report w = (Ret u, w')"
  shows "\<exists>r n. c_reports (cl w') (meta_key (rep_meta report)) = Some r \<and> n < 5 \<and>
    rst_Phase (rep_Status r) = ReportCompleted \<and>
    rst_Summary (rep_Status r) = \<lparr>sum_Verdict = (if n = 0 then VerdictPass else VerdictFail),
      sum_TotalChecks = of_nat n, sum_Passed = 0, sum_Failed = of_nat n\<rparr>"
proof -
  from assms(3) obtain n details w1 w2 w3 x where
    n: "rt_intn R 5 w1 = (n, w2)" and
    upd: "k_status_update (cl_reports C) (report\<lparr>rep_Status := falco_report_status report (of_nat n) details\<rparr>) w3
      = (Inr x, w')"
    by (auto simp: falco_report_Reconcile_def getReportEventOccurrence_def act_simps)
  have "n < 5" using runtime_contractD(3) [OF assms(2), of 5 w1] n by simp
  from report_status_Ret [OF assms(1) upd] obtain r where
    "c_reports (cl w') (meta_key (rep_meta report)) = Some r"
    "rep_Status r = falco_report_status report (of_nat n) details" by auto
  with \<open>n < 5\<close> event_count_positive [OF \<open>n < 5\<close>] show ?thesis
    by (intro exI [of _ r] exI [of _ n]) (simp add: falco_report_status_def Let_def)
qed

text \<open>
  The Falco handler cannot report on a policy with a \<open>ruleSelector\<close>: \<open>Validate\<close> accepts such a policy,
  but the handler reads the name of its \<open>ruleRef\<close>, which is nil, and panics.
\<close>

lemma falco_selector_policy_panics:
  assumes "k_get (cl_policies C) (om_namespace (rep_meta report), pr_Name (rs_PolicyRef (rep_Spec report))) w
      = (Inr policy, w1)"
    and "ps_Falco (pol_Spec policy) = Some falco" "obs_RuleRef (fal_Observe falco) = None"
  shows "\<exists>msg. falco_report_Reconcile C R report w = (Panic msg, w1)"
  using assms by (simp add: falco_report_Reconcile_def bindA_def callA_def panicA_def retA_def)

definition selector_policy :: Policy where
  "selector_policy = (sample_policy PolicyTypeFalco)\<lparr>pol_Spec := (sample_spec PolicyTypeFalco)
     \<lparr>ps_Falco := Some \<lparr>fal_Observe = \<lparr>obs_RuleRef = None,
        obs_RuleSelector = Some \<lparr>frs_Tags = [''shell''], frs_Priorities = []\<rparr>\<rparr>, fal_Report = None\<rparr>\<rparr>\<rparr>"

lemma falco_selector_policy_panics_sample:
  "falco_Validate selector_policy = None \<and>
   (\<exists>msg w. fst (falco_report_Reconcile mem_client mem_runtime
      (sample_report PolicyTypeFalco ''r1'' ReportPending) w) = Panic msg)"
proof
  show "falco_Validate selector_policy = None" by code_simp
  let ?w = "sample_world PolicyTypeFalco selector_policy" and ?r = "sample_report PolicyTypeFalco ''r1'' ReportPending"
  have "k_get (cl_policies mem_client) (om_namespace (rep_meta ?r), pr_Name (rs_PolicyRef (rep_Spec ?r))) ?w =
      (Inr selector_policy, ?w)"
    by (intro sample_get_policy) (simp add: selector_policy_def sample_policy_def sample_report_def meta_key_def)
  from falco_selector_policy_panics [OF this, of _ mem_runtime]
  have "\<exists>msg. falco_report_Reconcile mem_client mem_runtime ?r ?w = (Panic msg, ?w)"
    by (simp add: selector_policy_def)
  then show "\<exists>msg w. fst (falco_report_Reconcile mem_client mem_runtime ?r w) = Panic msg"
    by (metis fst_conv)
qed

end
