(* ===== verification/LitmusReport.thy ===== *)
theory LitmusReport
  imports ReportHandler SampleCluster
begin

section \<open>The Litmus report handler\<close>

text \<open>
  \<open>internal/report/litmus.go\<close>: the report of a Litmus policy lists its experiments. \<open>reflect.DeepEqual\<close>
  compares the details by their bytes, so the runtime says whether equal documents are equal bytes.
\<close>

definition LitmusAppInfo_json :: "LitmusAppInfo \<Rightarrow> json" where
  "LitmusAppInfo_json a =
     JObj (member_always ''appNamespace'' (JStr (app_AppNamespace a)) @
       member_always ''appLabel'' (JStr (app_AppLabel a)) @
       member_always ''appKind'' (JStr (app_AppKind a)))"

definition LitmusExpectedResult_json :: "LitmusExpectedResult \<Rightarrow> json" where
  "LitmusExpectedResult_json e =
     JObj (member_str_omitempty ''verdict'' (exr_Verdict e) @
       member_ptr_omitempty ''failOnChaosError'' JBool (exr_FailOnChaosError e))"

definition LitmusExperiment_json :: "LitmusExperiment \<Rightarrow> json" where
  "LitmusExperiment_json e =
     JObj (member_always ''name'' (JStr (exp_Name e)) @
       member_always ''experimentRef'' (JStr (exp_ExperimentRef e)) @
       member_str_omitempty ''engineRef'' (exp_EngineRef e) @
       member_str_omitempty ''targetNamespace'' (exp_TargetNamespace e) @
       member_always ''appInfo'' (LitmusAppInfo_json (exp_AppInfo e)) @
       member_str_omitempty ''mode'' (exp_Mode e) @
       member_str_omitempty ''duration'' (exp_Duration e) @
       member_map_omitempty ''parameters'' (exp_Parameters e) @
       member_always ''expectedResult'' (LitmusExpectedResult_json (exp_ExpectedResult e)))"

text \<open>
  A raw field is the document that its bytes hold: that of \<open>reportData\<close> is \<open>report\<close>. The experiments come
  from a decoded policy; \<open>nil\<close> says that the decoder left an empty slice nil, which is written as \<open>null\<close>.
\<close>

definition createLitmusReportDetails :: "util \<Rightarrow> bool \<Rightarrow> LitmusExperiment list \<Rightarrow> json option" where
  "createLitmusReportDetails U nil experiments =
     (let report = JObj (member_always ''message'' (JStr ''Obtained results for policy reconciliation.'') @
        member_always ''experiments''
          (if nil \<and> experiments = [] then JNull else JArr (map LitmusExperiment_json experiments)))
      in case jsonMarshal U report of Inl err \<Rightarrow> None | Inr reportData \<Rightarrow> Some report)"

definition statusEqual :: "'w runtime \<Rightarrow> 'w \<Rightarrow> PolicyReportStatus \<Rightarrow> PolicyReportStatus \<Rightarrow> bool" where
  "statusEqual R w a b \<longleftrightarrow> rst_Phase a = rst_Phase b \<and> rst_Summary a = rst_Summary b \<and>
     rt_same_bytes R w (rst_Details a) (rst_Details b)"

definition litmus_new_status :: "util \<Rightarrow> bool \<Rightarrow> PolicyReport \<Rightarrow> LitmusExperiment list \<Rightarrow> PolicyReportStatus" where
  "litmus_new_status U nil policyReport experiments =
     (let total = (of_nat (length experiments) :: i32) in
      (rep_Status policyReport)
        \<lparr>rst_Summary := \<lparr>sum_Verdict = VerdictPass, sum_TotalChecks = total, sum_Passed = total, sum_Failed = 0\<rparr>,
         rst_Phase := ReportCompleted,
         rst_Details := createLitmusReportDetails U nil experiments\<rparr>)"

definition litmus_report_Reconcile :: "'w client \<Rightarrow> 'w runtime \<Rightarrow> util \<Rightarrow> PolicyReport \<Rightarrow> ('w, unit) act" where
  "litmus_report_Reconcile C R U policyReport =
     bindA (callA (k_get (cl_policies C) (om_namespace (rep_meta policyReport),
         pr_Name (rs_PolicyRef (rep_Spec policyReport))))) (\<lambda>policy.
     bindA (derefA ''policy.Spec.Litmus'' (ps_Litmus (pol_Spec policy))) (\<lambda>litmus.
     bindA (nil_sliceA R) (\<lambda>nil w.
     let newStatus = litmus_new_status U nil policyReport (lit_Experiments litmus) in
     (if \<not> statusEqual R w (rep_Status policyReport) newStatus then
        bindA (callA (k_status_update (cl_reports C) (policyReport\<lparr>rep_Status := newStatus\<rparr>))) (\<lambda>_. retA ())
      else retA ()) w)))"

subsection \<open>The handler behind the interface\<close>

definition litmus_handler ::
  "'w client \<Rightarrow> 'w runtime \<Rightarrow> util \<Rightarrow> 'w clientset \<Rightarrow> (string \<Rightarrow> string) \<Rightarrow> 'w handler" where
  "litmus_handler C R U S E = \<lparr>hd_Reconcile = litmus_report_Reconcile C R U\<rparr>"

lemma litmus_report_Reconcile_cases:
  assumes api: "api_contract U C cl" and run: "litmus_report_Reconcile C R U report w = (res, w')"
  obtains (unread) "cl w' = cl w" "\<And>u. res \<noteq> Ret u"
    | (same) policy litmus nil w1 where
        "c_policies (cl w) (om_namespace (rep_meta report), pr_Name (rs_PolicyRef (rep_Spec report))) = Some policy"
        "ps_Litmus (pol_Spec policy) = Some litmus" "res = Ret ()" "cl w' = cl w"
        "statusEqual R w1 (rep_Status report) (litmus_new_status U nil report (lit_Experiments litmus))"
    | (update) policy litmus nil w1 ans where
        "c_policies (cl w) (om_namespace (rep_meta report), pr_Name (rs_PolicyRef (rep_Spec report))) = Some policy"
        "ps_Litmus (pol_Spec policy) = Some litmus" "cl w1 = cl w"
        "k_status_update (cl_reports C)
          (report\<lparr>rep_Status := litmus_new_status U nil report (lit_Experiments litmus)\<rparr>) w1 = (ans, w')"
        "res = (case ans of Inl e \<Rightarrow> Fail e | Inr _ \<Rightarrow> Ret ())"
proof -
  let ?k = "(om_namespace (rep_meta report), pr_Name (rs_PolicyRef (rep_Spec report)))"
  obtain g w1 where g: "k_get (cl_policies C) ?k w = (g, w1)" by fastforce
  have w1: "cl w1 = cl w" using api_reads_cluster(2) [OF api] g by (rule keeps_callAD)
  show thesis
  proof (cases g)
    case (Inl err)
    with g run w1 show thesis
      by (intro unread) (auto simp: litmus_report_Reconcile_def bindA_def callA_def)
  next
    case (Inr policy)
    have stored: "c_policies (cl w) ?k = Some policy"
      using get_Ret(1) [OF api_contractD(3) [OF api] g [unfolded Inr]] .
    show thesis
    proof (cases "ps_Litmus (pol_Spec policy)")
      case None
      with g Inr run w1 show thesis
        by (intro unread) (auto simp: litmus_report_Reconcile_def bindA_def callA_def panicA_def)
    next
      case (Some litmus)
      let ?new = "litmus_new_status U (rt_nil_slice R w1) report (lit_Experiments litmus)"
      show thesis
      proof (cases "statusEqual R w1 (rep_Status report) ?new")
        case True
        with g Inr run w1 stored Some show thesis
          by (intro same) (auto simp: litmus_report_Reconcile_def bindA_def callA_def retA_def nil_sliceA_def Let_def)
      next
        case False
        obtain ans w2 where upd: "k_status_update (cl_reports C) (report\<lparr>rep_Status := ?new\<rparr>) w1 = (ans, w2)"
          by fastforce
        with g Inr run Some False have "res = (case ans of Inl e \<Rightarrow> Fail e | Inr _ \<Rightarrow> Ret ())" "w2 = w'"
          by (auto simp: litmus_report_Reconcile_def bindA_def callA_def retA_def nil_sliceA_def Let_def split: sum.splits)
        with upd stored Some w1 show thesis by (intro update) auto
      qed
    qed
  qed
qed

interpretation litmus_handler_iface: report_handler litmus_handler
proof unfold_locales
  fix C :: "'a client" and R U S E and cl :: "'a \<Rightarrow> cluster" and r :: PolicyReport
  assume api: "api_contract U C cl"
  show "keeps (\<lambda>w. all_but_status (meta_key (rep_meta r)) (cl w)) (hd_Reconcile (litmus_handler C R U S E) r)"
    unfolding keeps_def
  proof (intro allI)
    fix w
    obtain res w' where run: "litmus_report_Reconcile C R U r w = (res, w')" by fastforce
    with api show "all_but_status (meta_key (rep_meta r)) (cl (snd (hd_Reconcile (litmus_handler C R U S E) r w))) =
        all_but_status (meta_key (rep_meta r)) (cl w)"
    proof (rule litmus_report_Reconcile_cases)
      fix litmus nil w1 ans
      assume w1: "cl w1 = cl w" and upd: "k_status_update (cl_reports C)
          (r\<lparr>rep_Status := litmus_new_status U nil r (lit_Experiments litmus)\<rparr>) w1 = (ans, w')"
      have "all_but_status (meta_key (rep_meta r)) (cl w') = all_but_status (meta_key (rep_meta r)) (cl w1)"
        using keeps_callAD [OF keeps_report_status [OF api] upd] by simp
      with w1 run show ?thesis by (simp add: litmus_handler_def)
    qed (simp_all add: litmus_handler_def run)
  qed
next
  fix C :: "'a client" and R U S E and cl :: "'a \<Rightarrow> cluster" and r w u w'
  assume api: "api_contract U C cl" and stored: "c_reports (cl w) (meta_key (rep_meta r)) = Some r"
    and "hd_Reconcile (litmus_handler C R U S E) r w = (Ret u, w')"
  then have "litmus_report_Reconcile C R U r w = (Ret u, w')" by (simp add: litmus_handler_def)
  with api show "report_completed (meta_key (rep_meta r)) (cl w')"
  proof (cases rule: litmus_report_Reconcile_cases)
    case same
    with stored show ?thesis
      by (auto simp: report_completed_def statusEqual_def litmus_new_status_def Let_def)
  next
    case (update policy litmus nil w1 ans)
    then obtain x where "k_status_update (cl_reports C)
        (r\<lparr>rep_Status := litmus_new_status U nil r (lit_Experiments litmus)\<rparr>) w1 = (Inr x, w')"
      by (auto split: sum.splits)
    from report_status_Ret [OF api this] show ?thesis
      by (auto simp: report_completed_def litmus_new_status_def Let_def)
  qed simp
next
  fix C :: "'a client" and R U S E and cl :: "'a \<Rightarrow> cluster" and r :: PolicyReport
  assume api: "api_contract U C cl"
  have wf: "wf_report_status (litmus_new_status U nil r exps)" for nil exps
    by (simp add: wf_report_status_def litmus_new_status_def createLitmusReportDetails_def json_object_def
        json_codecD(1) [OF util_contractD(7) [OF api_contractD(1) [OF api]]] Let_def)
  show "preserves (\<lambda>w. wf_reports (cl w)) (hd_Reconcile (litmus_handler C R U S E) r)"
    by (simp add: litmus_handler_def litmus_report_Reconcile_def Let_def)
      (intro preserves_intros preserves_report_status [OF api] preserves_wf_of_reads keeps_derefA
        api_reads_cluster [OF api]; simp add: wf)
qed

lemma litmus_handler_outside:
  assumes "kind_frame (cl_policies C) g" "kind_frame (cl_reports C) g"
  shows "keeps g (hd_Reconcile (litmus_handler C R U S E) r)"
  using assms
  by (simp add: litmus_handler_def litmus_report_Reconcile_def Let_def)
    (intro keeps_intros kind_frame_keeps)

lemma litmus_new_status_summary:
  "sum_Verdict (rst_Summary (litmus_new_status U nil report exps)) = VerdictPass"
  "sum_Failed (rst_Summary (litmus_new_status U nil report exps)) = 0"
  "sum_Passed (rst_Summary (litmus_new_status U nil report exps)) = of_nat (length exps)"
  by (simp_all add: litmus_new_status_def Let_def)

subsection \<open>Properties\<close>

text \<open>
  C40: A completed Litmus report always passes: when the handler returns without an error on the stored
  report, its status is Completed with verdict Pass, as many passed checks as the policy has
  experiments and none failed; no chaos result is read. The details list the experiments (\<open>null\<close> when an
  empty slice of them is nil).
\<close>

theorem litmus_report_always_passes:
  assumes "api_contract U C cl" "runtime_contract R"
    and "c_reports (cl w) (meta_key (rep_meta report)) = Some report"
    and "litmus_report_Reconcile C R U report w = (Ret u, w')"
  shows "\<exists>policy litmus nil r.
    c_policies (cl w) (om_namespace (rep_meta report), pr_Name (rs_PolicyRef (rep_Spec report))) = Some policy \<and>
    ps_Litmus (pol_Spec policy) = Some litmus \<and>
    c_reports (cl w') (meta_key (rep_meta report)) = Some r \<and>
    rep_Status r = litmus_new_status U nil report (lit_Experiments litmus) \<and>
    sum_Verdict (rst_Summary (rep_Status r)) = VerdictPass \<and> sum_Failed (rst_Summary (rep_Status r)) = 0 \<and>
    sum_Passed (rst_Summary (rep_Status r)) = of_nat (length (lit_Experiments litmus))"
  using assms(1,4)
proof (cases rule: litmus_report_Reconcile_cases)
  case (same policy litmus nil w1)
  then have "rep_Status report = litmus_new_status U nil report (lit_Experiments litmus)"
    using runtime_contractD(4) [OF assms(2)]
    by (intro PolicyReportStatus.equality) (auto simp: statusEqual_def)
  with same assms(3) show ?thesis
    by (intro exI [of _ policy] exI [of _ litmus] exI [of _ nil] exI [of _ report])
      (metis litmus_new_status_summary)
next
  case (update policy litmus nil w1 ans)
  then obtain x where "k_status_update (cl_reports C)
      (report\<lparr>rep_Status := litmus_new_status U nil report (lit_Experiments litmus)\<rparr>) w1 = (Inr x, w')"
    by (auto split: sum.splits)
  from report_status_Ret [OF assms(1) this] update(1,2) show ?thesis
    by (auto simp: litmus_new_status_summary)
qed simp

lemma litmus_report_always_passes_witness:
  "let run = litmus_report_Reconcile mem_client mem_runtime mem_util (sample_report PolicyTypeLitmus ''r1'' ReportPending)
       (report_world PolicyTypeLitmus ReportPending True) in
   fst run = Ret () \<and> (\<exists>r. c_reports (mem_cluster (snd run)) (''team'', ''r1'') = Some r \<and>
     sum_Verdict (rst_Summary (rep_Status r)) = VerdictPass)"
proof -
  let ?r = "sample_report PolicyTypeLitmus ''r1'' ReportPending" and ?w = "report_world PolicyTypeLitmus ReportPending True"
  let ?run = "litmus_report_Reconcile mem_client mem_runtime mem_util ?r ?w"
  have ok: "fst ?run = Ret ()" by code_simp
  have stored: "c_reports (mem_cluster ?w) (meta_key (rep_meta ?r)) = Some ?r"
    by (simp add: report_world_def mem_lookup_def)
  from ok have "?run = (Ret (), snd ?run)" by (metis prod.collapse)
  from litmus_report_always_passes [where cl = mem_cluster and report = ?r, OF mem_api_contract mem_runtime_contract
      stored this] ok
  show ?thesis by (auto simp: sample_report_def meta_key_def Let_def)
qed

end
