(* ===== verification/HelmManager.thy ===== *)
theory HelmManager
  imports Returns GoJson
begin

section \<open>The Helm manager\<close>

text \<open>
  \<open>internal/client/helm/manager.go\<close>. The Helm library and the file system are the record \<open>helm\<close>: the
  actions take the configuration they were made with and the fields the code sets on them. Values are
  maps of JSON values; a list of members stands for a map, its order is the order in which \<open>range\<close> visits it.
\<close>

record helm_settings =
  hs_Namespace :: string
  hs_RepositoryConfig :: string
  hs_RepositoryCache :: string

record helm_config =
  hc_Namespace :: string
  hc_Driver :: string

record helm_action =
  ha_ReleaseName :: string
  ha_Namespace :: string
  ha_Wait :: bool
  ha_Timeout :: int

type_synonym repo_file = "(string \<times> string) list"

record 'w helm =
  os_MkdirAll :: "string \<Rightarrow> ('w, unit) ext"
  os_Stat :: "string \<Rightarrow> ('w, unit) ext"
  os_IsNotExist :: "go_error \<Rightarrow> bool"
  os_Create :: "string \<Rightarrow> ('w, unit) ext"
  hl_LoadFile :: "string \<Rightarrow> ('w, repo_file) ext"
  hl_repo_Has :: "repo_file \<Rightarrow> string \<Rightarrow> bool"
  hl_repo_Update :: "repo_file \<Rightarrow> string \<times> string \<Rightarrow> repo_file"
  hl_repo_Get :: "repo_file \<Rightarrow> string \<Rightarrow> (string \<times> string) option"
  hl_WriteFile :: "repo_file \<Rightarrow> string \<Rightarrow> ('w, unit) ext"
  hl_NewChartRepository :: "(string \<times> string) option \<Rightarrow> helm_settings \<Rightarrow> ('w, nat) ext"
  hl_DownloadIndexFile :: "nat \<Rightarrow> string \<Rightarrow> ('w, unit) ext"
  hl_Init :: "helm_settings \<Rightarrow> helm_config \<Rightarrow> ('w, unit) ext"
  hl_Get :: "helm_config \<Rightarrow> string \<Rightarrow> ('w, unit) ext"
  hl_LocateChart :: "string \<Rightarrow> helm_settings \<Rightarrow> ('w, string) ext"
  hl_Load :: "string \<Rightarrow> ('w, nat) ext"
  hl_Install :: "helm_config \<Rightarrow> helm_action \<Rightarrow> nat \<Rightarrow> members option \<Rightarrow> ('w, unit) ext"
  hl_Upgrade :: "helm_config \<Rightarrow> helm_action \<Rightarrow> nat \<Rightarrow> members option \<Rightarrow> ('w, unit) ext"
  hl_Uninstall :: "helm_config \<Rightarrow> helm_action \<Rightarrow> ('w, unit) ext"

record Manager =
  mg_Namespace :: string
  mg_RepoName :: string
  mg_RepoURL :: string
  mg_ChartRef :: string
  mg_ReleaseName :: string
  mg_Values :: "members option"

definition minute :: int where
  "minute = 60000000000"

subsection \<open>Managers and their values\<close>

definition NewHelmAdminManager :: "string \<Rightarrow> string \<Rightarrow> string \<Rightarrow> string \<Rightarrow> string \<Rightarrow> Manager" where
  "NewHelmAdminManager namespace repoName repoUrl chartRef releaseName =
     \<lparr>mg_Namespace = namespace, mg_RepoName = repoName, mg_RepoURL = repoUrl, mg_ChartRef = chartRef,
      mg_ReleaseName = releaseName, mg_Values = None\<rparr>"

definition NewHelmDeleteManager :: "string \<Rightarrow> string \<Rightarrow> Manager" where
  "NewHelmDeleteManager namespace releaseName =
     \<lparr>mg_Namespace = namespace, mg_RepoName = '''', mg_RepoURL = '''', mg_ChartRef = '''',
      mg_ReleaseName = releaseName, mg_Values = None\<rparr>"

definition SetValues :: "members option \<Rightarrow> Manager \<Rightarrow> Manager" where
  "SetValues values m = m\<lparr>mg_Values := values\<rparr>"

function deepMerge :: "members \<Rightarrow> members \<Rightarrow> members" where
  "deepMerge dst [] = dst"
| "deepMerge dst ((key, srcVal) # src) =
     deepMerge
       (case map_of dst key of
          Some dstVal \<Rightarrow>
            (case (dstVal, srcVal) of
               (JObj dstMap, JObj srcMap) \<Rightarrow> put_key key (JObj (deepMerge dstMap srcMap)) dst
             | _ \<Rightarrow> put_key key srcVal dst)
        | None \<Rightarrow> put_key key srcVal dst)
       src"
  by pat_completeness auto
termination
  by (relation "measure (\<lambda>(dst, src). size_list (size_prod (\<lambda>_. 0) size) src)") auto

definition MergeValues :: "members \<Rightarrow> Manager \<Rightarrow> Manager" where
  "MergeValues user m =
     (let values = (case mg_Values m of None \<Rightarrow> [] | Some v \<Rightarrow> v)
      in m\<lparr>mg_Values := Some (deepMerge values user)\<rparr>)"

subsection \<open>Actions\<close>

definition helm_settings_of :: "Manager \<Rightarrow> helm_settings" where
  "helm_settings_of i = \<lparr>hs_Namespace = mg_Namespace i, hs_RepositoryConfig = ''/tmp/helm/repositories.yaml'',
     hs_RepositoryCache = ''/tmp/helm/cache''\<rparr>"

definition manager_settings :: "'w helm \<Rightarrow> Manager \<Rightarrow> ('w, helm_settings) act" where
  "manager_settings H i =
     (let settings = helm_settings_of i in
      bindA (callA (os_MkdirAll H (hs_RepositoryCache settings))) (\<lambda>_.
      tryA (callA (os_Stat H (hs_RepositoryConfig settings)))
        (\<lambda>err. if os_IsNotExist H err then
                 bindA (callA (os_Create H (hs_RepositoryConfig settings))) (\<lambda>_. retA settings)
               else retA settings)
        (\<lambda>_. retA settings)))"

definition actionConfig :: "'w helm \<Rightarrow> Manager \<Rightarrow> helm_settings \<Rightarrow> ('w, helm_config) act" where
  "actionConfig H i settings =
     (let cfg = \<lparr>hc_Namespace = mg_Namespace i, hc_Driver = ''secret''\<rparr> in
      bindA (callA (hl_Init H settings cfg)) (\<lambda>_. retA cfg))"

definition ensureRepo :: "'w helm \<Rightarrow> Manager \<Rightarrow> helm_settings \<Rightarrow> ('w, unit) act" where
  "ensureRepo H i settings =
     bindA (callA (hl_LoadFile H (hs_RepositoryConfig settings))) (\<lambda>repoFile.
     bindA (if \<not> hl_repo_Has H repoFile (mg_RepoName i) then
              let repoFile = hl_repo_Update H repoFile (mg_RepoName i, mg_RepoURL i) in
              bindA (callA (hl_WriteFile H repoFile (hs_RepositoryConfig settings))) (\<lambda>_. retA repoFile)
            else retA repoFile) (\<lambda>repoFile.
     let entry = hl_repo_Get H repoFile (mg_RepoName i) in
     bindA (callA (hl_NewChartRepository H entry settings)) (\<lambda>repo.
     callA (hl_DownloadIndexFile H repo (hs_RepositoryCache settings)))))"

definition helm_install_action :: "Manager \<Rightarrow> helm_action" where
  "helm_install_action i = \<lparr>ha_ReleaseName = mg_ReleaseName i, ha_Namespace = mg_Namespace i,
     ha_Wait = True, ha_Timeout = 5 * minute\<rparr>"

definition InstallOrUpgrade :: "'w helm \<Rightarrow> Manager \<Rightarrow> ('w, unit) act" where
  "InstallOrUpgrade H i =
     bindA (manager_settings H i) (\<lambda>settings.
     bindA (ensureRepo H i settings) (\<lambda>_.
     bindA (actionConfig H i settings) (\<lambda>cfg.
     tryA (callA (hl_Get H cfg (mg_ReleaseName i)))
       (\<lambda>_.
         bindA (callA (hl_LocateChart H (mg_ChartRef i) settings)) (\<lambda>chartPath.
         bindA (callA (hl_Load H chartPath)) (\<lambda>chart.
         callA (hl_Install H cfg (helm_install_action i) chart (mg_Values i)))))
       (\<lambda>_.
         bindA (callA (hl_LocateChart H (mg_ChartRef i) settings)) (\<lambda>chartPath.
         bindA (callA (hl_Load H chartPath)) (\<lambda>chart.
         callA (hl_Upgrade H cfg (helm_install_action i) chart (mg_Values i))))))))"

definition Uninstall :: "'w helm \<Rightarrow> Manager \<Rightarrow> ('w, unit) act" where
  "Uninstall H i =
     bindA (manager_settings H i) (\<lambda>settings.
     bindA (actionConfig H i settings) (\<lambda>cfg.
     tryA (callA (hl_Uninstall H cfg \<lparr>ha_ReleaseName = mg_ReleaseName i, ha_Namespace = '''',
         ha_Wait = False, ha_Timeout = 5 * minute\<rparr>))
       (\<lambda>err.
         if has_substring (error_text err) ''release: not found'' \<or>
            has_substring (error_text err) ''Release not loaded'' then retA ()
         else failA err)
       (\<lambda>_. retA ())))"

definition IsReleaseNotFound :: "go_error option \<Rightarrow> bool" where
  "IsReleaseNotFound err =
     (case err of None \<Rightarrow> False | Some e \<Rightarrow> has_substring (error_text e) ''release: not found'')"

subsection \<open>Merging\<close>

text \<open>What the merged map holds under a key, in terms of what the two maps hold under it.\<close>

definition merge_entry :: "json option \<Rightarrow> json option \<Rightarrow> json option" where
  "merge_entry d s =
     (case s of
        None \<Rightarrow> d
      | Some sv \<Rightarrow>
          (case (d, sv) of (Some (JObj dm), JObj sm) \<Rightarrow> Some (JObj (deepMerge dm sm)) | _ \<Rightarrow> Some sv))"

lemma deepMerge_step:
  "map_of (case map_of dst key of
        Some dstVal \<Rightarrow>
          (case (dstVal, srcVal) of
             (JObj dstMap, JObj srcMap) \<Rightarrow> put_key key (JObj (deepMerge dstMap srcMap)) dst
           | _ \<Rightarrow> put_key key srcVal dst)
      | None \<Rightarrow> put_key key srcVal dst) = (map_of dst)(key := merge_entry (map_of dst key) (Some srcVal))"
  by (auto simp: merge_entry_def map_of_put_key split: option.splits json.splits)

lemma map_of_deepMerge:
  assumes "distinct (map fst src)"
  shows "map_of (deepMerge dst src) k = merge_entry (map_of dst k) (map_of src k)"
  using assms
proof (induction src arbitrary: dst)
  case (Cons kv src)
  obtain key srcVal where kv: "kv = (key, srcVal)" by (cases kv)
  then have "map_of src key = None" using Cons.prems by (simp add: map_of_eq_None_iff)
  then show ?case using Cons kv by (auto simp: deepMerge_step merge_entry_def [where s = None])
qed (simp add: merge_entry_def)

lemma distinct_deepMerge: "distinct (map fst dst) \<Longrightarrow> distinct (map fst (deepMerge dst src))"
  by (induction dst src rule: deepMerge.induct)
    (auto simp: distinct_put_key split: option.splits json.splits)

text \<open>The value a document holds under a path of keys.\<close>

fun value_at :: "string list \<Rightarrow> json \<Rightarrow> json option" where
  "value_at [] v = Some v"
| "value_at (k # p) (JObj m) = (case map_of m k of None \<Rightarrow> None | Some v \<Rightarrow> value_at p v)"
| "value_at (k # p) v = None"

text \<open>The user's map says nothing about a path: neither there nor, except for objects, above.\<close>

fun silent_at :: "string list \<Rightarrow> members \<Rightarrow> bool" where
  "silent_at [] s = False"
| "silent_at (k # p) s = (case map_of s k of None \<Rightarrow> True | Some (JObj s') \<Rightarrow> silent_at p s' | Some v \<Rightarrow> False)"

definition is_object :: "json \<Rightarrow> bool" where
  "is_object v = (case v of JObj m \<Rightarrow> True | _ \<Rightarrow> False)"

lemma maps_only_member: "maps_only (JObj m) \<Longrightarrow> map_of m k = Some v \<Longrightarrow> maps_only v"
  by (force dest: map_of_SomeD)

lemma silent_value_at: "silent_at p s \<Longrightarrow> value_at p (JObj s) = None"
  by (induction p s rule: silent_at.induct) (auto split: option.splits json.splits)

lemma deepMerge_user_wins:
  assumes "maps_only (JObj s)" "value_at p (JObj s) = Some v" "\<not> is_object v"
  shows "value_at p (JObj (deepMerge d s)) = Some v"
  using assms
proof (induction p arbitrary: d s)
  case Nil
  then show ?case by (auto simp: is_object_def)
next
  case (Cons k p)
  then obtain sv where sv: "map_of s k = Some sv" "value_at p sv = Some v" by (auto split: option.splits)
  have entry: "map_of (deepMerge d s) k = merge_entry (map_of d k) (Some sv)"
    using Cons.prems(1) sv(1) by (simp add: map_of_deepMerge)
  show ?case
  proof (cases "\<exists>sm dm. sv = JObj sm \<and> map_of d k = Some (JObj dm)")
    case True
    then obtain sm dm where m: "sv = JObj sm" "map_of d k = Some (JObj dm)" by blast
    from maps_only_member [OF Cons.prems(1) sv(1)] sv(2) Cons.IH [of sm dm] Cons.prems(3) m
    show ?thesis by (simp add: entry merge_entry_def)
  next
    case False
    then have "merge_entry (map_of d k) (Some sv) = Some sv"
      by (auto simp: merge_entry_def split: option.splits json.splits)
    with sv(2) show ?thesis by (simp add: entry)
  qed
qed

lemma deepMerge_keeps_defaults:
  assumes "maps_only (JObj s)" "silent_at p s"
  shows "value_at p (JObj (deepMerge d s)) = value_at p (JObj d)"
  using assms
proof (induction p arbitrary: d s)
  case (Cons k p)
  have entry: "map_of (deepMerge d s) k = merge_entry (map_of d k) (map_of s k)"
    using Cons.prems(1) by (simp add: map_of_deepMerge)
  show ?case
  proof (cases "map_of s k")
    case None
    then show ?thesis by (simp add: entry merge_entry_def)
  next
    case (Some sv)
    with Cons.prems(2) obtain sm where sm: "sv = JObj sm" "silent_at p sm" by (auto split: json.splits)
    then obtain k' p' where p: "p = k' # p'" by (cases p) auto
    show ?thesis
    proof (cases "\<exists>dm. map_of d k = Some (JObj dm)")
      case True
      then obtain dm where dm: "map_of d k = Some (JObj dm)" by blast
      from maps_only_member [OF Cons.prems(1) Some] Cons.IH [of sm dm] sm dm Some
      show ?thesis by (simp add: entry merge_entry_def)
    next
      case False
      then have m: "merge_entry (map_of d k) (map_of s k) = Some (JObj sm)"
        using Some sm by (auto simp: merge_entry_def split: option.splits json.splits)
      have "value_at (k # p) (JObj d) = None"
        using False p by (auto split: option.splits) (metis json.exhaust value_at.simps(3-7))
      then show ?thesis using silent_value_at [OF sm(2)] by (simp add: entry m)
    qed
  qed
qed simp

lemma deepMerge_order:
  assumes "mset user' = mset user" "distinct (map fst user)"
  shows "map_of (deepMerge defaults user') = map_of (deepMerge defaults user)"
proof
  fix k
  from assms have d: "distinct (map fst user')" by (metis mset_eq_imp_distinct_iff mset_map)
  have "map_of user' k = map_of user k"
    using map_of_eq_Some_iff [OF d, of k] map_of_eq_Some_iff [OF assms(2), of k] mset_eq_setD [OF assms(1)]
    by (metis not_Some_eq)
  then show "map_of (deepMerge defaults user') k = map_of (deepMerge defaults user) k"
    by (simp add: map_of_deepMerge [OF d] map_of_deepMerge [OF assms(2)])
qed

subsection \<open>Releases\<close>

text \<open>
  What the operator relies on: \<open>rels\<close> observes the installed releases by namespace and name. Only
  installing and uninstalling change them, and an error of these leaves the outcome open. Helm names a
  release it does not have by \<open>release: not found\<close>; it wraps whatever keeps it from reading a release,
  this error among others, in \<open>Release not loaded\<close>, so that text alone says nothing of the release.
  \<open>lost\<close> is a history of such answers: the releases for which an uninstallation was answered by a
  \<open>Release not loaded\<close> that does not say \<open>release: not found\<close>.
\<close>

definition helm_prepares :: "'w helm \<Rightarrow> ('w \<Rightarrow> 'g) \<Rightarrow> bool" where
  "helm_prepares H g \<longleftrightarrow>
     (\<forall>p. keeps g (callA (os_MkdirAll H p))) \<and> (\<forall>p. keeps g (callA (os_Stat H p))) \<and>
     (\<forall>p. keeps g (callA (os_Create H p))) \<and> (\<forall>p. keeps g (callA (hl_LoadFile H p))) \<and>
     (\<forall>f p. keeps g (callA (hl_WriteFile H f p))) \<and> (\<forall>e s. keeps g (callA (hl_NewChartRepository H e s))) \<and>
     (\<forall>r p. keeps g (callA (hl_DownloadIndexFile H r p))) \<and> (\<forall>s c. keeps g (callA (hl_Init H s c))) \<and>
     (\<forall>c n. keeps g (callA (hl_Get H c n))) \<and> (\<forall>n s. keeps g (callA (hl_LocateChart H n s))) \<and>
     (\<forall>p. keeps g (callA (hl_Load H p)))"

lemma helm_preparesD:
  assumes "helm_prepares H g"
  shows "keeps g (callA (os_MkdirAll H p))" "keeps g (callA (os_Stat H p))"
    "keeps g (callA (os_Create H p))" "keeps g (callA (hl_LoadFile H p))"
    "keeps g (callA (hl_WriteFile H f p))" "keeps g (callA (hl_NewChartRepository H e s))"
    "keeps g (callA (hl_DownloadIndexFile H r p))" "keeps g (callA (hl_Init H s c))"
    "keeps g (callA (hl_Get H c n))" "keeps g (callA (hl_LocateChart H n s))" "keeps g (callA (hl_Load H p))"
  using assms by (simp_all add: helm_prepares_def)

definition helm_quiet :: "'w helm \<Rightarrow> ('w \<Rightarrow> 'g) \<Rightarrow> bool" where
  "helm_quiet H g \<longleftrightarrow> helm_prepares H g \<and>
     (\<forall>c a ch v. keeps g (callA (hl_Install H c a ch v))) \<and>
     (\<forall>c a ch v. keeps g (callA (hl_Upgrade H c a ch v))) \<and> (\<forall>c a. keeps g (callA (hl_Uninstall H c a)))"

definition install_moves :: "string \<times> string \<Rightarrow> (string \<times> string) set \<Rightarrow> (string \<times> string) set \<Rightarrow> bool" where
  "install_moves x s s' \<longleftrightarrow> s \<subseteq> s' \<and> s' \<subseteq> insert x s"

definition uninstall_moves :: "string \<times> string \<Rightarrow> (string \<times> string) set \<Rightarrow> (string \<times> string) set \<Rightarrow> bool" where
  "uninstall_moves x s s' \<longleftrightarrow> s - {x} \<subseteq> s' \<and> s' \<subseteq> s"

lemma moves_preorders:
  "reflp (install_moves x)" "transp (install_moves x)" "reflp (uninstall_moves x)" "transp (uninstall_moves x)"
  by (auto simp: install_moves_def uninstall_moves_def reflp_def transp_def)

text \<open>
  The answers the code takes for a missing release, the one among them by which Helm says so, and the
  other one, which leaves open whether the release is there.
\<close>

definition no_such_release :: "go_error \<Rightarrow> bool" where
  "no_such_release e \<longleftrightarrow> has_substring (error_text e) ''release: not found'' \<or>
     has_substring (error_text e) ''Release not loaded''"

definition release_not_found :: "go_error \<Rightarrow> bool" where
  "release_not_found e \<longleftrightarrow> has_substring (error_text e) ''release: not found''"

definition unloaded :: "go_error \<Rightarrow> bool" where
  "unloaded e \<longleftrightarrow> has_substring (error_text e) ''Release not loaded'' \<and> \<not> release_not_found e"

lemma no_such_release_iff: "no_such_release e \<longleftrightarrow> release_not_found e \<or> unloaded e"
  by (auto simp: no_such_release_def release_not_found_def unloaded_def)

definition get_release_law where
  "get_release_law H rels \<longleftrightarrow> (\<forall>c n w u w'. hl_Get H c n w = (Inr u, w') \<longrightarrow> (hc_Namespace c, n) \<in> rels w)"

definition install_law where
  "install_law H rels \<longleftrightarrow>
     (\<forall>c a ch v w r w'. hl_Install H c a ch v w = (r, w') \<longrightarrow>
        install_moves (ha_Namespace a, ha_ReleaseName a) (rels w) (rels w') \<and>
        (\<forall>u. r = Inr u \<longrightarrow> (ha_Namespace a, ha_ReleaseName a) \<in> rels w')) \<and>
     (\<forall>c a ch v. keeps rels (callA (hl_Upgrade H c a ch v)))"

definition uninstall_law where
  "uninstall_law H rels lost \<longleftrightarrow> (\<forall>c a w r w'. hl_Uninstall H c a w = (r, w') \<longrightarrow>
     uninstall_moves (hc_Namespace c, ha_ReleaseName a) (rels w) (rels w') \<and>
     ((\<exists>u. r = Inr u) \<or> (\<exists>e. r = Inl e \<and> release_not_found e) \<longrightarrow>
        (hc_Namespace c, ha_ReleaseName a) \<notin> rels w') \<and>
     lost w' = lost w @ (if \<exists>e. r = Inl e \<and> unloaded e then [(hc_Namespace c, ha_ReleaseName a)] else []))"

text \<open>The history is written by uninstallations alone.\<close>

definition lost_frame where
  "lost_frame H lost \<longleftrightarrow> helm_prepares H lost \<and> (\<forall>c a ch v. keeps lost (callA (hl_Install H c a ch v))) \<and>
     (\<forall>c a ch v. keeps lost (callA (hl_Upgrade H c a ch v)))"

text \<open>The file system and the configuration never answer that a release is missing.\<close>

definition setup_law where
  "setup_law H \<longleftrightarrow>
     (\<forall>p w e w'. os_MkdirAll H p w = (Inl e, w') \<longrightarrow> \<not> no_such_release e) \<and>
     (\<forall>p w e w'. os_Create H p w = (Inl e, w') \<longrightarrow> \<not> no_such_release e) \<and>
     (\<forall>s c w e w'. hl_Init H s c w = (Inl e, w') \<longrightarrow> \<not> no_such_release e)"

lemma setup_lawD:
  assumes "setup_law H"
  shows "os_MkdirAll H p w = (Inl e, w') \<Longrightarrow> \<not> no_such_release e"
    "os_Create H p w = (Inl e, w') \<Longrightarrow> \<not> no_such_release e"
    "hl_Init H s c w = (Inl e, w') \<Longrightarrow> \<not> no_such_release e"
  using assms unfolding setup_law_def by blast+

definition helm_contract ::
  "'w helm \<Rightarrow> ('w \<Rightarrow> (string \<times> string) set) \<Rightarrow> ('w \<Rightarrow> (string \<times> string) list) \<Rightarrow> bool" where
  "helm_contract H rels lost \<longleftrightarrow> helm_prepares H rels \<and> get_release_law H rels \<and> install_law H rels \<and>
     uninstall_law H rels lost \<and> setup_law H \<and> lost_frame H lost"

lemma install_lawD:
  assumes "install_law H rels" "hl_Install H c a ch v w = (r, w')"
  shows "install_moves (ha_Namespace a, ha_ReleaseName a) (rels w) (rels w')"
    "r = Inr u \<Longrightarrow> (ha_Namespace a, ha_ReleaseName a) \<in> rels w'"
  using assms unfolding install_law_def by blast+

lemma uninstall_lawD:
  assumes "uninstall_law H rels lost" "hl_Uninstall H c a w = (r, w')"
  shows "uninstall_moves (hc_Namespace c, ha_ReleaseName a) (rels w) (rels w')"
    "(\<exists>u. r = Inr u) \<or> (\<exists>e. r = Inl e \<and> release_not_found e) \<Longrightarrow> (hc_Namespace c, ha_ReleaseName a) \<notin> rels w'"
    "lost w' = lost w @ (if \<exists>e. r = Inl e \<and> unloaded e then [(hc_Namespace c, ha_ReleaseName a)] else [])"
  using assms unfolding uninstall_law_def by blast+

lemma helm_contractD:
  assumes "helm_contract H rels lost"
  shows "helm_prepares H rels" "get_release_law H rels" "install_law H rels" "uninstall_law H rels lost" "setup_law H"
    "lost_frame H lost"
  using assms by (simp_all add: helm_contract_def)

lemma keeps_manager_settings: "helm_prepares H g \<Longrightarrow> keeps g (manager_settings H i)"
  unfolding manager_settings_def Let_def by (intro keeps_intros helm_preparesD)

lemma keeps_ensureRepo: "helm_prepares H g \<Longrightarrow> keeps g (ensureRepo H i settings)"
  unfolding ensureRepo_def Let_def by (intro keeps_intros helm_preparesD)

lemma keeps_actionConfig: "helm_prepares H g \<Longrightarrow> keeps g (actionConfig H i settings)"
  unfolding actionConfig_def Let_def by (intro keeps_intros helm_preparesD)

lemma keeps_helm_actions:
  assumes "helm_quiet H g"
  shows "keeps g (InstallOrUpgrade H i)" "keeps g (Uninstall H i)"
proof -
  have prep: "helm_prepares H g" using assms by (simp add: helm_quiet_def)
  note ops = keeps_manager_settings [OF prep] keeps_ensureRepo [OF prep] keeps_actionConfig [OF prep]
    helm_preparesD [OF prep]
  from assms have run: "keeps g (callA (hl_Install H c a ch v))" "keeps g (callA (hl_Upgrade H c a ch v))"
    "keeps g (callA (hl_Uninstall H c a))" for c a ch v by (simp_all add: helm_quiet_def)
  show "keeps g (InstallOrUpgrade H i)" "keeps g (Uninstall H i)"
    unfolding InstallOrUpgrade_def Uninstall_def by (intro keeps_intros ops run)+
qed

lemma actionConfig_Ret:
  "actionConfig H i settings w = (Ret cfg, w') \<Longrightarrow> hc_Namespace cfg = mg_Namespace i"
  by (auto simp: actionConfig_def Let_def act_simps)

text \<open>Whatever happens to an installation, no other release is touched.\<close>

lemma InstallOrUpgrade_moves:
  assumes "helm_contract H rels lost"
  shows "moves (install_moves (mg_Namespace i, mg_ReleaseName i)) rels (InstallOrUpgrade H i)"
proof -
  note prep = helm_contractD(1) [OF assms]
  note keep = moves_of_keeps [OF moves_preorders(1)] and trans = moves_preorders(2)
  have run: "moves (install_moves (mg_Namespace i, mg_ReleaseName i)) rels
      (callA (hl_Install H c (helm_install_action i) ch v))" for c ch v
    using install_lawD(1) [OF helm_contractD(3) [OF assms], of c "helm_install_action i" ch v]
    by (intro moves_callA) (simp add: helm_install_action_def)
  have upgrade: "keeps rels (callA (hl_Upgrade H c a ch v))" for c a ch v
    using helm_contractD(3) [OF assms] by (simp add: install_law_def)
  show ?thesis
    unfolding InstallOrUpgrade_def
    by (intro moves_bindA moves_tryA trans run keep [OF upgrade] keep [OF keeps_manager_settings [OF prep]]
        keep [OF keeps_ensureRepo [OF prep]] keep [OF keeps_actionConfig [OF prep]] keep [OF helm_preparesD(9) [OF prep]]
        keep [OF helm_preparesD(10) [OF prep]] keep [OF helm_preparesD(11) [OF prep]])
qed

lemma Uninstall_moves:
  assumes "helm_contract H rels lost"
  shows "moves (uninstall_moves (mg_Namespace i, mg_ReleaseName i)) rels (Uninstall H i)"
proof -
  note prep = helm_contractD(1) [OF assms]
  note keep = moves_of_keeps [OF moves_preorders(3)] and trans = moves_preorders(4)
  let ?P = "uninstall_moves (mg_Namespace i, mg_ReleaseName i)"
  have run: "moves ?P rels (callA (hl_Uninstall H c a))"
    if "hc_Namespace c = mg_Namespace i" "ha_ReleaseName a = mg_ReleaseName i" for c a
    using uninstall_lawD(1) [OF helm_contractD(4) [OF assms], of c a] that by (intro moves_callA) simp
  have act: "actionConfig H i s = bindA (callA (hl_Init H s \<lparr>hc_Namespace = mg_Namespace i, hc_Driver = ''secret''\<rparr>))
      (\<lambda>_. retA \<lparr>hc_Namespace = mg_Namespace i, hc_Driver = ''secret''\<rparr>)" for s
    by (simp add: actionConfig_def Let_def)
  show ?thesis
    unfolding Uninstall_def act bindA_assoc bindA_retA
    by (intro moves_bindA moves_tryA trans run keep [OF keeps_manager_settings [OF prep]]
        keep [OF helm_preparesD(8) [OF prep]] keep [OF keeps_if] keeps_retA keeps_failA keep [OF keeps_retA]) simp_all
qed

lemma InstallOrUpgrade_Ret:
  assumes "helm_contract H rels lost" "InstallOrUpgrade H i w = (Ret u, w')"
  shows "(mg_Namespace i, mg_ReleaseName i) \<in> rels w'"
proof -
  note prep = helm_contractD(1) [OF assms(1)]
  from assms(2) obtain s w1 w2 cfg w3 where
    cfg: "actionConfig H i s w2 = (Ret cfg, w3)" and
    run: "tryA (callA (hl_Get H cfg (mg_ReleaseName i)))
       (\<lambda>_. bindA (callA (hl_LocateChart H (mg_ChartRef i) s)) (\<lambda>p. bindA (callA (hl_Load H p)) (\<lambda>ch.
         callA (hl_Install H cfg (helm_install_action i) ch (mg_Values i)))))
       (\<lambda>_. bindA (callA (hl_LocateChart H (mg_ChartRef i) s)) (\<lambda>p. bindA (callA (hl_Load H p)) (\<lambda>ch.
         callA (hl_Upgrade H cfg (helm_install_action i) ch (mg_Values i))))) w3 = (Ret u, w')"
    unfolding InstallOrUpgrade_def bindA_Ret by blast
  from run have step: "(\<exists>ch w6. hl_Install H cfg (helm_install_action i) ch (mg_Values i) w6 = (Inr u, w')) \<or>
      (\<exists>v w4 p w5 ch w6. hl_Get H cfg (mg_ReleaseName i) w3 = (Inr v, w4) \<and>
        hl_LocateChart H (mg_ChartRef i) s w4 = (Inr p, w5) \<and> hl_Load H p w5 = (Inr ch, w6) \<and>
        hl_Upgrade H cfg (helm_install_action i) ch (mg_Values i) w6 = (Inr u, w'))"
    unfolding tryA_act bindA_Ret callA_act by blast
  from step show ?thesis
  proof (elim disjE exE conjE)
    fix ch w6
    assume "hl_Install H cfg (helm_install_action i) ch (mg_Values i) w6 = (Inr u, w')"
    from install_lawD(2) [OF helm_contractD(3) [OF assms(1)] this refl] show ?thesis
      by (simp add: helm_install_action_def)
  next
    fix v w4 p w5 ch w6
    assume get: "hl_Get H cfg (mg_ReleaseName i) w3 = (Inr v, w4)"
      and rest: "hl_LocateChart H (mg_ChartRef i) s w4 = (Inr p, w5)" "hl_Load H p w5 = (Inr ch, w6)"
        "hl_Upgrade H cfg (helm_install_action i) ch (mg_Values i) w6 = (Inr u, w')"
    have up: "keeps rels (callA (hl_Upgrade H c a ch v))" for c a ch v
      using helm_contractD(3) [OF assms(1)] by (simp add: install_law_def)
    have "rels w' = rels w3"
      using keeps_callAD [OF helm_preparesD(9) [OF prep] get] keeps_callAD [OF helm_preparesD(10) [OF prep] rest(1)]
        keeps_callAD [OF helm_preparesD(11) [OF prep] rest(2)] keeps_callAD [OF up rest(3)] by simp
    moreover have "(hc_Namespace cfg, mg_ReleaseName i) \<in> rels w3"
      using helm_contractD(2) [OF assms(1)] get unfolding get_release_law_def by blast
    ultimately show ?thesis by (simp add: actionConfig_Ret [OF cfg])
  qed
qed

lemma InstallOrUpgrade_lost: "lost_frame H lost \<Longrightarrow> keeps lost (InstallOrUpgrade H i)"
  unfolding InstallOrUpgrade_def lost_frame_def
  by (elim conjE) (intro keeps_intros keeps_manager_settings keeps_ensureRepo keeps_actionConfig helm_preparesD;
    (assumption | blast))

text \<open>
  An uninstallation that ends well has removed the release, or Helm could not read the release: then the
  history says so, and nothing is known of the release.
\<close>

definition uninstall_answer where
  "uninstall_answer x rels lost w r w' \<longleftrightarrow>
     lost w' = lost w \<and> (\<forall>u. r = Ret u \<longrightarrow> x \<notin> rels w') \<or> lost w' = lost w @ [x]"

lemma Uninstall_answer:
  assumes "helm_contract H rels lost" "Uninstall H i w = (r, w')"
  shows "uninstall_answer (mg_Namespace i, mg_ReleaseName i) rels lost w r w'"
proof -
  let ?a = "\<lparr>ha_ReleaseName = mg_ReleaseName i, ha_Namespace = [], ha_Wait = False, ha_Timeout = 5 * minute\<rparr>"
  note law = helm_contractD(4) [OF assms(1)]
  have prep: "helm_prepares H lost" using helm_contractD(6) [OF assms(1)] by (simp add: lost_frame_def)
  from assms(2) consider (set) s where "manager_settings H i w = (s, w')" "\<And>v. s \<noteq> Ret v" "\<And>v. r \<noteq> Ret v"
    | (conf) s w1 c where "manager_settings H i w = (Ret s, w1)" "actionConfig H i s w1 = (c, w')"
        "\<And>v. c \<noteq> Ret v" "\<And>v. r \<noteq> Ret v"
    | (run) s w1 cfg w2 q where "manager_settings H i w = (Ret s, w1)" "actionConfig H i s w1 = (Ret cfg, w2)"
        "hl_Uninstall H cfg ?a w2 = (q, w')"
        "r = (case q of Inl e \<Rightarrow> if no_such_release e then Ret () else Fail e | Inr u \<Rightarrow> Ret ())"
    unfolding Uninstall_def no_such_release_def
    by (auto simp: bindA_def tryA_def callA_def retA_def failA_def split: prod.splits res.splits sum.splits if_splits)
  then show ?thesis
  proof cases
    case set
    with keepsD [OF keeps_manager_settings [OF prep]] show ?thesis by (simp add: uninstall_answer_def)
  next
    case conf
    from keepsD [OF keeps_manager_settings [OF prep] conf(1)] keepsD [OF keeps_actionConfig [OF prep] conf(2)] conf(4)
    show ?thesis by (simp add: uninstall_answer_def)
  next
    case run
    from keepsD [OF keeps_manager_settings [OF prep] run(1)] keepsD [OF keeps_actionConfig [OF prep] run(2)]
      uninstall_lawD(2,3) [OF law run(3)] run(4) actionConfig_Ret [OF run(2)]
    show ?thesis
      by (cases q) (auto simp: uninstall_answer_def no_such_release_iff split: if_splits)
  qed
qed

text \<open>A missing release is no error of \<open>Uninstall\<close>, so callers never see one.\<close>

lemma Uninstall_Fail:
  assumes "setup_law H" "Uninstall H i w = (Fail e, w')"
  shows "\<not> IsReleaseNotFound (Some e)"
proof -
  from assms have "\<not> no_such_release e"
    unfolding Uninstall_def manager_settings_def actionConfig_def Let_def
    by (auto simp: act_simps no_such_release_def [symmetric] split: if_splits dest: setup_lawD)
  then show ?thesis by (simp add: IsReleaseNotFound_def no_such_release_def)
qed

lemma no_panic_helm: "no_panic (InstallOrUpgrade H i)" "no_panic (Uninstall H i)"
  unfolding InstallOrUpgrade_def Uninstall_def manager_settings_def ensureRepo_def actionConfig_def Let_def
  by (intro safe_intros)+

subsection \<open>Helm that works\<close>

text \<open>
  The file system can be written, the repository and the charts can be downloaded, and Helm carries out
  what it is asked for, but for removing a release that does not exist.
\<close>

definition healthy_helm :: "'w helm \<Rightarrow> bool" where
  "healthy_helm H \<longleftrightarrow>
     (\<forall>p. returns (callA (os_MkdirAll H p))) \<and> (\<forall>p. returns (callA (os_Create H p))) \<and>
     (\<forall>p. returns (callA (hl_LoadFile H p))) \<and> (\<forall>f p. returns (callA (hl_WriteFile H f p))) \<and>
     (\<forall>f n. hl_repo_Has H f n \<longrightarrow> hl_repo_Get H f n \<noteq> None) \<and>
     (\<forall>f n u. hl_repo_Get H (hl_repo_Update H f (n, u)) n \<noteq> None) \<and>
     (\<forall>e s. returns (callA (hl_NewChartRepository H (Some e) s))) \<and>
     (\<forall>r p. returns (callA (hl_DownloadIndexFile H r p))) \<and> (\<forall>s c. returns (callA (hl_Init H s c))) \<and>
     (\<forall>n s. returns (callA (hl_LocateChart H n s))) \<and> (\<forall>p. returns (callA (hl_Load H p))) \<and>
     (\<forall>c a ch v. returns (callA (hl_Install H c a ch v))) \<and> (\<forall>c a ch v. returns (callA (hl_Upgrade H c a ch v))) \<and>
     (\<forall>c a w e w'. hl_Uninstall H c a w = (Inl e, w') \<longrightarrow> release_not_found e)"

lemma healthy_helmD:
  assumes "healthy_helm H"
  shows "returns (callA (os_MkdirAll H p))" "returns (callA (os_Create H p))"
    "returns (callA (hl_LoadFile H p))" "returns (callA (hl_WriteFile H f p))"
    "hl_repo_Has H f n \<Longrightarrow> hl_repo_Get H f n \<noteq> None" "hl_repo_Get H (hl_repo_Update H f (n, u)) n \<noteq> None"
    "entry \<noteq> None \<Longrightarrow> returns (callA (hl_NewChartRepository H entry s))"
    "returns (callA (hl_DownloadIndexFile H r p))" "returns (callA (hl_Init H s c))"
    "returns (callA (hl_LocateChart H x s))" "returns (callA (hl_Load H p))"
    "returns (callA (hl_Install H c a ch v))" "returns (callA (hl_Upgrade H c a ch v))"
    "hl_Uninstall H c a w = (Inl e, w') \<Longrightarrow> release_not_found e"
  using assms unfolding healthy_helm_def by - (elim conjE, metis not_None_eq)+

lemma returns_ensureRepo:
  assumes "healthy_helm H"
  shows "returns (ensureRepo H i settings)"
proof -
  note ops = healthy_helmD [OF assms]
  have tail: "returns (bindA (callA (hl_NewChartRepository H (hl_repo_Get H f (mg_RepoName i)) settings)) (\<lambda>repo.
     callA (hl_DownloadIndexFile H repo p)))" if "hl_repo_Get H f (mg_RepoName i) \<noteq> None" for f p
    using that by (intro return_intros ops(7,8))
  show ?thesis
  proof (unfold ensureRepo_def Let_def, rule returns_bindA, rule ops)
    fix f
    show "returns (bindA (if \<not> hl_repo_Has H f (mg_RepoName i) then
              bindA (callA (hl_WriteFile H (hl_repo_Update H f (mg_RepoName i, mg_RepoURL i)) (hs_RepositoryConfig settings)))
                (\<lambda>_. retA (hl_repo_Update H f (mg_RepoName i, mg_RepoURL i)))
            else retA f) (\<lambda>f. bindA (callA (hl_NewChartRepository H (hl_repo_Get H f (mg_RepoName i)) settings)) (\<lambda>repo.
         callA (hl_DownloadIndexFile H repo (hs_RepositoryCache settings)))))"
      by (cases "hl_repo_Has H f (mg_RepoName i)") (simp_all add: bindA_assoc, (intro return_intros ops(4) ops(6) tail ops(5); assumption)+)
  qed
qed

lemma returns_helm_actions:
  assumes "healthy_helm H"
  shows "returns (InstallOrUpgrade H i)" "returns (Uninstall H i)"
proof -
  note ops = healthy_helmD [OF assms]
  have settings: "returns (manager_settings H i)"
    unfolding manager_settings_def Let_def by (intro return_intros ops)
  have config: "returns (actionConfig H i s)" for s
    unfolding actionConfig_def Let_def by (intro return_intros ops)
  show "returns (InstallOrUpgrade H i)"
    unfolding InstallOrUpgrade_def by (intro return_intros settings config returns_ensureRepo [OF assms] ops)
  show "returns (Uninstall H i)"
    unfolding Uninstall_def
    by (intro return_intros settings config) (auto dest!: ops(14) simp: release_not_found_def)
qed

text \<open>Helm that works reads its releases, so nothing enters the history.\<close>

lemma healthy_helm_lost:
  assumes "helm_contract H rels lost" "healthy_helm H"
  shows "helm_contract H rels (\<lambda>_. [])"
proof -
  have said: "\<not> unloaded e" if "hl_Uninstall H c a w = (Inl e, w')" for c a w e w'
    using healthy_helmD(14) [OF assms(2) that] by (simp add: unloaded_def)
  have "uninstall_law H rels (\<lambda>_. [])"
    unfolding uninstall_law_def
  proof (intro allI impI conjI)
    fix c a w r w'
    assume run: "hl_Uninstall H c a w = (r, w')"
    note law = uninstall_lawD [OF helm_contractD(4) [OF assms(1)] run]
    show "uninstall_moves (hc_Namespace c, ha_ReleaseName a) (rels w) (rels w')" by (rule law(1))
    show "(hc_Namespace c, ha_ReleaseName a) \<notin> rels w'"
      if "(\<exists>u. r = Inr u) \<or> (\<exists>e. r = Inl e \<and> release_not_found e)" using that by (rule law(2))
    show "[] = [] @ (if \<exists>e. r = Inl e \<and> unloaded e then [(hc_Namespace c, ha_ReleaseName a)] else [])"
      using run said by auto
  qed
  moreover have "lost_frame H (\<lambda>_. [])" by (simp add: lost_frame_def helm_prepares_def keeps_def)
  ultimately show ?thesis using assms(1) by (simp add: helm_contract_def)
qed

text \<open>
  And Helm that cannot read its releases, say because the API server refuses to hand out their secrets: each
  uninstallation is answered by a \<open>Release not loaded\<close> and changes nothing. The code takes that for success.
\<close>

definition unreadable_releases :: "'w helm \<Rightarrow> ('w \<Rightarrow> (string \<times> string) set) \<Rightarrow> bool" where
  "unreadable_releases H rels \<longleftrightarrow>
     (\<forall>p. returns (callA (os_MkdirAll H p))) \<and> (\<forall>p. returns (callA (os_Create H p))) \<and>
     (\<forall>s c. returns (callA (hl_Init H s c))) \<and>
     (\<forall>c a w. \<exists>e w'. hl_Uninstall H c a w = (Inl e, w') \<and> unloaded e \<and> rels w' = rels w)"

lemma Uninstall_unread:
  assumes "helm_prepares H rels" "unreadable_releases H rels"
  obtains w' where "Uninstall H i w = (Ret (), w')" "rels w' = rels w"
proof -
  from assms(2) have ops: "returns (callA (os_MkdirAll H p))" "returns (callA (os_Create H p))"
    "returns (callA (hl_Init H s c))" for p s c by (simp_all add: unreadable_releases_def)
  have "returns (manager_settings H i)" "returns (actionConfig H i s)" for s
    unfolding manager_settings_def actionConfig_def Let_def by (intro return_intros ops)+
  then obtain s w1 cfg w2 where settings: "manager_settings H i w = (Ret s, w1)"
    and config: "actionConfig H i s w1 = (Ret cfg, w2)" by (metis returnsE)
  obtain e w' where "hl_Uninstall H cfg \<lparr>ha_ReleaseName = mg_ReleaseName i, ha_Namespace = [], ha_Wait = False,
      ha_Timeout = 5 * minute\<rparr> w2 = (Inl e, w')" "unloaded e" "rels w' = rels w2"
    using assms(2) unfolding unreadable_releases_def by blast
  with settings config have "Uninstall H i w = (Ret (), w')"
    by (simp add: Uninstall_def bindA_def tryA_def callA_def retA_def unloaded_def)
  moreover have "rels w' = rels w"
    using keepsD [OF keeps_manager_settings [OF assms(1)] settings] keepsD [OF keeps_actionConfig [OF assms(1)] config]
      \<open>rels w' = rels w2\<close> by simp
  ultimately show thesis by (rule that)
qed

subsection \<open>Helm in memory\<close>

text \<open>An instance of the parameters: the releases are a part of the world, everything else succeeds.\<close>

definition mem_helm :: "('w \<Rightarrow> (string \<times> string) list) \<Rightarrow>
   (((string \<times> string) list \<Rightarrow> (string \<times> string) list) \<Rightarrow> 'w \<Rightarrow> 'w) \<Rightarrow> 'w helm" where
  "mem_helm get upd =
     \<lparr>os_MkdirAll = (\<lambda>_ w. (Inr (), w)), os_Stat = (\<lambda>_ w. (Inr (), w)), os_IsNotExist = (\<lambda>_. False),
      os_Create = (\<lambda>_ w. (Inr (), w)), hl_LoadFile = (\<lambda>_ w. (Inr [], w)),
      hl_repo_Has = (\<lambda>f n. n \<in> set (map fst f)), hl_repo_Update = (\<lambda>f e. e # f),
      hl_repo_Get = (\<lambda>f n. map_option (\<lambda>u. (n, u)) (map_of f n)), hl_WriteFile = (\<lambda>_ _ w. (Inr (), w)),
      hl_NewChartRepository = (\<lambda>_ _ w. (Inr 0, w)), hl_DownloadIndexFile = (\<lambda>_ _ w. (Inr (), w)),
      hl_Init = (\<lambda>_ _ w. (Inr (), w)),
      hl_Get = (\<lambda>c n w. (if (hc_Namespace c, n) \<in> set (get w) then Inr () else Inl (ExtError ''release: not found''), w)),
      hl_LocateChart = (\<lambda>n _ w. (Inr n, w)), hl_Load = (\<lambda>_ w. (Inr 0, w)),
      hl_Install = (\<lambda>_ a _ _ w. (Inr (), upd (\<lambda>rs. (ha_Namespace a, ha_ReleaseName a) # rs) w)),
      hl_Upgrade = (\<lambda>_ _ _ _ w. (Inr (), w)),
      hl_Uninstall = (\<lambda>c a w.
        if (hc_Namespace c, ha_ReleaseName a) \<in> set (get w)
        then (Inr (), upd (filter (\<lambda>r. r \<noteq> (hc_Namespace c, ha_ReleaseName a))) w)
        else (Inl (ExtError ''release: not found''), w))\<rparr>"

lemma mem_not_found: "release_not_found (ExtError ''release: not found'')"
  by (auto simp: release_not_found_def has_substring_iff intro!: exI [of _ "[]"])

lemma mem_helm_contract:
  assumes "\<And>f w. get (upd f w) = f (get w)"
  shows "helm_contract (mem_helm get upd) (\<lambda>w. set (get w)) (\<lambda>_. [])"
  unfolding helm_contract_def helm_prepares_def get_release_law_def install_law_def uninstall_law_def setup_law_def
    lost_frame_def
  using mem_not_found
  by (auto intro!: keeps_callA simp: mem_helm_def assms install_moves_def uninstall_moves_def unloaded_def
      split: if_splits)

lemma mem_helm_quiet:
  assumes "\<And>f w. g (upd f w) = g w"
  shows "helm_quiet (mem_helm get upd) g"
  unfolding helm_quiet_def helm_prepares_def
  by (auto intro!: keeps_callA simp: mem_helm_def assms)

lemma mem_helm_healthy: "healthy_helm (mem_helm get upd)"
  using mem_not_found
  by (auto simp: healthy_helm_def mem_helm_def returns_def callA_act map_of_eq_None_iff split: if_splits)

subsection \<open>Properties\<close>

text \<open>
  C27: Merging user values into default values: where the user's document holds anything but an object, the
  merged document holds it too; on a path where the user is silent the default stays; and the order in
  which Go visits the keys of the user's map does not matter.
\<close>

theorem deepMerge_values:
  assumes "maps_only (JObj user)"
  shows "(\<forall>p v. value_at p (JObj user) = Some v \<and> \<not> is_object v \<longrightarrow>
      value_at p (JObj (deepMerge defaults user)) = Some v) \<and>
    (\<forall>p. silent_at p user \<longrightarrow>
      value_at p (JObj (deepMerge defaults user)) = value_at p (JObj defaults)) \<and>
    (\<forall>user'. mset user' = mset user \<longrightarrow> map_of (deepMerge defaults user') = map_of (deepMerge defaults user))"
proof (intro conjI allI impI)
  show "value_at p (JObj (deepMerge defaults user)) = Some v"
    if "value_at p (JObj user) = Some v \<and> \<not> is_object v" for p v
    using that by (intro deepMerge_user_wins [OF assms]) simp_all
  show "value_at p (JObj (deepMerge defaults user)) = value_at p (JObj defaults)" if "silent_at p user" for p
    using that by (rule deepMerge_keeps_defaults [OF assms])
  show "map_of (deepMerge defaults user') = map_of (deepMerge defaults user)" if "mset user' = mset user" for user'
    using that assms by (intro deepMerge_order) simp_all
qed

lemma deepMerge_values_witness:
  "let defaults = [(''portal'', JObj [(''type'', JStr ''NodePort''), (''port'', JNum ''80'')])];
       user = [(''portal'', JObj [(''type'', JStr ''LoadBalancer'')])] in
   value_at [''portal'', ''type''] (JObj (deepMerge defaults user)) = Some (JStr ''LoadBalancer'') \<and>
   value_at [''portal'', ''port''] (JObj (deepMerge defaults user)) = Some (JNum ''80'')"
proof -
  let ?defaults = "[(''portal'', JObj [(''type'', JStr ''NodePort''), (''port'', JNum ''80'')])]"
    and ?user = "[(''portal'', JObj [(''type'', JStr ''LoadBalancer'')])]"
  have "maps_only (JObj ?user)" by simp
  from deepMerge_values [OF this, of ?defaults]
  have "value_at [''portal'', ''type''] (JObj ?user) = Some (JStr ''LoadBalancer'') \<and>
      \<not> is_object (JStr ''LoadBalancer'') \<longrightarrow>
      value_at [''portal'', ''type''] (JObj (deepMerge ?defaults ?user)) = Some (JStr ''LoadBalancer'')"
    and "silent_at [''portal'', ''port''] ?user \<longrightarrow>
      value_at [''portal'', ''port''] (JObj (deepMerge ?defaults ?user)) = value_at [''portal'', ''port''] (JObj ?defaults)"
    by blast+
  then show ?thesis by (simp add: Let_def is_object_def)
qed

end
