(* ===== verification/ToolService.thy ===== *)
theory ToolService
  imports K8sClient HelmManager JsonDecode
begin

section \<open>The interface of the tool services\<close>

text \<open>
  The interface \<open>ToolService\<close> of \<open>internal/tools/tool.go\<close> and what the tool controller relies on: \<open>rels\<close>
  observes the Helm releases (namespace and name), \<open>lost\<close> the releases that an uninstallation could not
  read, \<open>nss\<close> the namespaces. A service is made from a
  clientset, the helpers and Helm; \<open>default_ns\<close> and \<open>release\<close> are its constants.
\<close>

record 'w tool_service =
  svc_Name :: string
  svc_EnsureInstalled :: "Tool \<Rightarrow> ('w, unit) act"
  svc_EnsureUninstalled :: "Tool \<Rightarrow> ('w, unit) act"
  svc_CheckHealth :: "Tool \<Rightarrow> ('w, bool) act"

definition resolvedNamespace :: "string \<Rightarrow> string \<Rightarrow> string" where
  "resolvedNamespace override defaultNS = (if override \<noteq> '''' then override else defaultNS)"

subsection \<open>What the clientset leaves alone\<close>

definition clientset_quiet :: "'w clientset \<Rightarrow> ('w \<Rightarrow> 'g) \<Rightarrow> bool" where
  "clientset_quiet S g \<longleftrightarrow>
     (\<forall>n. keeps g (callA (cs_ns_get S n))) \<and> (\<forall>n. keeps g (callA (cs_ns_create S n))) \<and>
     (\<forall>n. keeps g (callA (cs_ns_delete S n))) \<and> (\<forall>ns n. keeps g (callA (cs_deployment_get S ns n))) \<and>
     (\<forall>ns n. keeps g (callA (cs_daemonset_get S ns n)))"

lemma keeps_k8s:
  assumes "clientset_quiet S g"
  shows "keeps g (EnsureNamespace S U ns)" "keeps g (DeleteNamespace S U ns)"
    "keeps g (IsDeploymentReady S U ns n)" "keeps g (IsDaemonSetReady S U ns n)"
  unfolding EnsureNamespace_def DeleteNamespace_def IsDeploymentReady_def IsDaemonSetReady_def
  using assms unfolding clientset_quiet_def by (intro keeps_intros; simp)+

text \<open>Releases live in their namespace: namespaces come without releases and take theirs with them.\<close>

definition release_frame :: "'w clientset \<Rightarrow> ('w \<Rightarrow> (string \<times> string) set) \<Rightarrow> bool" where
  "release_frame S rels \<longleftrightarrow>
     (\<forall>n. keeps rels (callA (cs_ns_get S n))) \<and> (\<forall>n. keeps rels (callA (cs_ns_create S n))) \<and>
     (\<forall>n w r w'. cs_ns_delete S n w = (r, w') \<longrightarrow>
        rels w' \<subseteq> rels w \<and> (\<forall>x \<in> rels w. fst x \<noteq> n \<longrightarrow> x \<in> rels w'))"

definition workload_reads :: "'w clientset \<Rightarrow> ('w \<Rightarrow> 'g) \<Rightarrow> bool" where
  "workload_reads S g \<longleftrightarrow> (\<forall>ns n. keeps g (callA (cs_deployment_get S ns n))) \<and>
     (\<forall>ns n. keeps g (callA (cs_daemonset_get S ns n)))"

lemma keeps_readiness:
  assumes "workload_reads S g"
  shows "keeps g (IsDeploymentReady S U ns n)" "keeps g (IsDaemonSetReady S U ns n)"
  unfolding IsDeploymentReady_def IsDaemonSetReady_def
  using assms unfolding workload_reads_def by (intro keeps_intros; simp)+

lemma EnsureNamespace_keeps_releases: "release_frame S rels \<Longrightarrow> keeps rels (EnsureNamespace S U ns)"
  unfolding EnsureNamespace_def by (intro keeps_intros) (simp_all add: release_frame_def)

lemma DeleteNamespace_releases:
  assumes "release_frame S rels" "DeleteNamespace S U ns w = (r, w')"
  shows "rels w' \<subseteq> rels w" "x \<in> rels w \<Longrightarrow> fst x \<noteq> ns \<Longrightarrow> x \<in> rels w'"
proof -
  from assms(2) obtain r' where "cs_ns_delete S ns w = (r', w')"
    by (auto simp: DeleteNamespace_def act_simps split: if_splits)
  with assms(1) show "rels w' \<subseteq> rels w" "x \<in> rels w \<Longrightarrow> fst x \<noteq> ns \<Longrightarrow> x \<in> rels w'"
    unfolding release_frame_def by blast+
qed

subsection \<open>The promises of a service\<close>

text \<open>Everything a service needs of its environment.\<close>

definition tool_env where
  "tool_env U S H rels lost nss \<longleftrightarrow> helm_contract H rels lost \<and> release_frame S rels \<and>
     namespace_contract U S nss \<and> helm_quiet H nss \<and> workload_reads S rels \<and> workload_reads S nss \<and>
     clientset_quiet S lost"

lemma tool_envD:
  assumes "tool_env U S H rels lost nss"
  shows "helm_contract H rels lost" "release_frame S rels" "namespace_contract U S nss" "helm_quiet H nss"
    "workload_reads S rels" "workload_reads S nss" "clientset_quiet S lost"
  using assms by (simp_all add: tool_env_def)

lemma tool_env_healthy: "tool_env U S H rels lost nss \<Longrightarrow> healthy_helm H \<Longrightarrow> tool_env U S H rels (\<lambda>_. []) nss"
  using healthy_helm_lost [of H rels lost] by (simp add: tool_env_def clientset_quiet_def keeps_def)

definition tool_namespace :: "string \<Rightarrow> Tool \<Rightarrow> string" where
  "tool_namespace default_ns tool = resolvedNamespace (ts_Namespace (tool_Spec tool)) default_ns"

definition install_promise where
  "install_promise ns release rels lost nss w r w' \<longleftrightarrow>
     install_moves (ns, release) (rels w) (rels w') \<and>
     (nss w \<subseteq> nss w' \<and> nss w' \<subseteq> insert ns (nss w)) \<and> (\<forall>u. r = Ret u \<longrightarrow> (ns, release) \<in> rels w') \<and>
     lost w' = lost w"

definition uninstall_promise where
  "uninstall_promise managed ns release rels lost nss w r w' \<longleftrightarrow>
     (rels w' \<subseteq> rels w \<and> (\<not> managed \<longrightarrow> rels w - {(ns, release)} \<subseteq> rels w') \<and>
        (\<forall>x \<in> rels w. fst x \<noteq> ns \<longrightarrow> x \<in> rels w')) \<and>
     (nss w' \<subseteq> nss w \<and> (if managed then nss w - {ns} \<subseteq> nss w' else nss w' = nss w)) \<and>
     uninstall_answer (ns, release) rels lost w r w' \<and> (\<forall>u. r = Ret u \<longrightarrow> managed \<longrightarrow> ns \<notin> nss w')"

locale tool_service =
  fixes mk :: "'w clientset \<Rightarrow> util \<Rightarrow> 'w helm \<Rightarrow> 'w tool_service"
    and default_ns :: string
    and release :: string
  assumes installs: "tool_env U S H rels lost nss \<Longrightarrow>
      svc_EnsureInstalled (mk S U H) tool w = (r, w') \<Longrightarrow>
      install_promise (tool_namespace default_ns tool) release rels lost nss w r w'"
    and uninstalls: "tool_env U S H rels lost nss \<Longrightarrow>
      svc_EnsureUninstalled (mk S U H) tool w = (r, w') \<Longrightarrow>
      uninstall_promise (ts_Namespace (tool_Spec tool) = '''') (tool_namespace default_ns tool) release
        rels lost nss w r w'"
    and service_quiet: "helm_quiet H g \<Longrightarrow> clientset_quiet S g \<Longrightarrow>
      keeps g (svc_EnsureInstalled (mk S U H) tool) \<and> keeps g (svc_EnsureUninstalled (mk S U H) tool) \<and>
      keeps g (svc_CheckHealth (mk S U H) tool)"
    and service_safe: "no_panic (svc_EnsureInstalled (mk S U H) tool) \<and>
      no_panic (svc_EnsureUninstalled (mk S U H) tool) \<and> no_panic (svc_CheckHealth (mk S U H) tool)"
begin

text \<open>A namespace that the user named is never deleted, and installing never deletes one.\<close>

lemma user_namespace_kept:
  assumes "tool_env U S H rels lost nss" "ts_Namespace (tool_Spec tool) \<noteq> ''''"
    and "svc_EnsureUninstalled (mk S U H) tool w = (r, w')"
  shows "nss w' = nss w" "rels w - {(tool_namespace default_ns tool, release)} \<subseteq> rels w'"
  using uninstalls [OF assms(1,3)] assms(2) by (simp_all add: uninstall_promise_def)

lemma install_deletes_nothing:
  assumes "tool_env U S H rels lost nss" "svc_EnsureInstalled (mk S U H) tool w = (r, w')"
  shows "nss w \<subseteq> nss w'" "rels w \<subseteq> rels w'"
  using installs [OF assms] by (simp_all add: install_promise_def install_moves_def)

end

text \<open>
  A service that gets its work done when the cluster and Helm answer; the values of the Tool, where the
  service reads them, have to be an object.
\<close>

definition tool_values_ok :: "util \<Rightarrow> Tool \<Rightarrow> bool" where
  "tool_values_ok U tool \<longleftrightarrow>
     (\<forall>raw. ts_Values (tool_Spec tool) = Some raw \<longrightarrow> (\<exists>user. jsonUnmarshalMap U raw = Inr (Some user)))"

locale live_service = tool_service +
  assumes install_returns: "healthy_helm H \<Longrightarrow> healthy_clientset U S \<Longrightarrow> tool_values_ok U tool \<Longrightarrow>
      returns (svc_EnsureInstalled (mk S U H) tool)"
    and uninstall_returns: "healthy_helm H \<Longrightarrow> healthy_clientset U S \<Longrightarrow>
      returns (svc_EnsureUninstalled (mk S U H) tool)"
    and health_returns: "healthy_clientset U S \<Longrightarrow> returns (svc_CheckHealth (mk S U H) tool)"
begin

lemma install_done:
  assumes "tool_env U S H rels lost nss" "healthy_helm H" "healthy_clientset U S" "tool_values_ok U tool"
  obtains w' where "svc_EnsureInstalled (mk S U H) tool w = (Ret (), w')"
    "(tool_namespace default_ns tool, release) \<in> rels w'"
  using install_returns [OF assms(2-4)] installs [OF assms(1)]
  by (metis returnsE install_promise_def old.unit.exhaust)

lemma uninstall_done:
  assumes "tool_env U S H rels lost nss" "healthy_helm H" "healthy_clientset U S"
  obtains w' where "svc_EnsureUninstalled (mk S U H) tool w = (Ret (), w')"
    "(tool_namespace default_ns tool, release) \<notin> rels w'"
proof -
  obtain u w' where run: "svc_EnsureUninstalled (mk S U H) tool w = (Ret u, w')"
    using uninstall_returns [OF assms(2,3)] by (rule returnsE)
  from uninstalls [OF tool_env_healthy [OF assms(1,2)] run] run that show ?thesis
    by (cases u) (auto simp: uninstall_promise_def uninstall_answer_def)
qed

end

subsection \<open>Shared parts of the services\<close>

text \<open>Uninstalling, the way the three services do it.\<close>

lemma uninstall_cases:
  assumes env: "tool_env U S H rels lost nss"
    and run: "tryA (Uninstall H m)
       (\<lambda>err. if \<not> IsReleaseNotFound (Some err) then failA (Wrapped pre err '''') else rest)
       (\<lambda>_. rest) w = (r, w')"
    and rest: "rest = (if managed then wrapA pre' (DeleteNamespace S U ns) else retA ())"
    and ns: "mg_Namespace m = ns"
  shows "uninstall_promise managed ns (mg_ReleaseName m) rels lost nss w r w'"
proof -
  note laws = tool_envD [OF env]
  obtain q w1 where uninst: "Uninstall H m w = (q, w1)" by fastforce
  have moved: "rels w - {(ns, mg_ReleaseName m)} \<subseteq> rels w1" "rels w1 \<subseteq> rels w"
    using movesD [OF Uninstall_moves [OF laws(1)] uninst] ns by (auto simp: uninstall_moves_def)
  have quiet: "nss w1 = nss w" using keepsD [OF keeps_helm_actions(2) [OF laws(4)] uninst] .
  have gone: "uninstall_answer (ns, mg_ReleaseName m) rels lost w q w1"
    using Uninstall_answer [OF laws(1) uninst] ns by simp
  have dead: "q = Fail e \<Longrightarrow> \<not> IsReleaseNotFound (Some e)" for e
    using Uninstall_Fail [OF helm_contractD(5) [OF laws(1)]] uninst by auto
  from run uninst dead consider
      (stop) "w' = w1" "\<And>v. r \<noteq> Ret v"
    | (on) v where "q = Ret v" "rest w1 = (r, w')"
    by (cases q) (auto simp: tryA_def)
  then show ?thesis
  proof cases
    case stop
    with moved quiet gone show ?thesis by (auto simp: uninstall_promise_def uninstall_answer_def)
  next
    case on
    show ?thesis
    proof (cases managed)
      case True
      with on(2) rest obtain r1 where del: "DeleteNamespace S U ns w1 = (r1, w')" "\<And>u. r = Ret u \<Longrightarrow> r1 = Ret u"
        by (cases r) (auto simp: act_simps)
      from DeleteNamespace_releases [OF laws(2) del(1)] DeleteNamespace_only [OF laws(3) del(1)]
        DeleteNamespace_Ret [OF laws(3), of ns w1 _ w'] del moved quiet gone on(1) True
        keepsD [OF keeps_k8s(2) [OF laws(7)] del(1)]
      show ?thesis by (auto simp: uninstall_promise_def uninstall_answer_def)
    next
      case False
      with on rest moved quiet gone show ?thesis by (auto simp: uninstall_promise_def uninstall_answer_def)
    qed
  qed
qed

text \<open>Installing: the namespace first, then the release.\<close>

lemma install_cases:
  assumes env: "tool_env U S H rels lost nss"
    and run: "bindA (wrapA pre (EnsureNamespace S U ns)) (\<lambda>_. wrapA pre' (InstallOrUpgrade H m)) w = (r, w')"
    and ns: "mg_Namespace m = ns"
  shows "install_promise ns (mg_ReleaseName m) rels lost nss w r w'"
proof -
  note laws = tool_envD [OF env]
  obtain q w1 where first: "EnsureNamespace S U ns w = (q, w1)" by fastforce
  have rels: "rels w1 = rels w" using keepsD [OF EnsureNamespace_keeps_releases [OF laws(2)] first] .
  note spaces = EnsureNamespace_only [OF laws(3) first] keepsD [OF keeps_k8s(1) [OF laws(7)] first]
  have refl: "install_moves x s s" for x and s :: "(string \<times> string) set" by (auto simp: install_moves_def)
  from run first consider (stop) "w' = w1" "\<And>v. r \<noteq> Ret v"
    | (on) q2 where "InstallOrUpgrade H m w1 = (q2, w')" "\<And>u. r = Ret u \<Longrightarrow> q2 = Ret u"
    by (cases q) (auto simp: bindA_def wrapA_def split: prod.splits res.splits)
  then show ?thesis
  proof cases
    case stop
    with rels spaces refl show ?thesis by (simp add: install_promise_def)
  next
    case on
    from movesD [OF InstallOrUpgrade_moves [OF laws(1)] on(1)] keepsD [OF keeps_helm_actions(1) [OF laws(4)] on(1)]
      keepsD [OF InstallOrUpgrade_lost [OF helm_contractD(6) [OF laws(1)]] on(1)]
      InstallOrUpgrade_Ret [OF laws(1), of m w1 _ w'] on rels spaces ns
    show ?thesis by (auto simp: install_promise_def)
  qed
qed

end
