(* ===== verification/HelmTools.thy ===== *)
theory HelmTools
  imports ToolService SampleCluster
begin

section \<open>Trivy, Falco and Litmus as Helm releases\<close>

text \<open>
  \<open>internal/tools/trivy.go\<close>, \<open>falco.go\<close> and \<open>litmus.go\<close>: the constants of each tool, its three
  operations, and the interpretation of the interface. Only Litmus hands values to Helm.
\<close>

subsection \<open>Trivy\<close>

definition trivyNamespace :: string where "trivyNamespace = ''trivy-system''"
definition trivyReleaseName :: string where "trivyReleaseName = ''trivy-operator''"
definition trivyRepoName :: string where "trivyRepoName = ''aqua''"
definition trivyRepoURL :: string where "trivyRepoURL = ''https://aquasecurity.github.io/helm-charts/''"
definition trivyChart :: string where "trivyChart = ''aqua/trivy-operator''"

definition trivy_EnsureInstalled :: "'w clientset \<Rightarrow> util \<Rightarrow> 'w helm \<Rightarrow> Tool \<Rightarrow> ('w, unit) act" where
  "trivy_EnsureInstalled S U H tool =
     (let ns = resolvedNamespace (ts_Namespace (tool_Spec tool)) trivyNamespace in
      bindA (wrapA ''ensuring trivy namespace'' (EnsureNamespace S U ns)) (\<lambda>_.
      let manager = NewHelmAdminManager ns trivyRepoName trivyRepoURL trivyChart trivyReleaseName in
      wrapA ''installing trivy operator'' (InstallOrUpgrade H manager)))"

definition trivy_EnsureUninstalled :: "'w clientset \<Rightarrow> util \<Rightarrow> 'w helm \<Rightarrow> Tool \<Rightarrow> ('w, unit) act" where
  "trivy_EnsureUninstalled S U H tool =
     (let managedNamespace = (ts_Namespace (tool_Spec tool) = '''');
          ns = resolvedNamespace (ts_Namespace (tool_Spec tool)) trivyNamespace;
          manager = NewHelmDeleteManager ns trivyReleaseName;
          rest = (if managedNamespace then wrapA ''deleting trivy namespace'' (DeleteNamespace S U ns) else retA ()) in
      tryA (Uninstall H manager)
        (\<lambda>err. if \<not> IsReleaseNotFound (Some err) then failA (Wrapped ''uninstalling trivy operator'' err '''') else rest)
        (\<lambda>_. rest))"

definition trivy_CheckHealth :: "'w clientset \<Rightarrow> util \<Rightarrow> Tool \<Rightarrow> ('w, bool) act" where
  "trivy_CheckHealth S U tool =
     (let ns = resolvedNamespace (ts_Namespace (tool_Spec tool)) trivyNamespace in
      wrapA ''checking trivy deployment health'' (IsDeploymentReady S U ns trivyReleaseName))"

definition trivy_service :: "'w clientset \<Rightarrow> util \<Rightarrow> 'w helm \<Rightarrow> 'w tool_service" where
  "trivy_service S U H = \<lparr>svc_Name = ''trivy'', svc_EnsureInstalled = trivy_EnsureInstalled S U H,
     svc_EnsureUninstalled = trivy_EnsureUninstalled S U H, svc_CheckHealth = trivy_CheckHealth S U\<rparr>"

subsection \<open>Falco\<close>

definition falcoNamespace :: string where "falcoNamespace = ''falco''"
definition falcoReleaseName :: string where "falcoReleaseName = ''falco''"
definition falcoRepoName :: string where "falcoRepoName = ''falcosecurity''"
definition falcoRepoURL :: string where "falcoRepoURL = ''https://falcosecurity.github.io/charts''"
definition falcoChart :: string where "falcoChart = ''falcosecurity/falco''"
definition falcoDaemonSet :: string where "falcoDaemonSet = ''falco''"

definition falco_EnsureInstalled :: "'w clientset \<Rightarrow> util \<Rightarrow> 'w helm \<Rightarrow> Tool \<Rightarrow> ('w, unit) act" where
  "falco_EnsureInstalled S U H tool =
     (let ns = resolvedNamespace (ts_Namespace (tool_Spec tool)) falcoNamespace in
      bindA (wrapA ''ensuring falco namespace'' (EnsureNamespace S U ns)) (\<lambda>_.
      let manager = NewHelmAdminManager ns falcoRepoName falcoRepoURL falcoChart falcoReleaseName in
      wrapA ''installing falco'' (InstallOrUpgrade H manager)))"

definition falco_EnsureUninstalled :: "'w clientset \<Rightarrow> util \<Rightarrow> 'w helm \<Rightarrow> Tool \<Rightarrow> ('w, unit) act" where
  "falco_EnsureUninstalled S U H tool =
     (let managedNamespace = (ts_Namespace (tool_Spec tool) = '''');
          ns = resolvedNamespace (ts_Namespace (tool_Spec tool)) falcoNamespace;
          manager = NewHelmDeleteManager ns falcoReleaseName;
          rest = (if managedNamespace then wrapA ''deleting falco namespace'' (DeleteNamespace S U ns) else retA ()) in
      tryA (Uninstall H manager)
        (\<lambda>err. if \<not> IsReleaseNotFound (Some err) then failA (Wrapped ''uninstalling falco'' err '''') else rest)
        (\<lambda>_. rest))"

definition falco_CheckHealth :: "'w clientset \<Rightarrow> util \<Rightarrow> Tool \<Rightarrow> ('w, bool) act" where
  "falco_CheckHealth S U tool =
     (let ns = resolvedNamespace (ts_Namespace (tool_Spec tool)) falcoNamespace in
      wrapA ''checking falco daemonset health'' (IsDaemonSetReady S U ns falcoDaemonSet))"

definition falco_service :: "'w clientset \<Rightarrow> util \<Rightarrow> 'w helm \<Rightarrow> 'w tool_service" where
  "falco_service S U H = \<lparr>svc_Name = ''falco'', svc_EnsureInstalled = falco_EnsureInstalled S U H,
     svc_EnsureUninstalled = falco_EnsureUninstalled S U H, svc_CheckHealth = falco_CheckHealth S U\<rparr>"

subsection \<open>Litmus\<close>

definition litmusNamespace :: string where "litmusNamespace = ''litmus''"
definition litmusReleaseName :: string where "litmusReleaseName = ''chaos''"
definition litmusChart :: string where "litmusChart = ''litmuschaos/litmus''"
definition litmusRepoName :: string where "litmusRepoName = ''litmuschaos''"
definition litmusRepoURL :: string where "litmusRepoURL = ''https://litmuschaos.github.io/litmus-helm/''"
definition litmusDeployName :: string where "litmusDeployName = ''chaos-litmus-server''"

definition litmusDefaultValues :: "string \<Rightarrow> string \<Rightarrow> members" where
  "litmusDefaultValues releaseName ns =
     [(''portal'', JObj
        [(''frontend'', JObj [(''service'', JObj [(''type'', JStr ''NodePort'')])]),
         (''server'', JObj [(''graphqlServer'', JObj [(''genericEnv'', JObj
            [(''CHAOS_CENTER_UI_ENDPOINT'',
              JStr (''http://'' @ releaseName @ ''-litmus-frontend-service.'' @ ns @ ''.svc.cluster.local:9091''))])])])])]"

text \<open>The user's values, decoded and merged into the manager's.\<close>

definition litmus_user_values :: "util \<Rightarrow> Tool \<Rightarrow> Manager \<Rightarrow> ('w, Manager) act" where
  "litmus_user_values U tool manager =
     (case ts_Values (tool_Spec tool) of
        None \<Rightarrow> retA manager
      | Some raw \<Rightarrow>
          bindA (wrapA ''decoding helm values'' (liftA (jsonUnmarshalMap U raw))) (\<lambda>userValues.
            case userValues of
              None \<Rightarrow> failA (Errorf ''helm values must be a JSON object, got null or non-object'')
            | Some user \<Rightarrow> retA (MergeValues user manager)))"

definition litmus_EnsureInstalled :: "'w clientset \<Rightarrow> util \<Rightarrow> 'w helm \<Rightarrow> Tool \<Rightarrow> ('w, unit) act" where
  "litmus_EnsureInstalled S U H tool =
     (let ns = resolvedNamespace (ts_Namespace (tool_Spec tool)) litmusNamespace in
      bindA (wrapA ''ensuring litmus namespace'' (EnsureNamespace S U ns)) (\<lambda>_.
      let manager = SetValues (Some (litmusDefaultValues litmusReleaseName ns))
            (NewHelmAdminManager ns litmusRepoName litmusRepoURL litmusChart litmusReleaseName) in
      bindA (litmus_user_values U tool manager) (\<lambda>manager.
      wrapA ''installing litmus'' (InstallOrUpgrade H manager))))"

definition litmus_EnsureUninstalled :: "'w clientset \<Rightarrow> util \<Rightarrow> 'w helm \<Rightarrow> Tool \<Rightarrow> ('w, unit) act" where
  "litmus_EnsureUninstalled S U H tool =
     (let managedNamespace = (ts_Namespace (tool_Spec tool) = '''');
          ns = resolvedNamespace (ts_Namespace (tool_Spec tool)) litmusNamespace;
          manager = NewHelmDeleteManager ns litmusReleaseName;
          rest = (if managedNamespace then wrapA ''deleting litmus namespace'' (DeleteNamespace S U ns) else retA ()) in
      tryA (Uninstall H manager)
        (\<lambda>err. if \<not> IsReleaseNotFound (Some err) then failA (Wrapped ''uninstalling litmus'' err '''') else rest)
        (\<lambda>_. rest))"

definition litmus_CheckHealth :: "'w clientset \<Rightarrow> util \<Rightarrow> Tool \<Rightarrow> ('w, bool) act" where
  "litmus_CheckHealth S U tool =
     (let ns = resolvedNamespace (ts_Namespace (tool_Spec tool)) litmusNamespace in
      wrapA ''checking litmus deployment health'' (IsDeploymentReady S U ns litmusDeployName))"

definition litmus_service :: "'w clientset \<Rightarrow> util \<Rightarrow> 'w helm \<Rightarrow> 'w tool_service" where
  "litmus_service S U H = \<lparr>svc_Name = ''litmus'', svc_EnsureInstalled = litmus_EnsureInstalled S U H,
     svc_EnsureUninstalled = litmus_EnsureUninstalled S U H, svc_CheckHealth = litmus_CheckHealth S U\<rparr>"

subsection \<open>The promises hold\<close>

lemma service_simps [simp]:
  "svc_Name (trivy_service S U H) = ''trivy''" "svc_EnsureInstalled (trivy_service S U H) = trivy_EnsureInstalled S U H"
  "svc_EnsureUninstalled (trivy_service S U H) = trivy_EnsureUninstalled S U H"
  "svc_CheckHealth (trivy_service S U H) = trivy_CheckHealth S U"
  "svc_Name (falco_service S U H) = ''falco''" "svc_EnsureInstalled (falco_service S U H) = falco_EnsureInstalled S U H"
  "svc_EnsureUninstalled (falco_service S U H) = falco_EnsureUninstalled S U H"
  "svc_CheckHealth (falco_service S U H) = falco_CheckHealth S U"
  "svc_Name (litmus_service S U H) = ''litmus''" "svc_EnsureInstalled (litmus_service S U H) = litmus_EnsureInstalled S U H"
  "svc_EnsureUninstalled (litmus_service S U H) = litmus_EnsureUninstalled S U H"
  "svc_CheckHealth (litmus_service S U H) = litmus_CheckHealth S U"
  by (simp_all add: trivy_service_def falco_service_def litmus_service_def)

lemma manager_simps [simp]:
  "mg_Namespace (NewHelmAdminManager ns a b c d) = ns" "mg_ReleaseName (NewHelmAdminManager ns a b c d) = d"
  "mg_Values (NewHelmAdminManager ns a b c d) = None"
  "mg_Namespace (NewHelmDeleteManager ns d) = ns" "mg_ReleaseName (NewHelmDeleteManager ns d) = d"
  "mg_Namespace (SetValues v m) = mg_Namespace m" "mg_ReleaseName (SetValues v m) = mg_ReleaseName m"
  "mg_Values (SetValues v m) = v"
  "mg_Namespace (MergeValues u m) = mg_Namespace m" "mg_ReleaseName (MergeValues u m) = mg_ReleaseName m"
  by (simp_all add: NewHelmAdminManager_def NewHelmDeleteManager_def SetValues_def MergeValues_def Let_def)

text \<open>The services uninstall in the way of \<open>uninstall_cases\<close>.\<close>

lemmas uninstall_defs = trivy_EnsureUninstalled_def falco_EnsureUninstalled_def litmus_EnsureUninstalled_def
lemmas install_defs = trivy_EnsureInstalled_def falco_EnsureInstalled_def litmus_EnsureInstalled_def
lemmas health_defs = trivy_CheckHealth_def falco_CheckHealth_def litmus_CheckHealth_def

lemma resolved_default: "ns = '''' \<Longrightarrow> resolvedNamespace ns d = d"
  by (simp add: resolvedNamespace_def)

text \<open>Litmus stops before it touches a release, or installs with the same namespace and release.\<close>

lemma litmus_user_values_cases:
  obtains (fail) e where "litmus_user_values U tool m = failA e"
    | (vals) m' where "litmus_user_values U tool m = retA m'" "mg_Namespace m' = mg_Namespace m"
        "mg_ReleaseName m' = mg_ReleaseName m"
proof (cases "ts_Values (tool_Spec tool)")
  case None
  then show ?thesis by (intro vals [of m]) (simp_all add: litmus_user_values_def)
next
  case (Some raw)
  show ?thesis
  proof (cases "jsonUnmarshalMap U raw")
    case (Inl e)
    have "litmus_user_values U tool m = failA (Wrapped ''decoding helm values'' e '''')"
      by (simp add: litmus_user_values_def Some Inl)
    then show ?thesis by (rule fail)
  next
    case (Inr v)
    show ?thesis
    proof (cases v)
      case None
      show ?thesis by (rule fail) (simp add: litmus_user_values_def Some Inr None)
    next
      case (Some user)
      show ?thesis
        by (rule vals [of "MergeValues user m"])
          (simp_all add: litmus_user_values_def \<open>ts_Values (tool_Spec tool) = Some raw\<close> Inr Some)
    qed
  qed
qed

lemma litmus_install_cases:
  assumes env: "tool_env U S H rels lost nss" and run: "litmus_EnsureInstalled S U H tool w = (r, w')"
  shows "install_promise (tool_namespace litmusNamespace tool) litmusReleaseName rels lost nss w r w'"
proof -
  let ?ns = "tool_namespace litmusNamespace tool"
  let ?m = "SetValues (Some (litmusDefaultValues litmusReleaseName ?ns))
    (NewHelmAdminManager ?ns litmusRepoName litmusRepoURL litmusChart litmusReleaseName)"
  note laws = tool_envD [OF env]
  consider (fail) e where "(litmus_user_values U tool ?m :: ('a, Manager) act) = failA e"
    | (vals) m' where "(litmus_user_values U tool ?m :: ('a, Manager) act) = retA m'"
        "mg_Namespace m' = mg_Namespace ?m" "mg_ReleaseName m' = mg_ReleaseName ?m"
    by (rule litmus_user_values_cases)
  then show ?thesis
  proof cases
    case (fail e)
    with run obtain q where first: "EnsureNamespace S U ?ns w = (q, w')" and r: "\<And>v. r \<noteq> Ret v"
      unfolding litmus_EnsureInstalled_def Let_def tool_namespace_def [symmetric]
      by (auto simp: bindA_def wrapA_def failA_def split: prod.splits res.splits)
    from keepsD [OF EnsureNamespace_keeps_releases [OF laws(2)] first] EnsureNamespace_only [OF laws(3) first] r
      keepsD [OF keeps_k8s(1) [OF laws(7)] first]
    show ?thesis by (auto simp: install_moves_def install_promise_def)
  next
    case (vals m')
    with run have "bindA (wrapA ''ensuring litmus namespace'' (EnsureNamespace S U ?ns))
        (\<lambda>_. wrapA ''installing litmus'' (InstallOrUpgrade H m')) w = (r, w')"
      unfolding litmus_EnsureInstalled_def Let_def tool_namespace_def [symmetric] by simp
    from install_cases [OF env this] vals show ?thesis by simp
  qed
qed

lemma keeps_litmus_user_values [keeps_intros]: "keeps g (litmus_user_values U tool m)"
  unfolding litmus_user_values_def by (intro keeps_intros)

lemma no_panic_litmus_user_values [safe_intros]: "no_panic (litmus_user_values U tool m)"
  unfolding litmus_user_values_def by (intro safe_intros)

lemma services_quiet:
  assumes "helm_quiet H g" "clientset_quiet S g"
  shows "keeps g (trivy_EnsureInstalled S U H tool)" "keeps g (trivy_EnsureUninstalled S U H tool)"
    "keeps g (trivy_CheckHealth S U tool)"
    "keeps g (falco_EnsureInstalled S U H tool)" "keeps g (falco_EnsureUninstalled S U H tool)"
    "keeps g (falco_CheckHealth S U tool)"
    "keeps g (litmus_EnsureInstalled S U H tool)" "keeps g (litmus_EnsureUninstalled S U H tool)"
    "keeps g (litmus_CheckHealth S U tool)"
  unfolding install_defs uninstall_defs health_defs Let_def
  by (intro keeps_intros keeps_k8s [OF assms(2)] keeps_helm_actions [OF assms(1)])+

lemma services_safe:
  "no_panic (trivy_EnsureInstalled S U H tool)" "no_panic (trivy_EnsureUninstalled S U H tool)"
  "no_panic (trivy_CheckHealth S U tool)"
  "no_panic (falco_EnsureInstalled S U H tool)" "no_panic (falco_EnsureUninstalled S U H tool)"
  "no_panic (falco_CheckHealth S U tool)"
  "no_panic (litmus_EnsureInstalled S U H tool)" "no_panic (litmus_EnsureUninstalled S U H tool)"
  "no_panic (litmus_CheckHealth S U tool)"
  unfolding install_defs uninstall_defs health_defs Let_def
  by (intro safe_intros no_panic_k8s no_panic_helm)+

text \<open>The interface, interpreted on each service.\<close>

lemmas tool_managers = manager_simps(1,2,4,5)

interpretation trivy_tool_iface: tool_service trivy_service trivyNamespace trivyReleaseName
proof unfold_locales
  show "install_promise (tool_namespace trivyNamespace tool) trivyReleaseName rels lost nss w r w'"
    if "tool_env U S H rels lost nss" "svc_EnsureInstalled (trivy_service S U H) tool w = (r, w')"
    for U and S :: "'w clientset" and H rels lost nss tool w r w'
    using install_cases [OF that(1) that(2) [unfolded service_simps trivy_EnsureInstalled_def Let_def]]
    by (simp add: tool_namespace_def)
  show "uninstall_promise (ts_Namespace (tool_Spec tool) = '''') (tool_namespace trivyNamespace tool)
      trivyReleaseName rels lost nss w r w'"
    if "tool_env U S H rels lost nss" "svc_EnsureUninstalled (trivy_service S U H) tool w = (r, w')"
    for U and S :: "'w clientset" and H rels lost nss tool w r w'
    using uninstall_cases [OF that(1) that(2) [unfolded service_simps trivy_EnsureUninstalled_def Let_def] refl]
    by (simp add: tool_namespace_def)
qed (simp_all add: services_quiet services_safe)

interpretation falco_tool_iface: tool_service falco_service falcoNamespace falcoReleaseName
proof unfold_locales
  show "install_promise (tool_namespace falcoNamespace tool) falcoReleaseName rels lost nss w r w'"
    if "tool_env U S H rels lost nss" "svc_EnsureInstalled (falco_service S U H) tool w = (r, w')"
    for U and S :: "'w clientset" and H rels lost nss tool w r w'
    using install_cases [OF that(1) that(2) [unfolded service_simps falco_EnsureInstalled_def Let_def]]
    by (simp add: tool_namespace_def)
  show "uninstall_promise (ts_Namespace (tool_Spec tool) = '''') (tool_namespace falcoNamespace tool)
      falcoReleaseName rels lost nss w r w'"
    if "tool_env U S H rels lost nss" "svc_EnsureUninstalled (falco_service S U H) tool w = (r, w')"
    for U and S :: "'w clientset" and H rels lost nss tool w r w'
    using uninstall_cases [OF that(1) that(2) [unfolded service_simps falco_EnsureUninstalled_def Let_def] refl]
    by (simp add: tool_namespace_def)
qed (simp_all add: services_quiet services_safe)

interpretation litmus_tool_iface: tool_service litmus_service litmusNamespace litmusReleaseName
proof unfold_locales
  show "install_promise (tool_namespace litmusNamespace tool) litmusReleaseName rels lost nss w r w'"
    if "tool_env U S H rels lost nss" "svc_EnsureInstalled (litmus_service S U H) tool w = (r, w')"
    for U and S :: "'w clientset" and H rels lost nss tool w r w'
    using litmus_install_cases [OF that(1) that(2) [unfolded service_simps]] .
  show "uninstall_promise (ts_Namespace (tool_Spec tool) = '''') (tool_namespace litmusNamespace tool)
      litmusReleaseName rels lost nss w r w'"
    if "tool_env U S H rels lost nss" "svc_EnsureUninstalled (litmus_service S U H) tool w = (r, w')"
    for U and S :: "'w clientset" and H rels lost nss tool w r w'
    using uninstall_cases [OF that(1) that(2) [unfolded service_simps litmus_EnsureUninstalled_def Let_def] refl]
    by (simp add: tool_namespace_def)
qed (simp_all add: services_quiet services_safe)

text \<open>Each of them is live.\<close>

lemma returns_litmus_user_values: "tool_values_ok U tool \<Longrightarrow> returns (litmus_user_values U tool m)"
  by (auto simp: litmus_user_values_def tool_values_ok_def returns_retA split: option.split)

lemma services_return:
  assumes "healthy_clientset U S"
  shows "healthy_helm H \<Longrightarrow> returns (trivy_EnsureInstalled S U H tool)"
    "healthy_helm H \<Longrightarrow> returns (falco_EnsureInstalled S U H tool)"
    "healthy_helm H \<Longrightarrow> tool_values_ok U tool \<Longrightarrow> returns (litmus_EnsureInstalled S U H tool)"
    "healthy_helm H \<Longrightarrow> returns (trivy_EnsureUninstalled S U H tool)"
    "healthy_helm H \<Longrightarrow> returns (falco_EnsureUninstalled S U H tool)"
    "healthy_helm H \<Longrightarrow> returns (litmus_EnsureUninstalled S U H tool)"
    "returns (trivy_CheckHealth S U tool)" "returns (falco_CheckHealth S U tool)" "returns (litmus_CheckHealth S U tool)"
  unfolding install_defs uninstall_defs health_defs Let_def
  by (intro return_intros returns_tryA returns_k8s [OF assms] returns_helm_actions returns_litmus_user_values; assumption)+

interpretation trivy_tool_live: live_service trivy_service trivyNamespace trivyReleaseName
  by unfold_locales (simp_all add: services_return)

interpretation falco_tool_live: live_service falco_service falcoNamespace falcoReleaseName
  by unfold_locales (simp_all add: services_return)

interpretation litmus_tool_live: live_service litmus_service litmusNamespace litmusReleaseName
  by unfold_locales (simp_all add: services_return)

subsection \<open>Values\<close>

text \<open>
  C26: Litmus is installed with its default values overridden by those of the Tool: where the user's
  document holds anything but an object, the values handed to Helm hold it too, and where the user is
  silent they hold the default. Values that are no JSON object (null included), and those with a number
  that no \<open>float64\<close> holds, are refused: the operation fails once the namespace is there, before it calls
  Helm.
\<close>

theorem litmus_values_merged:
  assumes "json_codec U" "ts_Values (tool_Spec tool) = Some raw"
  shows "case raw of
      JObj ms \<Rightarrow>
        if \<exists>n \<in> set (json_numbers raw). number_overflows n
        then \<exists>e. litmus_EnsureInstalled S U H tool =
          bindA (wrapA ''ensuring litmus namespace'' (EnsureNamespace S U (tool_namespace litmusNamespace tool)))
            (\<lambda>_. failA e)
        else \<exists>m values. mg_Values m = Some values \<and>
          mg_Namespace m = tool_namespace litmusNamespace tool \<and> mg_ReleaseName m = litmusReleaseName \<and>
          litmus_EnsureInstalled S U H tool =
            bindA (wrapA ''ensuring litmus namespace'' (EnsureNamespace S U (tool_namespace litmusNamespace tool)))
              (\<lambda>_. wrapA ''installing litmus'' (InstallOrUpgrade H m)) \<and>
          (\<forall>p v. value_at p (JObj (go_map ms)) = Some v \<and> \<not> is_object v \<longrightarrow> value_at p (JObj values) = Some v) \<and>
          (\<forall>p. silent_at p (go_map ms) \<longrightarrow> value_at p (JObj values) =
             value_at p (JObj (litmusDefaultValues litmusReleaseName (tool_namespace litmusNamespace tool))))
    | _ \<Rightarrow> \<exists>e. litmus_EnsureInstalled S U H tool =
        bindA (wrapA ''ensuring litmus namespace'' (EnsureNamespace S U (tool_namespace litmusNamespace tool)))
          (\<lambda>_. failA e)"
proof -
  let ?ns = "tool_namespace litmusNamespace tool"
  let ?defaults = "litmusDefaultValues litmusReleaseName ?ns"
  let ?m = "SetValues (Some ?defaults)
    (NewHelmAdminManager ?ns litmusRepoName litmusRepoURL litmusChart litmusReleaseName)"
  note shape = litmus_EnsureInstalled_def [of S U H tool, unfolded Let_def tool_namespace_def [symmetric]]
  have refused: "\<exists>e. litmus_EnsureInstalled S U H tool =
      bindA (wrapA ''ensuring litmus namespace'' (EnsureNamespace S U ?ns)) (\<lambda>_. failA e)"
    if "jsonUnmarshalMap U raw = Inr None \<or> (\<exists>e. jsonUnmarshalMap U raw = Inl e)"
  proof -
    from that assms have "\<exists>e. (litmus_user_values U tool ?m :: ('a, Manager) act) = failA e"
      by (auto simp: litmus_user_values_def)
    then show ?thesis by (auto simp: shape)
  qed
  show ?thesis
  proof (cases "\<exists>ms. raw = JObj ms \<and> (\<forall>n \<in> set (json_numbers raw). \<not> number_overflows n)")
    case True
    then obtain ms where raw: "raw = JObj ms" and fits: "\<not> (\<exists>n \<in> set (json_numbers raw). number_overflows n)" by blast
    let ?user = "go_map ms"
    have vals: "mg_Values (MergeValues ?user ?m) = Some (deepMerge ?defaults ?user)"
      by (simp add: MergeValues_def Let_def SetValues_def)
    have "jsonUnmarshalMap U raw = Inr (Some ?user)" using raw fits by (auto simp: json_codecD(2) [OF assms(1)])
    then have run: "litmus_EnsureInstalled S U H tool =
        bindA (wrapA ''ensuring litmus namespace'' (EnsureNamespace S U ?ns))
          (\<lambda>_. wrapA ''installing litmus'' (InstallOrUpgrade H (MergeValues ?user ?m)))"
      using assms by (simp add: shape litmus_user_values_def)
    show ?thesis unfolding if_not_P [OF fits] unfolding raw json.case
      by (intro exI [of _ "MergeValues ?user ?m"] exI [of _ "deepMerge ?defaults ?user"] conjI allI impI vals run)
        (simp_all add: deepMerge_user_wins [OF maps_only_go_map] deepMerge_keeps_defaults [OF maps_only_go_map])
  next
    case False
    then have "jsonUnmarshalMap U raw = Inr None \<or> (\<exists>e. jsonUnmarshalMap U raw = Inl e)"
      using json_codecD(2) [OF assms(1), of raw] by (cases "jsonUnmarshalMap U raw") auto
    with refused False show ?thesis by (cases raw) (auto simp del: json_numbers.simps)
  qed
qed

lemma litmus_values_merged_witness:
  "let tool = (sample_tool ''litmus'')\<lparr>tool_Spec := (tool_Spec (sample_tool ''litmus''))
      \<lparr>ts_Values := Some (JObj [(''portal'', JObj [(''frontend'', JStr ''x'')])])\<rparr>\<rparr>;
      values = deepMerge (litmusDefaultValues litmusReleaseName litmusNamespace)
        [(''portal'', JObj [(''frontend'', JStr ''x'')])] in
    (\<exists>m. litmus_EnsureInstalled mem_clientset mem_util (mem_helm mem_releases mem_releases_update) tool =
        bindA (wrapA ''ensuring litmus namespace'' (EnsureNamespace mem_clientset mem_util litmusNamespace))
          (\<lambda>_. wrapA ''installing litmus'' (InstallOrUpgrade (mem_helm mem_releases mem_releases_update) m))) \<and>
    value_at [''portal'', ''frontend''] (JObj values) = Some (JStr ''x'')"
proof -
  let ?tool = "(sample_tool ''litmus'')\<lparr>tool_Spec := (tool_Spec (sample_tool ''litmus''))
      \<lparr>ts_Values := Some (JObj [(''portal'', JObj [(''frontend'', JStr ''x'')])])\<rparr>\<rparr>"
  have vals: "ts_Values (tool_Spec ?tool) = Some (JObj [(''portal'', JObj [(''frontend'', JStr ''x'')])])"
    and fits: "\<not> (\<exists>n \<in> set (json_numbers (JObj [(''portal'', JObj [(''frontend'', JStr ''x'')])])). number_overflows n)"
    and ns: "tool_namespace litmusNamespace ?tool = litmusNamespace"
    by (simp_all add: tool_namespace_def resolvedNamespace_def sample_tool_def)
  from litmus_values_merged [OF util_contractD(7) [OF mem_util_contract] vals, of mem_clientset "mem_helm mem_releases mem_releases_update"]
  have "\<exists>m. litmus_EnsureInstalled mem_clientset mem_util (mem_helm mem_releases mem_releases_update) ?tool =
        bindA (wrapA ''ensuring litmus namespace'' (EnsureNamespace mem_clientset mem_util litmusNamespace))
          (\<lambda>_. wrapA ''installing litmus'' (InstallOrUpgrade (mem_helm mem_releases mem_releases_update) m))"
    unfolding json.case ns if_not_P [OF fits] by blast
  moreover have "value_at [''portal'', ''frontend''] (JObj (deepMerge
      (litmusDefaultValues litmusReleaseName litmusNamespace) [(''portal'', JObj [(''frontend'', JStr ''x'')])])) = Some (JStr ''x'')"
    by (simp add: litmusDefaultValues_def)
  ultimately show ?thesis by (simp only: Let_def)
qed

end
