(* ===== verification/Factory.thy ===== *)
theory Factory
  imports TrivyEngine FalcoEngine LitmusEngine TrivyReport FalcoReport LitmusReport HelmTools
begin

section \<open>The factories\<close>

text \<open>
  \<open>internal/controller/factory.go\<close>: which implementation serves an object, by its type string. The
  struct \<open>Dependencies\<close> is the client, the runtime and the helpers that the model passes along.
\<close>

definition NewPolicyEngine :: "'w client \<Rightarrow> 'w runtime \<Rightarrow> util \<Rightarrow> Policy \<Rightarrow> go_error + 'w engine" where
  "NewPolicyEngine C R U p =
     (if ps_Type (pol_Spec p) = PolicyTypeFalco then Inr (falco_engine C R U)
      else if ps_Type (pol_Spec p) = PolicyTypeTrivy then Inr (trivy_engine C R U)
      else if ps_Type (pol_Spec p) = PolicyTypeLitmus then Inr (litmus_engine C R U)
      else Inl (Errorf (''unsupported policy type: '' @ ps_Type (pol_Spec p))))"

definition NewToolService :: "'w clientset \<Rightarrow> util \<Rightarrow> 'w helm \<Rightarrow> Tool \<Rightarrow> go_error + 'w tool_service" where
  "NewToolService S U H tool =
     (if ts_Type (tool_Spec tool) = ToolFalco then Inr (falco_service S U H)
      else if ts_Type (tool_Spec tool) = ToolLitmus then Inr (litmus_service S U H)
      else if ts_Type (tool_Spec tool) = ToolTrivy then Inr (trivy_service S U H)
      else Inl (Errorf (''unsupported tool type: '' @ ts_Type (tool_Spec tool))))"

definition NewReportEngine ::
  "'w client \<Rightarrow> 'w runtime \<Rightarrow> util \<Rightarrow> 'w clientset \<Rightarrow> (string \<Rightarrow> string) \<Rightarrow> PolicyReport \<Rightarrow> go_error + 'w handler" where
  "NewReportEngine C R U S E r =
     (if rs_Type (rep_Spec r) = PolicyTypeFalco then Inr (falco_handler C R U S E)
      else if rs_Type (rep_Spec r) = PolicyTypeLitmus then Inr (litmus_handler C R U S E)
      else if rs_Type (rep_Spec r) = PolicyTypeTrivy then Inr (trivy_handler C R U S E)
      else Inl (Errorf (''unknown policy type: '' @ rs_Type (rep_Spec r))))"

lemma NewReportEngine_cases:
  assumes "NewReportEngine C R U S E r = Inr handler"
  obtains (falco) "rs_Type (rep_Spec r) = PolicyTypeFalco" "handler = falco_handler C R U S E"
    | (litmus) "rs_Type (rep_Spec r) = PolicyTypeLitmus" "handler = litmus_handler C R U S E"
    | (trivy) "rs_Type (rep_Spec r) = PolicyTypeTrivy" "handler = trivy_handler C R U S E"
  using assms by (auto simp: NewReportEngine_def split: if_splits)

text \<open>Whatever the type of a tool, its service keeps the promises of the interface.\<close>

definition tool_default_namespace :: "Tool \<Rightarrow> string" where
  "tool_default_namespace tool =
     (if ts_Type (tool_Spec tool) = ToolFalco then falcoNamespace
      else if ts_Type (tool_Spec tool) = ToolLitmus then litmusNamespace else trivyNamespace)"

definition tool_release :: "Tool \<Rightarrow> string" where
  "tool_release tool =
     (if ts_Type (tool_Spec tool) = ToolFalco then falcoReleaseName
      else if ts_Type (tool_Spec tool) = ToolLitmus then litmusReleaseName else trivyReleaseName)"

lemma NewToolService_cases:
  assumes "NewToolService S U H tool = Inr svc"
  obtains (falco) "ts_Type (tool_Spec tool) = ToolFalco" "svc = falco_service S U H"
    | (litmus) "ts_Type (tool_Spec tool) = ToolLitmus" "svc = litmus_service S U H"
    | (trivy) "ts_Type (tool_Spec tool) = ToolTrivy" "svc = trivy_service S U H"
  using assms by (auto simp: NewToolService_def split: if_splits)

text \<open>Case analysis on the engine of a policy.\<close>

lemma NewPolicyEngine_cases:
  assumes "NewPolicyEngine C R U p = Inr engine"
  obtains (falco) "ps_Type (pol_Spec p) = PolicyTypeFalco" "engine = falco_engine C R U"
    | (trivy) "ps_Type (pol_Spec p) = PolicyTypeTrivy" "engine = trivy_engine C R U"
    | (litmus) "ps_Type (pol_Spec p) = PolicyTypeLitmus" "engine = litmus_engine C R U"
  using assms by (auto simp: NewPolicyEngine_def split: if_splits)

subsection \<open>The contract of the engine a policy gets\<close>

text \<open>What the three interpretations give, by the type of the policy.\<close>

definition policy_ready :: "Policy \<Rightarrow> bool" where
  "policy_ready p \<longleftrightarrow>
     (ps_Type (pol_Spec p) = PolicyTypeTrivy \<longrightarrow> trivy_ready p) \<and>
     (ps_Type (pol_Spec p) = PolicyTypeLitmus \<longrightarrow> litmus_ready p)"

definition policy_applicable :: "Policy \<Rightarrow> cluster \<Rightarrow> bool" where
  "policy_applicable p c \<longleftrightarrow>
     (ps_Type (pol_Spec p) = PolicyTypeFalco \<longrightarrow> falco_applicable p c) \<and>
     (ps_Type (pol_Spec p) = PolicyTypeLitmus \<longrightarrow> litmus_applicable p c)"

definition policy_applied :: "util \<Rightarrow> Policy \<Rightarrow> cluster \<Rightarrow> bool" where
  "policy_applied U p c \<longleftrightarrow>
     (ps_Type (pol_Spec p) = PolicyTypeFalco \<longrightarrow> falco_applied U p c) \<and>
     (ps_Type (pol_Spec p) = PolicyTypeTrivy \<longrightarrow> trivy_applied U p c) \<and>
     (ps_Type (pol_Spec p) = PolicyTypeLitmus \<longrightarrow> litmus_applied U p c)"

definition policy_released ::
  "'w client \<Rightarrow> util \<Rightarrow> ('w \<Rightarrow> cluster) \<Rightarrow> Policy \<Rightarrow> 'w \<Rightarrow> cluster \<Rightarrow> bool" where
  "policy_released C U cl p w c \<longleftrightarrow>
     (ps_Type (pol_Spec p) = PolicyTypeFalco \<longrightarrow> falco_released C U cl p w c) \<and>
     (ps_Type (pol_Spec p) = PolicyTypeTrivy \<longrightarrow> trivy_released C U cl p w c) \<and>
     (ps_Type (pol_Spec p) = PolicyTypeLitmus \<longrightarrow> litmus_released C U cl p w c)"

definition policy_cleaned :: "Policy \<Rightarrow> cluster \<Rightarrow> bool" where
  "policy_cleaned p c \<longleftrightarrow>
     (ps_Type (pol_Spec p) = PolicyTypeFalco \<longrightarrow> falco_cleaned p c) \<and>
     (ps_Type (pol_Spec p) = PolicyTypeTrivy \<longrightarrow> trivy_cleaned p c) \<and>
     (ps_Type (pol_Spec p) = PolicyTypeLitmus \<longrightarrow> litmus_cleaned p c)"

definition policy_report_name :: "Policy \<Rightarrow> string" where
  "policy_report_name p =
     (if ps_Type (pol_Spec p) = PolicyTypeFalco then falco_report_name p
      else if ps_Type (pol_Spec p) = PolicyTypeTrivy then trivy_report_name p
      else litmus_report_name p)"

end
