(* ===== verification/ControllerResult.thy ===== *)
theory ControllerResult
  imports Prelude
begin

section \<open>Results of a reconcile\<close>

text \<open>
  \<open>internal/controller/controller_result.go\<close>: \<open>ctrl.Result\<close> with the one field the operator sets, a
  duration in nanoseconds. A reconcile returns such a result and an error that may be nil.
\<close>

record ctrl_result =
  cr_RequeueAfter :: int

type_synonym ctrl_outcome = "ctrl_result \<times> go_error option"

definition second :: int where
  "second = 1000000000"

definition Complete :: ctrl_outcome where
  "Complete = (\<lparr>cr_RequeueAfter = 0\<rparr>, None)"

definition CompleteWithError :: "go_error option \<Rightarrow> ctrl_outcome" where
  "CompleteWithError err = (\<lparr>cr_RequeueAfter = 0\<rparr>, err)"

definition RequeueAfter :: "int \<Rightarrow> ctrl_outcome" where
  "RequeueAfter d = (\<lparr>cr_RequeueAfter = d\<rparr>, None)"

definition RequeueWithError :: "go_error option \<Rightarrow> int \<Rightarrow> ctrl_outcome" where
  "RequeueWithError err d = (\<lparr>cr_RequeueAfter = d\<rparr>, err)"

lemmas ctrl_defs = Complete_def CompleteWithError_def RequeueAfter_def RequeueWithError_def second_def

lemma outcomes_distinct [simp]:
  "Complete \<noteq> RequeueAfter (5 * second)" "RequeueAfter (5 * second) \<noteq> Complete"
  "CompleteWithError (Some e) \<noteq> Complete" "Complete \<noteq> CompleteWithError (Some e)"
  "CompleteWithError err \<noteq> RequeueAfter (5 * second)" "RequeueAfter (5 * second) \<noteq> CompleteWithError err"
  by (simp_all add: ctrl_defs)

text \<open>\<open>return CompleteWithError(err)\<close> for an error that is there.\<close>

definition complete_with :: "go_error \<Rightarrow> ('w, ctrl_outcome) act" where
  "complete_with err = retA (CompleteWithError (Some err))"

lemma keeps_complete_with [keeps_intros]: "keeps g (complete_with err)"
  unfolding complete_with_def by (rule keeps_retA)

lemma no_panic_complete_with [safe_intros]: "no_panic (complete_with err)"
  unfolding complete_with_def by (rule no_panic_retA)

lemma complete_with_act [act_simps]:
  "complete_with err w = (r, w') \<longleftrightarrow> r = Ret (CompleteWithError (Some err)) \<and> w' = w"
  by (simp add: complete_with_def)

end
