(* ===== verification/PolicyController.thy ===== *)
theory PolicyController
  imports Factory ControllerResult SampleCluster
begin

section \<open>The policy controller\<close>

text \<open>
  \<open>internal/controller/policy_controller.go\<close>. The method \<open>Reconcile\<close> is split at its early returns;
  an engine is used through the interface only, so the lemmas about a run are proved once in the
  locale \<open>policy_engine\<close> and reach each engine through its interpretation.
\<close>

subsection \<open>Reconcile\<close>

definition policy_handle_deletion :: "'w client \<Rightarrow> util \<Rightarrow> 'w engine \<Rightarrow> Policy \<Rightarrow> ('w, ctrl_outcome) act" where
  "policy_handle_deletion C U engine policy =
     (if containsFinalizer U (pol_meta policy) PolicyFinalizer then
        tryA (eng_Cleanup engine policy)
          (\<lambda>err. retA (RequeueAfter (5 * second)))
          (\<lambda>_. tryA (callA (k_update (cl_policies C)
                 (policy\<lparr>pol_meta := removeFinalizer U (pol_meta policy) PolicyFinalizer\<rparr>)))
             complete_with
             (\<lambda>_. retA Complete))
      else retA Complete)"

text \<open>The closure given to \<open>CreateOrUpdate\<close> for the report.\<close>

definition policy_report_mutate :: "Policy \<Rightarrow> PolicyReport \<Rightarrow> go_error + PolicyReport" where
  "policy_report_mutate policy report =
     Inr (report\<lparr>rep_Spec := \<lparr>rs_PolicyRef = \<lparr>pr_Name = om_name (pol_meta policy),
         pr_Generation = om_generation (pol_meta policy)\<rparr>, rs_Type = ps_Type (pol_Spec policy)\<rparr>\<rparr>)"

definition reset_report :: "PolicyReport \<Rightarrow> PolicyReport" where
  "reset_report report =
     report\<lparr>rep_Status := (rep_Status report)\<lparr>rst_Phase := ReportPending, rst_Summary := zero_summary,
       rst_Details := None\<rparr>\<rparr>"

definition policy_observed :: "Policy \<Rightarrow> string \<Rightarrow> Policy" where
  "policy_observed policy reportName =
     policy\<lparr>pol_Status := (pol_Status policy)\<lparr>pst_LastReport := reportName,
       pst_ObservedGen := om_generation (pol_meta policy)\<rparr>\<rparr>"

definition policy_publish ::
  "'w client \<Rightarrow> Policy \<Rightarrow> PolicyReport \<Rightarrow> ('w, ctrl_outcome) act" where
  "policy_publish C policy generated =
     (let needsRescan =
        pr_Generation (rs_PolicyRef (rep_Spec generated)) \<noteq> om_generation (pol_meta policy) in
      tryA (callA (k_create_or_update (cl_reports C) generated (policy_report_mutate policy)))
        complete_with
        (\<lambda>report.
      tryA (if needsRescan then callA (k_status_update (cl_reports C) (reset_report report))
            else retA report)
        complete_with
        (\<lambda>report.
      tryA (callA (k_status_update (cl_policies C)
             (policy_observed policy (om_name (rep_meta report)))))
        complete_with
        (\<lambda>_. retA Complete))))"

definition policy_apply :: "'w client \<Rightarrow> 'w engine \<Rightarrow> Policy \<Rightarrow> ('w, ctrl_outcome) act" where
  "policy_apply C engine policy =
     (case eng_Validate engine policy of
        Some err \<Rightarrow> complete_with err
      | None \<Rightarrow>
          tryA (eng_Reconcile engine policy)
            (\<lambda>err. retA (RequeueAfter (5 * second)))
            (\<lambda>_. tryA (eng_GenerateReport engine policy) complete_with (policy_publish C policy)))"

definition policy_with_engine ::
  "'w client \<Rightarrow> util \<Rightarrow> 'w engine \<Rightarrow> Tool \<Rightarrow> Policy \<Rightarrow> ('w, ctrl_outcome) act" where
  "policy_with_engine C U engine tool policy =
     (if om_deletionTimestamp (pol_meta policy) \<noteq> None then policy_handle_deletion C U engine policy
      else if \<not> containsFinalizer U (pol_meta policy) PolicyFinalizer then
        tryA (callA (k_update (cl_policies C)
            (policy\<lparr>pol_meta := addFinalizer U (pol_meta policy) PolicyFinalizer\<rparr>)))
          complete_with (\<lambda>_. retA Complete)
      else (case hasOwnerReference U (om_ownerReferences (pol_meta policy)) (''Tool'', tool_meta tool) of
        Inl err \<Rightarrow> complete_with err
      | Inr False \<Rightarrow>
          (case setOwnerReference U (''Tool'', tool_meta tool) (pol_meta policy) of
             Inl err \<Rightarrow> complete_with err
           | Inr m \<Rightarrow> tryA (callA (k_update (cl_policies C) (policy\<lparr>pol_meta := m\<rparr>)))
               complete_with (\<lambda>_. retA Complete))
      | Inr True \<Rightarrow>
          if \<not> ps_Enabled (pol_Spec policy) then
            tryA (eng_Cleanup engine policy)
              (\<lambda>err. retA (RequeueAfter (5 * second)))
              (\<lambda>_. retA Complete)
          else policy_apply C engine policy))"

definition policy_Reconcile :: "'w client \<Rightarrow> 'w runtime \<Rightarrow> util \<Rightarrow> obj_key \<Rightarrow> ('w, ctrl_outcome) act" where
  "policy_Reconcile C R U key =
     tryA (callA (k_get (cl_policies C) key))
       (\<lambda>err. retA (CompleteWithError (ignoreNotFound U err)))
       (\<lambda>policy.
     tryA (callA (k_get (cl_tools C) (om_namespace (pol_meta policy), ps_Type (pol_Spec policy))))
       (\<lambda>err. complete_with (Wrapped (''failed to get tool '' @ go_quote (ps_Type (pol_Spec policy)) @
            '' from namespace '' @ go_quote (om_namespace (pol_meta policy)) @ ''.'') err ''''))
       (\<lambda>tool.
     case NewPolicyEngine C R U policy of
       Inl err \<Rightarrow> complete_with err
     | Inr engine \<Rightarrow> policy_with_engine C U engine tool policy))"

subsection \<open>What happens to the policies\<close>

text \<open>The metadata and spec of the policies: all a status update leaves alone.\<close>

definition policy_specs :: "cluster \<Rightarrow> obj_key \<rightharpoonup> obj_meta \<times> PolicySpec" where
  "policy_specs c = (\<lambda>k. map_option (\<lambda>p. (pol_meta p, pol_Spec p)) (c_policies c k))"

definition holds_finalizer :: "cluster \<Rightarrow> obj_key \<Rightarrow> bool" where
  "holds_finalizer c k \<longleftrightarrow> (\<exists>p. c_policies c k = Some p \<and> PolicyFinalizer \<in> set (om_finalizers (pol_meta p)))"

lemma holds_finalizer_cong:
  assumes "policy_specs c = policy_specs c'"
  shows "holds_finalizer c k = holds_finalizer c' k"
proof -
  have "map_option (\<lambda>p. (pol_meta p, pol_Spec p)) (c_policies c k) =
      map_option (\<lambda>p. (pol_meta p, pol_Spec p)) (c_policies c' k)"
    using fun_cong [OF assms, of k] by (simp add: policy_specs_def)
  then show ?thesis
    by (cases "c_policies c k"; cases "c_policies c' k") (auto simp: holds_finalizer_def)
qed

lemma keeps_policy_specs:
  "keeps (\<lambda>w. c_policies (cl w)) m \<Longrightarrow> keeps (\<lambda>w. policy_specs (cl w)) m"
  by (auto simp: keeps_def policy_specs_def fun_eq_iff)

lemma policy_status_keeps_specs:
  assumes "api_contract U C cl"
  shows "keeps (\<lambda>w. policy_specs (cl w)) (callA (k_status_update (cl_policies C) x))"
  using keeps_status_update [OF api_contractD(3) [OF assms], of x] by (simp add: policy_specs_def)

lemma keeps_policy_publish:
  assumes "api_contract U C cl"
  shows "keeps (\<lambda>w. policy_specs (cl w)) (policy_publish C policy generated)"
    "keeps (\<lambda>w. (c_tools (cl w), c_jobs (cl w), c_configmaps (cl w), c_engines (cl w)))
       (policy_publish C policy generated)"
  unfolding policy_publish_def Let_def
  by (intro keeps_intros keeps_pair policy_status_keeps_specs [OF assms] keeps_policy_specs
      kind_frame_keeps api_frames [OF assms])+

lemma no_panic_policy_publish: "no_panic (policy_publish C policy generated)"
  unfolding policy_publish_def Let_def by (intro safe_intros)

text \<open>What a finished publication says of the report and of the status of the policy.\<close>

definition report_published :: "Policy \<Rightarrow> string \<Rightarrow> cluster \<Rightarrow> bool" where
  "report_published policy name c \<longleftrightarrow>
     (\<exists>report. c_reports c (om_namespace (pol_meta policy), name) = Some report \<and>
        rep_Spec report = \<lparr>rs_PolicyRef = \<lparr>pr_Name = om_name (pol_meta policy),
           pr_Generation = om_generation (pol_meta policy)\<rparr>, rs_Type = ps_Type (pol_Spec policy)\<rparr>) \<and>
     (\<exists>p. c_policies c (meta_key (pol_meta policy)) = Some p \<and>
        pst_LastReport (pol_Status p) = name \<and>
        pst_ObservedGen (pol_Status p) = om_generation (pol_meta policy))"

lemma policy_report_mutate_Inr:
  "policy_report_mutate policy base = Inr y \<longleftrightarrow>
     y = base\<lparr>rep_Spec := \<lparr>rs_PolicyRef = \<lparr>pr_Name = om_name (pol_meta policy),
         pr_Generation = om_generation (pol_meta policy)\<rparr>, rs_Type = ps_Type (pol_Spec policy)\<rparr>\<rparr>"
  by (auto simp: policy_report_mutate_def)

definition report_is_reset :: "PolicyReport \<Rightarrow> bool" where
  "report_is_reset report \<longleftrightarrow> rst_Phase (rep_Status report) = ReportPending \<and>
     rst_Summary (rep_Status report) = zero_summary \<and> rst_Details (rep_Status report) = None"

lemma policy_observed_key [simp]:
  "kd_key policy_desc (policy_observed policy name) = meta_key (pol_meta policy)"
  by (simp add: kd_key_def policy_observed_def)

lemma reset_report_key [simp]: "kd_key report_desc (reset_report report) = kd_key report_desc report"
  by (simp add: kd_key_def reset_report_def)

text \<open>
  A publication that ends well: the report is there with the policy's generation, the policy's status
  names it, and a report made for another generation has had its status reset.
\<close>

lemma policy_publish_Complete:
  assumes api: "api_contract U C cl" and key: "kd_key report_desc generated = (om_namespace (pol_meta policy), name)"
    and alive: "\<And>old. c_reports (cl w) (om_namespace (pol_meta policy), name) = Some old \<Longrightarrow>
      om_deletionTimestamp (rep_meta old) = None"
    and run: "policy_publish C policy generated w = (Ret Complete, w')"
  shows "report_published policy name (cl w')"
    and "pr_Generation (rs_PolicyRef (rep_Spec generated)) \<noteq> om_generation (pol_meta policy) \<Longrightarrow>
      \<exists>report. c_reports (cl w') (om_namespace (pol_meta policy), name) = Some report \<and> report_is_reset report"
    and "pr_Generation (rs_PolicyRef (rep_Spec generated)) = om_generation (pol_meta policy) \<Longrightarrow>
      c_reports (cl w) (om_namespace (pol_meta policy), name) = Some old \<Longrightarrow>
      \<exists>report. c_reports (cl w') (om_namespace (pol_meta policy), name) = Some report \<and>
        rep_Status report = rep_Status old"
proof -
  let ?k = "(om_namespace (pol_meta policy), name)"
  let ?rescan = "pr_Generation (rs_PolicyRef (rep_Spec generated)) \<noteq> om_generation (pol_meta policy)"
  let ?spec = "\<lparr>rs_PolicyRef = \<lparr>pr_Name = om_name (pol_meta policy),
           pr_Generation = om_generation (pol_meta policy)\<rparr>, rs_Type = ps_Type (pol_Spec policy)\<rparr>"
  note reports = api_contractD(4) [OF api]
  from run obtain r1 w1 r2 w2 p where
    upsert: "k_create_or_update (cl_reports C) generated (policy_report_mutate policy) w = (Inr r1, w1)" and
    reset: "(if ?rescan then callA (k_status_update (cl_reports C) (reset_report r1)) else retA r1) w1 = (Ret r2, w2)" and
    status: "k_status_update (cl_policies C) (policy_observed policy (om_name (rep_meta r2))) w2 = (Inr p, w')"
    unfolding policy_publish_def by (auto simp: act_simps Let_def)
  from reports upsert obtain base y where
    base: "base = (case c_reports (cl w) ?k of None \<Rightarrow> generated | Some old \<Rightarrow> old)"
      "policy_report_mutate policy base = Inr y" and
    r1: "written (rep_meta y) (rep_meta r1)" "rep_Spec r1 = rep_Spec y"
      "c_reports (cl w1) = (c_reports (cl w))(?k \<mapsto> r1)"
      "\<And>old. c_reports (cl w) ?k = Some old \<Longrightarrow> rep_Status r1 = rep_Status old"
    by (rule create_or_update_Ret) (auto simp: key alive)
  have "kd_key report_desc base = ?k"
    using base(1) key kd_keyed [OF reports, of w ?k] by (auto split: option.splits)
  then have r1_key: "kd_key report_desc r1 = ?k"
    using base(2) r1(1) by (auto simp: policy_report_mutate_Inr kd_key_def meta_key_def written_def)
  have r1_spec: "rep_Spec r1 = ?spec" using base(2) r1(2) by (simp add: policy_report_mutate_Inr)
  have r2: "c_reports (cl w2) ?k = Some r2 \<and> rep_Spec r2 = ?spec \<and> om_name (rep_meta r2) = name \<and>
      (?rescan \<longrightarrow> report_is_reset r2)"
  proof (cases ?rescan)
    case False
    with reset r1_key r1(3) r1_spec show ?thesis by (auto simp: kd_key_def meta_key_def)
  next
    case True
    with reset have "k_status_update (cl_reports C) (reset_report r1) w1 = (Inr r2, w2)"
      by (simp add: act_simps)
    with reports show ?thesis
      by (cases rule: status_update_Ret)
        (use r1_key r1(3) r1_spec in \<open>auto simp: report_is_reset_def reset_report_def kd_key_def meta_key_def\<close>)
  qed
  have same: "c_reports (cl w') = c_reports (cl w2)"
    using keepsD [OF kind_frame_keeps(5) [OF api_frames(7) [OF api]], of _ w2 "Ret p" w'] status
    by (simp add: act_simps)
  from api_contractD(3) [OF api] status
  show "report_published policy name (cl w')"
    by (cases rule: status_update_Ret) (use r2 same in \<open>auto simp: report_published_def policy_observed_def kd_key_def\<close>)
  show "\<exists>report. c_reports (cl w') ?k = Some report \<and> report_is_reset report" if ?rescan
    using that r2 same by auto
  show "\<exists>report. c_reports (cl w') ?k = Some report \<and> rep_Status report = rep_Status old"
    if "pr_Generation (rs_PolicyRef (rep_Spec generated)) = om_generation (pol_meta policy)"
      "c_reports (cl w) ?k = Some old"
    using that reset r1(3,4) same by auto
qed

subsection \<open>A run with any engine\<close>

lemma policy_update_specs:
  assumes "api_contract U C cl" "k_update (cl_policies C) x w = (r, w')"
  shows "all_but_policies (cl w') = all_but_policies (cl w)"
  using kind_frame_keeps(4) [OF api_all_but_frames(2) [OF assms(1)]] assms(2) by (rule keeps_callAD)

context policy_engine
begin

lemma released_unless_policies:
  assumes "all_but_policies c = all_but_policies c'"
  shows "released C U cl p w c = released C U cl p w c'"
  using assms by (intro released_frame) (auto simp: all_but_policies_def same_workloads_def)

text \<open>Deletion: whatever the update answers, the finalizer is only given up after a cleanup.\<close>

lemma deletion_run:
  assumes "api_contract U C cl" "runtime_contract R"
    and "c_policies (cl w) (meta_key (pol_meta p)) = Some p"
    and "policy_handle_deletion C U (mk C R U) p w = (r, w')"
  shows "holds_finalizer (cl w) k \<Longrightarrow> holds_finalizer (cl w') k \<or> released C U cl p w (cl w')"
    and "r = Ret Complete \<Longrightarrow> PolicyFinalizer \<in> set (om_finalizers (pol_meta p)) \<Longrightarrow>
      released C U cl p w (cl w') \<and> \<not> holds_finalizer (cl w') (meta_key (pol_meta p))"
proof -
  note util = util_contractD [OF api_contractD(1) [OF assms(1)]]
  let ?p = "p\<lparr>pol_meta := removeFinalizer U (pol_meta p) PolicyFinalizer\<rparr>"
  from assms(4) consider
      (none) "PolicyFinalizer \<notin> set (om_finalizers (pol_meta p))" "w' = w"
    | (failed) e where "eng_Cleanup (mk C R U) p w = (Fail e, w')" "r = Ret (RequeueAfter (5 * second))"
    | (panic) t where "eng_Cleanup (mk C R U) p w = (Panic t, w')" "r = Panic t"
    | (cleaned) w1 e where "eng_Cleanup (mk C R U) p w = (Ret (), w1)"
        "k_update (cl_policies C) ?p w1 = (Inl e, w')" "r = Ret (CompleteWithError (Some e))"
    | (removed) w1 x where "eng_Cleanup (mk C R U) p w = (Ret (), w1)"
        "k_update (cl_policies C) ?p w1 = (Inr x, w')"
    unfolding policy_handle_deletion_def by (auto simp: act_simps util(2) split: if_splits)
  then have *: "(holds_finalizer (cl w) k \<longrightarrow> holds_finalizer (cl w') k \<or> released C U cl p w (cl w')) \<and>
    (r = Ret Complete \<longrightarrow> PolicyFinalizer \<in> set (om_finalizers (pol_meta p)) \<longrightarrow>
      released C U cl p w (cl w') \<and> \<not> holds_finalizer (cl w') (meta_key (pol_meta p)))"
  proof cases
    case none
    then show ?thesis by simp
  next
    case failed
    then show ?thesis using cleanup_frame(2) [OF assms(1) failed(1)] by (simp add: holds_finalizer_def)
  next
    case panic
    then show ?thesis using cleanup_frame(2) [OF assms(1) panic(1)] by (simp add: holds_finalizer_def)
  next
    case cleaned
    have "released C U cl p w (cl w1)" by (rule cleanup_released [OF assms(1,2) cleaned(1)])
    with released_unless_policies [OF policy_update_specs [OF assms(1) cleaned(2)]] cleaned(3) show ?thesis
      by simp
  next
    case removed
    have "released C U cl p w (cl w1)" by (rule cleanup_released [OF assms(1,2) removed(1)])
    with released_unless_policies [OF policy_update_specs [OF assms(1) removed(2)]]
    have "released C U cl p w (cl w')" by simp
    obtain fs where fs: "removeFinalizer U (pol_meta p) PolicyFinalizer = (pol_meta p)\<lparr>om_finalizers := fs\<rparr>"
      "set fs = set (om_finalizers (pol_meta p)) - {PolicyFinalizer}" using util(4) by blast
    from api_contractD(3) [OF assms(1)] removed(2)
    have "\<not> holds_finalizer (cl w') (meta_key (pol_meta p))"
      by (cases rule: update_Ret)
        (use fs in \<open>auto simp: holds_finalizer_def store_after_def kd_key_def meta_key_def
           updated_from_def written_def\<close>)
    with \<open>released C U cl p w (cl w')\<close> show ?thesis by simp
  qed
  then show "holds_finalizer (cl w) k \<Longrightarrow> holds_finalizer (cl w') k \<or> released C U cl p w (cl w')"
    and "r = Ret Complete \<Longrightarrow> PolicyFinalizer \<in> set (om_finalizers (pol_meta p)) \<Longrightarrow>
      released C U cl p w (cl w') \<and> \<not> holds_finalizer (cl w') (meta_key (pol_meta p))" by blast+
qed

lemma keeps_apply:
  assumes "api_contract U C cl"
  shows "keeps (\<lambda>w. policy_specs (cl w)) (policy_apply C (mk C R U) p)"
proof -
  have "keeps (\<lambda>w. policy_specs (cl w)) (eng_Reconcile (mk C R U) p)"
    by (rule keeps_weaken [OF reconcile_keeps [OF assms]]) (simp add: policy_specs_def)
  moreover have "keeps (\<lambda>w. policy_specs (cl w)) (eng_GenerateReport (mk C R U) p)"
    by (rule keeps_weaken [OF generate_keeps [OF assms]]) simp
  ultimately show ?thesis
    unfolding policy_apply_def by (intro keeps_intros keeps_policy_publish(1) [OF assms])
qed

lemma no_panic_apply:
  shows "no_panic (policy_apply C (mk C R U) p)"
proof (cases "eng_Validate (mk C R U) p")
  case None
  from reconcile_safe [OF validate_ready [OF None]] show ?thesis
    by (simp add: policy_apply_def None) (intro safe_intros generate_safe no_panic_policy_publish)
qed (simp add: policy_apply_def no_panic_complete_with)

lemma no_panic_with_engine:
  assumes "ready p"
  shows "no_panic (policy_with_engine C U (mk C R U) tool p)"
  unfolding policy_with_engine_def policy_handle_deletion_def
  by (intro safe_intros no_panic_apply cleanup_safe [OF assms])

text \<open>Every other path leaves a finalizer where it is.\<close>

lemma with_engine_finalizer:
  assumes "api_contract U C cl" "runtime_contract R"
    and stored: "c_policies (cl w) (meta_key (pol_meta p)) = Some p"
    and run: "policy_with_engine C U (mk C R U) tool p w = (r, w')"
    and holds: "holds_finalizer (cl w) (meta_key (pol_meta p))"
  shows "holds_finalizer (cl w') (meta_key (pol_meta p)) \<or>
    om_deletionTimestamp (pol_meta p) \<noteq> None \<and> released C U cl p w (cl w')"
proof (cases "om_deletionTimestamp (pol_meta p)")
  case (Some t)
  with run have "policy_handle_deletion C U (mk C R U) p w = (r, w')"
    by (simp add: policy_with_engine_def)
  from deletion_run(1) [OF assms(1,2) stored this holds] Some show ?thesis by simp
next
  case None
  let ?k = "meta_key (pol_meta p)"
  note util = util_contractD [OF api_contractD(1) [OF assms(1)]]
  from holds stored have "PolicyFinalizer \<in> set (om_finalizers (pol_meta p))"
    by (simp add: holds_finalizer_def)
  with None run consider
      (kept) "policy_specs (cl w') = policy_specs (cl w)"
    | (owner) m r1 where "setOwnerReference U (''Tool'', tool_meta tool) (pol_meta p) = Inr m"
        "k_update (cl_policies C) (p\<lparr>pol_meta := m\<rparr>) w = (r1, w')"
    unfolding policy_with_engine_def
    by (auto simp: util(2) act_simps policy_specs_def split: sum.splits bool.splits if_splits
        dest: cleanup_frame(2) [OF assms(1)] keepsD [OF keeps_apply [OF assms(1)]])
  then show ?thesis
  proof cases
    case kept
    from holds_finalizer_cong [OF kept] holds show ?thesis by simp
  next
    case owner
    from util(5) [OF owner(1)] obtain rs where m: "m = (pol_meta p)\<lparr>om_ownerReferences := rs\<rparr>" by blast
    from api_contractD(3) [OF assms(1)] owner(2) show ?thesis
    proof (cases rule: update_any)
      case same
      with holds show ?thesis by (simp add: holds_finalizer_def)
    next
      case (changed x')
      have key: "kd_key policy_desc (p\<lparr>pol_meta := m\<rparr>) = ?k" by (simp add: m kd_key_def meta_key_def)
      from changed stored None have "c_policies (cl w') ?k = Some x'"
        "om_finalizers (pol_meta x') = om_finalizers (pol_meta p)"
        unfolding update_effect_def key
        by (auto simp: store_after_def updated_from_def written_def m)
      with holds stored show ?thesis by (simp add: holds_finalizer_def)
    qed
  qed
qed

text \<open>Nothing but the policy is written before the finalizer is there.\<close>

lemma with_engine_guard:
  assumes "api_contract U C cl" "policy_with_engine C U (mk C R U) tool p w = (r, w')"
    and "PolicyFinalizer \<notin> set (om_finalizers (pol_meta p))"
  shows "all_but_policies (cl w') = all_but_policies (cl w)"
proof -
  note util = util_contractD [OF api_contractD(1) [OF assms(1)]]
  from assms(2,3) have "w' = w \<or> (\<exists>x r1. k_update (cl_policies C) x w = (r1, w'))"
    unfolding policy_with_engine_def policy_handle_deletion_def
    by (auto simp: util(2) act_simps split: if_splits)
  then show ?thesis using policy_update_specs [OF assms(1)] by auto
qed

lemma with_engine_disabled:
  assumes "api_contract U C cl" "runtime_contract R"
    and "policy_with_engine C U (mk C R U) tool p w = (Ret Complete, w')"
    and "om_deletionTimestamp (pol_meta p) = None" "PolicyFinalizer \<in> set (om_finalizers (pol_meta p))"
    and "hasOwnerReference U (om_ownerReferences (pol_meta p)) (''Tool'', tool_meta tool) = Inr True"
    and "\<not> ps_Enabled (pol_Spec p)"
  shows "released C U cl p w (cl w') \<and> c_policies (cl w') = c_policies (cl w)"
proof -
  from assms(3-) obtain u where "eng_Cleanup (mk C R U) p w = (Ret u, w')"
    unfolding policy_with_engine_def
    by (auto simp: util_contractD(2) [OF api_contractD(1) [OF assms(1)]] act_simps)
  then show ?thesis using cleanup_released [OF assms(1,2)] cleanup_frame(2) [OF assms(1)] by blast
qed

lemma apply_invalid:
  assumes "eng_Validate (mk C R U) p = Some err"
  shows "policy_apply C (mk C R U) p w = (Ret (CompleteWithError (Some err)), w)"
  by (simp add: policy_apply_def assms complete_with_def retA_def)

lemma apply_Complete:
  assumes api: "api_contract U C cl" "runtime_contract R"
    and run: "policy_apply C (mk C R U) p w = (Ret Complete, w')"
    and app: "applicable p (cl w)"
    and alive: "\<And>old. c_reports (cl w) (om_namespace (pol_meta p), report_name p) = Some old \<Longrightarrow>
      om_deletionTimestamp (rep_meta old) = None"
  shows "ps_Type (pol_Spec p) = ptype" "applied U p (cl w')" "report_published p (report_name p) (cl w')"
proof -
  from run obtain w1 w2 generated where
    valid: "eng_Validate (mk C R U) p = None" and
    rec: "eng_Reconcile (mk C R U) p w = (Ret (), w1)" and
    gen: "eng_GenerateReport (mk C R U) p w1 = (Ret generated, w2)" and
    pub: "policy_publish C p generated w2 = (Ret Complete, w')"
    unfolding policy_apply_def by (auto simp: act_simps split: option.splits)
  from valid show "ps_Type (pol_Spec p) = ptype" by (rule validate_type)
  have "applied U p (cl w1)"
    by (rule reconcile_applied [OF api app rec])
  moreover have "same_workloads (cl w1) (cl w')"
    using keepsD [OF keeps_policy_publish(2) [OF api(1)] pub] generate_frame [OF api(1) gen]
    by (simp add: same_workloads_def)
  ultimately show "applied U p (cl w')" by (simp add: applied_frame)
  have "c_reports (cl w2) = c_reports (cl w)"
    using reconcile_frame(3) [OF api(1) rec] generate_frame [OF api(1) gen] by simp
  then show "report_published p (report_name p) (cl w')"
    by (intro policy_publish_Complete(1) [OF api(1) generate_report [OF api(1) gen] _ pub]) (simp add: alive)
qed

end

subsection \<open>A run of the controller\<close>

text \<open>The world in which a run comes to the engine: that after the reads of the policy and of its Tool.\<close>

definition policy_reads :: "'w client \<Rightarrow> obj_key \<Rightarrow> Policy \<Rightarrow> 'w \<Rightarrow> 'w" where
  "policy_reads C key p w = snd (k_get (cl_tools C) (om_namespace (pol_meta p), ps_Type (pol_Spec p))
     (snd (k_get (cl_policies C) key w)))"

lemma policy_Reconcile_cases:
  assumes "api_contract U C cl" "policy_Reconcile C R U key w = (r, w')"
  obtains (early) e where "cl w' = cl w" "r = Ret (CompleteWithError e)"
      "c_policies (cl w) key = None \<or> e \<noteq> None"
    | (engine) p tool engine w2 where "c_policies (cl w) key = Some p" "meta_key (pol_meta p) = key"
      "c_tools (cl w) (om_namespace (pol_meta p), ps_Type (pol_Spec p)) = Some tool"
      "NewPolicyEngine C R U p = Inr engine" "cl w2 = cl w"
      "policy_with_engine C U engine tool p w2 = (r, w')" "w2 = policy_reads C key p w"
proof -
  note same = keepsD [OF api_reads_cluster(1) [OF assms(1)]] keepsD [OF api_reads_cluster(2) [OF assms(1)]]
  note policies = api_contractD(3) [OF assms(1)] and tools = api_contractD(2) [OF assms(1)]
  note util = util_contractD(1) [OF api_contractD(1) [OF assms(1)]]
  show thesis
  proof (cases "k_get (cl_policies C) key w")
    case (Pair g w1)
    show thesis
    proof (cases g)
      case (Inl err)
      then have "cl w1 = cl w" using same(2) [of key w "Fail err" w1] Pair by (simp add: act_simps)
      moreover have "isNotFound U err \<Longrightarrow> c_policies (cl w) key = None"
        using get_Fail(1) [OF policies] Pair Inl by simp
      ultimately show thesis using assms(2) Pair Inl
        by (intro early) (auto simp: policy_Reconcile_def act_simps util split: if_splits)
    next
      case (Inr p)
      then have w1: "cl w1 = cl w" using same(2) [of key w "Ret p" w1] Pair by (simp add: act_simps)
      have p: "c_policies (cl w) key = Some p" "meta_key (pol_meta p) = key"
        using get_Ret(1) [OF policies] get_key [OF policies] Pair Inr by (auto simp: kd_key_def)
      obtain t w2 where t: "k_get (cl_tools C) (om_namespace (pol_meta p), ps_Type (pol_Spec p)) w1 = (t, w2)"
        by fastforce
      show thesis
      proof (cases t)
        case (Inl err)
        then have "cl w2 = cl w" using same(1) [of _ w1 "Fail err" w2] t w1 by (simp add: act_simps)
        then show thesis using assms(2) Pair Inr t Inl
          by (intro early) (auto simp: policy_Reconcile_def act_simps)
      next
        case (Inr tool)
        then have w2: "cl w2 = cl w" using same(1) [of _ w1 "Ret tool" w2] t w1 by (simp add: act_simps)
        have tool: "c_tools (cl w) (om_namespace (pol_meta p), ps_Type (pol_Spec p)) = Some tool"
          using get_Ret(1) [OF tools t [unfolded Inr]] w1 by simp
        from assms(2) Pair \<open>g = Inr p\<close> t Inr have run:
          "(case NewPolicyEngine C R U p of Inl err \<Rightarrow> complete_with err
            | Inr engine \<Rightarrow> policy_with_engine C U engine tool p) w2 = (r, w')"
          by (auto simp: policy_Reconcile_def act_simps)
        show thesis
        proof (cases "NewPolicyEngine C R U p")
          case (Inl err)
          with run w2 show thesis by (intro early) (auto simp: act_simps)
        next
          case (Inr engine)
          with run Pair t show thesis by (intro engine [OF p tool Inr w2]) (simp_all add: policy_reads_def)
        qed
      qed
    qed
  qed
qed

text \<open>Without the Tool of its type a policy is left alone, one that is being deleted included.\<close>

lemma policy_without_tool:
  assumes "api_contract U C cl" "policy_Reconcile C R U key w = (r, w')"
    and "c_policies (cl w) key = Some p"
    and "c_tools (cl w) (om_namespace (pol_meta p), ps_Type (pol_Spec p)) = None"
  shows "\<exists>err. r = Ret (CompleteWithError (Some err))" "cl w' = cl w"
  using assms(1,2) by (cases rule: policy_Reconcile_cases; use assms(3,4) in auto)+

lemma policy_released_type:
  "ps_Type (pol_Spec p) = PolicyTypeFalco \<Longrightarrow> policy_released C U cl p w c = falco_released C U cl p w c"
  "ps_Type (pol_Spec p) = PolicyTypeTrivy \<Longrightarrow> policy_released C U cl p w c = trivy_released C U cl p w c"
  "ps_Type (pol_Spec p) = PolicyTypeLitmus \<Longrightarrow> policy_released C U cl p w c = litmus_released C U cl p w c"
  by (auto simp: policy_released_def)

lemma policy_cleaned_type:
  "ps_Type (pol_Spec p) = PolicyTypeFalco \<Longrightarrow> policy_cleaned p c = falco_cleaned p c"
  "ps_Type (pol_Spec p) = PolicyTypeTrivy \<Longrightarrow> policy_cleaned p c = trivy_cleaned p c"
  "ps_Type (pol_Spec p) = PolicyTypeLitmus \<Longrightarrow> policy_cleaned p c = litmus_cleaned p c"
  by (auto simp: policy_cleaned_def)

lemma policy_applied_type:
  "ps_Type (pol_Spec p) = PolicyTypeFalco \<Longrightarrow> policy_applied U p c = falco_applied U p c"
  "ps_Type (pol_Spec p) = PolicyTypeTrivy \<Longrightarrow> policy_applied U p c = trivy_applied U p c"
  "ps_Type (pol_Spec p) = PolicyTypeLitmus \<Longrightarrow> policy_applied U p c = litmus_applied U p c"
  by (auto simp: policy_applied_def)

text \<open>The lemmas of the interface, for the engine that the factory picks.\<close>

lemma engine_finalizer:
  assumes "api_contract U C cl" "runtime_contract R" "NewPolicyEngine C R U p = Inr engine"
    and "c_policies (cl w) (meta_key (pol_meta p)) = Some p"
    and "policy_with_engine C U engine tool p w = (r, w')"
    and "holds_finalizer (cl w) (meta_key (pol_meta p))"
  shows "holds_finalizer (cl w') (meta_key (pol_meta p)) \<or>
    om_deletionTimestamp (pol_meta p) \<noteq> None \<and> policy_released C U cl p w (cl w')"
  using assms(3)
  by (cases rule: NewPolicyEngine_cases)
    (use falco_iface.with_engine_finalizer [OF assms(1,2,4) _ assms(6)]
       trivy_iface.with_engine_finalizer [OF assms(1,2,4) _ assms(6)]
       litmus_iface.with_engine_finalizer [OF assms(1,2,4) _ assms(6)] assms(5)
     in \<open>auto simp: policy_released_type\<close>)

lemma engine_guard:
  assumes "api_contract U C cl" "NewPolicyEngine C R U p = Inr engine"
    and "policy_with_engine C U engine tool p w = (r, w')"
    and "PolicyFinalizer \<notin> set (om_finalizers (pol_meta p))"
  shows "all_but_policies (cl w') = all_but_policies (cl w)"
  using assms(2)
  by (cases rule: NewPolicyEngine_cases)
    (use falco_iface.with_engine_guard [OF assms(1) _ assms(4)] trivy_iface.with_engine_guard [OF assms(1) _ assms(4)]
       litmus_iface.with_engine_guard [OF assms(1) _ assms(4)] assms(3) in blast)+

lemma engine_disabled:
  assumes "api_contract U C cl" "runtime_contract R" "NewPolicyEngine C R U p = Inr engine"
    and "policy_with_engine C U engine tool p w = (Ret Complete, w')"
    and "om_deletionTimestamp (pol_meta p) = None" "PolicyFinalizer \<in> set (om_finalizers (pol_meta p))"
    and "hasOwnerReference U (om_ownerReferences (pol_meta p)) (''Tool'', tool_meta tool) = Inr True"
    and "\<not> ps_Enabled (pol_Spec p)"
  shows "policy_released C U cl p w (cl w') \<and> c_policies (cl w') = c_policies (cl w)"
  using assms(3)
  by (cases rule: NewPolicyEngine_cases)
    (use falco_iface.with_engine_disabled [OF assms(1,2) _ assms(5-8)]
       trivy_iface.with_engine_disabled [OF assms(1,2) _ assms(5-8)]
       litmus_iface.with_engine_disabled [OF assms(1,2) _ assms(5-8)] assms(4)
     in \<open>auto simp: policy_released_type\<close>)

lemma engine_no_panic:
  assumes "NewPolicyEngine C R U p = Inr engine" "policy_ready p"
  shows "no_panic (policy_with_engine C U engine tool p)"
  using assms(1)
  by (cases rule: NewPolicyEngine_cases)
    (use assms(2) falco_iface.no_panic_with_engine trivy_iface.no_panic_with_engine
       litmus_iface.no_panic_with_engine in \<open>auto simp: policy_ready_def\<close>)

lemma engine_deletion:
  assumes "api_contract U C cl" "runtime_contract R" "NewPolicyEngine C R U p = Inr engine"
    and "c_policies (cl w) (meta_key (pol_meta p)) = Some p"
    and "policy_handle_deletion C U engine p w = (Ret Complete, w')"
    and "PolicyFinalizer \<in> set (om_finalizers (pol_meta p))"
  shows "policy_released C U cl p w (cl w') \<and> \<not> holds_finalizer (cl w') (meta_key (pol_meta p))"
  using assms(3)
  by (cases rule: NewPolicyEngine_cases)
    (use falco_iface.deletion_run(2) [OF assms(1,2,4) _ refl assms(6)]
       trivy_iface.deletion_run(2) [OF assms(1,2,4) _ refl assms(6)]
       litmus_iface.deletion_run(2) [OF assms(1,2,4) _ refl assms(6)] assms(5)
     in \<open>auto simp: policy_released_type\<close>)

text \<open>The policy is past its preparation: no deletion, the finalizer and the owner are there.\<close>

definition policy_prepared :: "util \<Rightarrow> cluster \<Rightarrow> Policy \<Rightarrow> bool" where
  "policy_prepared U c p \<longleftrightarrow> om_deletionTimestamp (pol_meta p) = None \<and>
     PolicyFinalizer \<in> set (om_finalizers (pol_meta p)) \<and>
     (case c_tools c (om_namespace (pol_meta p), ps_Type (pol_Spec p)) of
        None \<Rightarrow> False
      | Some tool \<Rightarrow>
          hasOwnerReference U (om_ownerReferences (pol_meta p)) (''Tool'', tool_meta tool) = Inr True)"

lemma prepared_with_engine:
  assumes "util_contract U" "policy_prepared U c p"
    and "c_tools c (om_namespace (pol_meta p), ps_Type (pol_Spec p)) = Some tool"
  shows "policy_with_engine C U engine tool p =
    (if \<not> ps_Enabled (pol_Spec p) then
       tryA (eng_Cleanup engine p) (\<lambda>err. retA (RequeueAfter (5 * second))) (\<lambda>_. retA Complete)
     else policy_apply C engine p)"
  using assms(2,3) unfolding policy_with_engine_def policy_prepared_def
  by (auto simp: util_contractD(2) [OF assms(1)] split: option.splits)

lemma engine_apply_Complete:
  assumes "api_contract U C cl" "runtime_contract R" "NewPolicyEngine C R U p = Inr engine"
    and "policy_apply C engine p w = (Ret Complete, w')" "policy_applicable p (cl w)"
    and "\<And>old. c_reports (cl w) (om_namespace (pol_meta p), policy_report_name p) = Some old \<Longrightarrow>
      om_deletionTimestamp (rep_meta old) = None"
  shows "policy_applied U p (cl w') \<and> report_published p (policy_report_name p) (cl w')"
  using assms(3)
proof (cases rule: NewPolicyEngine_cases)
  case falco
  with falco_iface.apply_Complete [OF assms(1,2), of p w w'] assms(4-6) show ?thesis
    by (simp add: policy_applied_type policy_applicable_def policy_report_name_def)
next
  case trivy
  with trivy_iface.apply_Complete [OF assms(1,2), of p w w'] assms(4-6) show ?thesis
    by (simp add: policy_applied_type policy_applicable_def policy_report_name_def)
next
  case litmus
  with litmus_iface.apply_Complete [OF assms(1,2), of p w w'] assms(4-6) show ?thesis
    by (simp add: policy_applied_type policy_applicable_def policy_report_name_def)
qed

text \<open>The first write to a policy adds the finalizer.\<close>

lemma with_engine_adds_finalizer:
  assumes "api_contract U C cl" "c_policies (cl w) (meta_key (pol_meta p)) = Some p"
    and "om_deletionTimestamp (pol_meta p) = None" "PolicyFinalizer \<notin> set (om_finalizers (pol_meta p))"
    and "policy_with_engine C U engine tool p w = (Ret Complete, w')"
  shows "holds_finalizer (cl w') (meta_key (pol_meta p))"
proof -
  note util = util_contractD [OF api_contractD(1) [OF assms(1)]]
  obtain fs where fs: "addFinalizer U (pol_meta p) PolicyFinalizer = (pol_meta p)\<lparr>om_finalizers := fs\<rparr>"
    "set fs = insert PolicyFinalizer (set (om_finalizers (pol_meta p)))" using util(3) by blast
  have key: "kd_key policy_desc (p\<lparr>pol_meta := (pol_meta p)\<lparr>om_finalizers := fs\<rparr>\<rparr>) = meta_key (pol_meta p)"
    by (simp add: kd_key_def meta_key_def)
  from assms(3-5) obtain x where
    "k_update (cl_policies C) (p\<lparr>pol_meta := (pol_meta p)\<lparr>om_finalizers := fs\<rparr>\<rparr>) w = (Inr x, w')"
    unfolding policy_with_engine_def by (auto simp: util(2) fs(1) act_simps)
  with api_contractD(3) [OF assms(1)] show ?thesis
    by (cases rule: update_Ret)
      (use assms(2,3) fs(2) key in \<open>auto simp: holds_finalizer_def store_after_def updated_from_def written_def\<close>)
qed

text \<open>A Trivy report of an older generation is found by \<open>GenerateReport\<close>, if reading it works.\<close>

lemma trivy_GenerateReport_existing:
  assumes "api_contract U C cl" "trivy_GenerateReport C U policy w = (Ret r, w')"
    and "c_reports (cl w) (om_namespace (pol_meta policy), trivy_report_name policy) = Some old"
    and "\<And>w x. c_reports (cl w) k = Some x \<Longrightarrow> fst (k_get (cl_reports C) k w) = Inr x"
    and "k = (om_namespace (pol_meta policy), trivy_report_name policy)"
  shows "r = old"
proof -
  from assms(3-5) have "fst (k_get (cl_reports C) k w) = Inr old" by simp
  then obtain w1 where "k_get (cl_reports C) k w = (Inr old, w1)" by (metis prod.collapse)
  with assms(2,5) show ?thesis
    by (auto simp: trivy_GenerateReport_def tryA_act callA_act)
qed

lemma trivy_apply_rescan:
  assumes api: "api_contract U C cl"
    and run: "policy_apply C (trivy_engine C R U) p w = (Ret Complete, w')"
    and k: "k = (om_namespace (pol_meta p), trivy_report_name p)"
    and old: "c_reports (cl w) k = Some old" "om_deletionTimestamp (rep_meta old) = None"
      "pr_Generation (rs_PolicyRef (rep_Spec old)) \<noteq> om_generation (pol_meta p)"
    and reads: "\<And>w x. c_reports (cl w) k = Some x \<Longrightarrow> fst (k_get (cl_reports C) k w) = Inr x"
  shows "\<exists>report. c_reports (cl w') k = Some report \<and> report_is_reset report"
proof -
  from run obtain w1 w2 generated where
    rec: "eng_Reconcile (trivy_engine C R U) p w = (Ret (), w1)" and
    gen: "eng_GenerateReport (trivy_engine C R U) p w1 = (Ret generated, w2)" and
    pub: "policy_publish C p generated w2 = (Ret Complete, w')"
    unfolding policy_apply_def by (auto simp: act_simps split: option.splits)
  have same: "c_reports (cl w1) = c_reports (cl w)" "cl w2 = cl w1"
    using trivy_iface.reconcile_frame(3) [OF api rec] trivy_iface.generate_frame [OF api gen] by simp_all
  from trivy_GenerateReport_existing [OF api _ _ reads k, of w1 generated w2 old] gen same old k
  have g: "generated = old" by (simp add: trivy_engine_def)
  from policy_publish_Complete(2) [OF api trivy_iface.generate_report [OF api gen] _ pub] old k same
  show ?thesis by (simp add: g)
qed

text \<open>The other engines always generate a report of the current generation: its status stays.\<close>

lemma apply_keeps_status:
  assumes api: "api_contract U C cl"
    and rec_keeps: "\<And>w r w'. eng_Reconcile engine p w = (r, w') \<Longrightarrow> c_reports (cl w') = c_reports (cl w)"
    and gen_eq: "eng_GenerateReport engine p = retA generated"
      "pr_Generation (rs_PolicyRef (rep_Spec generated)) = om_generation (pol_meta p)"
      "kd_key report_desc generated = (om_namespace (pol_meta p), name)"
    and run: "policy_apply C engine p w = (Ret Complete, w')"
    and old: "c_reports (cl w) (om_namespace (pol_meta p), name) = Some old"
      "om_deletionTimestamp (rep_meta old) = None"
  shows "\<exists>report. c_reports (cl w') (om_namespace (pol_meta p), name) = Some report \<and>
    rep_Status report = rep_Status old"
proof -
  from run gen_eq(1) obtain w1 where
    rec: "eng_Reconcile engine p w = (Ret (), w1)" and
    pub: "policy_publish C p generated w1 = (Ret Complete, w')"
    unfolding policy_apply_def by (auto simp: act_simps split: option.splits)
  from policy_publish_Complete(3) [OF api gen_eq(3) _ pub gen_eq(2)] old rec_keeps [OF rec]
  show ?thesis by simp
qed

subsection \<open>Sample runs\<close>

definition run_sample :: "string \<Rightarrow> Policy \<Rightarrow> ctrl_outcome res \<times> mem" where
  "run_sample typ p = policy_Reconcile mem_client mem_runtime mem_util (''team'', ''p1'') (sample_world typ p)"

lemma run_sample_eq:
  "policy_Reconcile mem_client mem_runtime mem_util (''team'', ''p1'') (sample_world typ p) =
     (fst (run_sample typ p), snd (run_sample typ p))"
  by (simp add: run_sample_def)

lemma run_sample_to:
  "fst (run_sample typ p) = r \<Longrightarrow>
   policy_Reconcile mem_client mem_runtime mem_util (''team'', ''p1'') (sample_world typ p) =
     (r, snd (run_sample typ p))"
  by (auto simp: run_sample_def)

lemma sample_keys [simp]:
  "meta_key (pol_meta (sample_policy typ)) = (''team'', ''p1'')"
  "meta_key (pol_meta (new_policy typ)) = (''team'', ''p1'')"
  "meta_key (pol_meta (deleted_policy typ)) = (''team'', ''p1'')"
  "meta_key (pol_meta (disabled_policy typ)) = (''team'', ''p1'')"
  by (simp_all add: sample_policy_def new_policy_def deleted_policy_def disabled_policy_def meta_key_def)

lemma sample_stored:
  "meta_key (pol_meta p) = (''team'', ''p1'') \<Longrightarrow>
     c_policies (mem_cluster (sample_world typ p)) (''team'', ''p1'') = Some p"
  using sample_policy_lookup [of _ p] by simp

subsection \<open>Properties\<close>

text \<open>
  C1: A policy loses its finalizer only when it is being deleted and only after its cleanup has
  succeeded: a run of the policy controller that starts with the finalizer in place ends with the
  finalizer in place, or the policy is being deleted and what its engine made is cleaned up. Of a Litmus
  policy no chaos engine and no report is left. Of a Trivy policy no job of a scan is left; its
  reports are as they were before, the cleanup does not touch them. Of a Falco policy no report is left, and
  no config map, unless the read of the config map failed for another reason than that there is none:
  then it is left. An object is left when it is there and its deletion has not been requested. This
  holds for every outcome of the run, errors, lost answers and panics included.
\<close>

theorem policy_finalizer_safety:
  assumes "api_contract U C cl" "runtime_contract R"
    and "policy_Reconcile C R U key w = (r, w')"
    and "c_policies (cl w) key = Some p" "holds_finalizer (cl w) key"
  shows "holds_finalizer (cl w') key \<or>
    om_deletionTimestamp (pol_meta p) \<noteq> None \<and>
    (if ps_Type (pol_Spec p) = PolicyTypeFalco then
       reports_removed p (c_reports (cl w')) \<and>
       (gone_or_marked configmap_desc (c_configmaps (cl w') (falco_cm_key p)) \<or>
        falco_map_unread C U p (policy_reads C key p w) \<and> c_configmaps (cl w') = c_configmaps (cl w))
     else if ps_Type (pol_Spec p) = PolicyTypeTrivy then
       (\<forall>trivy. ps_Trivy (pol_Spec p) = Some trivy \<longrightarrow>
          (\<forall>scan \<in> set (trv_Scans trivy). gone_or_marked job_desc (c_jobs (cl w') (trivy_scan_key p scan)))) \<and>
       c_reports (cl w') = c_reports (cl w)
     else litmus_cleaned p (cl w'))"
  using assms(1,3)
proof (cases rule: policy_Reconcile_cases)
  case early
  with assms(5) show ?thesis by (simp add: holds_finalizer_def)
next
  case (engine q tool engine w2)
  with assms(4,5) have q: "q = p" and held: "holds_finalizer (cl w2) (meta_key (pol_meta p))"
    by (simp_all add: holds_finalizer_def)
  from engine_finalizer [OF assms(1,2) engine(4) _ engine(6)] engine(1,2,5,7) held
  have "holds_finalizer (cl w') key \<or>
    om_deletionTimestamp (pol_meta p) \<noteq> None \<and> policy_released C U cl p (policy_reads C key p w) (cl w')"
    by (simp add: q)
  moreover have "cl (policy_reads C key p w) = cl w" using engine(5,7) q by simp
  ultimately show ?thesis
    by (cases rule: NewPolicyEngine_cases [OF engine(4)])
      (auto simp: q policy_released_type falco_released_def trivy_released_def trivy_cleaned_def litmus_released_def)
qed

lemma policy_finalizer_safety_witness:
  "holds_finalizer (mem_cluster (sample_world PolicyTypeTrivy (deleted_policy PolicyTypeTrivy))) (''team'', ''p1'') \<and>
   \<not> holds_finalizer (mem_cluster (snd (run_sample PolicyTypeTrivy (deleted_policy PolicyTypeTrivy)))) (''team'', ''p1'') \<and>
   trivy_cleaned (deleted_policy PolicyTypeTrivy)
     (mem_cluster (snd (run_sample PolicyTypeTrivy (deleted_policy PolicyTypeTrivy))))"
proof -
  let ?p = "deleted_policy PolicyTypeTrivy"
  have holds: "holds_finalizer (mem_cluster (sample_world PolicyTypeTrivy ?p)) (''team'', ''p1'')"
    by (simp add: holds_finalizer_def sample_stored del: mem_cluster_simps)
      (simp add: deleted_policy_def sample_policy_def)
  have gone: "c_policies (mem_cluster (snd (run_sample PolicyTypeTrivy ?p))) (''team'', ''p1'') = None"
    by code_simp
  have type: "ps_Type (pol_Spec ?p) = PolicyTypeTrivy" "PolicyTypeTrivy \<noteq> PolicyTypeFalco"
    by (simp_all add: deleted_policy_def sample_policy_def new_policy_def sample_spec_def)
  from policy_finalizer_safety [OF mem_api_contract mem_runtime_contract run_sample_eq sample_stored holds] holds gone
  show ?thesis by (simp add: holds_finalizer_def type trivy_cleaned_def del: mem_cluster_simps)
qed

text \<open>
  C15: The first write is the finalizer. A run on a policy without the finalizer changes no tool, report,
  job, config map or chaos engine, whatever its outcome; and if the policy is not being deleted and
  the run completes, the policy has its finalizer.
\<close>

theorem policy_finalizer_first:
  assumes "api_contract U C cl" "policy_Reconcile C R U key w = (r, w')"
    and "c_policies (cl w) key = Some p" "PolicyFinalizer \<notin> set (om_finalizers (pol_meta p))"
  shows "all_but_policies (cl w') = all_but_policies (cl w) \<and>
    (r = Ret Complete \<and> om_deletionTimestamp (pol_meta p) = None \<longrightarrow> holds_finalizer (cl w') key)"
  using assms(1,2)
proof (cases rule: policy_Reconcile_cases)
  case early
  with assms(3) show ?thesis by auto
next
  case (engine q tool engine w2)
  with assms(3) have "q = p" by simp
  with engine engine_guard [OF assms(1) engine(4) engine(6)] assms(4)
    with_engine_adds_finalizer [OF assms(1), of w2 p engine tool w']
  show ?thesis by auto
qed

lemma policy_finalizer_first_witness:
  "\<not> holds_finalizer (mem_cluster (sample_world PolicyTypeFalco (new_policy PolicyTypeFalco))) (''team'', ''p1'') \<and>
   holds_finalizer (mem_cluster (snd (run_sample PolicyTypeFalco (new_policy PolicyTypeFalco)))) (''team'', ''p1'')"
proof -
  let ?p = "new_policy PolicyTypeFalco"
  have none: "PolicyFinalizer \<notin> set (om_finalizers (pol_meta ?p))"
    "om_deletionTimestamp (pol_meta ?p) = None" by (simp_all add: new_policy_def)
  have "fst (run_sample PolicyTypeFalco ?p) = Ret Complete" by code_simp
  with policy_finalizer_first [OF mem_api_contract run_sample_eq sample_stored none(1)] none
  show ?thesis by (simp add: holds_finalizer_def sample_stored del: mem_cluster_simps)
qed

text \<open>
  C25: Without the Tool of its type the policy is left alone: the run returns an error and changes
  nothing. As the lookup of the tool precedes the deletion branch, this holds for a policy that is
  being deleted too, which keeps its finalizer until a tool of that name exists again.
\<close>

theorem policy_needs_tool:
  assumes "api_contract U C cl" "policy_Reconcile C R U key w = (r, w')"
    and "c_policies (cl w) key = Some p"
    and "c_tools (cl w) (om_namespace (pol_meta p), ps_Type (pol_Spec p)) = None"
  shows "(\<exists>err. r = Ret (CompleteWithError (Some err))) \<and> cl w' = cl w"
  using policy_without_tool [OF assms] by simp

lemma policy_needs_tool_witness:
  "\<exists>err. fst (run_sample PolicyTypeTrivy (deleted_policy PolicyTypeLitmus)) =
      Ret (CompleteWithError (Some err)) \<and>
    mem_cluster (snd (run_sample PolicyTypeTrivy (deleted_policy PolicyTypeLitmus))) =
      mem_cluster (sample_world PolicyTypeTrivy (deleted_policy PolicyTypeLitmus))"
proof -
  let ?p = "deleted_policy PolicyTypeLitmus"
  have "c_tools (mem_cluster (sample_world PolicyTypeTrivy ?p))
      (om_namespace (pol_meta ?p), ps_Type (pol_Spec ?p)) = None" by code_simp
  from policy_needs_tool [OF mem_api_contract run_sample_eq sample_stored this]
  show ?thesis by auto
qed

text \<open>
  A run that completes on a prepared, disabled policy has cleaned up: nothing its engine made
  is left, and the policy itself, its status included, is as before.
\<close>

lemma policy_disabled_cleans_up:
  assumes "api_contract U C cl" "runtime_contract R"
    and "policy_Reconcile C R U key w = (Ret Complete, w')"
    and "c_policies (cl w) key = Some p" "policy_prepared U (cl w) p" "\<not> ps_Enabled (pol_Spec p)"
  shows "policy_released C U cl p (policy_reads C key p w) (cl w') \<and> c_policies (cl w') = c_policies (cl w)"
  using assms(1,3)
proof (cases rule: policy_Reconcile_cases)
  case early
  with assms(4) show ?thesis by auto
next
  case (engine q tool engine w2)
  with assms(4-6) have q: "q = p" by simp
  have "hasOwnerReference U (om_ownerReferences (pol_meta p)) (''Tool'', tool_meta tool) = Inr True"
    using assms(5) engine(3) q by (simp add: policy_prepared_def)
  with engine_disabled [OF assms(1,2) engine(4,6)] assms(5,6) engine(5,7) show ?thesis
    by (simp add: q policy_prepared_def)
qed

text \<open>
  C23: An invalid policy changes nothing. When the engine of a prepared, enabled policy rejects its spec,
  the run returns an error and the cluster is as before.
\<close>

theorem policy_invalid_changes_nothing:
  assumes "api_contract U C cl" "policy_Reconcile C R U key w = (r, w')"
    and "c_policies (cl w) key = Some p" "policy_prepared U (cl w) p" "ps_Enabled (pol_Spec p)"
    and "NewPolicyEngine C R U p = Inr engine" "eng_Validate engine p = Some err"
  shows "(\<exists>e. r = Ret (CompleteWithError (Some e))) \<and> cl w' = cl w"
  using assms(1,2)
proof (cases rule: policy_Reconcile_cases)
  case early
  with assms(3) show ?thesis by auto
next
  case (engine q tool engine' w2)
  with assms(3,6) have q: "q = p" "engine' = engine" by auto
  note api = api_contractD(1) [OF assms(1)]
  from engine(3,6) assms(4,5,7) show ?thesis
    by (auto simp: q prepared_with_engine [OF api assms(4)] policy_apply_def act_simps engine(5))
qed

definition invalid_policy :: Policy where
  "invalid_policy = (sample_policy PolicyTypeTrivy)
     \<lparr>pol_Spec := (sample_spec PolicyTypeTrivy)\<lparr>ps_Trivy := Some \<lparr>trv_Scans = []\<rparr>\<rparr>\<rparr>"

lemma policy_invalid_changes_nothing_witness:
  "trivy_Validate invalid_policy \<noteq> None \<and>
   mem_cluster (snd (run_sample PolicyTypeTrivy invalid_policy)) =
     mem_cluster (sample_world PolicyTypeTrivy invalid_policy)"
proof -
  have prepared: "policy_prepared mem_util (mem_cluster (sample_world PolicyTypeTrivy invalid_policy)) invalid_policy"
    by code_simp
  have stored: "c_policies (mem_cluster (sample_world PolicyTypeTrivy invalid_policy)) (''team'', ''p1'') =
      Some invalid_policy"
    by (rule sample_stored) (simp add: invalid_policy_def sample_policy_def meta_key_def)
  have enabled: "ps_Enabled (pol_Spec invalid_policy)" by (simp add: invalid_policy_def sample_spec_def)
  have bad: "trivy_Validate invalid_policy = Some (Errorf ''spec.trivy.scans must contain at least one scan'')"
    by code_simp
  have "NewPolicyEngine mem_client mem_runtime mem_util invalid_policy =
      Inr (trivy_engine mem_client mem_runtime mem_util)"
    by (simp add: NewPolicyEngine_def invalid_policy_def sample_spec_def)
  moreover from bad have "eng_Validate (trivy_engine mem_client mem_runtime mem_util) invalid_policy =
      Some (Errorf ''spec.trivy.scans must contain at least one scan'')"
    by (simp add: trivy_engine_def)
  ultimately show ?thesis
    using policy_invalid_changes_nothing [OF mem_api_contract run_sample_eq stored prepared enabled] bad
    by auto
qed

text \<open>A run that ends well on an enabled policy came through the whole of \<open>policy_apply\<close>.\<close>

lemma completed_run_published:
  assumes "api_contract U C cl" "runtime_contract R"
    and "policy_Reconcile C R U key w = (Ret Complete, w')"
    and "c_policies (cl w) key = Some p" "policy_prepared U (cl w) p" "ps_Enabled (pol_Spec p)"
    and "policy_applicable p (cl w)"
    and "\<And>old. c_reports (cl w) (om_namespace (pol_meta p), policy_report_name p) = Some old \<Longrightarrow>
      om_deletionTimestamp (rep_meta old) = None"
  shows "policy_applied U p (cl w') \<and> report_published p (policy_report_name p) (cl w')"
  using assms(1,3)
proof (cases rule: policy_Reconcile_cases)
  case early
  with assms(4) show ?thesis by auto
next
  case (engine q tool engine w2)
  with assms(4) have q: "q = p" by simp
  from engine(3,6) assms(5,6) have "policy_apply C engine p w2 = (Ret Complete, w')"
    by (simp add: q prepared_with_engine [OF api_contractD(1) [OF assms(1)] assms(5)])
  from engine_apply_Complete [OF assms(1,2) engine(4) [unfolded q] this] assms(7,8) engine(5)
  show ?thesis by simp
qed

text \<open>
  C8: What a completed run on an enabled policy has achieved: the engine's workloads for the policy are
  in the cluster, the report carries the policy's name, generation and type, and the status of the
  policy names that report and the generation. For a policy whose workloads can be written (no
  object of the same name is being deleted, no two experiments share a chaos engine).
\<close>

theorem policy_completed_run:
  assumes "api_contract U C cl" "runtime_contract R"
    and "policy_Reconcile C R U key w = (Ret Complete, w')"
    and "c_policies (cl w) key = Some p" "policy_prepared U (cl w) p" "ps_Enabled (pol_Spec p)"
    and "policy_applicable p (cl w)"
    and "\<And>old. c_reports (cl w) (om_namespace (pol_meta p), policy_report_name p) = Some old \<Longrightarrow>
      om_deletionTimestamp (rep_meta old) = None"
  shows "policy_applied U p (cl w') \<and> report_published p (policy_report_name p) (cl w')"
  by (rule completed_run_published [OF assms])

lemma policy_completed_run_witness:
  "litmus_applied mem_util (sample_policy PolicyTypeLitmus)
     (mem_cluster (snd (run_sample PolicyTypeLitmus (sample_policy PolicyTypeLitmus)))) \<and>
   report_published (sample_policy PolicyTypeLitmus) ''litmus-report-p1''
     (mem_cluster (snd (run_sample PolicyTypeLitmus (sample_policy PolicyTypeLitmus))))"
proof -
  let ?p = "sample_policy PolicyTypeLitmus"
  have prepared: "policy_prepared mem_util (mem_cluster (sample_world PolicyTypeLitmus ?p)) ?p" by code_simp
  have run: "fst (run_sample PolicyTypeLitmus ?p) = Ret Complete" by code_simp
  have enabled: "ps_Enabled (pol_Spec ?p)" by (simp add: sample_policy_def new_policy_def sample_spec_def)
  have app: "policy_applicable ?p (mem_cluster (sample_world PolicyTypeLitmus ?p))"
    by (simp add: policy_applicable_def litmus_applicable_def sample_policy_def new_policy_def sample_spec_def
        sample_experiment_def sample_world_def empty_mem_def mem_lookup_def)
  have type: "ps_Type (pol_Spec ?p) = PolicyTypeLitmus"
    by (simp add: sample_policy_def new_policy_def sample_spec_def)
  have none: "c_reports (mem_cluster (sample_world PolicyTypeLitmus ?p)) k = None" for k
    by (simp add: sample_world_def empty_mem_def mem_lookup_def)
  have "policy_report_name ?p = ''litmus-report-p1''" by code_simp
  with policy_completed_run [OF mem_api_contract mem_runtime_contract run_sample_to [OF run] sample_stored
      prepared enabled app] none type show ?thesis
    by (simp add: policy_applied_type del: mem_cluster_simps)
qed

text \<open>
  C32: No panic: a run on a policy whose type's section of the spec is present does not panic,
  whatever the API answers; for the Falco type it never does.
\<close>

theorem policy_no_panic:
  assumes "api_contract U C cl" "c_policies (cl w) key = Some p" "policy_ready p"
  shows "fst (policy_Reconcile C R U key w) \<noteq> Panic msg"
proof
  assume "fst (policy_Reconcile C R U key w) = Panic msg"
  then obtain w' where "policy_Reconcile C R U key w = (Panic msg, w')" by (metis prod.collapse)
  with assms(1) show False
  proof (cases rule: policy_Reconcile_cases)
    case (engine q tool engine w2)
    with assms(2,3) show ?thesis by (auto dest: engine_no_panic no_panicD)
  qed simp
qed

lemma policy_no_panic_witness:
  "\<forall>msg. fst (run_sample PolicyTypeTrivy (deleted_policy PolicyTypeTrivy)) \<noteq> Panic msg"
proof -
  have "policy_ready (deleted_policy PolicyTypeTrivy)"
    by (simp add: policy_ready_def trivy_ready_def deleted_policy_def sample_policy_def new_policy_def sample_spec_def)
  from policy_no_panic [OF mem_api_contract sample_stored this]
  show ?thesis by (simp add: run_sample_def)
qed

text \<open>
  C30: A new generation of a Trivy policy resets its report. When a run completes on a prepared, enabled
  Trivy policy whose report was made for another generation, the report is back to Pending with an
  empty summary and no details (provided the report can be read when it exists: \<open>GenerateReport\<close>
  takes any failure of that read for a missing report).
\<close>

theorem trivy_new_generation_resets_report:
  assumes "api_contract U C cl"
    and "policy_Reconcile C R U key w = (Ret Complete, w')"
    and "c_policies (cl w) key = Some p" "policy_prepared U (cl w) p" "ps_Enabled (pol_Spec p)"
    and "ps_Type (pol_Spec p) = PolicyTypeTrivy"
    and "k = (om_namespace (pol_meta p), trivy_report_name p)"
    and "c_reports (cl w) k = Some old" "om_deletionTimestamp (rep_meta old) = None"
    and "pr_Generation (rs_PolicyRef (rep_Spec old)) \<noteq> om_generation (pol_meta p)"
    and "\<And>w x. c_reports (cl w) k = Some x \<Longrightarrow> fst (k_get (cl_reports C) k w) = Inr x"
  shows "\<exists>report. c_reports (cl w') k = Some report \<and> report_is_reset report"
  using assms(1,2)
proof (cases rule: policy_Reconcile_cases)
  case early
  with assms(3) show ?thesis by auto
next
  case (engine q tool engine w2)
  with assms(3) have q: "q = p" by simp
  have e: "engine = trivy_engine C R U"
    using engine(4) assms(6) by (simp add: q NewPolicyEngine_def)
  from engine(3,6) assms(4,5) have "policy_apply C (trivy_engine C R U) p w2 = (Ret Complete, w')"
    by (simp add: q e prepared_with_engine [OF api_contractD(1) [OF assms(1)] assms(4)])
  from trivy_apply_rescan [OF assms(1) this assms(7) _ assms(9,10,11)] assms(8) engine(5)
  show ?thesis by simp
qed

definition old_report :: "string \<Rightarrow> string \<Rightarrow> PolicyReport" where
  "old_report typ name =
     \<lparr>rep_meta = new_meta ''team'' name,
      rep_Spec = \<lparr>rs_PolicyRef = \<lparr>pr_Name = ''p1'', pr_Generation = 1\<rparr>, rs_Type = typ\<rparr>,
      rep_Status = \<lparr>rst_Phase = ReportCompleted,
        rst_Summary = \<lparr>sum_Verdict = VerdictFail, sum_TotalChecks = 3, sum_Passed = 0, sum_Failed = 3\<rparr>,
        rst_Details = Some JNull\<rparr>\<rparr>"

definition rescan_world :: "string \<Rightarrow> string \<Rightarrow> mem" where
  "rescan_world typ name = (sample_world typ (sample_policy typ))\<lparr>mem_reports := [old_report typ name]\<rparr>"

lemma rescan_stored:
  "c_policies (mem_cluster (rescan_world typ name)) (''team'', ''p1'') = Some (sample_policy typ)"
  "c_reports (mem_cluster (rescan_world typ name)) (''team'', name) = Some (old_report typ name)"
  by (simp_all add: rescan_world_def sample_world_def mem_lookup_def old_report_def)

lemma trivy_new_generation_resets_report_witness:
  "\<exists>report. c_reports (mem_cluster (snd (policy_Reconcile mem_client mem_runtime mem_util (''team'', ''p1'')
      (rescan_world PolicyTypeTrivy ''trivy-report-p1'')))) (''team'', ''trivy-report-p1'') = Some report \<and>
    report_is_reset report"
proof -
  let ?p = "sample_policy PolicyTypeTrivy" and ?k = "(''team'', ''trivy-report-p1'')"
    and ?w = "rescan_world PolicyTypeTrivy ''trivy-report-p1''"
  have ok: "fst (policy_Reconcile mem_client mem_runtime mem_util (''team'', ''p1'') ?w) = Ret Complete" by code_simp
  have run: "policy_Reconcile mem_client mem_runtime mem_util (''team'', ''p1'') ?w =
      (Ret Complete, snd (policy_Reconcile mem_client mem_runtime mem_util (''team'', ''p1'') ?w))"
    by (simp add: ok [symmetric])
  have prepared: "policy_prepared mem_util (mem_cluster ?w) ?p" by code_simp
  have p: "ps_Enabled (pol_Spec ?p)" "ps_Type (pol_Spec ?p) = PolicyTypeTrivy" "om_generation (pol_meta ?p) = 2"
    by (simp_all add: sample_policy_def new_policy_def sample_spec_def)
  have k: "?k = (om_namespace (pol_meta ?p), trivy_report_name ?p)" by code_simp
  have old: "om_deletionTimestamp (rep_meta (old_report PolicyTypeTrivy ''trivy-report-p1'')) = None"
    "pr_Generation (rs_PolicyRef (rep_Spec (old_report PolicyTypeTrivy ''trivy-report-p1''))) \<noteq> om_generation (pol_meta ?p)"
    by (simp_all add: old_report_def p)
  have reads: "c_reports (mem_cluster w) ?k = Some x \<Longrightarrow> fst (k_get (cl_reports mem_client) ?k w) = Inr x" for w x
    by (simp add: mem_client_def mem_api_def Let_def)
  show ?thesis
    by (rule trivy_new_generation_resets_report [OF mem_api_contract run rescan_stored(1) prepared p(1,2) k
          rescan_stored(2) old reads])
qed

text \<open>
  C31: The Falco and Litmus engines never reset a report. When a run completes on a prepared, enabled
  policy of these types, the status of an existing report is what it was, whatever generation it was
  made for: \<open>GenerateReport\<close> hands back a report of the current generation, so \<open>needsRescan\<close> is false.
\<close>

theorem falco_litmus_never_reset_report:
  assumes "api_contract U C cl"
    and "policy_Reconcile C R U key w = (Ret Complete, w')"
    and "c_policies (cl w) key = Some p" "policy_prepared U (cl w) p" "ps_Enabled (pol_Spec p)"
    and "ps_Type (pol_Spec p) \<noteq> PolicyTypeTrivy"
    and "c_reports (cl w) (om_namespace (pol_meta p), policy_report_name p) = Some old"
    and "om_deletionTimestamp (rep_meta old) = None"
  shows "\<exists>report. c_reports (cl w') (om_namespace (pol_meta p), policy_report_name p) = Some report \<and>
    rep_Status report = rep_Status old"
  using assms(1,2)
proof (cases rule: policy_Reconcile_cases)
  case early
  with assms(3) show ?thesis by auto
next
  case (engine q tool engine w2)
  with assms(3) have q: "q = p" by simp
  from engine(3,6) assms(4,5) have run: "policy_apply C engine p w2 = (Ret Complete, w')"
    by (simp add: q prepared_with_engine [OF api_contractD(1) [OF assms(1)] assms(4)])
  from engine(5) assms(7) have old: "c_reports (cl w2) (om_namespace (pol_meta p), policy_report_name p) = Some old"
    by simp
  from engine(4) show ?thesis unfolding q
  proof (cases rule: NewPolicyEngine_cases)
    case falco
    show ?thesis
      by (rule apply_keeps_status [OF assms(1) _ _ _ _ run old assms(8), where generated = "falco_new_report p"])
        (auto simp: falco(2) dest: falco_iface.reconcile_frame(3) [OF assms(1)],
         simp_all add: falco_engine_def falco_GenerateReport_def falco_new_report_def kd_key_def
           policy_report_name_def falco(1))
  next
    case trivy
    with assms(6) show ?thesis by simp
  next
    case litmus
    show ?thesis
      by (rule apply_keeps_status [OF assms(1) _ _ _ _ run old assms(8), where generated = "litmus_new_report p"])
        (auto simp: litmus(2) dest: litmus_iface.reconcile_frame(3) [OF assms(1)],
         simp_all add: litmus_engine_def litmus_GenerateReport_def litmus_new_report_def kd_key_def meta_key_def
           policy_report_name_def litmus(1))
  qed
qed

lemma falco_litmus_never_reset_report_witness:
  "\<exists>report. c_reports (mem_cluster (snd (policy_Reconcile mem_client mem_runtime mem_util (''team'', ''p1'')
      (rescan_world PolicyTypeLitmus ''litmus-report-p1'')))) (''team'', ''litmus-report-p1'') = Some report \<and>
    rst_Phase (rep_Status report) = ReportCompleted"
proof -
  let ?p = "sample_policy PolicyTypeLitmus" and ?w = "rescan_world PolicyTypeLitmus ''litmus-report-p1''"
  have ok: "fst (policy_Reconcile mem_client mem_runtime mem_util (''team'', ''p1'') ?w) = Ret Complete" by code_simp
  have run: "policy_Reconcile mem_client mem_runtime mem_util (''team'', ''p1'') ?w =
      (Ret Complete, snd (policy_Reconcile mem_client mem_runtime mem_util (''team'', ''p1'') ?w))"
    by (simp add: ok [symmetric])
  have prepared: "policy_prepared mem_util (mem_cluster ?w) ?p" by code_simp
  have p: "ps_Enabled (pol_Spec ?p)" "ps_Type (pol_Spec ?p) \<noteq> PolicyTypeTrivy"
    by (simp_all add: sample_policy_def new_policy_def sample_spec_def)
  have k: "(om_namespace (pol_meta ?p), policy_report_name ?p) = (''team'', ''litmus-report-p1'')" by code_simp
  have old: "om_deletionTimestamp (rep_meta (old_report PolicyTypeLitmus ''litmus-report-p1'')) = None"
    by (simp add: old_report_def)
  have stored: "c_reports (mem_cluster ?w) (om_namespace (pol_meta ?p), policy_report_name ?p) =
      Some (old_report PolicyTypeLitmus ''litmus-report-p1'')"
    unfolding k by (rule rescan_stored(2))
  have "\<exists>report. c_reports (mem_cluster (snd (policy_Reconcile mem_client mem_runtime mem_util (''team'', ''p1'') ?w)))
      (om_namespace (pol_meta ?p), policy_report_name ?p) = Some report \<and>
      rep_Status report = rep_Status (old_report PolicyTypeLitmus ''litmus-report-p1'')"
    by (rule falco_litmus_never_reset_report [where cl = mem_cluster and w = ?w and p = ?p, OF mem_api_contract run rescan_stored(1) prepared p stored old])
  then show ?thesis unfolding k by (auto simp: old_report_def simp del: mem_cluster_simps)
qed

text \<open>
  C34: A Trivy or Litmus policy without the section of its type can be neither deleted nor disabled: once
  it has its finalizer (which it gets before it is validated), a run on it panics in \<open>Cleanup\<close> while it is
  being deleted, and, once it has its owner, while it is disabled; the run writes nothing, so the
  finalizer stays where it is.
\<close>

theorem policy_without_section_panics:
  assumes "util_contract U"
    and "k_get (cl_policies C) key w = (Inr p, w1)"
    and "k_get (cl_tools C) (om_namespace (pol_meta p), ps_Type (pol_Spec p)) w1 = (Inr tool, w2)"
    and "PolicyFinalizer \<in> set (om_finalizers (pol_meta p))"
    and "om_deletionTimestamp (pol_meta p) \<noteq> None \<or> \<not> ps_Enabled (pol_Spec p) \<and>
      hasOwnerReference U (om_ownerReferences (pol_meta p)) (''Tool'', tool_meta tool) = Inr True"
    and "\<not> policy_ready p"
  shows "\<exists>msg. policy_Reconcile C R U key w = (Panic msg, w2)"
proof -
  let ?spec = "pol_Spec p"
  have "(\<exists>engine. NewPolicyEngine C R U p = Inr engine \<and> (\<exists>msg. eng_Cleanup engine p = panicA msg))"
    using assms(6)
    by (auto simp: policy_ready_def trivy_ready_def litmus_ready_def NewPolicyEngine_def trivy_engine_def
        litmus_engine_def trivy_Cleanup_def litmus_Cleanup_def)
  then obtain engine msg where "NewPolicyEngine C R U p = Inr engine" "eng_Cleanup engine p = panicA msg"
    by blast
  then have "policy_with_engine C U engine tool p w2 = (Panic msg, w2)"
    using assms(4,5)
    by (auto simp: policy_with_engine_def policy_handle_deletion_def util_contractD(2) [OF assms(1)] tryA_act)
  with assms(2,3) \<open>NewPolicyEngine C R U p = Inr engine\<close> show ?thesis
    unfolding policy_Reconcile_def by (intro exI [of _ msg]) (simp add: tryA_act callA_act)
qed

definition bare_policy :: Policy where
  "bare_policy = (deleted_policy PolicyTypeTrivy)\<lparr>pol_Spec := (sample_spec PolicyTypeTrivy)\<lparr>ps_Trivy := None\<rparr>\<rparr>"

definition bare_disabled_policy :: Policy where
  "bare_disabled_policy = (sample_policy PolicyTypeTrivy)\<lparr>pol_Spec := (sample_spec PolicyTypeTrivy)
     \<lparr>ps_Trivy := None, ps_Enabled := False\<rparr>\<rparr>"

lemma policy_without_section_panics_witness:
  "(\<exists>msg. run_sample PolicyTypeTrivy bare_policy = (Panic msg, sample_world PolicyTypeTrivy bare_policy)) \<and>
   (\<exists>msg. run_sample PolicyTypeTrivy bare_disabled_policy = (Panic msg, sample_world PolicyTypeTrivy bare_disabled_policy))"
proof
  note policy_panics = policy_without_section_panics [OF mem_util_contract]
  have reads: "k_get (cl_policies mem_client) (''team'', ''p1'') (sample_world PolicyTypeTrivy p) = (Inr p, sample_world PolicyTypeTrivy p)"
    "k_get (cl_tools mem_client) (om_namespace (pol_meta p), ps_Type (pol_Spec p)) (sample_world PolicyTypeTrivy p) =
      (Inr (sample_tool PolicyTypeTrivy), sample_world PolicyTypeTrivy p)"
    if "p = bare_policy \<or> p = bare_disabled_policy" for p
    using that by (auto simp: mem_client_def mem_api_def sample_world_def empty_mem_def mem_lookup_def bare_policy_def
        bare_disabled_policy_def deleted_policy_def sample_policy_def new_policy_def sample_spec_def sample_tool_def meta_key_def)
  show "\<exists>msg. run_sample PolicyTypeTrivy bare_policy = (Panic msg, sample_world PolicyTypeTrivy bare_policy)"
    using policy_panics [OF reads [of bare_policy]]
    by (simp add: run_sample_def bare_policy_def deleted_policy_def sample_policy_def policy_ready_def
        trivy_ready_def sample_spec_def)
  have "hasOwnerReference mem_util (om_ownerReferences (pol_meta bare_disabled_policy))
      (''Tool'', tool_meta (sample_tool PolicyTypeTrivy)) = Inr True" by code_simp
  then show "\<exists>msg. run_sample PolicyTypeTrivy bare_disabled_policy = (Panic msg, sample_world PolicyTypeTrivy bare_disabled_policy)"
    using policy_panics [OF reads [of bare_disabled_policy]]
    by (simp add: run_sample_def bare_disabled_policy_def sample_policy_def policy_ready_def
        trivy_ready_def sample_spec_def)
qed

end
