(* ===== verification/Life.thy ===== *)
theory Life
  imports Prelude
begin

section \<open>The life of what the operator deploys\<close>

text \<open>
  The abstract machine that the reconciles of one object implement, a Tool or a policy. The object is guarded
  by the operator's finalizer or not; what was deployed for it (the release of a Tool, the workloads and
  reports of a policy) is there or not; if it is there without the guard it is orphaned. What the object
  asks for decides which moves are allowed.
\<close>

datatype life_stage = Unguarded | Guarded | Deployed | Orphaned

text \<open>The stages in their order: from nothing to a deployment, and a deployment out of control above all.\<close>

instantiation life_stage :: linorder
begin

primrec life_rank :: "life_stage \<Rightarrow> nat" where
  "life_rank Unguarded = 0"
| "life_rank Guarded = 1"
| "life_rank Deployed = 2"
| "life_rank Orphaned = 3"

definition less_eq_life_stage :: "life_stage \<Rightarrow> life_stage \<Rightarrow> bool" where
  "s \<le> t \<longleftrightarrow> life_rank s \<le> life_rank t"

definition less_life_stage :: "life_stage \<Rightarrow> life_stage \<Rightarrow> bool" where
  "s < t \<longleftrightarrow> life_rank s < life_rank t"

instance
proof
  show "s = t" if "s \<le> t" "t \<le> s" for s t :: life_stage
    using that by (cases s; cases t) (simp_all add: less_eq_life_stage_def)
qed (auto simp: less_eq_life_stage_def less_life_stage_def)

end

datatype life_intent = Run | Rest | Remove

definition asked :: "bool \<Rightarrow> bool \<Rightarrow> life_intent" where
  "asked deleted enabled = (if deleted then Remove else if enabled then Run else Rest)"

lemma asked_iff [simp]:
  "asked d e = Remove \<longleftrightarrow> d" "asked d e = Run \<longleftrightarrow> \<not> d \<and> e" "asked d e = Rest \<longleftrightarrow> \<not> d \<and> \<not> e"
  by (simp_all add: asked_def)

inductive life_step :: "life_intent \<Rightarrow> life_stage \<Rightarrow> life_stage \<Rightarrow> bool" where
  guard: "i \<noteq> Remove \<Longrightarrow> life_step i Unguarded Guarded"
| install: "life_step Run Guarded Deployed"
| uninstall: "i \<noteq> Run \<Longrightarrow> life_step i Deployed Guarded"
| let_go: "life_step Remove Guarded Unguarded"

code_pred life_step .

inductive_simps life_step_simps: "life_step i Unguarded s" "life_step i Guarded s" "life_step i Deployed s" "life_step i Orphaned s"

lemma life_never_orphaned:
  assumes "(life_step i)\<^sup>*\<^sup>* s s'" "s \<noteq> Orphaned"
  shows "s' \<noteq> Orphaned"
  using assms by (induction rule: rtranclp_induct) (auto elim: life_step.cases)

lemma life_running_stays:
  assumes "(life_step Run)\<^sup>*\<^sup>* Deployed s"
  shows "s = Deployed"
  using assms by (induction rule: rtranclp_induct) (auto simp: life_step_simps)

text \<open>What is to run only climbs, what is to be removed only descends.\<close>

lemma life_run_climbs:
  assumes "(life_step Run)\<^sup>*\<^sup>* s s'"
  shows "s \<le> s'"
  using assms
proof (induction rule: rtranclp_induct)
  case (step t u)
  from step.hyps(2) have "t \<le> u" by (cases rule: life_step.cases) (simp_all add: less_eq_life_stage_def)
  with step.IH show ?case by (rule order.trans)
qed simp

lemma life_remove_descends:
  assumes "(life_step Remove)\<^sup>*\<^sup>* s s'"
  shows "s' \<le> s"
  using assms
proof (induction rule: rtranclp_induct)
  case (step t u)
  from step.hyps(2) have "u \<le> t" by (cases rule: life_step.cases) (simp_all add: less_eq_life_stage_def)
  with step.IH show ?case by order
qed simp

definition life_of :: "bool \<Rightarrow> bool \<Rightarrow> life_stage" where
  "life_of held there = (if held then if there then Deployed else Guarded else if there then Orphaned else Unguarded)"

lemma life_steps [simp, intro]:
  "i \<noteq> Remove \<Longrightarrow> (life_step i)\<^sup>*\<^sup>* Unguarded Guarded"
  "(life_step Run)\<^sup>*\<^sup>* Unguarded Deployed" "(life_step Run)\<^sup>*\<^sup>* Guarded Deployed"
  "i \<noteq> Run \<Longrightarrow> (life_step i)\<^sup>*\<^sup>* Deployed Guarded"
  "(life_step Remove)\<^sup>*\<^sup>* Guarded Unguarded" "(life_step Remove)\<^sup>*\<^sup>* Deployed Unguarded"
  by (auto intro: life_step.intros r_into_rtranclp converse_rtranclp_into_rtranclp)

text \<open>Refinement of the abstract moves by what a run observably did.\<close>

lemma life_down: "there' \<longrightarrow> there \<Longrightarrow> i \<noteq> Run \<Longrightarrow> (life_step i)\<^sup>*\<^sup>* (life_of True there) (life_of True there')"
  by (auto simp: life_of_def)

lemma life_up: "there \<longrightarrow> there' \<Longrightarrow> (life_step Run)\<^sup>*\<^sup>* (life_of True there) (life_of True there')"
  by (auto simp: life_of_def)

lemma life_guard: "\<not> there \<or> held \<Longrightarrow> i \<noteq> Remove \<Longrightarrow> (life_step i)\<^sup>*\<^sup>* (life_of held there) (life_of True there)"
  by (auto simp: life_of_def)

lemma life_remove: "\<not> there' \<Longrightarrow> held' \<longrightarrow> held \<Longrightarrow> \<not> there \<or> held \<Longrightarrow>
  (life_step Remove)\<^sup>*\<^sup>* (life_of held there) (life_of held' there')"
  by (auto simp: life_of_def)

text \<open>A removal that may have let go of what is still there.\<close>

lemma life_remove_or:
  assumes "\<not> there' \<or> known" "\<not> there \<or> held" "held' \<longrightarrow> held" "there' \<longrightarrow> there" "i = Remove"
  shows "(life_step i)\<^sup>*\<^sup>* (life_of held there) (life_of held' there') \<or>
    i = Remove \<and> life_of held' there' = Orphaned \<and> known"
  using assms(1-4) unfolding assms(5) by (cases held; cases there; cases held'; cases there') (simp_all add: life_of_def)

text \<open>What a run of a climber and of a descender amounts to.\<close>

lemma life_order:
  assumes "(life_step i)\<^sup>*\<^sup>* s s'"
  shows "case i of Run \<Rightarrow> s \<le> s' | Remove \<Rightarrow> s' \<le> s | Rest \<Rightarrow> True"
  using assms by (cases i) (simp_all add: life_run_climbs life_remove_descends)

lemma life_of_Orphaned [simp]: "life_of held there = Orphaned \<longleftrightarrow> there \<and> \<not> held"
  by (simp add: life_of_def)

end
