(* ===== verification/PolicyLife.thy ===== *)
theory PolicyLife
  imports PolicyController Life
begin

section \<open>The life of a policy\<close>

text \<open>
  Every reconcile of a policy implements moves of the abstract machine of theory \<open>Life\<close>: the finalizer is the
  guard, and what the policy's engine made of it, reports included, is deployed while some of it lives.
  As for \<open>policy_finalizer_safety\<close>, the lemmas are proved once in the locale of the engines.
\<close>

definition policy_intent :: "Policy \<Rightarrow> life_intent" where
  "policy_intent p = asked (om_deletionTimestamp (pol_meta p) \<noteq> None) (ps_Enabled (pol_Spec p))"

definition policy_active :: "Policy \<Rightarrow> cluster \<Rightarrow> bool" where
  "policy_active p c \<longleftrightarrow>
     ps_Type (pol_Spec p) = PolicyTypeFalco \<and> falco_active p c \<or>
     ps_Type (pol_Spec p) = PolicyTypeTrivy \<and> trivy_active p c \<or>
     ps_Type (pol_Spec p) = PolicyTypeLitmus \<and> litmus_active p c"

definition policy_life :: "Policy \<Rightarrow> obj_key \<Rightarrow> cluster \<Rightarrow> life_stage" where
  "policy_life p key c = life_of (holds_finalizer c key) (policy_active p c)"

lemma policy_publish_reports_live:
  assumes "api_contract U C cl"
  shows "preserves (\<lambda>w. reports_live p (cl w)) (policy_publish C p r)"
proof -
  note reports = api_contractD(4) [OF assms]
  have "preserves (\<lambda>w. reports_live p (cl w)) (callA (k_create_or_update (cl_reports C) r (policy_report_mutate p)))"
    unfolding reports_live_def
    by (rule upsert_keeps_live [OF reports])
      (auto simp: policy_report_mutate_Inr reports_of_def written_def kd_key_def meta_key_def, drule sym, simp)
  moreover have "preserves (\<lambda>w. reports_live p (cl w)) (callA (k_status_update (cl_reports C) x))" for x
    unfolding reports_live_def by (rule status_keeps_live [OF reports]) (simp add: reports_of_def)
  moreover have "preserves (\<lambda>w. reports_live p (cl w)) (callA (k_status_update (cl_policies C) x))" for x
    unfolding reports_live_def by (intro live_of_keeps(1) kind_frame_keeps api_frames [OF assms])
  ultimately show ?thesis
    unfolding policy_publish_def Let_def complete_with_def by (intro preserves_intros)
qed

context lasting_engine
begin

lemma active_unless_policies:
  assumes "all_but_policies c = all_but_policies c'"
  shows "active p c = active p c'"
  using assms by (intro active_frame) (auto simp: all_but_policies_def same_workloads_def)

lemma apply_keeps_active:
  assumes "api_contract U C cl"
  shows "preserves (\<lambda>w. active p (cl w)) (policy_apply C (mk C R U) p)"
proof -
  have "preserves (\<lambda>w. active p (cl w)) (policy_publish C p r)" for r
    unfolding preserves_def moves_def
  proof (intro allI impI)
    fix w assume "active p (cl w)"
    moreover have "same_workloads (cl w) (cl (snd (policy_publish C p r w)))"
      using keeps_policy_publish(2) [OF assms, of p r] by (simp add: keeps_def same_workloads_def)
    moreover have "reports_live p (cl w) \<longrightarrow> reports_live p (cl (snd (policy_publish C p r w)))"
      using policy_publish_reports_live [OF assms, of p r] by (simp add: preserves_def moves_def)
    ultimately show "active p (cl (snd (policy_publish C p r w)))" using active_workloads by blast
  qed
  moreover have "preserves (\<lambda>w. active p (cl w)) (eng_GenerateReport (mk C R U) p)"
    using generate_keeps [OF assms] by (rule preserves_of_keeps) simp
  ultimately show ?thesis
    unfolding policy_apply_def complete_with_def
    by (intro preserves_intros reconcile_active [OF assms])
qed

text \<open>A policy that is being deleted.\<close>

lemma deletion_life:
  assumes "api_contract U C cl" "runtime_contract R"
    and stored: "c_policies (cl w) (meta_key (pol_meta p)) = Some p"
    and run: "policy_handle_deletion C U (mk C R U) p w = (r, w')"
    and guarded: "active p (cl w) \<Longrightarrow> holds_finalizer (cl w) (meta_key (pol_meta p))"
  shows "(life_step Remove)\<^sup>*\<^sup>* (life_of (holds_finalizer (cl w) (meta_key (pol_meta p))) (active p (cl w)))
    (life_of (holds_finalizer (cl w') (meta_key (pol_meta p))) (active p (cl w'))) \<or>
    life_of (holds_finalizer (cl w') (meta_key (pol_meta p))) (active p (cl w')) = Orphaned \<and>
    leftover C U p w (cl w')"
proof -
  let ?k = "meta_key (pol_meta p)" and ?m = "p\<lparr>pol_meta := removeFinalizer U (pol_meta p) PolicyFinalizer\<rparr>"
  note util = util_contractD [OF api_contractD(1) [OF assms(1)]]
  have holds: "holds_finalizer (cl w) ?k \<longleftrightarrow> PolicyFinalizer \<in> set (om_finalizers (pol_meta p))"
    by (simp add: holds_finalizer_def stored)
  from run consider (none) "PolicyFinalizer \<notin> set (om_finalizers (pol_meta p))" "w' = w"
    | (kept) q where "PolicyFinalizer \<in> set (om_finalizers (pol_meta p))" "eng_Cleanup (mk C R U) p w = (q, w')"
    | (removed) w1 x where "PolicyFinalizer \<in> set (om_finalizers (pol_meta p))"
        "eng_Cleanup (mk C R U) p w = (Ret (), w1)" "k_update (cl_policies C) ?m w1 = (x, w')"
    unfolding policy_handle_deletion_def by (auto simp: act_simps util(2) split: if_splits)
  then show ?thesis
  proof cases
    case none
    then show ?thesis by simp
  next
    case kept
    then have "holds_finalizer (cl w') ?k" "holds_finalizer (cl w) ?k"
      using cleanup_frame(2) [OF assms(1) kept(2)] holds by (simp_all add: holds_finalizer_def)
    moreover have "active p (cl w') \<longrightarrow> active p (cl w)"
      using preservesD [OF cleanup_inactive [OF assms(1)] kept(2)] by blast
    ultimately show ?thesis using life_down [of "active p (cl w')" "active p (cl w)" Remove] by simp
  next
    case removed
    note frame = policy_update_specs [OF assms(1) removed(3)]
    have "released C U cl p w (cl w')"
      using cleanup_released [OF assms(1,2) removed(2)] released_unless_policies [OF frame] by blast
    then have "\<not> active p (cl w') \<or> leftover C U p w (cl w')" by (rule released_inactive)
    moreover have "active p (cl w') \<longrightarrow> active p (cl w)"
      using preservesD [OF cleanup_inactive [OF assms(1)] removed(2)] active_unless_policies [OF frame, of p] by blast
    ultimately show ?thesis
      using life_remove_or [of "active p (cl w')" "leftover C U p w (cl w')" "active p (cl w)" "holds_finalizer (cl w) ?k"
          "holds_finalizer (cl w') ?k" Remove] guarded removed(1) holds by auto
  qed
qed

text \<open>A run in full: what it does with a finalizer in place, and without.\<close>

lemma with_engine_life:
  assumes "api_contract U C cl" "runtime_contract R"
    and stored: "c_policies (cl w) (meta_key (pol_meta p)) = Some p"
    and run: "policy_with_engine C U (mk C R U) tool p w = (r, w')"
    and guarded: "active p (cl w) \<Longrightarrow> holds_finalizer (cl w) (meta_key (pol_meta p))"
  shows "(life_step (policy_intent p))\<^sup>*\<^sup>* (life_of (holds_finalizer (cl w) (meta_key (pol_meta p))) (active p (cl w)))
    (life_of (holds_finalizer (cl w') (meta_key (pol_meta p))) (active p (cl w'))) \<or>
    policy_intent p = Remove \<and> life_of (holds_finalizer (cl w') (meta_key (pol_meta p))) (active p (cl w')) = Orphaned \<and>
    leftover C U p w (cl w')"
proof (cases "om_deletionTimestamp (pol_meta p)")
  case (Some t)
  with run have "policy_handle_deletion C U (mk C R U) p w = (r, w')" by (simp add: policy_with_engine_def)
  from deletion_life [OF assms(1,2) stored this guarded] Some show ?thesis by (simp add: policy_intent_def asked_def)
next
  case None
  let ?k = "meta_key (pol_meta p)" and ?i = "policy_intent p"
  note util = util_contractD [OF api_contractD(1) [OF assms(1)]]
  have alive: "?i \<noteq> Remove" by (simp add: policy_intent_def None)
  show ?thesis
  proof (cases "PolicyFinalizer \<in> set (om_finalizers (pol_meta p))")
    case False
    then have "\<not> holds_finalizer (cl w) ?k" by (simp add: holds_finalizer_def stored)
    moreover from this guarded have "\<not> active p (cl w)" by blast
    moreover from this have "\<not> active p (cl w')"
      using active_unless_policies [OF with_engine_guard [OF assms(1) run False]] by blast
    ultimately show ?thesis using alive by (cases "holds_finalizer (cl w') ?k") (auto simp: life_of_def)
  next
    case True
    then have held: "holds_finalizer (cl w) ?k" by (simp add: holds_finalizer_def stored)
    with with_engine_finalizer [OF assms(1,2) stored run] None have held': "holds_finalizer (cl w') ?k" by simp
    from None True run consider (idle) "all_but_policies (cl w') = all_but_policies (cl w)"
      | (disabled) q where "\<not> ps_Enabled (pol_Spec p)" "eng_Cleanup (mk C R U) p w = (q, w')"
      | (enabled) "ps_Enabled (pol_Spec p)" "policy_apply C (mk C R U) p w = (r, w')"
      unfolding policy_with_engine_def
      by (auto simp: util(2) act_simps split: sum.splits bool.splits if_splits dest: policy_update_specs [OF assms(1)])
    then show ?thesis
    proof cases
      case idle
      with held held' show ?thesis using active_unless_policies [OF idle] by simp
    next
      case disabled
      from preservesD [OF cleanup_inactive [OF assms(1)] disabled(2)]
      have "active p (cl w') \<longrightarrow> active p (cl w)" by blast
      moreover have "?i \<noteq> Run" using disabled(1) by (simp add: policy_intent_def)
      ultimately show ?thesis using life_down held held' by simp
    next
      case enabled
      from preservesD [OF apply_keeps_active [OF assms(1)] enabled(2)]
      have "active p (cl w) \<longrightarrow> active p (cl w')" by blast
      moreover have "?i = Run" using enabled(1) None by (simp add: policy_intent_def)
      ultimately show ?thesis using life_up held held' by simp
    qed
  qed
qed

end

lemma policy_active_type:
  "ps_Type (pol_Spec p) = PolicyTypeFalco \<Longrightarrow> policy_active p c = falco_active p c"
  "ps_Type (pol_Spec p) = PolicyTypeTrivy \<Longrightarrow> policy_active p c = trivy_active p c"
  "ps_Type (pol_Spec p) = PolicyTypeLitmus \<Longrightarrow> policy_active p c = litmus_active p c"
  by (auto simp: policy_active_def)

text \<open>What a cleanup may leave: the reports of a Trivy policy, and a config map that could not be read.\<close>

definition policy_leftover :: "'w client \<Rightarrow> util \<Rightarrow> Policy \<Rightarrow> 'w \<Rightarrow> cluster \<Rightarrow> bool" where
  "policy_leftover C U p w c \<longleftrightarrow>
     ps_Type (pol_Spec p) = PolicyTypeFalco \<and> falco_leftover C U p w c \<or>
     ps_Type (pol_Spec p) = PolicyTypeTrivy \<and> trivy_leftover C U p w c"

lemma policy_leftover_type:
  "ps_Type (pol_Spec p) = PolicyTypeFalco \<Longrightarrow> policy_leftover C U p w c = falco_leftover C U p w c"
  "ps_Type (pol_Spec p) = PolicyTypeTrivy \<Longrightarrow> policy_leftover C U p w c = trivy_leftover C U p w c"
  "ps_Type (pol_Spec p) = PolicyTypeLitmus \<Longrightarrow> \<not> policy_leftover C U p w c"
  by (auto simp: policy_leftover_def)

lemma engine_life:
  assumes "api_contract U C cl" "runtime_contract R" "NewPolicyEngine C R U p = Inr engine"
    and "c_policies (cl w) (meta_key (pol_meta p)) = Some p"
    and "policy_with_engine C U engine tool p w = (r, w')"
    and "policy_life p (meta_key (pol_meta p)) (cl w) \<noteq> Orphaned"
  shows "(life_step (policy_intent p))\<^sup>*\<^sup>* (policy_life p (meta_key (pol_meta p)) (cl w))
    (policy_life p (meta_key (pol_meta p)) (cl w')) \<or>
    policy_intent p = Remove \<and> policy_life p (meta_key (pol_meta p)) (cl w') = Orphaned \<and>
    policy_leftover C U p w (cl w')"
  using assms(3)
proof (cases rule: NewPolicyEngine_cases)
  case falco
  with assms(5,6) show ?thesis
    using falco_lasting.with_engine_life [OF assms(1,2,4)] by (simp add: policy_life_def policy_active_type policy_leftover_type)
next
  case trivy
  with assms(5,6) show ?thesis
    using trivy_lasting.with_engine_life [OF assms(1,2,4)] by (simp add: policy_life_def policy_active_type policy_leftover_type)
next
  case litmus
  with assms(5,6) show ?thesis
    using litmus_lasting.with_engine_life [OF assms(1,2,4)] by (simp add: policy_life_def policy_active_type policy_leftover_type)
qed

subsection \<open>Refinement\<close>

text \<open>
  C5: Every reconcile of a policy refines the abstract life of what it deploys: the jobs of its scans, its config
  map or its chaos engines, and its reports. Whatever the API server answers, errors, lost answers and
  panics included, the run takes the moves of the machine that the policy's intent allows (the finalizer
  before the workloads and the report, all of these gone before the finalizer) and no others; so an enabled
  policy only climbs, one that is being deleted only descends. The one run that leaves the machine is that
  of a policy that is being deleted, and what it leaves without a finalizer is known: the reports of a Trivy
  policy whose jobs are gone, or the config map of a Falco policy whose reports are gone, if the read of
  the config map failed for another reason than that there is none.
\<close>

theorem policy_runs_refine_life:
  assumes "api_contract U C cl" "runtime_contract R" "policy_Reconcile C R U key w = (res, w')"
    and "c_policies (cl w) key = Some p" "policy_life p key (cl w) \<noteq> Orphaned"
  shows "(life_step (policy_intent p))\<^sup>*\<^sup>* (policy_life p key (cl w)) (policy_life p key (cl w')) \<and>
    (case policy_intent p of
       Run \<Rightarrow> policy_life p key (cl w) \<le> policy_life p key (cl w')
     | Remove \<Rightarrow> policy_life p key (cl w') \<le> policy_life p key (cl w)
     | Rest \<Rightarrow> True) \<and>
    policy_life p key (cl w') \<noteq> Orphaned \<or>
    policy_intent p = Remove \<and> policy_life p key (cl w') = Orphaned \<and>
    (ps_Type (pol_Spec p) = PolicyTypeTrivy \<and> \<not> trivy_jobs_live p (cl w') \<or>
     ps_Type (pol_Spec p) = PolicyTypeFalco \<and> \<not> reports_live p (cl w') \<and>
       falco_map_unread C U p (policy_reads C key p w))"
proof -
  have "(life_step (policy_intent p))\<^sup>*\<^sup>* (policy_life p key (cl w)) (policy_life p key (cl w')) \<or>
    policy_intent p = Remove \<and> policy_life p key (cl w') = Orphaned \<and> policy_leftover C U p (policy_reads C key p w) (cl w')"
    using assms(1,3)
  proof (cases rule: policy_Reconcile_cases)
    case early
    then show ?thesis by simp
  next
    case (engine q tool engine w2)
    with assms(4) have q: "q = p" and key: "key = meta_key (pol_meta p)" by simp_all
    show ?thesis
      using engine_life [OF assms(1,2) engine(4) _ engine(6)] engine(1,5,7) assms(5) unfolding q key by simp
  qed
  then show ?thesis
  proof
    assume steps: "(life_step (policy_intent p))\<^sup>*\<^sup>* (policy_life p key (cl w)) (policy_life p key (cl w'))"
    from life_order [OF steps] life_never_orphaned [OF steps assms(5)] steps show ?thesis by blast
  qed (auto simp: policy_leftover_def falco_leftover_def trivy_leftover_def trivy_cleaned_not_live reports_removed_not_live)
qed

lemma policy_runs_refine_life_witness:
  "policy_life (sample_policy PolicyTypeLitmus) (''team'', ''p1'')
     (mem_cluster (sample_world PolicyTypeLitmus (sample_policy PolicyTypeLitmus))) = Guarded \<and>
   (life_step Run)\<^sup>*\<^sup>* Guarded Deployed \<and>
   policy_life (sample_policy PolicyTypeLitmus) (''team'', ''p1'')
     (mem_cluster (snd (run_sample PolicyTypeLitmus (sample_policy PolicyTypeLitmus)))) = Deployed"
proof -
  let ?p = "sample_policy PolicyTypeLitmus" and ?k = "(''team'', ''p1'')"
  let ?w = "sample_world PolicyTypeLitmus ?p" and ?w' = "snd (run_sample PolicyTypeLitmus ?p)"
  have p: "ps_Type (pol_Spec ?p) = PolicyTypeLitmus" "policy_intent ?p = Run"
    by (simp_all add: sample_policy_def new_policy_def sample_spec_def policy_intent_def)
  have "holds_finalizer (mem_cluster ?w) ?k"
    by (simp add: holds_finalizer_def sample_stored del: mem_cluster_simps) (simp add: sample_policy_def new_policy_def)
  moreover have "\<not> policy_active ?p (mem_cluster ?w)"
    by (simp add: policy_active_type p litmus_active_def reports_live_def litmus_engines_live_def live_where_def
        sample_world_def empty_mem_def mem_lookup_def)
  ultimately have start: "policy_life ?p ?k (mem_cluster ?w) = Guarded" by (simp add: policy_life_def life_of_def)
  have "case c_reports (mem_cluster ?w') (''team'', ''litmus-report-p1'') of None \<Rightarrow> False
      | Some r \<Rightarrow> om_deletionTimestamp (rep_meta r) = None \<and> reports_of ?p r" by code_simp
  then have "policy_active ?p (mem_cluster ?w')"
    by (auto simp: policy_active_type p litmus_active_def reports_live_def split: option.splits intro: live_whereI)
  moreover have "policy_life ?p ?k (mem_cluster ?w) \<noteq> Orphaned" by (simp add: start)
  note run = policy_runs_refine_life [OF mem_api_contract mem_runtime_contract run_sample_eq sample_stored [OF sample_keys(1)] this]
  ultimately have "policy_life ?p ?k (mem_cluster ?w') = Deployed"
    by (simp add: p(2) policy_life_def life_of_def split: if_splits)
  with run start p(2) show ?thesis by simp
qed

end
