(* ===== verification/ReportController.thy ===== *)
theory ReportController
  imports Factory ControllerResult
begin

section \<open>The report controller\<close>

text \<open>
  \<open>internal/controller/policyreport_controller.go\<close>: a report is completed by the handler of its type,
  retried every five seconds until then, and left alone afterwards; a report without its policy is
  deleted.
\<close>

definition report_run_handler :: "'w handler \<Rightarrow> PolicyReport \<Rightarrow> ('w, ctrl_outcome) act" where
  "report_run_handler handler policyReport =
     tryA (hd_Reconcile handler policyReport)
       (\<lambda>err. retA (RequeueAfter (5 * second)))
       (\<lambda>_. retA Complete)"

definition report_Reconcile ::
  "'w client \<Rightarrow> 'w runtime \<Rightarrow> util \<Rightarrow> 'w clientset \<Rightarrow> (string \<Rightarrow> string) \<Rightarrow> obj_key \<Rightarrow> ('w, ctrl_outcome) act" where
  "report_Reconcile C R U S E key =
     tryA (callA (k_get (cl_reports C) key))
       (\<lambda>err. if isNotFound U err then retA Complete else retA (CompleteWithError (ignoreNotFound U err)))
       (\<lambda>policyReport.
     if rst_Phase (rep_Status policyReport) = ReportCompleted then retA Complete
     else
     tryA (callA (k_get (cl_policies C)
         (om_namespace (rep_meta policyReport), pr_Name (rs_PolicyRef (rep_Spec policyReport)))))
       (\<lambda>err. if isNotFound U err then
                tryA (callA (k_delete (cl_reports C) policyReport)) complete_with (\<lambda>_. retA Complete)
              else complete_with err)
       (\<lambda>policy.
     case NewReportEngine C R U S E policyReport of
       Inl err \<Rightarrow> complete_with err
     | Inr handler \<Rightarrow> report_run_handler handler policyReport))"

subsection \<open>Runs of a handler\<close>

context report_handler
begin

lemma run_handler_Complete:
  assumes "api_contract U C cl" "quiet_reads C R S cl" "c_reports (cl w) (meta_key (rep_meta r)) = Some r"
    and "report_run_handler (mk C R U S E) r w = (Ret Complete, w')"
  shows "report_completed (meta_key (rep_meta r)) (cl w')"
proof -
  from assms(4) obtain u where "hd_Reconcile (mk C R U S E) r w = (Ret u, w')"
    by (auto simp: report_run_handler_def act_simps)
  then show ?thesis by (rule handler_completes [OF assms(1-3)])
qed

lemma run_handler_keeps:
  assumes "api_contract U C cl" "quiet_reads C R S cl"
  shows "keeps (\<lambda>w. all_but_status (meta_key (rep_meta r)) (cl w)) (report_run_handler (mk C R U S E) r)"
  unfolding report_run_handler_def by (intro keeps_intros handler_keeps [OF assms])

end

text \<open>The outcomes of a handler run: done, or tried again in five seconds.\<close>

lemma report_run_handler_outcome:
  assumes "report_run_handler handler r w = (Ret out, w')"
  shows "out = Complete \<or> out = RequeueAfter (5 * second)"
  using assms by (auto simp: report_run_handler_def act_simps)

lemma new_handler_Complete:
  assumes "api_contract U C cl" "quiet_reads C R S cl" "c_reports (cl w) (meta_key (rep_meta r)) = Some r"
    and "NewReportEngine C R U S E r = Inr handler"
    and "report_run_handler handler r w = (Ret Complete, w')"
  shows "report_completed (meta_key (rep_meta r)) (cl w')"
  using assms(4)
proof (cases rule: NewReportEngine_cases)
  case falco
  with assms show ?thesis by (blast intro: falco_handler_iface.run_handler_Complete)
next
  case litmus
  with assms show ?thesis by (blast intro: litmus_handler_iface.run_handler_Complete)
next
  case trivy
  with assms show ?thesis by (blast intro: trivy_handler_iface.run_handler_Complete)
qed

lemma new_handler_keeps:
  assumes "api_contract U C cl" "quiet_reads C R S cl" "NewReportEngine C R U S E r = Inr handler"
  shows "keeps (\<lambda>w. all_but_status (meta_key (rep_meta r)) (cl w)) (report_run_handler handler r)"
  using assms(3)
proof (cases rule: NewReportEngine_cases)
  case falco
  then show ?thesis using falco_handler_iface.run_handler_keeps [OF assms(1,2)] by simp
next
  case litmus
  then show ?thesis using litmus_handler_iface.run_handler_keeps [OF assms(1,2)] by simp
next
  case trivy
  then show ?thesis using trivy_handler_iface.run_handler_keeps [OF assms(1,2)] by simp
qed

subsection \<open>Runs of the controller\<close>

lemma report_Reconcile_cases:
  assumes api: "api_contract U C cl" and run: "report_Reconcile C R U S E key w = (res, w')"
  obtains (unread) e where "cl w' = cl w" "res = Ret (CompleteWithError (Some e))"
    | (missing) "cl w' = cl w" "c_reports (cl w) key = None" "res = Ret Complete"
    | (final) r where "cl w' = cl w" "c_reports (cl w) key = Some r"
        "rst_Phase (rep_Status r) = ReportCompleted" "res = Ret Complete"
    | (orphan) r d w1 where "c_reports (cl w) key = Some r" "rst_Phase (rep_Status r) \<noteq> ReportCompleted"
        "c_policies (cl w) (om_namespace (rep_meta r), pr_Name (rs_PolicyRef (rep_Spec r))) = None"
        "cl w1 = cl w" "k_delete (cl_reports C) r w1 = (d, w')"
        "res = Ret (case d of Inl e \<Rightarrow> CompleteWithError (Some e) | Inr _ \<Rightarrow> Complete)"
    | (handled) r policy handler w1 where "c_reports (cl w) key = Some r" "rst_Phase (rep_Status r) \<noteq> ReportCompleted"
        "c_policies (cl w) (om_namespace (rep_meta r), pr_Name (rs_PolicyRef (rep_Spec r))) = Some policy"
        "cl w1 = cl w" "NewReportEngine C R U S E r = Inr handler" "report_run_handler handler r w1 = (res, w')"
proof -
  note util = util_contractD(1) [OF api_contractD(1) [OF api]]
  obtain g w1 where get: "k_get (cl_reports C) key w = (g, w1)" by fastforce
  have w1: "cl w1 = cl w" using keeps_callAD [OF api_reads_cluster(3) [OF api] get] .
  show thesis
  proof (cases g)
    case (Inl e)
    show ?thesis
    proof (cases "isNotFound U e")
      case True
      then have "c_reports (cl w) key = None" using get_Fail(1) [OF api_contractD(4) [OF api]] get Inl by blast
      moreover from run get Inl True have "res = Ret Complete" "w' = w1"
        by (auto simp: report_Reconcile_def tryA_def callA_def retA_def)
      ultimately show ?thesis using w1 by (intro missing) simp_all
    next
      case False
      with run get Inl have "res = Ret (CompleteWithError (Some e))" "w' = w1"
        by (auto simp: report_Reconcile_def tryA_def callA_def retA_def util)
      with w1 show ?thesis by (intro unread) simp_all
    qed
  next
    case (Inr r)
    with get_Ret(1) [OF api_contractD(4) [OF api]] get have r: "c_reports (cl w) key = Some r" by blast
    show ?thesis
    proof (cases "rst_Phase (rep_Status r) = ReportCompleted")
      case True
      with run get Inr have "res = Ret Complete" "w' = w1"
        by (auto simp: report_Reconcile_def tryA_def callA_def retA_def)
      with w1 r True show ?thesis by (intro final) auto
    next
      case pending: False
      let ?pk = "(om_namespace (rep_meta r), pr_Name (rs_PolicyRef (rep_Spec r)))"
      obtain h w2 where pol: "k_get (cl_policies C) ?pk w1 = (h, w2)" by fastforce
      have w2: "cl w2 = cl w" using keeps_callAD [OF api_reads_cluster(2) [OF api] pol] w1 by simp
      show ?thesis
      proof (cases h)
        case (Inl e)
        show ?thesis
        proof (cases "isNotFound U e")
          case True
          then have none: "c_policies (cl w) ?pk = None"
            using get_Fail(1) [OF api_contractD(3) [OF api] pol [unfolded Inl]] w1 by simp
          obtain d w3 where del: "k_delete (cl_reports C) r w2 = (d, w3)" by fastforce
          with run get \<open>g = Inr r\<close> pending pol Inl True
          have "res = Ret (case d of Inl e \<Rightarrow> CompleteWithError (Some e) | Inr _ \<Rightarrow> Complete)" "w3 = w'"
            by (cases d; auto simp: report_Reconcile_def tryA_def callA_def retA_def complete_with_def)+
          with del show ?thesis by (intro orphan [OF r pending none w2]) simp_all
        next
          case False
          with run get \<open>g = Inr r\<close> pending pol Inl have "res = Ret (CompleteWithError (Some e))" "w' = w2"
            by (auto simp: report_Reconcile_def tryA_def callA_def retA_def complete_with_def)
          with w2 show ?thesis by (intro unread) auto
        qed
      next
        case (Inr policy)
        then have some: "c_policies (cl w) ?pk = Some policy"
          using get_Ret(1) [OF api_contractD(3) [OF api] pol [unfolded Inr]] w1 by simp
        show ?thesis
        proof (cases "NewReportEngine C R U S E r")
          case (Inl e)
          with run get \<open>g = Inr r\<close> pending pol Inr have "res = Ret (CompleteWithError (Some e))" "w' = w2"
            by (auto simp: report_Reconcile_def tryA_def callA_def retA_def complete_with_def)
          with w2 show ?thesis by (intro unread) auto
        next
          case handler: (Inr handler)
          with run get \<open>g = Inr r\<close> pending pol Inr have "report_run_handler handler r w2 = (res, w')"
            by (auto simp: report_Reconcile_def tryA_def callA_def)
          then show ?thesis by (rule handled [OF r pending some w2 handler])
        qed
      qed
    qed
  qed
qed

text \<open>A delete leaves every other report alone, whatever its answer.\<close>

lemma delete_report_only:
  assumes api: "api_contract U C cl" and run: "k_delete (cl_reports C) r w = (d, w')"
  shows "all_but_reports (cl w') = all_but_reports (cl w)"
    and "k \<noteq> meta_key (rep_meta r) \<Longrightarrow> c_reports (cl w') k = c_reports (cl w) k"
    and "d = Inr u \<Longrightarrow> gone_or_marked report_desc (c_reports (cl w') (meta_key (rep_meta r)))"
proof -
  note store = api_contractD(4) [OF api]
  show "all_but_reports (cl w') = all_but_reports (cl w)"
    using kind_frame_keeps(7) [OF api_all_but_frames(3) [OF api]] run by (rule keeps_callAD)
  have "lost_or_nothing e (delete_effect report_desc r) (c_reports (cl w)) (c_reports (cl w'))" if "d = Inl e" for e
    using store_contract_laws(7) [OF store] run that unfolding delete_law_def by blast
  moreover have "delete_effect report_desc r (c_reports (cl w)) (c_reports (cl w'))" if "d = Inr u" for u
    using store_contract_laws(7) [OF store] run that unfolding delete_law_def by blast
  ultimately have "c_reports (cl w') = c_reports (cl w) \<or> delete_effect report_desc r (c_reports (cl w)) (c_reports (cl w'))"
    by (cases d) (auto simp: lost_or_nothing_def)
  then show "k \<noteq> meta_key (rep_meta r) \<Longrightarrow> c_reports (cl w') k = c_reports (cl w) k"
    by (auto simp: delete_effect_def kd_key_def split: if_splits)
  assume "d = Inr u"
  with run have "k_delete (cl_reports C) r w = (Inr u, w')" by simp
  from store this show "gone_or_marked report_desc (c_reports (cl w') (meta_key (rep_meta r)))"
    by (cases rule: delete_Ret) (auto simp: gone_or_marked_def kd_key_def)
qed

subsection \<open>Properties\<close>

text \<open>
  C10: The report controller lets go of a report (asks for no retry and returns no error) only when the
  report is gone already, when its policy is gone and the report has been deleted with it, or when the
  report is completed. Otherwise it is retried: after five seconds, or by returning an error.
\<close>

theorem report_controller_completes:
  assumes "api_contract U C cl" "quiet_reads C R S cl"
    and "report_Reconcile C R U S E key w = (Ret out, w')"
  shows "(out = Complete \<and>
      (case c_reports (cl w) key of
         None \<Rightarrow> cl w' = cl w
       | Some r \<Rightarrow> report_completed key (cl w') \<or>
           c_policies (cl w) (om_namespace (rep_meta r), pr_Name (rs_PolicyRef (rep_Spec r))) = None \<and>
           gone_or_marked report_desc (c_reports (cl w') key))) \<or>
    out = RequeueAfter (5 * second) \<or> (\<exists>e. out = CompleteWithError (Some e))"
  using assms(1,3)
proof (cases rule: report_Reconcile_cases)
  case (orphan r d w1)
  have "key = meta_key (rep_meta r)"
    using kd_keyed [OF api_contractD(4) [OF assms(1)] orphan(1)] by (simp add: kd_key_def)
  with orphan delete_report_only(3) [OF assms(1) orphan(5)] show ?thesis by (cases d) auto
next
  case (handled r policy handler w1)
  have key: "key = meta_key (rep_meta r)"
    using kd_keyed [OF api_contractD(4) [OF assms(1)] handled(1)] by (simp add: kd_key_def)
  from report_run_handler_outcome [OF handled(6)] show ?thesis
  proof
    assume "out = Complete"
    with handled key have "report_completed key (cl w')"
      using new_handler_Complete [OF assms(1,2) _ handled(5), of w1 w'] by simp
    with \<open>out = Complete\<close> handled(1) show ?thesis by simp
  qed simp
qed (auto simp: report_completed_def)

text \<open>
  A completed report is final: reconciling it changes nothing, whatever happened to its policy.
\<close>

lemma report_completed_is_final:
  assumes "api_contract U C cl" "quiet_reads C R S cl" "report_completed key (cl w)"
    and "report_Reconcile C R U S E key w = (res, w')"
  shows "cl w' = cl w \<and> (res = Ret Complete \<or> (\<exists>e. res = Ret (CompleteWithError (Some e))))"
  using assms(1,4) by (cases rule: report_Reconcile_cases) (use assms(3) in \<open>auto simp: report_completed_def\<close>)

text \<open>
  C18: Reconciling a report touches nothing else: no tool, policy, job, config map or chaos engine, and
  no other report; of a report whose policy is there it leaves the metadata and the spec alone.
\<close>

theorem report_controller_frame:
  assumes "api_contract U C cl" "quiet_reads C R S cl" "report_Reconcile C R U S E key w = (res, w')"
  shows "all_but_reports (cl w') = all_but_reports (cl w) \<and>
    (\<forall>k. k \<noteq> key \<longrightarrow> c_reports (cl w') k = c_reports (cl w) k) \<and>
    (\<forall>r. c_reports (cl w) key = Some r \<longrightarrow>
       c_policies (cl w) (om_namespace (rep_meta r), pr_Name (rs_PolicyRef (rep_Spec r))) \<noteq> None \<longrightarrow>
       (\<exists>r'. c_reports (cl w') key = Some r' \<and> rep_meta r' = rep_meta r \<and> rep_Spec r' = rep_Spec r))"
  using assms(1,3)
proof (cases rule: report_Reconcile_cases)
  case (orphan r d w1)
  have "key = meta_key (rep_meta r)"
    using kd_keyed [OF api_contractD(4) [OF assms(1)] orphan(1)] by (simp add: kd_key_def)
  with orphan delete_report_only(1,2) [OF assms(1) orphan(5)] show ?thesis by simp
next
  case (handled r policy handler w1)
  have key: "key = meta_key (rep_meta r)"
    using kd_keyed [OF api_contractD(4) [OF assms(1)] handled(1)] by (simp add: kd_key_def)
  have *: "all_but_status key (cl w') = all_but_status key (cl w)"
    using keepsD [OF new_handler_keeps [OF assms(1,2) handled(5)] handled(6)] handled(4) key by simp
  then have "(c_reports (cl w'))(key := None) = (c_reports (cl w))(key := None)"
    by (simp add: all_but_status_def other_reports_def)
  then have "c_reports (cl w') k = c_reports (cl w) k" if "k \<noteq> key" for k
    using that by (metis fun_upd_other)
  with * handled(1) show ?thesis by (auto simp: all_but_status_def other_reports_def)
qed auto

subsection \<open>Witnesses\<close>

lemma mem_quiet_reads: "quiet_reads mem_client mem_runtime mem_clientset mem_cluster"
  by (auto simp: quiet_reads_def mem_client_def mem_runtime_def mem_clientset_def)

lemma report_controller_completes_witness:
  "case report_Reconcile mem_client mem_runtime mem_util mem_clientset (\<lambda>s. s) (''team'', ''r1'')
        (report_world ''trivy'' ReportPending True) of
     (Ret out, w') \<Rightarrow> out = Complete \<and> report_completed (''team'', ''r1'') (mem_cluster w')
   | _ \<Rightarrow> False"
proof -
  let ?w = "report_world ''trivy'' ReportPending True"
  let ?run = "report_Reconcile mem_client mem_runtime mem_util mem_clientset (\<lambda>s. s) (''team'', ''r1'') ?w"
  have out: "fst ?run = Ret Complete" by code_simp
  have there: "case c_reports (mem_cluster ?w) (''team'', ''r1'') of None \<Rightarrow> False
      | Some r \<Rightarrow> om_namespace (rep_meta r) = ''team'' \<and> pr_Name (rs_PolicyRef (rep_Spec r)) = ''p1''" by code_simp
  have pol: "case c_policies (mem_cluster ?w) (''team'', ''p1'') of None \<Rightarrow> False | Some _ \<Rightarrow> True" by code_simp
  from out obtain w' where run: "?run = (Ret Complete, w')" by (metis prod.collapse)
  have "report_completed (''team'', ''r1'') (mem_cluster w')"
    using report_controller_completes [OF mem_api_contract mem_quiet_reads run] there pol
    by (auto simp: ctrl_defs split: option.splits)
  with run show ?thesis by simp
qed

lemma report_controller_frame_witness:
  "let w = report_world ''litmus'' ReportPending True in
   c_policies (mem_cluster (snd (report_Reconcile mem_client mem_runtime mem_util mem_clientset (\<lambda>s. s) (''team'', ''r1'') w))) =
     c_policies (mem_cluster w)"
proof -
  let ?w = "report_world ''litmus'' ReportPending True"
  obtain res w' where
    run: "report_Reconcile mem_client mem_runtime mem_util mem_clientset (\<lambda>s. s) (''team'', ''r1'') ?w = (res, w')"
    by (metis surj_pair)
  have "all_but_reports (mem_cluster w') = all_but_reports (mem_cluster ?w)"
    using report_controller_frame [OF mem_api_contract mem_quiet_reads run] by blast
  with run show ?thesis by (simp only: Let_def snd_conv all_but_reports_def prod.inject)
qed

end
