(* ===== verification/ToolController.thy ===== *)
theory ToolController
  imports Factory ControllerResult
begin

section \<open>The tool controller\<close>

text \<open>
  \<open>internal/controller/tool_controller.go\<close>: a Tool is installed or uninstalled by the service of its
  type; the finalizer keeps the object until the release is gone. A service is used through the
  interface only.
\<close>

subsection \<open>Reconcile\<close>

definition setFailedCondition ::
  "'w client \<Rightarrow> 'w runtime \<Rightarrow> util \<Rightarrow> Tool \<Rightarrow> string \<Rightarrow> string \<Rightarrow> ('w, ctrl_outcome) act" where
  "setFailedCondition C R U tool reason message =
     bindA (nowA R) (\<lambda>now.
     let tool = tool\<lparr>tool_Status := (tool_Status tool)\<lparr>tst_Conditions :=
           setStatusCondition U (tst_Conditions (tool_Status tool))
             \<lparr>co_Type = ''Ready'', co_Status = ''False'', co_Reason = reason, co_Message = message,
              co_LastTransitionTime = now\<rparr>\<rparr>\<rparr> in
     tryA (callA (k_status_update (cl_tools C) tool))
       (\<lambda>err. retA (RequeueAfter (5 * second)))
       (\<lambda>_. retA Complete))"

definition tool_remove_finalizer :: "'w client \<Rightarrow> util \<Rightarrow> Tool \<Rightarrow> ('w, ctrl_outcome) act" where
  "tool_remove_finalizer C U tool =
     tryA (callA (k_patch (cl_tools C) tool (tool\<lparr>tool_meta := removeFinalizer U (tool_meta tool) ToolFinalizer\<rparr>)))
       complete_with (\<lambda>_. retA Complete)"

definition handleDeletion ::
  "'w client \<Rightarrow> util \<Rightarrow> 'w clientset \<Rightarrow> 'w helm \<Rightarrow> Tool \<Rightarrow> ('w, ctrl_outcome) act" where
  "handleDeletion C U S H tool =
     (case NewToolService S U H tool of
        Inl err \<Rightarrow> tool_remove_finalizer C U tool
      | Inr svc \<Rightarrow>
          tryA (svc_EnsureUninstalled svc tool)
            (\<lambda>err. retA (RequeueAfter (10 * second)))
            (\<lambda>_. tool_remove_finalizer C U tool))"

definition tool_apply :: "'w client \<Rightarrow> 'w tool_service \<Rightarrow> Tool \<Rightarrow> ('w, ctrl_outcome) act" where
  "tool_apply C svc tool =
     tryA (if ts_Enabled (tool_Spec tool) then svc_EnsureInstalled svc tool else svc_EnsureUninstalled svc tool)
       (\<lambda>err. retA (RequeueAfter (5 * second)))
       (\<lambda>_.
     tryA (svc_CheckHealth svc tool)
       (\<lambda>err. retA (RequeueAfter (10 * second)))
       (\<lambda>healthy.
     let tool = tool\<lparr>tool_Status := (tool_Status tool)
           \<lparr>tst_Installed := ts_Enabled (tool_Spec tool), tst_Healthy := healthy\<rparr>\<rparr> in
     tryA (callA (k_status_update (cl_tools C) tool))
       (\<lambda>err. retA (RequeueAfter (5 * second)))
       (\<lambda>_. if \<not> healthy then retA (RequeueAfter (5 * second)) else retA Complete)))"

definition tool_Reconcile ::
  "'w client \<Rightarrow> 'w runtime \<Rightarrow> util \<Rightarrow> 'w clientset \<Rightarrow> 'w helm \<Rightarrow> obj_key \<Rightarrow> ('w, ctrl_outcome) act" where
  "tool_Reconcile C R U S H key =
     tryA (callA (k_get (cl_tools C) key))
       (\<lambda>err. retA (CompleteWithError (ignoreNotFound U err)))
       (\<lambda>tool.
     if om_deletionTimestamp (tool_meta tool) \<noteq> None then handleDeletion C U S H tool
     else
     tryA (if \<not> containsFinalizer U (tool_meta tool) ToolFinalizer then
             callA (k_patch (cl_tools C) tool (tool\<lparr>tool_meta := addFinalizer U (tool_meta tool) ToolFinalizer\<rparr>))
           else retA tool)
       complete_with
       (\<lambda>tool.
     case NewToolService S U H tool of
       Inl err \<Rightarrow> setFailedCondition C R U tool ''UnsupportedToolType'' (error_text err)
     | Inr svc \<Rightarrow> tool_apply C svc tool))"

subsection \<open>The service of a tool\<close>

text \<open>What the interpretations give for the service that the factory picks.\<close>

lemma new_service_installs:
  assumes "NewToolService S U H tool = Inr svc" "tool_env U S H rels lost nss"
    and "svc_EnsureInstalled svc tool w = (r, w')"
  shows "install_promise (tool_namespace (tool_default_namespace tool) tool) (tool_release tool) rels lost nss w r w'"
  using assms(1)
  by (cases rule: NewToolService_cases)
    (use assms(2,3) in \<open>auto simp: tool_default_namespace_def tool_release_def
      intro: falco_tool_iface.installs litmus_tool_iface.installs trivy_tool_iface.installs simp del: service_simps\<close>)

lemma new_service_uninstalls:
  assumes "NewToolService S U H tool = Inr svc" "tool_env U S H rels lost nss"
    and "svc_EnsureUninstalled svc tool w = (r, w')"
  shows "uninstall_promise (ts_Namespace (tool_Spec tool) = '''') (tool_namespace (tool_default_namespace tool) tool)
    (tool_release tool) rels lost nss w r w'"
  using assms(1)
  by (cases rule: NewToolService_cases)
    (use assms(2,3) in \<open>auto simp: tool_default_namespace_def tool_release_def
      intro: falco_tool_iface.uninstalls litmus_tool_iface.uninstalls trivy_tool_iface.uninstalls simp del: service_simps\<close>)

lemma new_service_quiet:
  assumes "NewToolService S U H tool = Inr svc" "helm_quiet H g" "clientset_quiet S g"
  shows "keeps g (svc_EnsureInstalled svc tool)" "keeps g (svc_EnsureUninstalled svc tool)"
    "keeps g (svc_CheckHealth svc tool)"
  using assms(1)
  by (cases rule: NewToolService_cases; simp add: services_quiet [OF assms(2,3)])+

lemma new_service_safe:
  assumes "NewToolService S U H tool = Inr svc"
  shows "no_panic (svc_EnsureInstalled svc tool)" "no_panic (svc_EnsureUninstalled svc tool)"
    "no_panic (svc_CheckHealth svc tool)"
  using assms by (cases rule: NewToolService_cases; simp add: services_safe)+

text \<open>Checking the health only reads workloads.\<close>

lemma workload_reads_quiet: "clientset_quiet S g \<Longrightarrow> workload_reads S g"
  by (simp add: clientset_quiet_def workload_reads_def)

lemma new_service_health_keeps:
  assumes "NewToolService S U H tool = Inr svc" "workload_reads S g"
  shows "keeps g (svc_CheckHealth svc tool)"
  using assms(1)
  by (cases rule: NewToolService_cases)
    (simp_all add: health_defs Let_def keeps_wrapA keeps_readiness [OF assms(2)])

subsection \<open>The world of a run\<close>

text \<open>
  Objects, releases and namespaces are apart: the calls on one leave the observations of the others as
  they are. (Helm and the namespaces act on objects of the cluster that the operator never reads.)
\<close>

definition tool_world where
  "tool_world C R U S H cl rels lost nss \<longleftrightarrow>
     api_contract U C cl \<and> tool_env U S H rels lost nss \<and> helm_quiet H cl \<and> clientset_quiet S cl \<and>
     kind_frame (cl_tools C) rels \<and> kind_frame (cl_tools C) nss \<and>
     keeps cl (nowA R) \<and> keeps rels (nowA R) \<and> keeps nss (nowA R) \<and>
     kind_frame (cl_tools C) lost \<and> keeps lost (nowA R)"

lemma tool_worldD:
  assumes "tool_world C R U S H cl rels lost nss"
  shows "api_contract U C cl" "tool_env U S H rels lost nss" "helm_quiet H cl" "clientset_quiet S cl"
    "kind_frame (cl_tools C) rels" "kind_frame (cl_tools C) nss"
    "keeps cl (nowA R)" "keeps rels (nowA R)" "keeps nss (nowA R)"
    "kind_frame (cl_tools C) lost" "keeps lost (nowA R)"
  using assms by (simp_all add: tool_world_def)

text \<open>Metadata and spec of the tools: all a status update leaves alone.\<close>

definition tool_specs :: "cluster \<Rightarrow> obj_key \<Rightarrow> (obj_meta \<times> ToolSpec) option" where
  "tool_specs c = (\<lambda>k. map_option (\<lambda>t. (tool_meta t, tool_Spec t)) (c_tools c k))"

definition holds_tool_finalizer :: "cluster \<Rightarrow> obj_key \<Rightarrow> bool" where
  "holds_tool_finalizer c k \<longleftrightarrow> (\<exists>t. c_tools c k = Some t \<and> ToolFinalizer \<in> set (om_finalizers (tool_meta t)))"

lemma holds_tool_finalizer_cong: "tool_specs c = tool_specs c' \<Longrightarrow> holds_tool_finalizer c k = holds_tool_finalizer c' k"
  unfolding tool_specs_def holds_tool_finalizer_def
  by (drule fun_cong [of _ _ k]) (auto simp: map_option_case split: option.splits)

lemma keeps_tool_specs: "keeps cl m \<Longrightarrow> keeps (\<lambda>w. tool_specs (cl w)) m"
  by (auto simp: keeps_def)

lemma keeps_status_specs:
  assumes "api_contract U C cl"
  shows "keeps (\<lambda>w. tool_specs (cl w)) (callA (k_status_update (cl_tools C) t))"
  using keeps_status_update [OF api_contractD(2) [OF assms], of t] by (simp add: tool_specs_def)

lemma tool_apply_specs:
  assumes "tool_world C R U S H cl rels lost nss" "NewToolService S U H tool = Inr svc"
  shows "keeps (\<lambda>w. tool_specs (cl w)) (tool_apply C svc tool)"
  unfolding tool_apply_def Let_def
  using new_service_quiet [OF assms(2) tool_worldD(3,4) [OF assms(1)]]
  by (intro keeps_intros keeps_status_specs [OF tool_worldD(1) [OF assms(1)]] keeps_tool_specs)

lemma setFailedCondition_specs:
  assumes "tool_world C R U S H cl rels lost nss"
  shows "keeps (\<lambda>w. tool_specs (cl w)) (setFailedCondition C R U tool reason message)"
  unfolding setFailedCondition_def Let_def
  by (intro keeps_intros keeps_status_specs [OF tool_worldD(1) [OF assms]]
      keeps_tool_specs [OF tool_worldD(7) [OF assms]])

lemma setFailedCondition_outside:
  assumes "tool_world C R U S H cl rels lost nss"
  shows "keeps rels (setFailedCondition C R U tool reason message)"
    "keeps nss (setFailedCondition C R U tool reason message)"
    "keeps lost (setFailedCondition C R U tool reason message)"
  unfolding setFailedCondition_def Let_def
  using tool_worldD(8,9,11) [OF assms] kind_frame_keeps(5) [OF tool_worldD(5) [OF assms]]
    kind_frame_keeps(5) [OF tool_worldD(6) [OF assms]] kind_frame_keeps(5) [OF tool_worldD(10) [OF assms]]
  by (intro keeps_intros; simp)+

lemma patch_outside:
  assumes "tool_world C R U S H cl rels lost nss" "k_patch (cl_tools C) t t' w = (r, w')"
  shows "rels w' = rels w" "nss w' = nss w" "lost w' = lost w"
  using keeps_callAD [OF kind_frame_keeps(6) [OF tool_worldD(5) [OF assms(1)]] assms(2)]
    keeps_callAD [OF kind_frame_keeps(6) [OF tool_worldD(6) [OF assms(1)]] assms(2)]
    keeps_callAD [OF kind_frame_keeps(6) [OF tool_worldD(10) [OF assms(1)]] assms(2)] by simp_all

text \<open>Whatever the answer to a patch of the finalizers is, the other objects are as before.\<close>

lemma patch_finalizer_any:
  assumes api: "api_contract U C cl" and stored: "c_tools (cl w) key = Some tool"
    and run: "k_patch (cl_tools C) tool (tool\<lparr>tool_meta := (tool_meta tool)\<lparr>om_finalizers := fs\<rparr>\<rparr>) w = (r, w')"
  shows "c_tools (cl w') = c_tools (cl w) \<or>
    (\<exists>t. tool_meta t = (tool_meta tool)\<lparr>om_finalizers := fs\<rparr> \<and> tool_Spec t = tool_Spec tool \<and>
       c_tools (cl w') = store_after (tool_meta tool) (tool_meta t) key t (c_tools (cl w)))"
    and "all_but_tools (cl w') = all_but_tools (cl w)"
proof -
  note store = api_contractD(2) [OF api]
  let ?p = "tool\<lparr>tool_meta := (tool_meta tool)\<lparr>om_finalizers := fs\<rparr>\<rparr>"
  have key: "key = meta_key (tool_meta tool)" using kd_keyed [OF store stored] by (simp add: kd_key_def)
  have "c_tools (cl w') = c_tools (cl w) \<or> (\<exists>t. patch_effect tool_desc tool ?p t (c_tools (cl w)) (c_tools (cl w')))"
    using store_contract_laws(6) [OF store] run unfolding patch_law_def lost_or_nothing_def by (cases r) blast+
  then show "c_tools (cl w') = c_tools (cl w) \<or>
    (\<exists>t. tool_meta t = (tool_meta tool)\<lparr>om_finalizers := fs\<rparr> \<and> tool_Spec t = tool_Spec tool \<and>
       c_tools (cl w') = store_after (tool_meta tool) (tool_meta t) key t (c_tools (cl w)))"
    unfolding patch_effect_def using stored by (auto simp: kd_key_def meta_key_def key)
  show "all_but_tools (cl w') = all_but_tools (cl w)"
    using keeps_callAD [OF kind_frame_keeps(6) [OF api_all_but_frames(1) [OF api]] run] .
qed

lemma patch_finalizer_others:
  assumes "api_contract U C cl" "c_tools (cl w) key = Some tool"
    and "k_patch (cl_tools C) tool (tool\<lparr>tool_meta := (tool_meta tool)\<lparr>om_finalizers := fs\<rparr>\<rparr>) w = (r, w')"
    and "k \<noteq> key"
  shows "c_tools (cl w') k = c_tools (cl w) k"
  using patch_finalizer_any(1) [OF assms(1-3)] assms(4) by (auto simp: store_after_def)

text \<open>Adding the finalizer to a tool that is not being deleted.\<close>

lemma add_finalizer_Ret:
  assumes api: "api_contract U C cl" and stored: "c_tools (cl w) key = Some tool"
    and alive: "om_deletionTimestamp (tool_meta tool) = None"
    and run: "k_patch (cl_tools C) tool (tool\<lparr>tool_meta := addFinalizer U (tool_meta tool) ToolFinalizer\<rparr>) w = (Inr t, w')"
  shows "c_tools (cl w') key = Some t" "tool_Spec t = tool_Spec tool" "ToolFinalizer \<in> set (om_finalizers (tool_meta t))"
proof -
  note store = api_contractD(2) [OF api]
  have key: "key = meta_key (tool_meta tool)" using kd_keyed [OF store stored] by (simp add: kd_key_def)
  obtain fs where fs: "addFinalizer U (tool_meta tool) ToolFinalizer = (tool_meta tool)\<lparr>om_finalizers := fs\<rparr>"
    "set fs = insert ToolFinalizer (set (om_finalizers (tool_meta tool)))"
    using util_contractD(3) [OF api_contractD(1) [OF api]] by blast
  from store_contract_laws(6) [OF store] run
  have "patch_effect tool_desc tool (tool\<lparr>tool_meta := (tool_meta tool)\<lparr>om_finalizers := fs\<rparr>\<rparr>) t
      (c_tools (cl w)) (c_tools (cl w'))"
    unfolding patch_law_def fs(1) by blast
  then obtain old where "c_tools (cl w) key = Some old"
    "tool_meta t = (tool_meta old)\<lparr>om_finalizers := fs\<rparr>" "tool_Spec t = tool_Spec old"
    "c_tools (cl w') = store_after (tool_meta old) (tool_meta t) key t (c_tools (cl w))"
    unfolding patch_effect_def by (auto simp: kd_key_def meta_key_def key)
  with stored alive fs(2) show "c_tools (cl w') key = Some t" "tool_Spec t = tool_Spec tool"
    "ToolFinalizer \<in> set (om_finalizers (tool_meta t))"
    by (auto simp: store_after_def)
qed

text \<open>How a run goes.\<close>

lemma tool_Reconcile_cases:
  assumes env: "tool_world C R U S H cl rels lost nss" and run: "tool_Reconcile C R U S H key w = (res, w')"
  obtains (unread) err where "cl w' = cl w" "rels w' = rels w" "nss w' = nss w" "res = Ret (CompleteWithError err)"
      "err = None \<longrightarrow> c_tools (cl w) key = None" "lost w' = lost w"
    | (deleted) tool w1 where "c_tools (cl w) key = Some tool" "om_deletionTimestamp (tool_meta tool) \<noteq> None"
        "cl w1 = cl w" "rels w1 = rels w" "nss w1 = nss w" "handleDeletion C U S H tool w1 = (res, w')" "lost w1 = lost w"
    | (blocked) tool e where "c_tools (cl w) key = Some tool" "ToolFinalizer \<notin> set (om_finalizers (tool_meta tool))"
        "rels w' = rels w" "nss w' = nss w" "res = Ret (CompleteWithError (Some e))"
        "\<forall>k. k \<noteq> key \<longrightarrow> c_tools (cl w') k = c_tools (cl w) k" "om_deletionTimestamp (tool_meta tool) = None"
        "lost w' = lost w"
    | (running) tool tool' w1 where "c_tools (cl w) key = Some tool" "om_deletionTimestamp (tool_meta tool) = None"
        "c_tools (cl w1) key = Some tool'" "tool_Spec tool' = tool_Spec tool"
        "ToolFinalizer \<in> set (om_finalizers (tool_meta tool'))" "rels w1 = rels w" "nss w1 = nss w"
        "(case NewToolService S U H tool' of
            Inl err \<Rightarrow> setFailedCondition C R U tool' ''UnsupportedToolType'' (error_text err)
          | Inr svc \<Rightarrow> tool_apply C svc tool') w1 = (res, w')"
        "\<forall>k. k \<noteq> key \<longrightarrow> c_tools (cl w1) k = c_tools (cl w) k" "lost w1 = lost w"
proof -
  note api = tool_worldD(1) [OF env] and store = api_contractD(2) [OF tool_worldD(1) [OF env]]
  note util = util_contractD [OF api_contractD(1) [OF api]]
  obtain g w1 where get: "k_get (cl_tools C) key w = (g, w1)" by fastforce
  have same: "cl w1 = cl w" "rels w1 = rels w" "nss w1 = nss w" "lost w1 = lost w"
    using keeps_callAD [OF api_reads_cluster(1) [OF api] get]
      keeps_callAD [OF kind_frame_keeps(1) [OF tool_worldD(5) [OF env]] get]
      keeps_callAD [OF kind_frame_keeps(1) [OF tool_worldD(6) [OF env]] get]
      keeps_callAD [OF kind_frame_keeps(1) [OF tool_worldD(10) [OF env]] get] by simp_all
  show thesis
  proof (cases g)
    case (Inl e)
    with run get have *: "res = Ret (CompleteWithError (ignoreNotFound U e))" "w' = w1"
      by (auto simp: tool_Reconcile_def tryA_def callA_def retA_def)
    have "ignoreNotFound U e = None \<longrightarrow> c_tools (cl w) key = None"
      using get_Fail(1) [OF store get [unfolded Inl]] util(1) [of e] by auto
    with * same show ?thesis by (intro unread) auto
  next
    case (Inr tool)
    have stored: "c_tools (cl w) key = Some tool" using get_Ret(1) [OF store get [unfolded Inr]] .
    show ?thesis
    proof (cases "om_deletionTimestamp (tool_meta tool) = None")
      case False
      with run get Inr have "handleDeletion C U S H tool w1 = (res, w')"
        by (auto simp: tool_Reconcile_def tryA_def callA_def)
      with stored False same show ?thesis by (intro deleted [of tool w1]) auto
    next
      case alive: True
      show ?thesis
      proof (cases "ToolFinalizer \<in> set (om_finalizers (tool_meta tool))")
        case True
        with run get Inr alive have "(case NewToolService S U H tool of
            Inl err \<Rightarrow> setFailedCondition C R U tool ''UnsupportedToolType'' (error_text err)
          | Inr svc \<Rightarrow> tool_apply C svc tool) w1 = (res, w')"
          by (auto simp: tool_Reconcile_def tryA_def callA_def retA_def util(2))
        with stored alive same True show ?thesis by (intro running [of tool w1 tool]) auto
      next
        case False
        let ?p = "tool\<lparr>tool_meta := addFinalizer U (tool_meta tool) ToolFinalizer\<rparr>"
        obtain p w2 where patch: "k_patch (cl_tools C) tool ?p w1 = (p, w2)" by fastforce
        note out = patch_outside [OF env patch]
        obtain fs where "addFinalizer U (tool_meta tool) ToolFinalizer = (tool_meta tool)\<lparr>om_finalizers := fs\<rparr>"
          using util(3) by blast
        with patch stored same have others: "\<forall>k. k \<noteq> key \<longrightarrow> c_tools (cl w2) k = c_tools (cl w) k"
          using patch_finalizer_others [OF api, of w1 key tool fs p w2] by simp
        show ?thesis
        proof (cases p)
          case (Inl e)
          with run get \<open>g = Inr tool\<close> alive False patch have "res = Ret (CompleteWithError (Some e))" "w' = w2"
            by (auto simp: tool_Reconcile_def tryA_def callA_def retA_def util(2) complete_with_def)
          with stored alive False out same others show ?thesis by (intro blocked) auto
        next
          case (Inr t)
          with run get \<open>g = Inr tool\<close> alive False patch have "(case NewToolService S U H t of
              Inl err \<Rightarrow> setFailedCondition C R U t ''UnsupportedToolType'' (error_text err)
            | Inr svc \<Rightarrow> tool_apply C svc t) w2 = (res, w')"
            by (auto simp: tool_Reconcile_def tryA_def callA_def util(2))
          with add_finalizer_Ret [OF api _ alive patch [unfolded Inr]] stored alive same out others
          show ?thesis by (intro running [of tool w2 t]) auto
        qed
      qed
    qed
  qed
qed

subsection \<open>Removing the finalizer\<close>

lemma tool_remove_finalizer_others:
  assumes "api_contract U C cl" "c_tools (cl w) key = Some tool"
    and "tool_remove_finalizer C U tool w = (res, w')" "k \<noteq> key"
  shows "c_tools (cl w') k = c_tools (cl w) k"
proof -
  from util_contractD(4) [OF api_contractD(1) [OF assms(1)]] obtain fs
    where "removeFinalizer U (tool_meta tool) ToolFinalizer = (tool_meta tool)\<lparr>om_finalizers := fs\<rparr>" by blast
  with assms(3) obtain r where "k_patch (cl_tools C) tool (tool\<lparr>tool_meta := (tool_meta tool)\<lparr>om_finalizers := fs\<rparr>\<rparr>) w = (r, w')"
    by (auto simp: tool_remove_finalizer_def act_simps)
  from patch_finalizer_others [OF assms(1,2) this assms(4)] show ?thesis .
qed

lemma tool_remove_finalizer_holds:
  assumes "api_contract U C cl" "c_tools (cl w) key = Some tool"
    and "tool_remove_finalizer C U tool w = (res, w')" "holds_tool_finalizer (cl w') key"
  shows "holds_tool_finalizer (cl w) key"
proof -
  from util_contractD(4) [OF api_contractD(1) [OF assms(1)]] obtain fs
    where fs: "removeFinalizer U (tool_meta tool) ToolFinalizer = (tool_meta tool)\<lparr>om_finalizers := fs\<rparr>"
      "set fs = set (om_finalizers (tool_meta tool)) - {ToolFinalizer}" by blast
  with assms(3) obtain r where "k_patch (cl_tools C) tool (tool\<lparr>tool_meta := (tool_meta tool)\<lparr>om_finalizers := fs\<rparr>\<rparr>) w = (r, w')"
    by (auto simp: tool_remove_finalizer_def act_simps)
  from patch_finalizer_any(1) [OF assms(1,2) this] assms(4) fs(2) show ?thesis
    by (auto simp: holds_tool_finalizer_def store_after_def split: if_splits)
qed

lemma tool_remove_finalizer_outside:
  assumes "tool_world C R U S H cl rels lost nss"
  shows "keeps rels (tool_remove_finalizer C U tool)" "keeps nss (tool_remove_finalizer C U tool)"
    "keeps lost (tool_remove_finalizer C U tool)"
  unfolding tool_remove_finalizer_def
  using kind_frame_keeps(6) [OF tool_worldD(5) [OF assms]] kind_frame_keeps(6) [OF tool_worldD(6) [OF assms]]
    kind_frame_keeps(6) [OF tool_worldD(10) [OF assms]]
  by (intro keeps_intros; simp)+

text \<open>
  The finalizer of a tool of a known type goes only after the answer to its uninstallation, and after
  the default namespace.
\<close>

lemma handleDeletion_cases:
  assumes env: "tool_world C R U S H cl rels lost nss" and run: "handleDeletion C U S H tool w = (res, w')"
  obtains (kept) svc where "NewToolService S U H tool = Inr svc" "cl w' = cl w" "res = Ret (RequeueAfter (10 * second))"
      "uninstall_promise (ts_Namespace (tool_Spec tool) = '''') (tool_namespace (tool_default_namespace tool) tool)
        (tool_release tool) rels lost nss w (Fail (Errorf '''') :: unit res) w'"
    | (unknown) e where "NewToolService S U H tool = Inl e" "tool_remove_finalizer C U tool w = (res, w')"
        "rels w' = rels w" "nss w' = nss w" "lost w' = lost w"
    | (removed) svc w1 where "NewToolService S U H tool = Inr svc" "cl w1 = cl w"
        "tool_remove_finalizer C U tool w1 = (res, w')" "rels w' = rels w1" "nss w' = nss w1"
        "uninstall_promise (ts_Namespace (tool_Spec tool) = '''') (tool_namespace (tool_default_namespace tool) tool)
          (tool_release tool) rels lost nss w (Ret ()) w1" "lost w' = lost w1"
proof (cases "NewToolService S U H tool")
  case (Inl e)
  with run have *: "tool_remove_finalizer C U tool w = (res, w')" by (simp add: handleDeletion_def)
  show ?thesis
    using keepsD [OF tool_remove_finalizer_outside(1) [OF env] *]
      keepsD [OF tool_remove_finalizer_outside(2) [OF env] *]
      keepsD [OF tool_remove_finalizer_outside(3) [OF env] *] by (intro unknown [OF Inl *])
next
  case (Inr svc)
  obtain q w1 where un: "svc_EnsureUninstalled svc tool w = (q, w1)" by fastforce
  have same: "cl w1 = cl w"
    using keepsD [OF new_service_quiet(2) [OF Inr tool_worldD(3,4) [OF env]] un] .
  note promise = new_service_uninstalls [OF Inr tool_worldD(2) [OF env] un]
  show ?thesis
  proof (cases q)
    case (Ret u)
    with run un Inr have *: "tool_remove_finalizer C U tool w1 = (res, w')"
      by (simp add: handleDeletion_def tryA_def)
    show ?thesis
      using keepsD [OF tool_remove_finalizer_outside(1) [OF env] *]
        keepsD [OF tool_remove_finalizer_outside(2) [OF env] *]
        keepsD [OF tool_remove_finalizer_outside(3) [OF env] *] promise Ret
      by (intro removed [OF Inr same *]) simp_all
  next
    case (Fail e)
    with run un Inr have "res = Ret (RequeueAfter (10 * second))" "w' = w1"
      by (simp_all add: handleDeletion_def tryA_def)
    with same promise Fail show ?thesis
      by (intro kept [OF Inr]) (simp_all add: uninstall_promise_def uninstall_answer_def)
  next
    case (Panic s)
    with new_service_safe(2) [OF Inr] un show ?thesis by (auto dest: no_panicD)
  qed
qed

text \<open>Releases and namespaces after a run that got to the service.\<close>

lemma tool_apply_outside:
  assumes env: "tool_world C R U S H cl rels lost nss" and svc: "NewToolService S U H tool = Inr svc"
    and run: "tool_apply C svc tool w = (res, w')"
  obtains q w1 where "(if ts_Enabled (tool_Spec tool) then svc_EnsureInstalled svc tool else svc_EnsureUninstalled svc tool) w = (q, w1)"
    "rels w' = rels w1" "nss w' = nss w1" "lost w' = lost w1"
proof -
  let ?act = "if ts_Enabled (tool_Spec tool) then svc_EnsureInstalled svc tool else svc_EnsureUninstalled svc tool"
  obtain q w1 where act: "?act w = (q, w1)" by fastforce
  let ?rest = "\<lambda>_. tryA (svc_CheckHealth svc tool)
       (\<lambda>err. retA (RequeueAfter (10 * second)))
       (\<lambda>healthy.
     let tool = tool\<lparr>tool_Status := (tool_Status tool)
           \<lparr>tst_Installed := ts_Enabled (tool_Spec tool), tst_Healthy := healthy\<rparr>\<rparr> in
     tryA (callA (k_status_update (cl_tools C) tool))
       (\<lambda>err. retA (RequeueAfter (5 * second)))
       (\<lambda>_. if \<not> healthy then retA (RequeueAfter (5 * second)) else retA Complete))"
  have after: "w' = w1 \<or> ?rest () w1 = (res, w')"
    using run act unfolding tool_apply_def tryA_act [of ?act] by auto
  have "keeps rels (?rest ())" "keeps nss (?rest ())" "keeps lost (?rest ())"
    unfolding Let_def
    using new_service_health_keeps [OF svc tool_envD(5) [OF tool_worldD(2) [OF env]]]
      new_service_health_keeps [OF svc tool_envD(6) [OF tool_worldD(2) [OF env]]]
      new_service_health_keeps [OF svc workload_reads_quiet [OF tool_envD(7) [OF tool_worldD(2) [OF env]]]]
      kind_frame_keeps(5) [OF tool_worldD(5) [OF env]] kind_frame_keeps(5) [OF tool_worldD(6) [OF env]]
      kind_frame_keeps(5) [OF tool_worldD(10) [OF env]]
    by (intro keeps_intros; simp)+
  with after have "rels w' = rels w1" "nss w' = nss w1" "lost w' = lost w1" by (auto dest: keepsD)
  with act show thesis by (rule that)
qed

subsection \<open>Properties\<close>

text \<open>
  C2: A Tool loses its finalizer only while it is being deleted, and only when its type is unknown or
  when its release is gone - together with the namespace, if the operator chose it. The one exception is
  an uninstallation that Helm answered by a \<open>Release not loaded\<close> of another cause than
  \<open>release: not found\<close>, the last entry of the history \<open>lost\<close>: the code takes it for a missing release.
  Whatever other calls fail, a deleted Tool that is gone has left no release behind.
\<close>

theorem tool_finalizer_safety:
  assumes "tool_world C R U S H cl rels lost nss" "tool_Reconcile C R U S H key w = (res, w')"
    and "holds_tool_finalizer (cl w) key" "\<not> holds_tool_finalizer (cl w') key"
  shows "\<exists>tool. c_tools (cl w) key = Some tool \<and> om_deletionTimestamp (tool_meta tool) \<noteq> None \<and>
    ((\<exists>e. NewToolService S U H tool = Inl e) \<or>
     (lost w' = lost w \<and> (tool_namespace (tool_default_namespace tool) tool, tool_release tool) \<notin> rels w' \<or>
      lost w' = lost w @ [(tool_namespace (tool_default_namespace tool) tool, tool_release tool)]) \<and>
     (ts_Namespace (tool_Spec tool) = '''' \<longrightarrow> tool_default_namespace tool \<notin> nss w'))"
  using assms(1,2)
proof (cases rule: tool_Reconcile_cases)
  case (deleted tool w1)
  from assms(1) deleted(6) show ?thesis
  proof (cases rule: handleDeletion_cases)
    case kept
    with assms(3,4) deleted(3) show ?thesis by simp
  next
    case unknown
    with deleted show ?thesis by blast
  next
    case (removed svc w2)
    with deleted show ?thesis
      by (auto simp: uninstall_promise_def uninstall_answer_def tool_namespace_def resolvedNamespace_def)
  qed
next
  case (running tool tool' w1)
  have specs: "holds_tool_finalizer (cl w') key = holds_tool_finalizer (cl w1) key"
  proof (cases "NewToolService S U H tool'")
    case (Inl e)
    with running(8) have run: "setFailedCondition C R U tool' ''UnsupportedToolType'' (error_text e) w1 = (res, w')" by simp
    show ?thesis using keepsD [OF setFailedCondition_specs [OF assms(1)] run] by (rule holds_tool_finalizer_cong)
  next
    case (Inr svc)
    with running(8) have run: "tool_apply C svc tool' w1 = (res, w')" by simp
    show ?thesis using keepsD [OF tool_apply_specs [OF assms(1) Inr] run] by (rule holds_tool_finalizer_cong)
  qed
  with running(3,5) assms(4) show ?thesis by (auto simp: holds_tool_finalizer_def)
next
  case (blocked tool e)
  with assms(3) show ?thesis by (simp add: holds_tool_finalizer_def)
next
  case (unread err)
  with assms(3,4) show ?thesis by simp
qed

text \<open>
  C16: Nothing is installed for a Tool that could be deleted without being cleaned up: when a run changes
  the releases or the namespaces, the Tool is being deleted or holds its finalizer in the store.
\<close>

theorem tool_finalizer_first:
  assumes "tool_world C R U S H cl rels lost nss" "tool_Reconcile C R U S H key w = (res, w')"
    and "rels w' \<noteq> rels w \<or> nss w' \<noteq> nss w"
  shows "(\<exists>tool. c_tools (cl w) key = Some tool \<and> om_deletionTimestamp (tool_meta tool) \<noteq> None) \<or>
    holds_tool_finalizer (cl w') key"
  using assms(1,2)
proof (cases rule: tool_Reconcile_cases)
  case (running tool tool' w1)
  show ?thesis
  proof (cases "NewToolService S U H tool'")
    case (Inl e)
    with running(8) have run: "setFailedCondition C R U tool' ''UnsupportedToolType'' (error_text e) w1 = (res, w')" by simp
    with keepsD [OF setFailedCondition_outside(1) [OF assms(1)] run] keepsD [OF setFailedCondition_outside(2) [OF assms(1)] run]
      running(6,7) assms(3) show ?thesis by simp
  next
    case (Inr svc)
    with running(8) have run: "tool_apply C svc tool' w1 = (res, w')" by simp
    have "holds_tool_finalizer (cl w') key = holds_tool_finalizer (cl w1) key"
      using keepsD [OF tool_apply_specs [OF assms(1) Inr] run] by (rule holds_tool_finalizer_cong)
    with running(3,5) show ?thesis by (auto simp: holds_tool_finalizer_def)
  qed
qed (use assms(3) in auto)

text \<open>What an applied tool's run did, when it got to the end.\<close>

lemma tool_apply_Complete:
  assumes env: "tool_world C R U S H cl rels lost nss" and svc: "NewToolService S U H tool = Inr svc"
    and stored: "c_tools (cl w) key = Some tool"
    and run: "tool_apply C svc tool w = (Ret out, w')" "out = Complete"
  shows "\<exists>t. c_tools (cl w') key = Some t \<and> tst_Installed (tool_Status t) = ts_Enabled (tool_Spec tool) \<and>
      tst_Healthy (tool_Status t)"
    and "if ts_Enabled (tool_Spec tool)
      then lost w' = lost w \<and> (tool_namespace (tool_default_namespace tool) tool, tool_release tool) \<in> rels w'
      else lost w' = lost w \<and> (tool_namespace (tool_default_namespace tool) tool, tool_release tool) \<notin> rels w' \<or>
        lost w' = lost w @ [(tool_namespace (tool_default_namespace tool) tool, tool_release tool)]"
proof -
  note api = tool_worldD(1) [OF env]
  let ?act = "if ts_Enabled (tool_Spec tool) then svc_EnsureInstalled svc tool else svc_EnsureUninstalled svc tool"
  let ?t = "\<lambda>healthy. tool\<lparr>tool_Status := (tool_Status tool)
     \<lparr>tst_Installed := ts_Enabled (tool_Spec tool), tst_Healthy := healthy\<rparr>\<rparr>"
  from run obtain w1 w2 x where
    act: "?act w = (Ret (), w1)" and
    health: "svc_CheckHealth svc tool w1 = (Ret True, w2)" and
    upd: "k_status_update (cl_tools C) (?t True) w2 = (Inr x, w')"
    unfolding tool_apply_def Let_def
    by (auto simp: act_simps ctrl_defs split: if_splits)
  note quiet = new_service_quiet [OF svc tool_worldD(3,4) [OF env]]
  have rels: "rels w' = rels w1" "lost w' = lost w1"
    using keepsD [OF new_service_health_keeps [OF svc tool_envD(5) [OF tool_worldD(2) [OF env]]] health]
      keeps_callAD [OF kind_frame_keeps(5) [OF tool_worldD(5) [OF env]] upd]
      keepsD [OF new_service_health_keeps [OF svc workload_reads_quiet [OF tool_envD(7) [OF tool_worldD(2) [OF env]]]] health]
      keeps_callAD [OF kind_frame_keeps(5) [OF tool_worldD(10) [OF env]] upd] by simp_all
  show "if ts_Enabled (tool_Spec tool)
      then lost w' = lost w \<and> (tool_namespace (tool_default_namespace tool) tool, tool_release tool) \<in> rels w'
      else lost w' = lost w \<and> (tool_namespace (tool_default_namespace tool) tool, tool_release tool) \<notin> rels w' \<or>
        lost w' = lost w @ [(tool_namespace (tool_default_namespace tool) tool, tool_release tool)]"
  proof (cases "ts_Enabled (tool_Spec tool)")
    case True
    with act new_service_installs [OF svc tool_worldD(2) [OF env], of w _ w1] rels show ?thesis
      by (simp add: install_promise_def)
  next
    case False
    with act new_service_uninstalls [OF svc tool_worldD(2) [OF env], of w _ w1] rels show ?thesis
      by (simp add: uninstall_promise_def uninstall_answer_def)
  qed
  note store = api_contractD(2) [OF api]
  have key: "key = meta_key (tool_meta tool)" using kd_keyed [OF store stored] by (simp add: kd_key_def)
  from store upd show "\<exists>t. c_tools (cl w') key = Some t \<and> tst_Installed (tool_Status t) = ts_Enabled (tool_Spec tool) \<and>
      tst_Healthy (tool_Status t)"
    by (cases rule: status_update_Ret) (auto simp: kd_key_def key)
qed

text \<open>
  C9: The controller rests (no error, no retry) on a Tool that exists, is not being deleted and has a
  known type only in the desired state: the release is there if the Tool is enabled and gone if it is
  disabled, and the stored status says so and says healthy. Only a Tool that is disabled and whose
  uninstallation met a \<open>Release not loaded\<close> of another cause than \<open>release: not found\<close>, the new entry of
  the history, may rest with its release still there. A disabled Tool whose workload is gone is polled
  for ever: it is never healthy.
\<close>

theorem tool_rests_in_desired_state:
  assumes "tool_world C R U S H cl rels lost nss" "tool_Reconcile C R U S H key w = (Ret Complete, w')"
    and "c_tools (cl w) key = Some tool" "om_deletionTimestamp (tool_meta tool) = None"
    and "ts_Type (tool_Spec tool) \<in> {ToolFalco, ToolLitmus, ToolTrivy}"
  shows "(\<exists>t. c_tools (cl w') key = Some t \<and> tst_Installed (tool_Status t) = ts_Enabled (tool_Spec tool) \<and>
      tst_Healthy (tool_Status t)) \<and>
    (lost w' = lost w \<and>
       ((tool_namespace (tool_default_namespace tool) tool, tool_release tool) \<in> rels w' \<longleftrightarrow> ts_Enabled (tool_Spec tool)) \<or>
     \<not> ts_Enabled (tool_Spec tool) \<and>
       lost w' = lost w @ [(tool_namespace (tool_default_namespace tool) tool, tool_release tool)])"
  using assms(1,2)
proof (cases rule: tool_Reconcile_cases)
  case (running tool0 tool' w1)
  with assms(3) have spec: "tool_Spec tool' = tool_Spec tool" by simp
  with assms(5) obtain svc where svc: "NewToolService S U H tool' = Inr svc"
    by (auto simp: NewToolService_def)
  with running(8) have run: "tool_apply C svc tool' w1 = (Ret Complete, w')" by simp
  have same: "tool_namespace (tool_default_namespace tool') tool' = tool_namespace (tool_default_namespace tool) tool"
    "tool_release tool' = tool_release tool"
    by (simp_all add: tool_namespace_def tool_default_namespace_def tool_release_def spec)
  from tool_apply_Complete [OF assms(1) svc running(3) run refl] running(10) show ?thesis
    by (simp add: spec same split: if_splits)
qed (use assms(3-5) in \<open>auto simp: ctrl_defs\<close>)

text \<open>
  C17: A run for a Tool whose namespace the user chose deletes no namespace and touches no release but the
  Tool's own; a run for any other Tool may remove the default namespace of its type, with what is in
  it, and nothing else.
\<close>

theorem tool_run_is_confined:
  assumes "tool_world C R U S H cl rels lost nss" "tool_Reconcile C R U S H key w = (res, w')"
    and "c_tools (cl w) key = Some tool"
  shows "(if ts_Namespace (tool_Spec tool) \<noteq> ''''
      then nss w \<subseteq> nss w' \<and>
        rels w - {(ts_Namespace (tool_Spec tool), tool_release tool)} \<subseteq> rels w'
      else nss w - {tool_default_namespace tool} \<subseteq> nss w' \<and>
        (\<forall>x \<in> rels w. fst x \<noteq> tool_default_namespace tool \<longrightarrow> x \<in> rels w')) \<and>
    rels w' \<subseteq> insert (tool_namespace (tool_default_namespace tool) tool, tool_release tool) (rels w) \<and>
    nss w' \<subseteq> insert (tool_namespace (tool_default_namespace tool) tool) (nss w)"
    (is "?confined (rels w) (rels w') (nss w) (nss w')")
  using assms(1,2)
proof (cases rule: tool_Reconcile_cases)
  case (deleted t w1)
  from deleted(1) assms(3) have t: "t = tool" by simp
  from assms(1) deleted(6) show ?thesis
    by (cases rule: handleDeletion_cases)
      (auto simp: t deleted(4,5) uninstall_promise_def tool_namespace_def resolvedNamespace_def)
next
  case (running tool0 tool' w1)
  with assms(3) have spec: "tool_Spec tool' = tool_Spec tool" by simp
  have same: "tool_namespace (tool_default_namespace tool') tool' = tool_namespace (tool_default_namespace tool) tool"
    "tool_release tool' = tool_release tool" "tool_default_namespace tool' = tool_default_namespace tool"
    by (simp_all add: tool_namespace_def tool_default_namespace_def tool_release_def spec)
  show ?thesis
  proof (cases "NewToolService S U H tool'")
    case (Inl e)
    with running(8) have run: "setFailedCondition C R U tool' ''UnsupportedToolType'' (error_text e) w1 = (res, w')" by simp
    with keepsD [OF setFailedCondition_outside(1) [OF assms(1)] run] keepsD [OF setFailedCondition_outside(2) [OF assms(1)] run]
      running(6,7) show ?thesis by auto
  next
    case (Inr svc)
    with running(8) have run: "tool_apply C svc tool' w1 = (res, w')" by simp
    from assms(1) Inr run obtain q w2 where
      act: "(if ts_Enabled (tool_Spec tool') then svc_EnsureInstalled svc tool' else svc_EnsureUninstalled svc tool') w1 = (q, w2)"
      and out: "rels w' = rels w2" "nss w' = nss w2" by (rule tool_apply_outside)
    note env = tool_worldD(2) [OF assms(1)]
    show ?thesis
    proof (cases "ts_Enabled (tool_Spec tool')")
      case True
      with new_service_installs [OF Inr env, of w1 q w2] act out running(6,7) show ?thesis
        by (auto simp: install_promise_def install_moves_def same spec tool_namespace_def resolvedNamespace_def)
    next
      case False
      with new_service_uninstalls [OF Inr env, of w1 q w2] act out running(6,7) show ?thesis
        by (auto simp: uninstall_promise_def same spec tool_namespace_def resolvedNamespace_def)
    qed
  qed
qed auto

text \<open>
  A Tool of an unknown type is reported, not touched: nothing is installed or uninstalled, the stored
  Tool gets the condition Ready=False with the reason UnsupportedToolType, and the controller rests.
\<close>

lemma tool_unknown_type_reported:
  assumes "tool_world C R U S H cl rels lost nss" "tool_Reconcile C R U S H key w = (Ret Complete, w')"
    and "c_tools (cl w) key = Some tool" "om_deletionTimestamp (tool_meta tool) = None"
    and "ts_Type (tool_Spec tool) \<notin> {ToolFalco, ToolLitmus, ToolTrivy}"
  shows "rels w' = rels w \<and> nss w' = nss w \<and>
    (\<exists>t old now. c_tools (cl w') key = Some t \<and> tst_Conditions (tool_Status t) = setStatusCondition U old
       \<lparr>co_Type = ''Ready'', co_Status = ''False'', co_Reason = ''UnsupportedToolType'',
        co_Message = ''unsupported tool type: '' @ ts_Type (tool_Spec tool), co_LastTransitionTime = now\<rparr>)"
  using assms(1,2)
proof (cases rule: tool_Reconcile_cases)
  case (running tool0 tool' w1)
  note store = api_contractD(2) [OF tool_worldD(1) [OF assms(1)]]
  from running(1,4) assms(3) have spec: "tool_Spec tool' = tool_Spec tool" by simp
  with assms(5) have unknown: "NewToolService S U H tool' = Inl (Errorf (''unsupported tool type: '' @ ts_Type (tool_Spec tool)))"
    by (simp add: NewToolService_def)
  with running(8) have run: "setFailedCondition C R U tool' ''UnsupportedToolType''
      (''unsupported tool type: '' @ ts_Type (tool_Spec tool)) w1 = (Ret Complete, w')" by simp
  have key: "key = meta_key (tool_meta tool')" using kd_keyed [OF store running(3)] by (simp add: kd_key_def)
  from run obtain now w2 x where "k_status_update (cl_tools C) (tool'\<lparr>tool_Status := (tool_Status tool')\<lparr>tst_Conditions :=
        setStatusCondition U (tst_Conditions (tool_Status tool'))
          \<lparr>co_Type = ''Ready'', co_Status = ''False'', co_Reason = ''UnsupportedToolType'',
           co_Message = ''unsupported tool type: '' @ ts_Type (tool_Spec tool), co_LastTransitionTime = now\<rparr>\<rparr>\<rparr>) w2 = (Inr x, w')"
    unfolding setFailedCondition_def Let_def by (auto simp: act_simps)
  from store this have "\<exists>t. c_tools (cl w') key = Some t \<and> tst_Conditions (tool_Status t) =
      setStatusCondition U (tst_Conditions (tool_Status tool'))
          \<lparr>co_Type = ''Ready'', co_Status = ''False'', co_Reason = ''UnsupportedToolType'',
           co_Message = ''unsupported tool type: '' @ ts_Type (tool_Spec tool), co_LastTransitionTime = now\<rparr>"
    by (cases rule: status_update_Ret) (auto simp: kd_key_def key)
  moreover have "rels w' = rels w" "nss w' = nss w"
    using keepsD [OF setFailedCondition_outside(1) [OF assms(1)] run]
      keepsD [OF setFailedCondition_outside(2) [OF assms(1)] run] running(6,7) by simp_all
  ultimately show ?thesis by blast
qed (use assms(3,4) in \<open>auto simp: ctrl_defs\<close>)

subsection \<open>Witnesses\<close>

abbreviation mem_releases_helm :: "mem helm" where
  "mem_releases_helm \<equiv> mem_helm mem_releases mem_releases_update"

lemma mem_tool_world:
  "tool_world mem_client mem_runtime mem_util mem_clientset mem_releases_helm mem_cluster
     (\<lambda>w. set (mem_releases w)) (\<lambda>_. []) mem_namespace_names"
  unfolding tool_world_def
proof (intro conjI mem_api_contract)
  show "tool_env mem_util mem_clientset mem_releases_helm (\<lambda>w. set (mem_releases w)) (\<lambda>_. []) mem_namespace_names"
    unfolding tool_env_def
  proof (intro conjI mem_namespace_contract)
    show "helm_contract mem_releases_helm (\<lambda>w. set (mem_releases w)) (\<lambda>_. [])" by (rule mem_helm_contract) simp
    show "helm_quiet mem_releases_helm mem_namespace_names"
      by (rule mem_helm_quiet) (simp add: mem_namespace_names_def)
    show "release_frame mem_clientset (\<lambda>w. set (mem_releases w))"
      by (auto simp: release_frame_def mem_clientset_def intro!: keeps_callA split: option.splits if_splits)
    show "workload_reads mem_clientset (\<lambda>w. set (mem_releases w))" "workload_reads mem_clientset mem_namespace_names"
      by (auto simp: workload_reads_def mem_clientset_def intro!: keeps_callA split: option.splits)
    show "clientset_quiet mem_clientset (\<lambda>_. [])" by (simp add: clientset_quiet_def keeps_def)
  qed
  show "helm_quiet mem_releases_helm mem_cluster" by (rule mem_helm_quiet) (simp add: mem_cluster_def)
  show "clientset_quiet mem_clientset mem_cluster"
    by (auto simp: clientset_quiet_def mem_clientset_def mem_cluster_def intro!: keeps_callA split: option.splits)
  show "kind_frame (cl_tools mem_client) (\<lambda>w. set (mem_releases w))" "kind_frame (cl_tools mem_client) mem_namespace_names"
    "kind_frame (cl_tools mem_client) (\<lambda>_. [])"
    by (auto simp: mem_client_def mem_namespace_names_def intro!: mem_frame)
qed (auto simp: keeps_def nowA_def mem_runtime_def)

text \<open>A Trivy tool that is being deleted, one that is new, and one whose operator runs.\<close>

definition deleted_tool_world :: mem where
  "deleted_tool_world = empty_mem
     \<lparr>mem_tools := [(sample_tool ''trivy'')\<lparr>tool_meta := (tool_meta (sample_tool ''trivy''))\<lparr>om_deletionTimestamp := Some 1\<rparr>\<rparr>],
      mem_namespaces := [\<lparr>nsp_meta = new_meta '''' ''trivy-system''\<rparr>], mem_releases := [(''trivy-system'', ''trivy-operator'')]\<rparr>"

definition new_tool_world :: "string \<Rightarrow> mem" where
  "new_tool_world typ = empty_mem
     \<lparr>mem_tools := [(sample_tool typ)\<lparr>tool_meta := new_meta ''team'' typ\<rparr>]\<rparr>"

definition running_tool_world :: mem where
  "running_tool_world = empty_mem
     \<lparr>mem_tools := [sample_tool ''trivy''], mem_deployments := [\<lparr>dep_meta = new_meta ''trivy-system'' ''trivy-operator'',
        dep_ObservedGeneration = 0, dep_Conditions = [\<lparr>wc_Type = ''Available'', wc_Status = ''True''\<rparr>]\<rparr>]\<rparr>"

lemma tool_world_releases [simp]: "mem_releases (new_tool_world typ) = []" "mem_releases running_tool_world = []"
  by (simp_all add: new_tool_world_def running_tool_world_def empty_mem_def)

definition mem_tool_run :: "string \<Rightarrow> mem \<Rightarrow> ctrl_outcome res \<times> mem" where
  "mem_tool_run n = tool_Reconcile mem_client mem_runtime mem_util mem_clientset mem_releases_helm (''team'', n)"

definition tool_is_held :: "mem \<Rightarrow> obj_key \<Rightarrow> bool" where
  "tool_is_held w k = (case c_tools (mem_cluster w) k of None \<Rightarrow> False | Some t \<Rightarrow> ToolFinalizer \<in> set (om_finalizers (tool_meta t)))"

lemma tool_is_held: "tool_is_held w k = holds_tool_finalizer (mem_cluster w) k"
  by (auto simp: tool_is_held_def holds_tool_finalizer_def split: option.splits)

lemma tool_finalizer_safety_witness:
  "(''trivy-system'', ''trivy-operator'') \<notin> set (mem_releases (snd (mem_tool_run ''trivy'' deleted_tool_world)))"
proof -
  obtain res w' where run: "mem_tool_run ''trivy'' deleted_tool_world = (res, w')" by fastforce
  have "tool_is_held deleted_tool_world (''team'', ''trivy'')" by code_simp
  then have before: "holds_tool_finalizer (mem_cluster deleted_tool_world) (''team'', ''trivy'')"
    by (simp only: tool_is_held)
  have "\<not> tool_is_held (snd (mem_tool_run ''trivy'' deleted_tool_world)) (''team'', ''trivy'')" by code_simp
  then have after: "\<not> holds_tool_finalizer (mem_cluster w') (''team'', ''trivy'')"
    by (simp only: tool_is_held run snd_conv simp_thms)
  from tool_finalizer_safety [OF mem_tool_world run [unfolded mem_tool_run_def] before after]
  obtain tool where tool: "c_tools (mem_cluster deleted_tool_world) (''team'', ''trivy'') = Some tool"
    "(\<exists>e. NewToolService mem_clientset mem_util mem_releases_helm tool = Inl e) \<or>
     (tool_namespace (tool_default_namespace tool) tool, tool_release tool) \<notin> set (mem_releases w')"
    by (metis append_Nil list.distinct(1))
  moreover from tool(1) have "ts_Type (tool_Spec tool) = ToolTrivy" "ts_Namespace (tool_Spec tool) = ''''"
    by (auto simp: deleted_tool_world_def mem_lookup_def sample_tool_def tool_type_defs meta_key_def split: if_splits)
  ultimately show ?thesis
    by (simp add: run NewToolService_def tool_namespace_def tool_default_namespace_def resolvedNamespace_def
        tool_release_def trivyNamespace_def trivyReleaseName_def)
qed

lemma tool_finalizer_first_witness:
  "holds_tool_finalizer (mem_cluster (snd (mem_tool_run ''falco'' (new_tool_world ''falco'')))) (''team'', ''falco'')"
proof -
  obtain res w' where run: "mem_tool_run ''falco'' (new_tool_world ''falco'') = (res, w')" by fastforce
  have "mem_releases (snd (mem_tool_run ''falco'' (new_tool_world ''falco''))) = [(''falco'', ''falco'')]" by code_simp
  then have "set (mem_releases w') \<noteq> set (mem_releases (new_tool_world ''falco'')) \<or>
      mem_namespace_names w' \<noteq> mem_namespace_names (new_tool_world ''falco'')"
    by (simp add: run)
  from tool_finalizer_first [OF mem_tool_world run [unfolded mem_tool_run_def] this]
  have "holds_tool_finalizer (mem_cluster w') (''team'', ''falco'')"
    by (auto simp: new_tool_world_def mem_lookup_def)
  then show ?thesis by (simp only: run snd_conv)
qed

lemma tool_rests_in_desired_state_witness:
  "(''trivy-system'', ''trivy-operator'') \<in> set (mem_releases (snd (mem_tool_run ''trivy'' running_tool_world)))"
proof -
  obtain res w' where run: "mem_tool_run ''trivy'' running_tool_world = (res, w')" by fastforce
  have "fst (mem_tool_run ''trivy'' running_tool_world) = Ret Complete" by code_simp
  with run have "mem_tool_run ''trivy'' running_tool_world = (Ret Complete, w')" by simp
  moreover have "c_tools (mem_cluster running_tool_world) (''team'', ''trivy'') = Some (sample_tool ''trivy'')"
    by (simp add: running_tool_world_def mem_lookup_def sample_tool_def meta_key_def)
  ultimately have "(tool_namespace (tool_default_namespace (sample_tool ''trivy'')) (sample_tool ''trivy''),
      tool_release (sample_tool ''trivy'')) \<in> set (mem_releases w')"
    using tool_rests_in_desired_state [OF mem_tool_world, of "(''team'', ''trivy'')" running_tool_world w' "sample_tool ''trivy''"]
    by (simp add: mem_tool_run_def sample_tool_def tool_type_defs)
  then show ?thesis
    by (simp add: run tool_namespace_def tool_default_namespace_def resolvedNamespace_def tool_release_def
        trivyNamespace_def trivyReleaseName_def sample_tool_def tool_type_defs)
qed

lemma tool_run_is_confined_witness:
  "set (mem_releases (snd (mem_tool_run ''trivy'' running_tool_world))) \<subseteq> {(''trivy-system'', ''trivy-operator'')}"
proof -
  obtain res w' where run: "mem_tool_run ''trivy'' running_tool_world = (res, w')" by fastforce
  have "c_tools (mem_cluster running_tool_world) (''team'', ''trivy'') = Some (sample_tool ''trivy'')"
    by (simp add: running_tool_world_def mem_lookup_def sample_tool_def meta_key_def)
  from tool_run_is_confined [OF mem_tool_world run [unfolded mem_tool_run_def] this]
  have "set (mem_releases w') \<subseteq> insert (tool_namespace (tool_default_namespace (sample_tool ''trivy'')) (sample_tool ''trivy''),
      tool_release (sample_tool ''trivy'')) (set (mem_releases running_tool_world))" by blast
  then show ?thesis
    by (simp add: run tool_namespace_def tool_default_namespace_def resolvedNamespace_def tool_release_def
        trivyNamespace_def trivyReleaseName_def sample_tool_def tool_type_defs)
qed

end
