(* ===== verification/Operator.thy ===== *)
theory Operator
  imports PolicyLife ReportController ToolController
begin

section \<open>The operator as a whole\<close>

text \<open>
  The three controllers share one cluster. A step of the operator is a whole reconcile of one object by
  one controller, or a step of somebody else: a user, Kubernetes, another controller. The invariants of
  the system are shown by induction over its steps, from what each controller does in a run.
\<close>

subsection \<open>What the policy and report controllers leave alone\<close>

text \<open>An observation that no call of theirs touches.\<close>

definition operator_frame where
  "operator_frame C R S g \<longleftrightarrow>
     (\<forall>k. keeps g (callA (k_get (cl_tools C) k))) \<and> kind_frame (cl_policies C) g \<and> kind_frame (cl_reports C) g \<and>
     kind_frame (cl_jobs C) g \<and> kind_frame (cl_configmaps C) g \<and> kind_frame (cl_engines C) g \<and> quiet_reads C R S g"

lemma operator_frameD:
  assumes "operator_frame C R S g"
  shows "keeps g (callA (k_get (cl_tools C) k))" "kind_frame (cl_policies C) g" "kind_frame (cl_reports C) g"
    "kind_frame (cl_jobs C) g" "kind_frame (cl_configmaps C) g" "kind_frame (cl_engines C) g" "quiet_reads C R S g"
  using assms by (simp_all add: operator_frame_def)

lemma engines_outside:
  assumes "operator_frame C R S g" "NewPolicyEngine C R U p = Inr engine"
  shows "keeps g (eng_Cleanup engine q)" "keeps g (eng_Reconcile engine q)" "keeps g (eng_GenerateReport engine q)"
  using assms(2)
  by (cases rule: NewPolicyEngine_cases;
      simp add: falco_engine_def trivy_engine_def litmus_engine_def falco_GenerateReport_def litmus_GenerateReport_def keeps_retA
        keeps_trivy_Reconcile keeps_trivy_Cleanup keeps_trivy_GenerateReport kind_frame_keeps(1) operator_frameD [OF assms(1)]
        keeps_falco_Reconcile keeps_falco_Cleanup keeps_litmus_Reconcile keeps_litmus_Cleanup)+

lemma policy_Reconcile_outside:
  assumes "operator_frame C R S g"
  shows "keeps g (policy_Reconcile C R U key)"
proof -
  note frames = kind_frame_keeps [OF operator_frameD(2) [OF assms]] kind_frame_keeps [OF operator_frameD(3) [OF assms]]
  have "keeps g (policy_publish C p r)" for p r
    unfolding policy_publish_def Let_def by (intro keeps_intros frames)
  then have "keeps g (policy_with_engine C U engine tool p)" if "NewPolicyEngine C R U q = Inr engine" for engine tool p q
    unfolding policy_with_engine_def policy_handle_deletion_def policy_apply_def
    by (intro keeps_intros frames engines_outside [OF assms that])
  then show ?thesis
    unfolding policy_Reconcile_def by (intro keeps_intros frames operator_frameD(1) [OF assms])
qed

lemma report_Reconcile_outside:
  assumes "operator_frame C R S g"
  shows "keeps g (report_Reconcile C R U S E key)"
proof -
  note frames = operator_frameD [OF assms]
  have "keeps g (report_run_handler handler r)" if "NewReportEngine C R U S E q = Inr handler" for handler r q
    using that unfolding report_run_handler_def
    by (cases rule: NewReportEngine_cases)
      (auto intro!: keeps_intros trivy_handler_outside falco_handler_outside litmus_handler_outside frames)
  then show ?thesis
    unfolding report_Reconcile_def by (intro keeps_intros kind_frame_keeps frames)
qed

lemma operator_frame_tools:
  assumes "api_contract U C cl" "quiet_reads C R S cl"
  shows "operator_frame C R S (\<lambda>w. c_tools (cl w))"
proof -
  have "quiet_reads C R S (\<lambda>w. c_tools (cl w))" using assms(2) by (simp add: quiet_reads_def)
  moreover have "keeps (\<lambda>w. c_tools (cl w)) (callA (k_get (cl_tools C) k))" for k
    using api_reads_cluster(1) [OF assms(1)] by (rule keeps_weaken) simp
  ultimately show ?thesis by (simp add: operator_frame_def api_frames [OF assms(1)])
qed

subsection \<open>Steps\<close>

inductive operator_step ::
  "'w client \<Rightarrow> 'w runtime \<Rightarrow> util \<Rightarrow> 'w clientset \<Rightarrow> 'w helm \<Rightarrow> (string \<Rightarrow> string) \<Rightarrow> ('w \<Rightarrow> 'w \<Rightarrow> bool) \<Rightarrow> 'w \<Rightarrow> 'w \<Rightarrow> bool"
  for C R U S H E others where
  tool: "tool_Reconcile C R U S H key w = (res, w') \<Longrightarrow> operator_step C R U S H E others w w'"
| policy: "policy_Reconcile C R U key w = (res, w') \<Longrightarrow> operator_step C R U S H E others w w'"
| report: "report_Reconcile C R U S E key w = (res, w') \<Longrightarrow> operator_step C R U S H E others w w'"
| other: "others w w' \<Longrightarrow> operator_step C R U S H E others w w'"

text \<open>
  What the theorems ask of the others: they uninstall at most, they leave the operator's finalizer on a
  Tool and do not move such a Tool to another type or namespace, and what they write into reports is
  well formed. They may create, enable, disable and delete Tools and policies, and write everything else.
\<close>

definition well_behaved where
  "well_behaved cl rels others \<longleftrightarrow> (\<forall>w w'. others w w' \<longrightarrow>
     rels w' \<subseteq> rels w \<and> (wf_reports (cl w) \<longrightarrow> wf_reports (cl w')) \<and>
     (\<forall>k t. c_tools (cl w) k = Some t \<longrightarrow> ToolFinalizer \<in> set (om_finalizers (tool_meta t)) \<longrightarrow>
        (\<exists>t'. c_tools (cl w') k = Some t' \<and> ToolFinalizer \<in> set (om_finalizers (tool_meta t')) \<and>
           ts_Type (tool_Spec t') = ts_Type (tool_Spec t) \<and> ts_Namespace (tool_Spec t') = ts_Namespace (tool_Spec t))))"

definition operator_world where
  "operator_world C R U S H cl rels lost nss \<longleftrightarrow>
     tool_world C R U S H cl rels lost nss \<and> quiet_reads C R S cl \<and> operator_frame C R S rels \<and>
     operator_frame C R S lost"

lemma operator_worldD:
  assumes "operator_world C R U S H cl rels lost nss"
  shows "tool_world C R U S H cl rels lost nss" "quiet_reads C R S cl" "operator_frame C R S rels" "api_contract U C cl"
    "operator_frame C R S (\<lambda>w. c_tools (cl w))" "operator_frame C R S lost"
  using assms operator_frame_tools by (auto simp: operator_world_def tool_world_def)

subsection \<open>No release is orphaned\<close>

definition known_tool :: "Tool \<Rightarrow> bool" where
  "known_tool t \<longleftrightarrow> ts_Type (tool_Spec t) \<in> {ToolFalco, ToolLitmus, ToolTrivy}"

definition tool_place :: "Tool \<Rightarrow> string \<times> string" where
  "tool_place t = (tool_namespace (tool_default_namespace t) t, tool_release t)"

definition release_owned :: "cluster \<Rightarrow> string \<times> string \<Rightarrow> bool" where
  "release_owned c x \<longleftrightarrow> (\<exists>k t. c_tools c k = Some t \<and> ToolFinalizer \<in> set (om_finalizers (tool_meta t)) \<and>
     known_tool t \<and> tool_place t = x)"

text \<open>
  \<open>foreign\<close> are the releases that were not made by the operator. The others of a step write nothing out of
  the history of the uninstallations that could not read their release.
\<close>

definition no_orphans where
  "no_orphans cl rels lost foreign w \<longleftrightarrow>
     (\<forall>x \<in> rels w. x \<in> foreign \<or> release_owned (cl w) x \<or> x \<in> set (lost w))"

definition history_kept :: "('w \<Rightarrow> 'x list) \<Rightarrow> ('w \<Rightarrow> 'w \<Rightarrow> bool) \<Rightarrow> bool" where
  "history_kept lost others \<longleftrightarrow> (\<forall>w w'. others w w' \<longrightarrow> set (lost w) \<subseteq> set (lost w'))"

lemma known_tool_service: "(\<exists>svc. NewToolService S U H t = Inr svc) \<longleftrightarrow> known_tool t"
  by (auto simp: NewToolService_def known_tool_def)

lemma tool_place_cong:
  assumes "ts_Type (tool_Spec t) = ts_Type (tool_Spec t')" "ts_Namespace (tool_Spec t) = ts_Namespace (tool_Spec t')"
  shows "tool_place t = tool_place t'" "known_tool t = known_tool t'"
  using assms by (simp_all add: tool_place_def tool_namespace_def tool_default_namespace_def tool_release_def known_tool_def)

lemma release_owned_mono:
  assumes "release_owned c x"
    and "\<And>k t. c_tools c k = Some t \<Longrightarrow> ToolFinalizer \<in> set (om_finalizers (tool_meta t)) \<Longrightarrow> known_tool t \<Longrightarrow>
      tool_place t = x \<Longrightarrow> \<exists>t'. c_tools c' k = Some t' \<and> ToolFinalizer \<in> set (om_finalizers (tool_meta t')) \<and>
        ts_Type (tool_Spec t') = ts_Type (tool_Spec t) \<and> ts_Namespace (tool_Spec t') = ts_Namespace (tool_Spec t)"
  shows "release_owned c' x"
  using assms tool_place_cong unfolding release_owned_def by metis

lemma release_owned_specs: "tool_specs c' = tool_specs c \<Longrightarrow> release_owned c x \<Longrightarrow> release_owned c' x"
proof (erule release_owned_mono)
  fix k t assume "tool_specs c' = tool_specs c" "c_tools c k = Some t" "ToolFinalizer \<in> set (om_finalizers (tool_meta t))"
  from fun_cong [OF this(1), of k] this(2,3)
  show "\<exists>t'. c_tools c' k = Some t' \<and> ToolFinalizer \<in> set (om_finalizers (tool_meta t')) \<and>
        ts_Type (tool_Spec t') = ts_Type (tool_Spec t) \<and> ts_Namespace (tool_Spec t') = ts_Namespace (tool_Spec t)"
    by (auto simp: tool_specs_def)
qed

text \<open>The service of a tool moves no release but the tool's own into the cluster.\<close>

lemma tool_apply_rels:
  assumes "tool_world C R U S H cl rels lost nss" "NewToolService S U H tool = Inr svc" "tool_apply C svc tool w = (res, w')"
  shows "rels w' \<subseteq> insert (tool_place tool) (rels w)"
    and "ts_Enabled (tool_Spec tool) \<Longrightarrow> rels w \<subseteq> rels w'"
    and "\<not> ts_Enabled (tool_Spec tool) \<Longrightarrow> rels w' \<subseteq> rels w"
    and "set (lost w) \<subseteq> set (lost w')"
proof -
  note env = tool_worldD(2) [OF assms(1)]
  from assms obtain q w1 where
    act: "(if ts_Enabled (tool_Spec tool) then svc_EnsureInstalled svc tool else svc_EnsureUninstalled svc tool) w = (q, w1)"
    and out: "rels w' = rels w1" "lost w' = lost w1" by (rule tool_apply_outside)
  have both: "set (lost w) \<subseteq> set (lost w') \<and> (if ts_Enabled (tool_Spec tool) then rels w \<subseteq> rels w' \<and> rels w' \<subseteq> insert (tool_place tool) (rels w)
      else rels w' \<subseteq> rels w)"
  proof (cases "ts_Enabled (tool_Spec tool)")
    case True
    with act have "svc_EnsureInstalled svc tool w = (q, w1)" by simp
    from new_service_installs [OF assms(2) env this] True out show ?thesis
      by (simp add: install_promise_def install_moves_def tool_place_def)
  next
    case False
    with act have "svc_EnsureUninstalled svc tool w = (q, w1)" by simp
    from new_service_uninstalls [OF assms(2) env this] False out show ?thesis
      by (auto simp: uninstall_promise_def uninstall_answer_def)
  qed
  from both show "set (lost w) \<subseteq> set (lost w')" by simp
  from both show "rels w' \<subseteq> insert (tool_place tool) (rels w)"
    and "ts_Enabled (tool_Spec tool) \<Longrightarrow> rels w \<subseteq> rels w'"
    and "\<not> ts_Enabled (tool_Spec tool) \<Longrightarrow> rels w' \<subseteq> rels w" by (auto split: if_splits)
qed

lemma tool_step_no_orphans:
  assumes "tool_world C R U S H cl rels lost nss" "tool_Reconcile C R U S H key w = (res, w')"
    and inv: "no_orphans cl rels lost foreign w"
  shows "no_orphans cl rels lost foreign w'"
proof -
  note api = tool_worldD(1) [OF assms(1)]
  have others: "release_owned (cl w') x"
    if "release_owned (cl w) x" "c_tools (cl w) key = Some tool" "\<not> (known_tool tool \<and> tool_place tool = x)"
      "\<And>k. k \<noteq> key \<Longrightarrow> c_tools (cl w') k = c_tools (cl w) k" for x tool
    using that(1)
  proof (rule release_owned_mono)
    fix k t assume "c_tools (cl w) k = Some t" "ToolFinalizer \<in> set (om_finalizers (tool_meta t))" "known_tool t" "tool_place t = x"
    with that(2-4) show "\<exists>t'. c_tools (cl w') k = Some t' \<and> ToolFinalizer \<in> set (om_finalizers (tool_meta t')) \<and>
        ts_Type (tool_Spec t') = ts_Type (tool_Spec t) \<and> ts_Namespace (tool_Spec t') = ts_Namespace (tool_Spec t)"
      by (cases "k = key") auto
  qed
  from assms(1,2) show ?thesis
  proof (cases rule: tool_Reconcile_cases)
    case unread
    with inv show ?thesis by (simp add: no_orphans_def)
  next
    case (deleted tool w1)
    with inv have inv1: "no_orphans cl rels lost foreign w1" by (simp add: no_orphans_def)
    from assms(1) deleted(6) show ?thesis
    proof (cases rule: handleDeletion_cases)
      case (kept svc)
      then have "rels w' \<subseteq> rels w1" "set (lost w1) \<subseteq> set (lost w')"
        by (auto simp: uninstall_promise_def uninstall_answer_def)
      with inv1 kept(2) show ?thesis unfolding no_orphans_def by (metis subsetD)
    next
      case (unknown e)
      have "\<not> known_tool tool" using unknown(1) known_tool_service [of S U H tool] by simp
      with inv deleted(1,3,4,7) unknown(3,5) tool_remove_finalizer_others [OF api _ unknown(2)] others [of _ tool] show ?thesis
        unfolding no_orphans_def by metis
    next
      case (removed svc w2)
      from removed(6,7) deleted(4,7) removed(4) have "rels w' \<subseteq> rels w" "set (lost w) \<subseteq> set (lost w')"
        "tool_place tool \<notin> rels w' \<or> tool_place tool \<in> set (lost w')"
        by (auto simp: uninstall_promise_def uninstall_answer_def tool_place_def)
      moreover have "c_tools (cl w') k = c_tools (cl w) k" if "k \<noteq> key" for k
        using tool_remove_finalizer_others [OF api _ removed(3) that] deleted(1,3) removed(2) by simp
      ultimately show ?thesis
        using inv others [OF _ deleted(1)] unfolding no_orphans_def by (metis subsetD)
    qed
  next
    case (blocked tool e)
    have "release_owned (cl w') x" if "release_owned (cl w) x" for x
      using that
    proof (rule release_owned_mono)
      fix k t assume "c_tools (cl w) k = Some t" "ToolFinalizer \<in> set (om_finalizers (tool_meta t))"
      with blocked show "\<exists>t'. c_tools (cl w') k = Some t' \<and> ToolFinalizer \<in> set (om_finalizers (tool_meta t')) \<and>
        ts_Type (tool_Spec t') = ts_Type (tool_Spec t) \<and> ts_Namespace (tool_Spec t') = ts_Namespace (tool_Spec t)"
        by (cases "k = key") auto
    qed
    with inv blocked(3,8) show ?thesis unfolding no_orphans_def by auto
  next
    case (running tool tool' w1)
    have w1: "release_owned (cl w1) x" if "release_owned (cl w) x" for x
      using that
    proof (rule release_owned_mono)
      fix k t assume "c_tools (cl w) k = Some t" "ToolFinalizer \<in> set (om_finalizers (tool_meta t))"
      with running show "\<exists>t'. c_tools (cl w1) k = Some t' \<and> ToolFinalizer \<in> set (om_finalizers (tool_meta t')) \<and>
        ts_Type (tool_Spec t') = ts_Type (tool_Spec t) \<and> ts_Namespace (tool_Spec t') = ts_Namespace (tool_Spec t)"
        by (cases "k = key") auto
    qed
    have specs: "set (lost w) \<subseteq> set (lost w')" "tool_specs (cl w') = tool_specs (cl w1) \<and> rels w' \<subseteq> rels w \<or>
      tool_specs (cl w') = tool_specs (cl w1) \<and> known_tool tool' \<and> rels w' \<subseteq> insert (tool_place tool') (rels w)"
    proof -
      consider (failed) e where "NewToolService S U H tool' = Inl e"
          "setFailedCondition C R U tool' ''UnsupportedToolType'' (error_text e) w1 = (res, w')"
        | (applied) svc where "NewToolService S U H tool' = Inr svc" "tool_apply C svc tool' w1 = (res, w')"
        using running(8) by (cases "NewToolService S U H tool'") simp_all
      then have "set (lost w) \<subseteq> set (lost w') \<and> (tool_specs (cl w') = tool_specs (cl w1) \<and> rels w' \<subseteq> rels w \<or>
        tool_specs (cl w') = tool_specs (cl w1) \<and> known_tool tool' \<and> rels w' \<subseteq> insert (tool_place tool') (rels w))"
      proof cases
        case failed
        with keepsD [OF setFailedCondition_specs [OF assms(1)]] keepsD [OF setFailedCondition_outside(1) [OF assms(1)]]
          keepsD [OF setFailedCondition_outside(3) [OF assms(1)]] running(6,10) show ?thesis by simp
      next
        case applied
        with keepsD [OF tool_apply_specs [OF assms(1)]] tool_apply_rels(1,4) [OF assms(1)] running(6,10)
          known_tool_service [of S U H tool']
        show ?thesis by metis
      qed
      then show "set (lost w) \<subseteq> set (lost w')" "tool_specs (cl w') = tool_specs (cl w1) \<and> rels w' \<subseteq> rels w \<or>
        tool_specs (cl w') = tool_specs (cl w1) \<and> known_tool tool' \<and> rels w' \<subseteq> insert (tool_place tool') (rels w)" by blast+
    qed
    have "release_owned (cl w1) (tool_place tool')" if "known_tool tool'"
      using that running(3,5) unfolding release_owned_def by blast
    with specs w1 inv release_owned_specs [of "cl w'" "cl w1"] show ?thesis
      unfolding no_orphans_def by (metis insert_iff subsetD)
  qed
qed

lemma other_step_no_orphans:
  assumes "well_behaved cl rels others" "history_kept lost others" "others w w'" "no_orphans cl rels lost foreign w"
  shows "no_orphans cl rels lost foreign w'"
proof -
  have "release_owned (cl w') x" if "release_owned (cl w) x" for x
    using that by (rule release_owned_mono) (use assms(1,3) in \<open>simp add: well_behaved_def\<close>)
  moreover have "rels w' \<subseteq> rels w" "set (lost w) \<subseteq> set (lost w')"
    using assms by (simp_all add: well_behaved_def history_kept_def)
  ultimately show ?thesis using assms(4) unfolding no_orphans_def by blast
qed

lemma frame_no_orphans:
  assumes "keeps (\<lambda>w. c_tools (cl w)) m" "keeps rels m" "keeps lost m" "m w = (res, w')" "no_orphans cl rels lost foreign w"
  shows "no_orphans cl rels lost foreign w'"
  using keepsD [OF assms(1,4)] keepsD [OF assms(2,4)] keepsD [OF assms(3,4)] assms(5) by (simp add: no_orphans_def release_owned_def)

lemma step_no_orphans:
  assumes world: "operator_world C R U S H cl rels lost nss" "well_behaved cl rels others" "history_kept lost others"
    and "operator_step C R U S H E others w w'" "no_orphans cl rels lost foreign w"
  shows "no_orphans cl rels lost foreign w'"
  using assms(4)
proof cases
  case (tool key res)
  with tool_step_no_orphans [OF operator_worldD(1) [OF world(1)]] assms(5) show ?thesis by blast
next
  case (policy key res)
  show ?thesis
    by (rule frame_no_orphans [OF policy_Reconcile_outside policy_Reconcile_outside policy_Reconcile_outside,
        OF operator_worldD(5,3,6) [OF world(1)] policy assms(5)])
next
  case (report key res)
  show ?thesis
    by (rule frame_no_orphans [OF report_Reconcile_outside report_Reconcile_outside report_Reconcile_outside,
        OF operator_worldD(5,3,6) [OF world(1)] report assms(5)])
next
  case other
  with other_step_no_orphans [OF world(2,3)] assms(5) show ?thesis by blast
qed

subsection \<open>Reports stay well formed\<close>

lemma tool_Reconcile_outside:
  assumes "kind_frame (cl_tools C) g" "keeps g (nowA R)"
    and svc: "\<And>svc t. NewToolService S U H t = Inr svc \<Longrightarrow> keeps g (svc_EnsureInstalled svc t) \<and>
      keeps g (svc_EnsureUninstalled svc t) \<and> keeps g (svc_CheckHealth svc t)"
  shows "keeps g (tool_Reconcile C R U S H key)"
  unfolding tool_Reconcile_def handleDeletion_def tool_remove_finalizer_def setFailedCondition_def tool_apply_def Let_def
  by (intro keeps_intros kind_frame_keeps [OF assms(1)] assms(2) svc [THEN conjunct1]
      svc [THEN conjunct2, THEN conjunct1] svc [THEN conjunct2, THEN conjunct2])

lemma tool_Reconcile_reports:
  assumes "tool_world C R U S H cl rels lost nss"
  shows "keeps (\<lambda>w. c_reports (cl w)) (tool_Reconcile C R U S H key)"
proof (rule tool_Reconcile_outside)
  note world = tool_worldD [OF assms]
  show "kind_frame (cl_tools C) (\<lambda>w. c_reports (cl w))" by (rule api_frames(2) [OF world(1)])
  show "keeps (\<lambda>w. c_reports (cl w)) (nowA R)" using world(7) by (rule keeps_weaken) simp
  show "keeps (\<lambda>w. c_reports (cl w)) (svc_EnsureInstalled svc t) \<and>
      keeps (\<lambda>w. c_reports (cl w)) (svc_EnsureUninstalled svc t) \<and> keeps (\<lambda>w. c_reports (cl w)) (svc_CheckHealth svc t)"
    if "NewToolService S U H t = Inr svc" for svc t
    using new_service_quiet [OF that world(3,4)] by (auto intro: keeps_weaken)
qed

lemma engines_wf:
  assumes "api_contract U C cl" "NewPolicyEngine C R U p = Inr engine"
  shows "preserves (\<lambda>w. wf_reports (cl w)) (eng_Cleanup engine q)"
    "preserves (\<lambda>w. wf_reports (cl w)) (eng_Reconcile engine q)"
    "preserves (\<lambda>w. wf_reports (cl w)) (eng_GenerateReport engine q)"
proof -
  have reports: "preserves (\<lambda>w. wf_reports (cl w)) m"
    if "keeps (\<lambda>w. (c_tools (cl w), c_policies (cl w), c_reports (cl w))) m" for m :: "('a, unit) act"
    by (rule preserves_wf_reports, rule keeps_weaken [OF that]) simp
  show "preserves (\<lambda>w. wf_reports (cl w)) (eng_Cleanup engine q)"
    using assms(2) by (cases rule: NewPolicyEngine_cases)
      (simp_all add: falco_iface.cleanup_wf trivy_iface.cleanup_wf litmus_iface.cleanup_wf assms(1))
  show "preserves (\<lambda>w. wf_reports (cl w)) (eng_Reconcile engine q)"
    using assms(2) by (cases rule: NewPolicyEngine_cases)
      (simp_all add: reports falco_iface.reconcile_keeps trivy_iface.reconcile_keeps litmus_iface.reconcile_keeps assms(1))
  show "preserves (\<lambda>w. wf_reports (cl w)) (eng_GenerateReport engine q)"
    using assms(2) by (cases rule: NewPolicyEngine_cases)
      (simp_all add: preserves_wf_of_reads falco_iface.generate_keeps trivy_iface.generate_keeps litmus_iface.generate_keeps assms(1))
qed

lemma policy_Reconcile_wf:
  assumes "api_contract U C cl"
  shows "preserves (\<lambda>w. wf_reports (cl w)) (policy_Reconcile C R U key)"
proof -
  have policies: "preserves (\<lambda>w. wf_reports (cl w)) (callA (k_update (cl_policies C) p))"
    "preserves (\<lambda>w. wf_reports (cl w)) (callA (k_status_update (cl_policies C) p))" for p
    by (intro preserves_wf_reports kind_frame_keeps api_frames [OF assms])+
  have reset: "wf_report_status (rep_Status (reset_report r))" for r
    by (simp add: reset_report_def wf_report_status_def zero_summary_def)
  have publish: "preserves (\<lambda>w. wf_reports (cl w)) (policy_publish C p r)" for p r
    unfolding policy_publish_def Let_def complete_with_def
    by (intro preserves_intros policies preserves_report_upsert [OF assms] preserves_report_status [OF assms] reset)
  have engine: "preserves (\<lambda>w. wf_reports (cl w)) (policy_with_engine C U engine tool p)"
    if "NewPolicyEngine C R U q = Inr engine" for engine tool p q
    unfolding policy_with_engine_def policy_handle_deletion_def policy_apply_def complete_with_def
    by (intro preserves_intros policies publish engines_wf [OF assms that])
  show ?thesis
    unfolding policy_Reconcile_def complete_with_def
    by (intro preserves_intros engine preserves_wf_of_reads api_reads_cluster [OF assms])
qed

lemma report_handlers_wf:
  assumes "api_contract U C cl" "quiet_reads C R S cl" "NewReportEngine C R U S E q = Inr handler"
    and "wf_report_status (rep_Status r)"
  shows "preserves (\<lambda>w. wf_reports (cl w)) (report_run_handler handler r)"
  using assms(3) unfolding report_run_handler_def
  by (cases rule: NewReportEngine_cases)
    (simp; intro preserves_intros falco_handler_iface.handler_wf trivy_handler_iface.handler_wf
      litmus_handler_iface.handler_wf assms)+

lemma report_Reconcile_wf:
  assumes "api_contract U C cl" "quiet_reads C R S cl"
  shows "preserves (\<lambda>w. wf_reports (cl w)) (report_Reconcile C R U S E key)"
  unfolding preserves_def moves_def
proof (intro allI impI)
  fix w assume wf: "wf_reports (cl w)"
  obtain g w1 where get: "k_get (cl_reports C) key w = (g, w1)" by fastforce
  have same: "cl w1 = cl w" using keeps_callAD [OF api_reads_cluster(3) [OF assms(1)] get] .
  show "wf_reports (cl (snd (report_Reconcile C R U S E key w)))"
  proof (cases g)
    case (Inl e)
    with get same wf show ?thesis by (simp add: report_Reconcile_def tryA_def callA_def retA_def)
  next
    case (Inr r)
    have "wf_report_status (rep_Status r)"
      using get_Ret(1) [OF api_contractD(4) [OF assms(1)] get [unfolded Inr]] wf by (auto simp: wf_reports_def)
    note handlers = report_handlers_wf [OF assms _ this]
    let ?rest = "if rst_Phase (rep_Status r) = ReportCompleted then retA Complete
     else tryA (callA (k_get (cl_policies C) (om_namespace (rep_meta r), pr_Name (rs_PolicyRef (rep_Spec r)))))
       (\<lambda>err. if isNotFound U err then
                tryA (callA (k_delete (cl_reports C) r)) complete_with (\<lambda>_. retA Complete)
              else complete_with err)
       (\<lambda>policy. case NewReportEngine C R U S E r of
           Inl err \<Rightarrow> complete_with err
         | Inr handler \<Rightarrow> report_run_handler handler r)"
    have rest: "preserves (\<lambda>w. wf_reports (cl w)) ?rest"
      unfolding complete_with_def
      by (intro preserves_intros handlers preserves_report_delete [OF assms(1)] preserves_wf_of_reads
          api_reads_cluster [OF assms(1)])
    have run: "report_Reconcile C R U S E key w = ?rest w1"
      using get Inr by (simp add: report_Reconcile_def tryA_def callA_def)
    from wf same have "wf_reports (cl w1)" by simp
    with rest show ?thesis unfolding run preserves_def moves_def by blast
  qed
qed

lemma step_wf_reports:
  assumes world: "operator_world C R U S H cl rels lost nss" "well_behaved cl rels others"
    and "operator_step C R U S H E others w w'" "wf_reports (cl w)"
  shows "wf_reports (cl w')"
  using assms(3)
proof cases
  case (tool key res)
  from preservesD [OF preserves_wf_reports [OF tool_Reconcile_reports [OF operator_worldD(1) [OF world(1)]]] tool assms(4)]
  show ?thesis .
next
  case (policy key res)
  from preservesD [OF policy_Reconcile_wf [OF operator_worldD(4) [OF world(1)]] policy assms(4)] show ?thesis .
next
  case (report key res)
  from preservesD [OF report_Reconcile_wf [OF operator_worldD(4,2) [OF world(1)]] report assms(4)] show ?thesis .
next
  case other
  with world(2) assms(4) show ?thesis by (simp add: well_behaved_def)
qed

subsection \<open>The life of a Tool\<close>

definition intent_of :: "Tool \<Rightarrow> life_intent" where
  "intent_of t = asked (om_deletionTimestamp (tool_meta t) \<noteq> None) (ts_Enabled (tool_Spec t))"

definition life_of_tool where
  "life_of_tool cl rels key tool w = life_of (holds_tool_finalizer (cl w) key) (tool_place tool \<in> rels w)"

lemma tool_run_life:
  assumes "tool_world C R U S H cl rels lost nss" "tool_Reconcile C R U S H key w = (res, w')"
    and tool: "c_tools (cl w) key = Some tool" and known: "known_tool tool"
    and guarded: "life_of_tool cl rels key tool w \<noteq> Orphaned"
  shows "(life_step (intent_of tool))\<^sup>*\<^sup>* (life_of_tool cl rels key tool w) (life_of_tool cl rels key tool w') \<or>
    intent_of tool = Remove \<and> life_of_tool cl rels key tool w' = Orphaned \<and> lost w' = lost w @ [tool_place tool]"
proof -
  have start: "tool_place tool \<notin> rels w \<or> holds_tool_finalizer (cl w) key"
    using guarded by (auto simp: life_of_tool_def life_of_def split: if_splits)
  from assms(1,2) show ?thesis
  proof (cases rule: tool_Reconcile_cases)
    case unread
    then show ?thesis by (simp add: life_of_tool_def)
  next
    case (deleted t w1)
    with tool have t: "t = tool" and remove: "intent_of tool = Remove" by (simp_all add: intent_of_def)
    from assms(1) deleted(6) show ?thesis
    proof (cases rule: handleDeletion_cases)
      case kept
      with deleted(3,4) start have "rels w' \<subseteq> rels w" "cl w' = cl w" by (simp_all add: uninstall_promise_def)
      with start show ?thesis
        unfolding life_of_tool_def remove by (cases "holds_tool_finalizer (cl w) key") (auto simp: life_of_def)
    next
      case unknown
      with known t known_tool_service [of S U H tool] show ?thesis by simp
    next
      case (removed svc w2)
      have held: "holds_tool_finalizer (cl w') key \<longrightarrow> holds_tool_finalizer (cl w) key"
        using tool_remove_finalizer_holds [OF tool_worldD(1) [OF assms(1)] _ removed(3), of key] deleted(1,3) removed(2) by simp
      have "rels w' \<subseteq> rels w"
        using removed(4,6) deleted(4) by (simp add: uninstall_promise_def)
      then have there: "tool_place tool \<in> rels w' \<longrightarrow> tool_place tool \<in> rels w" by blast
      have "tool_place tool \<notin> rels w' \<or> lost w' = lost w @ [tool_place tool]"
        using removed(4,6,7) deleted(7) by (auto simp: uninstall_promise_def uninstall_answer_def tool_place_def t)
      then show ?thesis unfolding life_of_tool_def
        using start held there remove by (rule life_remove_or)
    qed
  next
    case (blocked t e)
    with tool have "\<not> holds_tool_finalizer (cl w) key" "intent_of tool \<noteq> Remove"
      by (auto simp: holds_tool_finalizer_def intent_of_def)
    with start blocked(3) show ?thesis by (auto simp: life_of_tool_def life_of_def)
  next
    case (running t tool' w1)
    with tool have spec: "tool_Spec tool' = tool_Spec tool" and alive: "intent_of tool \<noteq> Remove"
      "intent_of tool = (if ts_Enabled (tool_Spec tool) then Run else Rest)"
      by (simp_all add: intent_of_def asked_def)
    have place: "tool_place tool' = tool_place tool" by (rule tool_place_cong) (simp_all add: spec)
    from known obtain svc where svc: "NewToolService S U H tool' = Inr svc"
      using known_tool_service [of S U H tool'] by (auto simp: known_tool_def spec)
    with running(8) have run: "tool_apply C svc tool' w1 = (res, w')" by simp
    have "holds_tool_finalizer (cl w1) key" using running(3,5) by (simp add: holds_tool_finalizer_def)
    with holds_tool_finalizer_cong [OF keepsD [OF tool_apply_specs [OF assms(1) svc] run]]
    have held: "holds_tool_finalizer (cl w') key" by simp
    have "(life_step (intent_of tool))\<^sup>*\<^sup>* (life_of_tool cl rels key tool w) (life_of True (tool_place tool \<in> rels w))"
      unfolding life_of_tool_def using start alive(1) by (rule life_guard)
    also have "(life_step (intent_of tool))\<^sup>*\<^sup>* (life_of True (tool_place tool \<in> rels w)) (life_of_tool cl rels key tool w')"
    proof (cases "ts_Enabled (tool_Spec tool)")
      case True
      with tool_apply_rels(2) [OF assms(1) svc run] running(6) show ?thesis
        by (simp add: life_of_tool_def held alive(2) spec) (rule life_up, blast)
    next
      case False
      with tool_apply_rels(3) [OF assms(1) svc run] running(6) show ?thesis
        by (simp add: life_of_tool_def held alive(2) spec) (rule life_down, blast, simp)
    qed
    finally show ?thesis by (rule disjI1)
  qed
qed

subsection \<open>From a policy to its report\<close>

text \<open>A run of the report controller that ends well on a report whose policy exists completes that report.\<close>

lemma report_run_Complete:
  assumes "api_contract U C cl" "quiet_reads C R S cl" "report_Reconcile C R U S E key w = (Ret Complete, w')"
    and r: "c_reports (cl w) key = Some r"
    and policy: "c_policies (cl w) (om_namespace (rep_meta r), pr_Name (rs_PolicyRef (rep_Spec r))) \<noteq> None"
  shows "\<exists>r'. c_reports (cl w') key = Some r' \<and> rst_Phase (rep_Status r') = ReportCompleted \<and> rep_Spec r' = rep_Spec r"
proof -
  have key: "key = meta_key (rep_meta r)"
    using kd_keyed [OF api_contractD(4) [OF assms(1)] r] by (simp add: kd_key_def)
  from assms(1,3) show ?thesis
  proof (cases rule: report_Reconcile_cases)
    case (handled q p handler w1)
    with r have q: "q = r" by simp
    from new_handler_Complete [OF assms(1,2) _ handled(5), of w1 w'] handled(1,4,6) q key
    have completed: "report_completed key (cl w')" by simp
    from keepsD [OF new_handler_keeps [OF assms(1,2) handled(5)] handled(6)] handled(4)
    have "all_but_status key (cl w') = all_but_status key (cl w)" by (simp add: q key)
    with r completed show ?thesis
      by (auto simp: all_but_status_def other_reports_def report_completed_def)
  qed (use r policy in \<open>auto simp: ctrl_defs\<close>)
qed

subsection \<open>Properties\<close>

text \<open>
  C3: Whatever the three controllers and well-behaved others do, and in whatever order: every release in
  the cluster is foreign to the operator, or belongs to a stored Tool of a known type that still holds
  the operator's finalizer and so will have it removed, or is one whose uninstallation Helm once answered
  by a \<open>Release not loaded\<close> of another cause than \<open>release: not found\<close> (the history \<open>lost\<close>). There is no
  other way to orphan a release.
\<close>

theorem operator_leaves_no_orphans:
  assumes "operator_world C R U S H cl rels lost nss" "well_behaved cl rels others" "history_kept lost others"
    and "(operator_step C R U S H E others)\<^sup>*\<^sup>* w w'"
    and "\<forall>x \<in> rels w. x \<in> foreign \<or> release_owned (cl w) x \<or> x \<in> set (lost w)"
  shows "\<forall>x \<in> rels w'. x \<in> foreign \<or> (\<exists>k t. c_tools (cl w') k = Some t \<and>
    ToolFinalizer \<in> set (om_finalizers (tool_meta t)) \<and> known_tool t \<and> tool_place t = x) \<or> x \<in> set (lost w')"
proof -
  from assms(4) have "no_orphans cl rels lost foreign w'"
  proof (induction rule: rtranclp_induct)
    case base
    from assms(5) show ?case by (simp add: no_orphans_def)
  next
    case (step y z)
    with step_no_orphans [OF assms(1-3)] show ?case by blast
  qed
  then show ?thesis by (simp add: no_orphans_def release_owned_def)
qed

text \<open>
  C14: The type invariant of the reports: along every run of the system each stored report has a known phase
  and verdict, details that are a JSON object, and as many checks as have passed or failed.
\<close>

theorem operator_reports_well_formed:
  assumes "operator_world C R U S H cl rels lost nss" "well_behaved cl rels others"
    and "(operator_step C R U S H E others)\<^sup>*\<^sup>* w w'" "wf_reports (cl w)"
    and "c_reports (cl w') k = Some r"
  shows "rst_Phase (rep_Status r) \<in> {'''', ReportPending, ReportRunning, ReportCompleted, ReportFailed} \<and>
    sum_Verdict (rst_Summary (rep_Status r)) \<in> {'''', VerdictPass, VerdictFail, VerdictUnknown} \<and>
    sum_TotalChecks (rst_Summary (rep_Status r)) =
      sum_Passed (rst_Summary (rep_Status r)) + sum_Failed (rst_Summary (rep_Status r)) \<and>
    (case rst_Details (rep_Status r) of None \<Rightarrow> True | Some d \<Rightarrow> json_object d)"
proof -
  from assms(3,4) have "wf_reports (cl w')"
    by (induction rule: rtranclp_induct) (auto dest: step_wf_reports [OF assms(1,2)])
  with assms(5) show ?thesis by (auto simp: wf_reports_def wf_report_status_def)
qed

text \<open>
  C4: Every reconcile of a Tool of a known type refines the abstract life of a Tool: it takes the moves of
  the machine that the Tool's intent allows (guard before install, uninstall before letting go) and no
  others, however many of the calls fail on the way. So an enabled Tool only climbs from stage to stage,
  and one that is being deleted only descends. The one run that leaves the machine is that of a Tool that
  is being deleted when Helm answers its uninstallation by a \<open>Release not loaded\<close> of another cause than
  \<open>release: not found\<close>: it may let go of a release that is deployed.
\<close>

theorem tool_runs_refine_life:
  assumes "tool_world C R U S H cl rels lost nss" "tool_Reconcile C R U S H key w = (res, w')"
    and "c_tools (cl w) key = Some tool" "known_tool tool" "life_of_tool cl rels key tool w \<noteq> Orphaned"
  shows "(life_step (intent_of tool))\<^sup>*\<^sup>* (life_of_tool cl rels key tool w) (life_of_tool cl rels key tool w') \<and>
    (case intent_of tool of
       Run \<Rightarrow> life_of_tool cl rels key tool w \<le> life_of_tool cl rels key tool w'
     | Remove \<Rightarrow> life_of_tool cl rels key tool w' \<le> life_of_tool cl rels key tool w
     | Rest \<Rightarrow> True) \<or>
    intent_of tool = Remove \<and> life_of_tool cl rels key tool w' = Orphaned \<and> lost w' = lost w @ [tool_place tool]"
  using tool_run_life [OF assms] life_order by blast

text \<open>
  C13: From a policy to its report: when the policy controller has finished with an enabled policy and then
  the report controller finishes with the report of that policy, the report is completed and refers to
  the policy in the generation that was applied.
\<close>

theorem policy_then_report:
  assumes "api_contract U C cl" "runtime_contract R" "quiet_reads C R S cl"
    and "policy_Reconcile C R U key w = (Ret Complete, w1)"
    and "c_policies (cl w) key = Some p" "policy_prepared U (cl w) p" "ps_Enabled (pol_Spec p)" "policy_applicable p (cl w)"
    and "\<And>old. c_reports (cl w) (om_namespace (pol_meta p), policy_report_name p) = Some old \<Longrightarrow>
      om_deletionTimestamp (rep_meta old) = None"
    and "cl w2 = cl w1"
    and "report_Reconcile C R U S E (om_namespace (pol_meta p), policy_report_name p) w2 = (Ret Complete, w')"
  shows "\<exists>r. c_reports (cl w') (om_namespace (pol_meta p), policy_report_name p) = Some r \<and>
    rst_Phase (rep_Status r) = ReportCompleted \<and> pr_Name (rs_PolicyRef (rep_Spec r)) = om_name (pol_meta p) \<and>
    pr_Generation (rs_PolicyRef (rep_Spec r)) = om_generation (pol_meta p)"
proof -
  from completed_run_published [OF assms(1,2,4-9)] assms(10) obtain r q where
    r: "c_reports (cl w2) (om_namespace (pol_meta p), policy_report_name p) = Some r"
      "rep_Spec r = \<lparr>rs_PolicyRef = \<lparr>pr_Name = om_name (pol_meta p), pr_Generation = om_generation (pol_meta p)\<rparr>,
         rs_Type = ps_Type (pol_Spec p)\<rparr>"
    and q: "c_policies (cl w2) (meta_key (pol_meta p)) = Some q"
    by (auto simp: report_published_def)
  have "om_namespace (rep_meta r) = om_namespace (pol_meta p)"
    using kd_keyed [OF api_contractD(4) [OF assms(1)] r(1)] by (simp add: kd_key_def meta_key_def)
  with q r(2) have "c_policies (cl w2) (om_namespace (rep_meta r), pr_Name (rs_PolicyRef (rep_Spec r))) \<noteq> None"
    by (simp add: meta_key_def)
  from report_run_Complete [OF assms(1,3,11) r(1) this] r(2) show ?thesis by auto
qed

subsection \<open>Witnesses\<close>

lemma mem_operator_world:
  "operator_world mem_client mem_runtime mem_util mem_clientset mem_releases_helm mem_cluster
     (\<lambda>w. set (mem_releases w)) (\<lambda>_. []) mem_namespace_names"
  unfolding operator_world_def operator_frame_def
proof (intro conjI mem_tool_world mem_quiet_reads)
  show "quiet_reads mem_client mem_runtime mem_clientset (\<lambda>w. set (mem_releases w))"
    "quiet_reads mem_client mem_runtime mem_clientset (\<lambda>_. [])"
    by (simp_all add: quiet_reads_def mem_client_def mem_runtime_def mem_clientset_def keeps_def)
  show "\<forall>k. keeps (\<lambda>w. set (mem_releases w)) (callA (k_get (cl_tools mem_client) k))"
    "\<forall>k. keeps (\<lambda>_. []) (callA (k_get (cl_tools mem_client) k))"
    by (auto simp: mem_client_def intro!: kind_frame_keeps mem_frame)
qed (auto simp: mem_client_def intro!: mem_frame)

text \<open>A user who disables every Tool.\<close>

definition disable_tools :: "mem \<Rightarrow> mem" where
  "disable_tools w = mem_tools_update (map (\<lambda>t. t\<lparr>tool_Spec := (tool_Spec t)\<lparr>ts_Enabled := False\<rparr>\<rparr>)) w"

lemma mem_lookup_map:
  "(\<And>x. key (f x) = key x) \<Longrightarrow> mem_lookup key (map f xs) k = map_option f (mem_lookup key xs k)"
  by (induction xs) (auto simp: mem_lookup_def)

lemma disable_tools_well_behaved:
  "well_behaved mem_cluster (\<lambda>w. set (mem_releases w)) (\<lambda>w w'. w' = disable_tools w)"
  by (auto simp: well_behaved_def disable_tools_def mem_lookup_map wf_reports_def)

lemma operator_leaves_no_orphans_witness:
  "\<exists>k t. c_tools (mem_cluster (disable_tools (snd (mem_tool_run ''falco'' (new_tool_world ''falco''))))) k = Some t \<and>
     ToolFinalizer \<in> set (om_finalizers (tool_meta t)) \<and> tool_place t = (''falco'', ''falco'')"
proof -
  let ?step = "operator_step mem_client mem_runtime mem_util mem_clientset mem_releases_helm (\<lambda>s. s)
    (\<lambda>w w'. w' = disable_tools w)"
  obtain res w1 where run: "mem_tool_run ''falco'' (new_tool_world ''falco'') = (res, w1)" by fastforce
  have "?step\<^sup>*\<^sup>* (new_tool_world ''falco'') (disable_tools w1)"
    using operator_step.tool [OF run [unfolded mem_tool_run_def]] operator_step.other [of "\<lambda>w w'. w' = disable_tools w" w1]
    by (blast intro: converse_rtranclp_into_rtranclp)
  moreover have "\<forall>x \<in> set (mem_releases (new_tool_world ''falco'')). x \<in> {} \<or>
      release_owned (mem_cluster (new_tool_world ''falco'')) x \<or> x \<in> set []" by simp
  moreover have "mem_releases (snd (mem_tool_run ''falco'' (new_tool_world ''falco''))) = [(''falco'', ''falco'')]" by code_simp
  then have "(''falco'', ''falco'') \<in> set (mem_releases (disable_tools w1))" by (simp add: run disable_tools_def)
  ultimately show ?thesis
    using operator_leaves_no_orphans [OF mem_operator_world disable_tools_well_behaved, of "\<lambda>s. s" "new_tool_world ''falco''"
        "disable_tools w1" "{}"]
    by (auto simp only: run snd_conv history_kept_def list.set empty_iff simp_thms)
qed

lemma operator_reports_well_formed_witness:
  "case c_reports (mem_cluster (snd (report_Reconcile mem_client mem_runtime mem_util mem_clientset (\<lambda>s. s) (''team'', ''r1'')
        (report_world ''trivy'' ReportPending True)))) (''team'', ''r1'') of
     None \<Rightarrow> False
   | Some r \<Rightarrow> sum_TotalChecks (rst_Summary (rep_Status r)) =
       sum_Passed (rst_Summary (rep_Status r)) + sum_Failed (rst_Summary (rep_Status r))"
proof -
  let ?w = "report_world ''trivy'' ReportPending True"
  let ?run = "report_Reconcile mem_client mem_runtime mem_util mem_clientset (\<lambda>s. s) (''team'', ''r1'') ?w"
  have there: "case c_reports (mem_cluster (snd ?run)) (''team'', ''r1'') of None \<Rightarrow> False | Some r \<Rightarrow> True" by code_simp
  obtain res w' where run: "?run = (res, w')" by (metis surj_pair)
  have wf: "wf_reports (mem_cluster ?w)"
    by (auto simp: wf_reports_def report_world_def sample_world_def empty_mem_def mem_lookup_def sample_report_def
        wf_report_status_def zero_report_status_def zero_summary_def split: if_splits)
  have step: "(operator_step mem_client mem_runtime mem_util mem_clientset mem_releases_helm (\<lambda>s. s)
      (\<lambda>w w'. w' = disable_tools w))\<^sup>*\<^sup>* ?w w'"
    by (rule r_into_rtranclp) (rule operator_step.report [OF run])
  from there obtain r where "c_reports (mem_cluster w') (''team'', ''r1'') = Some r"
    by (auto simp: run split: option.splits)
  moreover from this have "sum_TotalChecks (rst_Summary (rep_Status r)) =
      sum_Passed (rst_Summary (rep_Status r)) + sum_Failed (rst_Summary (rep_Status r))"
    using operator_reports_well_formed [OF mem_operator_world disable_tools_well_behaved step] wf by blast
  ultimately show ?thesis by (simp only: run snd_conv option.case)
qed

lemma tool_runs_refine_life_witness:
  "(life_step Run)\<^sup>*\<^sup>* Unguarded
     (life_of (tool_is_held (snd (mem_tool_run ''falco'' (new_tool_world ''falco''))) (''team'', ''falco''))
       ((''falco'', ''falco'') \<in> set (mem_releases (snd (mem_tool_run ''falco'' (new_tool_world ''falco''))))))"
proof -
  let ?w = "new_tool_world ''falco''" and ?t = "(sample_tool ''falco'')\<lparr>tool_meta := new_meta ''team'' ''falco''\<rparr>"
  obtain res w' where run: "mem_tool_run ''falco'' ?w = (res, w')" by fastforce
  have tool: "c_tools (mem_cluster ?w) (''team'', ''falco'') = Some ?t"
    by (simp add: new_tool_world_def mem_lookup_def sample_tool_def meta_key_def)
  have known: "known_tool ?t" by (simp add: known_tool_def sample_tool_def tool_type_defs)
  have place: "tool_place ?t = (''falco'', ''falco'')" by code_simp
  have intent: "intent_of ?t = Run" by (simp add: intent_of_def sample_tool_def)
  have start: "life_of_tool mem_cluster (\<lambda>w. set (mem_releases w)) (''team'', ''falco'') ?t ?w = Unguarded"
    using tool by (simp add: life_of_tool_def life_of_def holds_tool_finalizer_def)
  let ?rels = "\<lambda>w. set (mem_releases w)"
  have "life_of_tool mem_cluster ?rels (''team'', ''falco'') ?t ?w \<noteq> Orphaned" by (simp add: start)
  then have "(life_step (intent_of ?t))\<^sup>*\<^sup>* (life_of_tool mem_cluster ?rels (''team'', ''falco'') ?t ?w)
      (life_of_tool mem_cluster ?rels (''team'', ''falco'') ?t w')"
    using tool known tool_runs_refine_life [OF mem_tool_world run [unfolded mem_tool_run_def], of ?t] by (simp add: intent)
  then show ?thesis
    unfolding start intent by (simp only: life_of_tool_def place run tool_is_held snd_conv)
qed

lemma policy_then_report_witness:
  "let w1 = snd (run_sample PolicyTypeLitmus (sample_policy PolicyTypeLitmus));
       w' = snd (report_Reconcile mem_client mem_runtime mem_util mem_clientset (\<lambda>s. s) (''team'', ''litmus-report-p1'') w1) in
   \<exists>r. c_reports (mem_cluster w') (''team'', ''litmus-report-p1'') = Some r \<and>
     rst_Phase (rep_Status r) = ReportCompleted \<and> pr_Generation (rs_PolicyRef (rep_Spec r)) = 2"
proof -
  let ?p = "sample_policy PolicyTypeLitmus"
  let ?w1 = "snd (run_sample PolicyTypeLitmus ?p)"
  let ?run = "report_Reconcile mem_client mem_runtime mem_util mem_clientset (\<lambda>s. s) (''team'', ''litmus-report-p1'') ?w1"
  have prepared: "policy_prepared mem_util (mem_cluster (sample_world PolicyTypeLitmus ?p)) ?p" by code_simp
  have run: "fst (run_sample PolicyTypeLitmus ?p) = Ret Complete" by code_simp
  have run2: "fst ?run = Ret Complete" by code_simp
  then have run2': "?run = (Ret Complete, snd ?run)" by (metis prod.collapse)
  have enabled: "ps_Enabled (pol_Spec ?p)" by (simp add: sample_policy_def new_policy_def sample_spec_def)
  have app: "policy_applicable ?p (mem_cluster (sample_world PolicyTypeLitmus ?p))"
    by (simp add: policy_applicable_def litmus_applicable_def sample_policy_def new_policy_def sample_spec_def
        sample_experiment_def sample_world_def empty_mem_def mem_lookup_def)
  have none: "c_reports (mem_cluster (sample_world PolicyTypeLitmus ?p)) k = None" for k
    by (simp add: sample_world_def empty_mem_def mem_lookup_def)
  have name: "policy_report_name ?p = ''litmus-report-p1''" by code_simp
  have p: "om_namespace (pol_meta ?p) = ''team''" "om_generation (pol_meta ?p) = 2" by code_simp+
  have "\<exists>r. c_reports (mem_cluster (snd ?run)) (om_namespace (pol_meta ?p), policy_report_name ?p) = Some r \<and>
    rst_Phase (rep_Status r) = ReportCompleted \<and> pr_Name (rs_PolicyRef (rep_Spec r)) = om_name (pol_meta ?p) \<and>
    pr_Generation (rs_PolicyRef (rep_Spec r)) = om_generation (pol_meta ?p)"
  proof (rule policy_then_report [OF mem_api_contract mem_runtime_contract mem_quiet_reads run_sample_to [OF run] sample_stored
      prepared enabled app _ refl])
    show "report_Reconcile mem_client mem_runtime mem_util mem_clientset (\<lambda>s. s)
        (om_namespace (pol_meta ?p), policy_report_name ?p) ?w1 = (Ret Complete, snd ?run)"
      using run2' by (simp only: p name)
  qed (use none in \<open>simp_all add: sample_policy_def new_policy_def meta_key_def del: mem_cluster_simps\<close>)
  then show ?thesis unfolding Let_def p name by blast
qed

subsection \<open>What the assumptions exclude\<close>

text \<open>
  Why others must not move a Tool: nothing records where a Tool was installed. A Tool whose type is
  changed while it is deployed installs the new release and leaves the old one without an owner.
\<close>

definition retype_tools :: "string \<Rightarrow> mem \<Rightarrow> mem" where
  "retype_tools typ w = mem_tools_update (map (\<lambda>t. t\<lparr>tool_Spec := (tool_Spec t)\<lparr>ts_Type := typ\<rparr>\<rparr>)) w"

lemma retyped_tool_orphans_release:
  "let w = snd (mem_tool_run ''falco'' (retype_tools ''trivy'' (snd (mem_tool_run ''falco'' (new_tool_world ''falco''))))) in
   (''falco'', ''falco'') \<in> set (mem_releases w) \<and>
   list_all (\<lambda>t. tool_place t \<noteq> (''falco'', ''falco'')) (mem_tools w)"
  by code_simp

text \<open>
  And why a release belongs to some Tool, not to one: two Tools of one type share it. When the Tool in one
  namespace is deleted, the release of the other, enabled and in use, is uninstalled.
\<close>

definition twin_tools_world :: mem where
  "twin_tools_world = deleted_tool_world\<lparr>mem_tools := mem_tools deleted_tool_world @
     [(sample_tool ''trivy'')\<lparr>tool_meta := (new_meta ''blue'' ''trivy'')\<lparr>om_finalizers := [ToolFinalizer]\<rparr>\<rparr>]\<rparr>"

lemma twin_tools_share_release:
  "(''trivy-system'', ''trivy-operator'') \<in> set (mem_releases twin_tools_world) \<and>
   (let w = snd (mem_tool_run ''trivy'' twin_tools_world) in
    mem_releases w = [] \<and> list_all (\<lambda>t. om_namespace (tool_meta t) = ''blue'' \<and> ts_Enabled (tool_Spec t)) (mem_tools w) \<and>
    mem_tools w \<noteq> [])"
  by code_simp

end
