(* ===== verification/Progress.thy ===== *)
theory Progress
  imports Operator
begin

section \<open>Progress of the controllers\<close>

text \<open>
  What the operator gets done when the API server, Helm and the cluster answer (\<open>healthy_api\<close>,
  \<open>healthy_helm\<close>, \<open>healthy_clientset\<close>): a run reaches its end, and it reaches the state that the spec asks
  for. These are claims of total correctness: that the run returns is part of what is proved. Two more say
  what a run abandons when one call is answered wrongly: a release and a config map that cannot be read.
\<close>

subsection \<open>Tools\<close>

text \<open>The live interpretations, for the service that the factory picks.\<close>

lemma new_service_installed:
  assumes "NewToolService S U H tool = Inr svc" "tool_env U S H rels lost nss"
    and "healthy_helm H" "healthy_clientset U S" "tool_values_ok U tool"
  obtains w' where "svc_EnsureInstalled svc tool w = (Ret (), w')"
    "(tool_namespace (tool_default_namespace tool) tool, tool_release tool) \<in> rels w'"
  using assms(1)
proof (cases rule: NewToolService_cases)
  case falco
  show thesis
    by (rule falco_tool_live.install_done [OF assms(2-5), where w = w]) (use that in \<open>auto simp: falco tool_default_namespace_def tool_release_def\<close>)
next
  case litmus
  show thesis
    by (rule litmus_tool_live.install_done [OF assms(2-5), where w = w]) (use that in \<open>auto simp: litmus tool_default_namespace_def tool_release_def tool_type_defs\<close>)
next
  case trivy
  show thesis
    by (rule trivy_tool_live.install_done [OF assms(2-5), where w = w]) (use that in \<open>auto simp: trivy tool_default_namespace_def tool_release_def tool_type_defs\<close>)
qed

lemma new_service_uninstalled:
  assumes "NewToolService S U H tool = Inr svc" "tool_env U S H rels lost nss" "healthy_helm H" "healthy_clientset U S"
  obtains w' where "svc_EnsureUninstalled svc tool w = (Ret (), w')"
    "(tool_namespace (tool_default_namespace tool) tool, tool_release tool) \<notin> rels w'"
  using assms(1)
proof (cases rule: NewToolService_cases)
  case falco
  show thesis
    by (rule falco_tool_live.uninstall_done [OF assms(2-4), where w = w]) (use that in \<open>auto simp: falco tool_default_namespace_def tool_release_def\<close>)
next
  case litmus
  show thesis
    by (rule litmus_tool_live.uninstall_done [OF assms(2-4), where w = w]) (use that in \<open>auto simp: litmus tool_default_namespace_def tool_release_def tool_type_defs\<close>)
next
  case trivy
  show thesis
    by (rule trivy_tool_live.uninstall_done [OF assms(2-4), where w = w]) (use that in \<open>auto simp: trivy tool_default_namespace_def tool_release_def tool_type_defs\<close>)
qed

lemma new_service_checked:
  assumes "NewToolService S U H tool = Inr svc" "healthy_clientset U S"
  shows "returns (svc_CheckHealth svc tool)"
  using assms(1)
  by (cases rule: NewToolService_cases)
    (simp_all only: falco_tool_live.health_returns litmus_tool_live.health_returns trivy_tool_live.health_returns assms(2))

text \<open>The last part of a run: install or uninstall, look at the health, store the status.\<close>

lemma tool_apply_done:
  assumes env: "tool_world C R U S H cl rels lost nss" and live: "healthy_api U C cl" "healthy_helm H" "healthy_clientset U S"
    and stored: "c_tools (cl w) (meta_key (tool_meta tool)) = Some tool" and vals: "tool_values_ok U tool"
    and svc: "NewToolService S U H tool = Inr svc"
  obtains healthy t w' where
    "tool_apply C svc tool w = (Ret (if healthy then Complete else RequeueAfter (5 * second)), w')"
    "c_tools (cl w') (meta_key (tool_meta tool)) = Some t" "tool_meta t = tool_meta tool"
    "tool_Status t = (tool_Status tool)\<lparr>tst_Installed := ts_Enabled (tool_Spec tool), tst_Healthy := healthy\<rparr>"
    "(tool_namespace (tool_default_namespace tool) tool, tool_release tool) \<in> rels w' \<longleftrightarrow> ts_Enabled (tool_Spec tool)"
proof -
  let ?rel = "(tool_namespace (tool_default_namespace tool) tool, tool_release tool)"
  note store = api_contractD(2) [OF tool_worldD(1) [OF env]] and quiet = new_service_quiet [OF svc tool_worldD(3,4) [OF env]]
  note acts = new_service_installed [OF svc tool_worldD(2) [OF env] live(2,3) vals]
    new_service_uninstalled [OF svc tool_worldD(2) [OF env] live(2,3)]
  obtain w1 where act: "(if ts_Enabled (tool_Spec tool) then svc_EnsureInstalled svc tool else svc_EnsureUninstalled svc tool) w
      = (Ret (), w1)" "?rel \<in> rels w1 \<longleftrightarrow> ts_Enabled (tool_Spec tool)"
    by (cases "ts_Enabled (tool_Spec tool)") (auto intro: acts(1) [of w] acts(2) [of w])
  obtain healthy w2 where check: "svc_CheckHealth svc tool w1 = (Ret healthy, w2)"
    using new_service_checked [OF svc live(3)] by (rule returnsE)
  have cl2: "cl w2 = cl w"
    using keepsD [OF keeps_if [OF quiet(1,2)] act(1)] keepsD [OF quiet(3) check] by simp
  have rels2: "rels w2 = rels w1"
    using keepsD [OF new_service_health_keeps [OF svc tool_envD(5) [OF tool_worldD(2) [OF env]]] check] .
  let ?t = "tool\<lparr>tool_Status := (tool_Status tool)\<lparr>tst_Installed := ts_Enabled (tool_Spec tool), tst_Healthy := healthy\<rparr>\<rparr>"
  have key: "kd_key tool_desc ?t = meta_key (tool_meta tool)" by (simp add: kd_key_def)
  with stored cl2 healthy_kindD(5) [OF healthy_apiD(1) [OF live(1)], of w2 ?t] obtain x w' where
    put: "k_status_update (cl_tools C) ?t w2 = (Inr x, w')" by auto
  from store put obtain t where "c_tools (cl w') (meta_key (tool_meta tool)) = Some t"
    "tool_meta t = tool_meta tool" "tool_Status t = tool_Status ?t"
    by (rule status_update_Ret) (use stored cl2 key in auto)
  moreover have "rels w' = rels w2" using keeps_callAD [OF kind_frame_keeps(5) [OF tool_worldD(5) [OF env]] put] .
  moreover have "tool_apply C svc tool w = (Ret (if healthy then Complete else RequeueAfter (5 * second)), w')"
    unfolding tool_apply_def Let_def using act(1) check put by (auto simp: tryA_act callA_act)
  ultimately show thesis using act(2) rels2 by (intro that [of healthy w' t]) simp_all
qed

text \<open>Reading a tool that is there.\<close>

lemma tool_read:
  assumes "tool_world C R U S H cl rels lost nss" "healthy_api U C cl" "c_tools (cl w) key = Some tool"
  obtains w1 where "k_get (cl_tools C) key w = (Inr tool, w1)" "cl w1 = cl w" "rels w1 = rels w"
proof -
  note store = api_contractD(2) [OF tool_worldD(1) [OF assms(1)]]
  obtain w1 where get: "k_get (cl_tools C) key w = (Inr tool, w1)"
    by (rule get_stored [OF healthy_apiD(1) [OF assms(2)] store assms(3)])
  with keeps_callAD [OF api_reads_cluster(1) [OF tool_worldD(1) [OF assms(1)]] get]
    keeps_callAD [OF kind_frame_keeps(1) [OF tool_worldD(5) [OF assms(1)]] get] show thesis
    by (intro that [of w1]) simp_all
qed

lemma tool_let_go:
  assumes env: "tool_world C R U S H cl rels lost nss" and live: "healthy_api U C cl"
    and stored: "c_tools (cl w) (meta_key (tool_meta tool)) = Some tool"
  obtains w' where "tool_remove_finalizer C U tool w = (Ret Complete, w')" "rels w' = rels w"
    "\<not> holds_tool_finalizer (cl w') (meta_key (tool_meta tool))"
proof -
  note api = tool_worldD(1) [OF env]
  from util_contractD(4) [OF api_contractD(1) [OF api]] obtain fs
    where fs: "removeFinalizer U (tool_meta tool) ToolFinalizer = (tool_meta tool)\<lparr>om_finalizers := fs\<rparr>"
      "set fs = set (om_finalizers (tool_meta tool)) - {ToolFinalizer}" by blast
  let ?t = "tool\<lparr>tool_meta := (tool_meta tool)\<lparr>om_finalizers := fs\<rparr>\<rparr>"
  have "kd_key tool_desc ?t = meta_key (tool_meta tool)" by (simp add: kd_key_def meta_key_def)
  with stored healthy_kindD(6) [OF healthy_apiD(1) [OF live], where w = w and x = ?t and orig = tool] obtain x w' where
    patch: "k_patch (cl_tools C) tool ?t w = (Inr x, w')" by auto
  from store_contract_laws(6) [OF api_contractD(2) [OF api]] patch
  have "patch_effect tool_desc tool ?t x (c_tools (cl w)) (c_tools (cl w'))" unfolding patch_law_def by blast
  then have "\<not> holds_tool_finalizer (cl w') (meta_key (tool_meta tool))"
    using stored fs(2)
    by (auto simp: patch_effect_def holds_tool_finalizer_def store_after_def kd_key_def meta_key_def split: if_splits)
  moreover have "rels w' = rels w" using patch_outside(1) [OF env patch] .
  moreover have "tool_remove_finalizer C U tool w = (Ret Complete, w')"
    using patch by (simp add: tool_remove_finalizer_def fs(1) tryA_act callA_act)
  ultimately show thesis by (intro that [of w'])
qed

lemma tool_deletion_done:
  assumes env: "tool_world C R U S H cl rels lost nss" and live: "healthy_api U C cl" "healthy_helm H" "healthy_clientset U S"
    and stored: "c_tools (cl w) (meta_key (tool_meta tool)) = Some tool"
    and svc: "NewToolService S U H tool = Inr svc"
  obtains w' where "handleDeletion C U S H tool w = (Ret Complete, w')"
    "(tool_namespace (tool_default_namespace tool) tool, tool_release tool) \<notin> rels w'"
    "\<not> holds_tool_finalizer (cl w') (meta_key (tool_meta tool))"
proof -
  obtain w1 where gone: "svc_EnsureUninstalled svc tool w = (Ret (), w1)"
    "(tool_namespace (tool_default_namespace tool) tool, tool_release tool) \<notin> rels w1"
    using new_service_uninstalled [OF svc tool_worldD(2) [OF env] live(2,3)] by blast
  have "cl w1 = cl w" using keepsD [OF new_service_quiet(2) [OF svc tool_worldD(3,4) [OF env]] gone(1)] .
  with stored have "c_tools (cl w1) (meta_key (tool_meta tool)) = Some tool" by simp
  then obtain w' where "tool_remove_finalizer C U tool w1 = (Ret Complete, w')" "rels w' = rels w1"
    "\<not> holds_tool_finalizer (cl w') (meta_key (tool_meta tool))" by (rule tool_let_go [OF env live(1)])
  with gone svc show thesis by (intro that [of w']) (simp_all add: handleDeletion_def tryA_act)
qed

text \<open>Before it acts, a run sees to the finalizer.\<close>

lemma tool_finalizer_set:
  assumes env: "tool_world C R U S H cl rels lost nss" and live: "healthy_api U C cl"
    and stored: "c_tools (cl w) (meta_key (tool_meta tool)) = Some tool" "om_deletionTimestamp (tool_meta tool) = None"
  obtains t w' where "(if \<not> containsFinalizer U (tool_meta tool) ToolFinalizer then
             callA (k_patch (cl_tools C) tool (tool\<lparr>tool_meta := addFinalizer U (tool_meta tool) ToolFinalizer\<rparr>))
           else retA tool) w = (Ret t, w')"
    "c_tools (cl w') (meta_key (tool_meta tool)) = Some t" "tool_Spec t = tool_Spec tool"
    "meta_key (tool_meta t) = meta_key (tool_meta tool)" "ToolFinalizer \<in> set (om_finalizers (tool_meta t))"
proof (cases "ToolFinalizer \<in> set (om_finalizers (tool_meta tool))")
  case True
  with stored util_contractD(2) [OF api_contractD(1) [OF tool_worldD(1) [OF env]]] show thesis
    by (intro that [of tool w]) simp_all
next
  case False
  note api = tool_worldD(1) [OF env]
  note util = util_contractD [OF api_contractD(1) [OF api]]
  let ?t = "tool\<lparr>tool_meta := addFinalizer U (tool_meta tool) ToolFinalizer\<rparr>"
  obtain fs where "addFinalizer U (tool_meta tool) ToolFinalizer = (tool_meta tool)\<lparr>om_finalizers := fs\<rparr>"
    using util(3) by blast
  then have "kd_key tool_desc ?t = meta_key (tool_meta tool)" by (simp add: kd_key_def meta_key_def)
  with stored healthy_kindD(6) [OF healthy_apiD(1) [OF live], where w = w and x = ?t and orig = tool] obtain t w' where
    patch: "k_patch (cl_tools C) tool ?t w = (Inr t, w')" by auto
  note added = add_finalizer_Ret [OF api stored patch]
  with kd_keyed [OF api_contractD(2) [OF api] added(1)] patch False show thesis
    by (intro that [of t w']) (simp_all add: util(2) callA_act kd_key_def)
qed

text \<open>
  C7: When the cluster and Helm answer, a single run does for a Tool of a known type what its spec asks for,
  and returns. A Tool that is being deleted loses its release and then its finalizer. Any other gets its
  finalizer, its release is there exactly if the Tool is enabled, the stored status says so and how the
  workload does, and the Tool is looked at again in five seconds unless the workload is healthy.
\<close>

theorem tool_converges:
  assumes "tool_world C R U S H cl rels lost nss" "healthy_api U C cl" "healthy_helm H" "healthy_clientset U S"
    and "c_tools (cl w) key = Some tool" "ts_Type (tool_Spec tool) \<in> {ToolFalco, ToolLitmus, ToolTrivy}"
    and "tool_values_ok U tool"
  shows "\<exists>outcome w'. tool_Reconcile C R U S H key w = (Ret outcome, w') \<and>
    (let release = (tool_namespace (tool_default_namespace tool) tool, tool_release tool) in
     if om_deletionTimestamp (tool_meta tool) \<noteq> None
     then outcome = Complete \<and> release \<notin> rels w' \<and> \<not> holds_tool_finalizer (cl w') key
     else holds_tool_finalizer (cl w') key \<and> (release \<in> rels w' \<longleftrightarrow> ts_Enabled (tool_Spec tool)) \<and>
       (\<exists>t. c_tools (cl w') key = Some t \<and> tst_Installed (tool_Status t) = ts_Enabled (tool_Spec tool) \<and>
          outcome = (if tst_Healthy (tool_Status t) then Complete else RequeueAfter (5 * second))))"
proof -
  note store = api_contractD(2) [OF tool_worldD(1) [OF assms(1)]]
  have key: "key = meta_key (tool_meta tool)" using kd_keyed [OF store assms(5)] by (simp add: kd_key_def)
  obtain w1 where get: "k_get (cl_tools C) key w = (Inr tool, w1)" and w1: "cl w1 = cl w" "rels w1 = rels w"
    by (rule tool_read [OF assms(1,2,5)])
  show ?thesis
  proof (cases "om_deletionTimestamp (tool_meta tool) = None")
    case False
    from assms(6) obtain svc where "NewToolService S U H tool = Inr svc" by (auto simp: NewToolService_def)
    from tool_deletion_done [OF assms(1-4) _ this, of w1] assms(5) w1 key obtain w' where
      "handleDeletion C U S H tool w1 = (Ret Complete, w')"
      "(tool_namespace (tool_default_namespace tool) tool, tool_release tool) \<notin> rels w'"
      "\<not> holds_tool_finalizer (cl w') key" by auto
    moreover from this(1) get False have "tool_Reconcile C R U S H key w = (Ret Complete, w')"
      by (simp add: tool_Reconcile_def tryA_act callA_act)
    ultimately show ?thesis using False by (simp add: Let_def)
  next
    case True
    from assms(5) w1 key have "c_tools (cl w1) (meta_key (tool_meta tool)) = Some tool" by simp
    from tool_finalizer_set [OF assms(1,2) this True] obtain t w2 where
      fin: "(if \<not> containsFinalizer U (tool_meta tool) ToolFinalizer then
             callA (k_patch (cl_tools C) tool (tool\<lparr>tool_meta := addFinalizer U (tool_meta tool) ToolFinalizer\<rparr>))
           else retA tool) w1 = (Ret t, w2)"
      and t: "c_tools (cl w2) key = Some t" "tool_Spec t = tool_Spec tool" "meta_key (tool_meta t) = key"
        "ToolFinalizer \<in> set (om_finalizers (tool_meta t))"
      using key by metis
    from assms(6) t(2) obtain svc where svc: "NewToolService S U H t = Inr svc" by (auto simp: NewToolService_def)
    have vals: "tool_values_ok U t" using assms(7) t(2) by (simp add: tool_values_ok_def)
    from t(1,3) have "c_tools (cl w2) (meta_key (tool_meta t)) = Some t" by simp
    from tool_apply_done [OF assms(1-4) this vals svc] t(3) obtain healthy t' w' where
      run: "tool_apply C svc t w2 = (Ret (if healthy then Complete else RequeueAfter (5 * second)), w')"
      and t': "c_tools (cl w') key = Some t'" "tool_meta t' = tool_meta t"
        "tool_Status t' = (tool_Status t)\<lparr>tst_Installed := ts_Enabled (tool_Spec t), tst_Healthy := healthy\<rparr>"
        "(tool_namespace (tool_default_namespace t) t, tool_release t) \<in> rels w' \<longleftrightarrow> ts_Enabled (tool_Spec t)"
      by metis
    have "tool_Reconcile C R U S H key w = (Ret (if healthy then Complete else RequeueAfter (5 * second)), w')"
      using get True fin svc run by (auto simp: tool_Reconcile_def tryA_act callA_act)
    moreover have "holds_tool_finalizer (cl w') key" using t' t(4) by (simp add: holds_tool_finalizer_def)
    moreover have "tool_namespace (tool_default_namespace t) t = tool_namespace (tool_default_namespace tool) tool"
      "tool_release t = tool_release tool"
      by (simp_all add: tool_namespace_def tool_default_namespace_def tool_release_def t(2))
    ultimately show ?thesis using True t' t(2) by (auto simp: Let_def)
  qed
qed

lemma tool_converges_witness:
  "\<exists>outcome w'. mem_tool_run ''trivy'' (new_tool_world ''trivy'') = (Ret outcome, w') \<and>
     (''trivy-system'', ''trivy-operator'') \<in> set (mem_releases w') \<and> holds_tool_finalizer (mem_cluster w') (''team'', ''trivy'')"
proof -
  let ?tool = "(sample_tool ''trivy'')\<lparr>tool_meta := new_meta ''team'' ''trivy''\<rparr>"
  have tool: "c_tools (mem_cluster (new_tool_world ''trivy'')) (''team'', ''trivy'') = Some ?tool"
    "ts_Type (tool_Spec ?tool) \<in> {ToolFalco, ToolLitmus, ToolTrivy}" "tool_values_ok mem_util ?tool"
    by (simp_all add: new_tool_world_def mem_lookup_def tool_values_ok_def sample_tool_def tool_type_defs)
  note run = tool_converges [OF mem_tool_world mem_healthy_api]
  from run [OF mem_helm_healthy mem_healthy_clientset tool]
  show ?thesis
    by (auto simp: mem_tool_run_def Let_def sample_tool_def tool_type_defs
        tool_namespace_def tool_default_namespace_def resolvedNamespace_def tool_release_def
        trivyNamespace_def trivyReleaseName_def)
qed

subsection \<open>A release that cannot be read\<close>

lemma new_service_unread:
  assumes "NewToolService S U H tool = Inr svc" "tool_env U S H rels lost nss" "unreadable_releases H rels"
    and "ts_Namespace (tool_Spec tool) \<noteq> ''''"
  obtains w' where "svc_EnsureUninstalled svc tool w = (Ret (), w')" "rels w' = rels w"
proof -
  note unread = Uninstall_unread [OF helm_contractD(1) [OF tool_envD(1) [OF assms(2)]] assms(3)]
  from assms(1) show thesis
  proof (cases rule: NewToolService_cases)
    case falco
    show thesis
      by (rule unread [of "NewHelmDeleteManager (resolvedNamespace (ts_Namespace (tool_Spec tool)) falcoNamespace) falcoReleaseName" w])
        (use assms(4) in \<open>auto intro: that simp: falco falco_EnsureUninstalled_def Let_def tryA_act\<close>)
  next
    case litmus
    show thesis
      by (rule unread [of "NewHelmDeleteManager (resolvedNamespace (ts_Namespace (tool_Spec tool)) litmusNamespace) litmusReleaseName" w])
        (use assms(4) in \<open>auto intro: that simp: litmus litmus_EnsureUninstalled_def Let_def tryA_act\<close>)
  next
    case trivy
    show thesis
      by (rule unread [of "NewHelmDeleteManager (resolvedNamespace (ts_Namespace (tool_Spec tool)) trivyNamespace) trivyReleaseName" w])
        (use assms(4) in \<open>auto intro: that simp: trivy trivy_EnsureUninstalled_def Let_def tryA_act\<close>)
  qed
qed

text \<open>
  C33: A release that Helm cannot read is abandoned. When Helm answers the uninstallation by a
  \<open>Release not loaded\<close> of another cause than \<open>release: not found\<close> and the release stays, a run on the
  deleted Tool completes, without an error, takes the finalizer away and leaves the release in the cluster:
  nothing is left in the cluster that would have it removed. (Shown for a Tool whose namespace the user chose;
  otherwise the namespace is deleted next.)
\<close>

theorem unread_release_is_abandoned:
  assumes "tool_world C R U S H cl rels lost nss" "healthy_api U C cl" "unreadable_releases H rels"
    and "c_tools (cl w) key = Some tool" "ts_Type (tool_Spec tool) \<in> {ToolFalco, ToolLitmus, ToolTrivy}"
    and "om_deletionTimestamp (tool_meta tool) \<noteq> None" "ts_Namespace (tool_Spec tool) \<noteq> ''''"
    and "(ts_Namespace (tool_Spec tool), tool_release tool) \<in> rels w"
  shows "\<exists>w'. tool_Reconcile C R U S H key w = (Ret Complete, w') \<and> \<not> holds_tool_finalizer (cl w') key \<and>
    (ts_Namespace (tool_Spec tool), tool_release tool) \<in> rels w'"
proof -
  have key: "key = meta_key (tool_meta tool)"
    using kd_keyed [OF api_contractD(2) [OF tool_worldD(1) [OF assms(1)]] assms(4)] by (simp add: kd_key_def)
  from assms(5) obtain svc where svc: "NewToolService S U H tool = Inr svc" by (auto simp: NewToolService_def)
  obtain w1 where get: "k_get (cl_tools C) key w = (Inr tool, w1)" and w1: "cl w1 = cl w" "rels w1 = rels w"
    by (rule tool_read [OF assms(1,2,4)])
  obtain w2 where un: "svc_EnsureUninstalled svc tool w1 = (Ret (), w2)" "rels w2 = rels w1"
    by (rule new_service_unread [OF svc tool_worldD(2) [OF assms(1)] assms(3,7)])
  have "cl w2 = cl w1" using keepsD [OF new_service_quiet(2) [OF svc tool_worldD(3,4) [OF assms(1)]] un(1)] .
  with assms(4) w1 key have "c_tools (cl w2) (meta_key (tool_meta tool)) = Some tool" by simp
  then obtain w' where go: "tool_remove_finalizer C U tool w2 = (Ret Complete, w')" "rels w' = rels w2"
    "\<not> holds_tool_finalizer (cl w') (meta_key (tool_meta tool))" by (rule tool_let_go [OF assms(1,2)])
  from get un go(1) svc assms(6) have "tool_Reconcile C R U S H key w = (Ret Complete, w')"
    by (auto simp: tool_Reconcile_def handleDeletion_def tryA_act callA_act)
  with go un w1 assms(8) key show ?thesis by auto
qed

subsection \<open>A release that cannot be read: a sample\<close>

text \<open>Helm in memory, with releases that time out when they are read. What it could not read is kept in the world.\<close>

definition flaky_helm :: "mem helm" where
  "flaky_helm = mem_releases_helm\<lparr>hl_Uninstall := (\<lambda>c a w.
     (Inl (ExtError ''uninstall: Release not loaded: etcdserver: request timed out''),
      mem_lost_update (\<lambda>l. l @ [(hc_Namespace c, ha_ReleaseName a)]) w))\<rparr>"

lemma flaky_answer: "unloaded (ExtError ''uninstall: Release not loaded: etcdserver: request timed out'')"
  by code_simp

lemma flaky_helm_contract: "helm_contract flaky_helm (\<lambda>w. set (mem_releases w)) mem_lost"
  using flaky_answer
  unfolding helm_contract_def helm_prepares_def get_release_law_def install_law_def uninstall_law_def setup_law_def
    lost_frame_def
  by (auto intro!: keeps_callA simp: flaky_helm_def mem_helm_def install_moves_def uninstall_moves_def unloaded_def
      split: if_splits)

lemma flaky_helm_quiet:
  assumes "\<And>f w. g (mem_releases_update f w) = g w" "\<And>f w. g (mem_lost_update f w) = g w"
  shows "helm_quiet flaky_helm g"
  unfolding helm_quiet_def helm_prepares_def
  by (auto intro!: keeps_callA simp: flaky_helm_def mem_helm_def assms)

lemma flaky_tool_world:
  "tool_world mem_client mem_runtime mem_util mem_clientset flaky_helm mem_cluster
     (\<lambda>w. set (mem_releases w)) mem_lost mem_namespace_names"
proof -
  note world = tool_worldD [OF mem_tool_world] and env = tool_envD [OF tool_worldD(2) [OF mem_tool_world]]
  have quiet: "helm_quiet flaky_helm mem_namespace_names" "helm_quiet flaky_helm mem_cluster"
    by (rule flaky_helm_quiet; simp add: mem_namespace_names_def mem_cluster_def)+
  have "clientset_quiet mem_clientset mem_lost"
    by (auto simp: clientset_quiet_def mem_clientset_def intro!: keeps_callA split: option.splits)
  with env quiet flaky_helm_contract
  have "tool_env mem_util mem_clientset flaky_helm (\<lambda>w. set (mem_releases w)) mem_lost mem_namespace_names"
    by (simp add: tool_env_def)
  moreover have "kind_frame (cl_tools mem_client) mem_lost" by (auto simp: mem_client_def intro!: mem_frame)
  moreover have "keeps mem_lost (nowA mem_runtime)" by (simp add: keeps_def nowA_def mem_runtime_def)
  ultimately show ?thesis using world quiet by (simp add: tool_world_def)
qed

lemma flaky_unreadable: "unreadable_releases flaky_helm (\<lambda>w. set (mem_releases w))"
  using flaky_answer by (auto simp: unreadable_releases_def flaky_helm_def mem_helm_def returns_def callA_act)

definition abandoned_tool :: Tool where
  "abandoned_tool = (sample_tool ''trivy'')\<lparr>
     tool_meta := (tool_meta (sample_tool ''trivy''))\<lparr>om_deletionTimestamp := Some 1\<rparr>,
     tool_Spec := (tool_Spec (sample_tool ''trivy''))\<lparr>ts_Namespace := ''scan''\<rparr>\<rparr>"

lemma unread_release_is_abandoned_witness:
  "\<exists>w'. tool_Reconcile mem_client mem_runtime mem_util mem_clientset flaky_helm (''team'', ''trivy'')
      (empty_mem\<lparr>mem_tools := [abandoned_tool], mem_releases := [(''scan'', ''trivy-operator'')]\<rparr>) = (Ret Complete, w') \<and>
    \<not> holds_tool_finalizer (mem_cluster w') (''team'', ''trivy'') \<and> (''scan'', ''trivy-operator'') \<in> set (mem_releases w')"
proof -
  let ?w = "empty_mem\<lparr>mem_tools := [abandoned_tool], mem_releases := [(''scan'', ''trivy-operator'')]\<rparr>"
  have tool: "c_tools (mem_cluster ?w) (''team'', ''trivy'') = Some abandoned_tool"
    "ts_Type (tool_Spec abandoned_tool) \<in> {ToolFalco, ToolLitmus, ToolTrivy}"
    "om_deletionTimestamp (tool_meta abandoned_tool) \<noteq> None" "ts_Namespace (tool_Spec abandoned_tool) \<noteq> ''''"
    by (simp_all add: mem_lookup_def abandoned_tool_def sample_tool_def tool_type_defs meta_key_def)
  have place: "ts_Namespace (tool_Spec abandoned_tool) = ''scan''" "tool_release abandoned_tool = ''trivy-operator''"
    by (simp_all add: abandoned_tool_def sample_tool_def tool_release_def tool_type_defs trivyReleaseName_def)
  note run = unread_release_is_abandoned [OF flaky_tool_world mem_healthy_api]
  from run [OF flaky_unreadable tool] show ?thesis by (simp add: place)
qed

subsection \<open>Policies\<close>

text \<open>A write of the finalizers and the owners of a policy that is not being deleted.\<close>

lemma policy_written:
  assumes api: "api_contract U C cl" and live: "healthy_api U C cl"
    and stored: "c_policies (cl w) (meta_key (pol_meta p)) = Some p" "om_deletionTimestamp (pol_meta p) = None"
    and m: "m = (pol_meta p)\<lparr>om_finalizers := fs, om_ownerReferences := rs\<rparr>"
  obtains q w' where "k_update (cl_policies C) (p\<lparr>pol_meta := m\<rparr>) w = (Inr q, w')" "same_policy p q"
    "c_policies (cl w') (meta_key (pol_meta p)) = Some q" "om_deletionTimestamp (pol_meta q) = None"
    "om_finalizers (pol_meta q) = fs" "om_ownerReferences (pol_meta q) = rs"
    "all_but_policies (cl w') = all_but_policies (cl w)"
proof -
  let ?p = "p\<lparr>pol_meta := m\<rparr>"
  have key: "kd_key policy_desc ?p = meta_key (pol_meta p)" by (simp add: kd_key_def meta_key_def m)
  with stored healthy_kindD(4) [OF healthy_apiD(2) [OF live], where w = w and x = ?p] obtain q w' where
    put: "k_update (cl_policies C) ?p w = (Inr q, w')" by auto
  from api_contractD(3) [OF api] put have "updated_from policy_desc ?p p q \<and> c_policies (cl w') (meta_key (pol_meta p)) = Some q"
    by (cases rule: update_Ret) (use stored key in \<open>auto simp: store_after_def\<close>)
  then show thesis
    using put stored(2) policy_update_specs [OF api put]
    by (intro that [of q w']) (auto simp: updated_from_def written_def same_policy_def m)
qed

text \<open>Publishing succeeds for a policy that is stored.\<close>

lemma policy_publish_done:
  assumes api: "api_contract U C cl" and live: "healthy_api U C cl"
    and stored: "c_policies (cl w) (meta_key (pol_meta p)) \<noteq> None"
    and alive: "\<And>old. c_reports (cl w) (kd_key report_desc generated) = Some old \<Longrightarrow> om_deletionTimestamp (rep_meta old) = None"
  obtains w' where "policy_publish C p generated w = (Ret Complete, w')"
proof -
  let ?k = "kd_key report_desc generated"
  note reports = api_contractD(4) [OF api] and policies = api_contractD(3) [OF api]
  let ?base = "case c_reports (cl w) ?k of None \<Rightarrow> generated | Some old \<Rightarrow> old"
  have "kd_key report_desc ?base = ?k" using kd_keyed [OF reports, of w ?k] by (auto split: option.splits)
  then obtain y where "policy_report_mutate p ?base = Inr y" "kd_key report_desc y = ?k"
    by (auto simp: policy_report_mutate_def kd_key_def)
  with healthy_kindD(9) [OF healthy_apiD(3) [OF live]] obtain r w1 where
    put: "k_create_or_update (cl_reports C) generated (policy_report_mutate p) w = (Inr r, w1)" by blast
  from reports put have r: "c_reports (cl w1) ?k = Some r"
    by (rule create_or_update_Ret) (auto simp: alive)
  then have key: "kd_key report_desc (reset_report r) = ?k" using kd_keyed [OF reports] by simp
  have w1: "c_policies (cl w1) = c_policies (cl w)"
    using keeps_callAD [OF kind_frame_keeps(8) [OF api_frames(12) [OF api]] put] .
  let ?rescan = "pr_Generation (rs_PolicyRef (rep_Spec generated)) \<noteq> om_generation (pol_meta p)"
  obtain r2 w2 where reset:
    "(if ?rescan then callA (k_status_update (cl_reports C) (reset_report r)) else retA r) w1 = (Ret r2, w2)"
    "c_policies (cl w2) = c_policies (cl w)"
  proof (cases ?rescan)
    case True
    from r key healthy_kindD(5) [OF healthy_apiD(3) [OF live], where w = w1 and x = "reset_report r"] obtain r2 w2 where
      st: "k_status_update (cl_reports C) (reset_report r) w1 = (Inr r2, w2)" by auto
    with True keeps_callAD [OF kind_frame_keeps(5) [OF api_frames(12) [OF api]] st] w1 show thesis
      by (intro that [of r2 w2]) (simp_all add: callA_act)
  next
    case False
    with w1 show thesis by (intro that [of r w1]) simp_all
  qed
  from stored reset(2) healthy_kindD(5) [OF healthy_apiD(2) [OF live], where w = w2 and
      x = "policy_observed p (om_name (rep_meta r2))"] obtain q w' where
    "k_status_update (cl_policies C) (policy_observed p (om_name (rep_meta r2))) w2 = (Inr q, w')" by auto
  with put reset(1) show thesis
    by (intro that [of w']) (auto simp: policy_publish_def Let_def tryA_act callA_act)
qed

context live_engine
begin

lemma apply_done:
  assumes api: "api_contract U C cl" "runtime_contract R" and live: "healthy_api U C cl" "healthy_util U"
    and stored: "c_policies (cl w) (meta_key (pol_meta p)) = Some p"
    and valid: "eng_Validate (mk C R U) p = None" "placeable U p (cl w)" "applicable p (cl w)"
    and alive: "\<And>old. c_reports (cl w) (om_namespace (pol_meta p), report_name p) = Some old \<Longrightarrow>
      om_deletionTimestamp (rep_meta old) = None"
  obtains w' where "policy_apply C (mk C R U) p w = (Ret Complete, w')" "applied U p (cl w')"
    "report_published p (report_name p) (cl w')"
proof -
  obtain w1 where rec: "eng_Reconcile (mk C R U) p w = (Ret (), w1)"
    by (rule reconcile_applies [OF api(1) live api(2) valid])
  obtain g w2 where gen: "eng_GenerateReport (mk C R U) p w1 = (Ret g, w2)"
    using generate_returns [OF api(1) live] by (rule returnsE)
  note same = reconcile_frame [OF api(1) rec] generate_frame [OF api(1) gen]
  from same stored alive generate_report [OF api(1) gen] obtain w' where
    "policy_publish C p g w2 = (Ret Complete, w')"
    by - (rule policy_publish_done [OF api(1) live(1), of w2 p g]; simp)
  with rec gen valid(1) have run: "policy_apply C (mk C R U) p w = (Ret Complete, w')"
    by (auto simp: policy_apply_def tryA_act)
  with apply_Complete(2,3) [OF api run valid(3) alive] show thesis by (intro that [of w'])
qed

lemma cleanup_done:
  assumes "api_contract U C cl" "runtime_contract R" "healthy_api U C cl" "eng_Validate (mk C R U) p = None"
  obtains w' where "tryA (eng_Cleanup (mk C R U) p) (\<lambda>err. retA (RequeueAfter (5 * second))) (\<lambda>_. retA Complete) w =
    (Ret Complete, w')" "cleaned p (cl w')"
proof -
  obtain w' where "eng_Cleanup (mk C R U) p w = (Ret (), w')" "cleaned p (cl w')"
    by (rule cleanup_releases [OF assms(1,3,2) validate_ready [OF assms(4)]])
  then show thesis by (intro that [of w']) (auto simp: tryA_act)
qed

lemma deletion_done:
  assumes api: "api_contract U C cl" "runtime_contract R" and live: "healthy_api U C cl"
    and stored: "c_policies (cl w) (meta_key (pol_meta p)) = Some p"
    and valid: "eng_Validate (mk C R U) p = None" and held: "PolicyFinalizer \<in> set (om_finalizers (pol_meta p))"
  obtains w' where "policy_handle_deletion C U (mk C R U) p w = (Ret Complete, w')" "cleaned p (cl w')"
    "\<not> holds_finalizer (cl w') (meta_key (pol_meta p))"
proof -
  note util = util_contractD [OF api_contractD(1) [OF api(1)]]
  obtain w1 where clean: "eng_Cleanup (mk C R U) p w = (Ret (), w1)"
    by (rule cleanup_releases [OF api(1) live api(2) validate_ready [OF valid]])
  obtain fs where fs: "removeFinalizer U (pol_meta p) PolicyFinalizer = (pol_meta p)\<lparr>om_finalizers := fs\<rparr>"
    using util(4) by blast
  let ?p = "p\<lparr>pol_meta := (pol_meta p)\<lparr>om_finalizers := fs\<rparr>\<rparr>"
  have "kd_key policy_desc ?p = meta_key (pol_meta p)" by (simp add: kd_key_def meta_key_def)
  with stored cleanup_frame(2) [OF api(1) clean] healthy_kindD(4) [OF healthy_apiD(2) [OF live], where w = w1 and x = ?p]
  obtain q w' where "k_update (cl_policies C) ?p w1 = (Inr q, w')" by auto
  with clean held have run: "policy_handle_deletion C U (mk C R U) p w = (Ret Complete, w')"
    by (auto simp: policy_handle_deletion_def util(2) fs tryA_act callA_act)
  from deletion_run(2) [OF api stored run refl held] released_cleaned [OF live]
  have "cleaned p (cl w')" "\<not> holds_finalizer (cl w') (meta_key (pol_meta p))" by blast+
  with run show thesis by (rule that)
qed

end

text \<open>The three engines, by the type of the policy.\<close>

definition policy_placeable :: "util \<Rightarrow> Policy \<Rightarrow> cluster \<Rightarrow> bool" where
  "policy_placeable U p c \<longleftrightarrow> (ps_Type (pol_Spec p) = PolicyTypeFalco \<longrightarrow> falco_placeable U p c)"

lemma engine_apply_done:
  assumes "api_contract U C cl" "runtime_contract R" "healthy_api U C cl" "healthy_util U"
    and "c_policies (cl w) (meta_key (pol_meta p)) = Some p"
    and "NewPolicyEngine C R U p = Inr engine" "eng_Validate engine p = None"
    and "policy_placeable U p (cl w)" "policy_applicable p (cl w)"
    and "\<And>old. c_reports (cl w) (om_namespace (pol_meta p), policy_report_name p) = Some old \<Longrightarrow>
      om_deletionTimestamp (rep_meta old) = None"
  obtains w' where "policy_apply C engine p w = (Ret Complete, w')" "policy_applied U p (cl w')"
    "report_published p (policy_report_name p) (cl w')"
  using assms(6)
proof (cases rule: NewPolicyEngine_cases)
  case falco
  show thesis
    by (rule falco_live.apply_done [OF assms(1-5)])
      (use that assms(7-10) falco in \<open>auto simp: policy_placeable_def policy_applicable_def policy_applied_type policy_report_name_def\<close>)
next
  case trivy
  show thesis
    by (rule trivy_live.apply_done [OF assms(1-5)])
      (use that assms(7-10) trivy in \<open>auto simp: policy_placeable_def policy_applicable_def policy_applied_type policy_report_name_def\<close>)
next
  case litmus
  show thesis
    by (rule litmus_live.apply_done [OF assms(1-5)])
      (use that assms(7-10) litmus in \<open>auto simp: policy_placeable_def policy_applicable_def policy_applied_type policy_report_name_def\<close>)
qed

lemma engine_cleanup_done:
  assumes "api_contract U C cl" "runtime_contract R" "healthy_api U C cl"
    and "NewPolicyEngine C R U p = Inr engine" "eng_Validate engine p = None"
  obtains w' where "tryA (eng_Cleanup engine p) (\<lambda>err. retA (RequeueAfter (5 * second))) (\<lambda>_. retA Complete) w =
    (Ret Complete, w')" "policy_cleaned p (cl w')"
  using assms(4)
proof (cases rule: NewPolicyEngine_cases)
  case falco
  show thesis
    by (rule falco_live.cleanup_done [OF assms(1-3), of p w]) (use that assms(5) falco in \<open>auto simp: policy_cleaned_type\<close>)
next
  case trivy
  show thesis
    by (rule trivy_live.cleanup_done [OF assms(1-3), of p w]) (use that assms(5) trivy in \<open>auto simp: policy_cleaned_type\<close>)
next
  case litmus
  show thesis
    by (rule litmus_live.cleanup_done [OF assms(1-3), of p w]) (use that assms(5) litmus in \<open>auto simp: policy_cleaned_type\<close>)
qed

lemma engine_deletion_done:
  assumes "api_contract U C cl" "runtime_contract R" "healthy_api U C cl"
    and "c_policies (cl w) (meta_key (pol_meta p)) = Some p"
    and "NewPolicyEngine C R U p = Inr engine" "eng_Validate engine p = None"
    and "PolicyFinalizer \<in> set (om_finalizers (pol_meta p))"
  obtains w' where "policy_handle_deletion C U engine p w = (Ret Complete, w')" "policy_cleaned p (cl w')"
    "\<not> holds_finalizer (cl w') (meta_key (pol_meta p))"
  using assms(5)
proof (cases rule: NewPolicyEngine_cases)
  case falco
  show thesis
    by (rule falco_live.deletion_done [OF assms(1-4)]) (use that assms(6,7) falco in \<open>auto simp: policy_cleaned_type\<close>)
next
  case trivy
  show thesis
    by (rule trivy_live.deletion_done [OF assms(1-4)]) (use that assms(6,7) trivy in \<open>auto simp: policy_cleaned_type\<close>)
next
  case litmus
  show thesis
    by (rule litmus_live.deletion_done [OF assms(1-4)]) (use that assms(6,7) litmus in \<open>auto simp: policy_cleaned_type\<close>)
qed

text \<open>What the operator makes of a policy does not change when its finalizers and owners do.\<close>

lemma same_policy_effects:
  assumes "same_policy p q"
  shows "NewPolicyEngine C R U q = NewPolicyEngine C R U p"
    "NewPolicyEngine C R U p = Inr engine \<Longrightarrow> eng_Validate engine q = eng_Validate engine p"
    "policy_placeable U q c = policy_placeable U p c" "policy_applicable q c = policy_applicable p c"
    "policy_applied U q c = policy_applied U p c" "policy_cleaned q c = policy_cleaned p c"
    "policy_report_name q = policy_report_name p" "report_published q n c = report_published p n c"
proof -
  note falco = falco_live.same_policy_engine [OF assms] and trivy = trivy_live.same_policy_engine [OF assms]
    and litmus = litmus_live.same_policy_engine [OF assms]
  from assms show "NewPolicyEngine C R U q = NewPolicyEngine C R U p" by (simp add: NewPolicyEngine_def same_policy_def)
  show "eng_Validate engine q = eng_Validate engine p" if "NewPolicyEngine C R U p = Inr engine"
    using that by (cases rule: NewPolicyEngine_cases) (use falco trivy litmus in blast)+
  have spec: "pol_Spec q = pol_Spec p" using assms by (simp add: same_policy_def)
  show "policy_placeable U q c = policy_placeable U p c"
    unfolding policy_placeable_def spec using falco [where c = c and U = U] by blast
  show "policy_applicable q c = policy_applicable p c"
    unfolding policy_applicable_def spec using falco [where c = c] litmus [where c = c] by blast
  show "policy_applied U q c = policy_applied U p c"
    unfolding policy_applied_def spec
    using falco [where c = c and U = U] trivy [where c = c and U = U] litmus [where c = c and U = U] by blast
  show "policy_cleaned q c = policy_cleaned p c"
    unfolding policy_cleaned_def spec using falco [where c = c] trivy [where c = c] litmus [where c = c] by blast
  show "policy_report_name q = policy_report_name p"
    using assms by (simp add: policy_report_name_def falco_report_name_def trivy_report_name_def
        litmus_report_name_def same_policy_def)
  from assms show "report_published q n c = report_published p n c"
    by (simp add: report_published_def same_policy_def meta_key_def)
qed

text \<open>A run of the controller reads the policy and its Tool and hands them to the engine.\<close>

lemma policy_run_engine:
  assumes api: "api_contract U C cl" and live: "healthy_api U C cl"
    and stored: "c_policies (cl w) key = Some p"
    and tool: "c_tools (cl w) (om_namespace (pol_meta p), ps_Type (pol_Spec p)) = Some tool"
    and engine: "NewPolicyEngine C R U p = Inr engine"
  obtains w2 where "policy_Reconcile C R U key w = policy_with_engine C U engine tool p w2" "cl w2 = cl w"
proof -
  obtain w1 where p: "k_get (cl_policies C) key w = (Inr p, w1)"
    by (rule get_stored [OF healthy_apiD(2) [OF live] api_contractD(3) [OF api] stored])
  have w1: "cl w1 = cl w" using keeps_callAD [OF api_reads_cluster(2) [OF api] p] .
  with tool have "c_tools (cl w1) (om_namespace (pol_meta p), ps_Type (pol_Spec p)) = Some tool" by simp
  then obtain w2 where t: "k_get (cl_tools C) (om_namespace (pol_meta p), ps_Type (pol_Spec p)) w1 = (Inr tool, w2)"
    by (rule get_stored [OF healthy_apiD(1) [OF live] api_contractD(2) [OF api]])
  have "cl w2 = cl w" using keeps_callAD [OF api_reads_cluster(1) [OF api] t] w1 by simp
  moreover have "policy_Reconcile C R U key w = policy_with_engine C U engine tool p w2"
    using p t engine by (simp add: policy_Reconcile_def tryA_def callA_def)
  ultimately show thesis by (intro that)
qed

text \<open>
  The runs that prepare a policy: one adds the finalizer, one the Tool as an owner. \<open>policy_todo\<close> counts
  those that are still to come, \<open>policy_runs\<close> runs the controller a number of times.
\<close>

definition lacks_owner :: "util \<Rightarrow> Tool \<Rightarrow> Policy \<Rightarrow> bool" where
  "lacks_owner U tool p \<longleftrightarrow> hasOwnerReference U (om_ownerReferences (pol_meta p)) (''Tool'', tool_meta tool) = Inr False"

definition policy_todo :: "util \<Rightarrow> Tool \<Rightarrow> Policy \<Rightarrow> nat" where
  "policy_todo U tool p = (if PolicyFinalizer \<in> set (om_finalizers (pol_meta p)) then 0 else 1) +
     (if lacks_owner U tool p then 1 else 0)"

primrec policy_runs ::
  "'w client \<Rightarrow> 'w runtime \<Rightarrow> util \<Rightarrow> obj_key \<Rightarrow> nat \<Rightarrow> ('w, ctrl_outcome list) act" where
  "policy_runs C R U key 0 = retA []"
| "policy_runs C R U key (Suc n) = bindA (policy_Reconcile C R U key) (\<lambda>o1.
     bindA (policy_runs C R U key n) (\<lambda>os. retA (o1 # os)))"

lemma policy_runs_Suc:
  assumes "policy_Reconcile C R U key w = (Ret o1, w1)" "policy_runs C R U key n w1 = (Ret os, w')"
  shows "policy_runs C R U key (Suc n) w = (Ret (o1 # os), w')"
  using assms by (simp add: bindA_Ret)

lemma policy_runs_snoc:
  assumes "policy_runs C R U key n w = (Ret os, w1)" "policy_Reconcile C R U key w1 = (Ret o1, w')"
  shows "policy_runs C R U key (Suc n) w = (Ret (os @ [o1]), w')"
  using assms
proof (induction n arbitrary: w os)
  case (Suc n)
  then obtain o2 w2 os' where first: "policy_Reconcile C R U key w = (Ret o2, w2)"
    and rest: "policy_runs C R U key n w2 = (Ret os', w1)" and os: "os = o2 # os'" by (auto simp: bindA_Ret)
  from policy_runs_Suc [OF first Suc.IH [OF rest Suc.prems(2)]] show ?case by (simp only: os append_Cons)
qed (simp add: bindA_Ret)

text \<open>A run of a policy that is not prepared does one step of the preparation.\<close>

lemma policy_preparation_step:
  assumes api: "api_contract U C cl" and live: "healthy_api U C cl" "healthy_util U"
    and stored: "c_policies (cl w) key = Some p" "om_deletionTimestamp (pol_meta p) = None"
    and tool: "c_tools (cl w) (om_namespace (pol_meta p), ps_Type (pol_Spec p)) = Some tool"
    and engine: "NewPolicyEngine C R U p = Inr engine" and todo: "policy_todo U tool p = Suc n"
  obtains q w' where "policy_Reconcile C R U key w = (Ret Complete, w')" "c_policies (cl w') key = Some q"
    "same_policy p q" "om_deletionTimestamp (pol_meta q) = None" "policy_todo U tool q = n"
    "all_but_policies (cl w') = all_but_policies (cl w)"
proof -
  note util = util_contractD [OF api_contractD(1) [OF api]]
  have key: "key = meta_key (pol_meta p)" using kd_keyed [OF api_contractD(3) [OF api] stored(1)] by (simp add: kd_key_def)
  obtain w2 where run: "policy_Reconcile C R U key w = policy_with_engine C U engine tool p w2" and w2: "cl w2 = cl w"
    by (rule policy_run_engine [OF api live(1) stored(1) tool engine])
  have stored2: "c_policies (cl w2) (meta_key (pol_meta p)) = Some p" using stored(1) key w2 by simp
  note writes = policy_written [OF api live(1) stored2 stored(2)]
  show thesis
  proof (cases "PolicyFinalizer \<in> set (om_finalizers (pol_meta p))")
    case False
    obtain fs where fs: "addFinalizer U (pol_meta p) PolicyFinalizer = (pol_meta p)\<lparr>om_finalizers := fs\<rparr>"
      "set fs = insert PolicyFinalizer (set (om_finalizers (pol_meta p)))" using util(3) by blast
    have m: "addFinalizer U (pol_meta p) PolicyFinalizer =
      (pol_meta p)\<lparr>om_finalizers := fs, om_ownerReferences := om_ownerReferences (pol_meta p)\<rparr>" by (simp add: fs(1))
    obtain q w' where q: "k_update (cl_policies C) (p\<lparr>pol_meta := addFinalizer U (pol_meta p) PolicyFinalizer\<rparr>) w2 = (Inr q, w')"
      "same_policy p q" "c_policies (cl w') (meta_key (pol_meta p)) = Some q" "om_deletionTimestamp (pol_meta q) = None"
      "om_finalizers (pol_meta q) = fs" "om_ownerReferences (pol_meta q) = om_ownerReferences (pol_meta p)"
      "all_but_policies (cl w') = all_but_policies (cl w2)"
      by (rule writes [OF m])
    have "policy_with_engine C U engine tool p w2 = (Ret Complete, w')"
      using q(1) stored(2) False by (auto simp: policy_with_engine_def util(2) tryA_act callA_act)
    moreover have "policy_todo U tool q = n" using todo False q(5,6) fs(2) by (simp add: policy_todo_def lacks_owner_def)
    ultimately show thesis using run q w2 key by (intro that [of w' q]) simp_all
  next
    case True
    with todo have owner: "hasOwnerReference U (om_ownerReferences (pol_meta p)) (''Tool'', tool_meta tool) = Inr False"
      "n = 0" by (auto simp: policy_todo_def lacks_owner_def split: if_splits)
    have "om_namespace (tool_meta tool) = om_namespace (pol_meta p)"
      using kd_keyed [OF api_contractD(2) [OF api] tool] by (simp add: kd_key_def meta_key_def)
    with healthy_utilD(2) [OF live(2)] obtain m where m: "setOwnerReference U (''Tool'', tool_meta tool) (pol_meta p) = Inr m"
      by blast
    from util(5) [OF m] obtain rs where rs: "m = (pol_meta p)\<lparr>om_ownerReferences := rs\<rparr>"
      "hasOwnerReference U rs (''Tool'', tool_meta tool) = Inr True" by blast
    have m': "m = (pol_meta p)\<lparr>om_finalizers := om_finalizers (pol_meta p), om_ownerReferences := rs\<rparr>" by (simp add: rs(1))
    obtain q w' where q: "k_update (cl_policies C) (p\<lparr>pol_meta := m\<rparr>) w2 = (Inr q, w')"
      "same_policy p q" "c_policies (cl w') (meta_key (pol_meta p)) = Some q" "om_deletionTimestamp (pol_meta q) = None"
      "om_finalizers (pol_meta q) = om_finalizers (pol_meta p)" "om_ownerReferences (pol_meta q) = rs"
      "all_but_policies (cl w') = all_but_policies (cl w2)"
      by (rule writes [OF m'])
    have "policy_with_engine C U engine tool p w2 = (Ret Complete, w')"
      using q(1) stored(2) True owner(1) m by (auto simp: policy_with_engine_def util(2) tryA_act callA_act)
    moreover have "policy_todo U tool q = n" using True q(5,6) rs(2) owner(2) by (simp add: policy_todo_def lacks_owner_def)
    ultimately show thesis using run q w2 key by (intro that [of w' q]) simp_all
  qed
qed

text \<open>So after \<open>policy_todo\<close> runs it is prepared, and nothing but the policy has changed.\<close>

lemma policy_prepares:
  assumes api: "api_contract U C cl" and live: "healthy_api U C cl" "healthy_util U"
    and "c_policies (cl w) key = Some p" "om_deletionTimestamp (pol_meta p) = None"
    and "c_tools (cl w) (om_namespace (pol_meta p), ps_Type (pol_Spec p)) = Some tool"
    and "NewPolicyEngine C R U p = Inr engine"
  shows "policy_todo U tool p = n \<Longrightarrow> \<exists>q w'. policy_runs C R U key n w = (Ret (replicate n Complete), w') \<and>
    c_policies (cl w') key = Some q \<and> same_policy p q \<and> om_deletionTimestamp (pol_meta q) = None \<and>
    policy_todo U tool q = 0 \<and> all_but_policies (cl w') = all_but_policies (cl w)"
  using assms(4-)
proof (induction n arbitrary: p w)
  case 0
  then show ?case by (intro exI [of _ p] exI [of _ w]) (simp add: same_policy_def)
next
  case (Suc n)
  obtain q w1 where step: "policy_Reconcile C R U key w = (Ret Complete, w1)" "c_policies (cl w1) key = Some q"
    "same_policy p q" "om_deletionTimestamp (pol_meta q) = None" "policy_todo U tool q = n"
    "all_but_policies (cl w1) = all_but_policies (cl w)"
    by (rule policy_preparation_step [OF api live Suc.prems(2-5,1)])
  have tool: "c_tools (cl w1) (om_namespace (pol_meta q), ps_Type (pol_Spec q)) = Some tool"
    using Suc.prems(4) step(3,6) by (simp add: all_but_policies_def same_policy_def)
  have engine: "NewPolicyEngine C R U q = Inr engine"
    using Suc.prems(5) by (simp only: same_policy_effects(1) [OF step(3)])
  from Suc.IH [OF step(5,2,4) tool engine] obtain q' w' where
    "policy_runs C R U key n w1 = (Ret (replicate n Complete), w')" "c_policies (cl w') key = Some q'"
    "same_policy q q'" "om_deletionTimestamp (pol_meta q') = None" "policy_todo U tool q' = 0"
    "all_but_policies (cl w') = all_but_policies (cl w1)" by blast
  with policy_runs_Suc [OF step(1)] step(6) same_policy_trans [OF step(3)] show ?case by auto
qed

lemma policy_room_frame:
  assumes "all_but_policies c = all_but_policies c'"
  shows "policy_placeable U p c = policy_placeable U p c'" "policy_applicable p c = policy_applicable p c'"
proof -
  have "same_workloads c c'" using assms by (simp add: all_but_policies_def same_workloads_def)
  then show "policy_placeable U p c = policy_placeable U p c'" "policy_applicable p c = policy_applicable p c'"
    unfolding policy_placeable_def policy_applicable_def
    using falco_live.placeable_frame falco_live.applicable_frame litmus_live.applicable_frame by blast+
qed

text \<open>The run of a prepared policy.\<close>

lemma prepared_run_done:
  assumes api: "api_contract U C cl" "runtime_contract R" and live: "healthy_api U C cl" "healthy_util U"
    and stored: "c_policies (cl w) key = Some p" "om_deletionTimestamp (pol_meta p) = None"
    and tool: "c_tools (cl w) (om_namespace (pol_meta p), ps_Type (pol_Spec p)) = Some tool"
    and engine: "NewPolicyEngine C R U p = Inr engine" "eng_Validate engine p = None"
    and room: "policy_placeable U p (cl w)" "policy_applicable p (cl w)"
    and alive: "\<And>old. c_reports (cl w) (om_namespace (pol_meta p), policy_report_name p) = Some old \<Longrightarrow>
      om_deletionTimestamp (rep_meta old) = None"
    and todo: "policy_todo U tool p = 0"
  obtains w' where "policy_Reconcile C R U key w = (Ret Complete, w')"
    "if ps_Enabled (pol_Spec p)
     then policy_applied U p (cl w') \<and> report_published p (policy_report_name p) (cl w')
     else policy_cleaned p (cl w')"
proof -
  have key: "key = meta_key (pol_meta p)" using kd_keyed [OF api_contractD(3) [OF api(1)] stored(1)] by (simp add: kd_key_def)
  obtain w2 where run: "policy_Reconcile C R U key w = policy_with_engine C U engine tool p w2" and w2: "cl w2 = cl w"
    by (rule policy_run_engine [OF api(1) live(1) stored(1) tool engine(1)])
  have "policy_prepared U (cl w) p"
    using todo stored(2) tool healthy_utilD(1) [OF live(2), of "om_ownerReferences (pol_meta p)" "(''Tool'', tool_meta tool)"]
    by (auto simp: policy_prepared_def policy_todo_def lacks_owner_def split: if_splits)
  note prepared = prepared_with_engine [OF api_contractD(1) [OF api(1)] this tool, of C engine]
  show thesis
  proof (cases "ps_Enabled (pol_Spec p)")
    case True
    have "policy_placeable U p (cl w2)" "policy_applicable p (cl w2)" "c_policies (cl w2) (meta_key (pol_meta p)) = Some p"
      "\<And>old. c_reports (cl w2) (om_namespace (pol_meta p), policy_report_name p) = Some old \<Longrightarrow>
        om_deletionTimestamp (rep_meta old) = None"
      using room stored(1) key alive by (simp_all add: w2)
    from engine_apply_done [OF api live this(3) engine this(1,2,4)] obtain w' where
      "policy_apply C engine p w2 = (Ret Complete, w')" "policy_applied U p (cl w')"
      "report_published p (policy_report_name p) (cl w')" by blast
    with True prepared run show thesis by (intro that [of w']) simp_all
  next
    case False
    obtain w' where "tryA (eng_Cleanup engine p) (\<lambda>err. retA (RequeueAfter (5 * second))) (\<lambda>_. retA Complete) w2 =
      (Ret Complete, w')" "policy_cleaned p (cl w')"
      by (rule engine_cleanup_done [OF api live(1) engine])
    with False prepared run show thesis by (intro that [of w']) simp_all
  qed
qed

text \<open>
  C6: When the cluster answers, the controller brings a policy that its engine accepts and whose Tool is
  there to its end, in a number of runs that is known beforehand and at most three. A policy that is
  being deleted is cleaned up and loses its finalizer in one run. Any other is prepared first, one run for
  a missing finalizer, one for a missing owner; with the run after that an enabled policy has its workloads and
  its report, and a disabled one is cleaned up. Cleaned up means that no config map, job of a scan or
  chaos engine of the policy is left but such as wait for their own finalizers, and no report of a Falco or a
  Litmus policy; the reports of a Trivy policy stay. All these runs end without an error.
\<close>

theorem policy_converges:
  assumes "api_contract U C cl" "runtime_contract R" "healthy_api U C cl" "healthy_util U"
    and "c_policies (cl w) key = Some p"
    and "c_tools (cl w) (om_namespace (pol_meta p), ps_Type (pol_Spec p)) = Some tool"
    and "NewPolicyEngine C R U p = Inr engine" "eng_Validate engine p = None"
    and "policy_placeable U p (cl w)" "policy_applicable p (cl w)"
    and "\<And>old. c_reports (cl w) (om_namespace (pol_meta p), policy_report_name p) = Some old \<Longrightarrow>
      om_deletionTimestamp (rep_meta old) = None"
  shows "let n = Suc (policy_todo U tool p) in n \<le> 3 \<and>
    (if om_deletionTimestamp (pol_meta p) \<noteq> None
     then holds_finalizer (cl w) key \<longrightarrow> (\<exists>w'. policy_Reconcile C R U key w = (Ret Complete, w') \<and>
       policy_cleaned p (cl w') \<and> \<not> holds_finalizer (cl w') key)
     else (\<exists>w'. policy_runs C R U key n w = (Ret (replicate n Complete), w') \<and>
       (if ps_Enabled (pol_Spec p)
        then policy_applied U p (cl w') \<and> report_published p (policy_report_name p) (cl w')
        else policy_cleaned p (cl w'))))"
proof (cases "om_deletionTimestamp (pol_meta p) = None")
  case True
  let ?n = "policy_todo U tool p"
  from policy_prepares [OF assms(1,3,4,5) True assms(6,7) refl] obtain q w1 where
    runs: "policy_runs C R U key ?n w = (Ret (replicate ?n Complete), w1)" and
    q: "c_policies (cl w1) key = Some q" "same_policy p q" "om_deletionTimestamp (pol_meta q) = None"
      "policy_todo U tool q = 0" and same: "all_but_policies (cl w1) = all_but_policies (cl w)" by blast
  have tool: "c_tools (cl w1) (om_namespace (pol_meta q), ps_Type (pol_Spec q)) = Some tool"
    using assms(6) same q(2) by (simp add: all_but_policies_def same_policy_def)
  have engine: "NewPolicyEngine C R U q = Inr engine" "eng_Validate engine q = None"
    using assms(7,8) by (simp_all only: same_policy_effects(1,2) [OF q(2)])
  have room: "policy_placeable U q (cl w1)" "policy_applicable q (cl w1)"
    using assms(9,10) by (simp_all only: policy_room_frame [OF same] same_policy_effects(3,4) [OF q(2)])
  have alive: "om_deletionTimestamp (rep_meta old) = None"
    if "c_reports (cl w1) (om_namespace (pol_meta q), policy_report_name q) = Some old" for old
    using that assms(11) same q(2) same_policy_effects(7) [OF q(2)]
    by (simp add: all_but_policies_def same_policy_def)
  obtain w' where last: "policy_Reconcile C R U key w1 = (Ret Complete, w')"
    "if ps_Enabled (pol_Spec q)
     then policy_applied U q (cl w') \<and> report_published q (policy_report_name q) (cl w')
     else policy_cleaned q (cl w')"
    by (rule prepared_run_done [OF assms(1-4) q(1,3) tool engine room alive q(4)])
  have spec: "pol_Spec q = pol_Spec p" using q(2) by (simp add: same_policy_def)
  have reached: "if ps_Enabled (pol_Spec p)
     then policy_applied U p (cl w') \<and> report_published p (policy_report_name p) (cl w')
     else policy_cleaned p (cl w')"
    using last(2) by (simp only: same_policy_effects [OF q(2)] spec)
  have "policy_runs C R U key (Suc ?n) w = (Ret (replicate (Suc ?n) Complete), w')"
    using policy_runs_snoc [OF runs last(1)] by (simp add: replicate_append_same del: policy_runs.simps)
  with reached have "\<exists>w'. policy_runs C R U key (Suc ?n) w = (Ret (replicate (Suc ?n) Complete), w') \<and>
       (if ps_Enabled (pol_Spec p)
        then policy_applied U p (cl w') \<and> report_published p (policy_report_name p) (cl w')
        else policy_cleaned p (cl w'))" by blast
  moreover have "Suc ?n \<le> 3" by (simp add: policy_todo_def)
  ultimately show ?thesis using True by (simp only: Let_def simp_thms if_False)
next
  case False
  have key: "key = meta_key (pol_meta p)"
    using kd_keyed [OF api_contractD(3) [OF assms(1)] assms(5)] by (simp add: kd_key_def)
  obtain w2 where run: "policy_Reconcile C R U key w = policy_with_engine C U engine tool p w2" and w2: "cl w2 = cl w"
    by (rule policy_run_engine [OF assms(1,3,5-7)])
  have "\<exists>w'. policy_Reconcile C R U key w = (Ret Complete, w') \<and> policy_cleaned p (cl w') \<and> \<not> holds_finalizer (cl w') key"
    if "holds_finalizer (cl w) key"
  proof -
    from that assms(5) have held: "PolicyFinalizer \<in> set (om_finalizers (pol_meta p))" by (simp add: holds_finalizer_def)
    from assms(5) key w2 have "c_policies (cl w2) (meta_key (pol_meta p)) = Some p" by simp
    from engine_deletion_done [OF assms(1-3) this assms(7,8) held] obtain w' where
      "policy_handle_deletion C U engine p w2 = (Ret Complete, w')" "policy_cleaned p (cl w')"
      "\<not> holds_finalizer (cl w') (meta_key (pol_meta p))" by blast
    with run key False show ?thesis by (auto simp: policy_with_engine_def)
  qed
  with False show ?thesis by (simp add: Let_def policy_todo_def)
qed

lemma policy_converges_witness:
  "\<exists>w'. policy_runs mem_client mem_runtime mem_util (''team'', ''p1'') 3
      (sample_world PolicyTypeFalco (new_policy PolicyTypeFalco)) = (Ret [Complete, Complete, Complete], w') \<and>
    falco_applied mem_util (new_policy PolicyTypeFalco) (mem_cluster w') \<and>
    report_published (new_policy PolicyTypeFalco) ''falco-report-p1'' (mem_cluster w')"
proof -
  let ?p = "new_policy PolicyTypeFalco" and ?w = "sample_world PolicyTypeFalco (new_policy PolicyTypeFalco)"
  have spec: "pol_Spec ?p = sample_spec PolicyTypeFalco" "om_deletionTimestamp (pol_meta ?p) = None"
    by (simp_all add: new_policy_def)
  have type: "ps_Type (sample_spec PolicyTypeFalco) = PolicyTypeFalco" "ps_Enabled (sample_spec PolicyTypeFalco)"
    by (simp_all add: sample_spec_def)
  have tool: "c_tools (mem_cluster ?w) (om_namespace (pol_meta ?p), ps_Type (pol_Spec ?p)) =
      Some (sample_tool PolicyTypeFalco)"
    by (simp add: sample_world_def mem_lookup_def new_policy_def sample_spec_def sample_tool_def meta_key_def)
  have engine: "NewPolicyEngine mem_client mem_runtime mem_util ?p = Inr (falco_engine mem_client mem_runtime mem_util)"
    "eng_Validate (falco_engine mem_client mem_runtime mem_util) ?p = None"
    by (simp_all add: NewPolicyEngine_def falco_engine_def falco_Validate_def spec sample_spec_def sample_falco_def)
  have room: "policy_placeable mem_util ?p (mem_cluster ?w)" "policy_applicable ?p (mem_cluster ?w)"
    by (simp_all add: policy_placeable_def policy_applicable_def falco_placeable_def falco_applicable_def spec type
        sample_world_def empty_mem_def mem_lookup_def mem_util_def)
  have none: "c_reports (mem_cluster ?w) k = None" for k
    by (simp add: sample_world_def empty_mem_def mem_lookup_def)
  have todo: "policy_todo mem_util (sample_tool PolicyTypeFalco) ?p = 2" by code_simp
  have name: "policy_report_name ?p = ''falco-report-p1''" by code_simp
  note run = policy_converges [OF mem_api_contract mem_runtime_contract mem_healthy_api mem_healthy_util]
  from run [OF sample_stored [OF sample_keys(2)] tool engine room] none
  have "\<exists>w'. policy_runs mem_client mem_runtime mem_util (''team'', ''p1'') (Suc 2) ?w = (Ret (replicate (Suc 2) Complete), w') \<and>
       policy_applied mem_util ?p (mem_cluster w') \<and> report_published ?p (policy_report_name ?p) (mem_cluster w')"
    by (simp only: Let_def todo spec type simp_thms if_True if_False option.distinct)
  moreover have "Suc 2 = 3" "replicate 3 Complete = [Complete, Complete, Complete]" by (simp_all add: eval_nat_numeral)
  ultimately show ?thesis by (simp only: name policy_applied_type spec type)
qed

subsection \<open>A config map that cannot be read\<close>

lemma falco_Cleanup_unread:
  assumes api: "api_contract U C cl" and live: "healthy_kind (isNotFound U) report_desc (cl_reports C) (\<lambda>w. c_reports (cl w))"
    and unread: "falco_map_unread C U p w"
  obtains w' where "falco_Cleanup C U p w = (Ret (), w')" "c_configmaps (cl w') = c_configmaps (cl w)"
    "c_policies (cl w') = c_policies (cl w)"
proof -
  from unread obtain e w1 where get: "k_get (cl_configmaps C) (om_namespace (pol_meta p), falcoPolicyConfigMapName p) w = (Inl e, w1)"
    by (auto simp: falco_map_unread_def falco_cm_key_def)
  have "returns (falco_cleanup_reports C U p)"
    unfolding falco_cleanup_reports_def
    by (intro return_intros healthy_kindD(2) [OF live] returns_falco_delete_reports [OF live])
  then obtain u :: unit and w' where rest: "falco_cleanup_reports C U p w1 = (Ret u, w')" by (rule returnsE)
  have keep: "keeps (\<lambda>w. c_configmaps (cl w)) (falco_cleanup_reports C U p)"
    unfolding falco_cleanup_reports_def
    by (intro keeps_intros kind_frame_keeps keeps_falco_delete_reports api_frames [OF api])
  have run: "falco_Cleanup C U p w = (Ret (), w')" using get rest by (simp add: falco_Cleanup_def tryA_act callA_act)
  moreover have "c_configmaps (cl w') = c_configmaps (cl w)"
    using keepsD [OF keep rest] get_Fail(2) [OF api_contractD(6) [OF api] get] by simp
  moreover have "c_policies (cl w') = c_policies (cl w)"
    by (rule keepsD [OF keeps_falco_Cleanup run]) (intro api_frames [OF api])+
  ultimately show thesis by (rule that)
qed

text \<open>
  C39: A config map that cannot be read is abandoned. When the API server answers, but for the read of the
  config map of a Falco policy that is being deleted, which fails for another reason than that there is
  none, the run on the policy completes, without an error, takes the finalizer away and leaves every
  config map as it is.
\<close>

theorem falco_unread_map_is_abandoned:
  assumes "api_contract U C cl"
    and "healthy_kind (isNotFound U) tool_desc (cl_tools C) (\<lambda>w. c_tools (cl w))"
    and "healthy_kind (isNotFound U) policy_desc (cl_policies C) (\<lambda>w. c_policies (cl w))"
    and "healthy_kind (isNotFound U) report_desc (cl_reports C) (\<lambda>w. c_reports (cl w))"
    and "c_policies (cl w) key = Some p" "ps_Type (pol_Spec p) = PolicyTypeFalco"
    and "om_deletionTimestamp (pol_meta p) \<noteq> None" "holds_finalizer (cl w) key"
    and "c_tools (cl w) (om_namespace (pol_meta p), PolicyTypeFalco) \<noteq> None"
    and "falco_map_unread C U p (policy_reads C key p w)"
  shows "\<exists>w'. policy_Reconcile C R U key w = (Ret Complete, w') \<and> \<not> holds_finalizer (cl w') key \<and>
    c_configmaps (cl w') = c_configmaps (cl w)"
proof -
  note api = assms(1) and policies = api_contractD(3) [OF assms(1)] and util = util_contractD [OF api_contractD(1) [OF assms(1)]]
  have key: "key = meta_key (pol_meta p)" using kd_keyed [OF policies assms(5)] by (simp add: kd_key_def)
  obtain w1 where get: "k_get (cl_policies C) key w = (Inr p, w1)"
    by (rule get_stored [OF assms(3) policies assms(5)])
  have w1: "cl w1 = cl w" using keeps_callAD [OF api_reads_cluster(2) [OF api] get] .
  with assms(9) obtain tool where "c_tools (cl w1) (om_namespace (pol_meta p), ps_Type (pol_Spec p)) = Some tool"
    by (auto simp: assms(6))
  then obtain w2 where t: "k_get (cl_tools C) (om_namespace (pol_meta p), ps_Type (pol_Spec p)) w1 = (Inr tool, w2)"
    by (rule get_stored [OF assms(2) api_contractD(2) [OF api]])
  have w2: "cl w2 = cl w" using keeps_callAD [OF api_reads_cluster(1) [OF api] t] w1 by simp
  have "policy_reads C key p w = w2" by (simp add: policy_reads_def get t)
  with assms(10) have "falco_map_unread C U p w2" by simp
  then obtain w3 where clean: "falco_Cleanup C U p w2 = (Ret (), w3)" "c_configmaps (cl w3) = c_configmaps (cl w2)"
    "c_policies (cl w3) = c_policies (cl w2)" by (rule falco_Cleanup_unread [OF api assms(4)])
  from assms(5,8) have held: "PolicyFinalizer \<in> set (om_finalizers (pol_meta p))" by (simp add: holds_finalizer_def)
  obtain fs where fs: "removeFinalizer U (pol_meta p) PolicyFinalizer = (pol_meta p)\<lparr>om_finalizers := fs\<rparr>"
    "set fs = set (om_finalizers (pol_meta p)) - {PolicyFinalizer}" using util(4) by blast
  let ?p = "p\<lparr>pol_meta := (pol_meta p)\<lparr>om_finalizers := fs\<rparr>\<rparr>"
  have pkey: "kd_key policy_desc ?p = key" by (simp add: kd_key_def meta_key_def key)
  with assms(5) clean(3) w2 healthy_kindD(4) [OF assms(3), where w = w3 and x = ?p] obtain q w' where
    put: "k_update (cl_policies C) ?p w3 = (Inr q, w')" by auto
  have "\<not> holds_finalizer (cl w') key"
    using policies put
    by (cases rule: update_Ret)
      (use fs pkey in \<open>auto simp: holds_finalizer_def store_after_def updated_from_def written_def\<close>)
  moreover have "c_configmaps (cl w') = c_configmaps (cl w)"
    using policy_update_specs [OF api put] clean(2) w2 by (simp add: all_but_policies_def)
  moreover have "policy_Reconcile C R U key w = (Ret Complete, w')"
    using get t clean(1) put assms(6,7) held
    by (auto simp: policy_Reconcile_def NewPolicyEngine_def falco_engine_def policy_with_engine_def
        policy_handle_deletion_def util(2) fs(1) tryA_act callA_act)
  ultimately show ?thesis by blast
qed

text \<open>A client in memory whose config maps time out when they are read.\<close>

definition timed_out :: "obj_key \<Rightarrow> ('w, 'o) ext" where
  "timed_out k w = (Inl (ExtError ''etcdserver: request timed out''), w)"

definition flaky_client :: "mem client" where
  "flaky_client = mem_client\<lparr>cl_configmaps := (cl_configmaps mem_client)\<lparr>k_get := timed_out\<rparr>\<rparr>"

lemma timed_out_found: "\<not> isNotFound mem_util (ExtError ''etcdserver: request timed out'')"
  by code_simp

lemma timed_out_kind:
  "store_contract (isNotFound mem_util) d K st \<Longrightarrow> store_contract (isNotFound mem_util) d (K\<lparr>k_get := timed_out\<rparr>) st"
  "kind_frame K g \<Longrightarrow> kind_frame (K\<lparr>k_get := timed_out\<rparr>) g"
  using timed_out_found
  by (simp_all add: store_contract_def get_law_def list_law_def create_law_def update_law_def status_law_def
      patch_law_def delete_law_def create_or_update_law_def timed_out_def kind_frame_def keeps_callA)

lemma flaky_api_contract: "api_contract mem_util flaky_client mem_cluster"
  using mem_api_contract unfolding api_contract_def flaky_client_def by (simp add: timed_out_kind)

lemma falco_unread_map_is_abandoned_witness:
  "let w = (sample_world PolicyTypeFalco (deleted_policy PolicyTypeFalco))
       \<lparr>mem_configmaps := [falco_config_map (deleted_policy PolicyTypeFalco)]\<rparr> in
   \<exists>w'. policy_Reconcile flaky_client mem_runtime mem_util (''team'', ''p1'') w = (Ret Complete, w') \<and>
     \<not> holds_finalizer (mem_cluster w') (''team'', ''p1'') \<and>
     c_configmaps (mem_cluster w') (''team'', ''eirenyx-falco-policy-p1'') = Some (falco_config_map (deleted_policy PolicyTypeFalco))"
proof -
  let ?p = "deleted_policy PolicyTypeFalco"
  let ?w = "(sample_world PolicyTypeFalco ?p)\<lparr>mem_configmaps := [falco_config_map ?p]\<rparr>"
  have live: "healthy_kind (isNotFound mem_util) tool_desc (cl_tools flaky_client) (\<lambda>w. c_tools (mem_cluster w))"
    "healthy_kind (isNotFound mem_util) policy_desc (cl_policies flaky_client) (\<lambda>w. c_policies (mem_cluster w))"
    "healthy_kind (isNotFound mem_util) report_desc (cl_reports flaky_client) (\<lambda>w. c_reports (mem_cluster w))"
    using healthy_apiD(1-3) [OF mem_healthy_api] by (simp_all add: flaky_client_def)
  have p: "c_policies (mem_cluster ?w) (''team'', ''p1'') = Some ?p" "ps_Type (pol_Spec ?p) = PolicyTypeFalco"
    "om_deletionTimestamp (pol_meta ?p) \<noteq> None" "holds_finalizer (mem_cluster ?w) (''team'', ''p1'')"
    "c_tools (mem_cluster ?w) (om_namespace (pol_meta ?p), PolicyTypeFalco) \<noteq> None"
    by (simp_all add: sample_world_def mem_lookup_def deleted_policy_def sample_policy_def new_policy_def sample_spec_def
        sample_tool_def meta_key_def holds_finalizer_def)
  have unread: "falco_map_unread flaky_client mem_util ?p v" for v
    using timed_out_found by (simp add: falco_map_unread_def flaky_client_def timed_out_def)
  have map: "c_configmaps (mem_cluster ?w) (''team'', ''eirenyx-falco-policy-p1'') = Some (falco_config_map ?p)"
    by (simp add: mem_lookup_def falco_config_map_def falcoPolicyConfigMapName_def deleted_policy_def sample_policy_def
        new_policy_def meta_key_def)
  from falco_unread_map_is_abandoned [OF flaky_api_contract live p unread] map show ?thesis
    unfolding Let_def by metis
qed

end
