(* ===== verification/EngineProperties.thy ===== *)
theory EngineProperties
  imports Factory
begin

section \<open>Properties of the policy engines\<close>

text \<open>
  What the three engines promise on their own: which policies they accept, what a run makes of a policy,
  and what a cleanup leaves alone. The proofs apply the lemmas of the engines' theories.
\<close>

subsection \<open>Which policies are accepted\<close>

text \<open>A policy as the documentation describes it: one section, complete, for its type.\<close>

definition well_formed_policy :: "Policy \<Rightarrow> bool" where
  "well_formed_policy p \<longleftrightarrow>
     (if ps_Type (pol_Spec p) = PolicyTypeFalco then
        (case ps_Falco (pol_Spec p) of
           None \<Rightarrow> False
         | Some falco \<Rightarrow> (case (obs_RuleRef (fal_Observe falco), obs_RuleSelector (fal_Observe falco)) of
             (Some ref, None) \<Rightarrow> frr_Name ref \<noteq> '''' | (None, Some _) \<Rightarrow> True | _ \<Rightarrow> False))
      else if ps_Type (pol_Spec p) = PolicyTypeTrivy then
        (case ps_Trivy (pol_Spec p) of
           None \<Rightarrow> False
         | Some trivy \<Rightarrow> trv_Scans trivy \<noteq> [] \<and>
             list_all (\<lambda>scan. scan_Name scan \<noteq> '''' \<and> scan_Image scan \<noteq> '''') (trv_Scans trivy))
      else if ps_Type (pol_Spec p) = PolicyTypeLitmus then
        (case ps_Litmus (pol_Spec p) of
           None \<Rightarrow> False
         | Some litmus \<Rightarrow> lit_Experiments litmus \<noteq> [] \<and> list_all complete_experiment (lit_Experiments litmus))
      else False)"

text \<open>
  C24: The operator accepts exactly the well-formed policies: the factory knows an engine for the policy's
  type and that engine's validation finds no error if and only if the policy has the section of its
  type and every entry of it is complete.
\<close>

theorem accepted_policies:
  "(\<exists>engine. NewPolicyEngine C R U p = Inr engine \<and> eng_Validate engine p = None) \<longleftrightarrow> well_formed_policy p"
  unfolding NewPolicyEngine_def well_formed_policy_def
  by (auto simp: falco_engine_def trivy_engine_def litmus_engine_def falco_Validate_None trivy_Validate_None
      litmus_Validate_None list_all_iff split: option.splits)

subsection \<open>The command line of a scan\<close>

text \<open>Reading the arguments the way Trivy does: flags up to the image, which comes last.\<close>

fun read_scan_flags :: "string list \<Rightarrow> TrivyScan \<times> string option \<Rightarrow> (TrivyScan \<times> string option) option" where
  "read_scan_flags [] (scan, code) = Some (scan, code)"
| "read_scan_flags (flag # args) (scan, code) =
     (if flag = ''--ignore-unfixed'' then read_scan_flags args (scan\<lparr>scan_IgnoreUnfixed := True\<rparr>, code)
      else (case args of
        [] \<Rightarrow> None
      | value # args \<Rightarrow>
          if flag = ''--severity'' then read_scan_flags args (scan\<lparr>scan_Severity := value\<rparr>, code)
          else if flag = ''--vuln-type'' then
            read_scan_flags args (scan\<lparr>scan_VulnerabilityTypes := scan_VulnerabilityTypes scan @ [value]\<rparr>, code)
          else if flag = ''--exit-code'' then read_scan_flags args (scan, Some value)
          else None))"

definition read_scan_args :: "string \<Rightarrow> string list \<Rightarrow> (TrivyScan \<times> string option) option" where
  "read_scan_args name args =
     (if take 4 args = [''image'', ''--format'', ''json'', ''--quiet''] \<and> 4 < length args then
        read_scan_flags (butlast (drop 4 args))
          (\<lparr>scan_Name = name, scan_Image = last args, scan_Severity = '''', scan_IgnoreUnfixed = False,
            scan_VulnerabilityTypes = [], scan_ExitCode = None\<rparr>, None)
      else None)"

lemma read_vuln_types:
  "read_scan_flags (concat (map (\<lambda>vt. [''--vuln-type'', vt]) vts) @ rest) (scan, code) =
     read_scan_flags rest (scan\<lparr>scan_VulnerabilityTypes := scan_VulnerabilityTypes scan @ vts\<rparr>, code)"
  by (induction vts arbitrary: scan) simp_all

lemma scan_args_read_back:
  "read_scan_args (scan_Name scan) (trivy_scan_args scan) =
     Some (scan\<lparr>scan_ExitCode := None\<rparr>, map_option (\<lambda>c. show_int (sint c)) (scan_ExitCode scan))"
proof -
  let ?flags = "(if scan_Severity scan = '''' then [] else [''--severity'', scan_Severity scan]) @
     (if scan_IgnoreUnfixed scan then [''--ignore-unfixed''] else []) @
     concat (map (\<lambda>vt. [''--vuln-type'', vt]) (scan_VulnerabilityTypes scan)) @
     (case scan_ExitCode scan of None \<Rightarrow> [] | Some c \<Rightarrow> [''--exit-code'', show_int (sint c)])"
  have args: "trivy_scan_args scan = [''image'', ''--format'', ''json'', ''--quiet''] @ ?flags @ [scan_Image scan]"
    by (simp add: trivy_scan_args_eq)
  have "drop 4 (trivy_scan_args scan) = ?flags @ [scan_Image scan]" unfolding args by simp
  then have flags: "butlast (drop 4 (trivy_scan_args scan)) = ?flags" by (simp only: butlast_snoc)
  have "last (trivy_scan_args scan) = scan_Image scan" "4 < length (trivy_scan_args scan)"
    "take 4 (trivy_scan_args scan) = [''image'', ''--format'', ''json'', ''--quiet'']"
    unfolding args by simp_all
  then have "read_scan_args (scan_Name scan) (trivy_scan_args scan) = read_scan_flags ?flags
      (\<lparr>scan_Name = scan_Name scan, scan_Image = scan_Image scan, scan_Severity = '''', scan_IgnoreUnfixed = False,
        scan_VulnerabilityTypes = [], scan_ExitCode = None\<rparr>, None)"
    by (simp only: read_scan_args_def flags simp_thms if_True)
  also have "\<dots> = Some (scan\<lparr>scan_ExitCode := None\<rparr>, map_option (\<lambda>c. show_int (sint c)) (scan_ExitCode scan))"
    by (cases scan) (auto simp: read_vuln_types split: option.splits)
  finally show ?thesis .
qed

text \<open>
  A job that runs a scan, told apart from how the code builds it: one container named as the report
  reader expects it, that runs the pinned image once, with a command line that reads back as the scan.
\<close>

definition runs_scan :: "Policy \<Rightarrow> TrivyScan \<Rightarrow> Job \<Rightarrow> bool" where
  "runs_scan policy scan job \<longleftrightarrow>
     js_BackoffLimit (job_Spec job) = Some 0 \<and> pt_RestartPolicy (js_Template (job_Spec job)) = ''Never'' \<and>
     labels_of (job_meta job) ''eirenyx.eirenyx/policy-name'' = Some (om_name (pol_meta policy)) \<and>
     (\<exists>c. pt_Containers (js_Template (job_Spec job)) = [c] \<and> ct_Name c = trivyContainerName \<and>
        ct_Image c = trivyImage \<and> ct_Command c = [''trivy''] \<and>
        read_scan_args (scan_Name scan) (ct_Args c) =
          Some (scan\<lparr>scan_ExitCode := None\<rparr>, map_option (\<lambda>c. show_int (sint c)) (scan_ExitCode scan)))"

lemma job_of_scan_runs:
  assumes "job_of_scan policy scan job"
  shows "runs_scan policy scan job"
  using assms unfolding job_of_scan_def runs_scan_def same_job_spec_def trivy_scan_job_def
  by (simp add: scan_args_read_back trivyContainerName_def labels_of_def trivy_policyNameLabelKey_def
      trivy_policyTypeLabelKey_def trivyScanNameLabelKey_def)

subsection \<open>What a run makes of a policy\<close>

text \<open>
  C19: Reconciling a Trivy policy leaves every job that exists as it is and starts the scans that have none,
  each with a job that runs it; reconciling it again, from the cluster it left, starts nothing more.
\<close>

theorem trivy_scans_start_once:
  assumes "api_contract U C cl" "ps_Trivy (pol_Spec policy) = Some trivy"
    and "trivy_Reconcile C U policy w = (Ret u, w1)"
    and "cl w2 = cl w1" "trivy_Reconcile C U policy w2 = (Ret u', w3)"
  shows "(\<forall>k job. c_jobs (cl w) k = Some job \<longrightarrow> c_jobs (cl w1) k = Some job) \<and>
    (\<forall>k job. c_jobs (cl w) k = None \<longrightarrow> c_jobs (cl w1) k = Some job \<longrightarrow>
       (\<exists>scan \<in> set (trv_Scans trivy). k = trivy_scan_key policy scan \<and> runs_scan policy scan job)) \<and>
    (\<forall>scan \<in> set (trv_Scans trivy). c_jobs (cl w1) (trivy_scan_key policy scan) \<noteq> None) \<and>
    c_jobs (cl w3) = c_jobs (cl w1)"
proof -
  have first: "scans_started policy (trv_Scans trivy) (c_jobs (cl w)) (c_jobs (cl w1))"
    by (rule trivy_Reconcile_jobs [OF assms(1-3)])
  then have "c_jobs (cl w3) = c_jobs (cl w2)"
    using trivy_Reconcile_jobs [OF assms(1,2,5)] unfolding assms(4)
    by (intro scans_started_again) (auto simp: scans_started_def)
  with first job_of_scan_runs show ?thesis unfolding scans_started_def assms(4) by blast
qed

text \<open>
  C21: After a run the config map of a Falco policy holds, under the key falcoPolicy.json, a text that a
  JSON reader reads as the policy's own section (its strings made valid UTF-8), whether or not the config
  map was there before, and is labelled with the policy's name.
\<close>

theorem falco_config_map_written:
  assumes "api_contract U C cl" "falco_applicable policy (cl w)"
    and "falco_Reconcile C U policy w = (Ret u, w')"
  shows "\<exists>cm d s. c_configmaps (cl w') (om_namespace (pol_meta policy), falcoPolicyConfigMapName policy) = Some cm \<and>
    cm_Data cm = Some d \<and> d ''falcoPolicy.json'' = Some s \<and>
    parse_json s = Some (json_clean (FalcoPolicySpec_json (ps_Falco (pol_Spec policy)))) \<and>
    labels_of (cm_meta cm) ''eirenyx.io/policy'' = Some (om_name (pol_meta policy))"
proof -
  have "om_deletionTimestamp (cm_meta old) = None" if "c_configmaps (cl w) (falco_cm_key policy) = Some old" for old
    using assms(2) that by (simp add: falco_applicable_def)
  from falco_Reconcile_configmap [OF assms(1,3) this] FalcoPolicySpec_text show ?thesis by (metis falco_cm_key_def)
qed

text \<open>The environment of an experiment as name and value pairs, in no particular order.\<close>

definition experiment_env :: "LitmusExperiment \<Rightarrow> (string \<times> string) multiset" where
  "experiment_env exp =
     (if exp_Duration exp = '''' then {#} else {#(''TOTAL_CHAOS_DURATION'', exp_Duration exp)#}) +
     (if exp_Mode exp = '''' then {#} else {#(''CHAOS_MODE'', exp_Mode exp)#}) + mset (exp_Parameters exp)"

lemma append_env_fold:
  "fold (\<lambda>(k, v) envs. envs @ [\<lparr>ev_Name = k, ev_Value = v\<rparr>]) ps envs =
   envs @ map (\<lambda>(k, v). \<lparr>ev_Name = k, ev_Value = v\<rparr>) ps"
  by (induction ps arbitrary: envs) auto

lemma buildEnvVars_env:
  assumes "mset parameters = mset (exp_Parameters exp)"
  shows "image_mset (\<lambda>e. (ev_Name e, ev_Value e)) (mset (buildEnvVars exp parameters)) = experiment_env exp"
proof -
  have pairs: "map ((\<lambda>e. (ev_Name e, ev_Value e)) \<circ> (\<lambda>(k, v). \<lparr>ev_Name = k, ev_Value = v\<rparr>)) parameters = parameters"
    by (rule map_idI) auto
  show ?thesis
    using assms unfolding buildEnvVars_def Let_def append_env_fold
    by (auto simp: experiment_env_def pairs simp flip: mset_map)
qed

text \<open>
  C20: After a run every experiment of a Litmus policy has its chaos engine in the experiment's target
  namespace: active, for the experiment's application, running the one experiment with its duration,
  mode and parameters as the environment, with the labels by which the cleanup finds it; no other
  chaos engine has changed.
\<close>

theorem litmus_engines_written:
  assumes "api_contract U C cl" "runtime_contract R" "litmus_applicable policy (cl w)"
    and "ps_Litmus (pol_Spec policy) = Some litmus" "litmus_Reconcile C R policy w = (Ret u, w')"
  shows "(\<forall>exp \<in> set (lit_Experiments litmus). \<exists>ce el.
      c_engines (cl w') (litmus_target_namespace policy exp, getChaosEngineName policy (exp_Name exp)) = Some ce \<and>
      ces_EngineState (ce_Spec ce) = EngineStateActive \<and>
      ap_Appns (ces_AppInfo (ce_Spec ce)) = app_AppNamespace (exp_AppInfo exp) \<and>
      ap_Applabel (ces_AppInfo (ce_Spec ce)) = app_AppLabel (exp_AppInfo exp) \<and>
      ap_AppKind (ces_AppInfo (ce_Spec ce)) = app_AppKind (exp_AppInfo exp) \<and>
      ces_Experiments (ce_Spec ce) = [el] \<and> el_Name el = exp_ExperimentRef exp \<and>
      image_mset (\<lambda>e. (ev_Name e, ev_Value e)) (mset (ec_ENV (ea_Components (el_Spec el)))) = experiment_env exp \<and>
      matches (litmus_selector policy) (ce_meta ce) \<and>
      labels_of (ce_meta ce) ''app.kubernetes.io/managed-by'' = Some ''eirenyx'' \<and>
      labels_of (ce_meta ce) ''eirenyx.eirenyx/policy-name'' = Some (om_name (pol_meta policy))) \<and>
    (\<forall>k. k \<notin> (\<lambda>exp. (litmus_target_namespace policy exp, getChaosEngineName policy (exp_Name exp))) `
        set (lit_Experiments litmus) \<longrightarrow> c_engines (cl w') k = c_engines (cl w) k)"
proof -
  have "experiments_started policy (lit_Experiments litmus) (c_engines (cl w)) (c_engines (cl w'))"
    using assms(3,4)
    by (intro litmus_Reconcile_engines [OF assms(1,2,4) _ _ _ assms(5)])
      (auto simp: litmus_applicable_def split: option.splits)
  then have started: "\<forall>exp \<in> set (lit_Experiments litmus). \<exists>ce parameters.
      c_engines (cl w') (litmus_target_namespace policy exp, getChaosEngineName policy (exp_Name exp)) = Some ce \<and>
      mset parameters = mset (exp_Parameters exp) \<and> ce_Spec ce = litmus_engine_spec exp parameters \<and>
      matches (litmus_selector policy) (ce_meta ce)"
    and others: "\<forall>k. k \<notin> (\<lambda>exp. (litmus_target_namespace policy exp, getChaosEngineName policy (exp_Name exp))) `
        set (lit_Experiments litmus) \<longrightarrow> c_engines (cl w') k = c_engines (cl w) k"
    by (simp_all add: experiments_started_def engine_of_experiment_def matches_litmus_selector litmus_engine_key_def) blast+
  show ?thesis
  proof (intro conjI ballI others)
    fix exp assume "exp \<in> set (lit_Experiments litmus)"
    with started obtain ce parameters where ce:
      "c_engines (cl w') (litmus_target_namespace policy exp, getChaosEngineName policy (exp_Name exp)) = Some ce"
      "mset parameters = mset (exp_Parameters exp)" "ce_Spec ce = litmus_engine_spec exp parameters"
      "matches (litmus_selector policy) (ce_meta ce)" by blast
    let ?env = "\<lambda>el. image_mset (\<lambda>e. (ev_Name e, ev_Value e)) (mset (ec_ENV (ea_Components (el_Spec el))))"
    from ce obtain el where "ces_Experiments (ce_Spec ce) = [el]" "el_Name el = exp_ExperimentRef exp"
      "?env el = experiment_env exp"
      by (auto simp: litmus_engine_spec_def buildEnvVars_env)
    moreover from ce(3) have "ces_EngineState (ce_Spec ce) = EngineStateActive"
      "ap_Appns (ces_AppInfo (ce_Spec ce)) = app_AppNamespace (exp_AppInfo exp)"
      "ap_Applabel (ces_AppInfo (ce_Spec ce)) = app_AppLabel (exp_AppInfo exp)"
      "ap_AppKind (ces_AppInfo (ce_Spec ce)) = app_AppKind (exp_AppInfo exp)"
      by (simp_all add: litmus_engine_spec_def EngineStateActive_def)
    ultimately show "\<exists>ce el.
      c_engines (cl w') (litmus_target_namespace policy exp, getChaosEngineName policy (exp_Name exp)) = Some ce \<and>
      ces_EngineState (ce_Spec ce) = EngineStateActive \<and>
      ap_Appns (ces_AppInfo (ce_Spec ce)) = app_AppNamespace (exp_AppInfo exp) \<and>
      ap_Applabel (ces_AppInfo (ce_Spec ce)) = app_AppLabel (exp_AppInfo exp) \<and>
      ap_AppKind (ces_AppInfo (ce_Spec ce)) = app_AppKind (exp_AppInfo exp) \<and>
      ces_Experiments (ce_Spec ce) = [el] \<and> el_Name el = exp_ExperimentRef exp \<and>
      ?env el = experiment_env exp \<and> matches (litmus_selector policy) (ce_meta ce) \<and>
      labels_of (ce_meta ce) ''app.kubernetes.io/managed-by'' = Some ''eirenyx'' \<and>
      labels_of (ce_meta ce) ''eirenyx.eirenyx/policy-name'' = Some (om_name (pol_meta policy))"
      using ce(1,4) ce(4) [unfolded matches_litmus_selector engine_of_policy_def] by blast
  qed
qed

subsection \<open>What a cleanup leaves alone\<close>

lemma report_key_namespace:
  assumes "api_contract U C cl" "c_reports (cl w) k = Some r"
  shows "om_namespace (rep_meta r) = fst k"
  using kd_keyed [OF api_contractD(4) [OF assms(1)] assms(2)] by (auto simp: kd_key_def meta_key_def)

lemma falco_Cleanup_spares:
  assumes "api_contract U C cl" "falco_Cleanup C U policy w = (Ret u, w')"
  shows "\<forall>k. k \<noteq> falco_cm_key policy \<longrightarrow> c_configmaps (cl w') k = c_configmaps (cl w) k"
    "\<forall>k. (\<forall>r. c_reports (cl w) k = Some r \<longrightarrow> \<not> reports_of policy r) \<longrightarrow> c_reports (cl w') k = c_reports (cl w) k"
proof -
  note cms = api_contractD(6) [OF assms(1)]
  have rest: "keeps (\<lambda>w. c_configmaps (cl w)) (falco_cleanup_reports C U policy)"
    unfolding falco_cleanup_reports_def
    by (intro keeps_intros kind_frame_keeps keeps_falco_delete_reports api_frames [OF assms(1)])
  note frame = kind_frame_keeps [OF api_frames(23) [OF assms(1)]]
  from assms(2) obtain w1 where run: "falco_cleanup_reports C U policy w1 = (Ret u, w')"
    and way: "(\<exists>e. k_get (cl_configmaps C) (falco_cm_key policy) w = (Inl e, w1)) \<or>
      (\<exists>cm w0. k_get (cl_configmaps C) (falco_cm_key policy) w = (Inr cm, w0) \<and>
         k_delete (cl_configmaps C) cm w0 = (Inr (), w1))"
    unfolding falco_Cleanup_def falco_cm_key_def by (auto simp: act_simps)
  from way have "c_reports (cl w1) = c_reports (cl w)"
    using keeps_callAD [OF frame(1)] keeps_callAD [OF frame(7)] by metis
  then show "\<forall>k. (\<forall>r. c_reports (cl w) k = Some r \<longrightarrow> \<not> reports_of policy r) \<longrightarrow> c_reports (cl w') k = c_reports (cl w) k"
    using falco_cleanup_reports_Ret(2) [OF assms(1) run] by simp
  from way have "\<forall>k. k \<noteq> falco_cm_key policy \<longrightarrow> c_configmaps (cl w1) k = c_configmaps (cl w) k"
  proof (elim disjE exE conjE)
    fix cm w0 assume got: "k_get (cl_configmaps C) (falco_cm_key policy) w = (Inr cm, w0)"
      and del: "k_delete (cl_configmaps C) cm w0 = (Inr (), w1)"
    from cms del get_Ret(2) [OF cms got] get_key [OF cms got] show ?thesis by (cases rule: delete_Ret) simp_all
  qed (simp add: get_Fail(2) [OF cms])
  with keepsD [OF rest run]
  show "\<forall>k. k \<noteq> falco_cm_key policy \<longrightarrow> c_configmaps (cl w') k = c_configmaps (cl w) k" by simp
qed

text \<open>
  C22: What a cleanup that succeeds may remove, by name and label: jobs called
  \<open>eirenyx-trivy-\<close>policy\<open>-\<close>scan for a scan of the policy and the config map
  \<open>eirenyx-falco-policy-\<close>policy, both in the policy's namespace, reports there that refer to a policy of this
  name, and, in the policy's namespace and those its experiments target, chaos engines that carry both the
  label \<open>app.kubernetes.io/managed-by=eirenyx\<close> and the policy's name under
  \<open>eirenyx.eirenyx/policy-name\<close>. Everything else is as before, the Tools and the policies included.
  Names are all that tells policies apart: the job of another scan may have the same name (see below), and
  a chaos engine with the labels may stem from a policy of the same name in another namespace.
\<close>

theorem cleanup_spares_others:
  assumes "api_contract U C cl" "runtime_contract R" "NewPolicyEngine C R U policy = Inr engine"
    and "eng_Cleanup engine policy w = (Ret u, w')"
  shows "(\<forall>ns n. c_jobs (cl w') (ns, n) = c_jobs (cl w) (ns, n) \<or>
      ns = om_namespace (pol_meta policy) \<and> (\<exists>trivy. ps_Trivy (pol_Spec policy) = Some trivy \<and>
        (\<exists>scan \<in> set (trv_Scans trivy). n = ''eirenyx-trivy-'' @ om_name (pol_meta policy) @ ''-'' @ scan_Name scan))) \<and>
    (\<forall>ns n. c_configmaps (cl w') (ns, n) = c_configmaps (cl w) (ns, n) \<or>
      ns = om_namespace (pol_meta policy) \<and> n = ''eirenyx-falco-policy-'' @ om_name (pol_meta policy)) \<and>
    (\<forall>ns n. c_reports (cl w') (ns, n) = c_reports (cl w) (ns, n) \<or>
      ns = om_namespace (pol_meta policy) \<and> (\<exists>r. c_reports (cl w) (ns, n) = Some r \<and>
        pr_Name (rs_PolicyRef (rep_Spec r)) = om_name (pol_meta policy))) \<and>
    (\<forall>ns n. c_engines (cl w') (ns, n) = c_engines (cl w) (ns, n) \<or>
      (ns = om_namespace (pol_meta policy) \<or> (\<exists>litmus. ps_Litmus (pol_Spec policy) = Some litmus \<and>
         (\<exists>exp \<in> set (lit_Experiments litmus). ns = exp_TargetNamespace exp))) \<and>
      (\<exists>ce. c_engines (cl w) (ns, n) = Some ce \<and>
        labels_of (ce_meta ce) ''app.kubernetes.io/managed-by'' = Some ''eirenyx'' \<and>
        labels_of (ce_meta ce) ''eirenyx.eirenyx/policy-name'' = Some (om_name (pol_meta policy)))) \<and>
    c_tools (cl w') = c_tools (cl w) \<and> c_policies (cl w') = c_policies (cl w)"
  using assms(3)
proof (cases rule: NewPolicyEngine_cases)
  case falco
  with assms(4) have run: "falco_Cleanup C U policy w = (Ret u, w')" by (simp add: falco_engine_def)
  note keep = keepsD [OF keeps_falco_Cleanup run]
  have "c_jobs (cl w') = c_jobs (cl w)" "c_engines (cl w') = c_engines (cl w)"
    "c_tools (cl w') = c_tools (cl w)" "c_policies (cl w') = c_policies (cl w)"
    using keep [where g = "\<lambda>w. c_jobs (cl w)"] keep [where g = "\<lambda>w. c_engines (cl w)"]
      keep [where g = "\<lambda>w. c_tools (cl w)"] keep [where g = "\<lambda>w. c_policies (cl w)"] api_frames [OF assms(1)] by simp_all
  moreover have "c_reports (cl w') (ns, n) = c_reports (cl w) (ns, n) \<or>
      ns = om_namespace (pol_meta policy) \<and> (\<exists>r. c_reports (cl w) (ns, n) = Some r \<and>
        pr_Name (rs_PolicyRef (rep_Spec r)) = om_name (pol_meta policy))" for ns n
    using spec [OF falco_Cleanup_spares(2) [OF assms(1) run], of "(ns, n)"] report_key_namespace [OF assms(1), of w "(ns, n)"]
    unfolding reports_of_def fst_conv by metis
  moreover have "c_configmaps (cl w') (ns, n) = c_configmaps (cl w) (ns, n) \<or>
      ns = om_namespace (pol_meta policy) \<and> n = ''eirenyx-falco-policy-'' @ om_name (pol_meta policy)" for ns n
    using falco_Cleanup_spares(1) [OF assms(1) run] unfolding falco_cm_key_def falcoPolicyConfigMapName_def by blast
  ultimately show ?thesis by auto
next
  case trivy
  with assms(4) have run: "trivy_Cleanup C U policy w = (Ret u, w')" by (simp add: trivy_engine_def)
  then obtain trivy where spec: "ps_Trivy (pol_Spec policy) = Some trivy"
    by (auto simp: trivy_Cleanup_def act_simps)
  note keep = keepsD [OF keeps_trivy_Cleanup run]
  have "c_reports (cl w') = c_reports (cl w)" "c_engines (cl w') = c_engines (cl w)"
    "c_configmaps (cl w') = c_configmaps (cl w)"
    "c_tools (cl w') = c_tools (cl w)" "c_policies (cl w') = c_policies (cl w)"
    using keep [where g = "\<lambda>w. c_reports (cl w)"] keep [where g = "\<lambda>w. c_engines (cl w)"]
      keep [where g = "\<lambda>w. c_configmaps (cl w)"] keep [where g = "\<lambda>w. c_tools (cl w)"]
      keep [where g = "\<lambda>w. c_policies (cl w)"] api_frames [OF assms(1)] by simp_all
  moreover have "c_jobs (cl w') (ns, n) = c_jobs (cl w) (ns, n) \<or>
      ns = om_namespace (pol_meta policy) \<and>
      (\<exists>scan \<in> set (trv_Scans trivy). n = ''eirenyx-trivy-'' @ om_name (pol_meta policy) @ ''-'' @ scan_Name scan)" for ns n
  proof -
    have "(ns, n) \<in> trivy_scan_key policy ` set (trv_Scans trivy) \<Longrightarrow> ns = om_namespace (pol_meta policy) \<and>
      (\<exists>scan \<in> set (trv_Scans trivy). n = ''eirenyx-trivy-'' @ om_name (pol_meta policy) @ ''-'' @ scan_Name scan)"
      unfolding trivy_scan_key_def trivy_getScanJobName_def by blast
    with trivy_Cleanup_jobs [OF assms(1) spec run] show ?thesis unfolding scans_removed_def by blast
  qed
  ultimately show ?thesis unfolding spec by auto
next
  case litmus
  with assms(4) have run: "litmus_Cleanup C R U policy w = (Ret u, w')" by (simp add: litmus_engine_def)
  then obtain litmus where spec: "ps_Litmus (pol_Spec policy) = Some litmus"
    by (auto simp: litmus_Cleanup_def act_simps)
  note keep = keepsD [OF keeps_litmus_Cleanup run]
  have "c_jobs (cl w') = c_jobs (cl w)" "c_configmaps (cl w') = c_configmaps (cl w)"
    "c_tools (cl w') = c_tools (cl w)" "c_policies (cl w') = c_policies (cl w)"
    using keep [where g = "\<lambda>w. c_jobs (cl w)"] keep [where g = "\<lambda>w. c_configmaps (cl w)"]
      keep [where g = "\<lambda>w. c_tools (cl w)"] keep [where g = "\<lambda>w. c_policies (cl w)"] api_frames [OF assms(1)] by simp_all
  moreover have "c_engines (cl w') (ns, n) = c_engines (cl w) (ns, n) \<or>
      (ns = om_namespace (pol_meta policy) \<or> (\<exists>exp \<in> set (lit_Experiments litmus). ns = exp_TargetNamespace exp)) \<and>
      (\<exists>ce. c_engines (cl w) (ns, n) = Some ce \<and> engine_of_policy policy ce)" for ns n
  proof -
    have removed: "engines_removed policy (insert (om_namespace (pol_meta policy))
        (litmus_target_namespace policy ` set (lit_Experiments litmus))) (c_engines (cl w)) (c_engines (cl w'))"
      using litmus_Cleanup_Ret(1) [OF assms(1,2) spec run] unfolding litmus_cleanup_namespaces_props .
    have "fst (ns, n) \<in> insert (om_namespace (pol_meta policy)) (litmus_target_namespace policy ` set (lit_Experiments litmus))
        \<Longrightarrow> ns = om_namespace (pol_meta policy) \<or> (\<exists>exp \<in> set (lit_Experiments litmus). ns = exp_TargetNamespace exp)"
      by (auto simp: litmus_target_namespace_def)
    with removed show ?thesis unfolding engines_removed_def by metis
  qed
  moreover have "c_reports (cl w') (ns, n) = c_reports (cl w) (ns, n) \<or>
      ns = om_namespace (pol_meta policy) \<and> (\<exists>r. c_reports (cl w) (ns, n) = Some r \<and>
        pr_Name (rs_PolicyRef (rep_Spec r)) = om_name (pol_meta policy))" for ns n
    using litmus_Cleanup_Ret(3) [OF assms(1,2) spec run, of "(ns, n)"] report_key_namespace [OF assms(1), of w "(ns, n)"]
    unfolding reports_of_def fst_conv by metis
  ultimately show ?thesis unfolding spec engine_of_policy_def by auto
qed

text \<open>
  Names of jobs can collide: joined with a hyphen, the policy \<open>a\<close> with a scan \<open>b-c\<close> and the policy \<open>a-b\<close>
  with a scan \<open>c\<close> ask for the same job. So a successful cleanup of the one policy removes the job of the
  other, though that policy still asks for it.
\<close>

lemma trivy_job_names_collide:
  assumes "api_contract U C cl" "om_namespace (pol_meta p) = om_namespace (pol_meta q)"
    and "om_name (pol_meta p) = a" "om_name (pol_meta q) = a @ ''-'' @ b"
    and "ps_Trivy (pol_Spec p) = Some trivy" "scan \<in> set (trv_Scans trivy)" "scan_Name scan = b @ ''-'' @ c"
    and "scan_Name scan' = c" "trivy_Cleanup C U p w = (Ret u, w')"
  shows "gone_or_marked job_desc (c_jobs (cl w') (trivy_scan_key q scan'))"
proof -
  have "trivy_scan_key q scan' = trivy_scan_key p scan"
    using assms(2-4,7,8) by (simp add: trivy_scan_key_def trivy_getScanJobName_def)
  with trivy_Cleanup_jobs [OF assms(1,5,9)] assms(6) show ?thesis by (simp add: scans_removed_def)
qed

subsection \<open>Witnesses\<close>

text \<open>A finished run gives the premises their shape: the outcome is known, the world is named.\<close>

lemma run_returns: "fst p = Ret u \<Longrightarrow> p = (Ret u, snd p)"
  by (cases p) simp

abbreviation trivy_world :: mem where
  "trivy_world \<equiv> sample_world ''trivy'' (sample_policy ''trivy'')"

lemma trivy_sample [simp]:
  "ps_Trivy (pol_Spec (sample_policy ''trivy'')) = Some \<lparr>trv_Scans = [sample_scan]\<rparr>"
  "om_namespace (pol_meta (sample_policy t)) = ''team''" "om_name (pol_meta (sample_policy t)) = ''p1''"
  by (simp_all add: sample_policy_def new_policy_def sample_spec_def policy_type_defs)

lemma trivy_scans_start_once_witness:
  "let w = trivy_world; p = sample_policy ''trivy'';
       w1 = snd (trivy_Reconcile mem_client mem_util p w); w2 = snd (trivy_Reconcile mem_client mem_util p w1)
   in c_jobs (mem_cluster w1) (''team'', ''eirenyx-trivy-p1-web'') \<noteq> None \<and>
      c_jobs (mem_cluster w2) = c_jobs (mem_cluster w1)"
proof -
  let ?p = "sample_policy ''trivy''" and ?w = trivy_world
  let ?w1 = "snd (trivy_Reconcile mem_client mem_util ?p ?w)"
  have "fst (trivy_Reconcile mem_client mem_util ?p ?w) = Ret ()"
    and "fst (trivy_Reconcile mem_client mem_util ?p ?w1) = Ret ()" by code_simp+
  from trivy_scans_start_once [OF mem_api_contract trivy_sample(1) run_returns [OF this(1)] refl run_returns [OF this(2)]]
  show ?thesis
    by (simp add: Let_def scans_started_def trivy_scan_key_def trivy_getScanJobName_def sample_scan_def)
qed

lemma falco_config_map_written_witness:
  "c_configmaps (mem_cluster (snd (falco_Reconcile mem_client mem_util (sample_policy ''falco'')
     (sample_world ''falco'' (sample_policy ''falco''))))) (''team'', ''eirenyx-falco-policy-p1'') \<noteq> None"
proof -
  let ?p = "sample_policy ''falco''" and ?w = "sample_world ''falco'' (sample_policy ''falco'')"
  have run: "fst (falco_Reconcile mem_client mem_util ?p ?w) = Ret ()" by code_simp
  have "falco_applicable ?p (mem_cluster ?w)"
    by (simp add: falco_applicable_def sample_world_def empty_mem_def mem_lookup_def)
  from falco_config_map_written [OF mem_api_contract this run_returns [OF run]]
  show ?thesis by (auto simp: falcoPolicyConfigMapName_def)
qed

lemma litmus_engines_written_witness:
  "c_engines (mem_cluster (snd (litmus_Reconcile mem_client mem_runtime (sample_policy ''litmus'')
     (sample_world ''litmus'' (sample_policy ''litmus''))))) (''shop'', ''eirenyx-litmus-p1-cpu'') \<noteq> None"
proof -
  let ?p = "sample_policy ''litmus''" and ?w = "sample_world ''litmus'' (sample_policy ''litmus'')"
  have run: "fst (litmus_Reconcile mem_client mem_runtime ?p ?w) = Ret ()" by code_simp
  have spec: "ps_Litmus (pol_Spec ?p) = Some \<lparr>lit_Experiments = [sample_experiment]\<rparr>"
    by (simp add: sample_policy_def new_policy_def sample_spec_def policy_type_defs)
  have "litmus_applicable ?p (mem_cluster ?w)"
    by (simp add: litmus_applicable_def spec sample_world_def empty_mem_def mem_lookup_def sample_experiment_def)
  from litmus_engines_written [OF mem_api_contract mem_runtime_contract this spec run_returns [OF run]]
  show ?thesis
    by (auto simp: litmus_target_namespace_def getChaosEngineName_def sample_experiment_def)
qed

lemma cleanup_spares_others_witness:
  "let w = report_world ''falco'' ReportPending True; p = (sample_policy ''falco'')\<lparr>pol_meta := new_meta ''team'' ''p2''\<rparr> in
   c_reports (mem_cluster (snd (eng_Cleanup (falco_engine mem_client mem_runtime mem_util) p w))) (''team'', ''r1'') =
     c_reports (mem_cluster w) (''team'', ''r1'')"
proof -
  let ?w = "report_world ''falco'' ReportPending True"
    and ?p = "(sample_policy ''falco'')\<lparr>pol_meta := new_meta ''team'' ''p2''\<rparr>"
  have run: "fst (eng_Cleanup (falco_engine mem_client mem_runtime mem_util) ?p ?w) = Ret ()" by code_simp
  have eng: "NewPolicyEngine mem_client mem_runtime mem_util ?p = Inr (falco_engine mem_client mem_runtime mem_util)"
    by (simp add: NewPolicyEngine_def sample_policy_def new_policy_def sample_spec_def policy_type_defs)
  have "\<forall>r. c_reports (mem_cluster ?w) (''team'', ''r1'') = Some r \<longrightarrow>
      pr_Name (rs_PolicyRef (rep_Spec r)) \<noteq> om_name (pol_meta ?p)"
    by (simp add: report_world_def sample_world_def mem_lookup_def sample_report_def)
  with cleanup_spares_others [OF mem_api_contract mem_runtime_contract eng run_returns [OF run]]
  show ?thesis unfolding Let_def by blast
qed

lemma trivy_job_names_collide_sample:
  "let p = (sample_policy ''trivy'')\<lparr>pol_meta := new_meta ''team'' ''a'',
         pol_Spec := (sample_spec ''trivy'')\<lparr>ps_Trivy := Some \<lparr>trv_Scans = [sample_scan\<lparr>scan_Name := ''b-c''\<rparr>]\<rparr>\<rparr>\<rparr>;
       q = (sample_policy ''trivy'')\<lparr>pol_meta := new_meta ''team'' ''a-b''\<rparr>; scan' = sample_scan\<lparr>scan_Name := ''c''\<rparr>;
       w = trivy_world in
   gone_or_marked job_desc (c_jobs (mem_cluster (snd (trivy_Cleanup mem_client mem_util p w))) (trivy_scan_key q scan'))"
proof -
  let ?p = "(sample_policy ''trivy'')\<lparr>pol_meta := new_meta ''team'' ''a'',
         pol_Spec := (sample_spec ''trivy'')\<lparr>ps_Trivy := Some \<lparr>trv_Scans = [sample_scan\<lparr>scan_Name := ''b-c''\<rparr>]\<rparr>\<rparr>\<rparr>"
    and ?q = "(sample_policy ''trivy'')\<lparr>pol_meta := new_meta ''team'' ''a-b''\<rparr>"
    and ?s = "sample_scan\<lparr>scan_Name := ''c''\<rparr>"
  have run: "fst (trivy_Cleanup mem_client mem_util ?p trivy_world) = Ret ()" by code_simp
  have "gone_or_marked job_desc (c_jobs (mem_cluster (snd (trivy_Cleanup mem_client mem_util ?p trivy_world)))
      (trivy_scan_key ?q ?s))"
    by (rule trivy_job_names_collide [OF mem_api_contract _ _ _ _ _ _ _ run_returns [OF run],
          where a = "''a''" and b = "''b''" and c = "''c''" and trivy = "\<lparr>trv_Scans = [sample_scan\<lparr>scan_Name := ''b-c''\<rparr>]\<rparr>"
          and scan = "sample_scan\<lparr>scan_Name := ''b-c''\<rparr>"]) simp_all
  then show ?thesis by (simp only: Let_def)
qed

end
