(* ===== verification/ManagerProcess.thy ===== *)
theory ManagerProcess
  imports ApiClient
begin

section \<open>The manager process\<close>

text \<open>
  \<open>cmd/main.go\<close> and the three \<open>SetupWithManager\<close> methods: the flags, the options of the two servers and
  the start of the manager. \<open>flag.Parse\<close> of the standard library is modelled at the types used; the
  flags that \<open>zap\<close> registers, the manager and its calls are parameters. Log lines are left out.
\<close>

subsection \<open>Package flag\<close>

text \<open>
  An argument is a flag with an optional value after an equals sign, the terminator, no flag (which
  ends the flags as the terminator does), or malformed.
\<close>

datatype flag_syntax = Flag string "string option" | Terminator | Positional | Malformed

definition flag_body :: "string \<Rightarrow> flag_syntax" where
  "flag_body name =
     (if name = '''' \<or> hd name = CHR ''-'' \<or> hd name = CHR ''='' then Malformed
      else (case dropWhile (\<lambda>c. c \<noteq> CHR ''='') name of
          [] \<Rightarrow> Flag name None
        | _ # value \<Rightarrow> Flag (takeWhile (\<lambda>c. c \<noteq> CHR ''='') name) (Some value)))"

fun flag_arg :: "string \<Rightarrow> flag_syntax" where
  "flag_arg (c # d # s) =
     (if c \<noteq> CHR ''-'' then Positional
      else if d = CHR ''-'' then (if s = '''' then Terminator else flag_body s)
      else flag_body (d # s))"
| "flag_arg _ = Positional"

definition parse_bool :: "string \<Rightarrow> bool option" where
  "parse_bool s =
     (if s \<in> {''1'', ''t'', ''T'', ''true'', ''TRUE'', ''True''} then Some True
      else if s \<in> {''0'', ''f'', ''F'', ''false'', ''FALSE'', ''False''} then Some False else None)"

subsection \<open>The flags of the process\<close>

record main_flags =
  metricsAddr :: string
  metricsCertPath :: string
  metricsCertName :: string
  metricsCertKey :: string
  webhookCertPath :: string
  webhookCertName :: string
  webhookCertKey :: string
  enableLeaderElection :: bool
  probeAddr :: string
  secureMetrics :: bool
  enableHTTP2 :: bool

definition default_flags :: main_flags where
  "default_flags = \<lparr>metricsAddr = ''0'', metricsCertPath = '''', metricsCertName = ''tls.crt'',
     metricsCertKey = ''tls.key'', webhookCertPath = '''', webhookCertName = ''tls.crt'', webhookCertKey = ''tls.key'',
     enableLeaderElection = False, probeAddr = '':8081'', secureMetrics = True, enableHTTP2 = False\<rparr>"

definition string_flags :: "(string \<times> (string \<Rightarrow> main_flags \<Rightarrow> main_flags)) list" where
  "string_flags =
     [(''metrics-bind-address'', \<lambda>s f. f\<lparr>metricsAddr := s\<rparr>),
      (''health-probe-bind-address'', \<lambda>s f. f\<lparr>probeAddr := s\<rparr>),
      (''webhook-cert-path'', \<lambda>s f. f\<lparr>webhookCertPath := s\<rparr>),
      (''webhook-cert-name'', \<lambda>s f. f\<lparr>webhookCertName := s\<rparr>),
      (''webhook-cert-key'', \<lambda>s f. f\<lparr>webhookCertKey := s\<rparr>),
      (''metrics-cert-path'', \<lambda>s f. f\<lparr>metricsCertPath := s\<rparr>),
      (''metrics-cert-name'', \<lambda>s f. f\<lparr>metricsCertName := s\<rparr>),
      (''metrics-cert-key'', \<lambda>s f. f\<lparr>metricsCertKey := s\<rparr>)]"

definition bool_flags :: "(string \<times> (bool \<Rightarrow> main_flags \<Rightarrow> main_flags)) list" where
  "bool_flags =
     [(''leader-elect'', \<lambda>b f. f\<lparr>enableLeaderElection := b\<rparr>),
      (''metrics-secure'', \<lambda>b f. f\<lparr>secureMetrics := b\<rparr>),
      (''enable-http2'', \<lambda>b f. f\<lparr>enableHTTP2 := b\<rparr>)]"

text \<open>
  The flags of \<open>zap\<close>: which names it registers, whether they are boolean, which values it accepts. A
  flag with a value is set (\<open>None\<close> when the value is refused); \<open>flag_is_bool\<close> is \<open>None\<close> for no flag.
\<close>

record zap_flags =
  zap_is_bool :: "string \<Rightarrow> bool option"
  zap_accepts :: "string \<Rightarrow> string \<Rightarrow> bool"

definition flag_is_bool :: "zap_flags \<Rightarrow> string \<Rightarrow> bool option" where
  "flag_is_bool Z name =
     (if map_of string_flags name \<noteq> None then Some False
      else if map_of bool_flags name \<noteq> None then Some True else zap_is_bool Z name)"

definition set_flag :: "zap_flags \<Rightarrow> string \<Rightarrow> string \<Rightarrow> main_flags \<Rightarrow> main_flags option" where
  "set_flag Z name value f =
     (case map_of string_flags name of
        Some upd \<Rightarrow> Some (upd value f)
      | None \<Rightarrow>
          (case map_of bool_flags name of
             Some upd \<Rightarrow> map_option (\<lambda>b. upd b f) (parse_bool value)
           | None \<Rightarrow> if zap_accepts Z name value then Some f else None))"

text \<open>
  \<open>flag.Parse()\<close> on the arguments: the flags, or the status with which the process exits. Asking for
  help exits with 0, every error with 2.
\<close>

fun parse_flags :: "zap_flags \<Rightarrow> string list \<Rightarrow> main_flags \<Rightarrow> nat + main_flags" where
  "parse_flags Z [] f = Inr f"
| "parse_flags Z (s # args) f =
     (case flag_arg s of
        Positional \<Rightarrow> Inr f
      | Terminator \<Rightarrow> Inr f
      | Malformed \<Rightarrow> Inl 2
      | Flag name given \<Rightarrow>
          (case flag_is_bool Z name of
             None \<Rightarrow> Inl (if name = ''help'' \<or> name = ''h'' then 0 else 2)
           | Some True \<Rightarrow>
               (case set_flag Z name (case given of None \<Rightarrow> ''true'' | Some v \<Rightarrow> v) f of
                  None \<Rightarrow> Inl 2
                | Some f' \<Rightarrow> parse_flags Z args f')
           | Some False \<Rightarrow>
               (case given of
                  Some v \<Rightarrow> (case set_flag Z name v f of None \<Rightarrow> Inl 2 | Some f' \<Rightarrow> parse_flags Z args f')
                | None \<Rightarrow>
                    (case args of
                       [] \<Rightarrow> Inl 2
                     | v # rest \<Rightarrow> (case set_flag Z name v f of None \<Rightarrow> Inl 2 | Some f' \<Rightarrow> parse_flags Z rest f')))))"

subsection \<open>The servers\<close>

record tls_config =
  NextProtos :: "string list"

text \<open>The filter that \<open>filters\<close> offers, by name: the code passes it on and never calls it.\<close>

datatype filter_provider = WithAuthenticationAndAuthorization

record webhook_options =
  wo_TLSOpts :: "(tls_config \<Rightarrow> tls_config) list"
  wo_CertDir :: string
  wo_CertName :: string
  wo_KeyName :: string

record metrics_options =
  mo_BindAddress :: string
  mo_SecureServing :: bool
  mo_TLSOpts :: "(tls_config \<Rightarrow> tls_config) list"
  mo_FilterProvider :: "filter_provider option"
  mo_CertDir :: string
  mo_CertName :: string
  mo_KeyName :: string

record manager_options =
  mgr_Metrics :: metrics_options
  mgr_WebhookServer :: webhook_options
  mgr_HealthProbeBindAddress :: string
  mgr_LeaderElection :: bool
  mgr_LeaderElectionID :: string

definition disableHTTP2 :: "tls_config \<Rightarrow> tls_config" where
  "disableHTTP2 c = c\<lparr>NextProtos := [''http/1.1'']\<rparr>"

definition main_tlsOpts :: "main_flags \<Rightarrow> (tls_config \<Rightarrow> tls_config) list" where
  "main_tlsOpts f = (if \<not> enableHTTP2 f then [] @ [disableHTTP2] else [])"

definition webhookServerOptions :: "main_flags \<Rightarrow> webhook_options" where
  "webhookServerOptions f =
     (let opts = \<lparr>wo_TLSOpts = main_tlsOpts f, wo_CertDir = '''', wo_CertName = '''', wo_KeyName = ''''\<rparr> in
      if 0 < length (webhookCertPath f) then
        opts\<lparr>wo_CertDir := webhookCertPath f, wo_CertName := webhookCertName f, wo_KeyName := webhookCertKey f\<rparr>
      else opts)"

definition metricsServerOptions :: "main_flags \<Rightarrow> metrics_options" where
  "metricsServerOptions f =
     (let opts = \<lparr>mo_BindAddress = metricsAddr f, mo_SecureServing = secureMetrics f, mo_TLSOpts = main_tlsOpts f,
            mo_FilterProvider = None, mo_CertDir = '''', mo_CertName = '''', mo_KeyName = ''''\<rparr>;
          opts = (if secureMetrics f then opts\<lparr>mo_FilterProvider := Some WithAuthenticationAndAuthorization\<rparr> else opts) in
      if 0 < length (metricsCertPath f) then
        opts\<lparr>mo_CertDir := metricsCertPath f, mo_CertName := metricsCertName f, mo_KeyName := metricsCertKey f\<rparr>
      else opts)"

definition managerOptions :: "main_flags \<Rightarrow> manager_options" where
  "managerOptions f =
     \<lparr>mgr_Metrics = metricsServerOptions f, mgr_WebhookServer = webhookServerOptions f,
      mgr_HealthProbeBindAddress = probeAddr f, mgr_LeaderElection = enableLeaderElection f,
      mgr_LeaderElectionID = ''bccb6885.eirenyx''\<rparr>"

subsection \<open>The start of the process\<close>

text \<open>
  The calls on controller-runtime that \<open>main\<close> makes. \<open>GetConfigOrDie\<close> ends the process with status 1 when
  there is no configuration (\<open>Inl\<close>); \<open>mgr_Complete\<close> is the builder: the kind a controller is for, its name.
\<close>

record 'w manager_api =
  mgr_GetConfig :: "('w, unit) ext"
  mgr_NewManager :: "manager_options \<Rightarrow> ('w, unit) ext"
  mgr_NewForConfig :: "('w, unit) ext"
  mgr_Complete :: "string \<Rightarrow> string \<Rightarrow> ('w, unit) ext"
  mgr_AddHealthzCheck :: "string \<Rightarrow> ('w, unit) ext"
  mgr_AddReadyzCheck :: "string \<Rightarrow> ('w, unit) ext"
  mgr_Start :: "('w, unit) ext"

definition NewClientFromConfig :: "'w manager_api \<Rightarrow> ('w, unit) act" where
  "NewClientFromConfig M = wrapA ''creating kubernetes clientset'' (callA (mgr_NewForConfig M))"

definition policy_SetupWithManager :: "'w manager_api \<Rightarrow> ('w, unit) act" where
  "policy_SetupWithManager M = callA (mgr_Complete M ''Policy'' ''policy'')"

definition tool_SetupWithManager :: "'w manager_api \<Rightarrow> ('w, unit) act" where
  "tool_SetupWithManager M = callA (mgr_Complete M ''Tool'' ''tool'')"

definition report_SetupWithManager :: "'w manager_api \<Rightarrow> ('w, unit) act" where
  "report_SetupWithManager M = callA (mgr_Complete M ''PolicyReport'' ''policyreport'')"

text \<open>\<open>if err := ...; err != nil { os.Exit(1) }\<close>: the rest is not run.\<close>

definition or_exit :: "('w, unit) act \<Rightarrow> ('w, nat) act \<Rightarrow> ('w, nat) act" where
  "or_exit m rest = tryA m (\<lambda>err. retA 1) (\<lambda>_. rest)"

text \<open>The result of \<open>main\<close> is the exit status of the process.\<close>

definition main_with_flags :: "'w manager_api \<Rightarrow> main_flags \<Rightarrow> ('w, nat) act" where
  "main_with_flags M f =
     or_exit (callA (mgr_GetConfig M))
    (or_exit (callA (mgr_NewManager M (managerOptions f)))
    (or_exit (NewClientFromConfig M)
    (or_exit (policy_SetupWithManager M)
    (or_exit (tool_SetupWithManager M)
    (or_exit (report_SetupWithManager M)
    (or_exit (callA (mgr_AddHealthzCheck M ''healthz''))
    (or_exit (callA (mgr_AddReadyzCheck M ''readyz''))
    (or_exit (callA (mgr_Start M)) (retA 0)))))))))"

definition manager_main :: "'w manager_api \<Rightarrow> zap_flags \<Rightarrow> string list \<Rightarrow> ('w, nat) act" where
  "manager_main M Z args =
     (case parse_flags Z args default_flags of
        Inl status \<Rightarrow> retA status
      | Inr f \<Rightarrow> main_with_flags M f)"

subsection \<open>What a start does, in order\<close>

datatype startup_event =
    Configured
  | Managed manager_options
  | Connected
  | Controls string string
  | Healthz string
  | Readyz string
  | Runs

text \<open>A log of the calls, each with whether it succeeded; \<open>Start\<close> returns when the manager stops.\<close>

definition logs :: "('w \<Rightarrow> (startup_event \<times> bool) list) \<Rightarrow> startup_event \<Rightarrow> ('w, unit) ext \<Rightarrow> bool" where
  "logs lg e op \<longleftrightarrow> (\<forall>w r w'. op w = (r, w') \<longrightarrow> lg w' = lg w @ [(e, r = Inr ())])"

definition manager_contract :: "'w manager_api \<Rightarrow> ('w \<Rightarrow> (startup_event \<times> bool) list) \<Rightarrow> bool" where
  "manager_contract M lg \<longleftrightarrow>
     logs lg Configured (mgr_GetConfig M) \<and> (\<forall>opts. logs lg (Managed opts) (mgr_NewManager M opts)) \<and>
     logs lg Connected (mgr_NewForConfig M) \<and>
     (\<forall>kind name. logs lg (Controls kind name) (mgr_Complete M kind name)) \<and>
     (\<forall>name. logs lg (Healthz name) (mgr_AddHealthzCheck M name)) \<and>
     (\<forall>name. logs lg (Readyz name) (mgr_AddReadyzCheck M name)) \<and>
     logs lg Runs (mgr_Start M)"

definition startup_sequence :: "main_flags \<Rightarrow> startup_event list" where
  "startup_sequence f =
     [Configured, Managed (managerOptions f), Connected, Controls ''Policy'' ''policy'', Controls ''Tool'' ''tool'',
      Controls ''PolicyReport'' ''policyreport'', Healthz ''healthz'', Readyz ''readyz'', Runs]"

text \<open>
  A run that makes the calls of \<open>es\<close> in order: all of them succeed and the status is 0, or the first that
  fails is the last one made and the status is 1.
\<close>

definition starts :: "('w \<Rightarrow> (startup_event \<times> bool) list) \<Rightarrow> startup_event list \<Rightarrow> ('w, nat) act \<Rightarrow> bool" where
  "starts lg es m \<longleftrightarrow> (\<forall>w r w'. m w = (r, w') \<longrightarrow>
     r = Ret 0 \<and> lg w' = lg w @ map (\<lambda>e. (e, True)) es \<or>
     r = Ret 1 \<and> (\<exists>pre e rest. es = pre @ e # rest \<and> lg w' = lg w @ map (\<lambda>e. (e, True)) pre @ [(e, False)]))"

lemma starts_done: "starts lg [] (retA 0)"
  by (simp add: starts_def retA_def)

lemma starts_logged:
  assumes "logs lg e op" "starts lg es rest"
  shows "starts lg (e # es) (or_exit (callA op) rest)"
  unfolding starts_def
proof (intro allI impI)
  fix w r w' assume run: "or_exit (callA op) rest w = (r, w')"
  obtain a w1 where op: "op w = (a, w1)" by fastforce
  with assms(1) have log: "lg w1 = lg w @ [(e, a = Inr ())]" by (simp add: logs_def)
  show "r = Ret 0 \<and> lg w' = lg w @ map (\<lambda>e. (e, True)) (e # es) \<or>
    r = Ret 1 \<and> (\<exists>pre e' rst. e # es = pre @ e' # rst \<and> lg w' = lg w @ map (\<lambda>e. (e, True)) pre @ [(e', False)])"
  proof (cases a)
    case (Inl x)
    with run op log have "r = Ret 1" "lg w' = lg w @ map (\<lambda>e. (e, True)) [] @ [(e, False)]"
      by (simp_all add: or_exit_def tryA_def callA_def retA_def)
    then show ?thesis by blast
  next
    case (Inr u)
    with run op have "rest w1 = (r, w')" by (simp add: or_exit_def tryA_def callA_def)
    with assms(2) consider "r = Ret 0" "lg w' = lg w1 @ map (\<lambda>e. (e, True)) es"
      | pre e' rst where "r = Ret 1" "es = pre @ e' # rst" "lg w' = lg w1 @ map (\<lambda>e. (e, True)) pre @ [(e', False)]"
      unfolding starts_def by blast
    then show ?thesis
    proof cases
      case 2
      with log Inr have "e # es = (e # pre) @ e' # rst" "lg w' = lg w @ map (\<lambda>e. (e, True)) (e # pre) @ [(e', False)]"
        by simp_all
      with 2(1) show ?thesis by blast
    qed (use log Inr in simp)
  qed
qed

lemma or_exit_wrapA: "or_exit (wrapA s m) rest = or_exit m rest"
  by (rule ext) (auto simp: or_exit_def tryA_def wrapA_def split: prod.splits res.splits)

lemma main_starts:
  assumes "manager_contract M lg"
  shows "starts lg (startup_sequence f) (main_with_flags M f)"
  unfolding startup_sequence_def main_with_flags_def NewClientFromConfig_def or_exit_wrapA
    policy_SetupWithManager_def tool_SetupWithManager_def report_SetupWithManager_def
  using assms unfolding manager_contract_def by (blast intro: starts_logged starts_done)

subsection \<open>Command lines\<close>

lemma flag_arg_assign:
  assumes "name \<noteq> ''''" "hd name \<noteq> CHR ''-''" "CHR ''='' \<notin> set name"
  shows "flag_arg (''--'' @ name @ ''='' @ value) = Flag name (Some value)"
proof -
  have "hd name \<noteq> CHR ''=''" using assms(1,3) by (metis hd_in_set)
  moreover have "takeWhile (\<lambda>c. c \<noteq> CHR ''='') (name @ ''='' @ value) = name"
    "dropWhile (\<lambda>c. c \<noteq> CHR ''='') (name @ ''='' @ value) = ''='' @ value"
    using assms(3) by (auto simp: takeWhile_append takeWhile_eq_all_conv dropWhile_append)
  ultimately show ?thesis using assms(1,2) by (simp add: flag_body_def)
qed

text \<open>The command line that says every flag.\<close>

definition show_bool :: "bool \<Rightarrow> string" where
  "show_bool b = (if b then ''true'' else ''false'')"

definition flag_values :: "main_flags \<Rightarrow> (string \<times> string) list" where
  "flag_values f =
     [(''metrics-bind-address'', metricsAddr f), (''health-probe-bind-address'', probeAddr f),
      (''webhook-cert-path'', webhookCertPath f), (''webhook-cert-name'', webhookCertName f),
      (''webhook-cert-key'', webhookCertKey f), (''metrics-cert-path'', metricsCertPath f),
      (''metrics-cert-name'', metricsCertName f), (''metrics-cert-key'', metricsCertKey f),
      (''leader-elect'', show_bool (enableLeaderElection f)), (''metrics-secure'', show_bool (secureMetrics f)),
      (''enable-http2'', show_bool (enableHTTP2 f))]"

lemma parse_assignments:
  assumes "\<forall>(name, value) \<in> set vs. name \<noteq> '''' \<and> hd name \<noteq> CHR ''-'' \<and> CHR ''='' \<notin> set name \<and> flag_is_bool Z name \<noteq> None"
    and "foldl (\<lambda>f (name, value). Option.bind f (set_flag Z name value)) (Some f) vs = Some f'"
  shows "parse_flags Z (map (\<lambda>(name, value). ''--'' @ name @ ''='' @ value) vs) f = Inr f'"
  using assms
proof (induction vs arbitrary: f)
  case (Cons v vs)
  obtain name val where v: "v = (name, val)" by fastforce
  have none: "foldl (\<lambda>f (name, value). Option.bind f (set_flag Z name value)) None vs = None"
    by (induction vs) (auto split: prod.splits)
  obtain f1 where "set_flag Z name val f = Some f1"
    using Cons.prems(2) none by (cases "set_flag Z name val f") (auto simp: v)
  with Cons v show ?case by (auto simp: flag_arg_assign [simplified] split: option.splits bool.splits)
qed simp

lemma parse_show_bool [simp]: "parse_bool (show_bool b) = Some b"
  by (simp add: parse_bool_def show_bool_def)

text \<open>Which flag an argument may have set.\<close>

definition names_flag :: "string \<Rightarrow> string \<Rightarrow> bool" where
  "names_flag name s \<longleftrightarrow> (case flag_arg s of Flag n _ \<Rightarrow> n = name | _ \<Rightarrow> False)"

lemma set_flag_others:
  assumes "set_flag Z name value f = Some f'"
  shows "name \<noteq> ''enable-http2'' \<Longrightarrow> enableHTTP2 f' = enableHTTP2 f"
    and "name \<noteq> ''metrics-secure'' \<Longrightarrow> secureMetrics f' = secureMetrics f"
  using assms by (auto simp: set_flag_def string_flags_def bool_flags_def split: if_splits option.splits)

text \<open>What no flag of the command line can change is as it was.\<close>

lemma parse_flags_keeps:
  assumes "parse_flags Z args f = Inr f'"
    and "\<And>name v f f'. \<exists>s \<in> set args. names_flag name s \<Longrightarrow> set_flag Z name v f = Some f' \<Longrightarrow> g f' = g f"
  shows "g f' = g f"
  using assms
proof (induction Z args f rule: parse_flags.induct)
  case (2 Z s args f)
  show ?case
  proof (cases "flag_arg s")
    case (Flag name given)
    then have step: "g f1 = g f" if "set_flag Z name v f = Some f1" for v f1
      using that 2(5) by (auto simp: names_flag_def)
    have later: "g f2 = g f1" if "set_flag Z n v f1 = Some f2" "\<exists>s \<in> set args. names_flag n s" for n v f1 f2
      using that 2(5) by (meson list.set_intros(2))
    show ?thesis
    proof (cases "flag_is_bool Z name")
      case (Some b)
      then consider f1 v where "set_flag Z name v f = Some f1" "b = True" "parse_flags Z args f1 = Inr f'" "v = (case given of None \<Rightarrow> ''true'' | Some v \<Rightarrow> v)"
        | f1 v where "set_flag Z name v f = Some f1" "b = False" "given = Some v" "parse_flags Z args f1 = Inr f'"
        | f1 v rest where "set_flag Z name v f = Some f1" "b = False" "given = None" "args = v # rest" "parse_flags Z rest f1 = Inr f'"
        using 2(4) Flag by (auto split: option.splits bool.splits list.splits)
      then show ?thesis
      proof cases
        case 1
        have "g f' = g f1" by (rule 2(1) [OF Flag Some 1(2) _ 1(3)]) (use 1 later in auto)
        with step [OF 1(1)] show ?thesis by simp
      next
        case 2
        have "g f' = g f1" by (rule "2.IH"(3) [OF Flag Some 2(2,3,1,4)]) (use later in auto)
        with step [OF 2(1)] show ?thesis by simp
      next
        case 3
        have "g f' = g f1" by (rule "2.IH"(2) [OF Flag Some 3(2,3,4,1,5)]) (use 3 later in auto)
        with step [OF 3(1)] show ?thesis by simp
      qed
    qed (use 2(4) Flag in simp)
  qed (use 2(4) in simp_all)
qed simp

lemma parse_flags_others:
  assumes "parse_flags Z args f = Inr f'"
  shows "\<not> (\<exists>s \<in> set args. names_flag ''enable-http2'' s) \<Longrightarrow> enableHTTP2 f' = enableHTTP2 f"
    and "\<not> (\<exists>s \<in> set args. names_flag ''metrics-secure'' s) \<Longrightarrow> secureMetrics f' = secureMetrics f"
  using parse_flags_keeps [OF assms, of enableHTTP2] parse_flags_keeps [OF assms, of secureMetrics] set_flag_others
  by metis+

subsection \<open>Properties\<close>

text \<open>
  C36: The process starts in order or not at all, and says so by its exit status: a command line it cannot
  read ends it before any call, with the status of \<open>flag\<close>. Otherwise it makes the calls of the startup
  sequence - configuration, manager, clientset, the three controllers, the two checks, the running manager -
  one after the other. It exits with 0 exactly when every call succeeded, the manager having run and stopped
  without an error; else the first call that fails, be it the run of the manager, is the last one and the
  status is 1. So a manager that runs serves all three kinds.
\<close>

theorem main_startup_order:
  assumes "manager_contract M lg" "manager_main M Z args w = (r, w')"
  shows "case parse_flags Z args default_flags of
      Inl status \<Rightarrow> r = Ret status \<and> w' = w
    | Inr f \<Rightarrow>
        (let calls = [Configured, Managed (managerOptions f), Connected, Controls ''Policy'' ''policy'',
           Controls ''Tool'' ''tool'', Controls ''PolicyReport'' ''policyreport'', Healthz ''healthz'',
           Readyz ''readyz'', Runs] in
         r = Ret 0 \<and> lg w' = lg w @ map (\<lambda>e. (e, True)) calls \<or>
         r = Ret 1 \<and> (\<exists>pre e rest. calls = pre @ e # rest \<and>
           lg w' = lg w @ map (\<lambda>e. (e, True)) pre @ [(e, False)]))"
proof (cases "parse_flags Z args default_flags")
  case (Inl status)
  with assms(2) show ?thesis by (simp add: manager_main_def retA_def)
next
  case (Inr f)
  with assms(2) have "main_with_flags M f w = (r, w')" by (simp add: manager_main_def)
  with main_starts [OF assms(1), of f] show ?thesis
    unfolding starts_def startup_sequence_def Inr sum.case Let_def by blast
qed

text \<open>
  C37: Safe by default: unless the command line names the flag enable-http2, the TLS options of both servers
  leave HTTP/1.1 as the only protocol, whatever else it says; unless it names metrics-secure, the
  metrics are served over TLS and behind authentication and authorization.
\<close>

theorem main_safe_by_default:
  assumes "parse_flags Z args default_flags = Inr f"
  shows "(\<not> (\<exists>s \<in> set args. names_flag ''enable-http2'' s) \<longrightarrow>
      NextProtos (fold (\<lambda>opt c. opt c) (mo_TLSOpts (mgr_Metrics (managerOptions f))) c) = [''http/1.1''] \<and>
      NextProtos (fold (\<lambda>opt c. opt c) (wo_TLSOpts (mgr_WebhookServer (managerOptions f))) c) = [''http/1.1'']) \<and>
    (\<not> (\<exists>s \<in> set args. names_flag ''metrics-secure'' s) \<longrightarrow>
      mo_SecureServing (mgr_Metrics (managerOptions f)) \<and>
      mo_FilterProvider (mgr_Metrics (managerOptions f)) = Some WithAuthenticationAndAuthorization)"
  using parse_flags_others [OF assms]
  by (auto simp: managerOptions_def metricsServerOptions_def webhookServerOptions_def main_tlsOpts_def disableHTTP2_def
      default_flags_def Let_def)

text \<open>
  Every configuration has a command line: writing each flag as an assignment and parsing that line, from
  the defaults, gives the configuration back.
\<close>

lemma main_flags_roundtrip:
  "parse_flags Z (map (\<lambda>(name, value). ''--'' @ name @ ''='' @ value) (flag_values f)) default_flags = Inr f"
proof (rule parse_assignments)
  show "foldl (\<lambda>f (name, value). Option.bind f (set_flag Z name value)) (Some default_flags) (flag_values f) = Some f"
    by (cases f) (simp add: flag_values_def set_flag_def string_flags_def bool_flags_def)
qed (auto simp: flag_values_def flag_is_bool_def string_flags_def bool_flags_def)

subsection \<open>Witnesses\<close>

text \<open>A world that is the log, and a manager whose calls succeed until the log has \<open>n\<close> entries.\<close>

definition log_manager :: "nat \<Rightarrow> (startup_event \<times> bool) list manager_api" where
  "log_manager n =
     (let call = (\<lambda>e w. if length w < n then (Inr (), w @ [(e, True)]) else (Inl (ExtError ''refused''), w @ [(e, False)])) in
      \<lparr>mgr_GetConfig = call Configured, mgr_NewManager = (\<lambda>opts. call (Managed opts)),
       mgr_NewForConfig = call Connected, mgr_Complete = (\<lambda>kind name. call (Controls kind name)),
       mgr_AddHealthzCheck = (\<lambda>name. call (Healthz name)), mgr_AddReadyzCheck = (\<lambda>name. call (Readyz name)),
       mgr_Start = call Runs\<rparr>)"

lemma log_manager_contract: "manager_contract (log_manager n) (\<lambda>w. w)"
  by (auto simp: manager_contract_def logs_def log_manager_def Let_def split: if_splits)

definition no_zap :: zap_flags where
  "no_zap = \<lparr>zap_is_bool = (\<lambda>_. None), zap_accepts = (\<lambda>_ _. False)\<rparr>"

text \<open>The command line of the deployment under \<open>config/\<close>.\<close>

definition deployed_args :: "string list" where
  "deployed_args = [''--metrics-bind-address=:8443'', ''--leader-elect'', ''--health-probe-bind-address=:8081'']"

lemma deployed_flags:
  "parse_flags Z deployed_args default_flags =
     Inr (default_flags\<lparr>metricsAddr := '':8443'', enableLeaderElection := True\<rparr>)"
  by (simp add: deployed_args_def flag_body_def flag_is_bool_def set_flag_def string_flags_def bool_flags_def
      parse_bool_def default_flags_def)

text \<open>A manager that runs and stops, and one whose run ends with an error.\<close>

lemmas startup_evaluated = manager_main_def deployed_flags main_with_flags_def or_exit_def tryA_def callA_def retA_def
  log_manager_def NewClientFromConfig_def policy_SetupWithManager_def tool_SetupWithManager_def
  report_SetupWithManager_def wrapA_def

lemma main_startup_order_witness:
  "let f = default_flags\<lparr>metricsAddr := '':8443'', enableLeaderElection := True\<rparr>;
       calls = [Configured, Managed (managerOptions f), Connected, Controls ''Policy'' ''policy'',
         Controls ''Tool'' ''tool'', Controls ''PolicyReport'' ''policyreport'', Healthz ''healthz'', Readyz ''readyz'', Runs];
       failed = manager_main (log_manager 8) no_zap deployed_args []
   in manager_main (log_manager 9) no_zap deployed_args [] = (Ret 0, map (\<lambda>e. (e, True)) calls) \<and>
      fst failed = Ret 1 \<and>
      (\<exists>pre e rest. calls = pre @ e # rest \<and> snd failed = map (\<lambda>e. (e, True)) pre @ [(e, False)])"
proof -
  obtain r w where run: "manager_main (log_manager 9) no_zap deployed_args [] = (r, w)" by fastforce
  have "r = Ret 0" using run by (auto simp: startup_evaluated Let_def)
  note ran = main_startup_order [OF log_manager_contract run, unfolded deployed_flags sum.case Let_def]
  obtain q u where fails: "manager_main (log_manager 8) no_zap deployed_args [] = (q, u)" by fastforce
  have "q = Ret 1" using fails by (auto simp: startup_evaluated Let_def)
  note failed = main_startup_order [OF log_manager_contract fails, unfolded deployed_flags sum.case Let_def]
  from ran \<open>r = Ret 0\<close> failed \<open>q = Ret 1\<close> show ?thesis
    unfolding Let_def run fails by (simp del: list.map)
qed

lemma main_safe_by_default_witness:
  "NextProtos (fold (\<lambda>opt c. opt c) (mo_TLSOpts (mgr_Metrics (managerOptions
     (default_flags\<lparr>metricsAddr := '':8443'', enableLeaderElection := True\<rparr>)))) \<lparr>NextProtos = [''h2'']\<rparr>) = [''http/1.1'']"
proof -
  have "\<not> (\<exists>s \<in> set deployed_args. names_flag ''enable-http2'' s)"
    by (simp add: deployed_args_def names_flag_def flag_body_def)
  with main_safe_by_default [OF deployed_flags [of no_zap]] show ?thesis by blast
qed

end
