(* ===== verification/SchemeSetup.thy ===== *)
theory SchemeSetup
  imports Prelude
begin

section \<open>Registration of the types\<close>

text \<open>
  \<open>api/v1alpha1/groupversion_info.go\<close>, \<open>api/litmus/litmus.go\<close>, the \<open>init\<close> functions of their types and that of
  \<open>cmd/main.go\<close>. The builders and the scheme are controller-runtime's and apimachinery's, so they are
  parameters; a Go type is registered under its name. The \<open>init\<close> functions of a package run in the order
  of its files.
\<close>

record group_version =
  gv_Group :: string
  gv_Version :: string

record ('s, 'b) scheme_lib =
  sc_NewScheme :: 's
  sc_Builder :: "group_version \<Rightarrow> 'b"
  sc_Register :: "string list \<Rightarrow> 'b \<Rightarrow> 'b"
  sc_AddToScheme :: "'b \<Rightarrow> 's \<Rightarrow> go_error + 's"
  sc_clientgo_AddToScheme :: "'s \<Rightarrow> go_error + 's"
  sc_aqua_AddToScheme :: "'s \<Rightarrow> go_error + 's"

subsection \<open>The packages of the API\<close>

definition GroupVersion :: group_version where
  "GroupVersion = \<lparr>gv_Group = ''eirenyx.eirenyx'', gv_Version = ''v1alpha1''\<rparr>"

definition policy_types_init :: "('s, 'b) scheme_lib \<Rightarrow> 'b \<Rightarrow> 'b" where
  "policy_types_init L = sc_Register L [''Policy'', ''PolicyList'']"

definition policyreport_types_init :: "('s, 'b) scheme_lib \<Rightarrow> 'b \<Rightarrow> 'b" where
  "policyreport_types_init L = sc_Register L [''PolicyReport'', ''PolicyReportList'']"

definition tool_types_init :: "('s, 'b) scheme_lib \<Rightarrow> 'b \<Rightarrow> 'b" where
  "tool_types_init L = sc_Register L [''Tool'', ''ToolList'']"

definition v1alpha1_SchemeBuilder :: "('s, 'b) scheme_lib \<Rightarrow> 'b" where
  "v1alpha1_SchemeBuilder L =
     tool_types_init L (policyreport_types_init L (policy_types_init L (sc_Builder L GroupVersion)))"

definition litmus_GroupVersion :: group_version where
  "litmus_GroupVersion = \<lparr>gv_Group = ''litmuschaos.io'', gv_Version = ''litmus''\<rparr>"

definition chaosengine_types_init :: "('s, 'b) scheme_lib \<Rightarrow> 'b \<Rightarrow> 'b" where
  "chaosengine_types_init L = sc_Register L [''ChaosEngine'', ''ChaosEngineList'']"

definition chaosexperiment_types_init :: "('s, 'b) scheme_lib \<Rightarrow> 'b \<Rightarrow> 'b" where
  "chaosexperiment_types_init L = sc_Register L [''ChaosExperiment'', ''ChaosExperimentList'']"

definition chaosresult_types_init :: "('s, 'b) scheme_lib \<Rightarrow> 'b \<Rightarrow> 'b" where
  "chaosresult_types_init L = sc_Register L [''ChaosResult'', ''ChaosResultList'']"

definition litmus_SchemeBuilder :: "('s, 'b) scheme_lib \<Rightarrow> 'b" where
  "litmus_SchemeBuilder L =
     chaosresult_types_init L (chaosexperiment_types_init L (chaosengine_types_init L
       (sc_Builder L litmus_GroupVersion)))"

subsection \<open>The init function of the process\<close>

text \<open>\<open>utilruntime.Must(add(scheme))\<close>: an error panics.\<close>

definition mustA :: "('s \<Rightarrow> go_error + 's) \<Rightarrow> ('s, unit) act" where
  "mustA add = (\<lambda>s. case add s of Inl err \<Rightarrow> (Panic (error_text err), s) | Inr s' \<Rightarrow> (Ret (), s'))"

definition main_init :: "('s, 'b) scheme_lib \<Rightarrow> ('s, unit) act" where
  "main_init L =
     bindA (mustA (sc_clientgo_AddToScheme L)) (\<lambda>_.
     bindA (mustA (sc_AddToScheme L (litmus_SchemeBuilder L))) (\<lambda>_.
     bindA (mustA (sc_AddToScheme L (v1alpha1_SchemeBuilder L))) (\<lambda>_.
     mustA (sc_aqua_AddToScheme L))))"

subsection \<open>The scheme of the process\<close>

text \<open>
  \<open>known\<close> observes the kinds of a scheme, \<open>built\<close> those a builder adds. What client-go adds is assumed for the
  kinds the operator uses.
\<close>

type_synonym gvk = "group_version \<times> string"

definition core_kinds :: "gvk set" where
  "core_kinds =
     {(\<lparr>gv_Group = ''batch'', gv_Version = ''v1''\<rparr>, ''Job''), (\<lparr>gv_Group = '''', gv_Version = ''v1''\<rparr>, ''ConfigMap''),
      (\<lparr>gv_Group = '''', gv_Version = ''v1''\<rparr>, ''NamespaceList''), (\<lparr>gv_Group = '''', gv_Version = ''v1''\<rparr>, ''PodList'')}"

definition scheme_contract :: "('s, 'b) scheme_lib \<Rightarrow> ('s \<Rightarrow> gvk set) \<Rightarrow> ('b \<Rightarrow> group_version \<times> string set) \<Rightarrow> bool" where
  "scheme_contract L known built \<longleftrightarrow>
     (\<forall>gv. built (sc_Builder L gv) = (gv, {})) \<and>
     (\<forall>ks b. built (sc_Register L ks b) = (fst (built b), snd (built b) \<union> set ks)) \<and>
     (\<forall>b s s'. sc_AddToScheme L b s = Inr s' \<longrightarrow> known s' = known s \<union> {fst (built b)} \<times> snd (built b)) \<and>
     (\<forall>s s'. sc_clientgo_AddToScheme L s = Inr s' \<longrightarrow> known s \<union> core_kinds \<subseteq> known s') \<and>
     (\<forall>s s'. sc_aqua_AddToScheme L s = Inr s' \<longrightarrow> known s \<subseteq> known s')"

lemma scheme_contractD:
  assumes "scheme_contract L known built"
  shows "built (sc_Builder L gv) = (gv, {})"
    and "built (sc_Register L ks b) = (fst (built b), snd (built b) \<union> set ks)"
    and "sc_AddToScheme L b s = Inr s' \<Longrightarrow> known s' = known s \<union> {fst (built b)} \<times> snd (built b)"
    and "sc_clientgo_AddToScheme L s = Inr s' \<Longrightarrow> known s \<union> core_kinds \<subseteq> known s'"
    and "sc_aqua_AddToScheme L s = Inr s' \<Longrightarrow> known s \<subseteq> known s'"
  using assms unfolding scheme_contract_def by - (elim conjE; metis)+

definition v1alpha1_kinds :: "string list" where
  "v1alpha1_kinds = [''Policy'', ''PolicyList'', ''PolicyReport'', ''PolicyReportList'', ''Tool'', ''ToolList'']"

definition litmus_kinds :: "string list" where
  "litmus_kinds = [''ChaosEngine'', ''ChaosEngineList'', ''ChaosExperiment'', ''ChaosExperimentList'',
     ''ChaosResult'', ''ChaosResultList'']"

lemma set_in_pairs: "{} \<union> set [a, b] \<union> set [c, d] \<union> set [e, f] = set [a, b, c, d, e, f]"
  by auto

lemma builders:
  assumes "scheme_contract L known built"
  shows "built (v1alpha1_SchemeBuilder L) = (GroupVersion, set v1alpha1_kinds)"
    "built (litmus_SchemeBuilder L) = (litmus_GroupVersion, set litmus_kinds)"
  unfolding v1alpha1_SchemeBuilder_def policy_types_init_def policyreport_types_init_def tool_types_init_def
    litmus_SchemeBuilder_def chaosengine_types_init_def chaosexperiment_types_init_def chaosresult_types_init_def
    v1alpha1_kinds_def litmus_kinds_def
  by (simp_all only: scheme_contractD(1,2) [OF assms] fst_conv snd_conv set_in_pairs)

text \<open>
  When \<open>init\<close> returns, the scheme knows every kind that the operator reads or writes: its own, those of
  Litmus, and the core ones.
\<close>

lemma main_init_scheme:
  assumes "scheme_contract L known built" "main_init L s = (Ret u, s')"
  shows "{GroupVersion} \<times> set v1alpha1_kinds \<union> {litmus_GroupVersion} \<times> set litmus_kinds \<union> core_kinds \<subseteq> known s'"
proof -
  from assms(2) obtain s1 s2 s3 where adds: "sc_clientgo_AddToScheme L s = Inr s1"
    "sc_AddToScheme L (litmus_SchemeBuilder L) s1 = Inr s2"
    "sc_AddToScheme L (v1alpha1_SchemeBuilder L) s2 = Inr s3" "sc_aqua_AddToScheme L s3 = Inr s'"
    by (auto simp: main_init_def mustA_def bindA_def split: sum.splits)
  note laws = scheme_contractD [OF assms(1)]
  from laws(3) [OF adds(2)] laws(3) [OF adds(3)] laws(4) [OF adds(1)] laws(5) [OF adds(4)] show ?thesis
    unfolding builders [OF assms(1)] fst_conv snd_conv by blast
qed

text \<open>Sets of kinds as schemes, and pairs as builders, keep the contract; then \<open>init\<close> returns.\<close>

definition set_schemes :: "(gvk set, group_version \<times> string set) scheme_lib" where
  "set_schemes =
     \<lparr>sc_NewScheme = {}, sc_Builder = (\<lambda>gv. (gv, {})), sc_Register = (\<lambda>ks b. (fst b, snd b \<union> set ks)),
      sc_AddToScheme = (\<lambda>b s. Inr (s \<union> {fst b} \<times> snd b)), sc_clientgo_AddToScheme = (\<lambda>s. Inr (s \<union> core_kinds)),
      sc_aqua_AddToScheme = Inr\<rparr>"

lemma main_init_scheme_sample:
  "(GroupVersion, ''Tool'') \<in> snd (main_init set_schemes (sc_NewScheme set_schemes)) \<and>
   (litmus_GroupVersion, ''ChaosEngine'') \<in> snd (main_init set_schemes (sc_NewScheme set_schemes))"
proof -
  have contract: "scheme_contract set_schemes id id"
    by (auto simp: scheme_contract_def set_schemes_def)
  have "fst (main_init set_schemes {}) = Ret ()"
    by (simp add: main_init_def mustA_def bindA_def set_schemes_def)
  then obtain s where run: "main_init set_schemes {} = (Ret (), s)" by (metis prod.collapse)
  have "''Tool'' \<in> set v1alpha1_kinds" "''ChaosEngine'' \<in> set litmus_kinds"
    by (simp_all add: v1alpha1_kinds_def litmus_kinds_def)
  with main_init_scheme [OF contract run] run show ?thesis by (auto simp: set_schemes_def)
qed

end
