(* ===== verification/Rbac.thy ===== *)
theory Rbac
  imports Operator
begin

section \<open>The operator's permissions\<close>

text \<open>
  \<open>internal/controller/rbac.go\<close>: the markers from which the operator's role is generated, as a table, and
  the meaning that the API server gives to a rule. A client that writes down every request it makes shows
  that the controllers ask for nothing the role does not grant.
\<close>

subsection \<open>The markers\<close>

record rbac_rule =
  rb_groups :: "string list"
  rb_resources :: "string list"
  rb_verbs :: "string list"

definition marker :: "string \<Rightarrow> string \<Rightarrow> string list \<Rightarrow> rbac_rule" where
  "marker groups resources verbs = \<lparr>rb_groups = [groups], rb_resources = [resources], rb_verbs = verbs\<rparr>"

definition object_verbs :: "string list" where
  "object_verbs = [''get'', ''list'', ''watch'', ''create'', ''update'', ''patch'', ''delete'']"

definition rbac_markers :: "rbac_rule list" where
  "rbac_markers =
     [marker ''eirenyx.eirenyx'' ''tools'' object_verbs,
      marker ''eirenyx.eirenyx'' ''tools/status'' [''get'', ''update'', ''patch''],
      marker ''eirenyx.eirenyx'' ''tools/finalizers'' [''update''],
      marker ''eirenyx.eirenyx'' ''policies'' object_verbs,
      marker ''eirenyx.eirenyx'' ''policies/status'' [''get'', ''update'', ''patch''],
      marker ''eirenyx.eirenyx'' ''policies/finalizers'' [''update''],
      marker ''eirenyx.eirenyx'' ''policyreports'' object_verbs,
      marker ''eirenyx.eirenyx'' ''policyreports/status'' [''get'', ''update'', ''patch''],
      marker ''eirenyx.eirenyx'' ''policyreports/finalizers'' [''update''],
      marker '''' ''namespaces'' [''*''],
      marker '''' ''serviceaccounts'' [''*''],
      marker '''' ''configmaps'' [''*''],
      marker '''' ''secrets'' [''*''],
      marker '''' ''services'' [''*''],
      marker '''' ''pods'' [''*''],
      marker '''' ''pods/log'' [''get'', ''list'', ''watch''],
      marker ''apps'' ''deployments'' [''*''],
      marker ''apps'' ''daemonsets'' [''*''],
      marker ''apps'' ''statefulsets'' [''*''],
      marker ''apps'' ''replicasets'' [''*''],
      marker ''batch'' ''jobs'' object_verbs,
      marker ''batch'' ''jobs/status'' [''get''],
      marker ''rbac.authorization.k8s.io'' ''roles'' [''*''],
      marker ''rbac.authorization.k8s.io'' ''rolebindings'' [''*''],
      marker ''rbac.authorization.k8s.io'' ''clusterroles'' [''*''],
      marker ''rbac.authorization.k8s.io'' ''clusterrolebindings'' [''*''],
      marker ''apiextensions.k8s.io'' ''*'' [''*''],
      marker ''litmuschaos.io'' ''*'' [''*''],
      marker ''aquasecurity.github.io'' ''*'' [''*''],
      marker '''' ''events'' [''create'', ''patch'']]"

subsection \<open>Requests and rules\<close>

text \<open>
  A request names the API group, the resource - with its subresource after a slash - and the verb. A rule
  grants it when it lists all three or \<open>*\<close> in their place.
\<close>

record request =
  rq_group :: string
  rq_resource :: string
  rq_verb :: string

definition lists :: "string list \<Rightarrow> string \<Rightarrow> bool" where
  "lists xs x \<longleftrightarrow> x \<in> set xs \<or> ''*'' \<in> set xs"

definition rule_grants :: "rbac_rule \<Rightarrow> request \<Rightarrow> bool" where
  "rule_grants rule q \<longleftrightarrow>
     lists (rb_groups rule) (rq_group q) \<and> lists (rb_resources rule) (rq_resource q) \<and> lists (rb_verbs rule) (rq_verb q)"

definition role_grants :: "rbac_rule list \<Rightarrow> request \<Rightarrow> bool" where
  "role_grants role q \<longleftrightarrow> list_ex (\<lambda>rule. rule_grants rule q) role"

subsection \<open>A client that writes down its requests\<close>

text \<open>
  The world gets a log. The client of the manager reads through a cache, which lists and watches the kind
  as soon as it is read; \<open>CreateOrUpdate\<close> reads, then creates or updates. Status updates go to the
  subresource. Logs of pods are the subresource \<open>pods/log\<close>.
\<close>

type_synonym 'w logged = "'w \<times> request list"

definition requesting :: "string \<Rightarrow> string \<Rightarrow> string list \<Rightarrow> ('w, 'a) ext \<Rightarrow> ('w logged, 'a) ext" where
  "requesting grp resource verbs op =
     (\<lambda>(w, log). case op w of (r, w') \<Rightarrow>
        (r, (w', log @ map (\<lambda>v. \<lparr>rq_group = grp, rq_resource = resource, rq_verb = v\<rparr>) verbs)))"

definition unlogged :: "('w, 'a) ext \<Rightarrow> ('w logged, 'a) ext" where
  "unlogged op = (\<lambda>(w, log). case op w of (r, w') \<Rightarrow> (r, (w', log)))"

definition logged_kind :: "string \<Rightarrow> string \<Rightarrow> ('w, 'o) kind_api \<Rightarrow> ('w logged, 'o) kind_api" where
  "logged_kind grp resource K =
     \<lparr>k_get = (\<lambda>k. requesting grp resource [''get'', ''list'', ''watch''] (k_get K k)),
      k_list = (\<lambda>ns sel. requesting grp resource [''list'', ''watch''] (k_list K ns sel)),
      k_create = (\<lambda>x. requesting grp resource [''create''] (k_create K x)),
      k_update = (\<lambda>x. requesting grp resource [''update''] (k_update K x)),
      k_status_update = (\<lambda>x. requesting grp (resource @ ''/status'') [''update''] (k_status_update K x)),
      k_patch = (\<lambda>x y. requesting grp resource [''patch''] (k_patch K x y)),
      k_delete = (\<lambda>x. requesting grp resource [''delete''] (k_delete K x)),
      k_create_or_update = (\<lambda>x f. requesting grp resource [''get'', ''list'', ''watch'', ''create'', ''update'']
        (k_create_or_update K x f))\<rparr>"

definition logged_client :: "'w client \<Rightarrow> 'w logged client" where
  "logged_client C =
     \<lparr>cl_tools = logged_kind ''eirenyx.eirenyx'' ''tools'' (cl_tools C),
      cl_policies = logged_kind ''eirenyx.eirenyx'' ''policies'' (cl_policies C),
      cl_reports = logged_kind ''eirenyx.eirenyx'' ''policyreports'' (cl_reports C),
      cl_jobs = logged_kind ''batch'' ''jobs'' (cl_jobs C),
      cl_configmaps = logged_kind '''' ''configmaps'' (cl_configmaps C),
      cl_engines = logged_kind ''litmuschaos.io'' ''chaosengines'' (cl_engines C),
      cl_list_namespaces = requesting '''' ''namespaces'' [''list'', ''watch''] (cl_list_namespaces C),
      cl_list_pods = (\<lambda>ns. requesting '''' ''pods'' [''list'', ''watch''] (cl_list_pods C ns))\<rparr>"

definition logged_clientset :: "'w clientset \<Rightarrow> 'w logged clientset" where
  "logged_clientset S =
     \<lparr>cs_ns_get = (\<lambda>n. requesting '''' ''namespaces'' [''get''] (cs_ns_get S n)),
      cs_ns_create = (\<lambda>n. requesting '''' ''namespaces'' [''create''] (cs_ns_create S n)),
      cs_ns_delete = (\<lambda>n. requesting '''' ''namespaces'' [''delete''] (cs_ns_delete S n)),
      cs_deployment_get = (\<lambda>ns n. requesting ''apps'' ''deployments'' [''get''] (cs_deployment_get S ns n)),
      cs_daemonset_get = (\<lambda>ns n. requesting ''apps'' ''daemonsets'' [''get''] (cs_daemonset_get S ns n)),
      cs_format_selector = cs_format_selector S,
      cs_pods_list = (\<lambda>ns sel. requesting '''' ''pods'' [''list''] (cs_pods_list S ns sel)),
      cs_log_open = (\<lambda>ns n c. requesting '''' ''pods/log'' [''get''] (cs_log_open S ns n c)),
      cs_log_read = (\<lambda>h. unlogged (cs_log_read S h)),
      cs_log_close = (\<lambda>h (w, log). (cs_log_close S h w, log))\<rparr>"

definition logged_runtime :: "'w runtime \<Rightarrow> 'w logged runtime" where
  "logged_runtime R =
     \<lparr>rt_key_order = (\<lambda>(w, log). rt_key_order R w),
      rt_intn = (\<lambda>n (w, log). case rt_intn R n w of (i, w') \<Rightarrow> (i, (w', log))),
      rt_now = (\<lambda>(w, log). case rt_now R w of (t, w') \<Rightarrow> (t, (w', log))),
      rt_same_bytes = (\<lambda>(w, log). rt_same_bytes R w), rt_nil_slice = (\<lambda>(w, log). rt_nil_slice R w)\<rparr>"

text \<open>What Helm asks for depends on the chart, so it is left out of the log.\<close>

definition logged_helm :: "'w helm \<Rightarrow> 'w logged helm" where
  "logged_helm H =
     \<lparr>os_MkdirAll = (\<lambda>p. unlogged (os_MkdirAll H p)), os_Stat = (\<lambda>p. unlogged (os_Stat H p)),
      os_IsNotExist = os_IsNotExist H, os_Create = (\<lambda>p. unlogged (os_Create H p)),
      hl_LoadFile = (\<lambda>p. unlogged (hl_LoadFile H p)), hl_repo_Has = hl_repo_Has H,
      hl_repo_Update = hl_repo_Update H, hl_repo_Get = hl_repo_Get H,
      hl_WriteFile = (\<lambda>f p. unlogged (hl_WriteFile H f p)),
      hl_NewChartRepository = (\<lambda>e s. unlogged (hl_NewChartRepository H e s)),
      hl_DownloadIndexFile = (\<lambda>r p. unlogged (hl_DownloadIndexFile H r p)),
      hl_Init = (\<lambda>s c. unlogged (hl_Init H s c)), hl_Get = (\<lambda>c n. unlogged (hl_Get H c n)),
      hl_LocateChart = (\<lambda>n s. unlogged (hl_LocateChart H n s)), hl_Load = (\<lambda>p. unlogged (hl_Load H p)),
      hl_Install = (\<lambda>c a ch v. unlogged (hl_Install H c a ch v)),
      hl_Upgrade = (\<lambda>c a ch v. unlogged (hl_Upgrade H c a ch v)),
      hl_Uninstall = (\<lambda>c a. unlogged (hl_Uninstall H c a))\<rparr>"

subsection \<open>Granted logs\<close>

definition granted_log :: "'w logged \<Rightarrow> bool" where
  "granted_log w \<longleftrightarrow> list_all (role_grants rbac_markers) (snd w)"

lemma keeps_requesting:
  assumes "list_all (\<lambda>v. role_grants rbac_markers \<lparr>rq_group = grp, rq_resource = resource, rq_verb = v\<rparr>) verbs"
  shows "keeps granted_log (callA (requesting grp resource verbs op))"
  using assms
  by (intro keeps_callA) (auto simp: requesting_def granted_log_def list_all_iff split: prod.splits)

lemma keeps_unlogged: "keeps granted_log (callA (unlogged op))"
  by (intro keeps_callA) (auto simp: unlogged_def granted_log_def split: prod.splits)

lemmas grant_simps = role_grants_def rule_grants_def lists_def rbac_markers_def marker_def object_verbs_def

definition grants :: "string \<Rightarrow> string \<Rightarrow> string \<Rightarrow> bool" where
  "grants grp resource v \<longleftrightarrow> role_grants rbac_markers \<lparr>rq_group = grp, rq_resource = resource, rq_verb = v\<rparr>"

lemma granted_kind:
  assumes "list_all (grants grp resource) object_verbs" "grants grp (resource @ ''/status'') ''update''"
  shows "kind_frame (logged_kind grp resource K) granted_log"
  using assms unfolding kind_frame_def logged_kind_def kind_api.simps object_verbs_def grants_def
  by (auto intro!: keeps_requesting)

text \<open>
  The status of jobs and config maps is not for the operator to write, and it does not: a client that
  has no such calls does the same.
\<close>

definition without_status :: "('w, 'o) kind_api \<Rightarrow> ('w, 'o) kind_api" where
  "without_status K = K\<lparr>k_status_update := \<lambda>x w. (Inl (Errorf ''''), w)\<rparr>"

definition without_foreign_status :: "'w client \<Rightarrow> 'w client" where
  "without_foreign_status C =
     C\<lparr>cl_jobs := without_status (cl_jobs C), cl_configmaps := without_status (cl_configmaps C)\<rparr>"

lemma without_status_simps [simp]:
  "k_get (without_status K) = k_get K" "k_list (without_status K) = k_list K"
  "k_create (without_status K) = k_create K" "k_update (without_status K) = k_update K"
  "k_patch (without_status K) = k_patch K" "k_delete (without_status K) = k_delete K"
  "k_create_or_update (without_status K) = k_create_or_update K"
  "cl_tools (without_foreign_status C) = cl_tools C" "cl_policies (without_foreign_status C) = cl_policies C"
  "cl_reports (without_foreign_status C) = cl_reports C" "cl_engines (without_foreign_status C) = cl_engines C"
  "cl_jobs (without_foreign_status C) = without_status (cl_jobs C)"
  "cl_configmaps (without_foreign_status C) = without_status (cl_configmaps C)"
  "cl_list_namespaces (without_foreign_status C) = cl_list_namespaces C"
  "cl_list_pods (without_foreign_status C) = cl_list_pods C"
  by (simp_all add: without_status_def without_foreign_status_def)

lemma granted_kind_without_status:
  assumes "list_all (grants grp resource) object_verbs"
  shows "kind_frame (without_status (logged_kind grp resource K)) granted_log"
proof -
  have "keeps granted_log (callA (\<lambda>w. (Inl e, w)))" for e :: go_error
    by (simp add: keeps_def callA_def)
  then show ?thesis
    using assms unfolding kind_frame_def without_status_simps
    unfolding without_status_def logged_kind_def kind_api.simps object_verbs_def grants_def
    by (auto intro!: keeps_requesting)
qed

lemma falco_delete_reports_without_status [simp]:
  "falco_delete_reports (without_foreign_status C) U policy reports = falco_delete_reports C U policy reports"
  by (induction reports) simp_all

lemmas engine_code = trivy_engine_def trivy_Reconcile_def trivy_Cleanup_def
  trivy_GenerateReport_def falco_engine_def falco_Reconcile_def falco_Cleanup_def falco_cleanup_reports_def
  litmus_engine_def litmus_Reconcile_def litmus_Cleanup_def
  litmus_cleanup_namespace_def litmus_cleanup_reports_def

lemmas handler_code = trivy_handler_def trivy_report_Reconcile_def
  falco_handler_def falco_report_Reconcile_def GetPodDetails_def collect_pods_def litmus_handler_def
  litmus_report_Reconcile_def

lemma loop_bodies_without_status [simp]:
  "delete_ignoring_not_found U (without_status K) = delete_ignoring_not_found U K"
  "trivy_reconcile_scan (without_foreign_status C) U policy = trivy_reconcile_scan C U policy"
  "litmus_reconcile_experiment (without_foreign_status C) R policy = litmus_reconcile_experiment C R policy"
  "trivy_collect_scan (without_foreign_status C) U S E policy = trivy_collect_scan C U S E policy"
  "trivy_report_finish (without_foreign_status C) report = trivy_report_finish C report"
  by (intro ext; simp add: delete_ignoring_not_found_def trivy_reconcile_scan_def litmus_reconcile_experiment_def
      trivy_collect_scan_def trivy_report_finish_def Let_def cong: if_cong)+

lemma engines_without_status [simp]:
  "trivy_engine (without_foreign_status C) R U = trivy_engine C R U"
  "falco_engine (without_foreign_status C) R U = falco_engine C R U"
  "litmus_engine (without_foreign_status C) R U = litmus_engine C R U"
  by (simp_all add: fun_eq_iff engine_code cong: if_cong)

lemma handlers_without_status [simp]:
  "trivy_handler (without_foreign_status C) R U S E = trivy_handler C R U S E"
  "falco_handler (without_foreign_status C) R U S E = falco_handler C R U S E"
  "litmus_handler (without_foreign_status C) R U S E = litmus_handler C R U S E"
  by (simp_all add: fun_eq_iff handler_code Let_def cong: if_cong option.case_cong)

lemma policy_publish_without_status [simp]:
  "policy_publish (without_foreign_status C) policy = policy_publish C policy"
  by (rule ext) (simp add: policy_publish_def Let_def cong: if_cong)

lemma reconciles_without_status:
  "policy_Reconcile (without_foreign_status C) R U key = policy_Reconcile C R U key"
  "report_Reconcile (without_foreign_status C) R U S E key = report_Reconcile C R U S E key"
  by (simp_all add: policy_Reconcile_def NewPolicyEngine_def policy_with_engine_def policy_handle_deletion_def
      policy_apply_def report_Reconcile_def NewReportEngine_def Let_def
      cong: if_cong option.case_cong sum.case_cong bool.case_cong)

subsection \<open>Everything asked for is granted\<close>

lemma granted_kinds:
  "kind_frame (cl_tools (logged_client C)) granted_log" "kind_frame (cl_policies (logged_client C)) granted_log"
  "kind_frame (cl_reports (logged_client C)) granted_log" "kind_frame (cl_engines (logged_client C)) granted_log"
  "kind_frame (without_status (cl_jobs (logged_client C))) granted_log"
  "kind_frame (without_status (cl_configmaps (logged_client C))) granted_log"
  unfolding logged_client_def client.simps
  by (intro granted_kind granted_kind_without_status; simp add: grants_def grant_simps)+

lemma granted_reads: "quiet_reads (logged_client C) (logged_runtime R) (logged_clientset S) granted_log"
  unfolding quiet_reads_def logged_client_def logged_runtime_def logged_clientset_def
  by (auto simp: requesting_def unlogged_def granted_log_def grant_simps split: prod.splits)

lemma granted_now: "keeps granted_log (nowA (logged_runtime R))"
  by (simp add: keeps_def nowA_def logged_runtime_def granted_log_def split: prod.splits)

lemma granted_clientset: "clientset_quiet (logged_clientset S) granted_log"
  unfolding clientset_quiet_def logged_clientset_def clientset.simps
  by (intro conjI allI keeps_requesting; simp add: grant_simps)

lemma granted_helm: "helm_quiet (logged_helm H) granted_log"
  unfolding helm_quiet_def helm_prepares_def logged_helm_def helm.simps by (simp add: keeps_unlogged)

lemma granted_reconciles:
  "keeps granted_log (policy_Reconcile (logged_client C) (logged_runtime R) U key)"
  "keeps granted_log (report_Reconcile (logged_client C) (logged_runtime R) U (logged_clientset S) E key)"
  "keeps granted_log (tool_Reconcile (logged_client C) (logged_runtime R) U (logged_clientset S) (logged_helm H) key)"
proof -
  have "quiet_reads (without_foreign_status (logged_client C)) (logged_runtime R) (logged_clientset S) granted_log"
    using granted_reads [of C R S] by (simp add: quiet_reads_def)
  then have "operator_frame (without_foreign_status (logged_client C)) (logged_runtime R) (logged_clientset S) granted_log"
    by (simp add: operator_frame_def granted_kinds kind_frame_keeps(1))
  from policy_Reconcile_outside [OF this] report_Reconcile_outside [OF this]
  show "keeps granted_log (policy_Reconcile (logged_client C) (logged_runtime R) U key)"
    "keeps granted_log (report_Reconcile (logged_client C) (logged_runtime R) U (logged_clientset S) E key)"
    by (simp_all add: reconciles_without_status)
  show "keeps granted_log (tool_Reconcile (logged_client C) (logged_runtime R) U (logged_clientset S) (logged_helm H) key)"
    using new_service_quiet [OF _ granted_helm granted_clientset]
    by (intro tool_Reconcile_outside granted_kinds granted_now conjI)
qed

text \<open>The requests of a run that starts in the world \<open>w\<close>.\<close>

definition requests_of :: "('w logged, 'a) act \<Rightarrow> 'w \<Rightarrow> request list" where
  "requests_of m w = snd (snd (m (w, [])))"

text \<open>
  C38: The role is enough: whatever the API server, Helm and the runtime answer, a reconcile of any of the
  three controllers makes no request - through the manager's client or the clientset - that the markers
  do not grant. (What Helm itself requests depends on the charts and is not logged.)
\<close>

theorem role_grants_all_requests:
  "list_all (role_grants rbac_markers)
     (requests_of (policy_Reconcile (logged_client C) (logged_runtime R) U key) w) \<and>
   list_all (role_grants rbac_markers)
     (requests_of (report_Reconcile (logged_client C) (logged_runtime R) U (logged_clientset S) E key) w) \<and>
   list_all (role_grants rbac_markers)
     (requests_of (tool_Reconcile (logged_client C) (logged_runtime R) U (logged_clientset S) (logged_helm H) key) w)"
proof -
  have "list_all (role_grants rbac_markers) (requests_of m w)" if "keeps granted_log m" for m :: "('a logged, ctrl_outcome) act"
    using that unfolding keeps_def granted_log_def requests_of_def by simp
  with granted_reconciles show ?thesis by blast
qed

text \<open>
  The log is not empty: reading a log is a request for the subresource, and a reconcile reads its object
  first. The role does not let the operator write the status of a job.
\<close>

lemma requests_made:
  "requests_of (GetPodLogs (logged_clientset S) ns n c) w =
     [\<lparr>rq_group = '''', rq_resource = ''pods/log'', rq_verb = ''get''\<rparr>]"
  "take 1 (requests_of (callA (k_get (cl_policies (logged_client C)) key)) w) =
     [\<lparr>rq_group = ''eirenyx.eirenyx'', rq_resource = ''policies'', rq_verb = ''get''\<rparr>]"
  by (auto simp: requests_of_def GetPodLogs_def Let_def logged_clientset_def logged_client_def logged_kind_def
      requesting_def unlogged_def bindA_def wrapA_def callA_def split: prod.splits sum.splits res.splits)

lemma job_status_not_granted:
  "\<not> role_grants rbac_markers \<lparr>rq_group = ''batch'', rq_resource = ''jobs/status'', rq_verb = ''update''\<rparr>"
  by (simp add: grant_simps)

end
