(* ===== verification/GoMemory.thy ===== *)
theory GoMemory
  imports Prelude GoJson
begin

section \<open>Pointers and deep copies\<close>

text \<open>
  Everywhere else a Go object is a value. Here the memory is explicit: a list of cells, an address is an
  index, new cells come at the end. A struct that holds pointers, slices or maps holds addresses (\<open>None\<close> is
  nil) and stands for a value in a memory: \<open>rep lo m x v\<close> says that in memory \<open>m\<close> the struct \<open>x\<close> stands for the
  value \<open>v\<close> and reaches no cell below the address \<open>lo\<close>. The locale \<open>deep_copy\<close> is the contract of the
  methods \<open>DeepCopyInto\<close>: the result stands for the same value and reaches only new cells.
\<close>

type_synonym addr = nat

definition newA :: "'c \<Rightarrow> ('c list, addr) act" where
  "newA c = (\<lambda>m. (Ret (length m), m @ [c]))"

text \<open>Reading through a pointer; \<open>as\<close> reads a cell at a type.\<close>

definition loadA :: "('c \<Rightarrow> 'a option) \<Rightarrow> addr \<Rightarrow> ('c list, 'a) act" where
  "loadA as a = (\<lambda>m. case (if a < length m then as (m ! a) else None) of
      None \<Rightarrow> (Panic ''invalid memory address'', m)
    | Some x \<Rightarrow> (Ret x, m))"

primrec mapA :: "('a \<Rightarrow> ('w, 'b) act) \<Rightarrow> 'a list \<Rightarrow> ('w, 'b list) act" where
  "mapA f [] = retA []"
| "mapA f (x # xs) = bindA (f x) (\<lambda>y. bindA (mapA f xs) (\<lambda>ys. retA (y # ys)))"

text \<open>\<open>if in != nil { *out = new(T); ... }\<close>: a nil pointer is copied as nil, any other to a new cell.\<close>

definition copy_ptr :: "('c \<Rightarrow> 'a option) \<Rightarrow> ('a \<Rightarrow> 'c) \<Rightarrow> ('a \<Rightarrow> ('c list, 'a) act) \<Rightarrow> addr option \<Rightarrow> ('c list, addr option) act" where
  "copy_ptr as into copy p =
     (case p of None \<Rightarrow> retA None
      | Some a \<Rightarrow> bindA (loadA as a) (\<lambda>x. bindA (copy x) (\<lambda>y. bindA (newA (into y)) (\<lambda>b. retA (Some b)))))"

subsection \<open>What memory stands for\<close>

definition rep_eq :: "nat \<Rightarrow> 'c list \<Rightarrow> 'a \<Rightarrow> 'a \<Rightarrow> bool" where
  "rep_eq lo m x v \<longleftrightarrow> x = v"

definition rep_cell :: "('c \<Rightarrow> 'a option) \<Rightarrow> (nat \<Rightarrow> 'c list \<Rightarrow> 'a \<Rightarrow> 'v \<Rightarrow> bool) \<Rightarrow> nat \<Rightarrow> 'c list \<Rightarrow> addr \<Rightarrow> 'v \<Rightarrow> bool" where
  "rep_cell as rep lo m a v \<longleftrightarrow> lo \<le> a \<and> a < length m \<and>
     (case as (m ! a) of None \<Rightarrow> False | Some x \<Rightarrow> rep lo m x v)"

definition rep_ptr :: "('c \<Rightarrow> 'a option) \<Rightarrow> (nat \<Rightarrow> 'c list \<Rightarrow> 'a \<Rightarrow> 'v \<Rightarrow> bool) \<Rightarrow>
    nat \<Rightarrow> 'c list \<Rightarrow> addr option \<Rightarrow> 'v option \<Rightarrow> bool" where
  "rep_ptr as rep lo m p v = (case (p, v) of
      (None, None) \<Rightarrow> True | (Some a, Some v') \<Rightarrow> rep_cell as rep lo m a v' | _ \<Rightarrow> False)"

text \<open>Slices and maps are pointers to their elements, of which nil stands for a value too, the empty one.\<close>

definition rep_nil :: "'v \<Rightarrow> ('c \<Rightarrow> 'a option) \<Rightarrow> (nat \<Rightarrow> 'c list \<Rightarrow> 'a \<Rightarrow> 'v \<Rightarrow> bool) \<Rightarrow>
    nat \<Rightarrow> 'c list \<Rightarrow> addr option \<Rightarrow> 'v \<Rightarrow> bool" where
  "rep_nil d as rep lo m p v = (case p of None \<Rightarrow> v = d | Some a \<Rightarrow> rep_cell as rep lo m a v)"

definition rep_list :: "(nat \<Rightarrow> 'c list \<Rightarrow> 'a \<Rightarrow> 'v \<Rightarrow> bool) \<Rightarrow> nat \<Rightarrow> 'c list \<Rightarrow> 'a list \<Rightarrow> 'v list \<Rightarrow> bool" where
  "rep_list rep lo m = list_all2 (rep lo m)"

abbreviation rep_slice where "rep_slice as rep \<equiv> rep_nil [] as (rep_list rep)"

definition rep_pair where
  "rep_pair rep1 rep2 lo m x v \<longleftrightarrow> rep1 lo m (fst x) (fst v) \<and> rep2 lo m (snd x) (snd v)"

definition copy_pair where
  "copy_pair copy1 copy2 x = bindA (copy1 (fst x)) (\<lambda>y. bindA (copy2 (snd x)) (\<lambda>z. retA (y, z)))"

subsection \<open>The contract\<close>

definition extends :: "'c list \<Rightarrow> 'c list \<Rightarrow> bool" where
  "extends m m' \<longleftrightarrow> length m \<le> length m' \<and> (\<forall>a < length m. m' ! a = m ! a)"

lemma extends_refl [simp]: "extends m m"
  by (simp add: extends_def)

lemma extends_trans: "extends m m1 \<Longrightarrow> extends m1 m2 \<Longrightarrow> extends m m2"
  by (auto simp: extends_def)

lemma extends_length: "extends m m' \<Longrightarrow> length m \<le> length m'"
  by (simp add: extends_def)

lemma extends_append [simp]: "extends m (m @ ys)"
  by (simp add: extends_def nth_append)

text \<open>
  The original \<open>x\<close> in memory \<open>m\<close> and its copy \<open>y\<close>, which took the memory to \<open>m'\<close>, stand for the same value and
  are independent: however the memory that was there before the copy is written afterwards, the copy stands
  for the value, and however the new memory is written, the original does.
\<close>

definition independent :: "(nat \<Rightarrow> 'c list \<Rightarrow> 'm \<Rightarrow> 'v \<Rightarrow> bool) \<Rightarrow> nat \<Rightarrow> 'c list \<Rightarrow> 'c list \<Rightarrow> 'm \<Rightarrow> 'm \<Rightarrow> 'v \<Rightarrow> bool" where
  "independent rep lo m m' x y v \<longleftrightarrow>
     rep lo m' x v \<and> rep (length m) m' y v \<and>
     (\<forall>m''. length m' \<le> length m'' \<and> (\<forall>a. length m \<le> a \<and> a < length m' \<longrightarrow> m'' ! a = m' ! a) \<longrightarrow>
        rep (length m) m'' y v) \<and>
     (\<forall>m''. length m' \<le> length m'' \<and> (\<forall>a < length m. m'' ! a = m' ! a) \<longrightarrow> rep lo m'' x v)"

locale deep_copy =
  fixes rep :: "nat \<Rightarrow> 'c list \<Rightarrow> 'm \<Rightarrow> 'v \<Rightarrow> bool" and copy :: "'m \<Rightarrow> ('c list, 'm) act"
  assumes rep_moves: "rep lo m x v \<Longrightarrow> (\<And>a. lo \<le> a \<Longrightarrow> a < length m \<Longrightarrow> m' ! a = m ! a) \<Longrightarrow>
      length m \<le> length m' \<Longrightarrow> lo' \<le> lo \<Longrightarrow> rep lo' m' x v"
    and copies: "rep lo m x v \<Longrightarrow> \<exists>y m'. copy x m = (Ret y, m') \<and> extends m m' \<and> rep (length m) m' y v"
begin

lemma rep_extends: "rep lo m x v \<Longrightarrow> extends m m' \<Longrightarrow> lo' \<le> lo \<Longrightarrow> rep lo' m' x v"
  by (erule rep_moves) (auto simp: extends_def)

lemma copy_independent:
  assumes "rep lo m x v"
  shows "\<exists>y m'. copy x m = (Ret y, m') \<and> extends m m' \<and> independent rep lo m m' x y v"
proof -
  from copies [OF assms] obtain y m' where
    y: "copy x m = (Ret y, m')" "extends m m'" "rep (length m) m' y v" by blast
  have "rep lo m'' x v" if "length m' \<le> length m''" "\<forall>a < length m. m'' ! a = m' ! a" for m''
    using that y(2) by (intro rep_moves [OF assms]) (auto simp: extends_def)
  moreover have "rep (length m) m'' y v"
    if "length m' \<le> length m''" "\<forall>a. length m \<le> a \<and> a < length m' \<longrightarrow> m'' ! a = m' ! a" for m''
    using that by (intro rep_moves [OF y(3)]) auto
  ultimately show ?thesis using y rep_extends [OF assms y(2)] by (auto simp: independent_def)
qed

end

subsection \<open>Copies of compound values\<close>

lemma deep_copy_eq: "deep_copy rep_eq retA"
  by unfold_locales (auto simp: rep_eq_def)

lemma loadA_cell:
  "rep_cell as rep lo m a v \<Longrightarrow> \<exists>x. loadA as a m = (Ret x, m) \<and> rep lo m x v"
  by (auto simp: rep_cell_def loadA_def split: option.splits)

lemma rep_cell_moves:
  assumes "rep_cell as rep lo m a v" "\<And>a. lo \<le> a \<Longrightarrow> a < length m \<Longrightarrow> m' ! a = m ! a"
    and "length m \<le> length m'" "lo' \<le> lo" and "\<And>x. rep lo m x v \<Longrightarrow> rep lo' m' x v"
  shows "rep_cell as rep lo' m' a v"
  using assms by (auto simp: rep_cell_def split: option.splits)

lemma new_cell:
  assumes rep: "deep_copy rep copy" "rep lo m x v" and into: "as (into x) = Some x" and lo: "lo \<le> length m"
  shows "rep_cell as rep lo (m @ [into x]) (length m) v"
  using deep_copy.rep_extends [OF rep, of "m @ [into x]" lo] into lo by (simp add: rep_cell_def)

text \<open>Copying one cell.\<close>

lemma copy_cell:
  assumes copy: "deep_copy rep copy" and as: "\<And>x. as (into x) = Some x" and cell: "rep_cell as rep lo m a v"
  shows "\<exists>b m'. bindA (loadA as a) (\<lambda>x. bindA (copy x) (\<lambda>y. newA (into y))) m = (Ret b, m') \<and>
    extends m m' \<and> rep_cell as rep (length m) m' b v"
proof -
  obtain x where x: "loadA as a m = (Ret x, m)" "rep lo m x v" using loadA_cell [OF cell] by blast
  obtain y m1 where y: "copy x m = (Ret y, m1)" "extends m m1" "rep (length m) m1 y v"
    using deep_copy.copies [OF copy x(2)] by blast
  have "rep_cell as rep (length m) (m1 @ [into y]) (length m1) v"
    using new_cell [where as = as and into = into, OF copy y(3) as] extends_length [OF y(2)] by blast
  then show ?thesis using x(1) y(1) extends_trans [OF y(2) extends_append]
    by (intro exI [of _ "length m1"] exI [of _ "m1 @ [into y]"]) (auto simp: bindA_Ret newA_def)
qed

lemma copy_ptr_Some:
  "copy_ptr as into copy (Some a) m = (Ret q, m') \<longleftrightarrow>
     (\<exists>b. bindA (loadA as a) (\<lambda>x. bindA (copy x) (\<lambda>y. newA (into y))) m = (Ret b, m') \<and> q = Some b)"
  by (auto simp: copy_ptr_def bindA_Ret)

lemma deep_copy_ptr:
  assumes copy: "deep_copy rep copy" and as: "\<And>x. as (into x) = Some x"
  shows "deep_copy (rep_ptr as rep) (copy_ptr as into copy)"
proof
  fix lo m p v
  assume p: "rep_ptr as rep lo m p v"
  { fix m' :: "'a list" and lo'
    assume same: "\<And>a. lo \<le> a \<Longrightarrow> a < length m \<Longrightarrow> m' ! a = m ! a" and le: "length m \<le> length m'" "lo' \<le> lo"
    have "rep_cell as rep lo' m' a u" if "rep_cell as rep lo m a u" for a u
      by (rule rep_cell_moves [OF that same le deep_copy.rep_moves [OF copy _ same le]])
    with p show "rep_ptr as rep lo' m' p v" by (auto simp: rep_ptr_def split: option.splits) }
  show "\<exists>q m'. copy_ptr as into copy p m = (Ret q, m') \<and> extends m m' \<and> rep_ptr as rep (length m) m' q v"
  proof (cases p)
    case None
    with p show ?thesis by (intro exI [of _ None] exI [of _ m]) (auto simp: copy_ptr_def rep_ptr_def split: option.splits)
  next
    case (Some a)
    with p obtain u where u: "v = Some u" "rep_cell as rep lo m a u" by (auto simp: rep_ptr_def split: option.splits)
    from copy_cell [of rep copy as into, OF copy as u(2)] obtain b m' where
      "bindA (loadA as a) (\<lambda>x. bindA (copy x) (\<lambda>y. newA (into y))) m = (Ret b, m')"
      "extends m m'" "rep_cell as rep (length m) m' b u" by blast
    then show ?thesis
      unfolding Some copy_ptr_Some by (intro exI [of _ "Some b"] exI [of _ m']) (auto simp: rep_ptr_def u(1))
  qed
qed

text \<open>\<open>for i := range *in { (*in)[i].DeepCopyInto(&(*out)[i]) }\<close>\<close>

lemma deep_copy_list:
  assumes copy: "deep_copy rep copy"
  shows "deep_copy (rep_list rep) (mapA copy)"
  unfolding rep_list_def
proof
  fix lo and m :: "'a list" and xs vs
  assume xs: "list_all2 (rep lo m) xs vs"
  { fix m' :: "'a list" and lo'
    assume same: "\<And>a. lo \<le> a \<Longrightarrow> a < length m \<Longrightarrow> m' ! a = m ! a" and le: "length m \<le> length m'" "lo' \<le> lo"
    from xs show "list_all2 (rep lo' m') xs vs"
      by (rule list_all2_mono) (rule deep_copy.rep_moves [OF copy _ same le]) }
  have "list_all2 (rep lo m1) xs vs \<Longrightarrow> lo' \<le> length m1 \<Longrightarrow>
      \<exists>ys m'. mapA copy xs m1 = (Ret ys, m') \<and> extends m1 m' \<and> list_all2 (rep lo' m') ys vs" for m1 lo'
  proof (induction xs arbitrary: vs m1)
    case (Cons x xs)
    then obtain u us where vs: "vs = u # us" "rep lo m1 x u" "list_all2 (rep lo m1) xs us"
      by (auto simp: list_all2_Cons1)
    obtain y m2 where y: "copy x m1 = (Ret y, m2)" "extends m1 m2" "rep (length m1) m2 y u"
      using deep_copy.copies [OF copy vs(2)] by blast
    have "list_all2 (rep lo m2) xs us"
      using vs(3) by (rule list_all2_mono) (rule deep_copy.rep_extends [OF copy _ y(2) order.refl])
    with Cons.IH [of m2 us] Cons.prems(2) extends_length [OF y(2)] obtain ys m' where
      ys: "mapA copy xs m2 = (Ret ys, m')" "extends m2 m'" "list_all2 (rep lo' m') ys us" by auto
    have "rep lo' m' y u" using deep_copy.rep_extends [OF copy y(3) ys(2) Cons.prems(2)] .
    with y(1) ys extends_trans [OF y(2) ys(2)] vs(1) show ?case
      by (intro exI [of _ "y # ys"] exI [of _ m']) (auto simp: bindA_Ret)
  qed simp
  from this [OF xs order.refl]
  show "\<exists>ys m'. mapA copy xs m = (Ret ys, m') \<and> extends m m' \<and> list_all2 (rep (length m) m') ys vs" .
qed

text \<open>\<open>copy(*out, *in)\<close>\<close>

lemma rep_list_flat: "rep_list rep_eq lo m xs vs \<longleftrightarrow> xs = vs"
  by (simp add: rep_list_def list_all2_conv_all_nth rep_eq_def list_eq_iff_nth_eq)

lemma deep_copy_flat: "deep_copy (rep_list rep_eq) retA"
  by unfold_locales (auto simp: rep_list_flat)

lemma rep_nil_ptr:
  "rep_nil d as rep lo m p v \<longleftrightarrow> (\<exists>u. rep_ptr as rep lo m p u \<and> v = (case u of None \<Rightarrow> d | Some v' \<Rightarrow> v'))"
proof (cases p)
  case None
  then show ?thesis by (auto simp: rep_nil_def rep_ptr_def split: option.splits intro: exI [of _ None])
next
  case (Some a)
  then show ?thesis by (auto simp: rep_nil_def rep_ptr_def split: option.splits intro!: exI [of _ "Some v"])
qed

lemma deep_copy_nil:
  assumes "deep_copy rep copy" "\<And>x. as (into x) = Some x"
  shows "deep_copy (rep_nil d as rep) (copy_ptr as into copy)"
proof -
  note ptr = deep_copy_ptr [of rep copy as into, OF assms]
  show ?thesis
  proof
    fix lo m p v
    assume "rep_nil d as rep lo m p v"
    then obtain u where u: "rep_ptr as rep lo m p u" "v = (case u of None \<Rightarrow> d | Some v' \<Rightarrow> v')"
      unfolding rep_nil_ptr by blast
    { fix m' :: "'a list" and lo'
      assume "\<And>a. lo \<le> a \<Longrightarrow> a < length m \<Longrightarrow> m' ! a = m ! a" "length m \<le> length m'" "lo' \<le> lo"
      from deep_copy.rep_moves [OF ptr u(1) this] u(2) show "rep_nil d as rep lo' m' p v"
        unfolding rep_nil_ptr by blast }
    from deep_copy.copies [OF ptr u(1)] u(2)
    show "\<exists>q m'. copy_ptr as into copy p m = (Ret q, m') \<and> extends m m' \<and> rep_nil d as rep (length m) m' q v"
      unfolding rep_nil_ptr by blast
  qed
qed

lemma deep_copy_pair:
  assumes copy1: "deep_copy rep1 copy1" and copy2: "deep_copy rep2 copy2"
  shows "deep_copy (rep_pair rep1 rep2) (copy_pair copy1 copy2)"
proof
  fix lo m x v
  assume x: "rep_pair rep1 rep2 lo m x v"
  { fix m' :: "'a list" and lo'
    assume same: "\<And>a. lo \<le> a \<Longrightarrow> a < length m \<Longrightarrow> m' ! a = m ! a" and le: "length m \<le> length m'" "lo' \<le> lo"
    show "rep_pair rep1 rep2 lo' m' x v"
      using x deep_copy.rep_moves [OF copy1 _ same le] deep_copy.rep_moves [OF copy2 _ same le]
      by (auto simp: rep_pair_def) }
  from x have x12: "rep1 lo m (fst x) (fst v)" "rep2 lo m (snd x) (snd v)" by (simp_all add: rep_pair_def)
  obtain y m1 where y: "copy1 (fst x) m = (Ret y, m1)" "extends m m1" "rep1 (length m) m1 y (fst v)"
    using deep_copy.copies [OF copy1 x12(1)] by blast
  have "rep2 lo m1 (snd x) (snd v)" using deep_copy.rep_extends [OF copy2 x12(2) y(2) order.refl] .
  from deep_copy.copies [OF copy2 this] obtain z m2 where
    z: "copy2 (snd x) m1 = (Ret z, m2)" "extends m1 m2" "rep2 (length m1) m2 z (snd v)" by blast
  have "rep1 (length m) m2 y (fst v)" "rep2 (length m) m2 z (snd v)"
    using deep_copy.rep_extends [OF copy1 y(3) z(2)] deep_copy.rep_extends [OF copy2 z(3) extends_refl]
      extends_length [OF y(2)] by blast+
  with y(1) z(1) extends_trans [OF y(2) z(2)]
  show "\<exists>w m'. copy_pair copy1 copy2 x m = (Ret w, m') \<and> extends m m' \<and> rep_pair rep1 rep2 (length m) m' w v"
    by (intro exI [of _ "(y, z)"] exI [of _ m2]) (auto simp: copy_pair_def rep_pair_def bindA_Ret)
qed

text \<open>
  A struct whose parts \<open>get x\<close> reach memory: \<open>*out = *in\<close>, and then the parts of \<open>out\<close> are replaced by copies.
\<close>

lemma deep_copy_struct:
  assumes parts: "deep_copy rep copy"
    and rep: "\<And>lo m x v. rep' lo m x v \<longleftrightarrow> plain x v \<and> rep lo m (get x) (view v)"
    and copy: "\<And>x. copy' x = bindA (copy (get x)) (\<lambda>y. retA (put y x))"
    and put: "\<And>y x. get (put y x) = y" "\<And>y x v. plain (put y x) v = plain x v"
  shows "deep_copy rep' copy'"
proof
  fix lo m x v
  assume "rep' lo m x v"
  then have x: "plain x v" "rep lo m (get x) (view v)" by (simp_all add: rep)
  { fix m' :: "'a list" and lo'
    assume "\<And>a. lo \<le> a \<Longrightarrow> a < length m \<Longrightarrow> m' ! a = m ! a" "length m \<le> length m'" "lo' \<le> lo"
    from deep_copy.rep_moves [OF parts x(2) this] x(1) show "rep' lo' m' x v" by (simp add: rep) }
  obtain y m' where y: "copy (get x) m = (Ret y, m')" "extends m m'" "rep (length m) m' y (view v)"
    using deep_copy.copies [OF parts x(2)] by blast
  with x(1) show "\<exists>z m'. copy' x m = (Ret z, m') \<and> extends m m' \<and> rep' (length m) m' z v"
    by (intro exI [of _ "put y x"] exI [of _ m']) (simp add: copy bindA_Ret rep put)
qed

text \<open>The lemmas that the copy of a struct is taken apart with.\<close>

lemmas copy_struct_simps = rep_pair_def copy_pair_def bindA_assoc

subsection \<open>Maps\<close>

text \<open>A nil map and an empty one stand for the map without entries.\<close>

definition rep_entries :: "nat \<Rightarrow> 'c list \<Rightarrow> (string \<times> string) list \<Rightarrow> (string \<times> string) list \<Rightarrow> bool" where
  "rep_entries lo m x v \<longleftrightarrow> x = v \<and> distinct (map fst v)"

text \<open>\<open>for key, val := range *in { (*out)[key] = val }\<close>\<close>

definition copy_map :: "(string \<times> string) list \<Rightarrow> ('c list, (string \<times> string) list) act" where
  "copy_map es = retA (foldl (\<lambda>out e. put_key (fst e) (snd e) out) [] es)"

lemma copy_map_id: "distinct (map fst es) \<Longrightarrow> copy_map es = retA es"
proof -
  have "distinct (map fst (out @ es)) \<Longrightarrow> foldl (\<lambda>out e. put_key (fst e) (snd e) out) out es = out @ es" for out
  proof (induction es arbitrary: out)
    case (Cons e es)
    have "fst e \<notin> fst ` set out \<Longrightarrow> put_key (fst e) (snd e) out = out @ [e]"
      by (induction out) auto
    with Cons show ?case by auto
  qed simp
  then show "distinct (map fst es) \<Longrightarrow> copy_map es = retA es" by (simp add: copy_map_def)
qed

lemma deep_copy_entries: "deep_copy rep_entries copy_map"
  by unfold_locales (auto simp: rep_entries_def copy_map_id)

subsection \<open>Objects\<close>

text \<open>The type part of an object, and \<open>DeepCopyObject\<close>: the copy as a \<open>runtime.Object\<close>, nil for nil.\<close>

record TypeMeta =
  tm_Kind :: string
  tm_APIVersion :: string

lemma object_of_copy:
  assumes "copy p m = (Ret q, m')"
  shows "bindA (copy p) (\<lambda>c. case c of Some a \<Rightarrow> retA (Some (Obj a)) | None \<Rightarrow> retA None) m = (Ret (map_option Obj q), m')"
  using assms by (cases q) (simp_all add: bindA_Ret)

end
