(* ===== verification/ApiMemory.thy ===== *)
theory ApiMemory
  imports GoMemory EirenyxTypes
begin

section \<open>The custom resources in memory\<close>

text \<open>
  The structs of \<open>api/v1alpha1\<close> as Go holds them: a pointer, a slice or a map is an address, \<open>None\<close> is nil, and
  a nested struct is part of its outer one. Structs without pointers (\<open>FalcoRuleRef\<close>, \<open>FalcoReportSpec\<close>,
  \<open>LitmusAppInfo\<close>, \<open>PolicyReference\<close>, \<open>PolicyReportSpec\<close>, \<open>ReportSummary\<close>) are the records of \<open>EirenyxTypes\<close>.
  \<open>ObjectMeta\<close>, \<open>RawExtension\<close> and \<open>ListMeta\<close> are types of apimachinery: \<open>'meta\<close>, \<open>'raw\<close>, \<open>'lmeta\<close>. A memory cell
  holds what one pointer or slice points to. \<open>rep_T lo m x v\<close> says that the struct \<open>x\<close> stands for the value \<open>v\<close>
  of \<open>EirenyxTypes\<close> in memory \<open>m\<close> and reaches no cell below \<open>lo\<close>.
\<close>

record FalcoRuleSelector_mem =
  frsm_Tags :: "addr option"
  frsm_Priorities :: "addr option"

record FalcoObserveSpec_mem =
  obsm_RuleRef :: "addr option"
  obsm_RuleSelector :: "addr option"

record FalcoPolicySpec_mem =
  falm_Observe :: FalcoObserveSpec_mem
  falm_Report :: "addr option"

record LitmusExpectedResult_mem =
  exrm_Verdict :: string
  exrm_FailOnChaosError :: "addr option"

record LitmusExperiment_mem =
  expm_Name :: string
  expm_ExperimentRef :: string
  expm_EngineRef :: string
  expm_TargetNamespace :: string
  expm_AppInfo :: LitmusAppInfo
  expm_Mode :: string
  expm_Duration :: string
  expm_Parameters :: "addr option"
  expm_ExpectedResult :: LitmusExpectedResult_mem

record LitmusPolicySpec_mem =
  litm_Experiments :: "addr option"

record TrivyScan_mem =
  scanm_Name :: string
  scanm_Image :: string
  scanm_Severity :: string
  scanm_IgnoreUnfixed :: bool
  scanm_VulnerabilityTypes :: "addr option"
  scanm_ExitCode :: "addr option"

record TrivyPolicySpec_mem =
  trvm_Scans :: "addr option"

record PolicyTarget_mem =
  tgtm_NamespaceSelector :: "addr option"
  tgtm_NodeSelector :: "addr option"

record PolicySpec_mem =
  psm_Type :: string
  psm_Enabled :: bool
  psm_Target :: PolicyTarget_mem
  psm_Falco :: "addr option"
  psm_Trivy :: "addr option"
  psm_Litmus :: "addr option"

record PolicyStatus_mem =
  pstm_Phase :: string
  pstm_Conditions :: "addr option"
  pstm_LastReport :: string
  pstm_ObservedGen :: int

record 'meta Policy_mem =
  polm_TypeMeta :: TypeMeta
  polm_meta :: 'meta
  polm_Spec :: PolicySpec_mem
  polm_Status :: PolicyStatus_mem

record 'lmeta PolicyList_mem =
  pollm_TypeMeta :: TypeMeta
  pollm_ListMeta :: 'lmeta
  pollm_Items :: "addr option"

record 'raw PolicyReportStatus_mem =
  rstm_Phase :: string
  rstm_Summary :: ReportSummary
  rstm_Details :: 'raw

record ('meta, 'raw) PolicyReport_mem =
  repm_TypeMeta :: TypeMeta
  repm_meta :: 'meta
  repm_Spec :: PolicyReportSpec
  repm_Status :: "'raw PolicyReportStatus_mem"

record 'lmeta PolicyReportList_mem =
  replm_TypeMeta :: TypeMeta
  replm_ListMeta :: 'lmeta
  replm_Items :: "addr option"

record 'raw ToolSpec_mem =
  tsm_Type :: string
  tsm_Enabled :: bool
  tsm_Namespace :: string
  tsm_Values :: 'raw

record ToolStatus_mem =
  tstm_Installed :: bool
  tstm_Healthy :: bool
  tstm_Version :: string
  tstm_Conditions :: "addr option"

record ('meta, 'raw) Tool_mem =
  toolm_TypeMeta :: TypeMeta
  toolm_meta :: 'meta
  toolm_Spec :: "'raw ToolSpec_mem"
  toolm_Status :: ToolStatus_mem

record 'lmeta ToolList_mem =
  toollm_TypeMeta :: TypeMeta
  toollm_ListMeta :: 'lmeta
  toollm_Items :: "addr option"

text \<open>What one pointer, slice or map points to, and reading a cell at its type.\<close>

datatype ('meta, 'raw, 'lmeta) cell =
    BoolCell (the_Bool: bool)
  | Int32Cell (the_Int32: i32)
  | StringsCell (the_Strings: "string list")
  | MapCell (the_Map: "(string \<times> string) list")
  | ConditionsCell (the_Conditions: "condition list")
  | FalcoRuleRefCell (the_FalcoRuleRef: FalcoRuleRef)
  | FalcoRuleSelectorCell (the_FalcoRuleSelector: FalcoRuleSelector_mem)
  | FalcoObserveSpecCell (the_FalcoObserveSpec: FalcoObserveSpec_mem)
  | FalcoReportSpecCell (the_FalcoReportSpec: FalcoReportSpec)
  | FalcoPolicySpecCell (the_FalcoPolicySpec: FalcoPolicySpec_mem)
  | LitmusAppInfoCell (the_LitmusAppInfo: LitmusAppInfo)
  | LitmusExpectedResultCell (the_LitmusExpectedResult: LitmusExpectedResult_mem)
  | LitmusExperimentCell (the_LitmusExperiment: LitmusExperiment_mem)
  | LitmusPolicySpecCell (the_LitmusPolicySpec: LitmusPolicySpec_mem)
  | TrivyScanCell (the_TrivyScan: TrivyScan_mem)
  | TrivyPolicySpecCell (the_TrivyPolicySpec: TrivyPolicySpec_mem)
  | PolicyTargetCell (the_PolicyTarget: PolicyTarget_mem)
  | PolicySpecCell (the_PolicySpec: PolicySpec_mem)
  | PolicyStatusCell (the_PolicyStatus: PolicyStatus_mem)
  | PolicyCell (the_Policy: "'meta Policy_mem")
  | PolicyListCell (the_PolicyList: "'lmeta PolicyList_mem")
  | PolicyReferenceCell (the_PolicyReference: PolicyReference)
  | PolicyReportSpecCell (the_PolicyReportSpec: PolicyReportSpec)
  | ReportSummaryCell (the_ReportSummary: ReportSummary)
  | PolicyReportStatusCell (the_PolicyReportStatus: "'raw PolicyReportStatus_mem")
  | PolicyReportCell (the_PolicyReport: "('meta, 'raw) PolicyReport_mem")
  | PolicyReportListCell (the_PolicyReportList: "'lmeta PolicyReportList_mem")
  | ToolSpecCell (the_ToolSpec: "'raw ToolSpec_mem")
  | ToolStatusCell (the_ToolStatus: ToolStatus_mem)
  | ToolCell (the_Tool: "('meta, 'raw) Tool_mem")
  | ToolListCell (the_ToolList: "'lmeta ToolList_mem")
  | LitmusExperimentsCell (the_LitmusExperiments: "LitmusExperiment_mem list")
  | TrivyScansCell (the_TrivyScans: "TrivyScan_mem list")
  | PoliciesCell (the_Policies: "'meta Policy_mem list")
  | PolicyReportsCell (the_PolicyReports: "('meta, 'raw) PolicyReport_mem list")
  | ToolsCell (the_Tools: "('meta, 'raw) Tool_mem list")

type_synonym ('meta, 'raw, 'lmeta) memory = "('meta, 'raw, 'lmeta) cell list"

definition as_Bool :: "('meta, 'raw, 'lmeta) cell \<Rightarrow> bool option" where
  "as_Bool c = (if is_BoolCell c then Some (the_Bool c) else None)"

definition as_Int32 :: "('meta, 'raw, 'lmeta) cell \<Rightarrow> i32 option" where
  "as_Int32 c = (if is_Int32Cell c then Some (the_Int32 c) else None)"

definition as_Strings :: "('meta, 'raw, 'lmeta) cell \<Rightarrow> (string list) option" where
  "as_Strings c = (if is_StringsCell c then Some (the_Strings c) else None)"

definition as_Map :: "('meta, 'raw, 'lmeta) cell \<Rightarrow> ((string \<times> string) list) option" where
  "as_Map c = (if is_MapCell c then Some (the_Map c) else None)"

definition as_Conditions :: "('meta, 'raw, 'lmeta) cell \<Rightarrow> (condition list) option" where
  "as_Conditions c = (if is_ConditionsCell c then Some (the_Conditions c) else None)"

definition as_FalcoRuleRef :: "('meta, 'raw, 'lmeta) cell \<Rightarrow> FalcoRuleRef option" where
  "as_FalcoRuleRef c = (if is_FalcoRuleRefCell c then Some (the_FalcoRuleRef c) else None)"

definition as_FalcoRuleSelector :: "('meta, 'raw, 'lmeta) cell \<Rightarrow> FalcoRuleSelector_mem option" where
  "as_FalcoRuleSelector c = (if is_FalcoRuleSelectorCell c then Some (the_FalcoRuleSelector c) else None)"

definition as_FalcoObserveSpec :: "('meta, 'raw, 'lmeta) cell \<Rightarrow> FalcoObserveSpec_mem option" where
  "as_FalcoObserveSpec c = (if is_FalcoObserveSpecCell c then Some (the_FalcoObserveSpec c) else None)"

definition as_FalcoReportSpec :: "('meta, 'raw, 'lmeta) cell \<Rightarrow> FalcoReportSpec option" where
  "as_FalcoReportSpec c = (if is_FalcoReportSpecCell c then Some (the_FalcoReportSpec c) else None)"

definition as_FalcoPolicySpec :: "('meta, 'raw, 'lmeta) cell \<Rightarrow> FalcoPolicySpec_mem option" where
  "as_FalcoPolicySpec c = (if is_FalcoPolicySpecCell c then Some (the_FalcoPolicySpec c) else None)"

definition as_LitmusAppInfo :: "('meta, 'raw, 'lmeta) cell \<Rightarrow> LitmusAppInfo option" where
  "as_LitmusAppInfo c = (if is_LitmusAppInfoCell c then Some (the_LitmusAppInfo c) else None)"

definition as_LitmusExpectedResult :: "('meta, 'raw, 'lmeta) cell \<Rightarrow> LitmusExpectedResult_mem option" where
  "as_LitmusExpectedResult c = (if is_LitmusExpectedResultCell c then Some (the_LitmusExpectedResult c) else None)"

definition as_LitmusExperiment :: "('meta, 'raw, 'lmeta) cell \<Rightarrow> LitmusExperiment_mem option" where
  "as_LitmusExperiment c = (if is_LitmusExperimentCell c then Some (the_LitmusExperiment c) else None)"

definition as_LitmusPolicySpec :: "('meta, 'raw, 'lmeta) cell \<Rightarrow> LitmusPolicySpec_mem option" where
  "as_LitmusPolicySpec c = (if is_LitmusPolicySpecCell c then Some (the_LitmusPolicySpec c) else None)"

definition as_TrivyScan :: "('meta, 'raw, 'lmeta) cell \<Rightarrow> TrivyScan_mem option" where
  "as_TrivyScan c = (if is_TrivyScanCell c then Some (the_TrivyScan c) else None)"

definition as_TrivyPolicySpec :: "('meta, 'raw, 'lmeta) cell \<Rightarrow> TrivyPolicySpec_mem option" where
  "as_TrivyPolicySpec c = (if is_TrivyPolicySpecCell c then Some (the_TrivyPolicySpec c) else None)"

definition as_PolicyTarget :: "('meta, 'raw, 'lmeta) cell \<Rightarrow> PolicyTarget_mem option" where
  "as_PolicyTarget c = (if is_PolicyTargetCell c then Some (the_PolicyTarget c) else None)"

definition as_PolicySpec :: "('meta, 'raw, 'lmeta) cell \<Rightarrow> PolicySpec_mem option" where
  "as_PolicySpec c = (if is_PolicySpecCell c then Some (the_PolicySpec c) else None)"

definition as_PolicyStatus :: "('meta, 'raw, 'lmeta) cell \<Rightarrow> PolicyStatus_mem option" where
  "as_PolicyStatus c = (if is_PolicyStatusCell c then Some (the_PolicyStatus c) else None)"

definition as_Policy :: "('meta, 'raw, 'lmeta) cell \<Rightarrow> ('meta Policy_mem) option" where
  "as_Policy c = (if is_PolicyCell c then Some (the_Policy c) else None)"

definition as_PolicyList :: "('meta, 'raw, 'lmeta) cell \<Rightarrow> ('lmeta PolicyList_mem) option" where
  "as_PolicyList c = (if is_PolicyListCell c then Some (the_PolicyList c) else None)"

definition as_PolicyReference :: "('meta, 'raw, 'lmeta) cell \<Rightarrow> PolicyReference option" where
  "as_PolicyReference c = (if is_PolicyReferenceCell c then Some (the_PolicyReference c) else None)"

definition as_PolicyReportSpec :: "('meta, 'raw, 'lmeta) cell \<Rightarrow> PolicyReportSpec option" where
  "as_PolicyReportSpec c = (if is_PolicyReportSpecCell c then Some (the_PolicyReportSpec c) else None)"

definition as_ReportSummary :: "('meta, 'raw, 'lmeta) cell \<Rightarrow> ReportSummary option" where
  "as_ReportSummary c = (if is_ReportSummaryCell c then Some (the_ReportSummary c) else None)"

definition as_PolicyReportStatus :: "('meta, 'raw, 'lmeta) cell \<Rightarrow> ('raw PolicyReportStatus_mem) option" where
  "as_PolicyReportStatus c = (if is_PolicyReportStatusCell c then Some (the_PolicyReportStatus c) else None)"

definition as_PolicyReport :: "('meta, 'raw, 'lmeta) cell \<Rightarrow> (('meta, 'raw) PolicyReport_mem) option" where
  "as_PolicyReport c = (if is_PolicyReportCell c then Some (the_PolicyReport c) else None)"

definition as_PolicyReportList :: "('meta, 'raw, 'lmeta) cell \<Rightarrow> ('lmeta PolicyReportList_mem) option" where
  "as_PolicyReportList c = (if is_PolicyReportListCell c then Some (the_PolicyReportList c) else None)"

definition as_ToolSpec :: "('meta, 'raw, 'lmeta) cell \<Rightarrow> ('raw ToolSpec_mem) option" where
  "as_ToolSpec c = (if is_ToolSpecCell c then Some (the_ToolSpec c) else None)"

definition as_ToolStatus :: "('meta, 'raw, 'lmeta) cell \<Rightarrow> ToolStatus_mem option" where
  "as_ToolStatus c = (if is_ToolStatusCell c then Some (the_ToolStatus c) else None)"

definition as_Tool :: "('meta, 'raw, 'lmeta) cell \<Rightarrow> (('meta, 'raw) Tool_mem) option" where
  "as_Tool c = (if is_ToolCell c then Some (the_Tool c) else None)"

definition as_ToolList :: "('meta, 'raw, 'lmeta) cell \<Rightarrow> ('lmeta ToolList_mem) option" where
  "as_ToolList c = (if is_ToolListCell c then Some (the_ToolList c) else None)"

definition as_LitmusExperiments :: "('meta, 'raw, 'lmeta) cell \<Rightarrow> (LitmusExperiment_mem list) option" where
  "as_LitmusExperiments c = (if is_LitmusExperimentsCell c then Some (the_LitmusExperiments c) else None)"

definition as_TrivyScans :: "('meta, 'raw, 'lmeta) cell \<Rightarrow> (TrivyScan_mem list) option" where
  "as_TrivyScans c = (if is_TrivyScansCell c then Some (the_TrivyScans c) else None)"

definition as_Policies :: "('meta, 'raw, 'lmeta) cell \<Rightarrow> ('meta Policy_mem list) option" where
  "as_Policies c = (if is_PoliciesCell c then Some (the_Policies c) else None)"

definition as_PolicyReports :: "('meta, 'raw, 'lmeta) cell \<Rightarrow> (('meta, 'raw) PolicyReport_mem list) option" where
  "as_PolicyReports c = (if is_PolicyReportsCell c then Some (the_PolicyReports c) else None)"

definition as_Tools :: "('meta, 'raw, 'lmeta) cell \<Rightarrow> (('meta, 'raw) Tool_mem list) option" where
  "as_Tools c = (if is_ToolsCell c then Some (the_Tools c) else None)"

lemmas as_defs = as_Bool_def as_Int32_def as_Strings_def as_Map_def as_Conditions_def as_FalcoRuleRef_def
  as_FalcoRuleSelector_def as_FalcoObserveSpec_def as_FalcoReportSpec_def as_FalcoPolicySpec_def
  as_LitmusAppInfo_def as_LitmusExpectedResult_def as_LitmusExperiment_def as_LitmusPolicySpec_def
  as_TrivyScan_def as_TrivyPolicySpec_def as_PolicyTarget_def as_PolicySpec_def as_PolicyStatus_def
  as_Policy_def as_PolicyList_def as_PolicyReference_def as_PolicyReportSpec_def as_ReportSummary_def
  as_PolicyReportStatus_def as_PolicyReport_def as_PolicyReportList_def as_ToolSpec_def
  as_ToolStatus_def as_Tool_def as_ToolList_def as_LitmusExperiments_def as_TrivyScans_def
  as_Policies_def as_PolicyReports_def as_Tools_def

lemma as_cells [simp]:
  "as_Bool (BoolCell x0) = Some x0"
  "as_Int32 (Int32Cell x1) = Some x1"
  "as_Strings (StringsCell x2) = Some x2"
  "as_Map (MapCell x3) = Some x3"
  "as_Conditions (ConditionsCell x4) = Some x4"
  "as_FalcoRuleRef (FalcoRuleRefCell x5) = Some x5"
  "as_FalcoRuleSelector (FalcoRuleSelectorCell x6) = Some x6"
  "as_FalcoObserveSpec (FalcoObserveSpecCell x7) = Some x7"
  "as_FalcoReportSpec (FalcoReportSpecCell x8) = Some x8"
  "as_FalcoPolicySpec (FalcoPolicySpecCell x9) = Some x9"
  "as_LitmusAppInfo (LitmusAppInfoCell x10) = Some x10"
  "as_LitmusExpectedResult (LitmusExpectedResultCell x11) = Some x11"
  "as_LitmusExperiment (LitmusExperimentCell x12) = Some x12"
  "as_LitmusPolicySpec (LitmusPolicySpecCell x13) = Some x13"
  "as_TrivyScan (TrivyScanCell x14) = Some x14"
  "as_TrivyPolicySpec (TrivyPolicySpecCell x15) = Some x15"
  "as_PolicyTarget (PolicyTargetCell x16) = Some x16"
  "as_PolicySpec (PolicySpecCell x17) = Some x17"
  "as_PolicyStatus (PolicyStatusCell x18) = Some x18"
  "as_Policy (PolicyCell x19) = Some x19"
  "as_PolicyList (PolicyListCell x20) = Some x20"
  "as_PolicyReference (PolicyReferenceCell x21) = Some x21"
  "as_PolicyReportSpec (PolicyReportSpecCell x22) = Some x22"
  "as_ReportSummary (ReportSummaryCell x23) = Some x23"
  "as_PolicyReportStatus (PolicyReportStatusCell x24) = Some x24"
  "as_PolicyReport (PolicyReportCell x25) = Some x25"
  "as_PolicyReportList (PolicyReportListCell x26) = Some x26"
  "as_ToolSpec (ToolSpecCell x27) = Some x27"
  "as_ToolStatus (ToolStatusCell x28) = Some x28"
  "as_Tool (ToolCell x29) = Some x29"
  "as_ToolList (ToolListCell x30) = Some x30"
  "as_LitmusExperiments (LitmusExperimentsCell x31) = Some x31"
  "as_TrivyScans (TrivyScansCell x32) = Some x32"
  "as_Policies (PoliciesCell x33) = Some x33"
  "as_PolicyReports (PolicyReportsCell x34) = Some x34"
  "as_Tools (ToolsCell x35) = Some x35"
  by (simp_all add: as_defs)

subsection \<open>What the structs stand for\<close>

abbreviation rep_map where "rep_map \<equiv> rep_nil [] as_Map rep_entries"

definition rep_FalcoRuleSelector where
  "rep_FalcoRuleSelector lo m x v \<longleftrightarrow>
     rep_slice as_Strings rep_eq lo m (frsm_Tags x) (frs_Tags v) \<and>
     rep_slice as_Strings rep_eq lo m (frsm_Priorities x) (frs_Priorities v)"

definition rep_FalcoObserveSpec where
  "rep_FalcoObserveSpec lo m x v \<longleftrightarrow>
     rep_ptr as_FalcoRuleRef rep_eq lo m (obsm_RuleRef x) (obs_RuleRef v) \<and>
     rep_ptr as_FalcoRuleSelector rep_FalcoRuleSelector lo m (obsm_RuleSelector x) (obs_RuleSelector v)"

definition rep_FalcoPolicySpec where
  "rep_FalcoPolicySpec lo m x v \<longleftrightarrow>
     rep_FalcoObserveSpec lo m (falm_Observe x) (fal_Observe v) \<and>
     rep_ptr as_FalcoReportSpec rep_eq lo m (falm_Report x) (fal_Report v)"

definition rep_LitmusExpectedResult where
  "rep_LitmusExpectedResult lo m x v \<longleftrightarrow>
     exrm_Verdict x = exr_Verdict v \<and>
     rep_ptr as_Bool rep_eq lo m (exrm_FailOnChaosError x) (exr_FailOnChaosError v)"

definition rep_LitmusExperiment where
  "rep_LitmusExperiment lo m x v \<longleftrightarrow>
     expm_Name x = exp_Name v \<and>
     expm_ExperimentRef x = exp_ExperimentRef v \<and>
     expm_EngineRef x = exp_EngineRef v \<and>
     expm_TargetNamespace x = exp_TargetNamespace v \<and>
     expm_AppInfo x = exp_AppInfo v \<and>
     expm_Mode x = exp_Mode v \<and>
     expm_Duration x = exp_Duration v \<and>
     rep_map lo m (expm_Parameters x) (exp_Parameters v) \<and>
     rep_LitmusExpectedResult lo m (expm_ExpectedResult x) (exp_ExpectedResult v)"

definition rep_LitmusPolicySpec where
  "rep_LitmusPolicySpec lo m x v \<longleftrightarrow>
     rep_slice as_LitmusExperiments rep_LitmusExperiment lo m (litm_Experiments x) (lit_Experiments v)"

definition rep_TrivyScan where
  "rep_TrivyScan lo m x v \<longleftrightarrow>
     scanm_Name x = scan_Name v \<and>
     scanm_Image x = scan_Image v \<and>
     scanm_Severity x = scan_Severity v \<and>
     scanm_IgnoreUnfixed x = scan_IgnoreUnfixed v \<and>
     rep_slice as_Strings rep_eq lo m (scanm_VulnerabilityTypes x) (scan_VulnerabilityTypes v) \<and>
     rep_ptr as_Int32 rep_eq lo m (scanm_ExitCode x) (scan_ExitCode v)"

definition rep_TrivyPolicySpec where
  "rep_TrivyPolicySpec lo m x v \<longleftrightarrow>
     rep_slice as_TrivyScans rep_TrivyScan lo m (trvm_Scans x) (trv_Scans v)"

definition rep_PolicyTarget where
  "rep_PolicyTarget lo m x v \<longleftrightarrow>
     rep_slice as_Strings rep_eq lo m (tgtm_NamespaceSelector x) (tgt_NamespaceSelector v) \<and>
     rep_slice as_Strings rep_eq lo m (tgtm_NodeSelector x) (tgt_NodeSelector v)"

definition rep_PolicySpec where
  "rep_PolicySpec lo m x v \<longleftrightarrow>
     psm_Type x = ps_Type v \<and>
     psm_Enabled x = ps_Enabled v \<and>
     rep_PolicyTarget lo m (psm_Target x) (ps_Target v) \<and>
     rep_ptr as_FalcoPolicySpec rep_FalcoPolicySpec lo m (psm_Falco x) (ps_Falco v) \<and>
     rep_ptr as_TrivyPolicySpec rep_TrivyPolicySpec lo m (psm_Trivy x) (ps_Trivy v) \<and>
     rep_ptr as_LitmusPolicySpec rep_LitmusPolicySpec lo m (psm_Litmus x) (ps_Litmus v)"

definition rep_PolicyStatus where
  "rep_PolicyStatus lo m x v \<longleftrightarrow>
     pstm_Phase x = pst_Phase v \<and>
     pstm_LastReport x = pst_LastReport v \<and>
     pstm_ObservedGen x = pst_ObservedGen v \<and>
     rep_slice as_Conditions rep_eq lo m (pstm_Conditions x) (pst_Conditions v)"

definition rep_Policy where
  "rep_Policy Rmeta lo m x v \<longleftrightarrow>
     polm_TypeMeta x = fst v \<and>
     Rmeta lo m (polm_meta x) (pol_meta (snd v)) \<and>
     rep_PolicySpec lo m (polm_Spec x) (pol_Spec (snd v)) \<and>
     rep_PolicyStatus lo m (polm_Status x) (pol_Status (snd v))"

definition rep_PolicyList where
  "rep_PolicyList Rmeta Rlist lo m x v \<longleftrightarrow>
     pollm_TypeMeta x = fst v \<and>
     Rlist lo m (pollm_ListMeta x) (fst (snd v)) \<and>
     rep_slice as_Policies (rep_Policy Rmeta) lo m (pollm_Items x) (snd (snd v))"

definition rep_PolicyReportStatus where
  "rep_PolicyReportStatus Rraw lo m x v \<longleftrightarrow>
     rstm_Phase x = rst_Phase v \<and>
     rstm_Summary x = rst_Summary v \<and>
     Rraw lo m (rstm_Details x) (rst_Details v)"

definition rep_PolicyReport where
  "rep_PolicyReport Rmeta Rraw lo m x v \<longleftrightarrow>
     repm_TypeMeta x = fst v \<and>
     repm_Spec x = rep_Spec (snd v) \<and>
     Rmeta lo m (repm_meta x) (rep_meta (snd v)) \<and>
     rep_PolicyReportStatus Rraw lo m (repm_Status x) (rep_Status (snd v))"

definition rep_PolicyReportList where
  "rep_PolicyReportList Rmeta Rraw Rlist lo m x v \<longleftrightarrow>
     replm_TypeMeta x = fst v \<and>
     Rlist lo m (replm_ListMeta x) (fst (snd v)) \<and>
     rep_slice as_PolicyReports (rep_PolicyReport Rmeta Rraw) lo m (replm_Items x) (snd (snd v))"

definition rep_ToolSpec where
  "rep_ToolSpec Rraw lo m x v \<longleftrightarrow>
     tsm_Type x = ts_Type v \<and>
     tsm_Enabled x = ts_Enabled v \<and>
     tsm_Namespace x = ts_Namespace v \<and>
     Rraw lo m (tsm_Values x) (ts_Values v)"

definition rep_ToolStatus where
  "rep_ToolStatus lo m x v \<longleftrightarrow>
     tstm_Installed x = tst_Installed v \<and>
     tstm_Healthy x = tst_Healthy v \<and>
     tstm_Version x = tst_Version v \<and>
     rep_slice as_Conditions rep_eq lo m (tstm_Conditions x) (tst_Conditions v)"

definition rep_Tool where
  "rep_Tool Rmeta Rraw lo m x v \<longleftrightarrow>
     toolm_TypeMeta x = fst v \<and>
     Rmeta lo m (toolm_meta x) (tool_meta (snd v)) \<and>
     rep_ToolSpec Rraw lo m (toolm_Spec x) (tool_Spec (snd v)) \<and>
     rep_ToolStatus lo m (toolm_Status x) (tool_Status (snd v))"

definition rep_ToolList where
  "rep_ToolList Rmeta Rraw Rlist lo m x v \<longleftrightarrow>
     toollm_TypeMeta x = fst v \<and>
     Rlist lo m (toollm_ListMeta x) (fst (snd v)) \<and>
     rep_slice as_Tools (rep_Tool Rmeta Rraw) lo m (toollm_Items x) (snd (snd v))"

end
