(* ===== verification/DeepCopy.thy ===== *)
theory DeepCopy
  imports ApiMemory
begin

section \<open>The deep copies of the custom resources\<close>

text \<open>
  \<open>api/v1alpha1/zz_generated.deepcopy.go\<close>: one \<open>DeepCopyInto\<close>, \<open>DeepCopy\<close> and, for objects and their lists,
  \<open>DeepCopyObject\<close> per type, over the memory of \<open>ApiMemory\<close>. \<open>in.DeepCopyInto(out)\<close> is a function from \<open>*in\<close> to
  what \<open>*out\<close> holds afterwards: \<open>*out = *in\<close>, and then the fields that point somewhere are replaced one after the
  other. A new cell is added when its content is known, where Go allocates it first and fills it then: the
  addresses differ, which no code observes. \<open>copies_T\<close> proves the contract \<open>deep_copy\<close> of each type, from the
  contract of the apimachinery methods where the type embeds their types.
\<close>

text \<open>The methods of apimachinery and of \<open>metav1\<close> that the generated code calls.\<close>

record ('meta, 'raw, 'lmeta) copy_lib =
  lib_ObjectMeta :: "'meta \<Rightarrow> (('meta, 'raw, 'lmeta) memory, 'meta) act"
  lib_RawExtension :: "'raw \<Rightarrow> (('meta, 'raw, 'lmeta) memory, 'raw) act"
  lib_ListMeta :: "'lmeta \<Rightarrow> (('meta, 'raw, 'lmeta) memory, 'lmeta) act"
  lib_Condition :: "condition \<Rightarrow> (('meta, 'raw, 'lmeta) memory, condition) act"

definition copy_lib_contract where
  "copy_lib_contract L Rmeta Rraw Rlist \<longleftrightarrow>
     deep_copy Rmeta (lib_ObjectMeta L) \<and> deep_copy Rraw (lib_RawExtension L) \<and>
     deep_copy Rlist (lib_ListMeta L) \<and> deep_copy rep_eq (lib_Condition L)"

lemma copy_lib_contractD:
  assumes "copy_lib_contract L Rmeta Rraw Rlist"
  shows "deep_copy Rmeta (lib_ObjectMeta L)" "deep_copy Rraw (lib_RawExtension L)"
    "deep_copy Rlist (lib_ListMeta L)" "deep_copy rep_eq (lib_Condition L)"
  using assms by (simp_all add: copy_lib_contract_def)

subsection \<open>\<open>DeepCopyInto\<close>\<close>

definition FalcoRuleRef_DeepCopyInto :: "FalcoRuleRef \<Rightarrow> (('meta, 'raw, 'lmeta) memory, FalcoRuleRef) act" where
  "FalcoRuleRef_DeepCopyInto x = retA x"

definition FalcoRuleSelector_DeepCopyInto ::
  "FalcoRuleSelector_mem \<Rightarrow> (('meta, 'raw, 'lmeta) memory, FalcoRuleSelector_mem) act" where
  "FalcoRuleSelector_DeepCopyInto x =
     bindA (copy_ptr as_Strings StringsCell retA (frsm_Tags x)) (\<lambda>p0.
     bindA (copy_ptr as_Strings StringsCell retA (frsm_Priorities x)) (\<lambda>p1.
     retA (x\<lparr>frsm_Tags := p0, frsm_Priorities := p1\<rparr>)))"

definition FalcoObserveSpec_DeepCopyInto ::
  "FalcoObserveSpec_mem \<Rightarrow> (('meta, 'raw, 'lmeta) memory, FalcoObserveSpec_mem) act" where
  "FalcoObserveSpec_DeepCopyInto x =
     bindA (copy_ptr as_FalcoRuleRef FalcoRuleRefCell retA (obsm_RuleRef x)) (\<lambda>p0.
     bindA (copy_ptr as_FalcoRuleSelector FalcoRuleSelectorCell FalcoRuleSelector_DeepCopyInto (obsm_RuleSelector x)) (\<lambda>p1.
     retA (x\<lparr>obsm_RuleRef := p0, obsm_RuleSelector := p1\<rparr>)))"

definition FalcoReportSpec_DeepCopyInto :: "FalcoReportSpec \<Rightarrow> (('meta, 'raw, 'lmeta) memory, FalcoReportSpec) act" where
  "FalcoReportSpec_DeepCopyInto x = retA x"

definition FalcoPolicySpec_DeepCopyInto ::
  "FalcoPolicySpec_mem \<Rightarrow> (('meta, 'raw, 'lmeta) memory, FalcoPolicySpec_mem) act" where
  "FalcoPolicySpec_DeepCopyInto x =
     bindA (FalcoObserveSpec_DeepCopyInto (falm_Observe x)) (\<lambda>p0.
     bindA (copy_ptr as_FalcoReportSpec FalcoReportSpecCell retA (falm_Report x)) (\<lambda>p1.
     retA (x\<lparr>falm_Observe := p0, falm_Report := p1\<rparr>)))"

definition LitmusAppInfo_DeepCopyInto :: "LitmusAppInfo \<Rightarrow> (('meta, 'raw, 'lmeta) memory, LitmusAppInfo) act" where
  "LitmusAppInfo_DeepCopyInto x = retA x"

definition LitmusExpectedResult_DeepCopyInto ::
  "LitmusExpectedResult_mem \<Rightarrow> (('meta, 'raw, 'lmeta) memory, LitmusExpectedResult_mem) act" where
  "LitmusExpectedResult_DeepCopyInto x =
     bindA (copy_ptr as_Bool BoolCell retA (exrm_FailOnChaosError x)) (\<lambda>p.
     retA (x\<lparr>exrm_FailOnChaosError := p\<rparr>))"

definition LitmusExperiment_DeepCopyInto ::
  "LitmusExperiment_mem \<Rightarrow> (('meta, 'raw, 'lmeta) memory, LitmusExperiment_mem) act" where
  "LitmusExperiment_DeepCopyInto x =
     bindA (copy_ptr as_Map MapCell copy_map (expm_Parameters x)) (\<lambda>p0.
     bindA (LitmusExpectedResult_DeepCopyInto (expm_ExpectedResult x)) (\<lambda>p1.
     retA (x\<lparr>expm_Parameters := p0, expm_ExpectedResult := p1\<rparr>)))"

definition LitmusPolicySpec_DeepCopyInto ::
  "LitmusPolicySpec_mem \<Rightarrow> (('meta, 'raw, 'lmeta) memory, LitmusPolicySpec_mem) act" where
  "LitmusPolicySpec_DeepCopyInto x =
     bindA (copy_ptr as_LitmusExperiments LitmusExperimentsCell (mapA LitmusExperiment_DeepCopyInto) (litm_Experiments x)) (\<lambda>p.
     retA (x\<lparr>litm_Experiments := p\<rparr>))"

definition TrivyScan_DeepCopyInto ::
  "TrivyScan_mem \<Rightarrow> (('meta, 'raw, 'lmeta) memory, TrivyScan_mem) act" where
  "TrivyScan_DeepCopyInto x =
     bindA (copy_ptr as_Strings StringsCell retA (scanm_VulnerabilityTypes x)) (\<lambda>p0.
     bindA (copy_ptr as_Int32 Int32Cell retA (scanm_ExitCode x)) (\<lambda>p1.
     retA (x\<lparr>scanm_VulnerabilityTypes := p0, scanm_ExitCode := p1\<rparr>)))"

definition TrivyPolicySpec_DeepCopyInto ::
  "TrivyPolicySpec_mem \<Rightarrow> (('meta, 'raw, 'lmeta) memory, TrivyPolicySpec_mem) act" where
  "TrivyPolicySpec_DeepCopyInto x =
     bindA (copy_ptr as_TrivyScans TrivyScansCell (mapA TrivyScan_DeepCopyInto) (trvm_Scans x)) (\<lambda>p.
     retA (x\<lparr>trvm_Scans := p\<rparr>))"

definition PolicyTarget_DeepCopyInto ::
  "PolicyTarget_mem \<Rightarrow> (('meta, 'raw, 'lmeta) memory, PolicyTarget_mem) act" where
  "PolicyTarget_DeepCopyInto x =
     bindA (copy_ptr as_Strings StringsCell retA (tgtm_NamespaceSelector x)) (\<lambda>p0.
     bindA (copy_ptr as_Strings StringsCell retA (tgtm_NodeSelector x)) (\<lambda>p1.
     retA (x\<lparr>tgtm_NamespaceSelector := p0, tgtm_NodeSelector := p1\<rparr>)))"

definition PolicySpec_DeepCopyInto ::
  "PolicySpec_mem \<Rightarrow> (('meta, 'raw, 'lmeta) memory, PolicySpec_mem) act" where
  "PolicySpec_DeepCopyInto x =
     bindA (PolicyTarget_DeepCopyInto (psm_Target x)) (\<lambda>p0.
     bindA (copy_ptr as_FalcoPolicySpec FalcoPolicySpecCell FalcoPolicySpec_DeepCopyInto (psm_Falco x)) (\<lambda>p1.
     bindA (copy_ptr as_TrivyPolicySpec TrivyPolicySpecCell TrivyPolicySpec_DeepCopyInto (psm_Trivy x)) (\<lambda>p2.
     bindA (copy_ptr as_LitmusPolicySpec LitmusPolicySpecCell LitmusPolicySpec_DeepCopyInto (psm_Litmus x)) (\<lambda>p3.
     retA (x\<lparr>psm_Target := p0, psm_Falco := p1, psm_Trivy := p2, psm_Litmus := p3\<rparr>)))))"

definition PolicyStatus_DeepCopyInto ::
  "('meta, 'raw, 'lmeta) copy_lib \<Rightarrow> PolicyStatus_mem \<Rightarrow> (('meta, 'raw, 'lmeta) memory, PolicyStatus_mem) act" where
  "PolicyStatus_DeepCopyInto L x =
     bindA (copy_ptr as_Conditions ConditionsCell (mapA (lib_Condition L)) (pstm_Conditions x)) (\<lambda>p.
     retA (x\<lparr>pstm_Conditions := p\<rparr>))"

definition Policy_DeepCopyInto ::
  "('meta, 'raw, 'lmeta) copy_lib \<Rightarrow> 'meta Policy_mem \<Rightarrow> (('meta, 'raw, 'lmeta) memory, 'meta Policy_mem) act" where
  "Policy_DeepCopyInto L x =
     bindA (lib_ObjectMeta L (polm_meta x)) (\<lambda>p0.
     bindA (PolicySpec_DeepCopyInto (polm_Spec x)) (\<lambda>p1.
     bindA (PolicyStatus_DeepCopyInto L (polm_Status x)) (\<lambda>p2.
     retA (x\<lparr>polm_meta := p0, polm_Spec := p1, polm_Status := p2\<rparr>))))"

definition PolicyList_DeepCopyInto ::
  "('meta, 'raw, 'lmeta) copy_lib \<Rightarrow> 'lmeta PolicyList_mem \<Rightarrow> (('meta, 'raw, 'lmeta) memory, 'lmeta PolicyList_mem) act" where
  "PolicyList_DeepCopyInto L x =
     bindA (lib_ListMeta L (pollm_ListMeta x)) (\<lambda>p0.
     bindA (copy_ptr as_Policies PoliciesCell (mapA (Policy_DeepCopyInto L)) (pollm_Items x)) (\<lambda>p1.
     retA (x\<lparr>pollm_ListMeta := p0, pollm_Items := p1\<rparr>)))"

definition PolicyReference_DeepCopyInto :: "PolicyReference \<Rightarrow> (('meta, 'raw, 'lmeta) memory, PolicyReference) act" where
  "PolicyReference_DeepCopyInto x = retA x"

definition PolicyReportSpec_DeepCopyInto :: "PolicyReportSpec \<Rightarrow> (('meta, 'raw, 'lmeta) memory, PolicyReportSpec) act" where
  "PolicyReportSpec_DeepCopyInto x = retA x"

definition ReportSummary_DeepCopyInto :: "ReportSummary \<Rightarrow> (('meta, 'raw, 'lmeta) memory, ReportSummary) act" where
  "ReportSummary_DeepCopyInto x = retA x"

definition PolicyReportStatus_DeepCopyInto ::
  "('meta, 'raw, 'lmeta) copy_lib \<Rightarrow> 'raw PolicyReportStatus_mem \<Rightarrow> (('meta, 'raw, 'lmeta) memory, 'raw PolicyReportStatus_mem) act" where
  "PolicyReportStatus_DeepCopyInto L x =
     bindA (lib_RawExtension L (rstm_Details x)) (\<lambda>p.
     retA (x\<lparr>rstm_Details := p\<rparr>))"

definition PolicyReport_DeepCopyInto ::
  "('meta, 'raw, 'lmeta) copy_lib \<Rightarrow> ('meta, 'raw) PolicyReport_mem \<Rightarrow> (('meta, 'raw, 'lmeta) memory, ('meta, 'raw) PolicyReport_mem) act" where
  "PolicyReport_DeepCopyInto L x =
     bindA (lib_ObjectMeta L (repm_meta x)) (\<lambda>p0.
     bindA (PolicyReportStatus_DeepCopyInto L (repm_Status x)) (\<lambda>p1.
     retA (x\<lparr>repm_meta := p0, repm_Status := p1\<rparr>)))"

definition PolicyReportList_DeepCopyInto ::
  "('meta, 'raw, 'lmeta) copy_lib \<Rightarrow> 'lmeta PolicyReportList_mem \<Rightarrow> (('meta, 'raw, 'lmeta) memory, 'lmeta PolicyReportList_mem) act" where
  "PolicyReportList_DeepCopyInto L x =
     bindA (lib_ListMeta L (replm_ListMeta x)) (\<lambda>p0.
     bindA (copy_ptr as_PolicyReports PolicyReportsCell (mapA (PolicyReport_DeepCopyInto L)) (replm_Items x)) (\<lambda>p1.
     retA (x\<lparr>replm_ListMeta := p0, replm_Items := p1\<rparr>)))"

definition ToolSpec_DeepCopyInto ::
  "('meta, 'raw, 'lmeta) copy_lib \<Rightarrow> 'raw ToolSpec_mem \<Rightarrow> (('meta, 'raw, 'lmeta) memory, 'raw ToolSpec_mem) act" where
  "ToolSpec_DeepCopyInto L x =
     bindA (lib_RawExtension L (tsm_Values x)) (\<lambda>p.
     retA (x\<lparr>tsm_Values := p\<rparr>))"

definition ToolStatus_DeepCopyInto ::
  "('meta, 'raw, 'lmeta) copy_lib \<Rightarrow> ToolStatus_mem \<Rightarrow> (('meta, 'raw, 'lmeta) memory, ToolStatus_mem) act" where
  "ToolStatus_DeepCopyInto L x =
     bindA (copy_ptr as_Conditions ConditionsCell (mapA (lib_Condition L)) (tstm_Conditions x)) (\<lambda>p.
     retA (x\<lparr>tstm_Conditions := p\<rparr>))"

definition Tool_DeepCopyInto ::
  "('meta, 'raw, 'lmeta) copy_lib \<Rightarrow> ('meta, 'raw) Tool_mem \<Rightarrow> (('meta, 'raw, 'lmeta) memory, ('meta, 'raw) Tool_mem) act" where
  "Tool_DeepCopyInto L x =
     bindA (lib_ObjectMeta L (toolm_meta x)) (\<lambda>p0.
     bindA (ToolSpec_DeepCopyInto L (toolm_Spec x)) (\<lambda>p1.
     bindA (ToolStatus_DeepCopyInto L (toolm_Status x)) (\<lambda>p2.
     retA (x\<lparr>toolm_meta := p0, toolm_Spec := p1, toolm_Status := p2\<rparr>))))"

definition ToolList_DeepCopyInto ::
  "('meta, 'raw, 'lmeta) copy_lib \<Rightarrow> 'lmeta ToolList_mem \<Rightarrow> (('meta, 'raw, 'lmeta) memory, 'lmeta ToolList_mem) act" where
  "ToolList_DeepCopyInto L x =
     bindA (lib_ListMeta L (toollm_ListMeta x)) (\<lambda>p0.
     bindA (copy_ptr as_Tools ToolsCell (mapA (Tool_DeepCopyInto L)) (toollm_Items x)) (\<lambda>p1.
     retA (x\<lparr>toollm_ListMeta := p0, toollm_Items := p1\<rparr>)))"

subsection \<open>\<open>DeepCopy\<close>\<close>

text \<open>\<open>if in == nil { return nil }; out := new(T); in.DeepCopyInto(out)\<close>\<close>

definition FalcoRuleRef_DeepCopy :: "addr option \<Rightarrow> (('meta, 'raw, 'lmeta) memory, addr option) act" where
  "FalcoRuleRef_DeepCopy p = copy_ptr as_FalcoRuleRef FalcoRuleRefCell FalcoRuleRef_DeepCopyInto p"

definition FalcoRuleSelector_DeepCopy :: "addr option \<Rightarrow> (('meta, 'raw, 'lmeta) memory, addr option) act" where
  "FalcoRuleSelector_DeepCopy p = copy_ptr as_FalcoRuleSelector FalcoRuleSelectorCell FalcoRuleSelector_DeepCopyInto p"

definition FalcoObserveSpec_DeepCopy :: "addr option \<Rightarrow> (('meta, 'raw, 'lmeta) memory, addr option) act" where
  "FalcoObserveSpec_DeepCopy p = copy_ptr as_FalcoObserveSpec FalcoObserveSpecCell FalcoObserveSpec_DeepCopyInto p"

definition FalcoReportSpec_DeepCopy :: "addr option \<Rightarrow> (('meta, 'raw, 'lmeta) memory, addr option) act" where
  "FalcoReportSpec_DeepCopy p = copy_ptr as_FalcoReportSpec FalcoReportSpecCell FalcoReportSpec_DeepCopyInto p"

definition FalcoPolicySpec_DeepCopy :: "addr option \<Rightarrow> (('meta, 'raw, 'lmeta) memory, addr option) act" where
  "FalcoPolicySpec_DeepCopy p = copy_ptr as_FalcoPolicySpec FalcoPolicySpecCell FalcoPolicySpec_DeepCopyInto p"

definition LitmusAppInfo_DeepCopy :: "addr option \<Rightarrow> (('meta, 'raw, 'lmeta) memory, addr option) act" where
  "LitmusAppInfo_DeepCopy p = copy_ptr as_LitmusAppInfo LitmusAppInfoCell LitmusAppInfo_DeepCopyInto p"

definition LitmusExpectedResult_DeepCopy :: "addr option \<Rightarrow> (('meta, 'raw, 'lmeta) memory, addr option) act" where
  "LitmusExpectedResult_DeepCopy p = copy_ptr as_LitmusExpectedResult LitmusExpectedResultCell LitmusExpectedResult_DeepCopyInto p"

definition LitmusExperiment_DeepCopy :: "addr option \<Rightarrow> (('meta, 'raw, 'lmeta) memory, addr option) act" where
  "LitmusExperiment_DeepCopy p = copy_ptr as_LitmusExperiment LitmusExperimentCell LitmusExperiment_DeepCopyInto p"

definition LitmusPolicySpec_DeepCopy :: "addr option \<Rightarrow> (('meta, 'raw, 'lmeta) memory, addr option) act" where
  "LitmusPolicySpec_DeepCopy p = copy_ptr as_LitmusPolicySpec LitmusPolicySpecCell LitmusPolicySpec_DeepCopyInto p"

definition TrivyScan_DeepCopy :: "addr option \<Rightarrow> (('meta, 'raw, 'lmeta) memory, addr option) act" where
  "TrivyScan_DeepCopy p = copy_ptr as_TrivyScan TrivyScanCell TrivyScan_DeepCopyInto p"

definition TrivyPolicySpec_DeepCopy :: "addr option \<Rightarrow> (('meta, 'raw, 'lmeta) memory, addr option) act" where
  "TrivyPolicySpec_DeepCopy p = copy_ptr as_TrivyPolicySpec TrivyPolicySpecCell TrivyPolicySpec_DeepCopyInto p"

definition PolicyTarget_DeepCopy :: "addr option \<Rightarrow> (('meta, 'raw, 'lmeta) memory, addr option) act" where
  "PolicyTarget_DeepCopy p = copy_ptr as_PolicyTarget PolicyTargetCell PolicyTarget_DeepCopyInto p"

definition PolicySpec_DeepCopy :: "addr option \<Rightarrow> (('meta, 'raw, 'lmeta) memory, addr option) act" where
  "PolicySpec_DeepCopy p = copy_ptr as_PolicySpec PolicySpecCell PolicySpec_DeepCopyInto p"

definition PolicyStatus_DeepCopy :: "('meta, 'raw, 'lmeta) copy_lib \<Rightarrow> addr option \<Rightarrow> (('meta, 'raw, 'lmeta) memory, addr option) act" where
  "PolicyStatus_DeepCopy L p = copy_ptr as_PolicyStatus PolicyStatusCell (PolicyStatus_DeepCopyInto L) p"

definition Policy_DeepCopy :: "('meta, 'raw, 'lmeta) copy_lib \<Rightarrow> addr option \<Rightarrow> (('meta, 'raw, 'lmeta) memory, addr option) act" where
  "Policy_DeepCopy L p = copy_ptr as_Policy PolicyCell (Policy_DeepCopyInto L) p"

definition PolicyList_DeepCopy :: "('meta, 'raw, 'lmeta) copy_lib \<Rightarrow> addr option \<Rightarrow> (('meta, 'raw, 'lmeta) memory, addr option) act" where
  "PolicyList_DeepCopy L p = copy_ptr as_PolicyList PolicyListCell (PolicyList_DeepCopyInto L) p"

definition PolicyReference_DeepCopy :: "addr option \<Rightarrow> (('meta, 'raw, 'lmeta) memory, addr option) act" where
  "PolicyReference_DeepCopy p = copy_ptr as_PolicyReference PolicyReferenceCell PolicyReference_DeepCopyInto p"

definition PolicyReportSpec_DeepCopy :: "addr option \<Rightarrow> (('meta, 'raw, 'lmeta) memory, addr option) act" where
  "PolicyReportSpec_DeepCopy p = copy_ptr as_PolicyReportSpec PolicyReportSpecCell PolicyReportSpec_DeepCopyInto p"

definition ReportSummary_DeepCopy :: "addr option \<Rightarrow> (('meta, 'raw, 'lmeta) memory, addr option) act" where
  "ReportSummary_DeepCopy p = copy_ptr as_ReportSummary ReportSummaryCell ReportSummary_DeepCopyInto p"

definition PolicyReportStatus_DeepCopy :: "('meta, 'raw, 'lmeta) copy_lib \<Rightarrow> addr option \<Rightarrow> (('meta, 'raw, 'lmeta) memory, addr option) act" where
  "PolicyReportStatus_DeepCopy L p = copy_ptr as_PolicyReportStatus PolicyReportStatusCell (PolicyReportStatus_DeepCopyInto L) p"

definition PolicyReport_DeepCopy :: "('meta, 'raw, 'lmeta) copy_lib \<Rightarrow> addr option \<Rightarrow> (('meta, 'raw, 'lmeta) memory, addr option) act" where
  "PolicyReport_DeepCopy L p = copy_ptr as_PolicyReport PolicyReportCell (PolicyReport_DeepCopyInto L) p"

definition PolicyReportList_DeepCopy :: "('meta, 'raw, 'lmeta) copy_lib \<Rightarrow> addr option \<Rightarrow> (('meta, 'raw, 'lmeta) memory, addr option) act" where
  "PolicyReportList_DeepCopy L p = copy_ptr as_PolicyReportList PolicyReportListCell (PolicyReportList_DeepCopyInto L) p"

definition ToolSpec_DeepCopy :: "('meta, 'raw, 'lmeta) copy_lib \<Rightarrow> addr option \<Rightarrow> (('meta, 'raw, 'lmeta) memory, addr option) act" where
  "ToolSpec_DeepCopy L p = copy_ptr as_ToolSpec ToolSpecCell (ToolSpec_DeepCopyInto L) p"

definition ToolStatus_DeepCopy :: "('meta, 'raw, 'lmeta) copy_lib \<Rightarrow> addr option \<Rightarrow> (('meta, 'raw, 'lmeta) memory, addr option) act" where
  "ToolStatus_DeepCopy L p = copy_ptr as_ToolStatus ToolStatusCell (ToolStatus_DeepCopyInto L) p"

definition Tool_DeepCopy :: "('meta, 'raw, 'lmeta) copy_lib \<Rightarrow> addr option \<Rightarrow> (('meta, 'raw, 'lmeta) memory, addr option) act" where
  "Tool_DeepCopy L p = copy_ptr as_Tool ToolCell (Tool_DeepCopyInto L) p"

definition ToolList_DeepCopy :: "('meta, 'raw, 'lmeta) copy_lib \<Rightarrow> addr option \<Rightarrow> (('meta, 'raw, 'lmeta) memory, addr option) act" where
  "ToolList_DeepCopy L p = copy_ptr as_ToolList ToolListCell (ToolList_DeepCopyInto L) p"

text \<open>A \<open>runtime.Object\<close> is nil, or a pointer of one of the registered types.\<close>

datatype object =
    PolicyObject addr
  | PolicyListObject addr
  | PolicyReportObject addr
  | PolicyReportListObject addr
  | ToolObject addr
  | ToolListObject addr

definition Policy_DeepCopyObject :: "('meta, 'raw, 'lmeta) copy_lib \<Rightarrow> addr option \<Rightarrow> (('meta, 'raw, 'lmeta) memory, object option) act" where
  "Policy_DeepCopyObject L p = bindA (Policy_DeepCopy L p) (\<lambda>c.
     case c of Some a \<Rightarrow> retA (Some (PolicyObject a)) | None \<Rightarrow> retA None)"

definition PolicyList_DeepCopyObject :: "('meta, 'raw, 'lmeta) copy_lib \<Rightarrow> addr option \<Rightarrow> (('meta, 'raw, 'lmeta) memory, object option) act" where
  "PolicyList_DeepCopyObject L p = bindA (PolicyList_DeepCopy L p) (\<lambda>c.
     case c of Some a \<Rightarrow> retA (Some (PolicyListObject a)) | None \<Rightarrow> retA None)"

definition PolicyReport_DeepCopyObject :: "('meta, 'raw, 'lmeta) copy_lib \<Rightarrow> addr option \<Rightarrow> (('meta, 'raw, 'lmeta) memory, object option) act" where
  "PolicyReport_DeepCopyObject L p = bindA (PolicyReport_DeepCopy L p) (\<lambda>c.
     case c of Some a \<Rightarrow> retA (Some (PolicyReportObject a)) | None \<Rightarrow> retA None)"

definition PolicyReportList_DeepCopyObject :: "('meta, 'raw, 'lmeta) copy_lib \<Rightarrow> addr option \<Rightarrow> (('meta, 'raw, 'lmeta) memory, object option) act" where
  "PolicyReportList_DeepCopyObject L p = bindA (PolicyReportList_DeepCopy L p) (\<lambda>c.
     case c of Some a \<Rightarrow> retA (Some (PolicyReportListObject a)) | None \<Rightarrow> retA None)"

definition Tool_DeepCopyObject :: "('meta, 'raw, 'lmeta) copy_lib \<Rightarrow> addr option \<Rightarrow> (('meta, 'raw, 'lmeta) memory, object option) act" where
  "Tool_DeepCopyObject L p = bindA (Tool_DeepCopy L p) (\<lambda>c.
     case c of Some a \<Rightarrow> retA (Some (ToolObject a)) | None \<Rightarrow> retA None)"

definition ToolList_DeepCopyObject :: "('meta, 'raw, 'lmeta) copy_lib \<Rightarrow> addr option \<Rightarrow> (('meta, 'raw, 'lmeta) memory, object option) act" where
  "ToolList_DeepCopyObject L p = bindA (ToolList_DeepCopy L p) (\<lambda>c.
     case c of Some a \<Rightarrow> retA (Some (ToolListObject a)) | None \<Rightarrow> retA None)"

subsection \<open>Every copy is deep\<close>

lemmas deep_copy_strings = deep_copy_nil [where as = as_Strings and into = StringsCell, OF deep_copy_flat as_cells(3)]

lemmas deep_copy_map = deep_copy_nil [where as = as_Map and into = MapCell, OF deep_copy_entries as_cells(4)]

lemma copies_FalcoRuleSelector: "deep_copy rep_FalcoRuleSelector FalcoRuleSelector_DeepCopyInto"
proof -
  show ?thesis
    by (rule deep_copy_struct [OF deep_copy_pair [OF deep_copy_strings deep_copy_strings], where
          plain = "\<lambda>x v. True" and
          get = "\<lambda>x. (frsm_Tags x, frsm_Priorities x)" and
          view = "\<lambda>v. (frs_Tags v, frs_Priorities v)" and
          put = "\<lambda>y x. x\<lparr>frsm_Tags := fst y, frsm_Priorities := snd y\<rparr>"])
      (auto simp: rep_FalcoRuleSelector_def FalcoRuleSelector_DeepCopyInto_def copy_struct_simps)
qed

lemma copies_FalcoObserveSpec: "deep_copy rep_FalcoObserveSpec FalcoObserveSpec_DeepCopyInto"
proof -
  note ruleref = deep_copy_ptr [where as = as_FalcoRuleRef and into = FalcoRuleRefCell, OF deep_copy_eq as_cells(6)]
  note ruleselector = deep_copy_ptr [where as = as_FalcoRuleSelector and into = FalcoRuleSelectorCell, OF copies_FalcoRuleSelector as_cells(7)]
  show ?thesis
    by (rule deep_copy_struct [OF deep_copy_pair [OF ruleref ruleselector], where
          plain = "\<lambda>x v. True" and
          get = "\<lambda>x. (obsm_RuleRef x, obsm_RuleSelector x)" and
          view = "\<lambda>v. (obs_RuleRef v, obs_RuleSelector v)" and
          put = "\<lambda>y x. x\<lparr>obsm_RuleRef := fst y, obsm_RuleSelector := snd y\<rparr>"])
      (auto simp: rep_FalcoObserveSpec_def FalcoObserveSpec_DeepCopyInto_def copy_struct_simps)
qed

lemma copies_FalcoPolicySpec: "deep_copy rep_FalcoPolicySpec FalcoPolicySpec_DeepCopyInto"
proof -
  note report = deep_copy_ptr [where as = as_FalcoReportSpec and into = FalcoReportSpecCell, OF deep_copy_eq as_cells(9)]
  show ?thesis
    by (rule deep_copy_struct [OF deep_copy_pair [OF copies_FalcoObserveSpec report], where
          plain = "\<lambda>x v. True" and
          get = "\<lambda>x. (falm_Observe x, falm_Report x)" and
          view = "\<lambda>v. (fal_Observe v, fal_Report v)" and
          put = "\<lambda>y x. x\<lparr>falm_Observe := fst y, falm_Report := snd y\<rparr>"])
      (auto simp: rep_FalcoPolicySpec_def FalcoPolicySpec_DeepCopyInto_def copy_struct_simps)
qed

lemma copies_LitmusExpectedResult: "deep_copy rep_LitmusExpectedResult LitmusExpectedResult_DeepCopyInto"
proof -
  note failonchaoserror = deep_copy_ptr [where as = as_Bool and into = BoolCell, OF deep_copy_eq as_cells(1)]
  show ?thesis
    by (rule deep_copy_struct [OF failonchaoserror, where
          plain = "\<lambda>x v. exrm_Verdict x = exr_Verdict v" and
          get = "\<lambda>x. exrm_FailOnChaosError x" and
          view = "\<lambda>v. exr_FailOnChaosError v" and
          put = "\<lambda>y x. x\<lparr>exrm_FailOnChaosError := y\<rparr>"])
      (auto simp: rep_LitmusExpectedResult_def LitmusExpectedResult_DeepCopyInto_def copy_struct_simps)
qed

lemma copies_LitmusExperiment: "deep_copy rep_LitmusExperiment LitmusExperiment_DeepCopyInto"
proof -
  show ?thesis
    by (rule deep_copy_struct [OF deep_copy_pair [OF deep_copy_map copies_LitmusExpectedResult], where
          plain = "\<lambda>x v. expm_Name x = exp_Name v \<and>
            expm_ExperimentRef x = exp_ExperimentRef v \<and>
            expm_EngineRef x = exp_EngineRef v \<and>
            expm_TargetNamespace x = exp_TargetNamespace v \<and>
            expm_AppInfo x = exp_AppInfo v \<and>
            expm_Mode x = exp_Mode v \<and>
            expm_Duration x = exp_Duration v" and
          get = "\<lambda>x. (expm_Parameters x, expm_ExpectedResult x)" and
          view = "\<lambda>v. (exp_Parameters v, exp_ExpectedResult v)" and
          put = "\<lambda>y x. x\<lparr>expm_Parameters := fst y, expm_ExpectedResult := snd y\<rparr>"])
      (auto simp: rep_LitmusExperiment_def LitmusExperiment_DeepCopyInto_def copy_struct_simps)
qed

lemma copies_LitmusPolicySpec: "deep_copy rep_LitmusPolicySpec LitmusPolicySpec_DeepCopyInto"
proof -
  note experiments = deep_copy_nil [where as = as_LitmusExperiments and into = LitmusExperimentsCell, OF deep_copy_list [OF copies_LitmusExperiment] as_cells(32)]
  show ?thesis
    by (rule deep_copy_struct [OF experiments, where
          plain = "\<lambda>x v. True" and
          get = "\<lambda>x. litm_Experiments x" and
          view = "\<lambda>v. lit_Experiments v" and
          put = "\<lambda>y x. x\<lparr>litm_Experiments := y\<rparr>"])
      (auto simp: rep_LitmusPolicySpec_def LitmusPolicySpec_DeepCopyInto_def copy_struct_simps)
qed

lemma copies_TrivyScan: "deep_copy rep_TrivyScan TrivyScan_DeepCopyInto"
proof -
  note exitcode = deep_copy_ptr [where as = as_Int32 and into = Int32Cell, OF deep_copy_eq as_cells(2)]
  show ?thesis
    by (rule deep_copy_struct [OF deep_copy_pair [OF deep_copy_strings exitcode], where
          plain = "\<lambda>x v. scanm_Name x = scan_Name v \<and>
            scanm_Image x = scan_Image v \<and>
            scanm_Severity x = scan_Severity v \<and>
            scanm_IgnoreUnfixed x = scan_IgnoreUnfixed v" and
          get = "\<lambda>x. (scanm_VulnerabilityTypes x, scanm_ExitCode x)" and
          view = "\<lambda>v. (scan_VulnerabilityTypes v, scan_ExitCode v)" and
          put = "\<lambda>y x. x\<lparr>scanm_VulnerabilityTypes := fst y, scanm_ExitCode := snd y\<rparr>"])
      (auto simp: rep_TrivyScan_def TrivyScan_DeepCopyInto_def copy_struct_simps)
qed

lemma copies_TrivyPolicySpec: "deep_copy rep_TrivyPolicySpec TrivyPolicySpec_DeepCopyInto"
proof -
  note scans = deep_copy_nil [where as = as_TrivyScans and into = TrivyScansCell, OF deep_copy_list [OF copies_TrivyScan] as_cells(33)]
  show ?thesis
    by (rule deep_copy_struct [OF scans, where
          plain = "\<lambda>x v. True" and
          get = "\<lambda>x. trvm_Scans x" and
          view = "\<lambda>v. trv_Scans v" and
          put = "\<lambda>y x. x\<lparr>trvm_Scans := y\<rparr>"])
      (auto simp: rep_TrivyPolicySpec_def TrivyPolicySpec_DeepCopyInto_def copy_struct_simps)
qed

lemma copies_PolicyTarget: "deep_copy rep_PolicyTarget PolicyTarget_DeepCopyInto"
proof -
  show ?thesis
    by (rule deep_copy_struct [OF deep_copy_pair [OF deep_copy_strings deep_copy_strings], where
          plain = "\<lambda>x v. True" and
          get = "\<lambda>x. (tgtm_NamespaceSelector x, tgtm_NodeSelector x)" and
          view = "\<lambda>v. (tgt_NamespaceSelector v, tgt_NodeSelector v)" and
          put = "\<lambda>y x. x\<lparr>tgtm_NamespaceSelector := fst y, tgtm_NodeSelector := snd y\<rparr>"])
      (auto simp: rep_PolicyTarget_def PolicyTarget_DeepCopyInto_def copy_struct_simps)
qed

lemma copies_PolicySpec: "deep_copy rep_PolicySpec PolicySpec_DeepCopyInto"
proof -
  note falco = deep_copy_ptr [where as = as_FalcoPolicySpec and into = FalcoPolicySpecCell, OF copies_FalcoPolicySpec as_cells(10)]
  note trivy = deep_copy_ptr [where as = as_TrivyPolicySpec and into = TrivyPolicySpecCell, OF copies_TrivyPolicySpec as_cells(16)]
  note litmus = deep_copy_ptr [where as = as_LitmusPolicySpec and into = LitmusPolicySpecCell, OF copies_LitmusPolicySpec as_cells(14)]
  show ?thesis
    by (rule deep_copy_struct [OF deep_copy_pair [OF copies_PolicyTarget deep_copy_pair [OF falco deep_copy_pair [OF trivy litmus]]], where
          plain = "\<lambda>x v. psm_Type x = ps_Type v \<and>
            psm_Enabled x = ps_Enabled v" and
          get = "\<lambda>x. (psm_Target x, psm_Falco x, psm_Trivy x, psm_Litmus x)" and
          view = "\<lambda>v. (ps_Target v, ps_Falco v, ps_Trivy v, ps_Litmus v)" and
          put = "\<lambda>y x. x\<lparr>psm_Target := fst y,
            psm_Falco := fst (snd y),
            psm_Trivy := fst (snd (snd y)),
            psm_Litmus := snd (snd (snd y))\<rparr>"])
      (auto simp: rep_PolicySpec_def PolicySpec_DeepCopyInto_def copy_struct_simps)
qed

lemma copies_PolicyStatus:
  assumes "copy_lib_contract L Rmeta Rraw Rlist"
  shows "deep_copy rep_PolicyStatus (PolicyStatus_DeepCopyInto L)"
proof -
  note lib = copy_lib_contractD [OF assms]
  note conditions = deep_copy_nil [where as = as_Conditions and into = ConditionsCell, OF deep_copy_list [OF lib(4)] as_cells(5)]
  show ?thesis
    by (rule deep_copy_struct [OF conditions, where
          plain = "\<lambda>x v. pstm_Phase x = pst_Phase v \<and>
            pstm_LastReport x = pst_LastReport v \<and>
            pstm_ObservedGen x = pst_ObservedGen v" and
          get = "\<lambda>x. pstm_Conditions x" and
          view = "\<lambda>v. pst_Conditions v" and
          put = "\<lambda>y x. x\<lparr>pstm_Conditions := y\<rparr>"])
      (auto simp: rep_PolicyStatus_def PolicyStatus_DeepCopyInto_def copy_struct_simps)
qed

lemma copies_Policy:
  assumes "copy_lib_contract L Rmeta Rraw Rlist"
  shows "deep_copy (rep_Policy Rmeta) (Policy_DeepCopyInto L)"
proof -
  note lib = copy_lib_contractD [OF assms]
  show ?thesis
    by (rule deep_copy_struct [OF deep_copy_pair [OF lib(1) deep_copy_pair [OF copies_PolicySpec copies_PolicyStatus [OF assms]]], where
          plain = "\<lambda>x v. polm_TypeMeta x = fst v" and
          get = "\<lambda>x. (polm_meta x, polm_Spec x, polm_Status x)" and
          view = "\<lambda>v. (pol_meta (snd v), pol_Spec (snd v), pol_Status (snd v))" and
          put = "\<lambda>y x. x\<lparr>polm_meta := fst y, polm_Spec := fst (snd y), polm_Status := snd (snd y)\<rparr>"])
      (auto simp: rep_Policy_def Policy_DeepCopyInto_def copy_struct_simps)
qed

lemma copies_PolicyList:
  assumes "copy_lib_contract L Rmeta Rraw Rlist"
  shows "deep_copy (rep_PolicyList Rmeta Rlist) (PolicyList_DeepCopyInto L)"
proof -
  note lib = copy_lib_contractD [OF assms]
  note items = deep_copy_nil [where as = as_Policies and into = PoliciesCell, OF deep_copy_list [OF copies_Policy [OF assms]] as_cells(34)]
  show ?thesis
    by (rule deep_copy_struct [OF deep_copy_pair [OF lib(3) items], where
          plain = "\<lambda>x v. pollm_TypeMeta x = fst v" and
          get = "\<lambda>x. (pollm_ListMeta x, pollm_Items x)" and
          view = "\<lambda>v. (fst (snd v), snd (snd v))" and
          put = "\<lambda>y x. x\<lparr>pollm_ListMeta := fst y, pollm_Items := snd y\<rparr>"])
      (auto simp: rep_PolicyList_def PolicyList_DeepCopyInto_def copy_struct_simps)
qed

lemma copies_PolicyReportStatus:
  assumes "copy_lib_contract L Rmeta Rraw Rlist"
  shows "deep_copy (rep_PolicyReportStatus Rraw) (PolicyReportStatus_DeepCopyInto L)"
proof -
  note lib = copy_lib_contractD [OF assms]
  show ?thesis
    by (rule deep_copy_struct [OF lib(2), where
          plain = "\<lambda>x v. rstm_Phase x = rst_Phase v \<and>
            rstm_Summary x = rst_Summary v" and
          get = "\<lambda>x. rstm_Details x" and
          view = "\<lambda>v. rst_Details v" and
          put = "\<lambda>y x. x\<lparr>rstm_Details := y\<rparr>"])
      (auto simp: rep_PolicyReportStatus_def PolicyReportStatus_DeepCopyInto_def copy_struct_simps)
qed

lemma copies_PolicyReport:
  assumes "copy_lib_contract L Rmeta Rraw Rlist"
  shows "deep_copy (rep_PolicyReport Rmeta Rraw) (PolicyReport_DeepCopyInto L)"
proof -
  note lib = copy_lib_contractD [OF assms]
  show ?thesis
    by (rule deep_copy_struct [OF deep_copy_pair [OF lib(1) copies_PolicyReportStatus [OF assms]], where
          plain = "\<lambda>x v. repm_TypeMeta x = fst v \<and>
            repm_Spec x = rep_Spec (snd v)" and
          get = "\<lambda>x. (repm_meta x, repm_Status x)" and
          view = "\<lambda>v. (rep_meta (snd v), rep_Status (snd v))" and
          put = "\<lambda>y x. x\<lparr>repm_meta := fst y, repm_Status := snd y\<rparr>"])
      (auto simp: rep_PolicyReport_def PolicyReport_DeepCopyInto_def copy_struct_simps)
qed

lemma copies_PolicyReportList:
  assumes "copy_lib_contract L Rmeta Rraw Rlist"
  shows "deep_copy (rep_PolicyReportList Rmeta Rraw Rlist) (PolicyReportList_DeepCopyInto L)"
proof -
  note lib = copy_lib_contractD [OF assms]
  note items = deep_copy_nil [where as = as_PolicyReports and into = PolicyReportsCell, OF deep_copy_list [OF copies_PolicyReport [OF assms]] as_cells(35)]
  show ?thesis
    by (rule deep_copy_struct [OF deep_copy_pair [OF lib(3) items], where
          plain = "\<lambda>x v. replm_TypeMeta x = fst v" and
          get = "\<lambda>x. (replm_ListMeta x, replm_Items x)" and
          view = "\<lambda>v. (fst (snd v), snd (snd v))" and
          put = "\<lambda>y x. x\<lparr>replm_ListMeta := fst y, replm_Items := snd y\<rparr>"])
      (auto simp: rep_PolicyReportList_def PolicyReportList_DeepCopyInto_def copy_struct_simps)
qed

lemma copies_ToolSpec:
  assumes "copy_lib_contract L Rmeta Rraw Rlist"
  shows "deep_copy (rep_ToolSpec Rraw) (ToolSpec_DeepCopyInto L)"
proof -
  note lib = copy_lib_contractD [OF assms]
  show ?thesis
    by (rule deep_copy_struct [OF lib(2), where
          plain = "\<lambda>x v. tsm_Type x = ts_Type v \<and>
            tsm_Enabled x = ts_Enabled v \<and>
            tsm_Namespace x = ts_Namespace v" and
          get = "\<lambda>x. tsm_Values x" and
          view = "\<lambda>v. ts_Values v" and
          put = "\<lambda>y x. x\<lparr>tsm_Values := y\<rparr>"])
      (auto simp: rep_ToolSpec_def ToolSpec_DeepCopyInto_def copy_struct_simps)
qed

lemma copies_ToolStatus:
  assumes "copy_lib_contract L Rmeta Rraw Rlist"
  shows "deep_copy rep_ToolStatus (ToolStatus_DeepCopyInto L)"
proof -
  note lib = copy_lib_contractD [OF assms]
  note conditions = deep_copy_nil [where as = as_Conditions and into = ConditionsCell, OF deep_copy_list [OF lib(4)] as_cells(5)]
  show ?thesis
    by (rule deep_copy_struct [OF conditions, where
          plain = "\<lambda>x v. tstm_Installed x = tst_Installed v \<and>
            tstm_Healthy x = tst_Healthy v \<and>
            tstm_Version x = tst_Version v" and
          get = "\<lambda>x. tstm_Conditions x" and
          view = "\<lambda>v. tst_Conditions v" and
          put = "\<lambda>y x. x\<lparr>tstm_Conditions := y\<rparr>"])
      (auto simp: rep_ToolStatus_def ToolStatus_DeepCopyInto_def copy_struct_simps)
qed

lemma copies_Tool:
  assumes "copy_lib_contract L Rmeta Rraw Rlist"
  shows "deep_copy (rep_Tool Rmeta Rraw) (Tool_DeepCopyInto L)"
proof -
  note lib = copy_lib_contractD [OF assms]
  show ?thesis
    by (rule deep_copy_struct [OF deep_copy_pair [OF lib(1) deep_copy_pair [OF copies_ToolSpec [OF assms] copies_ToolStatus [OF assms]]], where
          plain = "\<lambda>x v. toolm_TypeMeta x = fst v" and
          get = "\<lambda>x. (toolm_meta x, toolm_Spec x, toolm_Status x)" and
          view = "\<lambda>v. (tool_meta (snd v), tool_Spec (snd v), tool_Status (snd v))" and
          put = "\<lambda>y x. x\<lparr>toolm_meta := fst y, toolm_Spec := fst (snd y), toolm_Status := snd (snd y)\<rparr>"])
      (auto simp: rep_Tool_def Tool_DeepCopyInto_def copy_struct_simps)
qed

lemma copies_ToolList:
  assumes "copy_lib_contract L Rmeta Rraw Rlist"
  shows "deep_copy (rep_ToolList Rmeta Rraw Rlist) (ToolList_DeepCopyInto L)"
proof -
  note lib = copy_lib_contractD [OF assms]
  note items = deep_copy_nil [where as = as_Tools and into = ToolsCell, OF deep_copy_list [OF copies_Tool [OF assms]] as_cells(36)]
  show ?thesis
    by (rule deep_copy_struct [OF deep_copy_pair [OF lib(3) items], where
          plain = "\<lambda>x v. toollm_TypeMeta x = fst v" and
          get = "\<lambda>x. (toollm_ListMeta x, toollm_Items x)" and
          view = "\<lambda>v. (fst (snd v), snd (snd v))" and
          put = "\<lambda>y x. x\<lparr>toollm_ListMeta := fst y, toollm_Items := snd y\<rparr>"])
      (auto simp: rep_ToolList_def ToolList_DeepCopyInto_def copy_struct_simps)
qed

text \<open>The types without apimachinery parts keep the contract unconditionally.\<close>

interpretation trivy_spec: deep_copy rep_TrivyPolicySpec TrivyPolicySpec_DeepCopyInto
  by (rule copies_TrivyPolicySpec)

interpretation falco_spec: deep_copy rep_FalcoPolicySpec FalcoPolicySpec_DeepCopyInto
  by (rule copies_FalcoPolicySpec)

interpretation litmus_spec: deep_copy rep_LitmusPolicySpec LitmusPolicySpec_DeepCopyInto
  by (rule copies_LitmusPolicySpec)

interpretation policy_spec: deep_copy rep_PolicySpec PolicySpec_DeepCopyInto
  by (rule copies_PolicySpec)

text \<open>\<open>DeepCopy\<close> of a pointer, nil or not, and \<open>DeepCopyObject\<close>.\<close>

lemma Tool_DeepCopy_deep:
  assumes "copy_lib_contract L Rmeta Rraw Rlist"
  shows "deep_copy (rep_ptr as_Tool (rep_Tool Rmeta Rraw)) (Tool_DeepCopy L)"
  using deep_copy_ptr [where as = as_Tool and into = ToolCell, OF copies_Tool [OF assms] as_cells(30)]
  by (simp add: Tool_DeepCopy_def [abs_def])

lemma Policy_DeepCopy_deep:
  assumes "copy_lib_contract L Rmeta Rraw Rlist"
  shows "deep_copy (rep_ptr as_Policy (rep_Policy Rmeta)) (Policy_DeepCopy L)"
  using deep_copy_ptr [where as = as_Policy and into = PolicyCell, OF copies_Policy [OF assms] as_cells(20)]
  by (simp add: Policy_DeepCopy_def [abs_def])

lemma PolicyReport_DeepCopy_deep:
  assumes "copy_lib_contract L Rmeta Rraw Rlist"
  shows "deep_copy (rep_ptr as_PolicyReport (rep_PolicyReport Rmeta Rraw)) (PolicyReport_DeepCopy L)"
  using deep_copy_ptr [where as = as_PolicyReport and into = PolicyReportCell, OF copies_PolicyReport [OF assms] as_cells(26)]
  by (simp add: PolicyReport_DeepCopy_def [abs_def])

lemma PolicyReportStatus_DeepCopy_deep:
  assumes "copy_lib_contract L Rmeta Rraw Rlist"
  shows "deep_copy (rep_ptr as_PolicyReportStatus (rep_PolicyReportStatus Rraw)) (PolicyReportStatus_DeepCopy L)"
  using deep_copy_ptr [where as = as_PolicyReportStatus and into = PolicyReportStatusCell,
      OF copies_PolicyReportStatus [OF assms] as_cells(25)]
  by (simp add: PolicyReportStatus_DeepCopy_def [abs_def])

lemma DeepCopyObject_copy:
  "Policy_DeepCopy L p m = (Ret q, m') \<Longrightarrow> Policy_DeepCopyObject L p m = (Ret (map_option PolicyObject q), m')"
  "PolicyReport_DeepCopy L p m = (Ret q, m') \<Longrightarrow>
     PolicyReport_DeepCopyObject L p m = (Ret (map_option PolicyReportObject q), m')"
  "Tool_DeepCopy L p m = (Ret q, m') \<Longrightarrow> Tool_DeepCopyObject L p m = (Ret (map_option ToolObject q), m')"
  by (simp_all add: object_of_copy Policy_DeepCopyObject_def PolicyReport_DeepCopyObject_def Tool_DeepCopyObject_def)

text \<open>
  C28: A deep copy of a Tool, of a report status, of a Policy or of a PolicyReport (as \<open>runtime.Object\<close>) does
  not panic, leaves the memory that was there as it is, and gives a pointer that stands for the same object,
  nil for nil; original and copy are independent, so that no write through the one is seen through the
  other. The tool controller takes the base of its patches and the Litmus report handler the new status from
  such a copy, and the rest of the development treats the copy as the value of the original.
\<close>

theorem deep_copies_apart:
  assumes "copy_lib_contract L Rmeta Rraw Rlist"
    and "rep_ptr as_Tool (rep_Tool Rmeta Rraw) lo m tp t"
    and "rep_ptr as_PolicyReportStatus (rep_PolicyReportStatus Rraw) lo m sp s"
    and "rep_ptr as_Policy (rep_Policy Rmeta) lo m pp p"
    and "rep_ptr as_PolicyReport (rep_PolicyReport Rmeta Rraw) lo m rp r"
  shows "(\<exists>q m'. Tool_DeepCopy L tp m = (Ret q, m') \<and> extends m m' \<and>
        independent (rep_ptr as_Tool (rep_Tool Rmeta Rraw)) lo m m' tp q t) \<and>
    (\<exists>q m'. PolicyReportStatus_DeepCopy L sp m = (Ret q, m') \<and> extends m m' \<and>
        independent (rep_ptr as_PolicyReportStatus (rep_PolicyReportStatus Rraw)) lo m m' sp q s) \<and>
    (\<exists>q m'. Policy_DeepCopyObject L pp m = (Ret (map_option PolicyObject q), m') \<and> extends m m' \<and>
        independent (rep_ptr as_Policy (rep_Policy Rmeta)) lo m m' pp q p) \<and>
    (\<exists>q m'. PolicyReport_DeepCopyObject L rp m = (Ret (map_option PolicyReportObject q), m') \<and> extends m m' \<and>
        independent (rep_ptr as_PolicyReport (rep_PolicyReport Rmeta Rraw)) lo m m' rp q r)"
  using deep_copy.copy_independent [OF Tool_DeepCopy_deep [OF assms(1)] assms(2)]
    deep_copy.copy_independent [OF PolicyReportStatus_DeepCopy_deep [OF assms(1)] assms(3)]
    deep_copy.copy_independent [OF Policy_DeepCopy_deep [OF assms(1)] assms(4)]
    deep_copy.copy_independent [OF PolicyReport_DeepCopy_deep [OF assms(1)] assms(5)]
  by (meson DeepCopyObject_copy)

subsection \<open>An instance\<close>

text \<open>Metadata whose finalizers are a slice in memory, raw extensions and conditions without pointers.\<close>

record sample_meta =
  sm_plain :: obj_meta
  sm_finalizers :: "addr option"

definition rep_sample_meta where
  "rep_sample_meta lo m x v \<longleftrightarrow>
     sm_plain x = v\<lparr>om_finalizers := []\<rparr> \<and> rep_slice as_Strings rep_eq lo m (sm_finalizers x) (om_finalizers v)"

definition sample_lib :: "(sample_meta, json option, unit) copy_lib" where
  "sample_lib = \<lparr>
     lib_ObjectMeta = (\<lambda>x. bindA (copy_ptr as_Strings StringsCell retA (sm_finalizers x)) (\<lambda>p. retA (x\<lparr>sm_finalizers := p\<rparr>))),
     lib_RawExtension = retA, lib_ListMeta = retA, lib_Condition = retA\<rparr>"

lemma sample_lib_ok: "copy_lib_contract sample_lib rep_sample_meta rep_eq rep_eq"
proof -
  have "deep_copy rep_sample_meta (lib_ObjectMeta sample_lib)"
    by (rule deep_copy_struct [OF deep_copy_strings, where
          plain = "\<lambda>x v. sm_plain x = v\<lparr>om_finalizers := []\<rparr>" and get = "\<lambda>x. sm_finalizers x" and
          view = "\<lambda>v. om_finalizers v" and put = "\<lambda>y x. x\<lparr>sm_finalizers := y\<rparr>"])
      (simp_all add: rep_sample_meta_def sample_lib_def)
  then show ?thesis by (simp add: copy_lib_contract_def sample_lib_def deep_copy_eq)
qed

interpretation sample_tool: deep_copy "rep_Tool rep_sample_meta rep_eq" "Tool_DeepCopyInto sample_lib"
  by (rule copies_Tool [OF sample_lib_ok])

definition sample_object_meta :: sample_meta where
  "sample_object_meta = \<lparr>sm_plain = new_meta ''default'' ''x'', sm_finalizers = Some 0\<rparr>"

definition sample_memory :: "(sample_meta, json option, unit) memory" where
  "sample_memory = [
     StringsCell [ToolFinalizer],
     Int32Cell 1,
     TrivyScansCell [\<lparr>scanm_Name = ''s'', scanm_Image = ''nginx'', scanm_Severity = ''HIGH'',
       scanm_IgnoreUnfixed = True, scanm_VulnerabilityTypes = None, scanm_ExitCode = Some 1\<rparr>],
     TrivyPolicySpecCell \<lparr>trvm_Scans = Some 2\<rparr>,
     ToolCell \<lparr>toolm_TypeMeta = \<lparr>tm_Kind = ''Tool'', tm_APIVersion = ''v1alpha1''\<rparr>,
       toolm_meta = sample_object_meta,
       toolm_Spec = \<lparr>tsm_Type = ToolTrivy, tsm_Enabled = True, tsm_Namespace = ''default'', tsm_Values = None\<rparr>,
       toolm_Status = \<lparr>tstm_Installed = False, tstm_Healthy = False, tstm_Version = '''', tstm_Conditions = None\<rparr>\<rparr>,
     PolicyCell \<lparr>polm_TypeMeta = \<lparr>tm_Kind = ''Policy'', tm_APIVersion = ''v1alpha1''\<rparr>,
       polm_meta = sample_object_meta,
       polm_Spec = \<lparr>psm_Type = PolicyTypeTrivy, psm_Enabled = True,
         psm_Target = \<lparr>tgtm_NamespaceSelector = None, tgtm_NodeSelector = None\<rparr>,
         psm_Falco = None, psm_Trivy = Some 3, psm_Litmus = None\<rparr>,
       polm_Status = \<lparr>pstm_Phase = '''', pstm_Conditions = None, pstm_LastReport = '''', pstm_ObservedGen = 0\<rparr>\<rparr>]"

definition sample_copied_meta :: obj_meta where
  "sample_copied_meta = (new_meta ''default'' ''x'')\<lparr>om_finalizers := [ToolFinalizer]\<rparr>"

definition sample_copied_tool :: Tool where
  "sample_copied_tool = \<lparr>tool_meta = sample_copied_meta,
     tool_Spec = \<lparr>ts_Type = ToolTrivy, ts_Enabled = True, ts_Namespace = ''default'', ts_Values = None\<rparr>,
     tool_Status = \<lparr>tst_Installed = False, tst_Healthy = False, tst_Version = '''', tst_Conditions = []\<rparr>\<rparr>"

definition sample_copied_policy :: Policy where
  "sample_copied_policy = \<lparr>pol_meta = sample_copied_meta,
     pol_Spec = \<lparr>ps_Type = PolicyTypeTrivy, ps_Enabled = True,
       ps_Target = \<lparr>tgt_NamespaceSelector = [], tgt_NodeSelector = []\<rparr>,
       ps_Falco = None,
       ps_Trivy = Some \<lparr>trv_Scans = [\<lparr>scan_Name = ''s'', scan_Image = ''nginx'', scan_Severity = ''HIGH'',
         scan_IgnoreUnfixed = True, scan_VulnerabilityTypes = [], scan_ExitCode = Some 1\<rparr>]\<rparr>,
       ps_Litmus = None\<rparr>,
     pol_Status = \<lparr>pst_Phase = '''', pst_Conditions = [], pst_LastReport = '''', pst_ObservedGen = 0\<rparr>\<rparr>"

lemmas rep_defs = rep_ptr_def rep_nil_def rep_cell_def rep_list_def rep_eq_def rep_sample_meta_def
  rep_Tool_def rep_ToolSpec_def rep_ToolStatus_def rep_Policy_def rep_PolicySpec_def rep_PolicyStatus_def
  rep_PolicyTarget_def rep_TrivyPolicySpec_def rep_TrivyScan_def

lemma sample_memory_tool:
  "rep_ptr as_Tool (rep_Tool rep_sample_meta rep_eq) 0 sample_memory (Some 4)
     (Some (\<lparr>tm_Kind = ''Tool'', tm_APIVersion = ''v1alpha1''\<rparr>, sample_copied_tool))"
  by (simp add: rep_defs sample_memory_def sample_object_meta_def sample_copied_tool_def sample_copied_meta_def new_meta_def)

lemma sample_memory_policy:
  "rep_ptr as_Policy (rep_Policy rep_sample_meta) 0 sample_memory (Some 5)
     (Some (\<lparr>tm_Kind = ''Policy'', tm_APIVersion = ''v1alpha1''\<rparr>, sample_copied_policy))"
  by (simp add: rep_defs sample_memory_def sample_object_meta_def sample_copied_policy_def sample_copied_meta_def new_meta_def)

theorem deep_copies_apart_witness:
  "(\<exists>q m'. Tool_DeepCopy sample_lib (Some 4) sample_memory = (Ret q, m') \<and> extends sample_memory m' \<and>
      independent (rep_ptr as_Tool (rep_Tool rep_sample_meta rep_eq)) 0 sample_memory m' (Some 4) q
        (Some (\<lparr>tm_Kind = ''Tool'', tm_APIVersion = ''v1alpha1''\<rparr>, sample_copied_tool))) \<and>
   (\<exists>q m'. Policy_DeepCopyObject sample_lib (Some 5) sample_memory = (Ret (map_option PolicyObject q), m') \<and>
      extends sample_memory m' \<and>
      independent (rep_ptr as_Policy (rep_Policy rep_sample_meta)) 0 sample_memory m' (Some 5) q
        (Some (\<lparr>tm_Kind = ''Policy'', tm_APIVersion = ''v1alpha1''\<rparr>, sample_copied_policy)))"
proof -
  have "rep_ptr as_PolicyReportStatus (rep_PolicyReportStatus rep_eq) 0 sample_memory None None"
    "rep_ptr as_PolicyReport (rep_PolicyReport rep_sample_meta rep_eq) 0 sample_memory None None"
    by (simp_all add: rep_ptr_def)
  from deep_copies_apart [OF sample_lib_ok sample_memory_tool this(1) sample_memory_policy this(2)]
  show ?thesis by blast
qed

end
