(* ===== verification/LitmusMemory.thy ===== *)
theory LitmusMemory
  imports GoMemory LitmusTypes
begin

section \<open>The Litmus resources in memory\<close>

text \<open>
  The structs of \<open>api/litmus\<close> as Go holds them, as \<open>ApiMemory\<close> has those of \<open>api/v1alpha1\<close>: a slice or a map is
  an address, \<open>None\<close> is nil. How the structs of other packages lie in memory is theirs: they are values of
  \<open>'lib\<close>, and \<open>lr_T\<close> says which value of \<open>LitmusTypes\<close> such a struct stands for. Structs without pointers are the
  records of \<open>LitmusTypes\<close> themselves. \<open>rep_T lo m x v\<close> says that the struct \<open>x\<close> stands for the value \<open>v\<close> in memory
  \<open>m\<close> and reaches no cell below \<open>lo\<close>.
\<close>

record LitmusConfigMap_mem =
  lcmm_Data :: "addr option"
  lcmm_Name :: string
  lcmm_MountPath :: string

record 'lib ExperimentComponents_mem =
  ecm_ENV :: "addr option"
  ecm_ConfigMaps :: "addr option"
  ecm_Secrets :: "addr option"
  ecm_ExperimentAnnotations :: "addr option"
  ecm_ExperimentImage :: string
  ecm_ExperimentImagePullSecrets :: "addr option"
  ecm_NodeSelector :: "addr option"
  ecm_StatusCheckTimeouts :: StatusCheckTimeout
  ecm_Resources :: 'lib
  ecm_Tolerations :: "addr option"

record 'lib ExperimentAttributes_mem =
  eam_Components :: "'lib ExperimentComponents_mem"

record 'lib ExperimentList_mem =
  elm_Name :: string
  elm_Spec :: "'lib ExperimentAttributes_mem"

record ChaosEngineSpec_mem =
  cesm_AppInfo :: ApplicationParams
  cesm_EngineState :: string
  cesm_Experiments :: "addr option"

record 'lib ExperimentStatuses_mem =
  estm_Name :: string
  estm_Runner :: string
  estm_ExpPod :: string
  estm_Status :: string
  estm_Verdict :: string
  estm_LastUpdateTime :: 'lib

record ChaosEngineStatus_mem =
  cestm_EngineStatus :: string
  cestm_Experiments :: "addr option"

record 'lib ChaosEngine_mem =
  cem_TypeMeta :: TypeMeta
  cem_meta :: 'lib
  cem_Spec :: ChaosEngineSpec_mem
  cem_Status :: ChaosEngineStatus_mem

record 'lib ChaosEngineList_mem =
  celm_TypeMeta :: TypeMeta
  celm_ListMeta :: 'lib
  celm_Items :: "addr option"

record 'lib LitmusSecurityContext_mem =
  lscm_PodSecurityContext :: 'lib
  lscm_ContainerSecurityContext :: 'lib

record 'lib ExperimentDef_mem =
  xdm_Labels :: "addr option"
  xdm_Image :: string
  xdm_ImagePullPolicy :: string
  xdm_Scope :: string
  xdm_Permissions :: "addr option"
  xdm_ENVList :: "addr option"
  xdm_Command :: "addr option"
  xdm_Args :: "addr option"
  xdm_ConfigMaps :: "addr option"
  xdm_Secrets :: "addr option"
  xdm_HostFileVolumes :: "addr option"
  xdm_ExperimentAnnotations :: "addr option"
  xdm_SecurityContext :: "'lib LitmusSecurityContext_mem"
  xdm_HostPID :: bool

record 'lib ChaosExperimentSpec_mem =
  cxsm_Definition :: "'lib ExperimentDef_mem"

record 'lib ChaosExperiment_mem =
  cxm_TypeMeta :: TypeMeta
  cxm_meta :: 'lib
  cxm_Spec :: "'lib ChaosExperimentSpec_mem"
  cxm_Status :: ChaosExperimentStatus

record 'lib ChaosExperimentList_mem =
  cxlm_TypeMeta :: TypeMeta
  cxlm_ListMeta :: 'lib
  cxlm_Items :: "addr option"

record HistoryDetails_mem =
  hdm_PassedRuns :: int
  hdm_FailedRuns :: int
  hdm_StoppedRuns :: int
  hdm_Targets :: "addr option"

record ChaosResultStatus_mem =
  crstm_ExperimentStatus :: TestStatus
  crstm_ProbeStatuses :: "addr option"
  crstm_History :: HistoryDetails_mem

record 'lib ChaosResult_mem =
  crm_TypeMeta :: TypeMeta
  crm_meta :: 'lib
  crm_Spec :: ChaosResultSpec
  crm_Status :: ChaosResultStatus_mem

record 'lib ChaosResultList_mem =
  crlm_TypeMeta :: TypeMeta
  crlm_ListMeta :: 'lib
  crlm_Items :: "addr option"

text \<open>What one pointer, slice or map points to, and reading a cell at its type.\<close>

datatype 'lib litmus_cell =
    LitmusStringsCell (the_LitmusStrings: "string list")
  | LitmusMapCell (the_LitmusMap: "(string \<times> string) list")
  | ApplicationParamsCell (the_ApplicationParams: ApplicationParams)
  | LitmusConfigMapCell (the_LitmusConfigMap: LitmusConfigMap_mem)
  | LitmusSecretCell (the_LitmusSecret: LitmusSecret)
  | StatusCheckTimeoutCell (the_StatusCheckTimeout: StatusCheckTimeout)
  | ExperimentComponentsCell (the_ExperimentComponents: "'lib ExperimentComponents_mem")
  | ExperimentAttributesCell (the_ExperimentAttributes: "'lib ExperimentAttributes_mem")
  | ExperimentListCell (the_ExperimentList: "'lib ExperimentList_mem")
  | ChaosEngineSpecCell (the_ChaosEngineSpec: ChaosEngineSpec_mem)
  | ExperimentStatusesCell (the_ExperimentStatuses: "'lib ExperimentStatuses_mem")
  | ChaosEngineStatusCell (the_ChaosEngineStatus: ChaosEngineStatus_mem)
  | ChaosEngineCell (the_ChaosEngine: "'lib ChaosEngine_mem")
  | ChaosEngineListCell (the_ChaosEngineList: "'lib ChaosEngineList_mem")
  | HostFileCell (the_HostFile: HostFile)
  | LitmusSecurityContextCell (the_LitmusSecurityContext: "'lib LitmusSecurityContext_mem")
  | ExperimentDefCell (the_ExperimentDef: "'lib ExperimentDef_mem")
  | ChaosExperimentSpecCell (the_ChaosExperimentSpec: "'lib ChaosExperimentSpec_mem")
  | ChaosExperimentStatusCell (the_ChaosExperimentStatus: ChaosExperimentStatus)
  | ChaosExperimentCell (the_ChaosExperiment: "'lib ChaosExperiment_mem")
  | ChaosExperimentListCell (the_ChaosExperimentList: "'lib ChaosExperimentList_mem")
  | ChaosResultSpecCell (the_ChaosResultSpec: ChaosResultSpec)
  | TestStatusCell (the_TestStatus: TestStatus)
  | ProbeStatusCell (the_ProbeStatus: ProbeStatus)
  | ProbeStatusesCell (the_ProbeStatuses: ProbeStatuses)
  | TargetDetailsCell (the_TargetDetails: TargetDetails)
  | HistoryDetailsCell (the_HistoryDetails: HistoryDetails_mem)
  | ChaosResultStatusCell (the_ChaosResultStatus: ChaosResultStatus_mem)
  | ChaosResultCell (the_ChaosResult: "'lib ChaosResult_mem")
  | ChaosResultListCell (the_ChaosResultList: "'lib ChaosResultList_mem")
  | EnvVarsCell (the_EnvVars: "'lib list")
  | LitmusConfigMapsCell (the_LitmusConfigMaps: "LitmusConfigMap_mem list")
  | LitmusSecretsCell (the_LitmusSecrets: "LitmusSecret list")
  | LocalObjectReferencesCell (the_LocalObjectReferences: "LocalObjectReference list")
  | TolerationsCell (the_Tolerations: "'lib list")
  | ExperimentListsCell (the_ExperimentLists: "'lib ExperimentList_mem list")
  | ExperimentStatusesSliceCell (the_ExperimentStatusesSlice: "'lib ExperimentStatuses_mem list")
  | ChaosEnginesCell (the_ChaosEngines: "'lib ChaosEngine_mem list")
  | PolicyRulesCell (the_PolicyRules: "'lib list")
  | HostFilesCell (the_HostFiles: "HostFile list")
  | ChaosExperimentsCell (the_ChaosExperiments: "'lib ChaosExperiment_mem list")
  | TargetDetailsSliceCell (the_TargetDetailsSlice: "TargetDetails list")
  | ProbeStatusesSliceCell (the_ProbeStatusesSlice: "ProbeStatuses list")
  | ChaosResultsCell (the_ChaosResults: "'lib ChaosResult_mem list")

type_synonym 'lib litmus_memory = "'lib litmus_cell list"

definition as_LitmusStrings :: "'lib litmus_cell \<Rightarrow> (string list) option" where
  "as_LitmusStrings c = (if is_LitmusStringsCell c then Some (the_LitmusStrings c) else None)"

definition as_LitmusMap :: "'lib litmus_cell \<Rightarrow> ((string \<times> string) list) option" where
  "as_LitmusMap c = (if is_LitmusMapCell c then Some (the_LitmusMap c) else None)"

definition as_ApplicationParams :: "'lib litmus_cell \<Rightarrow> ApplicationParams option" where
  "as_ApplicationParams c = (if is_ApplicationParamsCell c then Some (the_ApplicationParams c) else None)"

definition as_LitmusConfigMap :: "'lib litmus_cell \<Rightarrow> LitmusConfigMap_mem option" where
  "as_LitmusConfigMap c = (if is_LitmusConfigMapCell c then Some (the_LitmusConfigMap c) else None)"

definition as_LitmusSecret :: "'lib litmus_cell \<Rightarrow> LitmusSecret option" where
  "as_LitmusSecret c = (if is_LitmusSecretCell c then Some (the_LitmusSecret c) else None)"

definition as_StatusCheckTimeout :: "'lib litmus_cell \<Rightarrow> StatusCheckTimeout option" where
  "as_StatusCheckTimeout c = (if is_StatusCheckTimeoutCell c then Some (the_StatusCheckTimeout c) else None)"

definition as_ExperimentComponents :: "'lib litmus_cell \<Rightarrow> ('lib ExperimentComponents_mem) option" where
  "as_ExperimentComponents c = (if is_ExperimentComponentsCell c then Some (the_ExperimentComponents c) else None)"

definition as_ExperimentAttributes :: "'lib litmus_cell \<Rightarrow> ('lib ExperimentAttributes_mem) option" where
  "as_ExperimentAttributes c = (if is_ExperimentAttributesCell c then Some (the_ExperimentAttributes c) else None)"

definition as_ExperimentList :: "'lib litmus_cell \<Rightarrow> ('lib ExperimentList_mem) option" where
  "as_ExperimentList c = (if is_ExperimentListCell c then Some (the_ExperimentList c) else None)"

definition as_ChaosEngineSpec :: "'lib litmus_cell \<Rightarrow> ChaosEngineSpec_mem option" where
  "as_ChaosEngineSpec c = (if is_ChaosEngineSpecCell c then Some (the_ChaosEngineSpec c) else None)"

definition as_ExperimentStatuses :: "'lib litmus_cell \<Rightarrow> ('lib ExperimentStatuses_mem) option" where
  "as_ExperimentStatuses c = (if is_ExperimentStatusesCell c then Some (the_ExperimentStatuses c) else None)"

definition as_ChaosEngineStatus :: "'lib litmus_cell \<Rightarrow> ChaosEngineStatus_mem option" where
  "as_ChaosEngineStatus c = (if is_ChaosEngineStatusCell c then Some (the_ChaosEngineStatus c) else None)"

definition as_ChaosEngine :: "'lib litmus_cell \<Rightarrow> ('lib ChaosEngine_mem) option" where
  "as_ChaosEngine c = (if is_ChaosEngineCell c then Some (the_ChaosEngine c) else None)"

definition as_ChaosEngineList :: "'lib litmus_cell \<Rightarrow> ('lib ChaosEngineList_mem) option" where
  "as_ChaosEngineList c = (if is_ChaosEngineListCell c then Some (the_ChaosEngineList c) else None)"

definition as_HostFile :: "'lib litmus_cell \<Rightarrow> HostFile option" where
  "as_HostFile c = (if is_HostFileCell c then Some (the_HostFile c) else None)"

definition as_LitmusSecurityContext :: "'lib litmus_cell \<Rightarrow> ('lib LitmusSecurityContext_mem) option" where
  "as_LitmusSecurityContext c = (if is_LitmusSecurityContextCell c then Some (the_LitmusSecurityContext c) else None)"

definition as_ExperimentDef :: "'lib litmus_cell \<Rightarrow> ('lib ExperimentDef_mem) option" where
  "as_ExperimentDef c = (if is_ExperimentDefCell c then Some (the_ExperimentDef c) else None)"

definition as_ChaosExperimentSpec :: "'lib litmus_cell \<Rightarrow> ('lib ChaosExperimentSpec_mem) option" where
  "as_ChaosExperimentSpec c = (if is_ChaosExperimentSpecCell c then Some (the_ChaosExperimentSpec c) else None)"

definition as_ChaosExperimentStatus :: "'lib litmus_cell \<Rightarrow> ChaosExperimentStatus option" where
  "as_ChaosExperimentStatus c = (if is_ChaosExperimentStatusCell c then Some (the_ChaosExperimentStatus c) else None)"

definition as_ChaosExperiment :: "'lib litmus_cell \<Rightarrow> ('lib ChaosExperiment_mem) option" where
  "as_ChaosExperiment c = (if is_ChaosExperimentCell c then Some (the_ChaosExperiment c) else None)"

definition as_ChaosExperimentList :: "'lib litmus_cell \<Rightarrow> ('lib ChaosExperimentList_mem) option" where
  "as_ChaosExperimentList c = (if is_ChaosExperimentListCell c then Some (the_ChaosExperimentList c) else None)"

definition as_ChaosResultSpec :: "'lib litmus_cell \<Rightarrow> ChaosResultSpec option" where
  "as_ChaosResultSpec c = (if is_ChaosResultSpecCell c then Some (the_ChaosResultSpec c) else None)"

definition as_TestStatus :: "'lib litmus_cell \<Rightarrow> TestStatus option" where
  "as_TestStatus c = (if is_TestStatusCell c then Some (the_TestStatus c) else None)"

definition as_ProbeStatus :: "'lib litmus_cell \<Rightarrow> ProbeStatus option" where
  "as_ProbeStatus c = (if is_ProbeStatusCell c then Some (the_ProbeStatus c) else None)"

definition as_ProbeStatuses :: "'lib litmus_cell \<Rightarrow> ProbeStatuses option" where
  "as_ProbeStatuses c = (if is_ProbeStatusesCell c then Some (the_ProbeStatuses c) else None)"

definition as_TargetDetails :: "'lib litmus_cell \<Rightarrow> TargetDetails option" where
  "as_TargetDetails c = (if is_TargetDetailsCell c then Some (the_TargetDetails c) else None)"

definition as_HistoryDetails :: "'lib litmus_cell \<Rightarrow> HistoryDetails_mem option" where
  "as_HistoryDetails c = (if is_HistoryDetailsCell c then Some (the_HistoryDetails c) else None)"

definition as_ChaosResultStatus :: "'lib litmus_cell \<Rightarrow> ChaosResultStatus_mem option" where
  "as_ChaosResultStatus c = (if is_ChaosResultStatusCell c then Some (the_ChaosResultStatus c) else None)"

definition as_ChaosResult :: "'lib litmus_cell \<Rightarrow> ('lib ChaosResult_mem) option" where
  "as_ChaosResult c = (if is_ChaosResultCell c then Some (the_ChaosResult c) else None)"

definition as_ChaosResultList :: "'lib litmus_cell \<Rightarrow> ('lib ChaosResultList_mem) option" where
  "as_ChaosResultList c = (if is_ChaosResultListCell c then Some (the_ChaosResultList c) else None)"

definition as_EnvVars :: "'lib litmus_cell \<Rightarrow> ('lib list) option" where
  "as_EnvVars c = (if is_EnvVarsCell c then Some (the_EnvVars c) else None)"

definition as_LitmusConfigMaps :: "'lib litmus_cell \<Rightarrow> (LitmusConfigMap_mem list) option" where
  "as_LitmusConfigMaps c = (if is_LitmusConfigMapsCell c then Some (the_LitmusConfigMaps c) else None)"

definition as_LitmusSecrets :: "'lib litmus_cell \<Rightarrow> (LitmusSecret list) option" where
  "as_LitmusSecrets c = (if is_LitmusSecretsCell c then Some (the_LitmusSecrets c) else None)"

definition as_LocalObjectReferences :: "'lib litmus_cell \<Rightarrow> (LocalObjectReference list) option" where
  "as_LocalObjectReferences c = (if is_LocalObjectReferencesCell c then Some (the_LocalObjectReferences c) else None)"

definition as_Tolerations :: "'lib litmus_cell \<Rightarrow> ('lib list) option" where
  "as_Tolerations c = (if is_TolerationsCell c then Some (the_Tolerations c) else None)"

definition as_ExperimentLists :: "'lib litmus_cell \<Rightarrow> ('lib ExperimentList_mem list) option" where
  "as_ExperimentLists c = (if is_ExperimentListsCell c then Some (the_ExperimentLists c) else None)"

definition as_ExperimentStatusesSlice :: "'lib litmus_cell \<Rightarrow> ('lib ExperimentStatuses_mem list) option" where
  "as_ExperimentStatusesSlice c = (if is_ExperimentStatusesSliceCell c then Some (the_ExperimentStatusesSlice c) else None)"

definition as_ChaosEngines :: "'lib litmus_cell \<Rightarrow> ('lib ChaosEngine_mem list) option" where
  "as_ChaosEngines c = (if is_ChaosEnginesCell c then Some (the_ChaosEngines c) else None)"

definition as_PolicyRules :: "'lib litmus_cell \<Rightarrow> ('lib list) option" where
  "as_PolicyRules c = (if is_PolicyRulesCell c then Some (the_PolicyRules c) else None)"

definition as_HostFiles :: "'lib litmus_cell \<Rightarrow> (HostFile list) option" where
  "as_HostFiles c = (if is_HostFilesCell c then Some (the_HostFiles c) else None)"

definition as_ChaosExperiments :: "'lib litmus_cell \<Rightarrow> ('lib ChaosExperiment_mem list) option" where
  "as_ChaosExperiments c = (if is_ChaosExperimentsCell c then Some (the_ChaosExperiments c) else None)"

definition as_TargetDetailsSlice :: "'lib litmus_cell \<Rightarrow> (TargetDetails list) option" where
  "as_TargetDetailsSlice c = (if is_TargetDetailsSliceCell c then Some (the_TargetDetailsSlice c) else None)"

definition as_ProbeStatusesSlice :: "'lib litmus_cell \<Rightarrow> (ProbeStatuses list) option" where
  "as_ProbeStatusesSlice c = (if is_ProbeStatusesSliceCell c then Some (the_ProbeStatusesSlice c) else None)"

definition as_ChaosResults :: "'lib litmus_cell \<Rightarrow> ('lib ChaosResult_mem list) option" where
  "as_ChaosResults c = (if is_ChaosResultsCell c then Some (the_ChaosResults c) else None)"

lemmas litmus_as_defs = as_LitmusStrings_def as_LitmusMap_def as_ApplicationParams_def
  as_LitmusConfigMap_def as_LitmusSecret_def as_StatusCheckTimeout_def as_ExperimentComponents_def
  as_ExperimentAttributes_def as_ExperimentList_def as_ChaosEngineSpec_def as_ExperimentStatuses_def
  as_ChaosEngineStatus_def as_ChaosEngine_def as_ChaosEngineList_def as_HostFile_def
  as_LitmusSecurityContext_def as_ExperimentDef_def as_ChaosExperimentSpec_def
  as_ChaosExperimentStatus_def as_ChaosExperiment_def as_ChaosExperimentList_def as_ChaosResultSpec_def
  as_TestStatus_def as_ProbeStatus_def as_ProbeStatuses_def as_TargetDetails_def as_HistoryDetails_def
  as_ChaosResultStatus_def as_ChaosResult_def as_ChaosResultList_def as_EnvVars_def
  as_LitmusConfigMaps_def as_LitmusSecrets_def as_LocalObjectReferences_def as_Tolerations_def
  as_ExperimentLists_def as_ExperimentStatusesSlice_def as_ChaosEngines_def as_PolicyRules_def
  as_HostFiles_def as_ChaosExperiments_def as_TargetDetailsSlice_def as_ProbeStatusesSlice_def
  as_ChaosResults_def

lemma litmus_as_cells [simp]:
  "as_LitmusStrings (LitmusStringsCell x0) = Some x0"
  "as_LitmusMap (LitmusMapCell x1) = Some x1"
  "as_ApplicationParams (ApplicationParamsCell x2) = Some x2"
  "as_LitmusConfigMap (LitmusConfigMapCell x3) = Some x3"
  "as_LitmusSecret (LitmusSecretCell x4) = Some x4"
  "as_StatusCheckTimeout (StatusCheckTimeoutCell x5) = Some x5"
  "as_ExperimentComponents (ExperimentComponentsCell x6) = Some x6"
  "as_ExperimentAttributes (ExperimentAttributesCell x7) = Some x7"
  "as_ExperimentList (ExperimentListCell x8) = Some x8"
  "as_ChaosEngineSpec (ChaosEngineSpecCell x9) = Some x9"
  "as_ExperimentStatuses (ExperimentStatusesCell x10) = Some x10"
  "as_ChaosEngineStatus (ChaosEngineStatusCell x11) = Some x11"
  "as_ChaosEngine (ChaosEngineCell x12) = Some x12"
  "as_ChaosEngineList (ChaosEngineListCell x13) = Some x13"
  "as_HostFile (HostFileCell x14) = Some x14"
  "as_LitmusSecurityContext (LitmusSecurityContextCell x15) = Some x15"
  "as_ExperimentDef (ExperimentDefCell x16) = Some x16"
  "as_ChaosExperimentSpec (ChaosExperimentSpecCell x17) = Some x17"
  "as_ChaosExperimentStatus (ChaosExperimentStatusCell x18) = Some x18"
  "as_ChaosExperiment (ChaosExperimentCell x19) = Some x19"
  "as_ChaosExperimentList (ChaosExperimentListCell x20) = Some x20"
  "as_ChaosResultSpec (ChaosResultSpecCell x21) = Some x21"
  "as_TestStatus (TestStatusCell x22) = Some x22"
  "as_ProbeStatus (ProbeStatusCell x23) = Some x23"
  "as_ProbeStatuses (ProbeStatusesCell x24) = Some x24"
  "as_TargetDetails (TargetDetailsCell x25) = Some x25"
  "as_HistoryDetails (HistoryDetailsCell x26) = Some x26"
  "as_ChaosResultStatus (ChaosResultStatusCell x27) = Some x27"
  "as_ChaosResult (ChaosResultCell x28) = Some x28"
  "as_ChaosResultList (ChaosResultListCell x29) = Some x29"
  "as_EnvVars (EnvVarsCell x30) = Some x30"
  "as_LitmusConfigMaps (LitmusConfigMapsCell x31) = Some x31"
  "as_LitmusSecrets (LitmusSecretsCell x32) = Some x32"
  "as_LocalObjectReferences (LocalObjectReferencesCell x33) = Some x33"
  "as_Tolerations (TolerationsCell x34) = Some x34"
  "as_ExperimentLists (ExperimentListsCell x35) = Some x35"
  "as_ExperimentStatusesSlice (ExperimentStatusesSliceCell x36) = Some x36"
  "as_ChaosEngines (ChaosEnginesCell x37) = Some x37"
  "as_PolicyRules (PolicyRulesCell x38) = Some x38"
  "as_HostFiles (HostFilesCell x39) = Some x39"
  "as_ChaosExperiments (ChaosExperimentsCell x40) = Some x40"
  "as_TargetDetailsSlice (TargetDetailsSliceCell x41) = Some x41"
  "as_ProbeStatusesSlice (ProbeStatusesSliceCell x42) = Some x42"
  "as_ChaosResults (ChaosResultsCell x43) = Some x43"
  by (simp_all add: litmus_as_defs)

subsection \<open>What the structs stand for\<close>

record 'lib litmus_reps =
  lr_ObjectMeta :: "nat \<Rightarrow> 'lib litmus_memory \<Rightarrow> 'lib \<Rightarrow> obj_meta \<Rightarrow> bool"
  lr_ListMeta :: "nat \<Rightarrow> 'lib litmus_memory \<Rightarrow> 'lib \<Rightarrow> json \<Rightarrow> bool"
  lr_EnvVar :: "nat \<Rightarrow> 'lib litmus_memory \<Rightarrow> 'lib \<Rightarrow> EnvVar \<Rightarrow> bool"
  lr_Toleration :: "nat \<Rightarrow> 'lib litmus_memory \<Rightarrow> 'lib \<Rightarrow> json \<Rightarrow> bool"
  lr_ResourceRequirements :: "nat \<Rightarrow> 'lib litmus_memory \<Rightarrow> 'lib \<Rightarrow> json \<Rightarrow> bool"
  lr_PolicyRule :: "nat \<Rightarrow> 'lib litmus_memory \<Rightarrow> 'lib \<Rightarrow> json \<Rightarrow> bool"
  lr_PodSecurityContext :: "nat \<Rightarrow> 'lib litmus_memory \<Rightarrow> 'lib \<Rightarrow> json \<Rightarrow> bool"
  lr_SecurityContext :: "nat \<Rightarrow> 'lib litmus_memory \<Rightarrow> 'lib \<Rightarrow> json \<Rightarrow> bool"
  lr_Time :: "nat \<Rightarrow> 'lib litmus_memory \<Rightarrow> 'lib \<Rightarrow> int \<Rightarrow> bool"

abbreviation rep_litmus_map where "rep_litmus_map \<equiv> rep_nil [] as_LitmusMap rep_entries"

definition rep_LitmusConfigMap where
  "rep_LitmusConfigMap lo m x v \<longleftrightarrow>
     lcmm_Name x = lcm_Name v \<and>
     lcmm_MountPath x = lcm_MountPath v \<and>
     rep_litmus_map lo m (lcmm_Data x) (lcm_Data v)"

definition rep_ExperimentComponents where
  "rep_ExperimentComponents Q lo m x v \<longleftrightarrow>
     ecm_ExperimentImage x = ec_ExperimentImage v \<and>
     ecm_StatusCheckTimeouts x = ec_StatusCheckTimeouts v \<and>
     rep_slice as_EnvVars (lr_EnvVar Q) lo m (ecm_ENV x) (ec_ENV v) \<and>
     rep_slice as_LitmusConfigMaps rep_LitmusConfigMap lo m (ecm_ConfigMaps x) (ec_ConfigMaps v) \<and>
     rep_slice as_LitmusSecrets rep_eq lo m (ecm_Secrets x) (ec_Secrets v) \<and>
     rep_litmus_map lo m (ecm_ExperimentAnnotations x) (ec_ExperimentAnnotations v) \<and>
     rep_slice as_LocalObjectReferences rep_eq lo m (ecm_ExperimentImagePullSecrets x) (ec_ExperimentImagePullSecrets v) \<and>
     rep_litmus_map lo m (ecm_NodeSelector x) (ec_NodeSelector v) \<and>
     lr_ResourceRequirements Q lo m (ecm_Resources x) (ec_Resources v) \<and>
     rep_slice as_Tolerations (lr_Toleration Q) lo m (ecm_Tolerations x) (ec_Tolerations v)"

definition rep_ExperimentAttributes where
  "rep_ExperimentAttributes Q lo m x v \<longleftrightarrow>
     rep_ExperimentComponents Q lo m (eam_Components x) (ea_Components v)"

definition rep_ExperimentList where
  "rep_ExperimentList Q lo m x v \<longleftrightarrow>
     elm_Name x = el_Name v \<and>
     rep_ExperimentAttributes Q lo m (elm_Spec x) (el_Spec v)"

definition rep_ChaosEngineSpec where
  "rep_ChaosEngineSpec Q lo m x v \<longleftrightarrow>
     cesm_AppInfo x = ces_AppInfo v \<and>
     cesm_EngineState x = ces_EngineState v \<and>
     rep_slice as_ExperimentLists (rep_ExperimentList Q) lo m (cesm_Experiments x) (ces_Experiments v)"

definition rep_ExperimentStatuses where
  "rep_ExperimentStatuses Q lo m x v \<longleftrightarrow>
     estm_Name x = est_Name v \<and>
     estm_Runner x = est_Runner v \<and>
     estm_ExpPod x = est_ExpPod v \<and>
     estm_Status x = est_Status v \<and>
     estm_Verdict x = est_Verdict v \<and>
     lr_Time Q lo m (estm_LastUpdateTime x) (est_LastUpdateTime v)"

definition rep_ChaosEngineStatus where
  "rep_ChaosEngineStatus Q lo m x v \<longleftrightarrow>
     cestm_EngineStatus x = cest_EngineStatus v \<and>
     rep_slice as_ExperimentStatusesSlice (rep_ExperimentStatuses Q) lo m (cestm_Experiments x) (cest_Experiments v)"

definition rep_ChaosEngine where
  "rep_ChaosEngine Q lo m x v \<longleftrightarrow>
     cem_TypeMeta x = fst v \<and>
     lr_ObjectMeta Q lo m (cem_meta x) (ce_meta (snd v)) \<and>
     rep_ChaosEngineSpec Q lo m (cem_Spec x) (ce_Spec (snd v)) \<and>
     rep_ChaosEngineStatus Q lo m (cem_Status x) (ce_Status (snd v))"

definition rep_ChaosEngineList where
  "rep_ChaosEngineList Q lo m x v \<longleftrightarrow>
     celm_TypeMeta x = fst v \<and>
     lr_ListMeta Q lo m (celm_ListMeta x) (fst (snd v)) \<and>
     rep_slice as_ChaosEngines (rep_ChaosEngine Q) lo m (celm_Items x) (snd (snd v))"

definition rep_LitmusSecurityContext where
  "rep_LitmusSecurityContext Q lo m x v \<longleftrightarrow>
     lr_PodSecurityContext Q lo m (lscm_PodSecurityContext x) (lsc_PodSecurityContext v) \<and>
     lr_SecurityContext Q lo m (lscm_ContainerSecurityContext x) (lsc_ContainerSecurityContext v)"

definition rep_ExperimentDef where
  "rep_ExperimentDef Q lo m x v \<longleftrightarrow>
     xdm_Image x = xd_Image v \<and>
     xdm_ImagePullPolicy x = xd_ImagePullPolicy v \<and>
     xdm_Scope x = xd_Scope v \<and>
     xdm_HostPID x = xd_HostPID v \<and>
     rep_litmus_map lo m (xdm_Labels x) (xd_Labels v) \<and>
     rep_slice as_PolicyRules (lr_PolicyRule Q) lo m (xdm_Permissions x) (xd_Permissions v) \<and>
     rep_slice as_EnvVars (lr_EnvVar Q) lo m (xdm_ENVList x) (xd_ENVList v) \<and>
     rep_slice as_LitmusStrings rep_eq lo m (xdm_Command x) (xd_Command v) \<and>
     rep_slice as_LitmusStrings rep_eq lo m (xdm_Args x) (xd_Args v) \<and>
     rep_slice as_LitmusConfigMaps rep_LitmusConfigMap lo m (xdm_ConfigMaps x) (xd_ConfigMaps v) \<and>
     rep_slice as_LitmusSecrets rep_eq lo m (xdm_Secrets x) (xd_Secrets v) \<and>
     rep_slice as_HostFiles rep_eq lo m (xdm_HostFileVolumes x) (xd_HostFileVolumes v) \<and>
     rep_litmus_map lo m (xdm_ExperimentAnnotations x) (xd_ExperimentAnnotations v) \<and>
     rep_LitmusSecurityContext Q lo m (xdm_SecurityContext x) (xd_SecurityContext v)"

definition rep_ChaosExperimentSpec where
  "rep_ChaosExperimentSpec Q lo m x v \<longleftrightarrow>
     rep_ExperimentDef Q lo m (cxsm_Definition x) (cxs_Definition v)"

definition rep_ChaosExperiment where
  "rep_ChaosExperiment Q lo m x v \<longleftrightarrow>
     cxm_TypeMeta x = fst v \<and>
     cxm_Status x = cx_Status (snd v) \<and>
     lr_ObjectMeta Q lo m (cxm_meta x) (cx_meta (snd v)) \<and>
     rep_ChaosExperimentSpec Q lo m (cxm_Spec x) (cx_Spec (snd v))"

definition rep_ChaosExperimentList where
  "rep_ChaosExperimentList Q lo m x v \<longleftrightarrow>
     cxlm_TypeMeta x = fst v \<and>
     lr_ListMeta Q lo m (cxlm_ListMeta x) (fst (snd v)) \<and>
     rep_slice as_ChaosExperiments (rep_ChaosExperiment Q) lo m (cxlm_Items x) (snd (snd v))"

definition rep_HistoryDetails where
  "rep_HistoryDetails lo m x v \<longleftrightarrow>
     hdm_PassedRuns x = hd_PassedRuns v \<and>
     hdm_FailedRuns x = hd_FailedRuns v \<and>
     hdm_StoppedRuns x = hd_StoppedRuns v \<and>
     rep_slice as_TargetDetailsSlice rep_eq lo m (hdm_Targets x) (hd_Targets v)"

definition rep_ChaosResultStatus where
  "rep_ChaosResultStatus lo m x v \<longleftrightarrow>
     crstm_ExperimentStatus x = crst_ExperimentStatus v \<and>
     rep_slice as_ProbeStatusesSlice rep_eq lo m (crstm_ProbeStatuses x) (crst_ProbeStatuses v) \<and>
     rep_HistoryDetails lo m (crstm_History x) (crst_History v)"

definition rep_ChaosResult where
  "rep_ChaosResult Q lo m x v \<longleftrightarrow>
     crm_TypeMeta x = fst v \<and>
     crm_Spec x = cr_Spec (snd v) \<and>
     lr_ObjectMeta Q lo m (crm_meta x) (cr_meta (snd v)) \<and>
     rep_ChaosResultStatus lo m (crm_Status x) (cr_Status (snd v))"

definition rep_ChaosResultList where
  "rep_ChaosResultList Q lo m x v \<longleftrightarrow>
     crlm_TypeMeta x = fst v \<and>
     lr_ListMeta Q lo m (crlm_ListMeta x) (fst (snd v)) \<and>
     rep_slice as_ChaosResults (rep_ChaosResult Q) lo m (crlm_Items x) (snd (snd v))"

end
