(* ===== verification/LitmusCopy.thy ===== *)
theory LitmusCopy
  imports LitmusMemory
begin

section \<open>The deep copies of the Litmus resources\<close>

text \<open>
  \<open>api/litmus/zz_generated.deepcopy.go\<close>, in the way of \<open>DeepCopy\<close>: one \<open>DeepCopyInto\<close>, \<open>DeepCopy\<close> and, for objects
  and their lists, \<open>DeepCopyObject\<close> per type, over the memory of \<open>LitmusMemory\<close>. \<open>copies_T\<close> proves the contract
  \<open>deep_copy\<close> of each type, from the contract of the methods of \<open>metav1\<close>, \<open>corev1\<close> and \<open>rbacv1\<close> that it calls.
\<close>

text \<open>The methods of other packages that the generated code calls.\<close>

record 'lib litmus_copy_lib =
  ll_ObjectMeta :: "'lib \<Rightarrow> ('lib litmus_memory, 'lib) act"
  ll_ListMeta :: "'lib \<Rightarrow> ('lib litmus_memory, 'lib) act"
  ll_EnvVar :: "'lib \<Rightarrow> ('lib litmus_memory, 'lib) act"
  ll_Toleration :: "'lib \<Rightarrow> ('lib litmus_memory, 'lib) act"
  ll_ResourceRequirements :: "'lib \<Rightarrow> ('lib litmus_memory, 'lib) act"
  ll_PolicyRule :: "'lib \<Rightarrow> ('lib litmus_memory, 'lib) act"
  ll_PodSecurityContext :: "'lib \<Rightarrow> ('lib litmus_memory, 'lib) act"
  ll_SecurityContext :: "'lib \<Rightarrow> ('lib litmus_memory, 'lib) act"
  ll_Time :: "'lib \<Rightarrow> ('lib litmus_memory, 'lib) act"

definition litmus_lib_contract :: "'lib litmus_copy_lib \<Rightarrow> 'lib litmus_reps \<Rightarrow> bool" where
  "litmus_lib_contract L Q \<longleftrightarrow>
     deep_copy (lr_ObjectMeta Q) (ll_ObjectMeta L) \<and>
     deep_copy (lr_ListMeta Q) (ll_ListMeta L) \<and>
     deep_copy (lr_EnvVar Q) (ll_EnvVar L) \<and>
     deep_copy (lr_Toleration Q) (ll_Toleration L) \<and>
     deep_copy (lr_ResourceRequirements Q) (ll_ResourceRequirements L) \<and>
     deep_copy (lr_PolicyRule Q) (ll_PolicyRule L) \<and>
     deep_copy (lr_PodSecurityContext Q) (ll_PodSecurityContext L) \<and>
     deep_copy (lr_SecurityContext Q) (ll_SecurityContext L) \<and>
     deep_copy (lr_Time Q) (ll_Time L)"

lemma litmus_lib_contractD:
  assumes "litmus_lib_contract L Q"
  shows "deep_copy (lr_ObjectMeta Q) (ll_ObjectMeta L)"
    "deep_copy (lr_ListMeta Q) (ll_ListMeta L)"
    "deep_copy (lr_EnvVar Q) (ll_EnvVar L)"
    "deep_copy (lr_Toleration Q) (ll_Toleration L)"
    "deep_copy (lr_ResourceRequirements Q) (ll_ResourceRequirements L)"
    "deep_copy (lr_PolicyRule Q) (ll_PolicyRule L)"
    "deep_copy (lr_PodSecurityContext Q) (ll_PodSecurityContext L)"
    "deep_copy (lr_SecurityContext Q) (ll_SecurityContext L)"
    "deep_copy (lr_Time Q) (ll_Time L)"
  using assms by (simp_all add: litmus_lib_contract_def)

subsection \<open>\<open>DeepCopyInto\<close>\<close>

definition ApplicationParams_DeepCopyInto :: "ApplicationParams \<Rightarrow> ('lib litmus_memory, ApplicationParams) act" where
  "ApplicationParams_DeepCopyInto x = retA x"

definition ConfigMap_DeepCopyInto ::
  "LitmusConfigMap_mem \<Rightarrow> ('lib litmus_memory, LitmusConfigMap_mem) act" where
  "ConfigMap_DeepCopyInto x =
     bindA (copy_ptr as_LitmusMap LitmusMapCell copy_map (lcmm_Data x)) (\<lambda>p.
     retA (x\<lparr>lcmm_Data := p\<rparr>))"

definition Secret_DeepCopyInto :: "LitmusSecret \<Rightarrow> ('lib litmus_memory, LitmusSecret) act" where
  "Secret_DeepCopyInto x = retA x"

definition StatusCheckTimeout_DeepCopyInto :: "StatusCheckTimeout \<Rightarrow> ('lib litmus_memory, StatusCheckTimeout) act" where
  "StatusCheckTimeout_DeepCopyInto x = retA x"

definition ExperimentComponents_DeepCopyInto ::
  "'lib litmus_copy_lib \<Rightarrow> 'lib ExperimentComponents_mem \<Rightarrow> ('lib litmus_memory, 'lib ExperimentComponents_mem) act" where
  "ExperimentComponents_DeepCopyInto L x =
     bindA (copy_ptr as_EnvVars EnvVarsCell (mapA (ll_EnvVar L)) (ecm_ENV x)) (\<lambda>p0.
     bindA (copy_ptr as_LitmusConfigMaps LitmusConfigMapsCell (mapA ConfigMap_DeepCopyInto) (ecm_ConfigMaps x)) (\<lambda>p1.
     bindA (copy_ptr as_LitmusSecrets LitmusSecretsCell retA (ecm_Secrets x)) (\<lambda>p2.
     bindA (copy_ptr as_LitmusMap LitmusMapCell copy_map (ecm_ExperimentAnnotations x)) (\<lambda>p3.
     bindA (copy_ptr as_LocalObjectReferences LocalObjectReferencesCell retA (ecm_ExperimentImagePullSecrets x)) (\<lambda>p4.
     bindA (copy_ptr as_LitmusMap LitmusMapCell copy_map (ecm_NodeSelector x)) (\<lambda>p5.
     bindA (ll_ResourceRequirements L (ecm_Resources x)) (\<lambda>p6.
     bindA (copy_ptr as_Tolerations TolerationsCell (mapA (ll_Toleration L)) (ecm_Tolerations x)) (\<lambda>p7.
     retA (x\<lparr>ecm_ENV := p0, ecm_ConfigMaps := p1, ecm_Secrets := p2,
       ecm_ExperimentAnnotations := p3, ecm_ExperimentImagePullSecrets := p4, ecm_NodeSelector := p5,
       ecm_Resources := p6, ecm_Tolerations := p7\<rparr>)))))))))"

definition ExperimentAttributes_DeepCopyInto ::
  "'lib litmus_copy_lib \<Rightarrow> 'lib ExperimentAttributes_mem \<Rightarrow> ('lib litmus_memory, 'lib ExperimentAttributes_mem) act" where
  "ExperimentAttributes_DeepCopyInto L x =
     bindA (ExperimentComponents_DeepCopyInto L (eam_Components x)) (\<lambda>p.
     retA (x\<lparr>eam_Components := p\<rparr>))"

definition ExperimentList_DeepCopyInto ::
  "'lib litmus_copy_lib \<Rightarrow> 'lib ExperimentList_mem \<Rightarrow> ('lib litmus_memory, 'lib ExperimentList_mem) act" where
  "ExperimentList_DeepCopyInto L x =
     bindA (ExperimentAttributes_DeepCopyInto L (elm_Spec x)) (\<lambda>p.
     retA (x\<lparr>elm_Spec := p\<rparr>))"

definition ChaosEngineSpec_DeepCopyInto ::
  "'lib litmus_copy_lib \<Rightarrow> ChaosEngineSpec_mem \<Rightarrow> ('lib litmus_memory, ChaosEngineSpec_mem) act" where
  "ChaosEngineSpec_DeepCopyInto L x =
     bindA (copy_ptr as_ExperimentLists ExperimentListsCell (mapA (ExperimentList_DeepCopyInto L)) (cesm_Experiments x)) (\<lambda>p.
     retA (x\<lparr>cesm_Experiments := p\<rparr>))"

definition ExperimentStatuses_DeepCopyInto ::
  "'lib litmus_copy_lib \<Rightarrow> 'lib ExperimentStatuses_mem \<Rightarrow> ('lib litmus_memory, 'lib ExperimentStatuses_mem) act" where
  "ExperimentStatuses_DeepCopyInto L x =
     bindA (ll_Time L (estm_LastUpdateTime x)) (\<lambda>p.
     retA (x\<lparr>estm_LastUpdateTime := p\<rparr>))"

definition ChaosEngineStatus_DeepCopyInto ::
  "'lib litmus_copy_lib \<Rightarrow> ChaosEngineStatus_mem \<Rightarrow> ('lib litmus_memory, ChaosEngineStatus_mem) act" where
  "ChaosEngineStatus_DeepCopyInto L x =
     bindA (copy_ptr as_ExperimentStatusesSlice ExperimentStatusesSliceCell (mapA (ExperimentStatuses_DeepCopyInto L)) (cestm_Experiments x)) (\<lambda>p.
     retA (x\<lparr>cestm_Experiments := p\<rparr>))"

definition ChaosEngine_DeepCopyInto ::
  "'lib litmus_copy_lib \<Rightarrow> 'lib ChaosEngine_mem \<Rightarrow> ('lib litmus_memory, 'lib ChaosEngine_mem) act" where
  "ChaosEngine_DeepCopyInto L x =
     bindA (ll_ObjectMeta L (cem_meta x)) (\<lambda>p0.
     bindA (ChaosEngineSpec_DeepCopyInto L (cem_Spec x)) (\<lambda>p1.
     bindA (ChaosEngineStatus_DeepCopyInto L (cem_Status x)) (\<lambda>p2.
     retA (x\<lparr>cem_meta := p0, cem_Spec := p1, cem_Status := p2\<rparr>))))"

definition ChaosEngineList_DeepCopyInto ::
  "'lib litmus_copy_lib \<Rightarrow> 'lib ChaosEngineList_mem \<Rightarrow> ('lib litmus_memory, 'lib ChaosEngineList_mem) act" where
  "ChaosEngineList_DeepCopyInto L x =
     bindA (ll_ListMeta L (celm_ListMeta x)) (\<lambda>p0.
     bindA (copy_ptr as_ChaosEngines ChaosEnginesCell (mapA (ChaosEngine_DeepCopyInto L)) (celm_Items x)) (\<lambda>p1.
     retA (x\<lparr>celm_ListMeta := p0, celm_Items := p1\<rparr>)))"

definition HostFile_DeepCopyInto :: "HostFile \<Rightarrow> ('lib litmus_memory, HostFile) act" where
  "HostFile_DeepCopyInto x = retA x"

definition SecurityContext_DeepCopyInto ::
  "'lib litmus_copy_lib \<Rightarrow> 'lib LitmusSecurityContext_mem \<Rightarrow> ('lib litmus_memory, 'lib LitmusSecurityContext_mem) act" where
  "SecurityContext_DeepCopyInto L x =
     bindA (ll_PodSecurityContext L (lscm_PodSecurityContext x)) (\<lambda>p0.
     bindA (ll_SecurityContext L (lscm_ContainerSecurityContext x)) (\<lambda>p1.
     retA (x\<lparr>lscm_PodSecurityContext := p0, lscm_ContainerSecurityContext := p1\<rparr>)))"

definition ExperimentDef_DeepCopyInto ::
  "'lib litmus_copy_lib \<Rightarrow> 'lib ExperimentDef_mem \<Rightarrow> ('lib litmus_memory, 'lib ExperimentDef_mem) act" where
  "ExperimentDef_DeepCopyInto L x =
     bindA (copy_ptr as_LitmusMap LitmusMapCell copy_map (xdm_Labels x)) (\<lambda>p0.
     bindA (copy_ptr as_PolicyRules PolicyRulesCell (mapA (ll_PolicyRule L)) (xdm_Permissions x)) (\<lambda>p1.
     bindA (copy_ptr as_EnvVars EnvVarsCell (mapA (ll_EnvVar L)) (xdm_ENVList x)) (\<lambda>p2.
     bindA (copy_ptr as_LitmusStrings LitmusStringsCell retA (xdm_Command x)) (\<lambda>p3.
     bindA (copy_ptr as_LitmusStrings LitmusStringsCell retA (xdm_Args x)) (\<lambda>p4.
     bindA (copy_ptr as_LitmusConfigMaps LitmusConfigMapsCell (mapA ConfigMap_DeepCopyInto) (xdm_ConfigMaps x)) (\<lambda>p5.
     bindA (copy_ptr as_LitmusSecrets LitmusSecretsCell retA (xdm_Secrets x)) (\<lambda>p6.
     bindA (copy_ptr as_HostFiles HostFilesCell retA (xdm_HostFileVolumes x)) (\<lambda>p7.
     bindA (copy_ptr as_LitmusMap LitmusMapCell copy_map (xdm_ExperimentAnnotations x)) (\<lambda>p8.
     bindA (SecurityContext_DeepCopyInto L (xdm_SecurityContext x)) (\<lambda>p9.
     retA (x\<lparr>xdm_Labels := p0, xdm_Permissions := p1, xdm_ENVList := p2, xdm_Command := p3,
       xdm_Args := p4, xdm_ConfigMaps := p5, xdm_Secrets := p6, xdm_HostFileVolumes := p7,
       xdm_ExperimentAnnotations := p8, xdm_SecurityContext := p9\<rparr>)))))))))))"

definition ChaosExperimentSpec_DeepCopyInto ::
  "'lib litmus_copy_lib \<Rightarrow> 'lib ChaosExperimentSpec_mem \<Rightarrow> ('lib litmus_memory, 'lib ChaosExperimentSpec_mem) act" where
  "ChaosExperimentSpec_DeepCopyInto L x =
     bindA (ExperimentDef_DeepCopyInto L (cxsm_Definition x)) (\<lambda>p.
     retA (x\<lparr>cxsm_Definition := p\<rparr>))"

definition ChaosExperimentStatus_DeepCopyInto :: "ChaosExperimentStatus \<Rightarrow> ('lib litmus_memory, ChaosExperimentStatus) act" where
  "ChaosExperimentStatus_DeepCopyInto x = retA x"

definition ChaosExperiment_DeepCopyInto ::
  "'lib litmus_copy_lib \<Rightarrow> 'lib ChaosExperiment_mem \<Rightarrow> ('lib litmus_memory, 'lib ChaosExperiment_mem) act" where
  "ChaosExperiment_DeepCopyInto L x =
     bindA (ll_ObjectMeta L (cxm_meta x)) (\<lambda>p0.
     bindA (ChaosExperimentSpec_DeepCopyInto L (cxm_Spec x)) (\<lambda>p1.
     retA (x\<lparr>cxm_meta := p0, cxm_Spec := p1\<rparr>)))"

definition ChaosExperimentList_DeepCopyInto ::
  "'lib litmus_copy_lib \<Rightarrow> 'lib ChaosExperimentList_mem \<Rightarrow> ('lib litmus_memory, 'lib ChaosExperimentList_mem) act" where
  "ChaosExperimentList_DeepCopyInto L x =
     bindA (ll_ListMeta L (cxlm_ListMeta x)) (\<lambda>p0.
     bindA (copy_ptr as_ChaosExperiments ChaosExperimentsCell (mapA (ChaosExperiment_DeepCopyInto L)) (cxlm_Items x)) (\<lambda>p1.
     retA (x\<lparr>cxlm_ListMeta := p0, cxlm_Items := p1\<rparr>)))"

definition ChaosResultSpec_DeepCopyInto :: "ChaosResultSpec \<Rightarrow> ('lib litmus_memory, ChaosResultSpec) act" where
  "ChaosResultSpec_DeepCopyInto x = retA x"

definition TestStatus_DeepCopyInto :: "TestStatus \<Rightarrow> ('lib litmus_memory, TestStatus) act" where
  "TestStatus_DeepCopyInto x = retA x"

definition ProbeStatus_DeepCopyInto :: "ProbeStatus \<Rightarrow> ('lib litmus_memory, ProbeStatus) act" where
  "ProbeStatus_DeepCopyInto x = retA x"

definition ProbeStatuses_DeepCopyInto :: "ProbeStatuses \<Rightarrow> ('lib litmus_memory, ProbeStatuses) act" where
  "ProbeStatuses_DeepCopyInto x = retA x"

definition TargetDetails_DeepCopyInto :: "TargetDetails \<Rightarrow> ('lib litmus_memory, TargetDetails) act" where
  "TargetDetails_DeepCopyInto x = retA x"

definition HistoryDetails_DeepCopyInto ::
  "HistoryDetails_mem \<Rightarrow> ('lib litmus_memory, HistoryDetails_mem) act" where
  "HistoryDetails_DeepCopyInto x =
     bindA (copy_ptr as_TargetDetailsSlice TargetDetailsSliceCell retA (hdm_Targets x)) (\<lambda>p.
     retA (x\<lparr>hdm_Targets := p\<rparr>))"

definition ChaosResultStatus_DeepCopyInto ::
  "ChaosResultStatus_mem \<Rightarrow> ('lib litmus_memory, ChaosResultStatus_mem) act" where
  "ChaosResultStatus_DeepCopyInto x =
     bindA (copy_ptr as_ProbeStatusesSlice ProbeStatusesSliceCell retA (crstm_ProbeStatuses x)) (\<lambda>p0.
     bindA (HistoryDetails_DeepCopyInto (crstm_History x)) (\<lambda>p1.
     retA (x\<lparr>crstm_ProbeStatuses := p0, crstm_History := p1\<rparr>)))"

definition ChaosResult_DeepCopyInto ::
  "'lib litmus_copy_lib \<Rightarrow> 'lib ChaosResult_mem \<Rightarrow> ('lib litmus_memory, 'lib ChaosResult_mem) act" where
  "ChaosResult_DeepCopyInto L x =
     bindA (ll_ObjectMeta L (crm_meta x)) (\<lambda>p0.
     bindA (ChaosResultStatus_DeepCopyInto (crm_Status x)) (\<lambda>p1.
     retA (x\<lparr>crm_meta := p0, crm_Status := p1\<rparr>)))"

definition ChaosResultList_DeepCopyInto ::
  "'lib litmus_copy_lib \<Rightarrow> 'lib ChaosResultList_mem \<Rightarrow> ('lib litmus_memory, 'lib ChaosResultList_mem) act" where
  "ChaosResultList_DeepCopyInto L x =
     bindA (ll_ListMeta L (crlm_ListMeta x)) (\<lambda>p0.
     bindA (copy_ptr as_ChaosResults ChaosResultsCell (mapA (ChaosResult_DeepCopyInto L)) (crlm_Items x)) (\<lambda>p1.
     retA (x\<lparr>crlm_ListMeta := p0, crlm_Items := p1\<rparr>)))"

subsection \<open>\<open>DeepCopy\<close> and \<open>DeepCopyObject\<close>\<close>

definition ApplicationParams_DeepCopy :: "addr option \<Rightarrow> ('lib litmus_memory, addr option) act" where
  "ApplicationParams_DeepCopy p = copy_ptr as_ApplicationParams ApplicationParamsCell ApplicationParams_DeepCopyInto p"

definition ConfigMap_DeepCopy :: "addr option \<Rightarrow> ('lib litmus_memory, addr option) act" where
  "ConfigMap_DeepCopy p = copy_ptr as_LitmusConfigMap LitmusConfigMapCell ConfigMap_DeepCopyInto p"

definition Secret_DeepCopy :: "addr option \<Rightarrow> ('lib litmus_memory, addr option) act" where
  "Secret_DeepCopy p = copy_ptr as_LitmusSecret LitmusSecretCell Secret_DeepCopyInto p"

definition StatusCheckTimeout_DeepCopy :: "addr option \<Rightarrow> ('lib litmus_memory, addr option) act" where
  "StatusCheckTimeout_DeepCopy p = copy_ptr as_StatusCheckTimeout StatusCheckTimeoutCell StatusCheckTimeout_DeepCopyInto p"

definition ExperimentComponents_DeepCopy :: "'lib litmus_copy_lib \<Rightarrow> addr option \<Rightarrow> ('lib litmus_memory, addr option) act" where
  "ExperimentComponents_DeepCopy L p = copy_ptr as_ExperimentComponents ExperimentComponentsCell (ExperimentComponents_DeepCopyInto L) p"

definition ExperimentAttributes_DeepCopy :: "'lib litmus_copy_lib \<Rightarrow> addr option \<Rightarrow> ('lib litmus_memory, addr option) act" where
  "ExperimentAttributes_DeepCopy L p = copy_ptr as_ExperimentAttributes ExperimentAttributesCell (ExperimentAttributes_DeepCopyInto L) p"

definition ExperimentList_DeepCopy :: "'lib litmus_copy_lib \<Rightarrow> addr option \<Rightarrow> ('lib litmus_memory, addr option) act" where
  "ExperimentList_DeepCopy L p = copy_ptr as_ExperimentList ExperimentListCell (ExperimentList_DeepCopyInto L) p"

definition ChaosEngineSpec_DeepCopy :: "'lib litmus_copy_lib \<Rightarrow> addr option \<Rightarrow> ('lib litmus_memory, addr option) act" where
  "ChaosEngineSpec_DeepCopy L p = copy_ptr as_ChaosEngineSpec ChaosEngineSpecCell (ChaosEngineSpec_DeepCopyInto L) p"

definition ExperimentStatuses_DeepCopy :: "'lib litmus_copy_lib \<Rightarrow> addr option \<Rightarrow> ('lib litmus_memory, addr option) act" where
  "ExperimentStatuses_DeepCopy L p = copy_ptr as_ExperimentStatuses ExperimentStatusesCell (ExperimentStatuses_DeepCopyInto L) p"

definition ChaosEngineStatus_DeepCopy :: "'lib litmus_copy_lib \<Rightarrow> addr option \<Rightarrow> ('lib litmus_memory, addr option) act" where
  "ChaosEngineStatus_DeepCopy L p = copy_ptr as_ChaosEngineStatus ChaosEngineStatusCell (ChaosEngineStatus_DeepCopyInto L) p"

definition ChaosEngine_DeepCopy :: "'lib litmus_copy_lib \<Rightarrow> addr option \<Rightarrow> ('lib litmus_memory, addr option) act" where
  "ChaosEngine_DeepCopy L p = copy_ptr as_ChaosEngine ChaosEngineCell (ChaosEngine_DeepCopyInto L) p"

definition ChaosEngineList_DeepCopy :: "'lib litmus_copy_lib \<Rightarrow> addr option \<Rightarrow> ('lib litmus_memory, addr option) act" where
  "ChaosEngineList_DeepCopy L p = copy_ptr as_ChaosEngineList ChaosEngineListCell (ChaosEngineList_DeepCopyInto L) p"

definition HostFile_DeepCopy :: "addr option \<Rightarrow> ('lib litmus_memory, addr option) act" where
  "HostFile_DeepCopy p = copy_ptr as_HostFile HostFileCell HostFile_DeepCopyInto p"

definition SecurityContext_DeepCopy :: "'lib litmus_copy_lib \<Rightarrow> addr option \<Rightarrow> ('lib litmus_memory, addr option) act" where
  "SecurityContext_DeepCopy L p = copy_ptr as_LitmusSecurityContext LitmusSecurityContextCell (SecurityContext_DeepCopyInto L) p"

definition ExperimentDef_DeepCopy :: "'lib litmus_copy_lib \<Rightarrow> addr option \<Rightarrow> ('lib litmus_memory, addr option) act" where
  "ExperimentDef_DeepCopy L p = copy_ptr as_ExperimentDef ExperimentDefCell (ExperimentDef_DeepCopyInto L) p"

definition ChaosExperimentSpec_DeepCopy :: "'lib litmus_copy_lib \<Rightarrow> addr option \<Rightarrow> ('lib litmus_memory, addr option) act" where
  "ChaosExperimentSpec_DeepCopy L p = copy_ptr as_ChaosExperimentSpec ChaosExperimentSpecCell (ChaosExperimentSpec_DeepCopyInto L) p"

definition ChaosExperimentStatus_DeepCopy :: "addr option \<Rightarrow> ('lib litmus_memory, addr option) act" where
  "ChaosExperimentStatus_DeepCopy p = copy_ptr as_ChaosExperimentStatus ChaosExperimentStatusCell ChaosExperimentStatus_DeepCopyInto p"

definition ChaosExperiment_DeepCopy :: "'lib litmus_copy_lib \<Rightarrow> addr option \<Rightarrow> ('lib litmus_memory, addr option) act" where
  "ChaosExperiment_DeepCopy L p = copy_ptr as_ChaosExperiment ChaosExperimentCell (ChaosExperiment_DeepCopyInto L) p"

definition ChaosExperimentList_DeepCopy :: "'lib litmus_copy_lib \<Rightarrow> addr option \<Rightarrow> ('lib litmus_memory, addr option) act" where
  "ChaosExperimentList_DeepCopy L p = copy_ptr as_ChaosExperimentList ChaosExperimentListCell (ChaosExperimentList_DeepCopyInto L) p"

definition ChaosResultSpec_DeepCopy :: "addr option \<Rightarrow> ('lib litmus_memory, addr option) act" where
  "ChaosResultSpec_DeepCopy p = copy_ptr as_ChaosResultSpec ChaosResultSpecCell ChaosResultSpec_DeepCopyInto p"

definition TestStatus_DeepCopy :: "addr option \<Rightarrow> ('lib litmus_memory, addr option) act" where
  "TestStatus_DeepCopy p = copy_ptr as_TestStatus TestStatusCell TestStatus_DeepCopyInto p"

definition ProbeStatus_DeepCopy :: "addr option \<Rightarrow> ('lib litmus_memory, addr option) act" where
  "ProbeStatus_DeepCopy p = copy_ptr as_ProbeStatus ProbeStatusCell ProbeStatus_DeepCopyInto p"

definition ProbeStatuses_DeepCopy :: "addr option \<Rightarrow> ('lib litmus_memory, addr option) act" where
  "ProbeStatuses_DeepCopy p = copy_ptr as_ProbeStatuses ProbeStatusesCell ProbeStatuses_DeepCopyInto p"

definition TargetDetails_DeepCopy :: "addr option \<Rightarrow> ('lib litmus_memory, addr option) act" where
  "TargetDetails_DeepCopy p = copy_ptr as_TargetDetails TargetDetailsCell TargetDetails_DeepCopyInto p"

definition HistoryDetails_DeepCopy :: "addr option \<Rightarrow> ('lib litmus_memory, addr option) act" where
  "HistoryDetails_DeepCopy p = copy_ptr as_HistoryDetails HistoryDetailsCell HistoryDetails_DeepCopyInto p"

definition ChaosResultStatus_DeepCopy :: "addr option \<Rightarrow> ('lib litmus_memory, addr option) act" where
  "ChaosResultStatus_DeepCopy p = copy_ptr as_ChaosResultStatus ChaosResultStatusCell ChaosResultStatus_DeepCopyInto p"

definition ChaosResult_DeepCopy :: "'lib litmus_copy_lib \<Rightarrow> addr option \<Rightarrow> ('lib litmus_memory, addr option) act" where
  "ChaosResult_DeepCopy L p = copy_ptr as_ChaosResult ChaosResultCell (ChaosResult_DeepCopyInto L) p"

definition ChaosResultList_DeepCopy :: "'lib litmus_copy_lib \<Rightarrow> addr option \<Rightarrow> ('lib litmus_memory, addr option) act" where
  "ChaosResultList_DeepCopy L p = copy_ptr as_ChaosResultList ChaosResultListCell (ChaosResultList_DeepCopyInto L) p"

datatype litmus_object =
    ChaosEngineObject addr
  | ChaosEngineListObject addr
  | ChaosExperimentObject addr
  | ChaosExperimentListObject addr
  | ChaosResultObject addr
  | ChaosResultListObject addr

definition ChaosEngine_DeepCopyObject :: "'lib litmus_copy_lib \<Rightarrow> addr option \<Rightarrow> ('lib litmus_memory, litmus_object option) act" where
  "ChaosEngine_DeepCopyObject L p = bindA (ChaosEngine_DeepCopy L p) (\<lambda>c.
     case c of Some a \<Rightarrow> retA (Some (ChaosEngineObject a)) | None \<Rightarrow> retA None)"

definition ChaosEngineList_DeepCopyObject :: "'lib litmus_copy_lib \<Rightarrow> addr option \<Rightarrow> ('lib litmus_memory, litmus_object option) act" where
  "ChaosEngineList_DeepCopyObject L p = bindA (ChaosEngineList_DeepCopy L p) (\<lambda>c.
     case c of Some a \<Rightarrow> retA (Some (ChaosEngineListObject a)) | None \<Rightarrow> retA None)"

definition ChaosExperiment_DeepCopyObject :: "'lib litmus_copy_lib \<Rightarrow> addr option \<Rightarrow> ('lib litmus_memory, litmus_object option) act" where
  "ChaosExperiment_DeepCopyObject L p = bindA (ChaosExperiment_DeepCopy L p) (\<lambda>c.
     case c of Some a \<Rightarrow> retA (Some (ChaosExperimentObject a)) | None \<Rightarrow> retA None)"

definition ChaosExperimentList_DeepCopyObject :: "'lib litmus_copy_lib \<Rightarrow> addr option \<Rightarrow> ('lib litmus_memory, litmus_object option) act" where
  "ChaosExperimentList_DeepCopyObject L p = bindA (ChaosExperimentList_DeepCopy L p) (\<lambda>c.
     case c of Some a \<Rightarrow> retA (Some (ChaosExperimentListObject a)) | None \<Rightarrow> retA None)"

definition ChaosResult_DeepCopyObject :: "'lib litmus_copy_lib \<Rightarrow> addr option \<Rightarrow> ('lib litmus_memory, litmus_object option) act" where
  "ChaosResult_DeepCopyObject L p = bindA (ChaosResult_DeepCopy L p) (\<lambda>c.
     case c of Some a \<Rightarrow> retA (Some (ChaosResultObject a)) | None \<Rightarrow> retA None)"

definition ChaosResultList_DeepCopyObject :: "'lib litmus_copy_lib \<Rightarrow> addr option \<Rightarrow> ('lib litmus_memory, litmus_object option) act" where
  "ChaosResultList_DeepCopyObject L p = bindA (ChaosResultList_DeepCopy L p) (\<lambda>c.
     case c of Some a \<Rightarrow> retA (Some (ChaosResultListObject a)) | None \<Rightarrow> retA None)"

subsection \<open>Every copy is deep\<close>

lemmas litmus_strings = deep_copy_nil [where as = as_LitmusStrings and into = LitmusStringsCell, OF deep_copy_flat litmus_as_cells(1)]

lemmas litmus_maps = deep_copy_nil [where as = as_LitmusMap and into = LitmusMapCell, OF deep_copy_entries litmus_as_cells(2)]

lemma copies_LitmusConfigMap: "deep_copy rep_LitmusConfigMap ConfigMap_DeepCopyInto"
proof -
  show ?thesis
    by (rule deep_copy_struct [OF litmus_maps, where
          plain = "\<lambda>x v. lcmm_Name x = lcm_Name v \<and>
            lcmm_MountPath x = lcm_MountPath v" and
          get = "\<lambda>x. lcmm_Data x" and
          view = "\<lambda>v. lcm_Data v" and
          put = "\<lambda>p x. x\<lparr>lcmm_Data := p\<rparr>"])
      (auto simp: rep_LitmusConfigMap_def ConfigMap_DeepCopyInto_def copy_struct_simps)
qed

lemma copies_ExperimentComponents:
  assumes "litmus_lib_contract L Q"
  shows "deep_copy (rep_ExperimentComponents Q) (ExperimentComponents_DeepCopyInto L)"
proof -
  note lib = litmus_lib_contractD [OF assms]
  note env_copy =
    deep_copy_nil [where as = as_EnvVars and into = EnvVarsCell, OF deep_copy_list [OF lib(3)] litmus_as_cells(31)]
  note configmaps_copy =
    deep_copy_nil [where as = as_LitmusConfigMaps and into = LitmusConfigMapsCell, OF deep_copy_list [OF copies_LitmusConfigMap] litmus_as_cells(32)]
  note secrets_copy =
    deep_copy_nil [where as = as_LitmusSecrets and into = LitmusSecretsCell, OF deep_copy_flat litmus_as_cells(33)]
  note experimentimagepullsecrets_copy =
    deep_copy_nil [where as = as_LocalObjectReferences and into = LocalObjectReferencesCell, OF deep_copy_flat litmus_as_cells(34)]
  note tolerations_copy =
    deep_copy_nil [where as = as_Tolerations and into = TolerationsCell, OF deep_copy_list [OF lib(4)] litmus_as_cells(35)]
  show ?thesis
    by (rule deep_copy_struct [OF deep_copy_pair [OF env_copy deep_copy_pair [OF configmaps_copy deep_copy_pair [OF secrets_copy deep_copy_pair [OF litmus_maps deep_copy_pair [OF experimentimagepullsecrets_copy deep_copy_pair [OF litmus_maps deep_copy_pair [OF lib(5) tolerations_copy]]]]]]], where
          plain = "\<lambda>x v. ecm_ExperimentImage x = ec_ExperimentImage v \<and>
            ecm_StatusCheckTimeouts x = ec_StatusCheckTimeouts v" and
          get = "\<lambda>x. (ecm_ENV x, ecm_ConfigMaps x, ecm_Secrets x, ecm_ExperimentAnnotations x,
            ecm_ExperimentImagePullSecrets x, ecm_NodeSelector x, ecm_Resources x,
            ecm_Tolerations x)" and
          view = "\<lambda>v. (ec_ENV v, ec_ConfigMaps v, ec_Secrets v, ec_ExperimentAnnotations v,
            ec_ExperimentImagePullSecrets v, ec_NodeSelector v, ec_Resources v,
            ec_Tolerations v)" and
          put = "\<lambda>y x. x\<lparr>ecm_ENV := fst y,
            ecm_ConfigMaps := fst (snd y),
            ecm_Secrets := fst (snd (snd y)),
            ecm_ExperimentAnnotations := fst (snd (snd (snd y))),
            ecm_ExperimentImagePullSecrets := fst (snd (snd (snd (snd y)))),
            ecm_NodeSelector := fst (snd (snd (snd (snd (snd y))))),
            ecm_Resources := fst (snd (snd (snd (snd (snd (snd y)))))),
            ecm_Tolerations := snd (snd (snd (snd (snd (snd (snd y))))))\<rparr>"])
      (auto simp: rep_ExperimentComponents_def ExperimentComponents_DeepCopyInto_def copy_struct_simps)
qed

lemma copies_ExperimentAttributes:
  assumes "litmus_lib_contract L Q"
  shows "deep_copy (rep_ExperimentAttributes Q) (ExperimentAttributes_DeepCopyInto L)"
proof -
  note lib = litmus_lib_contractD [OF assms]
  note components_copy = copies_ExperimentComponents [OF assms]
  show ?thesis
    by (rule deep_copy_struct [OF components_copy, where
          plain = "\<lambda>x v. True" and
          get = "\<lambda>x. eam_Components x" and
          view = "\<lambda>v. ea_Components v" and
          put = "\<lambda>p x. x\<lparr>eam_Components := p\<rparr>"])
      (auto simp: rep_ExperimentAttributes_def ExperimentAttributes_DeepCopyInto_def copy_struct_simps)
qed

lemma copies_ExperimentList:
  assumes "litmus_lib_contract L Q"
  shows "deep_copy (rep_ExperimentList Q) (ExperimentList_DeepCopyInto L)"
proof -
  note lib = litmus_lib_contractD [OF assms]
  note spec_copy = copies_ExperimentAttributes [OF assms]
  show ?thesis
    by (rule deep_copy_struct [OF spec_copy, where
          plain = "\<lambda>x v. elm_Name x = el_Name v" and
          get = "\<lambda>x. elm_Spec x" and
          view = "\<lambda>v. el_Spec v" and
          put = "\<lambda>p x. x\<lparr>elm_Spec := p\<rparr>"])
      (auto simp: rep_ExperimentList_def ExperimentList_DeepCopyInto_def copy_struct_simps)
qed

lemma copies_ChaosEngineSpec:
  assumes "litmus_lib_contract L Q"
  shows "deep_copy (rep_ChaosEngineSpec Q) (ChaosEngineSpec_DeepCopyInto L)"
proof -
  note lib = litmus_lib_contractD [OF assms]
  note experiments_copy =
    deep_copy_nil [where as = as_ExperimentLists and into = ExperimentListsCell, OF deep_copy_list [OF copies_ExperimentList [OF assms]] litmus_as_cells(36)]
  show ?thesis
    by (rule deep_copy_struct [OF experiments_copy, where
          plain = "\<lambda>x v. cesm_AppInfo x = ces_AppInfo v \<and>
            cesm_EngineState x = ces_EngineState v" and
          get = "\<lambda>x. cesm_Experiments x" and
          view = "\<lambda>v. ces_Experiments v" and
          put = "\<lambda>p x. x\<lparr>cesm_Experiments := p\<rparr>"])
      (auto simp: rep_ChaosEngineSpec_def ChaosEngineSpec_DeepCopyInto_def copy_struct_simps)
qed

lemma copies_ExperimentStatuses:
  assumes "litmus_lib_contract L Q"
  shows "deep_copy (rep_ExperimentStatuses Q) (ExperimentStatuses_DeepCopyInto L)"
proof -
  note lib = litmus_lib_contractD [OF assms]
  show ?thesis
    by (rule deep_copy_struct [OF lib(9), where
          plain = "\<lambda>x v. estm_Name x = est_Name v \<and>
            estm_Runner x = est_Runner v \<and>
            estm_ExpPod x = est_ExpPod v \<and>
            estm_Status x = est_Status v \<and>
            estm_Verdict x = est_Verdict v" and
          get = "\<lambda>x. estm_LastUpdateTime x" and
          view = "\<lambda>v. est_LastUpdateTime v" and
          put = "\<lambda>p x. x\<lparr>estm_LastUpdateTime := p\<rparr>"])
      (auto simp: rep_ExperimentStatuses_def ExperimentStatuses_DeepCopyInto_def copy_struct_simps)
qed

lemma copies_ChaosEngineStatus:
  assumes "litmus_lib_contract L Q"
  shows "deep_copy (rep_ChaosEngineStatus Q) (ChaosEngineStatus_DeepCopyInto L)"
proof -
  note lib = litmus_lib_contractD [OF assms]
  note experiments_copy =
    deep_copy_nil [where as = as_ExperimentStatusesSlice and into = ExperimentStatusesSliceCell, OF deep_copy_list [OF copies_ExperimentStatuses [OF assms]] litmus_as_cells(37)]
  show ?thesis
    by (rule deep_copy_struct [OF experiments_copy, where
          plain = "\<lambda>x v. cestm_EngineStatus x = cest_EngineStatus v" and
          get = "\<lambda>x. cestm_Experiments x" and
          view = "\<lambda>v. cest_Experiments v" and
          put = "\<lambda>p x. x\<lparr>cestm_Experiments := p\<rparr>"])
      (auto simp: rep_ChaosEngineStatus_def ChaosEngineStatus_DeepCopyInto_def copy_struct_simps)
qed

lemma copies_ChaosEngine:
  assumes "litmus_lib_contract L Q"
  shows "deep_copy (rep_ChaosEngine Q) (ChaosEngine_DeepCopyInto L)"
proof -
  note lib = litmus_lib_contractD [OF assms]
  note spec_copy = copies_ChaosEngineSpec [OF assms]
  note status_copy = copies_ChaosEngineStatus [OF assms]
  show ?thesis
    by (rule deep_copy_struct [OF deep_copy_pair [OF lib(1) deep_copy_pair [OF spec_copy status_copy]], where
          plain = "\<lambda>x v. cem_TypeMeta x = fst v" and
          get = "\<lambda>x. (cem_meta x, cem_Spec x, cem_Status x)" and
          view = "\<lambda>v. (ce_meta (snd v), ce_Spec (snd v), ce_Status (snd v))" and
          put = "\<lambda>y x. x\<lparr>cem_meta := fst y,
            cem_Spec := fst (snd y),
            cem_Status := snd (snd y)\<rparr>"])
      (auto simp: rep_ChaosEngine_def ChaosEngine_DeepCopyInto_def copy_struct_simps)
qed

lemma copies_ChaosEngineList:
  assumes "litmus_lib_contract L Q"
  shows "deep_copy (rep_ChaosEngineList Q) (ChaosEngineList_DeepCopyInto L)"
proof -
  note lib = litmus_lib_contractD [OF assms]
  note items_copy =
    deep_copy_nil [where as = as_ChaosEngines and into = ChaosEnginesCell, OF deep_copy_list [OF copies_ChaosEngine [OF assms]] litmus_as_cells(38)]
  show ?thesis
    by (rule deep_copy_struct [OF deep_copy_pair [OF lib(2) items_copy], where
          plain = "\<lambda>x v. celm_TypeMeta x = fst v" and
          get = "\<lambda>x. (celm_ListMeta x, celm_Items x)" and
          view = "\<lambda>v. (fst (snd v), snd (snd v))" and
          put = "\<lambda>y x. x\<lparr>celm_ListMeta := fst y,
            celm_Items := snd y\<rparr>"])
      (auto simp: rep_ChaosEngineList_def ChaosEngineList_DeepCopyInto_def copy_struct_simps)
qed

lemma copies_LitmusSecurityContext:
  assumes "litmus_lib_contract L Q"
  shows "deep_copy (rep_LitmusSecurityContext Q) (SecurityContext_DeepCopyInto L)"
proof -
  note lib = litmus_lib_contractD [OF assms]
  show ?thesis
    by (rule deep_copy_struct [OF deep_copy_pair [OF lib(7) lib(8)], where
          plain = "\<lambda>x v. True" and
          get = "\<lambda>x. (lscm_PodSecurityContext x, lscm_ContainerSecurityContext x)" and
          view = "\<lambda>v. (lsc_PodSecurityContext v, lsc_ContainerSecurityContext v)" and
          put = "\<lambda>y x. x\<lparr>lscm_PodSecurityContext := fst y,
            lscm_ContainerSecurityContext := snd y\<rparr>"])
      (auto simp: rep_LitmusSecurityContext_def SecurityContext_DeepCopyInto_def copy_struct_simps)
qed

lemma copies_ExperimentDef:
  assumes "litmus_lib_contract L Q"
  shows "deep_copy (rep_ExperimentDef Q) (ExperimentDef_DeepCopyInto L)"
proof -
  note lib = litmus_lib_contractD [OF assms]
  note permissions_copy =
    deep_copy_nil [where as = as_PolicyRules and into = PolicyRulesCell, OF deep_copy_list [OF lib(6)] litmus_as_cells(39)]
  note envlist_copy =
    deep_copy_nil [where as = as_EnvVars and into = EnvVarsCell, OF deep_copy_list [OF lib(3)] litmus_as_cells(31)]
  note configmaps_copy =
    deep_copy_nil [where as = as_LitmusConfigMaps and into = LitmusConfigMapsCell, OF deep_copy_list [OF copies_LitmusConfigMap] litmus_as_cells(32)]
  note secrets_copy =
    deep_copy_nil [where as = as_LitmusSecrets and into = LitmusSecretsCell, OF deep_copy_flat litmus_as_cells(33)]
  note hostfilevolumes_copy =
    deep_copy_nil [where as = as_HostFiles and into = HostFilesCell, OF deep_copy_flat litmus_as_cells(40)]
  note securitycontext_copy = copies_LitmusSecurityContext [OF assms]
  show ?thesis
    by (rule deep_copy_struct [OF deep_copy_pair [OF litmus_maps deep_copy_pair [OF permissions_copy deep_copy_pair [OF envlist_copy deep_copy_pair [OF litmus_strings deep_copy_pair [OF litmus_strings deep_copy_pair [OF configmaps_copy deep_copy_pair [OF secrets_copy deep_copy_pair [OF hostfilevolumes_copy deep_copy_pair [OF litmus_maps securitycontext_copy]]]]]]]]], where
          plain = "\<lambda>x v. xdm_Image x = xd_Image v \<and>
            xdm_ImagePullPolicy x = xd_ImagePullPolicy v \<and>
            xdm_Scope x = xd_Scope v \<and>
            xdm_HostPID x = xd_HostPID v" and
          get = "\<lambda>x. (xdm_Labels x, xdm_Permissions x, xdm_ENVList x, xdm_Command x, xdm_Args x,
            xdm_ConfigMaps x, xdm_Secrets x, xdm_HostFileVolumes x,
            xdm_ExperimentAnnotations x, xdm_SecurityContext x)" and
          view = "\<lambda>v. (xd_Labels v, xd_Permissions v, xd_ENVList v, xd_Command v, xd_Args v,
            xd_ConfigMaps v, xd_Secrets v, xd_HostFileVolumes v,
            xd_ExperimentAnnotations v, xd_SecurityContext v)" and
          put = "\<lambda>y x. x\<lparr>xdm_Labels := fst y,
            xdm_Permissions := fst (snd y),
            xdm_ENVList := fst (snd (snd y)),
            xdm_Command := fst (snd (snd (snd y))),
            xdm_Args := fst (snd (snd (snd (snd y)))),
            xdm_ConfigMaps := fst (snd (snd (snd (snd (snd y))))),
            xdm_Secrets := fst (snd (snd (snd (snd (snd (snd y)))))),
            xdm_HostFileVolumes := fst (snd (snd (snd (snd (snd (snd (snd y))))))),
            xdm_ExperimentAnnotations := fst (snd (snd (snd (snd (snd (snd (snd (snd y)))))))),
            xdm_SecurityContext := snd (snd (snd (snd (snd (snd (snd (snd (snd y))))))))\<rparr>"])
      (auto simp: rep_ExperimentDef_def ExperimentDef_DeepCopyInto_def copy_struct_simps)
qed

lemma copies_ChaosExperimentSpec:
  assumes "litmus_lib_contract L Q"
  shows "deep_copy (rep_ChaosExperimentSpec Q) (ChaosExperimentSpec_DeepCopyInto L)"
proof -
  note lib = litmus_lib_contractD [OF assms]
  note definition_copy = copies_ExperimentDef [OF assms]
  show ?thesis
    by (rule deep_copy_struct [OF definition_copy, where
          plain = "\<lambda>x v. True" and
          get = "\<lambda>x. cxsm_Definition x" and
          view = "\<lambda>v. cxs_Definition v" and
          put = "\<lambda>p x. x\<lparr>cxsm_Definition := p\<rparr>"])
      (auto simp: rep_ChaosExperimentSpec_def ChaosExperimentSpec_DeepCopyInto_def copy_struct_simps)
qed

lemma copies_ChaosExperiment:
  assumes "litmus_lib_contract L Q"
  shows "deep_copy (rep_ChaosExperiment Q) (ChaosExperiment_DeepCopyInto L)"
proof -
  note lib = litmus_lib_contractD [OF assms]
  note spec_copy = copies_ChaosExperimentSpec [OF assms]
  show ?thesis
    by (rule deep_copy_struct [OF deep_copy_pair [OF lib(1) spec_copy], where
          plain = "\<lambda>x v. cxm_TypeMeta x = fst v \<and>
            cxm_Status x = cx_Status (snd v)" and
          get = "\<lambda>x. (cxm_meta x, cxm_Spec x)" and
          view = "\<lambda>v. (cx_meta (snd v), cx_Spec (snd v))" and
          put = "\<lambda>y x. x\<lparr>cxm_meta := fst y,
            cxm_Spec := snd y\<rparr>"])
      (auto simp: rep_ChaosExperiment_def ChaosExperiment_DeepCopyInto_def copy_struct_simps)
qed

lemma copies_ChaosExperimentList:
  assumes "litmus_lib_contract L Q"
  shows "deep_copy (rep_ChaosExperimentList Q) (ChaosExperimentList_DeepCopyInto L)"
proof -
  note lib = litmus_lib_contractD [OF assms]
  note items_copy =
    deep_copy_nil [where as = as_ChaosExperiments and into = ChaosExperimentsCell, OF deep_copy_list [OF copies_ChaosExperiment [OF assms]] litmus_as_cells(41)]
  show ?thesis
    by (rule deep_copy_struct [OF deep_copy_pair [OF lib(2) items_copy], where
          plain = "\<lambda>x v. cxlm_TypeMeta x = fst v" and
          get = "\<lambda>x. (cxlm_ListMeta x, cxlm_Items x)" and
          view = "\<lambda>v. (fst (snd v), snd (snd v))" and
          put = "\<lambda>y x. x\<lparr>cxlm_ListMeta := fst y,
            cxlm_Items := snd y\<rparr>"])
      (auto simp: rep_ChaosExperimentList_def ChaosExperimentList_DeepCopyInto_def copy_struct_simps)
qed

lemma copies_HistoryDetails: "deep_copy rep_HistoryDetails HistoryDetails_DeepCopyInto"
proof -
  note targets_copy =
    deep_copy_nil [where as = as_TargetDetailsSlice and into = TargetDetailsSliceCell, OF deep_copy_flat litmus_as_cells(42)]
  show ?thesis
    by (rule deep_copy_struct [OF targets_copy, where
          plain = "\<lambda>x v. hdm_PassedRuns x = hd_PassedRuns v \<and>
            hdm_FailedRuns x = hd_FailedRuns v \<and>
            hdm_StoppedRuns x = hd_StoppedRuns v" and
          get = "\<lambda>x. hdm_Targets x" and
          view = "\<lambda>v. hd_Targets v" and
          put = "\<lambda>p x. x\<lparr>hdm_Targets := p\<rparr>"])
      (auto simp: rep_HistoryDetails_def HistoryDetails_DeepCopyInto_def copy_struct_simps)
qed

lemma copies_ChaosResultStatus: "deep_copy rep_ChaosResultStatus ChaosResultStatus_DeepCopyInto"
proof -
  note probestatuses_copy =
    deep_copy_nil [where as = as_ProbeStatusesSlice and into = ProbeStatusesSliceCell, OF deep_copy_flat litmus_as_cells(43)]
  show ?thesis
    by (rule deep_copy_struct [OF deep_copy_pair [OF probestatuses_copy copies_HistoryDetails], where
          plain = "\<lambda>x v. crstm_ExperimentStatus x = crst_ExperimentStatus v" and
          get = "\<lambda>x. (crstm_ProbeStatuses x, crstm_History x)" and
          view = "\<lambda>v. (crst_ProbeStatuses v, crst_History v)" and
          put = "\<lambda>y x. x\<lparr>crstm_ProbeStatuses := fst y,
            crstm_History := snd y\<rparr>"])
      (auto simp: rep_ChaosResultStatus_def ChaosResultStatus_DeepCopyInto_def copy_struct_simps)
qed

lemma copies_ChaosResult:
  assumes "litmus_lib_contract L Q"
  shows "deep_copy (rep_ChaosResult Q) (ChaosResult_DeepCopyInto L)"
proof -
  note lib = litmus_lib_contractD [OF assms]
  show ?thesis
    by (rule deep_copy_struct [OF deep_copy_pair [OF lib(1) copies_ChaosResultStatus], where
          plain = "\<lambda>x v. crm_TypeMeta x = fst v \<and>
            crm_Spec x = cr_Spec (snd v)" and
          get = "\<lambda>x. (crm_meta x, crm_Status x)" and
          view = "\<lambda>v. (cr_meta (snd v), cr_Status (snd v))" and
          put = "\<lambda>y x. x\<lparr>crm_meta := fst y,
            crm_Status := snd y\<rparr>"])
      (auto simp: rep_ChaosResult_def ChaosResult_DeepCopyInto_def copy_struct_simps)
qed

lemma copies_ChaosResultList:
  assumes "litmus_lib_contract L Q"
  shows "deep_copy (rep_ChaosResultList Q) (ChaosResultList_DeepCopyInto L)"
proof -
  note lib = litmus_lib_contractD [OF assms]
  note items_copy =
    deep_copy_nil [where as = as_ChaosResults and into = ChaosResultsCell, OF deep_copy_list [OF copies_ChaosResult [OF assms]] litmus_as_cells(44)]
  show ?thesis
    by (rule deep_copy_struct [OF deep_copy_pair [OF lib(2) items_copy], where
          plain = "\<lambda>x v. crlm_TypeMeta x = fst v" and
          get = "\<lambda>x. (crlm_ListMeta x, crlm_Items x)" and
          view = "\<lambda>v. (fst (snd v), snd (snd v))" and
          put = "\<lambda>y x. x\<lparr>crlm_ListMeta := fst y,
            crlm_Items := snd y\<rparr>"])
      (auto simp: rep_ChaosResultList_def ChaosResultList_DeepCopyInto_def copy_struct_simps)
qed

text \<open>Specs of engines without library structs in them do not need a contract of these.\<close>

interpretation history: deep_copy rep_HistoryDetails HistoryDetails_DeepCopyInto
  by (rule copies_HistoryDetails)

interpretation result_status: deep_copy rep_ChaosResultStatus ChaosResultStatus_DeepCopyInto
  by (rule copies_ChaosResultStatus)

text \<open>\<open>DeepCopy\<close> of a pointer, nil or not, and \<open>DeepCopyObject\<close>.\<close>

lemma ChaosEngine_DeepCopy_deep:
  assumes "litmus_lib_contract L Q"
  shows "deep_copy (rep_ptr as_ChaosEngine (rep_ChaosEngine Q)) (ChaosEngine_DeepCopy L)"
  using deep_copy_ptr [where as = as_ChaosEngine and into = ChaosEngineCell, OF copies_ChaosEngine [OF assms]]
  by (simp add: ChaosEngine_DeepCopy_def [abs_def])

lemma ChaosEngineList_DeepCopy_deep:
  assumes "litmus_lib_contract L Q"
  shows "deep_copy (rep_ptr as_ChaosEngineList (rep_ChaosEngineList Q)) (ChaosEngineList_DeepCopy L)"
  using deep_copy_ptr [where as = as_ChaosEngineList and into = ChaosEngineListCell, OF copies_ChaosEngineList [OF assms]]
  by (simp add: ChaosEngineList_DeepCopy_def [abs_def])

lemma ChaosExperiment_DeepCopy_deep:
  assumes "litmus_lib_contract L Q"
  shows "deep_copy (rep_ptr as_ChaosExperiment (rep_ChaosExperiment Q)) (ChaosExperiment_DeepCopy L)"
  using deep_copy_ptr [where as = as_ChaosExperiment and into = ChaosExperimentCell, OF copies_ChaosExperiment [OF assms]]
  by (simp add: ChaosExperiment_DeepCopy_def [abs_def])

lemma ChaosResult_DeepCopy_deep:
  assumes "litmus_lib_contract L Q"
  shows "deep_copy (rep_ptr as_ChaosResult (rep_ChaosResult Q)) (ChaosResult_DeepCopy L)"
  using deep_copy_ptr [where as = as_ChaosResult and into = ChaosResultCell, OF copies_ChaosResult [OF assms]]
  by (simp add: ChaosResult_DeepCopy_def [abs_def])

lemma litmus_object_copy:
  "ChaosEngine_DeepCopy L p m = (Ret q, m') \<Longrightarrow> ChaosEngine_DeepCopyObject L p m = (Ret (map_option ChaosEngineObject q), m')"
  "ChaosEngineList_DeepCopy L p m = (Ret q, m') \<Longrightarrow>
     ChaosEngineList_DeepCopyObject L p m = (Ret (map_option ChaosEngineListObject q), m')"
  "ChaosExperiment_DeepCopy L p m = (Ret q, m') \<Longrightarrow>
     ChaosExperiment_DeepCopyObject L p m = (Ret (map_option ChaosExperimentObject q), m')"
  "ChaosResult_DeepCopy L p m = (Ret q, m') \<Longrightarrow> ChaosResult_DeepCopyObject L p m = (Ret (map_option ChaosResultObject q), m')"
  by (simp_all add: object_of_copy ChaosEngine_DeepCopyObject_def ChaosEngineList_DeepCopyObject_def
      ChaosExperiment_DeepCopyObject_def ChaosResult_DeepCopyObject_def)

text \<open>
  C29: A copy of a ChaosEngine, of a list of ChaosEngines, of a ChaosExperiment or of a ChaosResult as
  \<open>runtime.Object\<close> does not panic, leaves the memory that was there as it is, and gives a pointer that stands
  for the same object, nil for nil; original and copy are independent of each other. So what the policy engine
  writes into a ChaosEngine that the library handed out never reaches the library's own copy of it.
\<close>

theorem litmus_copies_apart:
  assumes "litmus_lib_contract L Q"
    and "rep_ptr as_ChaosEngine (rep_ChaosEngine Q) lo m ep e"
    and "rep_ptr as_ChaosEngineList (rep_ChaosEngineList Q) lo m lp es"
    and "rep_ptr as_ChaosExperiment (rep_ChaosExperiment Q) lo m xp x"
    and "rep_ptr as_ChaosResult (rep_ChaosResult Q) lo m rp r"
  shows "(\<exists>q m'. ChaosEngine_DeepCopyObject L ep m = (Ret (map_option ChaosEngineObject q), m') \<and> extends m m' \<and>
        independent (rep_ptr as_ChaosEngine (rep_ChaosEngine Q)) lo m m' ep q e) \<and>
    (\<exists>q m'. ChaosEngineList_DeepCopyObject L lp m = (Ret (map_option ChaosEngineListObject q), m') \<and> extends m m' \<and>
        independent (rep_ptr as_ChaosEngineList (rep_ChaosEngineList Q)) lo m m' lp q es) \<and>
    (\<exists>q m'. ChaosExperiment_DeepCopyObject L xp m = (Ret (map_option ChaosExperimentObject q), m') \<and> extends m m' \<and>
        independent (rep_ptr as_ChaosExperiment (rep_ChaosExperiment Q)) lo m m' xp q x) \<and>
    (\<exists>q m'. ChaosResult_DeepCopyObject L rp m = (Ret (map_option ChaosResultObject q), m') \<and> extends m m' \<and>
        independent (rep_ptr as_ChaosResult (rep_ChaosResult Q)) lo m m' rp q r)"
  using deep_copy.copy_independent [OF ChaosEngine_DeepCopy_deep [OF assms(1)] assms(2)]
    deep_copy.copy_independent [OF ChaosEngineList_DeepCopy_deep [OF assms(1)] assms(3)]
    deep_copy.copy_independent [OF ChaosExperiment_DeepCopy_deep [OF assms(1)] assms(4)]
    deep_copy.copy_independent [OF ChaosResult_DeepCopy_deep [OF assms(1)] assms(5)]
  by (meson litmus_object_copy)

subsection \<open>An instance\<close>

text \<open>Library structs in memory: metadata whose finalizers are a slice, and structs without pointers.\<close>

datatype sample_struct =
    MetaStruct obj_meta "addr option"
  | EnvStruct EnvVar
  | TimeStruct int
  | DocStruct json

definition sample_ObjectMeta :: "sample_struct \<Rightarrow> (sample_struct litmus_memory, sample_struct) act" where
  "sample_ObjectMeta x = (case x of
     MetaStruct plain p \<Rightarrow> bindA (copy_ptr as_LitmusStrings LitmusStringsCell retA p) (\<lambda>q. retA (MetaStruct plain q))
   | _ \<Rightarrow> retA x)"

definition rep_sample_ObjectMeta where
  "rep_sample_ObjectMeta lo m x v \<longleftrightarrow> (case x of
     MetaStruct plain p \<Rightarrow> plain = v\<lparr>om_finalizers := []\<rparr> \<and>
       rep_slice as_LitmusStrings rep_eq lo m p (om_finalizers v)
   | _ \<Rightarrow> False)"

definition sample_litmus_lib :: "sample_struct litmus_copy_lib" where
  "sample_litmus_lib = \<lparr>ll_ObjectMeta = sample_ObjectMeta, ll_ListMeta = retA, ll_EnvVar = retA, ll_Toleration = retA,
     ll_ResourceRequirements = retA, ll_PolicyRule = retA, ll_PodSecurityContext = retA, ll_SecurityContext = retA,
     ll_Time = retA\<rparr>"

definition rep_doc :: "nat \<Rightarrow> sample_struct litmus_memory \<Rightarrow> sample_struct \<Rightarrow> json \<Rightarrow> bool" where
  "rep_doc lo m x v \<longleftrightarrow> x = DocStruct v"

definition sample_litmus_reps :: "sample_struct litmus_reps" where
  "sample_litmus_reps =
     \<lparr>lr_ObjectMeta = rep_sample_ObjectMeta, lr_ListMeta = rep_doc, lr_EnvVar = (\<lambda>lo m x v. x = EnvStruct v),
      lr_Toleration = rep_doc, lr_ResourceRequirements = rep_doc, lr_PolicyRule = rep_doc,
      lr_PodSecurityContext = rep_doc, lr_SecurityContext = rep_doc, lr_Time = (\<lambda>lo m x v. x = TimeStruct v)\<rparr>"

lemma sample_litmus_lib_ok: "litmus_lib_contract sample_litmus_lib sample_litmus_reps"
proof -
  have flat: "deep_copy rep_doc retA" "deep_copy (\<lambda>lo m x v. x = EnvStruct v) retA"
    "deep_copy (\<lambda>lo m x v. x = TimeStruct v) retA"
    by (unfold_locales; auto simp: rep_doc_def)+
  have meta: "deep_copy rep_sample_ObjectMeta sample_ObjectMeta"
  proof
    fix lo :: nat and m m' :: "sample_struct litmus_memory" and x v lo'
    assume "rep_sample_ObjectMeta lo m x v" "\<And>a. lo \<le> a \<Longrightarrow> a < length m \<Longrightarrow> m' ! a = m ! a" "length m \<le> length m'" "lo' \<le> lo"
    then show "rep_sample_ObjectMeta lo' m' x v"
      by (auto simp: rep_sample_ObjectMeta_def split: sample_struct.splits intro: deep_copy.rep_moves [OF litmus_strings])
  next
    fix lo and m :: "sample_struct litmus_memory" and x v
    assume x: "rep_sample_ObjectMeta lo m x v"
    then obtain plain p where p: "x = MetaStruct plain p" "plain = v\<lparr>om_finalizers := []\<rparr>"
      "rep_slice as_LitmusStrings rep_eq lo m p (om_finalizers v)"
      by (auto simp: rep_sample_ObjectMeta_def split: sample_struct.splits)
    from deep_copy.copies [OF litmus_strings p(3)]
    show "\<exists>y m'. sample_ObjectMeta x m = (Ret y, m') \<and> extends m m' \<and> rep_sample_ObjectMeta (length m) m' y v"
      by (auto simp: sample_ObjectMeta_def rep_sample_ObjectMeta_def p(1,2) bindA_Ret)
  qed
  show ?thesis
    unfolding litmus_lib_contract_def sample_litmus_lib_def sample_litmus_reps_def
    by (simp add: flat meta)
qed

interpretation sample_engine: deep_copy "rep_ChaosEngine sample_litmus_reps" "ChaosEngine_DeepCopyInto sample_litmus_lib"
  by (rule copies_ChaosEngine [OF sample_litmus_lib_ok])

definition sample_litmus_memory :: "sample_struct litmus_memory" where
  "sample_litmus_memory = [
     LitmusStringsCell [''keep''],
     EnvVarsCell [EnvStruct \<lparr>ev_Name = ''CHAOS_MODE'', ev_Value = ''one''\<rparr>],
     ExperimentListsCell [\<lparr>elm_Name = ''pod-delete'', elm_Spec = \<lparr>eam_Components =
       \<lparr>ecm_ENV = Some 1, ecm_ConfigMaps = None, ecm_Secrets = None, ecm_ExperimentAnnotations = None,
        ecm_ExperimentImage = '''', ecm_ExperimentImagePullSecrets = None, ecm_NodeSelector = None,
        ecm_StatusCheckTimeouts = \<lparr>sct_Delay = 0, sct_Timeout = 0\<rparr>, ecm_Resources = DocStruct (JObj []),
        ecm_Tolerations = None\<rparr>\<rparr>\<rparr>],
     ChaosEngineCell \<lparr>cem_TypeMeta = \<lparr>tm_Kind = ''ChaosEngine'', tm_APIVersion = ''v1alpha1''\<rparr>,
       cem_meta = MetaStruct (new_meta ''default'' ''x'') (Some 0),
       cem_Spec = \<lparr>cesm_AppInfo = \<lparr>ap_Appns = ''default'', ap_Applabel = ''app=x'', ap_AppKind = ''deployment''\<rparr>,
         cesm_EngineState = ''active'', cesm_Experiments = Some 2\<rparr>,
       cem_Status = \<lparr>cestm_EngineStatus = '''', cestm_Experiments = None\<rparr>\<rparr>]"

definition sample_copied_engine :: ChaosEngine where
  "sample_copied_engine = \<lparr>ce_meta = (new_meta ''default'' ''x'')\<lparr>om_finalizers := [''keep'']\<rparr>,
     ce_Spec = \<lparr>ces_AppInfo = \<lparr>ap_Appns = ''default'', ap_Applabel = ''app=x'', ap_AppKind = ''deployment''\<rparr>,
       ces_EngineState = ''active'', ces_Experiments = [\<lparr>el_Name = ''pod-delete'', el_Spec =
         \<lparr>ea_Components = zero_components\<lparr>ec_ENV := [\<lparr>ev_Name = ''CHAOS_MODE'', ev_Value = ''one''\<rparr>]\<rparr>\<rparr>\<rparr>]\<rparr>,
     ce_Status = zero_engine_status\<rparr>"

lemmas litmus_rep_defs = rep_ptr_def rep_nil_def rep_cell_def rep_list_def rep_eq_def rep_ChaosEngine_def
  rep_ChaosEngineSpec_def rep_ChaosEngineStatus_def rep_ExperimentList_def rep_ExperimentAttributes_def
  rep_ExperimentComponents_def rep_sample_ObjectMeta_def rep_doc_def

lemma sample_litmus_memory_engine:
  "rep_ptr as_ChaosEngine (rep_ChaosEngine sample_litmus_reps) 0 sample_litmus_memory (Some 3)
     (Some (\<lparr>tm_Kind = ''ChaosEngine'', tm_APIVersion = ''v1alpha1''\<rparr>, sample_copied_engine))"
  by (simp add: litmus_rep_defs sample_litmus_memory_def sample_copied_engine_def sample_litmus_reps_def new_meta_def
      zero_components_def zero_engine_status_def)

theorem litmus_copies_apart_witness:
  "\<exists>q m'. ChaosEngine_DeepCopyObject sample_litmus_lib (Some 3) sample_litmus_memory =
        (Ret (map_option ChaosEngineObject q), m') \<and> extends sample_litmus_memory m' \<and>
      independent (rep_ptr as_ChaosEngine (rep_ChaosEngine sample_litmus_reps)) 0 sample_litmus_memory m' (Some 3) q
        (Some (\<lparr>tm_Kind = ''ChaosEngine'', tm_APIVersion = ''v1alpha1''\<rparr>, sample_copied_engine))"
proof -
  have "rep_ptr as_ChaosEngineList (rep_ChaosEngineList sample_litmus_reps) 0 sample_litmus_memory None None"
    "rep_ptr as_ChaosExperiment (rep_ChaosExperiment sample_litmus_reps) 0 sample_litmus_memory None None"
    "rep_ptr as_ChaosResult (rep_ChaosResult sample_litmus_reps) 0 sample_litmus_memory None None"
    by (simp_all add: rep_ptr_def)
  from litmus_copies_apart [OF sample_litmus_lib_ok sample_litmus_memory_engine this]
  show ?thesis by blast
qed

end
