(* ===== verification/Spec2Isabelle.thy ===== *)
theory Spec2Isabelle
  imports Progress EngineProperties ManagerProcess SchemeSetup Rbac DeepCopy LitmusCopy
begin

text \<open>
  \<^bold>\<open>Eirenyx\<close>, a Kubernetes operator in Go, as definitions of HOL and theorems about them.

  \<^bold>\<open>The program.\<close> Three controllers reconcile three kinds of objects. The tool controller installs
  the security tools (Trivy, Falco, Litmus) that \<open>Tool\<close> objects ask for, through Helm. The policy
  controller turns a \<open>Policy\<close> into workloads of the tool of its type (scan jobs, a config map with rules,
  chaos engines) and writes a \<open>PolicyReport\<close> for it. The report controller completes the report from
  what the workloads did. Each reconcile reads an object by its key, acts through clients, and returns
  whether it wants to be called again. \<open>cmd/main.go\<close> starts the process.

  \<^bold>\<open>How Go becomes HOL\<close> (theory \<open>Prelude\<close>). A Go function with effects is an action \<open>('w, 'a) act\<close>:
  from a world to a result and a world. The result is a value (\<open>Ret\<close>), a returned error (\<open>Fail\<close>) or a
  run-time panic (\<open>Panic\<close>: a nil pointer that is dereferenced). \<open>bindA\<close> is \<open>if err != nil { return err }\<close>,
  \<open>tryA\<close> an explicit branch on the error, \<open>foldA\<close> and \<open>forA\<close> are loops with an early return, \<open>callA\<close> a call
  on a client. The world \<open>'w\<close> is a type variable: nothing is known of it but what the contracts say.
  Pointers are options, nil maps are options of maps, \<open>int32\<close> is a 32-bit word, JSON documents are trees.
  \<open>keeps g m\<close> says that \<open>m\<close> leaves the observation \<open>g\<close> as it is, \<open>moves\<close> that it moves it along a preorder,
  \<open>preserves I m\<close> that it preserves an invariant, \<open>no_panic m\<close> that it does not panic, \<open>returns m\<close> (theory
  \<open>Returns\<close>) that it ends with a value; the collections \<open>keeps_intros\<close>, \<open>preserves_intros\<close>, \<open>safe_intros\<close>,
  \<open>return_intros\<close> and \<open>act_simps\<close> carry these proofs.

  \<^bold>\<open>What is outside\<close> is an argument of the definitions, and what is assumed of it a named contract.
  \<open>ApiClient\<close>: the API server through \<open>client.Client\<close> (\<open>api_contract\<close>: reads, writes, status and patch
  subresources, finalizers, rejected and lost requests), the helpers of \<open>controllerutil\<close>, \<open>apierrors\<close> and
  \<open>util/json\<close> (\<open>util_contract\<close>, with \<open>json_codec\<close>), and what Go leaves open - map order, random numbers, clock (\<open>runtime_contract\<close>).
  \<open>K8sClient\<close>: the clientset (\<open>namespace_contract\<close>). \<open>HelmManager\<close>: the Helm library
  (\<open>helm_contract H rels lost\<close>). There \<open>rels\<close> is the set of releases and \<open>lost\<close> a history: Helm answers an
  uninstallation by \<open>release: not found\<close> only when there is no such release, but by \<open>Release not loaded\<close> whenever
  it could not read the release, which may still be there; such an answer adds the release to \<open>lost\<close>, and nothing
  else does. The code takes both for success, so the properties of the tool controller name that exception.
  \<open>MemCluster\<close> and \<open>SampleCluster\<close> hold a cluster in memory that satisfies all of them; the witnesses run
  the operator's code on it. What the progress properties assume beyond that is that requests which the state
  permits succeed: \<open>healthy_api\<close> and \<open>healthy_util\<close> (\<open>HealthyApi\<close>), \<open>healthy_clientset\<close>, \<open>healthy_helm\<close>.
  The contracts describe a client without another writer during one reconcile; between reconciles anybody may write (theory \<open>Operator\<close>).

  \<^bold>\<open>Theories and sources\<close>, in the order of the code.
  \<^item> \<open>GoJson\<close>, \<open>GoUtf8\<close>, \<open>JsonDecode\<close>, \<open>GoJsonText\<close>, \<open>JsonEncode\<close>: \<open>encoding/json\<close> as far as it is used:
    struct tags, UTF-8 and its replacement rune, \<open>Unmarshal\<close> into a map (a number beyond a \<open>float64\<close> is
    an error; other numbers keep their literal), reading text with fuel (twice the length of the text
    plus two, shown to be enough for every text), and \<open>Marshal\<close>, whose text reads back as the document.
  \<^item> \<open>KubeTypes\<close>, \<open>EirenyxTypes\<close> (\<open>api/v1alpha1\<close>), \<open>LitmusTypes\<close> (\<open>api/litmus\<close>): the data.
  \<^item> \<open>GoMemory\<close>, \<open>ApiMemory\<close>, \<open>DeepCopy\<close>, \<open>LitmusMemory\<close>, \<open>LitmusCopy\<close>: the files \<open>zz_generated.deepcopy.go\<close> of
    both packages over an explicit memory, with the locale \<open>deep_copy\<close>. Everywhere else objects are values; what is shown here - a deep copy
    is equal to its original and independent of it - is why \<open>tool.DeepCopy()\<close> may be the Tool itself there.
  \<^item> \<open>StringUtils\<close>: \<open>internal/utils/string_utils.go\<close>.
  \<^item> \<open>PolicyEngine\<close>, \<open>TrivyEngine\<close>, \<open>FalcoEngine\<close>, \<open>LitmusEngine\<close>: \<open>internal/policy\<close>. The Go interface
    \<open>Engine\<close> is a record of its methods; what the policy controller relies on is the locale
    \<open>policy_engine\<close>, interpreted by each engine, and the locale \<open>live_engine\<close>, which extends it by what
    an engine gets done when the API server answers. What is left of a policy is told in four predicates per
    engine: \<open>active\<close> (a workload - scan job, config map, chaos engine - or a report is there and not being
    deleted), \<open>released\<close> (what every cleanup that succeeds achieves, relative to the cluster it started in),
    \<open>cleaned\<close> (what it achieves when the API server answers) and \<open>leftover\<close> (what \<open>released\<close> allows to stay
    \<open>active\<close>: the reports of Trivy, a config map of Falco that could not be read).
  \<^item> \<open>K8sClient\<close>, \<open>HelmManager\<close>: \<open>internal/client\<close>.
  \<^item> \<open>ToolService\<close>, \<open>HelmTools\<close>: \<open>internal/tools\<close>, with the locales \<open>tool_service\<close> and \<open>live_service\<close>
    and three interpretations of each.
  \<^item> \<open>ReportInvariant\<close>, \<open>ReportHandler\<close>, \<open>TrivyJson\<close>, \<open>TrivyReport\<close>, \<open>PodDetails\<close>, \<open>FalcoReport\<close>,
    \<open>LitmusReport\<close>: \<open>internal/report\<close>, with the locale \<open>report_handler\<close> and three interpretations.
  \<^item> \<open>Factory\<close>, \<open>ControllerResult\<close>, \<open>PolicyController\<close>, \<open>ReportController\<close>, \<open>ToolController\<close>:
    \<open>internal/controller\<close>. Each \<open>Reconcile\<close> is split at its early returns; its lemma \<open>..._Reconcile_cases\<close>
    lists the ways a run can go, with what each way leaves of the cluster.
  \<^item> \<open>Life\<close>, \<open>LiveObjects\<close>, \<open>PolicyLife\<close>: the abstract life of what is deployed for an object, which objects
    live, and the locale \<open>lasting_engine\<close> (every engine interprets it) over which runs of the policy controller
    refine that life.
  \<^item> \<open>ManagerProcess\<close>: \<open>cmd/main.go\<close> and \<open>SetupWithManager\<close>: flags, server options, start.
  \<^item> \<open>SchemeSetup\<close>: the registration of the types (\<open>groupversion_info.go\<close>, \<open>litmus.go\<close>, the \<open>init\<close> functions).
  \<^item> \<open>Rbac\<close>: the markers of \<open>internal/controller/rbac.go\<close> as a table of rules, and clients that log what they ask for.
  \<^item> \<open>EngineProperties\<close>: what the engines promise, told apart from how they are written.
  \<^item> \<open>Operator\<close>: the controllers together.
  \<^item> \<open>Progress\<close>: what the controllers get done when everything they call answers.

  \<^bold>\<open>What is shown.\<close> Of each controller: objects keep the operator's finalizer until their cleanup is done,
  and nothing is made for an object without it; what may outlive the finalizer is named (the reports of a Trivy
  policy, a Falco config map and a Helm release that could not be read), and for the last two a theorem of
  \<open>Progress\<close> shows that it happens; a run that ends well has reached the desired state;
  errors are retried; a run touches nothing of others; when a panic is possible and when not. Of the
  engines and handlers: which policies are accepted, what workloads a policy has after a run, that a
  Trivy report counts the findings of all scans and waits for them, how reports are reset. Of Helm:
  how values are merged. Of the system (\<open>operator_step\<close>: any interleaving of reconciles and steps of
  others): no release is ever left without an owner that will have it removed, unless it is \<open>lost\<close>, report statuses keep
  their type invariant, every run of the tool controller and every run of the policy controller
  refines the abstract life of what it deploys (\<open>life_step\<close>), and a policy's run followed by a report's run gives the completed report. Of progress: one run takes a Tool
  where its spec asks, at most three runs a policy, and all of them return. Of the process: it makes its calls
  in order, stops at the first that fails, and its exit status says so. Of the permissions: the
  role that the markers describe grants every request of the controllers.
  Some theorems say what the code does where a reader would expect otherwise: reports of Falco and
  Litmus are never reset, Litmus reports always pass, Trivy reports count what the logs of the scan jobs
  say and never a passed check, a release or a config map that cannot be read is abandoned without an error,
  the cleanup of a policy without the section of its type panics, selector policies of Falco panic in the report
  handler, a policy cannot be deleted once its Tool is gone, names of scan jobs can collide.

  \<^bold>\<open>Not modelled.\<close> The kubebuilder comments on types and fields (validation, printed columns); what Helm
  itself asks of the API server; log lines and contexts; the work queue of controller-runtime (which requeue happens when); caches: the contracts are those of
  a client that reads what it wrote; in Litmus objects the structs of \<open>corev1\<close> and \<open>rbacv1\<close> that the operator never
  fills in are opaque documents.
\<close>

end
